(* ===== verification/Prelude.thy ===== *)
theory Prelude
  imports Main "HOL-Library.Word" "HOL-Library.Sublist"
begin

unbundle bit_operations_syntax

text \<open>
  Shared vocabulary of the development: the machine types of the C++ sources, the exceptions the
  server throws (\<open>src/errors.h\<close>, \<open>src/streams.h\<close>), readers over the unread bytes of a stream, the
  little-endian image of an integer, and the two interfaces every wire format of the server is
  proved against: \<open>codec\<close> (what was written is read back) and \<open>exact_codec\<close> (in addition, what was
  read is exactly what would be written).
\<close>

section \<open>Types\<close>

type_synonym byte = "8 word"
type_synonym u16 = "16 word"
type_synonym u32 = "32 word"
type_synonym u64 = "64 word"
type_synonym bytes = "byte list"

text \<open>
  A \<open>float\<close> and a \<open>double\<close> are their IEEE 754 bit patterns; an \<open>ST::string\<close> is the UTF-8 octets
  that \<open>c_str()\<close> and \<open>to_utf8()\<close> give.
\<close>

type_synonym f32 = "32 word"
type_synonym f64 = "64 word"
type_synonym st_string = bytes

text \<open>
  The ways a call can end without a value: the exceptions of the sources and of the libraries,
  \<open>DS_ASSERT\<close>, which ends the process, an access outside an array or through a null pointer
  (\<open>UndefinedBehaviour\<close>), and a recursion that was cut off (\<open>NoFuel\<close>).
\<close>

datatype ds_error =
    EofException
  | FileIOException string
  | MalformedData
  | AssertionFailure
  | InvalidConnectionHeader
  | SockHup
  | PacketSizeOutOfBounds
  | FactoryException
  | UnicodeError
  | SystemError
  | UndefinedBehaviour
  | NoFuel

section \<open>Readers\<close>

text \<open>
  A reader maps the unread bytes of a stream to an exception, or to a value and the bytes still
  unread.
\<close>

type_synonym 'a rd = "bytes \<Rightarrow> ds_error + ('a \<times> bytes)"

definition rret :: "'a \<Rightarrow> 'a rd" where
  "rret x bs = Inr (x, bs)"

definition rfail :: "ds_error \<Rightarrow> 'a rd" where
  "rfail e bs = Inl e"

definition rbind :: "'a rd \<Rightarrow> ('a \<Rightarrow> 'b rd) \<Rightarrow> 'b rd" where
  "rbind p f bs = (case p bs of Inl e \<Rightarrow> Inl e | Inr (x, bs') \<Rightarrow> f x bs')"

text \<open>\<open>for (i = 0; i < n; ++i) xs[i] = read()\<close>.\<close>

primrec rcount :: "nat \<Rightarrow> 'a rd \<Rightarrow> 'a list rd" where
  "rcount 0 p = rret []"
| "rcount (Suc n) p = rbind p (\<lambda>x. rbind (rcount n p) (\<lambda>xs. rret (x # xs)))"

named_theorems rd_simps \<open>how readers run on what the matching writers wrote\<close>
named_theorems suffix_intros \<open>readers only ever drop a prefix of their input\<close>

lemma rret_app [simp, rd_simps]: "rret x bs = Inr (x, bs)"
  by (simp add: rret_def)

lemma rfail_app [simp, rd_simps]: "rfail e bs = Inl e"
  by (simp add: rfail_def)

lemma rbind_Inr [simp, rd_simps]: "p bs = Inr (x, bs') \<Longrightarrow> rbind p f bs = f x bs'"
  by (simp add: rbind_def)

lemma rbind_Inl [simp, rd_simps]: "p bs = Inl e \<Longrightarrow> rbind p f bs = Inl e"
  by (simp add: rbind_def)

lemma rbind_assoc: "rbind (rbind p f) g = rbind p (\<lambda>x. rbind (f x) g)"
  by (rule ext) (simp add: rbind_def split: sum.splits prod.splits)

lemma rbind_rret [simp]: "rbind (rret x) f = f x"
  by (rule ext) simp

lemma rbind_eq_Inr:
  "rbind p f bs = Inr (y, cs) \<longleftrightarrow> (\<exists>x bs'. p bs = Inr (x, bs') \<and> f x bs' = Inr (y, cs))"
  by (auto simp: rbind_def split: sum.splits)

lemma rcount_length: "rcount n p bs = Inr (xs, bs') \<Longrightarrow> length xs = n"
  by (induction n arbitrary: bs xs) (auto simp: rbind_eq_Inr)

lemma list_all_True [simp]: "list_all (\<lambda>_. True) xs"
  by (simp add: list_all_iff)

definition reads_prefix :: "'a rd \<Rightarrow> bool" where
  "reads_prefix p \<longleftrightarrow> (\<forall>bs x bs'. p bs = Inr (x, bs') \<longrightarrow> suffix bs' bs)"

lemma reads_prefixD: "reads_prefix p \<Longrightarrow> p bs = Inr (x, bs') \<Longrightarrow> suffix bs' bs"
  unfolding reads_prefix_def by blast

lemma reads_prefix_rret [suffix_intros]: "reads_prefix (rret x)"
  by (simp add: reads_prefix_def)

lemma reads_prefix_rfail [suffix_intros]: "reads_prefix (rfail e)"
  by (simp add: reads_prefix_def)

lemma reads_prefix_rbind [suffix_intros]:
  "reads_prefix p \<Longrightarrow> (\<And>x. reads_prefix (f x)) \<Longrightarrow> reads_prefix (rbind p f)"
  unfolding reads_prefix_def rbind_eq_Inr by (meson suffix_order.order_trans)

lemma reads_prefix_if [suffix_intros]:
  "reads_prefix p \<Longrightarrow> reads_prefix q \<Longrightarrow> reads_prefix (if b then p else q)"
  by simp

lemma reads_prefix_rcount [suffix_intros]: "reads_prefix p \<Longrightarrow> reads_prefix (rcount n p)"
  by (induction n) (auto intro!: suffix_intros)

section \<open>Writers that can fail\<close>

text \<open>Most writers only produce bytes; some throw. They are run one after the other.\<close>

type_synonym wres = "ds_error + bytes"

fun wconcat :: "wres list \<Rightarrow> wres" where
  "wconcat [] = Inr []"
| "wconcat (w # ws) =
     (case w of Inl e \<Rightarrow> Inl e
      | Inr b \<Rightarrow> (case wconcat ws of Inl e \<Rightarrow> Inl e | Inr bs \<Rightarrow> Inr (b @ bs)))"

definition wif :: "ds_error + bool \<Rightarrow> wres \<Rightarrow> wres" where
  "wif c w = (case c of Inl e \<Rightarrow> Inl e | Inr b \<Rightarrow> if b then w else Inr [])"

lemma wif_simps [simp]: "wif (Inr True) w = w" "wif (Inr False) w = Inr []" "wif (Inl e) w = Inl e"
  by (simp_all add: wif_def)

text \<open>A reader that runs a computation which may fail without touching the stream.\<close>

definition rlift :: "ds_error + 'a \<Rightarrow> 'a rd" where
  "rlift r bs = (case r of Inl e \<Rightarrow> Inl e | Inr x \<Rightarrow> Inr (x, bs))"

lemma rlift_simps [simp, rd_simps]: "rlift (Inr x) bs = Inr (x, bs)" "rlift (Inl e) bs = Inl e"
  by (simp_all add: rlift_def)

lemma reads_prefix_rlift [suffix_intros]: "reads_prefix (rlift r)"
  by (cases r) (simp_all add: reads_prefix_def)

text \<open>
  The contract between a writer that may throw and a reader: the writer succeeds, and the reader
  takes exactly its bytes to the value, whatever follows. It composes along the sequence of writes.
\<close>

definition reads_back :: "wres \<Rightarrow> 'a rd \<Rightarrow> 'a \<Rightarrow> bool" where
  "reads_back w p x \<longleftrightarrow> (\<exists>b. w = Inr b \<and> (\<forall>bs. p (b @ bs) = Inr (x, bs)))"

named_theorems rb_intros \<open>composition of reads_back\<close>

lemma reads_back_rret [simp]: "reads_back (Inr []) (rret x) y \<longleftrightarrow> x = y"
  by (simp add: reads_back_def)

lemma reads_back_Nil [rb_intros]: "x = y \<Longrightarrow> reads_back (wconcat []) (rret x) y"
  by (simp add: reads_back_def)

lemma reads_back_Cons [rb_intros]:
  assumes "reads_back w p x" and "reads_back (wconcat ws) (f x) y"
  shows "reads_back (wconcat (w # ws)) (rbind p f) y"
proof -
  obtain b c where "w = Inr b" "\<forall>bs. p (b @ bs) = Inr (x, bs)" "wconcat ws = Inr c"
    "\<forall>bs. f x (c @ bs) = Inr (y, bs)"
    using assms unfolding reads_back_def by blast
  then show ?thesis unfolding reads_back_def by (intro exI [of _ "b @ c"]) simp
qed

lemma reads_back_last: "reads_back w p x \<Longrightarrow> reads_back (wconcat [w]) p x"
  unfolding reads_back_def by auto

lemma reads_back_rbind:
  assumes "reads_back w p x" and "f x = rret y"
  shows "reads_back w (rbind p f) y"
  using assms unfolding reads_back_def by auto

lemma reads_back_rlift [rb_intros]:
  "r = Inr x \<Longrightarrow> reads_back w (f x) y \<Longrightarrow> reads_back w (rbind (rlift r) f) y"
  unfolding reads_back_def by auto

lemma reads_back_if:
  "(c \<Longrightarrow> reads_back w p x) \<Longrightarrow> (\<not> c \<Longrightarrow> x = d) \<Longrightarrow>
   reads_back (if c then w else Inr []) (if c then p else rret d) x"
  unfolding reads_back_def by auto

lemma reads_back_opt:
  assumes "c \<Longrightarrow> reads_back w p x" and "\<not> c \<Longrightarrow> x = d" and "reads_back (wconcat ws) (f x) y"
  shows "reads_back (wconcat ((if c then w else Inr []) # ws)) (rbind (if c then p else rret d) f) y"
  using assms by (intro reads_back_Cons reads_back_if)

text \<open>
  The same for a record of fields some of which are sent only under a condition; the rest of the
  record is the first premise, so that the fields can be taken in turn.
\<close>

lemma rb_field:
  "reads_back (Inr b) (f x) y \<Longrightarrow> reads_back (Inr a) p x \<Longrightarrow> reads_back (Inr (a @ b)) (rbind p f) y"
  unfolding reads_back_def by auto

lemma rb_field_last:
  "reads_back (Inr []) (f x) y \<Longrightarrow> reads_back (Inr a) p x \<Longrightarrow> reads_back (Inr a) (rbind p f) y"
  unfolding reads_back_def by auto

lemma rb_opt:
  assumes "reads_back (Inr b) (f x) y" and "c \<Longrightarrow> reads_back (Inr a) p x" and "\<not> c \<Longrightarrow> x = d"
  shows "reads_back (Inr ((if c then a else []) @ b)) (rbind (if c then p else rret d) f) y"
  using assms unfolding reads_back_def by auto

lemma rb_opt_last:
  assumes "reads_back (Inr []) (f x) y" and "c \<Longrightarrow> reads_back (Inr a) p x" and "\<not> c \<Longrightarrow> x = d"
  shows "reads_back (Inr (if c then a else [])) (rbind (if c then p else rret d) f) y"
  using assms unfolding reads_back_def by auto

lemma reads_back_list:
  assumes "\<And>x. x \<in> set xs \<Longrightarrow> reads_back (w x) p x"
  shows "reads_back (wconcat (map w xs)) (rcount (length xs) p) xs"
  using assms
proof (induction xs)
  case (Cons x xs)
  have "reads_back (wconcat (map w xs)) (rbind (rcount (length xs) p) (\<lambda>ys. rret (x # ys))) (x # xs)"
    by (rule reads_back_rbind [OF Cons.IH]) (use Cons.prems in auto)
  then have "reads_back (wconcat (w x # map w xs))
      (rbind p (\<lambda>x. rbind (rcount (length xs) p) (\<lambda>ys. rret (x # ys)))) (x # xs)"
    using Cons.prems [of x] by (intro reads_back_Cons) simp_all
  then show ?case by (simp del: wconcat.simps)
qed (simp add: reads_back_def)

section \<open>Little-endian images\<close>

definition le_bytes :: "nat \<Rightarrow> 'a::len word \<Rightarrow> bytes" where
  "le_bytes n w = map (\<lambda>i. ucast (drop_bit (8 * i) w)) [0..<n]"

primrec le_word :: "bytes \<Rightarrow> 'a::len word" where
  "le_word [] = 0"
| "le_word (b # bs) = ucast b OR push_bit 8 (le_word bs)"

lemma length_le_bytes [simp]: "length (le_bytes n w) = n"
  by (simp add: le_bytes_def)

lemma le_bytes_Suc: "le_bytes (Suc n) w = ucast w # le_bytes n (drop_bit 8 w)"
  by (rule nth_equalityI) (auto simp: le_bytes_def nth_Cons drop_bit_drop_bit add.commute simp del: upt_Suc split: nat.split)

lemma bit_le_word_le_bytes:
  "bit (le_word (le_bytes n w) :: 'a::len word) i \<longleftrightarrow> i < 8 * n \<and> bit (w :: 'a word) i"
proof (induction n arbitrary: w i)
  case 0
  show ?case by (simp add: le_bytes_def)
next
  case (Suc n)
  show ?case
    by (auto simp: le_bytes_Suc bit_or_iff bit_push_bit_iff Suc.IH bit_ucast_iff bit_drop_bit_eq
        dest: bit_imp_le_length)
qed

lemma le_word_le_bytes: "LENGTH('a) \<le> 8 * n \<Longrightarrow> le_word (le_bytes n w) = (w :: 'a::len word)"
  by (rule bit_word_eqI) (auto simp: bit_le_word_le_bytes)

lemma le_word_le_bytes_take_bit: "le_word (le_bytes n w) = (take_bit (8 * n) w :: 'a::len word)"
  by (rule bit_word_eqI) (auto simp: bit_le_word_le_bytes bit_take_bit_iff)

lemma le_bytes_le_word:
  "length bs = n \<Longrightarrow> 8 * n \<le> LENGTH('a) \<Longrightarrow> le_bytes n (le_word bs :: 'a::len word) = bs"
proof (induction bs arbitrary: n)
  case Nil
  then show ?case by (simp add: le_bytes_def)
next
  case (Cons b bs)
  then obtain m where n: "n = Suc m" "length bs = m" by (cases n) auto
  have hd: "ucast (ucast b OR push_bit 8 (le_word bs) :: 'a word) = b"
    using Cons.prems n by (intro bit_word_eqI) (auto simp: bit_ucast_iff bit_or_iff bit_push_bit_iff)
  have tl: "le_bytes m (drop_bit 8 (ucast b OR push_bit 8 (le_word bs)) :: 'a word) = le_bytes m (le_word bs :: 'a word)"
    unfolding le_bytes_def
  proof (rule map_cong [OF refl])
    fix i assume "i \<in> set [0..<m]"
    then show "(ucast (drop_bit (8 * i) (drop_bit 8 (ucast b OR push_bit 8 (le_word bs)) :: 'a word)) :: byte)
        = ucast (drop_bit (8 * i) (le_word bs :: 'a word))"
      using Cons.prems n
      by (intro bit_word_eqI) (auto simp: bit_ucast_iff bit_or_iff bit_push_bit_iff bit_drop_bit_eq dest: bit_imp_le_length)
  qed
  show ?case using Cons.IH [of m] Cons.prems n hd tl by (simp add: le_bytes_Suc)
qed

section \<open>The interfaces of a wire format\<close>

text \<open>
  A writer, a reader and the values the writer can express: reading what was written gives the
  value back and leaves the following bytes unread.
\<close>

locale codec =
  fixes enc :: "'a \<Rightarrow> bytes"
    and dec :: "'a rd"
    and wf :: "'a \<Rightarrow> bool"
  assumes dec_enc: "wf x \<Longrightarrow> dec (enc x @ bs) = Inr (x, bs)"
begin

lemma dec_enc_Nil: "wf x \<Longrightarrow> dec (enc x) = Inr (x, [])"
  using dec_enc [of x "[]"] by simp

lemma bind_enc: "wf x \<Longrightarrow> rbind dec f (enc x @ bs) = f x bs"
  by (simp add: dec_enc)

lemma reads_back_enc: "wf x \<Longrightarrow> reads_back (Inr (enc x)) dec x"
  by (simp add: reads_back_def dec_enc)

lemma enc_unambiguous:
  assumes "wf x" and "wf y" and "enc x @ bs = enc y @ cs"
  shows "x = y \<and> bs = cs"
proof -
  have "Inr (x, bs) = dec (enc x @ bs)" using assms(1) by (rule dec_enc [symmetric])
  also have "\<dots> = dec (enc y @ cs)" by (rule arg_cong [OF assms(3)])
  also have "\<dots> = Inr (y, cs)" using assms(2) by (rule dec_enc)
  finally show ?thesis by simp
qed

lemma enc_inj_on: "inj_on enc {x. wf x}"
proof (rule inj_onI)
  fix x y assume "x \<in> {x. wf x}" "y \<in> {x. wf x}" "enc x = enc y"
  then show "x = y" using enc_unambiguous [of x y "[]" "[]"] by simp
qed

lemma dec_enc_list:
  "list_all wf xs \<Longrightarrow> rcount (length xs) dec (concat (map enc xs) @ bs) = Inr (xs, bs)"
  by (induction xs) (simp_all add: dec_enc)

end

lemma codecI: "(\<And>x. ok x \<Longrightarrow> reads_back (Inr (e x)) d x) \<Longrightarrow> codec e d ok"
  by (simp add: codec_def reads_back_def)

text \<open>The reader accepts nothing but what the writer writes.\<close>

locale exact_codec = codec +
  assumes enc_dec: "dec bs = Inr (x, bs') \<Longrightarrow> wf x \<and> bs = enc x @ bs'"
begin

lemma dec_iff: "dec bs = Inr (x, bs') \<longleftrightarrow> wf x \<and> bs = enc x @ bs'"
  using dec_enc enc_dec by blast

lemma dec_suffix: "reads_prefix dec"
  unfolding reads_prefix_def suffix_def by (blast dest: enc_dec)

lemma list_enc_dec:
  "rcount n dec bs = Inr (xs, bs') \<Longrightarrow> length xs = n \<and> list_all wf xs \<and> bs = concat (map enc xs) @ bs'"
proof (induction n arbitrary: bs xs)
  case 0
  then show ?case by simp
next
  case (Suc n)
  then obtain x cs ys where "dec bs = Inr (x, cs)" "rcount n dec cs = Inr (ys, bs')" "xs = x # ys"
    by (auto simp: rbind_eq_Inr)
  with Suc.IH [of cs ys] enc_dec [of bs x cs] show ?case by auto
qed

end

text \<open>A format whose writer can throw.\<close>

locale partial_codec =
  fixes wr :: "'a \<Rightarrow> wres"
    and dec :: "'a rd"
    and wf :: "'a \<Rightarrow> bool"
  assumes wr_dec: "wf x \<Longrightarrow> \<exists>b. wr x = Inr b \<and> (\<forall>bs. dec (b @ bs) = Inr (x, bs))"
begin

lemma wr_dec_list:
  "list_all wf xs \<Longrightarrow> \<exists>b. wconcat (map wr xs) = Inr b \<and> (\<forall>bs. rcount (length xs) dec (b @ bs) = Inr (xs, bs))"
proof (induction xs)
  case (Cons x xs)
  then obtain b c where "wr x = Inr b" "\<forall>bs. dec (b @ bs) = Inr (x, bs)"
    "wconcat (map wr xs) = Inr c" "\<forall>bs. rcount (length xs) dec (c @ bs) = Inr (xs, bs)"
    using wr_dec [of x] by auto
  then show ?case by (intro exI [of _ "b @ c"]) simp
qed simp

end

text \<open>A writer that never throws is a special case.\<close>

sublocale codec \<subseteq> total: partial_codec "\<lambda>x. Inr (enc x)" dec wf
  by unfold_locales (simp add: dec_enc)

end
