(* ===== verification/Streams.thy ===== *)
theory Streams
  imports Prelude
begin

unbundle bit_operations_syntax

text \<open>
  The byte streams of \<open>src/streams.h\<close> and \<open>src/streams.cpp\<close>: the typed and string operations of
  \<open>DS::Stream\<close> over the unread bytes of any stream, the RAM streams \<open>BufferStream\<close> and \<open>BlobStream\<close>
  as state machines over their buffer and position, and the interface through which the typed
  operations reach them.
\<close>

section \<open>DS::Stream\<close>

subsection \<open>Integers\<close>

text \<open>\<open>Stream::read<T>\<close> and \<open>Stream::write<T>\<close> for a \<open>T\<close> of \<open>n\<close> bytes on a little-endian host.\<close>

definition Stream_read :: "nat \<Rightarrow> 'a::len word rd" where
  "Stream_read n bs =
     (if length (take n bs) \<noteq> n then Inl EofException
      else Inr (le_word (take n bs), drop n bs))"

definition Stream_write :: "nat \<Rightarrow> 'a::len word \<Rightarrow> bytes" where
  "Stream_write n w = le_bytes n w"

definition read_u8 :: "byte rd" where "read_u8 = Stream_read 1"
definition read_u16 :: "u16 rd" where "read_u16 = Stream_read 2"
definition read_u32 :: "u32 rd" where "read_u32 = Stream_read 4"
definition read_u64 :: "u64 rd" where "read_u64 = Stream_read 8"
definition write_u8 :: "byte \<Rightarrow> bytes" where "write_u8 = Stream_write 1"
definition write_u16 :: "u16 \<Rightarrow> bytes" where "write_u16 = Stream_write 2"
definition write_u32 :: "u32 \<Rightarrow> bytes" where "write_u32 = Stream_write 4"
definition write_u64 :: "u64 \<Rightarrow> bytes" where "write_u64 = Stream_write 8"

definition Stream_read_bool :: "bool rd" where
  "Stream_read_bool = rbind read_u8 (\<lambda>b. rret (b \<noteq> 0))"

definition Stream_write_bool :: "bool \<Rightarrow> bytes" where
  "Stream_write_bool value = write_u8 (if value then 1 else 0)"

text \<open>\<open>read<bool, uint32_t>\<close> and \<open>write<bool, uint32_t>\<close>.\<close>

definition Stream_read_bool32 :: "bool rd" where
  "Stream_read_bool32 = rbind read_u32 (\<lambda>w. rret (w \<noteq> 0))"

definition Stream_write_bool32 :: "bool \<Rightarrow> bytes" where
  "Stream_write_bool32 value = write_u32 (if value then 1 else 0)"

text \<open>A bare \<open>readBytes\<close>, whose result the caller does not compare with \<open>count\<close>.\<close>

definition Stream_readBytes :: "nat \<Rightarrow> bytes rd" where
  "Stream_readBytes count bs = Inr (take count bs, drop count bs)"

text \<open>A \<open>readBytes\<close> into an array: a short read leaves the tail of the array as it was.\<close>

definition fill :: "bytes \<Rightarrow> bytes \<Rightarrow> bytes" where
  "fill old got = got @ drop (length got) old"

definition read_array :: "bytes \<Rightarrow> bytes rd" where
  "read_array old = rbind (Stream_readBytes (length old)) (\<lambda>got. rret (fill old got))"

subsection \<open>Lines\<close>

fun readLine_loop :: "nat \<Rightarrow> bytes \<Rightarrow> bytes \<times> bytes" where
  "readLine_loop 0 bs = ([], bs)"
| "readLine_loop (Suc room) [] = ([], [])"
| "readLine_loop (Suc room) (c # bs) =
     (if c = 10 then ([c], bs)
      else case readLine_loop room bs of (line, rest) \<Rightarrow> (c # line, rest))"

definition Stream_readLine :: "nat \<Rightarrow> (bool \<times> bytes) rd" where
  "Stream_readLine count bs =
     (if \<not> count \<ge> 1 then Inl AssertionFailure
      else case readLine_loop (count - 1) bs of (line, rest) \<Rightarrow> Inr ((line \<noteq> [], line), rest))"

subsection \<open>Strings\<close>

datatype StringType = e_StringRAW8 | e_StringUTF8 | e_StringUTF16

text \<open>
  What the sources take from outside. The conversions of the \<open>string_theory\<close> library: Latin-1, UTF-8
  (with invalid sequences substituted) and UTF-16 to and from the stored UTF-8. Of zlib, \<open>compressBound\<close>, \<open>compress\<close>
  and \<open>uncompress\<close> into a buffer of a given capacity (\<open>None\<close> unless \<open>Z_OK\<close>). The bytes a fresh
  allocation happens to hold.
\<close>

record ext_lib =
  to_latin_1 :: "st_string \<Rightarrow> bytes"
  from_latin_1 :: "bytes \<Rightarrow> st_string"
  from_utf8 :: "bytes \<Rightarrow> st_string"
  to_utf16 :: "st_string \<Rightarrow> u16 list"
  from_utf16 :: "u16 list \<Rightarrow> st_string"
  zlib_compressBound :: "nat \<Rightarrow> nat"
  zlib_compress :: "nat \<Rightarrow> bytes \<Rightarrow> bytes option"
  zlib_uncompress :: "nat \<Rightarrow> bytes \<Rightarrow> bytes option"
  uninit :: "nat \<Rightarrow> byte"

fun u16s :: "bytes \<Rightarrow> u16 list" where
  "u16s (a # b # bs) = le_word [a, b] # u16s bs"
| "u16s _ = []"

definition u16s_bytes :: "u16 list \<Rightarrow> bytes" where
  "u16s_bytes cs = concat (map (le_bytes 2) cs)"

definition Stream_readString :: "ext_lib \<Rightarrow> nat \<Rightarrow> StringType \<Rightarrow> st_string rd" where
  "Stream_readString L length' format bs =
     (if format = e_StringUTF16
      then (if length (take (length' * 2) bs) \<noteq> length' * 2 then Inl EofException
            else Inr (from_utf16 L (u16s (take (length' * 2) bs)), drop (length' * 2) bs))
      else (if length (take length' bs) \<noteq> length' then Inl EofException
            else Inr (if format = e_StringUTF8 then from_utf8 L (take length' bs)
                      else from_latin_1 L (take length' bs), drop length' bs)))"

text \<open>\<open>front()\<close> of an empty \<open>ST::buffer\<close> is its terminator.\<close>

definition buf_front :: "'a::zero list \<Rightarrow> 'a" where
  "buf_front xs = (case xs of [] \<Rightarrow> 0 | x # _ \<Rightarrow> x)"

definition Stream_readSafeString :: "ext_lib \<Rightarrow> StringType \<Rightarrow> st_string rd" where
  "Stream_readSafeString L format =
     rbind read_u16 (\<lambda>length0.
     rbind (if length0 AND 0xF000 = 0 then rbind read_u16 (\<lambda>_. rret ()) else rret ()) (\<lambda>_.
     let length' = unat (length0 AND 0x0FFF) in
     if format = e_StringUTF16 then
       rbind (Stream_readBytes (length' * 2)) (\<lambda>buf.
       rbind read_u16 (\<lambda>_.
       if length buf \<noteq> length' * 2 then rfail EofException
       else let result = u16s buf;
                result = (if buf_front result AND 0x8000 \<noteq> 0 then map NOT result else result)
            in rret (from_utf16 L result)))
     else
       rbind (Stream_readBytes length') (\<lambda>result.
       if length result \<noteq> length' then rfail EofException
       else let result = (if buf_front result AND 0x80 \<noteq> 0 then map NOT result else result)
            in rret (if format = e_StringUTF8 then from_utf8 L result else from_latin_1 L result))))"

definition to_narrow :: "ext_lib \<Rightarrow> StringType \<Rightarrow> st_string \<Rightarrow> bytes" where
  "to_narrow L format value = (if format = e_StringUTF8 then value else to_latin_1 L value)"

definition Stream_writeString :: "ext_lib \<Rightarrow> st_string \<Rightarrow> StringType \<Rightarrow> bytes" where
  "Stream_writeString L value format =
     (if format = e_StringUTF16 then u16s_bytes (to_utf16 L value) else to_narrow L format value)"

definition Stream_writeSafeString :: "ext_lib \<Rightarrow> st_string \<Rightarrow> StringType \<Rightarrow> bytes" where
  "Stream_writeSafeString L value format =
     (if format = e_StringUTF16 then
        let buffer = to_utf16 L value;
            length' = (of_nat (length buffer) :: u16) AND 0x0FFF
        in write_u16 (length' OR 0xF000) @ u16s_bytes (map NOT (take (unat length') buffer))
             @ write_u16 0
      else
        let buffer = to_narrow L format value;
            length' = (of_nat (length buffer) :: u16) AND 0x0FFF
        in write_u16 (length' OR 0xF000) @ map NOT (take (unat length') buffer))"

text \<open>\<open>readPString<sz_t>\<close> and \<open>writePString<sz_t>\<close> with \<open>n = sizeof(sz_t)\<close>.\<close>

definition Stream_readPString :: "ext_lib \<Rightarrow> nat \<Rightarrow> StringType \<Rightarrow> st_string rd" where
  "Stream_readPString L n format =
     rbind (Stream_read n :: u64 rd) (\<lambda>length'. Stream_readString L (unat length') e_StringRAW8)"

definition Stream_writePString :: "ext_lib \<Rightarrow> nat \<Rightarrow> st_string \<Rightarrow> StringType \<Rightarrow> bytes" where
  "Stream_writePString L n value format =
     (if format = e_StringUTF16 then
        let buffer = to_utf16 L value
        in Stream_write n (of_nat (length buffer) :: u64) @ u16s_bytes buffer
      else
        let buffer = to_narrow L format value
        in Stream_write n (of_nat (length buffer) :: u64) @ buffer)"

text \<open>The strings that survive \<open>writeSafeString\<close>, and those that survive \<open>writePString\<close>.\<close>

definition safe_ok :: "ext_lib \<Rightarrow> StringType \<Rightarrow> st_string \<Rightarrow> bool" where
  "safe_ok L format s \<longleftrightarrow>
     (case format of
        e_StringUTF16 \<Rightarrow> length (to_utf16 L s) < 4096 \<and> buf_front (to_utf16 L s) AND 0x8000 = 0
                          \<and> from_utf16 L (to_utf16 L s) = s
      | e_StringUTF8 \<Rightarrow> length s < 4096 \<and> buf_front s AND 0x80 = 0 \<and> from_utf8 L s = s
      | e_StringRAW8 \<Rightarrow> length (to_latin_1 L s) < 4096 \<and> buf_front (to_latin_1 L s) AND 0x80 = 0
                          \<and> from_latin_1 L (to_latin_1 L s) = s)"

definition pstring_ok :: "ext_lib \<Rightarrow> nat \<Rightarrow> st_string \<Rightarrow> bool" where
  "pstring_ok L n s \<longleftrightarrow>
     length (to_latin_1 L s) < 2 ^ (8 * n) \<and> length (to_latin_1 L s) < 2 ^ 64
     \<and> from_latin_1 L (to_latin_1 L s) = s"

section \<open>BufferStream\<close>

text \<open>
  The allocation is a list of \<open>m_alloc\<close> bytes; \<open>size_t\<close> arithmetic wraps at \<open>2 ^ 64\<close>. The tail of
  a fresh allocation is indeterminate: its bytes come from the argument \<open>junk\<close>.
\<close>

record BufferStream =
  m_buffer :: bytes
  m_position :: nat
  m_size :: nat
  m_alloc :: nat

definition BufferStream_new :: BufferStream where
  "BufferStream_new = \<lparr>m_buffer = [], m_position = 0, m_size = 0, m_alloc = 0\<rparr>"

definition BufferStream_readBytes :: "BufferStream \<Rightarrow> nat \<Rightarrow> bytes \<times> BufferStream" where
  "BufferStream_readBytes s count =
     (let count' = (if (m_position s + count) mod 2 ^ 64 > m_size s
                    then m_size s - m_position s else count)
      in (take count' (drop (m_position s) (m_buffer s)), s\<lparr>m_position := m_position s + count'\<rparr>))"

function grow_alloc :: "nat \<Rightarrow> nat \<Rightarrow> nat" where
  "grow_alloc need bigger =
     (if need > bigger \<and> bigger > 0 then grow_alloc need (bigger * 2) else bigger)"
  by pat_completeness auto
termination by (relation "measure (\<lambda>(need, bigger). need - bigger)") auto

declare grow_alloc.simps [simp del]

text \<open>The block \<open>// Resize stream\<close> of \<open>writeBytes\<close>, then \<open>writeBytes\<close> itself.\<close>

definition BufferStream_reserve :: "(nat \<Rightarrow> byte) \<Rightarrow> nat \<Rightarrow> BufferStream \<Rightarrow> BufferStream" where
  "BufferStream_reserve junk need s =
     (if need > m_alloc s then
        let bigger = grow_alloc need (if m_alloc s \<noteq> 0 then m_alloc s else 4096)
        in s\<lparr>m_buffer := take (m_size s) (m_buffer s) @ map junk [m_size s..<bigger],
             m_alloc := bigger\<rparr>
      else s)"

definition BufferStream_writeBytes ::
  "(nat \<Rightarrow> byte) \<Rightarrow> BufferStream \<Rightarrow> bytes \<Rightarrow> BufferStream" where
  "BufferStream_writeBytes junk s0 buffer =
     (let count = length buffer;
          s = BufferStream_reserve junk (m_position s0 + count) s0;
          position = m_position s + count
      in s\<lparr>m_buffer := take (m_position s) (m_buffer s) @ buffer @ drop position (m_buffer s),
           m_position := position,
           m_size := (if position > m_size s then position else m_size s)\<rparr>)"

datatype whence = SEEK_SET | SEEK_CUR | SEEK_END

definition seek_clamp :: "nat \<Rightarrow> nat \<Rightarrow> nat" where
  "seek_clamp position size' =
     (if sint (of_nat position :: u32) < 0 then 0
      else if position > size' then size' else position)"

definition seek_target :: "nat \<Rightarrow> nat \<Rightarrow> int \<Rightarrow> whence \<Rightarrow> nat" where
  "seek_target position size' offset w =
     nat ((case w of SEEK_SET \<Rightarrow> offset
                   | SEEK_CUR \<Rightarrow> int position + offset
                   | SEEK_END \<Rightarrow> int size' - offset) mod 2 ^ 64)"

definition BufferStream_seek :: "BufferStream \<Rightarrow> int \<Rightarrow> whence \<Rightarrow> BufferStream" where
  "BufferStream_seek s offset w =
     s\<lparr>m_position := seek_clamp (seek_target (m_position s) (m_size s) offset w) (m_size s)\<rparr>"

definition BufferStream_set :: "bytes option \<Rightarrow> BufferStream" where
  "BufferStream_set data =
     (case data of
        Some d \<Rightarrow> \<lparr>m_buffer = d, m_position = 0, m_size = length d, m_alloc = length d\<rparr>
      | None \<Rightarrow> \<lparr>m_buffer = [], m_position = 0, m_size = 0, m_alloc = 0\<rparr>)"

definition BufferStream_steal :: "bytes \<Rightarrow> BufferStream" where
  "BufferStream_steal buffer =
     \<lparr>m_buffer = buffer, m_position = 0, m_size = length buffer, m_alloc = length buffer\<rparr>"

definition BufferStream_truncate :: "BufferStream \<Rightarrow> BufferStream" where
  "BufferStream_truncate s = s\<lparr>m_size := 0, m_position := 0\<rparr>"

definition BufferStream_tell :: "BufferStream \<Rightarrow> u32" where
  "BufferStream_tell s = of_nat (m_position s)"

definition BufferStream_atEof :: "BufferStream \<Rightarrow> bool" where
  "BufferStream_atEof s \<longleftrightarrow> m_position s \<ge> m_size s"

section \<open>BlobStream\<close>

record BlobStream =
  m_blob :: bytes
  bm_position :: nat

definition BlobStream_new :: "bytes \<Rightarrow> BlobStream" where
  "BlobStream_new blob = \<lparr>m_blob = blob, bm_position = 0\<rparr>"

definition BlobStream_readBytes :: "BlobStream \<Rightarrow> nat \<Rightarrow> bytes \<times> BlobStream" where
  "BlobStream_readBytes s count =
     (let count' = (if (bm_position s + count) mod 2 ^ 64 > length (m_blob s)
                    then length (m_blob s) - bm_position s else count)
      in (take count' (drop (bm_position s) (m_blob s)), s\<lparr>bm_position := bm_position s + count'\<rparr>))"

definition BlobStream_writeBytes :: "BlobStream \<Rightarrow> bytes \<Rightarrow> ds_error + BlobStream" where
  "BlobStream_writeBytes s buffer = Inl (FileIOException ''Cannot write to read-only stream'')"

definition BlobStream_seek :: "BlobStream \<Rightarrow> int \<Rightarrow> whence \<Rightarrow> BlobStream" where
  "BlobStream_seek s offset w =
     s\<lparr>bm_position := seek_clamp (seek_target (bm_position s) (length (m_blob s)) offset w)
                        (length (m_blob s))\<rparr>"

definition BlobStream_atEof :: "BlobStream \<Rightarrow> bool" where
  "BlobStream_atEof s \<longleftrightarrow>
     (of_nat (bm_position s) :: u32) \<ge> of_nat (length (m_blob s))"

text \<open>\<open>Stream::read<T>\<close> on a stream object, through its virtual \<open>readBytes\<close>.\<close>

definition Stream_read_on ::
  "('s \<Rightarrow> nat \<Rightarrow> bytes \<times> 's) \<Rightarrow> nat \<Rightarrow> 's \<Rightarrow> ds_error + ('a::len word \<times> 's)" where
  "Stream_read_on readBytes n s =
     (case readBytes s n of (value, s') \<Rightarrow>
        if length value \<noteq> n then Inl EofException else Inr (le_word value, s'))"

section \<open>State of the RAM streams\<close>

definition BufferStream_inv :: "BufferStream \<Rightarrow> bool" where
  "BufferStream_inv s \<longleftrightarrow> length (m_buffer s) = m_alloc s \<and> m_size s \<le> m_alloc s
     \<and> m_position s \<le> m_size s \<and> m_alloc s < 2 ^ 63"

definition BufferStream_contents :: "BufferStream \<Rightarrow> bytes" where
  "BufferStream_contents s = take (m_size s) (m_buffer s)"

definition BufferStream_unread :: "BufferStream \<Rightarrow> bytes" where
  "BufferStream_unread s = drop (m_position s) (BufferStream_contents s)"

definition BlobStream_inv :: "BlobStream \<Rightarrow> bool" where
  "BlobStream_inv s \<longleftrightarrow> bm_position s \<le> length (m_blob s) \<and> length (m_blob s) < 2 ^ 63"

definition BlobStream_unread :: "BlobStream \<Rightarrow> bytes" where
  "BlobStream_unread s = drop (bm_position s) (m_blob s)"

section \<open>Integers and booleans are read back\<close>

lemma reads_prefix_Stream_read [suffix_intros]: "reads_prefix (Stream_read n)"
  by (auto simp: reads_prefix_def Stream_read_def suffix_drop)

lemma reads_prefix_readBytes [suffix_intros]: "reads_prefix (Stream_readBytes n)"
  by (auto simp: reads_prefix_def Stream_readBytes_def suffix_drop)

lemma Stream_read_write:
  "LENGTH('a) \<le> 8 * n \<Longrightarrow> Stream_read n (Stream_write n w @ bs) = Inr (w :: 'a::len word, bs)"
  by (simp add: Stream_read_def Stream_write_def le_word_le_bytes)

lemma Stream_write_read:
  assumes "Stream_read n bs = Inr (w :: 'a::len word, bs')" and "8 * n \<le> LENGTH('a)"
  shows "bs = Stream_write n w @ bs'"
proof -
  from assms(1) have n: "length (take n bs) = n" and w: "w = le_word (take n bs)" "bs' = drop n bs"
    by (auto simp: Stream_read_def split: if_splits)
  then have "Stream_write n w = take n bs"
    unfolding Stream_write_def w using assms(2) by (intro le_bytes_le_word) auto
  with w show ?thesis by simp
qed

lemma Stream_read_eof: "length bs < n \<Longrightarrow> Stream_read n bs = Inl EofException"
  by (simp add: Stream_read_def)

interpretation u8: exact_codec write_u8 read_u8 "\<lambda>_. True"
  by unfold_locales (auto simp: read_u8_def write_u8_def Stream_read_write simp del: One_nat_def
      dest: Stream_write_read)

interpretation u16: exact_codec write_u16 read_u16 "\<lambda>_. True"
  by unfold_locales (auto simp: read_u16_def write_u16_def Stream_read_write simp del: One_nat_def
      dest: Stream_write_read)

interpretation u32: exact_codec write_u32 read_u32 "\<lambda>_. True"
  by unfold_locales (auto simp: read_u32_def write_u32_def Stream_read_write simp del: One_nat_def
      dest: Stream_write_read)

interpretation u64: exact_codec write_u64 read_u64 "\<lambda>_. True"
  by unfold_locales (auto simp: read_u64_def write_u64_def Stream_read_write simp del: One_nat_def
      dest: Stream_write_read)

interpretation cbool: codec Stream_write_bool Stream_read_bool "\<lambda>_. True"
  by unfold_locales (simp add: Stream_read_bool_def Stream_write_bool_def u8.dec_enc)

interpretation cbool32: codec Stream_write_bool32 Stream_read_bool32 "\<lambda>_. True"
  by unfold_locales (simp add: Stream_read_bool32_def Stream_write_bool32_def u32.dec_enc)

lemmas int_rd [rd_simps, simp] = u8.dec_enc u16.dec_enc u32.dec_enc u64.dec_enc cbool.dec_enc cbool.bind_enc
  cbool32.dec_enc cbool32.bind_enc

lemma length_Stream_write [simp]: "length (Stream_write n w) = n"
  by (simp add: Stream_write_def)

lemma length_write_int [simp]:
  "length (write_u8 b) = 1" "length (write_u16 h) = 2" "length (write_u32 w) = 4"
  "length (write_u64 d) = 8" "length (Stream_write_bool c) = 1"
  by (simp_all add: write_u8_def write_u16_def write_u32_def write_u64_def Stream_write_bool_def)

lemmas reads_prefix_int [suffix_intros] = u8.dec_suffix u16.dec_suffix u32.dec_suffix u64.dec_suffix

lemma reads_prefix_read_bool [suffix_intros]: "reads_prefix Stream_read_bool"
  unfolding Stream_read_bool_def by (intro suffix_intros)

lemma reads_prefix_read_bool32 [suffix_intros]: "reads_prefix Stream_read_bool32"
  unfolding Stream_read_bool32_def by (intro suffix_intros)

lemma Stream_readBytes_append [rd_simps]:
  "n = length xs \<Longrightarrow> Stream_readBytes n (xs @ bs) = Inr (xs, bs)"
  by (simp add: Stream_readBytes_def)

lemma read_array_append [rd_simps]: "length xs = length old \<Longrightarrow> read_array old (xs @ bs) = Inr (xs, bs)"
  by (simp add: read_array_def Stream_readBytes_append fill_def)

lemma reads_prefix_read_array [suffix_intros]: "reads_prefix (read_array old)"
  unfolding read_array_def by (intro suffix_intros)

lemma length_fill [simp]: "length got \<le> length old \<Longrightarrow> length (fill old got) = length old"
  by (simp add: fill_def)

section \<open>Strings\<close>

lemma length_u16s_bytes [simp]: "length (u16s_bytes cs) = 2 * length cs"
  by (induction cs) (auto simp: u16s_bytes_def)

lemma u16s_u16s_bytes [simp]: "u16s (u16s_bytes cs) = cs"
proof (induction cs)
  case Nil
  show ?case by (simp add: u16s_bytes_def)
next
  case (Cons c cs)
  have "le_bytes 2 c = [ucast c, ucast (drop_bit 8 c)]"
    by (simp add: numeral_2_eq_2 le_bytes_Suc) (simp add: le_bytes_def)
  moreover have "le_word (le_bytes 2 c) = c" by (rule le_word_le_bytes) simp
  ultimately show ?case using Cons.IH by (simp add: u16s_bytes_def)
qed

text \<open>The low twelve bits of a length.\<close>

lemma mask12: "(0x0FFF :: u16) = mask 12" "(0xF000 :: u16) = NOT (mask 12)"
  by (simp_all add: mask_eq_exp_minus_1)

lemma unat_mask12: "unat ((of_nat n :: u16) AND 0x0FFF) = n mod 4096"
proof -
  have "(of_nat n :: u16) AND 0x0FFF = of_nat n mod 4096"
    unfolding mask12 by (simp add: take_bit_eq_mask [symmetric] take_bit_eq_mod)
  then show ?thesis by (simp add: unat_mod unat_of_nat mod_mod_cancel)
qed

lemma safe_len_high: "(w AND 0x0FFF OR 0xF000 :: u16) AND 0xF000 \<noteq> 0"
proof -
  have "bit ((w AND 0x0FFF OR 0xF000 :: u16) AND 0xF000) 12"
    unfolding mask12 by (simp add: bit_simps)
  then show ?thesis by (metis bit_0_eq bot_apply bot_bool_def)
qed

lemma safe_len_low: "(w AND 0x0FFF OR 0xF000 :: u16) AND 0x0FFF = w AND 0x0FFF"
  unfolding mask12 by (rule bit_word_eqI) (auto simp: bit_simps)

lemma front_map_NOT:
  "buf_front (map NOT cs) AND 0x80 \<noteq> (0 :: byte) \<longleftrightarrow> cs \<noteq> [] \<and> buf_front cs AND 0x80 = 0"
  "buf_front (map NOT ws) AND 0x8000 \<noteq> (0 :: u16) \<longleftrightarrow> ws \<noteq> [] \<and> buf_front ws AND 0x8000 = 0"
proof -
  have b: "(c AND 0x80 = 0) = (\<not> bit c 7)" for c :: byte
    using and_exp_eq_0_iff_not_bit [of c 7] by simp
  have w: "(c AND 0x8000 = 0) = (\<not> bit c 15)" for c :: u16
    using and_exp_eq_0_iff_not_bit [of c 15] by simp
  show "buf_front (map NOT cs) AND 0x80 \<noteq> (0 :: byte) \<longleftrightarrow> cs \<noteq> [] \<and> buf_front cs AND 0x80 = 0"
    unfolding b by (cases cs) (auto simp: buf_front_def bit_simps)
  show "buf_front (map NOT ws) AND 0x8000 \<noteq> (0 :: u16) \<longleftrightarrow> ws \<noteq> [] \<and> buf_front ws AND 0x8000 = 0"
    unfolding w by (cases ws) (auto simp: buf_front_def bit_simps)
qed

lemma map_NOT_NOT [simp]: "map (NOT \<circ> NOT) (cs :: 'a::len word list) = cs"
  by (simp add: o_def)

text \<open>
  What a reader makes of a written string: the text, complemented when its first code unit has the
  high bit set.
\<close>

definition safe_flip :: "bool \<Rightarrow> 'a::len word list \<Rightarrow> 'a word list" where
  "safe_flip high cs = (if cs \<noteq> [] \<and> high then map NOT cs else cs)"

lemma readSafe_writeSafe_narrow:
  assumes "format \<noteq> e_StringUTF16" and "length (to_narrow L format s) < 4096"
  shows "Stream_readSafeString L format (Stream_writeSafeString L s format @ bs) =
    (let cs = safe_flip (buf_front (to_narrow L format s) AND 0x80 \<noteq> 0) (to_narrow L format s)
     in Inr (if format = e_StringUTF8 then from_utf8 L cs else from_latin_1 L cs, bs))"
  using assms
  by (simp add: Stream_readSafeString_def Stream_writeSafeString_def safe_len_high safe_len_low
      unat_mask12 Stream_readBytes_append front_map_NOT safe_flip_def Let_def)

lemma readSafe_writeSafe_utf16:
  assumes "length (to_utf16 L s) < 4096"
  shows "Stream_readSafeString L e_StringUTF16 (Stream_writeSafeString L s e_StringUTF16 @ bs) =
    Inr (from_utf16 L (safe_flip (buf_front (to_utf16 L s) AND 0x8000 \<noteq> 0) (to_utf16 L s)), bs)"
  using assms
  by (simp add: Stream_readSafeString_def Stream_writeSafeString_def safe_len_high safe_len_low
      unat_mask12 Stream_readBytes_append front_map_NOT safe_flip_def Let_def)

interpretation safestr: codec "\<lambda>s. Stream_writeSafeString L s format" "Stream_readSafeString L format"
    "safe_ok L format" for L format
proof
  fix s bs assume "safe_ok L format s"
  then show "Stream_readSafeString L format (Stream_writeSafeString L s format @ bs) = Inr (s, bs)"
    by (cases format)
      (simp_all add: safe_ok_def readSafe_writeSafe_narrow readSafe_writeSafe_utf16 to_narrow_def safe_flip_def)
qed

lemma Stream_read_len:
  assumes "n \<le> 8" and "k < 2 ^ (8 * n)" and "k < 2 ^ 64"
  shows "Stream_read n (Stream_write n (of_nat k :: u64) @ bs) = Inr (of_nat k :: u64, bs)"
proof -
  have "take_bit (8 * n) (of_nat k :: u64) = of_nat k"
    using assms by (simp add: word_unat_eq_iff unsigned_take_bit_eq unat_of_nat take_bit_nat_eq_self)
  then show ?thesis by (simp add: Stream_read_def Stream_write_def le_word_le_bytes_take_bit)
qed

interpretation pstr: codec "\<lambda>s. Stream_writePString L n s e_StringRAW8"
    "Stream_readPString L n format" "\<lambda>s. n \<le> 8 \<and> pstring_ok L n s" for L n format
  by unfold_locales (simp add: Stream_readPString_def Stream_writePString_def Stream_read_len
      pstring_ok_def to_narrow_def Stream_readString_def unat_of_nat Let_def)

lemmas str_rd [rd_simps] = safestr.dec_enc pstr.dec_enc

lemma reads_prefix_readString [suffix_intros]: "reads_prefix (Stream_readString L n format)"
  by (auto simp: reads_prefix_def Stream_readString_def suffix_drop split: if_splits)

lemma reads_prefix_readSafeString [suffix_intros]: "reads_prefix (Stream_readSafeString L format)"
  unfolding Stream_readSafeString_def Let_def by (intro suffix_intros)

lemma reads_prefix_readPString [suffix_intros]: "reads_prefix (Stream_readPString L n format)"
  unfolding Stream_readPString_def by (intro suffix_intros)

section \<open>What a readable stream promises\<close>

text \<open>
  \<open>readBytes\<close> returns as much as it can of what is unread and moves past it. Requests are below
  \<open>2 ^ 63\<close>, so that \<open>m_position + count\<close> does not wrap.
\<close>

locale input_stream =
  fixes readBytes :: "'s \<Rightarrow> nat \<Rightarrow> bytes \<times> 's"
    and unread :: "'s \<Rightarrow> bytes"
    and inv :: "'s \<Rightarrow> bool"
  assumes read_result: "inv s \<Longrightarrow> n < 2 ^ 63 \<Longrightarrow> fst (readBytes s n) = take n (unread s)"
    and read_unread: "inv s \<Longrightarrow> n < 2 ^ 63 \<Longrightarrow> unread (snd (readBytes s n)) = drop n (unread s)"
    and read_inv: "inv s \<Longrightarrow> n < 2 ^ 63 \<Longrightarrow> inv (snd (readBytes s n))"
begin

text \<open>\<open>Stream::read<T>\<close> on the object does what the byte reader does on its unread bytes.\<close>

lemma read_on_ok:
  assumes "inv s" and "n < 2 ^ 63" and "Stream_read n (unread s) = Inr (w, rest)"
  shows "\<exists>s'. Stream_read_on readBytes n s = Inr (w, s') \<and> unread s' = rest \<and> inv s'"
  using assms read_result [of s n] read_unread [of s n] read_inv [of s n]
  by (cases "readBytes s n") (auto simp: Stream_read_on_def Stream_read_def split: if_splits)

lemma read_on_eof:
  assumes "inv s" and "n < 2 ^ 63" and "length (unread s) < n"
  shows "Stream_read_on readBytes n s = Inl EofException"
  using assms read_result [of s n]
  by (cases "readBytes s n") (auto simp: Stream_read_on_def)

lemma read_all_at_once:
  assumes "inv s" and "m + n < 2 ^ 63"
  shows "fst (readBytes s m) @ fst (readBytes (snd (readBytes s m)) n) = take (m + n) (unread s)"
  using assms by (simp add: read_result read_unread read_inv take_add)

end

lemma BufferStream_read_facts:
  assumes "BufferStream_inv s" and "n < 2 ^ 63"
  shows "fst (BufferStream_readBytes s n) = take n (BufferStream_unread s)"
    and "BufferStream_unread (snd (BufferStream_readBytes s n)) = drop n (BufferStream_unread s)"
    and "BufferStream_inv (snd (BufferStream_readBytes s n))"
    and "BufferStream_contents (snd (BufferStream_readBytes s n)) = BufferStream_contents s"
  using assms
  by (auto simp: BufferStream_readBytes_def BufferStream_inv_def BufferStream_unread_def
      BufferStream_contents_def Let_def drop_take min_def add.commute)

lemma BlobStream_read_facts:
  assumes "BlobStream_inv s" and "n < 2 ^ 63"
  shows "fst (BlobStream_readBytes s n) = take n (BlobStream_unread s)"
    and "BlobStream_unread (snd (BlobStream_readBytes s n)) = drop n (BlobStream_unread s)"
    and "BlobStream_inv (snd (BlobStream_readBytes s n))"
  using assms
  by (auto simp: BlobStream_readBytes_def BlobStream_inv_def BlobStream_unread_def Let_def add.commute)

interpretation bufin: input_stream BufferStream_readBytes BufferStream_unread BufferStream_inv
  by unfold_locales (simp_all add: BufferStream_read_facts)

interpretation blobin: input_stream BlobStream_readBytes BlobStream_unread BlobStream_inv
  by unfold_locales (simp_all add: BlobStream_read_facts)

section \<open>What a writable stream promises\<close>

text \<open>
  \<open>writeBytes\<close> overwrites at the position and extends the contents when it runs past their end;
  the position moves behind what was written.
\<close>

definition overwrite :: "bytes \<Rightarrow> nat \<Rightarrow> bytes \<Rightarrow> bytes" where
  "overwrite old p new = take p old @ new @ drop (p + length new) old"

locale output_stream =
  fixes writeBytes :: "'s \<Rightarrow> bytes \<Rightarrow> 's"
    and contents :: "'s \<Rightarrow> bytes"
    and pos :: "'s \<Rightarrow> nat"
    and inv :: "'s \<Rightarrow> bool"
  assumes write_contents:
      "inv s \<Longrightarrow> pos s + length b < 2 ^ 62 \<Longrightarrow> contents (writeBytes s b) = overwrite (contents s) (pos s) b"
    and write_pos: "inv s \<Longrightarrow> pos s + length b < 2 ^ 62 \<Longrightarrow> pos (writeBytes s b) = pos s + length b"
    and write_inv: "inv s \<Longrightarrow> pos s + length b < 2 ^ 62 \<Longrightarrow> inv (writeBytes s b)"
begin

text \<open>A sequence of writes at the end of the stream appends the concatenation.\<close>

lemma write_append:
  assumes "inv s" and "pos s = length (contents s)" and "pos s + length (concat bss) < 2 ^ 62"
  shows "contents (foldl writeBytes s bss) = contents s @ concat bss
    \<and> pos (foldl writeBytes s bss) = pos s + length (concat bss) \<and> inv (foldl writeBytes s bss)"
  using assms
proof (induction bss arbitrary: s)
  case Nil
  then show ?case by simp
next
  case (Cons b bss)
  then have len: "pos s + length b < 2 ^ 62" by simp
  have "contents (writeBytes s b) = contents s @ b"
    using Cons.prems(2) by (simp add: write_contents [OF Cons.prems(1) len] overwrite_def)
  moreover have "pos (writeBytes s b) = pos s + length b" "inv (writeBytes s b)"
    by (simp_all add: write_pos [OF Cons.prems(1) len] write_inv [OF Cons.prems(1) len])
  ultimately show ?case using Cons.IH [of "writeBytes s b"] Cons.prems by simp
qed

end

lemma grow_alloc_ge: "0 < bigger \<Longrightarrow> need \<le> grow_alloc need bigger"
proof (induction need bigger rule: grow_alloc.induct)
  case (1 need bigger)
  then show ?case by (cases "need > bigger") (auto simp: grow_alloc.simps [of need bigger])
qed

lemma grow_alloc_le: "grow_alloc need bigger \<le> max bigger (2 * need)"
proof (induction need bigger rule: grow_alloc.induct)
  case (1 need bigger)
  then show ?case by (auto simp: grow_alloc.simps [of need bigger])
qed

lemma BufferStream_reserve_facts:
  assumes "BufferStream_inv s" and "need < 2 ^ 62"
  shows "BufferStream_contents (BufferStream_reserve junk need s) = BufferStream_contents s"
    and "m_position (BufferStream_reserve junk need s) = m_position s"
    and "m_size (BufferStream_reserve junk need s) = m_size s"
    and "BufferStream_inv (BufferStream_reserve junk need s)"
    and "need \<le> m_alloc (BufferStream_reserve junk need s)"
proof -
  let ?b0 = "if m_alloc s \<noteq> 0 then m_alloc s else 4096"
  have inv: "length (m_buffer s) = m_alloc s" "m_size s \<le> m_alloc s" "m_position s \<le> m_size s"
    "m_alloc s < 2 ^ 63" using assms(1) by (simp_all add: BufferStream_inv_def)
  have ge: "need \<le> grow_alloc need ?b0" by (rule grow_alloc_ge) simp
  have le: "grow_alloc need ?b0 < 2 ^ 63"
    using grow_alloc_le [of need ?b0] assms(2) inv(4) by (auto simp: max_def split: if_splits)
  show "BufferStream_contents (BufferStream_reserve junk need s) = BufferStream_contents s"
    using inv by (simp add: BufferStream_reserve_def BufferStream_contents_def Let_def)
  show "BufferStream_inv (BufferStream_reserve junk need s)"
    using inv ge le by (simp add: BufferStream_reserve_def BufferStream_inv_def Let_def min_def)
  show "need \<le> m_alloc (BufferStream_reserve junk need s)"
    using ge by (simp add: BufferStream_reserve_def Let_def)
qed (simp_all add: BufferStream_reserve_def Let_def)

lemma BufferStream_write_facts:
  assumes "BufferStream_inv s0" and "m_position s0 + length b < 2 ^ 62"
  shows "BufferStream_contents (BufferStream_writeBytes junk s0 b)
      = overwrite (BufferStream_contents s0) (m_position s0) b"
    and "m_position (BufferStream_writeBytes junk s0 b) = m_position s0 + length b"
    and "BufferStream_inv (BufferStream_writeBytes junk s0 b)"
proof -
  define s where "s = BufferStream_reserve junk (m_position s0 + length b) s0"
  note r = BufferStream_reserve_facts [OF assms, of junk, folded s_def]
  have inv: "length (m_buffer s) = m_alloc s" "m_size s \<le> m_alloc s" "m_position s \<le> m_size s"
    "m_alloc s < 2 ^ 63" using r(4) by (simp_all add: BufferStream_inv_def)
  have w: "BufferStream_writeBytes junk s0 b =
      s\<lparr>m_buffer := overwrite (m_buffer s) (m_position s) b, m_position := m_position s + length b,
        m_size := max (m_size s) (m_position s + length b)\<rparr>"
    by (simp add: BufferStream_writeBytes_def s_def [symmetric] overwrite_def Let_def max_def r(2))
  show "m_position (BufferStream_writeBytes junk s0 b) = m_position s0 + length b"
    by (simp add: w r(2))
  show "BufferStream_inv (BufferStream_writeBytes junk s0 b)"
    using inv r(2,5) by (simp add: w BufferStream_inv_def overwrite_def)
  have "take (max (m_size s) (m_position s + length b)) (overwrite (m_buffer s) (m_position s) b)
      = overwrite (take (m_size s) (m_buffer s)) (m_position s) b"
    using inv by (auto simp: overwrite_def max_def drop_take)
  then show "BufferStream_contents (BufferStream_writeBytes junk s0 b)
      = overwrite (BufferStream_contents s0) (m_position s0) b"
    using r(1,2) by (simp add: w BufferStream_contents_def)
qed

interpretation bufout: output_stream "BufferStream_writeBytes junk" BufferStream_contents m_position
    BufferStream_inv for junk
  by unfold_locales (simp_all add: BufferStream_write_facts)

section \<open>Seeking\<close>

lemma sint_position:
  assumes "- (2 ^ 31) \<le> t" and "t < 2 ^ 31"
  shows "sint (of_nat (nat (t mod 2 ^ 64)) :: u32) = t"
proof -
  have "(of_nat (nat (t mod 2 ^ 64)) :: u32) = of_int (t mod 2 ^ 64)" by simp
  also have "\<dots> = of_int t"
    by (simp add: word_of_int_eq_iff take_bit_eq_mod mod_mod_cancel)
  finally show ?thesis
    using assms by (simp add: sint_sbintrunc' signed_take_bit_int_eq_self)
qed

definition seek_goal :: "nat \<Rightarrow> nat \<Rightarrow> int \<Rightarrow> whence \<Rightarrow> int" where
  "seek_goal position size' offset w =
     (case w of SEEK_SET \<Rightarrow> offset | SEEK_CUR \<Rightarrow> int position + offset | SEEK_END \<Rightarrow> int size' - offset)"

lemma seek_clamps:
  assumes "- (2 ^ 31) \<le> seek_goal p n offset w" and "seek_goal p n offset w < 2 ^ 31"
  shows "seek_clamp (seek_target p n offset w) n = nat (max 0 (min (int n) (seek_goal p n offset w)))"
proof -
  let ?t = "seek_goal p n offset w"
  have tgt: "seek_target p n offset w = nat (?t mod 2 ^ 64)"
    by (simp add: seek_target_def seek_goal_def)
  show ?thesis
  proof (cases "?t < 0")
    case True
    then show ?thesis
      unfolding seek_clamp_def tgt sint_position [OF assms] by simp
  next
    case False
    then have "?t mod 2 ^ 64 = ?t" using assms(2) by (intro mod_pos_pos_trivial) auto
    with False show ?thesis
      unfolding seek_clamp_def tgt sint_position [OF assms] by auto
  qed
qed

lemma seek_clamp_le: "seek_clamp p n \<le> n"
  by (simp add: seek_clamp_def)

lemma BufferStream_seek_inv: "BufferStream_inv s \<Longrightarrow> BufferStream_inv (BufferStream_seek s offset w)"
  by (simp add: BufferStream_inv_def BufferStream_seek_def seek_clamp_le)

lemma BlobStream_seek_inv: "BlobStream_inv s \<Longrightarrow> BlobStream_inv (BlobStream_seek s offset w)"
  by (simp add: BlobStream_inv_def BlobStream_seek_def seek_clamp_le)

section \<open>Lines\<close>

lemma readLine_loop_append: "readLine_loop n bs = (line, rest) \<Longrightarrow> line @ rest = bs"
  by (induction n bs arbitrary: line rule: readLine_loop.induct) (auto split: if_splits prod.splits)

lemma readLine_loop_length: "readLine_loop n bs = (line, rest) \<Longrightarrow> length line \<le> n"
  by (induction n bs arbitrary: line rule: readLine_loop.induct) (auto split: if_splits prod.splits)

lemma readLine_loop_newline: "readLine_loop n bs = (line, rest) \<Longrightarrow> 10 \<notin> set (butlast line)"
  by (induction n bs arbitrary: line rule: readLine_loop.induct) (auto split: if_splits prod.splits)

text \<open>A line stops at the newline, at the end of the stream or when the buffer is full.\<close>

lemma readLine_loop_stop:
  "readLine_loop n bs = (line, rest) \<Longrightarrow> length line = n \<or> rest = [] \<or> (line \<noteq> [] \<and> last line = 10)"
  by (induction n bs arbitrary: line rule: readLine_loop.induct) (auto split: if_splits prod.splits)

section \<open>Properties\<close>

text \<open>
  A library that stores text as plain ASCII and compresses by copying: an instance of the outside
  functions on which the hypotheses below hold.
\<close>

definition ascii_lib :: ext_lib where
  "ascii_lib =
     \<lparr>to_latin_1 = (\<lambda>s. s), from_latin_1 = (\<lambda>b. b), from_utf8 = (\<lambda>b. b), to_utf16 = map ucast,
      from_utf16 = map ucast, zlib_compressBound = (\<lambda>n. n),
      zlib_compress = (\<lambda>n b. if length b \<le> n then Some b else None),
      zlib_uncompress = (\<lambda>n b. if length b \<le> n then Some b else None), uninit = (\<lambda>_. 0xCD)\<rparr>"

text \<open>
  C23: whatever chunks are written to a fresh RAM stream, and whatever indeterminate bytes its
  reallocations bring in, after a seek to the start a read of \<open>n\<close> bytes returns the first \<open>n\<close> bytes
  of the concatenation of the chunks, and the next read continues where it stopped.
\<close>

theorem buffer_stream_refines_bytes:
  assumes "length (concat bss) < 2 ^ 62" and "n + m < 2 ^ 63"
  shows "let s = BufferStream_seek (foldl (BufferStream_writeBytes junk) BufferStream_new bss) 0 SEEK_SET;
             (a, s1) = BufferStream_readBytes s n; (b, s2) = BufferStream_readBytes s1 m
         in a = take n (concat bss) \<and> b = take m (drop n (concat bss)) \<and> BufferStream_inv s2"
proof -
  let ?w = "foldl (BufferStream_writeBytes junk) BufferStream_new bss"
  have new: "BufferStream_inv BufferStream_new" "BufferStream_contents BufferStream_new = []"
    "m_position BufferStream_new = 0"
    by (simp_all add: BufferStream_inv_def BufferStream_new_def BufferStream_contents_def)
  have w: "BufferStream_inv ?w" "BufferStream_contents ?w = concat bss"
    using bufout.write_append [OF new(1), of bss junk] new(2,3) assms(1) by auto
  let ?s = "BufferStream_seek ?w 0 SEEK_SET"
  have s: "BufferStream_inv ?s" "BufferStream_unread ?s = concat bss"
    using w BufferStream_seek_inv [OF w(1), of 0 SEEK_SET]
    by (simp_all add: BufferStream_unread_def BufferStream_contents_def BufferStream_seek_def
        seek_target_def seek_clamp_def)
  show ?thesis
    using assms(2) s bufin.read_inv [OF s(1), of n]
    by (simp add: Let_def split_beta bufin.read_result bufin.read_unread bufin.read_inv)
qed

theorem buffer_stream_refines_bytes_witness:
  "let s = BufferStream_seek (foldl (BufferStream_writeBytes (\<lambda>_. 0xCD)) BufferStream_new [[1, 2], [3]]) 0 SEEK_SET;
       (a, s1) = BufferStream_readBytes s 2; (b, s2) = BufferStream_readBytes s1 7
   in a = take 2 (concat [[1, 2], [3]]) \<and> b = take 7 (drop 2 (concat [[1, 2], [3]])) \<and> BufferStream_inv s2"
  by (rule buffer_stream_refines_bytes) simp_all

text \<open>
  A string of fewer than 4096 code units written with \<open>writeSafeString\<close> is read back by
  \<open>readSafeString\<close> in every format, and exactly its bytes are consumed, when its first code unit
  does not have the high bit set and the conversion of the library is invertible on it.
\<close>

theorem safe_string_roundtrip:
  assumes "safe_ok L format s"
  shows "Stream_readSafeString L format (Stream_writeSafeString L s format @ bs) = Inr (s, bs)"
  using assms by (rule safestr.dec_enc)

theorem safe_string_roundtrip_witness:
  "safe_ok ascii_lib e_StringUTF16 [75, 73]
   \<and> Stream_readSafeString ascii_lib e_StringUTF16
       (Stream_writeSafeString ascii_lib [75, 73] e_StringUTF16 @ [7]) = Inr ([75, 73], [7])"
  using safe_string_roundtrip [of ascii_lib e_StringUTF16 "[75, 73]" "[7]"]
  by (simp add: safe_ok_def ascii_lib_def buf_front_def)

text \<open>
  A seek lands on the requested offset from the start, the position or (downwards) the end,
  clamped to the contents, and keeps the contents and the invariant, as long as the offset it
  computes fits a 32-bit signed integer.
\<close>

theorem buffer_stream_seek:
  assumes "BufferStream_inv s" and "- (2 ^ 31) \<le> seek_goal (m_position s) (m_size s) offset w"
    and "seek_goal (m_position s) (m_size s) offset w < 2 ^ 31"
  shows "int (m_position (BufferStream_seek s offset w))
           = max 0 (min (int (m_size s)) (seek_goal (m_position s) (m_size s) offset w))
    \<and> BufferStream_contents (BufferStream_seek s offset w) = BufferStream_contents s
    \<and> BufferStream_inv (BufferStream_seek s offset w)"
  using seek_clamps [OF assms(2,3)] BufferStream_seek_inv [OF assms(1), of offset w]
  by (simp add: BufferStream_seek_def BufferStream_contents_def)

theorem buffer_stream_seek_witness:
  "let s = BufferStream_set (Some [1, 2, 3, 4]) in
   int (m_position (BufferStream_seek s 1 SEEK_END)) = max 0 (min (int (m_size s)) (seek_goal (m_position s) (m_size s) 1 SEEK_END))
    \<and> BufferStream_contents (BufferStream_seek s 1 SEEK_END) = BufferStream_contents s
    \<and> BufferStream_inv (BufferStream_seek s 1 SEEK_END)"
  using buffer_stream_seek [of "BufferStream_set (Some [1, 2, 3, 4])" 1 SEEK_END]
  by (simp add: BufferStream_set_def BufferStream_inv_def seek_goal_def)

text \<open>
  \<open>readLine\<close> splits the stream: the line and the rest make up what was unread, the line fits the
  buffer with its terminator, holds no newline but its last byte, and is as long as a newline, the
  end of the stream or the buffer allows; it reports success exactly when the line is not empty.
\<close>

theorem readLine_splits:
  assumes "1 \<le> count"
  shows "\<exists>line rest. Stream_readLine count bs = Inr ((line \<noteq> [], line), rest)
    \<and> line @ rest = bs \<and> length line \<le> count - 1 \<and> 10 \<notin> set (butlast line)
    \<and> (length line = count - 1 \<or> rest = [] \<or> (line \<noteq> [] \<and> last line = 10))"
proof -
  obtain line rest where l: "readLine_loop (count - 1) bs = (line, rest)" by fastforce
  show ?thesis
    using readLine_loop_append [OF l] readLine_loop_length [OF l] readLine_loop_newline [OF l]
      readLine_loop_stop [OF l] l assms
    by (intro exI [of _ line] exI [of _ rest]) (simp add: Stream_readLine_def)
qed

theorem readLine_splits_witness:
  "\<exists>line rest. Stream_readLine 4 [97, 10, 98] = Inr ((line \<noteq> [], line), rest)
    \<and> line @ rest = [97, 10, 98] \<and> length line \<le> 4 - 1 \<and> 10 \<notin> set (butlast line)
    \<and> (length line = 4 - 1 \<or> rest = [] \<or> (line \<noteq> [] \<and> last line = 10))"
  by (rule readLine_splits) simp

end
