(* ===== verification/Encrypted_Stream.thy ===== *)
theory Encrypted_Stream
  imports Streams
begin

unbundle bit_operations_syntax

text \<open>
  \<open>DS::EncryptedStream\<close> of \<open>src/streams.h\<close> and \<open>src/streams.cpp\<close>: the TEA and XXTEA block ciphers
  on 32-bit words, and the stream that encrypts what is written to a base stream and decrypts what
  is read from one, eight bytes at a time.
\<close>

section \<open>Ciphers\<close>

text \<open>\<open>m_key[i & 3]\<close> for the four words of a key; shifts of a \<open>uint32_t\<close> are logical.\<close>

definition key_at :: "u32 list \<Rightarrow> u32 \<Rightarrow> u32" where
  "key_at m_key i = m_key ! unat (i AND 3)"

definition tea_mix :: "u32 \<Rightarrow> u32" where
  "tea_mix v = (drop_bit 5 v XOR push_bit 4 v) + v"

definition tea_enc_step :: "u32 list \<Rightarrow> u32 \<times> u32 \<times> u32 \<Rightarrow> u32 \<times> u32 \<times> u32" where
  "tea_enc_step m_key = (\<lambda>(first, second, key).
     let first = first + (tea_mix second XOR (key_at m_key key + key));
         key = key + 0x9E3779B9;
         second = second + (tea_mix first XOR (key_at m_key (drop_bit 11 key) + key))
     in (first, second, key))"

definition tea_dec_step :: "u32 list \<Rightarrow> u32 \<times> u32 \<times> u32 \<Rightarrow> u32 \<times> u32 \<times> u32" where
  "tea_dec_step m_key = (\<lambda>(first, second, key).
     let second = second - (tea_mix first XOR (key_at m_key (drop_bit 11 key) + key));
         key = key - 0x9E3779B9;
         first = first - (tea_mix second XOR (key_at m_key key + key))
     in (first, second, key))"

definition teaEncipher :: "u32 list \<Rightarrow> u32 \<times> u32 \<Rightarrow> u32 \<times> u32" where
  "teaEncipher m_key = (\<lambda>(b0, b1).
     case (tea_enc_step m_key ^^ 32) (b0, b1, 0) of (first, second, _) \<Rightarrow> (first, second))"

definition teaDecipher :: "u32 list \<Rightarrow> u32 \<times> u32 \<Rightarrow> u32 \<times> u32" where
  "teaDecipher m_key = (\<lambda>(b0, b1).
     case (tea_dec_step m_key ^^ 32) (b0, b1, 0xC6EF3720) of (first, second, _) \<Rightarrow> (first, second))"

text \<open>The common term of the XXTEA loops, for the neighbour \<open>v\<close>, index \<open>i\<close> and round key.\<close>

definition xxtea_mix :: "u32 list \<Rightarrow> u32 \<Rightarrow> nat \<Rightarrow> u32 \<Rightarrow> u32" where
  "xxtea_mix m_key key i v =
     (((push_bit 4 v XOR drop_bit 3 v) + (drop_bit 5 v XOR push_bit 2 v))
      XOR ((m_key ! unat ((of_nat i AND 3) XOR (drop_bit 2 key AND 3 :: u32)) XOR v) + (key XOR v)))"

definition xxtea_enc_round :: "u32 list \<Rightarrow> nat \<Rightarrow> u32 \<Rightarrow> u32 list \<Rightarrow> u32 list" where
  "xxtea_enc_round m_key num key buf =
     (let buf = foldl (\<lambda>buf i. buf[i := buf ! i + xxtea_mix m_key key i (buf ! (i + 1))])
                  buf [0..<num - 1]
      in buf[num - 1 := buf ! (num - 1) + xxtea_mix m_key key (num - 1) (buf ! 0)])"

definition xxtea_dec_round :: "u32 list \<Rightarrow> nat \<Rightarrow> u32 \<Rightarrow> u32 list \<Rightarrow> u32 list" where
  "xxtea_dec_round m_key num key buf =
     (let buf = foldl (\<lambda>buf i. buf[i := buf ! i - xxtea_mix m_key key i (buf ! (i - 1))])
                  buf (rev [1..<num])
      in buf[0 := buf ! 0 - xxtea_mix m_key key 0 (buf ! (num - 1))])"

primrec xxtea_enc_loop :: "u32 list \<Rightarrow> nat \<Rightarrow> nat \<Rightarrow> u32 \<Rightarrow> u32 list \<Rightarrow> u32 list" where
  "xxtea_enc_loop m_key num 0 key buf = buf"
| "xxtea_enc_loop m_key num (Suc count) key buf =
     (let key = key - 0x61C88647
      in xxtea_enc_loop m_key num count key (xxtea_enc_round m_key num key buf))"

definition xxteaEncipher :: "u32 list \<Rightarrow> u32 list \<Rightarrow> nat \<Rightarrow> u32 list" where
  "xxteaEncipher m_key buf num = xxtea_enc_loop m_key num (52 div num + 6) 0 buf"

text \<open>\<open>while (key != 0)\<close>: whether the loop ends depends on the constants.\<close>

partial_function (option) xxtea_dec_loop ::
  "u32 list \<Rightarrow> nat \<Rightarrow> u32 \<Rightarrow> u32 list \<Rightarrow> u32 list option" where
  "xxtea_dec_loop m_key num key buf =
     (if key \<noteq> 0
      then xxtea_dec_loop m_key num (key + 0x61C88647) (xxtea_dec_round m_key num key buf)
      else Some buf)"

declare xxtea_dec_loop.simps [code]

definition xxteaDecipher :: "u32 list \<Rightarrow> u32 list \<Rightarrow> nat \<Rightarrow> u32 list option" where
  "xxteaDecipher m_key buf num =
     xxtea_dec_loop m_key num (of_nat (52 div num + 6) * 0x9E3779B9) buf"

section \<open>The stream\<close>

datatype enc_mode = e_read | e_write
datatype enc_type = e_xxtea | e_tea

record 's EncryptedStream =
  m_base :: "'s option"
  es_buffer :: bytes
  es_key :: "u32 list"
  es_pos :: u32
  es_size :: u32
  es_type :: enc_type
  es_mode :: enc_mode

text \<open>\<open>m_buffer\<close> as an array of two words, and back.\<close>

definition block_words :: "bytes \<Rightarrow> u32 \<times> u32" where
  "block_words b = (le_word (take 4 b), le_word (take 4 (drop 4 b)))"

definition words_block :: "u32 \<times> u32 \<Rightarrow> bytes" where
  "words_block = (\<lambda>(x, y). le_bytes 4 x @ le_bytes 4 y)"

definition encipher_block :: "enc_type \<Rightarrow> u32 list \<Rightarrow> bytes \<Rightarrow> bytes" where
  "encipher_block type key b =
     (case type of
        e_xxtea \<Rightarrow> (case block_words b of (x, y) \<Rightarrow>
           (let buf = xxteaEncipher key [x, y] 2 in words_block (buf ! 0, buf ! 1)))
      | e_tea \<Rightarrow> words_block (teaEncipher key (block_words b)))"

definition decipher_block :: "enc_type \<Rightarrow> u32 list \<Rightarrow> bytes \<Rightarrow> bytes option" where
  "decipher_block type key b =
     (case type of
        e_xxtea \<Rightarrow> (case block_words b of (x, y) \<Rightarrow>
           map_option (\<lambda>buf. words_block (buf ! 0, buf ! 1)) (xxteaDecipher key [x, y] 2))
      | e_tea \<Rightarrow> Some (words_block (teaDecipher key (block_words b))))"

definition kTeaKey :: "u32 list" where
  "kTeaKey = [0x6c0a5452, 0x03827d0f, 0x3a170b92, 0x16db7fc2]"

definition ascii :: "string \<Rightarrow> bytes" where
  "ascii s = map (\<lambda>c. of_nat (of_char c)) s"

definition magic_type :: "bytes \<Rightarrow> enc_type option" where
  "magic_type header =
     (if take 12 header = ascii ''whatdoyousee'' \<or> take 12 header = ascii ''BriceIsSmart''
      then Some e_tea
      else if take 12 header = ascii ''notthedroids'' then Some e_xxtea
      else None)"

text \<open>
  The constructor. The base stream enters through its virtual operations; \<open>base->tell() == 0\<close> is the
  argument \<open>at_start\<close>.
\<close>

definition EncryptedStream_new ::
  "('s \<Rightarrow> nat \<Rightarrow> bytes \<times> 's) \<Rightarrow> ('s \<Rightarrow> bytes \<Rightarrow> 's) \<Rightarrow> bool \<Rightarrow> 's \<Rightarrow> enc_mode \<Rightarrow> enc_type option
     \<Rightarrow> u32 list option \<Rightarrow> ds_error + 's EncryptedStream" where
  "EncryptedStream_new rb wb at_start base mode type keys =
     (if \<not> at_start then Inl AssertionFailure
      else if type = None \<and> mode = e_write then Inl AssertionFailure
      else let m = \<lparr>m_base = Some base, es_buffer = replicate 8 0,
                    es_key = (case keys of Some k \<Rightarrow> k | None \<Rightarrow> kTeaKey),
                    es_pos = 0, es_size = 0,
                    es_type = (case type of Some t \<Rightarrow> t | None \<Rightarrow> e_tea), es_mode = mode\<rparr>
           in case mode of
                e_read \<Rightarrow>
                  (case rb base 16 of (got, base') \<Rightarrow>
                     let header = fill (replicate 16 0) got
                     in case magic_type header of
                          None \<Rightarrow> Inl (FileIOException ''Unknown EncryptedString magic'')
                        | Some t \<Rightarrow>
                            if \<not> (type = None \<or> type = Some t) then Inl AssertionFailure
                            else Inr (m\<lparr>m_base := Some base', es_type := t,
                                        es_size := le_word (take 4 (drop 12 header))\<rparr>))
              | e_write \<Rightarrow> Inr (m\<lparr>m_base := Some (wb base (replicate 16 0))\<rparr>))"

text \<open>\<open>CheckEncryption(DS::Stream*)\<close> on a RAM stream; \<open>header0\<close> is the uninitialised local array.\<close>

definition CheckEncryption :: "bytes \<Rightarrow> BufferStream \<Rightarrow> enc_type option \<times> BufferStream" where
  "CheckEncryption header0 stream =
     (let pos = BufferStream_tell stream;
          stream = (if pos \<noteq> 0 then BufferStream_seek stream 0 SEEK_SET else stream)
      in case BufferStream_readBytes stream 12 of (got, stream) \<Rightarrow>
           (magic_type (fill header0 got), BufferStream_seek stream (sint pos) SEEK_SET))"

definition setKeys :: "u32 list \<Rightarrow> 's EncryptedStream \<Rightarrow> 's EncryptedStream" where
  "setKeys keys es = es\<lparr>es_key := keys\<rparr>"

definition cryptFlush :: "('s \<Rightarrow> bytes \<Rightarrow> 's) \<Rightarrow> 's EncryptedStream \<Rightarrow> 's EncryptedStream" where
  "cryptFlush wb es =
     es\<lparr>m_base := map_option (\<lambda>s. wb s (encipher_block (es_type es) (es_key es) (es_buffer es))) (m_base es),
        es_buffer := replicate 8 0\<rparr>"

definition EncryptedStream_close ::
  "('s \<Rightarrow> bytes \<Rightarrow> 's) \<Rightarrow> ('s \<Rightarrow> 's) \<Rightarrow> 's EncryptedStream \<Rightarrow> 's option \<times> 's EncryptedStream" where
  "EncryptedStream_close wb rewind es =
     (case m_base es of
        None \<Rightarrow> (None, es)
      | Some _ \<Rightarrow>
          let es = (if es_mode es = e_write \<and> unat (es_pos es) mod 8 \<noteq> 0 then cryptFlush wb es else es);
              base = (if es_mode es = e_write then
                        map_option (\<lambda>s. wb (wb (rewind s)
                            (ascii (case es_type es of e_xxtea \<Rightarrow> ''notthedroids'' | e_tea \<Rightarrow> ''whatdoyousee'')))
                            (write_u32 (es_size es))) (m_base es)
                      else m_base es)
          in (base, es\<lparr>m_base := None\<rparr>))"

text \<open>
  The loop of \<open>readBytes\<close>: \<open>todo\<close> is \<open>count - bp\<close>, and \<open>lp\<close> is always below the block size. The
  decryption of a block is an option, since the XXTEA loop is.
\<close>

function (sequential) es_read_loop ::
  "('s \<Rightarrow> nat \<Rightarrow> bytes \<times> 's) \<Rightarrow> 's EncryptedStream \<Rightarrow> 's \<Rightarrow> nat \<Rightarrow> nat \<Rightarrow> (bytes \<times> 's EncryptedStream) option" where
  "es_read_loop rb es base lp todo =
     (if todo = 0 \<or> 8 \<le> lp then Some ([], es\<lparr>m_base := Some base\<rparr>)
      else case (if lp = 0 then
                   (case rb base 8 of (got, base') \<Rightarrow>
                      map_option (\<lambda>b. (es\<lparr>es_buffer := b\<rparr>, base'))
                        (decipher_block (es_type es) (es_key es) (fill (es_buffer es) got)))
                 else Some (es, base)) of
             None \<Rightarrow> None
           | Some (es, base) \<Rightarrow>
               if lp + todo \<ge> 8
               then map_option (\<lambda>(out, es'). (take (8 - lp) (drop lp (es_buffer es)) @ out, es'))
                      (es_read_loop rb es base 0 (todo - (8 - lp)))
               else Some (take todo (drop lp (es_buffer es)), es\<lparr>m_base := Some base\<rparr>))"
  by pat_completeness auto
termination by (relation "measure (\<lambda>(rb, es, base, lp, todo). todo)") auto

declare es_read_loop.simps [simp del]

definition EncryptedStream_readBytes ::
  "('s \<Rightarrow> nat \<Rightarrow> bytes \<times> 's) \<Rightarrow> 's EncryptedStream \<Rightarrow> nat \<Rightarrow> ds_error + (bytes \<times> 's EncryptedStream)" where
  "EncryptedStream_readBytes rb es count =
     (if es_mode es \<noteq> e_read then Inl (FileIOException ''EncryptedStream instance is not readable'')
      else case m_base es of
        None \<Rightarrow> Inl UndefinedBehaviour
      | Some base \<Rightarrow>
          (case es_read_loop rb es base (unat (es_pos es) mod 8) count of
             None \<Rightarrow> Inl NoFuel
           | Some (out, es') \<Rightarrow> Inr (out, es'\<lparr>es_pos := es_pos es + of_nat count\<rparr>)))"

function (sequential) es_write_loop ::
  "('s \<Rightarrow> bytes \<Rightarrow> 's) \<Rightarrow> 's EncryptedStream \<Rightarrow> nat \<Rightarrow> bytes \<Rightarrow> 's EncryptedStream" where
  "es_write_loop wb es lp data =
     (if data = [] \<or> 8 \<le> lp then es
      else if lp + length data \<ge> 8
      then let n = 8 - lp;
               es = es\<lparr>es_buffer := take lp (es_buffer es) @ take n data @ drop 8 (es_buffer es)\<rparr>
           in es_write_loop wb (cryptFlush wb es) 0 (drop n data)
      else es\<lparr>es_buffer := take lp (es_buffer es) @ data @ drop (lp + length data) (es_buffer es)\<rparr>)"
  by pat_completeness auto
termination by (relation "measure (\<lambda>(wb, es, lp, data). length data)") auto

declare es_write_loop.simps [simp del]

definition EncryptedStream_writeBytes ::
  "('s \<Rightarrow> bytes \<Rightarrow> 's) \<Rightarrow> 's EncryptedStream \<Rightarrow> bytes \<Rightarrow> ds_error + 's EncryptedStream" where
  "EncryptedStream_writeBytes wb es buffer =
     (if es_mode es \<noteq> e_write then Inl (FileIOException ''EncryptedStream instance is not writeable'')
      else let es' = es_write_loop wb es (unat (es_pos es) mod 8) buffer;
               p = es_pos es + of_nat (length buffer)
           in Inr (es'\<lparr>es_pos := p, es_size := max (es_size es) p\<rparr>))"

text \<open>A client that writes, or reads, chunk after chunk.\<close>

fun es_write_all ::
  "('s \<Rightarrow> bytes \<Rightarrow> 's) \<Rightarrow> 's EncryptedStream \<Rightarrow> bytes list \<Rightarrow> ds_error + 's EncryptedStream" where
  "es_write_all wb es [] = Inr es"
| "es_write_all wb es (b # bss) =
     (case EncryptedStream_writeBytes wb es b of Inl e \<Rightarrow> Inl e | Inr es' \<Rightarrow> es_write_all wb es' bss)"

fun es_read_all ::
  "('s \<Rightarrow> nat \<Rightarrow> bytes \<times> 's) \<Rightarrow> 's EncryptedStream \<Rightarrow> nat list \<Rightarrow> ds_error + bytes list" where
  "es_read_all rb es [] = Inr []"
| "es_read_all rb es (n # ns) =
     (case EncryptedStream_readBytes rb es n of Inl e \<Rightarrow> Inl e
      | Inr (b, es') \<Rightarrow> (case es_read_all rb es' ns of Inl e \<Rightarrow> Inl e | Inr bss \<Rightarrow> Inr (b # bss)))"

section \<open>The ciphers invert each other\<close>

lemma tea_dec_enc_step: "tea_dec_step k (tea_enc_step k x) = x"
  by (cases x) (simp add: tea_dec_step_def tea_enc_step_def Let_def)

lemma funpow_inverse:
  fixes f g :: "'a \<Rightarrow> 'a"
  shows "(\<And>x. g (f x) = x) \<Longrightarrow> (g ^^ n) ((f ^^ n) x) = x"
proof (induction n)
  case (Suc n)
  have "(g ^^ Suc n) ((f ^^ Suc n) x) = (g ^^ n) (g (f ((f ^^ n) x)))"
    by (subst funpow_Suc_right) simp
  with Suc show ?case by simp
qed simp

lemma tea_enc_key: "snd (snd ((tea_enc_step k ^^ n) (x, y, z))) = z + of_nat n * 0x9E3779B9"
  by (induction n) (simp_all add: tea_enc_step_def Let_def case_prod_unfold algebra_simps)

lemma teaDecipher_teaEncipher: "teaDecipher k (teaEncipher k b) = b"
proof -
  obtain b0 b1 where b: "b = (b0, b1)" by (cases b)
  obtain f s z where e: "(tea_enc_step k ^^ 32) (b0, b1, 0) = (f, s, z)" by (cases "(tea_enc_step k ^^ 32) (b0, b1, 0)")
  have "z = 0xC6EF3720" using tea_enc_key [of 32 k b0 b1 0] unfolding e by simp
  with e have "(tea_dec_step k ^^ 32) (f, s, 0xC6EF3720) = (b0, b1, 0)"
    using funpow_inverse [of "tea_dec_step k" "tea_enc_step k" 32 "(b0, b1, 0)"]
    by (simp add: tea_dec_enc_step)
  then show ?thesis by (simp add: teaDecipher_def teaEncipher_def b e del: funpow.simps)
qed

lemma xxtea_round2:
  "xxtea_enc_round k 2 key [x, y] =
     (let x' = x + xxtea_mix k key 0 y in [x', y + xxtea_mix k key 1 x'])"
  "xxtea_dec_round k 2 key [x, y] =
     (let y' = y - xxtea_mix k key 1 x in [x - xxtea_mix k key 0 y', y'])"
  by (simp_all add: xxtea_enc_round_def xxtea_dec_round_def Let_def upt_rec numeral_2_eq_2)

lemma xxtea_dec_enc_round: "xxtea_dec_round k 2 key (xxtea_enc_round k 2 key [x, y]) = [x, y]"
  by (simp add: xxtea_round2 Let_def)

text \<open>The golden-ratio constant is odd, so its small multiples are not zero.\<close>

lemma delta_multiple_nonzero: "0 < n \<Longrightarrow> n < 2 ^ 32 \<Longrightarrow> (of_nat n * 0x9E3779B9 :: u32) \<noteq> 0"
proof
  assume n: "0 < n" "n < 2 ^ 32" and z: "of_nat n * 0x9E3779B9 = (0 :: u32)"
  have inverse: "(0x9E3779B9 * 0x144CBC89 :: u32) = 1" by simp
  have "(of_nat n :: u32) = of_nat n * (0x9E3779B9 * 0x144CBC89)"
    by (simp only: inverse mult_1_right)
  also have "\<dots> = of_nat n * 0x9E3779B9 * 0x144CBC89" by (simp only: mult.assoc)
  also have "\<dots> = 0" by (simp only: z mult_zero_left)
  finally have "(of_nat n :: u32) = 0" .
  then have "2 ^ 32 dvd n" by (simp add: word_of_nat_eq_0_iff)
  then have "2 ^ 32 \<le> n" using n(1) by (rule dvd_imp_le)
  with n(2) show False by linarith
qed

lemma minus_delta: "(0x61C88647 :: u32) = - 0x9E3779B9"
  by simp

text \<open>The rounds of encryption from round key \<open>m * delta\<close> on, last round first.\<close>

lemma xxtea_enc_loop_snoc:
  "xxtea_enc_loop k num (Suc c) key buf =
     xxtea_enc_round k num (key + of_nat (Suc c) * 0x9E3779B9) (xxtea_enc_loop k num c key buf)"
proof (induction c arbitrary: key buf)
  case 0
  show ?case by (simp add: minus_delta)
next
  case (Suc c)
  let ?key' = "key - 0x61C88647"
  have "xxtea_enc_loop k num (Suc (Suc c)) key buf
      = xxtea_enc_loop k num (Suc c) ?key' (xxtea_enc_round k num ?key' buf)"
    by (simp add: Let_def)
  also have "\<dots> = xxtea_enc_round k num (?key' + of_nat (Suc c) * 0x9E3779B9)
      (xxtea_enc_loop k num c ?key' (xxtea_enc_round k num ?key' buf))"
    by (rule Suc.IH)
  also have "?key' + of_nat (Suc c) * 0x9E3779B9 = key + of_nat (Suc (Suc c)) * 0x9E3779B9"
    by (simp add: minus_delta algebra_simps)
  finally show ?case by (simp add: Let_def)
qed

text \<open>The decryption loop returns, and undoes the encryption of a block of two words.\<close>

lemma xxtea_enc_loop_pair: "\<exists>x' y'. xxtea_enc_loop k 2 c key [x, y] = [x', y']"
  by (induction c arbitrary: key x y) (auto simp: Let_def xxtea_round2)

lemma xxtea_dec_loop_inverts:
  assumes "c < 2 ^ 32"
  shows "xxtea_dec_loop k 2 (of_nat c * 0x9E3779B9) (xxtea_enc_loop k 2 c 0 [x, y]) = Some [x, y]"
  using assms
proof (induction c)
  case 0
  show ?case by (simp add: xxtea_dec_loop.simps)
next
  case (Suc c)
  let ?key = "of_nat (Suc c) * 0x9E3779B9 :: u32"
  obtain x' y' where e: "xxtea_enc_loop k 2 c 0 [x, y] = [x', y']" using xxtea_enc_loop_pair by blast
  have "?key \<noteq> 0" using Suc.prems by (intro delta_multiple_nonzero) auto
  then have unfold: "xxtea_dec_loop k 2 ?key b = xxtea_dec_loop k 2 (?key + 0x61C88647) (xxtea_dec_round k 2 ?key b)"
    for b by (subst xxtea_dec_loop.simps) simp
  have last: "xxtea_enc_loop k 2 (Suc c) 0 [x, y] = xxtea_enc_round k 2 ?key [x', y']"
    by (simp only: xxtea_enc_loop_snoc e add_0_left)
  have prev: "?key + 0x61C88647 = of_nat c * 0x9E3779B9"
    by (simp add: minus_delta algebra_simps)
  show ?case
    using Suc by (simp only: unfold last prev xxtea_dec_enc_round e)
qed

lemma xxteaDecipher_xxteaEncipher: "xxteaDecipher k (xxteaEncipher k [x, y] 2) 2 = Some [x, y]"
  unfolding xxteaDecipher_def xxteaEncipher_def by (rule xxtea_dec_loop_inverts) simp


lemma words_block_words: "length b = 8 \<Longrightarrow> words_block (block_words b) = b"
  by (simp add: words_block_def block_words_def le_bytes_le_word)

lemma block_words_block: "block_words (words_block w) = w"
  by (cases w) (simp add: words_block_def block_words_def le_word_le_bytes)

lemma length_words_block [simp]: "length (words_block w) = 8"
  by (cases w) (simp add: words_block_def)

lemma length_encipher_block [simp]: "length (encipher_block t k b) = 8"
  by (cases t) (simp_all add: encipher_block_def Let_def split: prod.split)

lemma decipher_encipher_block:
  assumes "length b = 8" shows "decipher_block t k (encipher_block t k b) = Some b"
proof (cases t)
  case e_tea
  then show ?thesis
    by (simp add: decipher_block_def encipher_block_def block_words_block teaDecipher_teaEncipher
        words_block_words assms)
next
  case e_xxtea
  obtain x y where xy: "block_words b = (x, y)" by (cases "block_words b")
  obtain x' y' where e: "xxteaEncipher k [x, y] 2 = [x', y']"
    unfolding xxteaEncipher_def using xxtea_enc_loop_pair by blast
  show ?thesis
    using xxteaDecipher_xxteaEncipher [of k x y] words_block_words [OF assms]
    by (simp add: e_xxtea decipher_block_def encipher_block_def xy e block_words_block)
qed

section \<open>Writing\<close>

text \<open>The ciphertext of the full blocks of a text.\<close>

function enc_blocks :: "enc_type \<Rightarrow> u32 list \<Rightarrow> bytes \<Rightarrow> bytes" where
  "enc_blocks t k p =
     (if length p < 8 then [] else encipher_block t k (take 8 p) @ enc_blocks t k (drop 8 p))"
  by pat_completeness auto
termination by (relation "measure (\<lambda>(t, k, p). length p)") auto

declare enc_blocks.simps [simp del]

lemma enc_blocks_short: "length p < 8 \<Longrightarrow> enc_blocks t k p = []"
  by (simp add: enc_blocks.simps)

lemma enc_blocks_block: "length b = 8 \<Longrightarrow> enc_blocks t k (b @ p) = encipher_block t k b @ enc_blocks t k p"
  by (simp add: enc_blocks.simps [of t k "b @ p"])

lemma enc_blocks_append: "8 dvd length a \<Longrightarrow> enc_blocks t k (a @ b) = enc_blocks t k a @ enc_blocks t k b"
proof (induction t k a rule: enc_blocks.induct)
  case (1 t k a)
  show ?case
  proof (cases "length a < 8")
    case True
    with 1 have "a = []" using dvd_imp_le [of 8 "length a"] by fastforce
    then show ?thesis by (simp add: enc_blocks_short)
  next
    case False
    have "8 dvd length (drop 8 a)" using 1(2) False by (simp add: dvd_diff_nat)
    with 1(1) False show ?thesis
      by (simp add: enc_blocks.simps [of t k "a @ b"] enc_blocks.simps [of t k a])
  qed
qed

lemma length_enc_blocks: "8 dvd length p \<Longrightarrow> length (enc_blocks t k p) = length p"
proof (induction t k p rule: enc_blocks.induct)
  case (1 t k p)
  then show ?case
    by (cases "length p < 8")
      (auto simp: enc_blocks.simps [of t k p] dvd_diff_nat dest: dvd_imp_le)
qed

definition pad8 :: "bytes \<Rightarrow> bytes" where
  "pad8 p = p @ replicate ((8 - length p mod 8) mod 8) 0"

lemma pad8_dvd: "8 dvd length (pad8 p)"
proof (cases "length p mod 8 = 0")
  case True
  then show ?thesis by (simp add: pad8_def mod_eq_0_iff_dvd)
next
  case False
  have "length (pad8 p) = length p + (8 - length p mod 8)" using False by (simp add: pad8_def)
  also have "\<dots> = 8 * (length p div 8) + 8"
    using mult_div_mod_eq [of 8 "length p"] mod_less_divisor [of 8 "length p"] by linarith
  finally show ?thesis by simp
qed

definition magic :: "enc_type \<Rightarrow> bytes" where
  "magic t = ascii (case t of e_xxtea \<Rightarrow> ''notthedroids'' | e_tea \<Rightarrow> ''whatdoyousee'')"

lemma length_magic [simp]: "length (magic t) = 12"
  by (cases t) (simp_all add: magic_def ascii_def)

lemma magic_type_magic: "magic_type (magic t @ bs) = Some t"
  by (cases t) (simp_all add: magic_type_def magic_def ascii_def)

text \<open>The encrypted file of a text.\<close>

definition enc_file :: "enc_type \<Rightarrow> u32 list \<Rightarrow> bytes \<Rightarrow> bytes" where
  "enc_file t k p = magic t @ write_u32 (of_nat (length p)) @ enc_blocks t k (pad8 p)"

text \<open>The state of a stream to which the text \<open>p\<close> has been written.\<close>

definition es_written ::
  "('s \<Rightarrow> bytes) \<Rightarrow> ('s \<Rightarrow> nat) \<Rightarrow> ('s \<Rightarrow> bool) \<Rightarrow> bytes \<Rightarrow> 's EncryptedStream \<Rightarrow> bool" where
  "es_written contents pos ok p es \<longleftrightarrow>
     (\<exists>s full part. m_base es = Some s \<and> ok s \<and> pos s = length (contents s)
        \<and> contents s = replicate 16 0 @ enc_blocks (es_type es) (es_key es) full \<and> 8 dvd length full
        \<and> es_buffer es = part @ replicate (8 - length part) 0 \<and> length part < 8 \<and> p = full @ part)
     \<and> es_mode es = e_write \<and> unat (es_pos es) = length p \<and> es_size es = es_pos es"

text \<open>
  What \<open>close\<close> needs beyond writing: going back to the start with the contents kept.
\<close>

locale rewindable = output_stream +
  fixes rewind :: "'a \<Rightarrow> 'a"
  assumes rewind_contents: "inv s \<Longrightarrow> contents (rewind s) = contents s"
    and rewind_pos: "inv s \<Longrightarrow> pos (rewind s) = 0"
    and rewind_inv: "inv s \<Longrightarrow> inv (rewind s)"
begin

text \<open>
  After \<open>full @ part\<close> has been written, with \<open>full\<close> made of whole blocks and \<open>part\<close> shorter than
  one, the base holds the header space and the ciphertext of \<open>full\<close>, and the buffer holds \<open>part\<close>
  padded with zeros.
\<close>

lemma write_loop:
  assumes "m_base es = Some s" "inv s" "pos s = length (contents s)"
    and "contents s = hdr @ enc_blocks (es_type es) (es_key es) full" "8 dvd length full"
    and "es_buffer es = part @ replicate (8 - length part) 0" "length part < 8"
    and "length (contents s) + length part + length data + 16 < 2 ^ 62"
  shows "\<exists>s' full' part'. full @ part @ data = full' @ part' \<and> 8 dvd length full' \<and> length part' < 8
    \<and> inv s' \<and> pos s' = length (contents s')
    \<and> contents s' = hdr @ enc_blocks (es_type es) (es_key es) full'
    \<and> es_write_loop writeBytes es (length part) data
        = es\<lparr>m_base := Some s', es_buffer := part' @ replicate (8 - length part') 0\<rparr>"
  using assms
proof (induction data arbitrary: es s full part rule: length_induct)
  case (1 data)
  note base = 1(2) and inv = 1(3) and pos = 1(4) and cont = 1(5) and full = 1(6) and buf = 1(7)
    and part = 1(8) and room = 1(9)
  let ?lp = "length part"
  show ?case
  proof (cases "?lp + length data < 8")
    case True
    then have "es_write_loop writeBytes es ?lp data
        = es\<lparr>es_buffer := (part @ data) @ replicate (8 - length (part @ data)) 0\<rparr>"
      using buf part by (auto simp: es_write_loop.simps [of writeBytes es ?lp data])
    also have "\<dots> = es\<lparr>m_base := Some s, es_buffer := (part @ data) @ replicate (8 - length (part @ data)) 0\<rparr>"
      using base by simp
    finally show ?thesis
      using True full inv pos cont
      by (intro exI [of _ s] exI [of _ full] exI [of _ "part @ data"]) simp
  next
    case False
    define b where "b = part @ take (8 - ?lp) data"
    define es1 where "es1 = cryptFlush writeBytes (es\<lparr>es_buffer := b\<rparr>)"
    let ?c = "encipher_block (es_type es) (es_key es) b"
    let ?s = "writeBytes s ?c"
    let ?rest = "drop (8 - ?lp) data"
    have b: "length b = 8" using False part by (simp add: b_def)
    have room1: "pos s + length ?c < 2 ^ 62" using pos room by simp
    have cont1: "contents ?s = contents s @ ?c"
      using pos by (simp add: write_contents [OF inv room1] overwrite_def)
    have es1: "es1 = es\<lparr>m_base := Some ?s, es_buffer := replicate 8 0\<rparr>"
      by (simp add: es1_def cryptFlush_def base)
    have step: "es_write_loop writeBytes es ?lp data = es_write_loop writeBytes es1 0 ?rest"
      using False buf part
      by (auto simp: es_write_loop.simps [of writeBytes es ?lp data] es1_def b_def Let_def)
    have "\<exists>s' full' part'. (full @ b) @ [] @ ?rest = full' @ part' \<and> 8 dvd length full' \<and> length part' < 8
      \<and> inv s' \<and> pos s' = length (contents s')
      \<and> contents s' = hdr @ enc_blocks (es_type es1) (es_key es1) full'
      \<and> es_write_loop writeBytes es1 (length ([] :: bytes)) ?rest
          = es1\<lparr>m_base := Some s', es_buffer := part' @ replicate (8 - length part') 0\<rparr>"
    proof (rule 1(1) [rule_format])
      show "length ?rest < length data" using False part by simp
      show "m_base es1 = Some ?s" "es_buffer es1 = [] @ replicate (8 - length ([] :: bytes)) 0"
        by (simp_all add: es1)
      show "inv ?s" "pos ?s = length (contents ?s)"
        using pos by (simp_all add: write_inv [OF inv room1] write_pos [OF inv room1] cont1)
      show "contents ?s = hdr @ enc_blocks (es_type es1) (es_key es1) (full @ b)"
        using full enc_blocks_block [OF b, of "es_type es" "es_key es" "[]"]
        by (simp add: cont1 cont es1 enc_blocks_append enc_blocks_short)
      show "8 dvd length (full @ b)" using full b by simp
      show "length (contents ?s) + length ([] :: bytes) + length ?rest + 16 < 2 ^ 62"
        using room False part by (simp add: cont1)
    qed simp
    moreover have "(full @ b) @ [] @ ?rest = full @ part @ data" by (simp add: b_def)
    ultimately show ?thesis by (simp add: step es1)
  qed
qed

lemma writeBytes_ok:
  assumes w: "es_written contents pos inv p es" and len: "length p + length b < 2 ^ 32"
  shows "\<exists>es'. EncryptedStream_writeBytes writeBytes es b = Inr es' \<and> es_written contents pos inv (p @ b) es'
    \<and> es_type es' = es_type es \<and> es_key es' = es_key es"
proof -
  from w obtain s full part where st: "m_base es = Some s" "inv s" "pos s = length (contents s)"
      "contents s = replicate 16 0 @ enc_blocks (es_type es) (es_key es) full" "8 dvd length full"
      "es_buffer es = part @ replicate (8 - length part) 0" "length part < 8"
    and p: "p = full @ part" and m: "es_mode es = e_write" "unat (es_pos es) = length p" "es_size es = es_pos es"
    unfolding es_written_def by auto
  have lp: "unat (es_pos es) mod 8 = length part" using p m(2) st(5,7) by auto
  then have lp': "length p mod 8 = length part" using m(2) by simp
  have "length (contents s) + length part + length b + 16 < 2 ^ 62"
    using len p st(5) by (simp add: st(4) length_enc_blocks)
  from write_loop [OF st this] obtain s' full' part'
    where r: "full @ part @ b = full' @ part'" "8 dvd length full'" "length part' < 8" "inv s'"
      "pos s' = length (contents s')" "contents s' = replicate 16 0 @ enc_blocks (es_type es) (es_key es) full'"
    and loop: "es_write_loop writeBytes es (length part) b
        = es\<lparr>m_base := Some s', es_buffer := part' @ replicate (8 - length part') 0\<rparr>" by blast
  have sum: "unat (es_pos es + of_nat (length b)) = length (p @ b)"
    using len m(2) by (simp add: unat_word_ariths unat_of_nat)
  have le: "es_pos es \<le> es_pos es + of_nat (length b)"
    using sum m(2) by (simp add: word_le_nat_alt)
  have "EncryptedStream_writeBytes writeBytes es b = Inr (es\<lparr>m_base := Some s',
      es_buffer := part' @ replicate (8 - length part') 0,
      es_pos := es_pos es + of_nat (length b), es_size := es_pos es + of_nat (length b)\<rparr>)"
    using le by (simp add: EncryptedStream_writeBytes_def m lp' loop max_def Let_def)
  moreover have "p @ b = full' @ part'" using r(1) p by simp
  ultimately show ?thesis using r(2-6) m(1) sum by (auto simp: es_written_def)
qed

lemma write_all_ok:
  assumes "es_written contents pos inv p es" and "length p + length (concat bss) < 2 ^ 32"
  shows "\<exists>es'. es_write_all writeBytes es bss = Inr es' \<and> es_written contents pos inv (p @ concat bss) es'
    \<and> es_type es' = es_type es \<and> es_key es' = es_key es"
  using assms
proof (induction bss arbitrary: p es)
  case Nil
  then show ?case by simp
next
  case (Cons b bss)
  obtain es' where es': "EncryptedStream_writeBytes writeBytes es b = Inr es'"
    "es_written contents pos inv (p @ b) es'" "es_type es' = es_type es" "es_key es' = es_key es"
    using writeBytes_ok [of p es b] Cons.prems by auto
  with Cons.IH [of "p @ b" es'] Cons.prems(2) show ?case by auto
qed

lemma flush_ok:
  assumes "m_base es = Some s" "inv s" "pos s = length (contents s)" "length (contents s) + 8 < 2 ^ 62"
  shows "\<exists>s'. m_base (cryptFlush writeBytes es) = Some s' \<and> inv s' \<and> pos s' = length (contents s')
    \<and> contents s' = contents s @ encipher_block (es_type es) (es_key es) (es_buffer es)"
  using assms write_inv [of s] write_pos [of s] write_contents [of s]
  by (simp add: cryptFlush_def overwrite_def)

lemma header_ok:
  assumes "inv s" "contents s = replicate 16 0 @ c" "length c + 16 < 2 ^ 62"
  shows "contents (writeBytes (writeBytes (rewind s) (magic t)) (write_u32 n)) = magic t @ write_u32 n @ c"
    and "inv (writeBytes (writeBytes (rewind s) (magic t)) (write_u32 n))"
proof -
  let ?s0 = "rewind s" and ?s1 = "writeBytes (rewind s) (magic t)"
  note rw = rewind_contents [OF assms(1)] rewind_pos [OF assms(1)] rewind_inv [OF assms(1)]
  have l0: "pos ?s0 + length (magic t) < 2 ^ 62" by (simp add: rw)
  note w1 = write_contents [OF rw(3) l0] write_pos [OF rw(3) l0] write_inv [OF rw(3) l0]
  have l1: "pos ?s1 + length (write_u32 n) < 2 ^ 62" by (simp add: w1 rw)
  note w2 = write_contents [OF w1(3) l1] write_inv [OF w1(3) l1]
  show "inv (writeBytes ?s1 (write_u32 n))" by (rule w2(2))
  show "contents (writeBytes ?s1 (write_u32 n)) = magic t @ write_u32 n @ c"
    unfolding w2(1) w1(1,2) rw assms(2) by (simp add: overwrite_def)
qed

lemma close_ok:
  assumes w: "es_written contents pos inv p es" and len: "length p < 2 ^ 32"
  shows "\<exists>base. fst (EncryptedStream_close writeBytes rewind es) = Some base \<and> inv base
    \<and> contents base = enc_file (es_type es) (es_key es) p"
proof -
  let ?E = "enc_blocks (es_type es) (es_key es)"
  from w obtain s full part where st: "m_base es = Some s" "inv s" "pos s = length (contents s)"
      "contents s = replicate 16 0 @ ?E full" "8 dvd length full"
      "es_buffer es = part @ replicate (8 - length part) 0" "length part < 8"
    and p: "p = full @ part" and m: "es_mode es = e_write" "unat (es_pos es) = length p" "es_size es = es_pos es"
    unfolding es_written_def by auto
  define es1 where "es1 = (if unat (es_pos es) mod 8 \<noteq> 0 then cryptFlush writeBytes es else es)"
  have part: "length p mod 8 = length part" using p st(5,7) by auto
  have "\<exists>s1. m_base es1 = Some s1 \<and> inv s1 \<and> contents s1 = replicate 16 0 @ ?E (pad8 p)"
  proof (cases "part = []")
    case True
    then show ?thesis using st m(2) part p by (simp add: es1_def pad8_def)
  next
    case False
    have "length (contents s) + 8 < 2 ^ 62" using len p st(5) by (simp add: st(4) length_enc_blocks)
    from flush_ok [OF st(1-3) this] have "\<exists>s1. m_base es1 = Some s1 \<and> inv s1
        \<and> contents s1 = contents s @ encipher_block (es_type es) (es_key es) (es_buffer es)"
      using False m(2) part by (auto simp: es1_def)
    moreover have "pad8 p = full @ es_buffer es"
      using False part st(6,7) p by (simp add: pad8_def mod_less)
    moreover have "length (es_buffer es) = 8" using st(6,7) by simp
    ultimately show ?thesis
      using st(4,5) enc_blocks_block [of "es_buffer es" "es_type es" "es_key es" "[]"]
      by (auto simp: enc_blocks_append enc_blocks_short)
  qed
  then obtain s1 where s1: "m_base es1 = Some s1" "inv s1" "contents s1 = replicate 16 0 @ ?E (pad8 p)"
    by blast
  have size: "length (?E (pad8 p)) + 16 < 2 ^ 62"
    using len pad8_dvd [of p] by (simp add: length_enc_blocks pad8_def)
  have same: "es_type es1 = es_type es" "es_size es1 = es_size es" "es_mode es1 = e_write"
    by (simp_all add: es1_def cryptFlush_def m(1))
  have n: "es_size es = of_nat (length p)" unfolding m(2) [symmetric] m(3) by simp
  have "EncryptedStream_close writeBytes rewind es =
      (map_option (\<lambda>s. writeBytes (writeBytes (rewind s) (magic (es_type es1))) (write_u32 (es_size es1)))
         (m_base es1), es1\<lparr>m_base := None\<rparr>)"
    using st(1) m(1) same(3) by (simp add: EncryptedStream_close_def es1_def magic_def Let_def)
  then have "fst (EncryptedStream_close writeBytes rewind es)
      = Some (writeBytes (writeBytes (rewind s1) (magic (es_type es))) (write_u32 (of_nat (length p))))"
    by (simp add: s1(1) same n)
  then show ?thesis using header_ok [OF s1(2,3) size] by (simp add: enc_file_def)
qed

end

section \<open>Reading\<close>

text \<open>
  The decrypted text still to come, \<open>lp\<close> bytes into the buffered block: the rest of the buffer and
  the text of the blocks the base has left.
\<close>

definition es_view ::
  "('s \<Rightarrow> bytes) \<Rightarrow> ('s \<Rightarrow> bool) \<Rightarrow> 's EncryptedStream \<Rightarrow> 's \<Rightarrow> nat \<Rightarrow> bytes \<Rightarrow> bool" where
  "es_view unread ok es base lp V \<longleftrightarrow>
     (\<exists>R. ok base \<and> unread base = enc_blocks (es_type es) (es_key es) R \<and> 8 dvd length R
        \<and> length (es_buffer es) = 8 \<and> V = (if lp = 0 then R else drop lp (es_buffer es) @ R))"

lemma es_view_base [simp]: "es_view unread ok (es\<lparr>m_base := b\<rparr>) base lp V = es_view unread ok es base lp V"
  "es_view unread ok (es\<lparr>es_pos := q\<rparr>) base lp V = es_view unread ok es base lp V"
  by (simp_all add: es_view_def)

context input_stream
begin

lemma fill_block:
  assumes "es_view unread inv es base 0 V" and "V \<noteq> []"
  shows "\<exists>b base'. readBytes base 8 = (b, base')
    \<and> decipher_block (es_type es) (es_key es) (fill (es_buffer es) b) = Some (take 8 V)
    \<and> length (take 8 V) = 8 \<and> es_view unread inv (es\<lparr>es_buffer := take 8 V\<rparr>) base' 0 (drop 8 V)"
proof -
  from assms have v: "inv base" "unread base = enc_blocks (es_type es) (es_key es) V" "8 dvd length V"
    "length (es_buffer es) = 8" by (auto simp: es_view_def)
  from v(3) assms(2) have "8 \<le> length V" by (simp add: dvd_imp_le)
  then have V: "V = take 8 V @ drop 8 V" "length (take 8 V) = 8" by simp_all
  have u: "unread base = encipher_block (es_type es) (es_key es) (take 8 V) @ enc_blocks (es_type es) (es_key es) (drop 8 V)"
    unfolding v(2) by (subst V(1)) (rule enc_blocks_block [OF V(2)])
  obtain b base' where rb: "readBytes base 8 = (b, base')" by (cases "readBytes base 8")
  have b: "b = encipher_block (es_type es) (es_key es) (take 8 V)"
    using read_result [OF v(1), of 8] rb u by simp
  have b': "unread base' = enc_blocks (es_type es) (es_key es) (drop 8 V)" "inv base'"
    using read_unread [OF v(1), of 8] read_inv [OF v(1), of 8] rb u by simp_all
  have "fill (es_buffer es) b = b" using v(4) by (simp add: fill_def b)
  then show ?thesis
    using rb b' V(2) v(3) decipher_encipher_block [OF V(2)] by (simp add: es_view_def b dvd_diff_nat)
qed

text \<open>The state after the optional decryption at the head of the loop body.\<close>

lemma loop_head:
  assumes "es_view unread inv es base lp V" and "V \<noteq> []"
  shows "\<exists>es1 base1 R1.
    (if lp = 0 then (case readBytes base 8 of (got, base') \<Rightarrow>
        map_option (\<lambda>b. (es\<lparr>es_buffer := b\<rparr>, base'))
          (decipher_block (es_type es) (es_key es) (fill (es_buffer es) got)))
     else Some (es, base)) = Some (es1, base1)
    \<and> V = drop lp (es_buffer es1) @ R1 \<and> es_view unread inv es1 base1 0 R1
    \<and> (\<exists>b. es1 = es\<lparr>es_buffer := b\<rparr>)"
proof (cases "lp = 0")
  case True
  with assms fill_block [of es base V] obtain b base' where "readBytes base 8 = (b, base')"
    "decipher_block (es_type es) (es_key es) (fill (es_buffer es) b) = Some (take 8 V)"
    "es_view unread inv (es\<lparr>es_buffer := take 8 V\<rparr>) base' 0 (drop 8 V)" by blast
  with True show ?thesis
    by (intro exI [of _ "es\<lparr>es_buffer := take 8 V\<rparr>"] exI [of _ base'] exI [of _ "drop 8 V"]) auto
next
  case False
  have "\<exists>b. es = es\<lparr>es_buffer := b\<rparr>" by (rule exI [of _ "es_buffer es"]) simp
  with False show ?thesis using assms(1) unfolding es_view_def by auto
qed

lemma read_loop:
  assumes "es_view unread inv es base lp V" and "lp < 8" and "todo \<le> length V"
  shows "\<exists>es' base'. es_read_loop readBytes es base lp todo = Some (take todo V, es')
    \<and> m_base es' = Some base' \<and> es_view unread inv es' base' ((lp + todo) mod 8) (drop todo V)
    \<and> es_mode es' = es_mode es"
  using assms
proof (induction todo arbitrary: es base lp V rule: less_induct)
  case (less todo)
  show ?case
  proof (cases "todo = 0")
    case True
    then show ?thesis using less.prems by (simp add: es_read_loop.simps [of _ _ _ _ 0])
  next
    case False
    then have "V \<noteq> []" using less.prems(3) by auto
    with loop_head [OF less.prems(1)] obtain es1 base1 R1 b where head:
      "(if lp = 0 then (case readBytes base 8 of (got, base') \<Rightarrow>
          map_option (\<lambda>b. (es\<lparr>es_buffer := b\<rparr>, base'))
            (decipher_block (es_type es) (es_key es) (fill (es_buffer es) got)))
        else Some (es, base)) = Some (es1, base1)"
      and V: "V = drop lp (es_buffer es1) @ R1" and view: "es_view unread inv es1 base1 0 R1"
      and es1: "es1 = es\<lparr>es_buffer := b\<rparr>" by blast
    have len: "length b = 8" using view es1 by (simp add: es_view_def)
    show ?thesis
    proof (cases "lp + todo \<ge> 8")
      case True
      let ?n = "todo - (8 - lp)"
      have "\<exists>es' base'. es_read_loop readBytes es1 base1 0 ?n = Some (take ?n R1, es')
        \<and> m_base es' = Some base' \<and> es_view unread inv es' base' ((0 + ?n) mod 8) (drop ?n R1)
        \<and> es_mode es' = es_mode es1"
        using less.prems(2,3) False by (intro less.IH [OF _ view]) (auto simp: V len es1)
      moreover have "es_read_loop readBytes es base lp todo
          = map_option (\<lambda>(out, es'). (take (8 - lp) (drop lp (es_buffer es1)) @ out, es'))
              (es_read_loop readBytes es1 base1 0 ?n)"
        using True False less.prems(2) by (subst es_read_loop.simps) (simp add: head)
      moreover have "(0 + ?n) mod 8 = (lp + todo) mod 8"
        using True less.prems(2) by (simp add: le_mod_geq add.commute)
      ultimately show ?thesis using True less.prems(2) by (auto simp: V len es1)
    next
      case part: False
      then have "es_read_loop readBytes es base lp todo
          = Some (take todo (drop lp (es_buffer es1)), es1\<lparr>m_base := Some base1\<rparr>)"
        using False less.prems(2) by (subst es_read_loop.simps) (simp add: head)
      moreover have "es_view unread inv es1 base1 (lp + todo) (drop todo V)"
        using view part False by (auto simp: es_view_def V add.commute)
      ultimately show ?thesis using part by (simp add: V len es1)
    qed
  qed
qed

text \<open>Reading chunk by chunk gives the chunks of the text.\<close>

lemma read_all_ok:
  assumes "m_base es = Some base" "es_mode es = e_read"
    and "es_view unread inv es base (unat (es_pos es) mod 8) V" "sum_list ns \<le> length V"
    and "unat (es_pos es) + sum_list ns < 2 ^ 32"
  shows "\<exists>bss. es_read_all readBytes es ns = Inr bss \<and> concat bss = take (sum_list ns) V \<and> map length bss = ns"
  using assms
proof (induction ns arbitrary: es base V)
  case Nil
  then show ?case by simp
next
  case (Cons n ns)
  let ?lp = "unat (es_pos es) mod 8"
  have n: "n \<le> length V" using Cons.prems(4) by simp
  obtain es' base' where r: "es_read_loop readBytes es base ?lp n = Some (take n V, es')"
    "m_base es' = Some base'" "es_view unread inv es' base' ((?lp + n) mod 8) (drop n V)" "es_mode es' = e_read"
    using read_loop [OF Cons.prems(3) _ n] Cons.prems(2) by auto
  define es2 where "es2 = es'\<lparr>es_pos := es_pos es + of_nat n\<rparr>"
  have pos: "unat (es_pos es2) = unat (es_pos es) + n"
    using Cons.prems(5) by (simp add: es2_def unat_word_ariths unat_of_nat)
  have "EncryptedStream_readBytes readBytes es n = Inr (take n V, es2)"
    using r Cons.prems(1,2) by (simp add: EncryptedStream_readBytes_def es2_def)
  moreover have "\<exists>bss. es_read_all readBytes es2 ns = Inr bss
      \<and> concat bss = take (sum_list ns) (drop n V) \<and> map length bss = ns"
  proof (rule Cons.IH)
    show "m_base es2 = Some base'" "es_mode es2 = e_read" using r by (simp_all add: es2_def)
    show "es_view unread inv es2 base' (unat (es_pos es2) mod 8) (drop n V)"
      using r(3) pos by (simp add: es2_def mod_add_left_eq)
    show "unat (es_pos es2) + sum_list ns < 2 ^ 32" using pos Cons.prems(5) by simp
  qed (use Cons.prems(4) in simp)
  ultimately show ?case using n by (auto simp: take_add)
qed

lemma open_ok:
  assumes "inv base" "unread base = enc_file t k p" "length p < 2 ^ 32" "type = None \<or> type = Some t"
    and "(case keys of Some k' \<Rightarrow> k' | None \<Rightarrow> kTeaKey) = k"
  shows "\<exists>es base'. EncryptedStream_new readBytes wb True base e_read type keys = Inr es
    \<and> m_base es = Some base' \<and> es_mode es = e_read \<and> es_view unread inv es base' 0 (pad8 p)
    \<and> es_pos es = 0 \<and> es_type es = t \<and> es_key es = k \<and> unat (es_size es) = length p"
proof -
  let ?h = "magic t @ write_u32 (of_nat (length p))"
  obtain got base' where rb: "readBytes base 16 = (got, base')" by (cases "readBytes base 16")
  have got: "got = ?h" using read_result [OF assms(1), of 16] rb by (simp add: assms(2) enc_file_def)
  have base': "unread base' = enc_blocks t k (pad8 p)" "inv base'"
    using read_unread [OF assms(1), of 16] read_inv [OF assms(1), of 16] rb
    by (simp_all add: assms(2) enc_file_def)
  have hdr: "fill (replicate 16 0) got = ?h" by (simp add: fill_def got)
  have "le_word (take 4 (drop 12 ?h)) = (of_nat (length p) :: u32)"
    by (simp add: write_u32_def Stream_write_def le_word_le_bytes)
  then show ?thesis
    using assms(3,4) base' pad8_dvd [of p]
    by (simp add: EncryptedStream_new_def rb hdr magic_type_magic es_view_def assms(5) unat_of_nat)
qed

end

section \<open>Encryption of RAM streams\<close>

definition BufferStream_rewind :: "BufferStream \<Rightarrow> BufferStream" where
  "BufferStream_rewind s = BufferStream_seek s 0 SEEK_SET"

lemma BufferStream_rewind_facts:
  assumes "BufferStream_inv s"
  shows "BufferStream_contents (BufferStream_rewind s) = BufferStream_contents s"
    and "m_position (BufferStream_rewind s) = 0"
    and "BufferStream_inv (BufferStream_rewind s)"
    and "BufferStream_unread (BufferStream_rewind s) = BufferStream_contents s"
  using assms
  by (simp_all add: BufferStream_rewind_def BufferStream_seek_def BufferStream_contents_def
      BufferStream_unread_def BufferStream_inv_def seek_target_def seek_clamp_def)

interpretation bufrw: rewindable "BufferStream_writeBytes junk" BufferStream_contents m_position
    BufferStream_inv BufferStream_rewind for junk
  by unfold_locales (simp_all add: BufferStream_rewind_facts)

lemma BufferStream_new_inv: "BufferStream_inv BufferStream_new"
  by (simp add: BufferStream_inv_def BufferStream_new_def)

lemma open_write_ok:
  "\<exists>es. EncryptedStream_new rb (BufferStream_writeBytes junk) True BufferStream_new e_write (Some t) keys = Inr es
    \<and> es_written BufferStream_contents m_position BufferStream_inv [] es \<and> es_type es = t
    \<and> es_key es = (case keys of Some k' \<Rightarrow> k' | None \<Rightarrow> kTeaKey)"
proof -
  let ?s = "BufferStream_writeBytes junk BufferStream_new (replicate 16 0)"
  have "m_position BufferStream_new + length (replicate 16 (0 :: byte)) < 2 ^ 62"
    by (simp add: BufferStream_new_def)
  note w = BufferStream_write_facts [OF BufferStream_new_inv this, of junk]
  have "BufferStream_contents ?s = replicate 16 0" "m_position ?s = 16" "BufferStream_inv ?s"
    using w by (simp_all add: overwrite_def BufferStream_new_def BufferStream_contents_def)
  then show ?thesis
    by (simp add: EncryptedStream_new_def es_written_def enc_blocks_short)
qed

text \<open>
  C12: whatever chunks are written through an encrypting stream over a fresh RAM stream, with either
  cipher and any key, and whatever chunks are then read back through a decrypting stream over the
  rewound RAM stream, the bytes come back unchanged and in order, and the file header carries the
  length of the text. The decrypting stream recognises the cipher from the header.
\<close>

theorem encrypted_stream_roundtrip:
  assumes "length (concat bss) < 2 ^ 32" and "sum_list ns \<le> length (concat bss)"
    and "type = None \<or> type = Some t"
  shows "\<exists>es es' base es2 out.
    EncryptedStream_new rb (BufferStream_writeBytes junk) True BufferStream_new e_write (Some t) keys = Inr es
    \<and> es_write_all (BufferStream_writeBytes junk) es bss = Inr es'
    \<and> fst (EncryptedStream_close (BufferStream_writeBytes junk) BufferStream_rewind es') = Some base
    \<and> EncryptedStream_new BufferStream_readBytes wb True (BufferStream_rewind base) e_read type keys = Inr es2
    \<and> es_type es2 = t \<and> unat (es_size es2) = length (concat bss)
    \<and> es_read_all BufferStream_readBytes es2 ns = Inr out
    \<and> concat out = take (sum_list ns) (concat bss) \<and> map length out = ns"
proof -
  let ?k = "case keys of Some k' \<Rightarrow> k' | None \<Rightarrow> kTeaKey"
  obtain es where es: "EncryptedStream_new rb (BufferStream_writeBytes junk) True BufferStream_new e_write (Some t) keys = Inr es"
    "es_written BufferStream_contents m_position BufferStream_inv [] es" "es_type es = t" "es_key es = ?k"
    using open_write_ok [of rb junk t keys] by blast
  obtain es' where es': "es_write_all (BufferStream_writeBytes junk) es bss = Inr es'"
    "es_written BufferStream_contents m_position BufferStream_inv (concat bss) es'" "es_type es' = t" "es_key es' = ?k"
    using bufrw.write_all_ok [OF es(2), of bss] assms(1) es(3,4) by auto
  obtain base where base: "fst (EncryptedStream_close (BufferStream_writeBytes junk) BufferStream_rewind es') = Some base"
    "BufferStream_inv base" "BufferStream_contents base = enc_file t ?k (concat bss)"
    using bufrw.close_ok [OF es'(2) assms(1)] es'(3,4) by auto
  obtain es2 base2 where es2: "EncryptedStream_new BufferStream_readBytes wb True (BufferStream_rewind base) e_read type keys = Inr es2"
    "m_base es2 = Some base2" "es_mode es2 = e_read"
    "es_view BufferStream_unread BufferStream_inv es2 base2 0 (pad8 (concat bss))" "es_pos es2 = 0"
    "es_type es2 = t" "unat (es_size es2) = length (concat bss)"
    using bufin.open_ok [of "BufferStream_rewind base" t ?k "concat bss" type keys wb] assms(1,3) base(2,3)
    by (auto simp: BufferStream_rewind_facts)
  have "sum_list ns \<le> length (pad8 (concat bss))" "sum_list ns < 2 ^ 32"
    using assms(1,2) by (simp_all add: pad8_def del: length_concat)
  then obtain out where out: "es_read_all BufferStream_readBytes es2 ns = Inr out"
    "concat out = take (sum_list ns) (pad8 (concat bss))" "map length out = ns"
    using bufin.read_all_ok [OF es2(2,3), of "pad8 (concat bss)" ns] es2(4,5) by auto
  moreover have "take (sum_list ns) (pad8 (concat bss)) = take (sum_list ns) (concat bss)"
    using assms(2) by (simp add: pad8_def del: length_concat)
  ultimately show ?thesis using es(1) es'(1) base(1) es2(1,6,7) by auto
qed

theorem encrypted_stream_roundtrip_witness:
  "\<exists>es es' base es2 out.
    EncryptedStream_new BufferStream_readBytes (BufferStream_writeBytes (\<lambda>_. 0)) True BufferStream_new e_write
      (Some e_xxtea) (Some [1, 2, 3, 4]) = Inr es
    \<and> es_write_all (BufferStream_writeBytes (\<lambda>_. 0)) es [ascii ''Small'', ascii ''!! ''] = Inr es'
    \<and> fst (EncryptedStream_close (BufferStream_writeBytes (\<lambda>_. 0)) BufferStream_rewind es') = Some base
    \<and> EncryptedStream_new BufferStream_readBytes (BufferStream_writeBytes (\<lambda>_. 0)) True
        (BufferStream_rewind base) e_read None (Some [1, 2, 3, 4]) = Inr es2
    \<and> es_type es2 = e_xxtea \<and> unat (es_size es2) = length (concat [ascii ''Small'', ascii ''!! ''])
    \<and> es_read_all BufferStream_readBytes es2 [3, 5] = Inr out
    \<and> concat out = take (sum_list [3, 5]) (concat [ascii ''Small'', ascii ''!! ''])
    \<and> map length out = [3, 5]"
  by (rule encrypted_stream_roundtrip) (simp_all add: ascii_def)

end
