(* ===== verification/Wire_Types.thy ===== *)
theory Wire_Types
  imports Streams
begin

unbundle bit_operations_syntax

text \<open>
  The value types of \<open>src/Types\<close>: \<open>BitVector\<close>, \<open>Uuid\<close>, \<open>UnifiedTime\<close>, \<open>ShaHash\<close> (with the server's
  own SHA-0), \<open>Vector3\<close>, \<open>Quaternion\<close>, \<open>Matrix44\<close> and the colours, each with its stream format.
\<close>

section \<open>Arrays of words\<close>

fun u32s :: "bytes \<Rightarrow> u32 list" where
  "u32s (a # b # c # d # bs) = le_word [a, b, c, d] # u32s bs"
| "u32s _ = []"

definition u32s_bytes :: "u32 list \<Rightarrow> bytes" where
  "u32s_bytes ws = concat (map (le_bytes 4) ws)"

section \<open>BitVector\<close>

record BitVector =
  m_bits :: "u32 list"
  m_words :: nat

definition BitVector_new :: BitVector where
  "BitVector_new = \<lparr>m_bits = [], m_words = 0\<rparr>"

text \<open>The copy constructor and assignment: \<open>memcpy(m_bits, copy.m_bits, m_words)\<close> counts bytes.\<close>

definition BitVector_copy :: "(nat \<Rightarrow> byte) \<Rightarrow> BitVector \<Rightarrow> BitVector" where
  "BitVector_copy junk copy =
     \<lparr>m_bits = u32s (take (m_words copy) (u32s_bytes (m_bits copy))
                      @ map junk [m_words copy..<4 * m_words copy]),
      m_words = m_words copy\<rparr>"

definition BitVector_get :: "BitVector \<Rightarrow> nat \<Rightarrow> ds_error + bool" where
  "BitVector_get v idx =
     (if m_words v < idx div 32 then Inr False
      else if idx div 32 \<ge> length (m_bits v) then Inl UndefinedBehaviour
      else Inr ((m_bits v ! (idx div 32)) AND push_bit (idx mod 32) 1 \<noteq> 0))"

definition BitVector_set :: "BitVector \<Rightarrow> nat \<Rightarrow> bool \<Rightarrow> BitVector" where
  "BitVector_set v idx b =
     (let v = (if m_words v < idx div 32 + 1 then
                 let moreWords = idx div 32 + 1
                 in \<lparr>m_bits = m_bits v @ replicate (moreWords - m_words v) 0, m_words = moreWords\<rparr>
               else v);
          w = m_bits v ! (idx div 32)
      in v\<lparr>m_bits := (m_bits v)[idx div 32 :=
                        (if b then w OR push_bit (idx mod 32) 1
                         else w AND NOT (push_bit (idx mod 32) 1))]\<rparr>)"

text \<open>\<open>BitVector::read\<close>: the new array is not initialised, and a short read is not noticed.\<close>

definition BitVector_read :: "(nat \<Rightarrow> byte) \<Rightarrow> BitVector rd" where
  "BitVector_read junk =
     rbind read_u32 (\<lambda>words.
     rbind (read_array (map junk [0..<unat words * 4])) (\<lambda>b.
     rret \<lparr>m_bits = u32s b, m_words = unat words\<rparr>))"

definition BitVector_write :: "BitVector \<Rightarrow> bytes" where
  "BitVector_write v = write_u32 (of_nat (m_words v)) @ u32s_bytes (m_bits v)"

definition BitVector_wf :: "BitVector \<Rightarrow> bool" where
  "BitVector_wf v \<longleftrightarrow> length (m_bits v) = m_words v \<and> m_words v < 2 ^ 32"

section \<open>UnifiedTime\<close>

datatype UnifiedTime = UnifiedTime (m_secs: u32) (m_micros: u32)

definition UnifiedTime_read :: "UnifiedTime rd" where
  "UnifiedTime_read = rbind read_u32 (\<lambda>secs. rbind read_u32 (\<lambda>micros. rret (UnifiedTime secs micros)))"

definition UnifiedTime_write :: "UnifiedTime \<Rightarrow> bytes" where
  "UnifiedTime_write t = write_u32 (m_secs t) @ write_u32 (m_micros t)"

definition UnifiedTime_isNull :: "UnifiedTime \<Rightarrow> bool" where
  "UnifiedTime_isNull t \<longleftrightarrow> m_secs t = 0 \<and> m_micros t = 0"

text \<open>\<open>operator>\<close>.\<close>

definition UnifiedTime_gt :: "UnifiedTime \<Rightarrow> UnifiedTime \<Rightarrow> bool" where
  "UnifiedTime_gt a other =
     (if m_secs a > m_secs other then True
      else if m_secs a = m_secs other then m_micros a > m_micros other
      else False)"

definition UnifiedTime_null :: UnifiedTime where
  "UnifiedTime_null = UnifiedTime 0 0"

text \<open>\<open>setNow\<close>: \<open>gettimeofday\<close> gives seconds and microseconds, of which the low 32 bits are kept.\<close>

definition UnifiedTime_setNow :: "nat \<times> nat \<Rightarrow> UnifiedTime" where
  "UnifiedTime_setNow now = UnifiedTime (of_nat (fst now)) (of_nat (snd now))"

section \<open>Uuid\<close>

record Uuid =
  m_data1 :: u32
  m_data2 :: u16
  m_data3 :: u16
  m_data4 :: bytes

definition Uuid_null :: Uuid where
  "Uuid_null = \<lparr>m_data1 = 0, m_data2 = 0, m_data3 = 0, m_data4 = replicate 8 0\<rparr>"

definition Uuid_wf :: "Uuid \<Rightarrow> bool" where
  "Uuid_wf u \<longleftrightarrow> length (m_data4 u) = 8"

definition Uuid_read :: "Uuid \<Rightarrow> Uuid rd" where
  "Uuid_read old =
     rbind read_u32 (\<lambda>d1. rbind read_u16 (\<lambda>d2. rbind read_u16 (\<lambda>d3.
     rbind (read_array (m_data4 old)) (\<lambda>d4.
     rret \<lparr>m_data1 = d1, m_data2 = d2, m_data3 = d3, m_data4 = d4\<rparr>))))"

definition Uuid_write :: "Uuid \<Rightarrow> bytes" where
  "Uuid_write u = write_u32 (m_data1 u) @ write_u16 (m_data2 u) @ write_u16 (m_data3 u) @ m_data4 u"

definition Uuid_isNull :: "Uuid \<Rightarrow> bool" where
  "Uuid_isNull u \<longleftrightarrow> Uuid_write u = Uuid_write Uuid_null"

text \<open>
  \<open>strtoul(s, nullptr, 16)\<close> of the C library: white space, a sign, an optional \<open>0x\<close>, then digits up
  to the first character that is not one.
\<close>

definition hex_digit :: "byte \<Rightarrow> nat option" where
  "hex_digit c =
     (if 48 \<le> c \<and> c \<le> 57 then Some (unat c - 48)
      else if 97 \<le> c \<and> c \<le> 102 then Some (unat c - 87)
      else if 65 \<le> c \<and> c \<le> 70 then Some (unat c - 55)
      else None)"

fun hex_value :: "nat \<Rightarrow> bytes \<Rightarrow> nat" where
  "hex_value acc [] = acc"
| "hex_value acc (c # cs) =
     (case hex_digit c of None \<Rightarrow> acc | Some d \<Rightarrow> hex_value (16 * acc + d) cs)"

definition is_space :: "byte \<Rightarrow> bool" where
  "is_space c \<longleftrightarrow> c = 32 \<or> (9 \<le> c \<and> c \<le> 13)"

definition strip_0x :: "bytes \<Rightarrow> bytes" where
  "strip_0x cs =
     (case cs of
        z # x # d # _ \<Rightarrow> if z = 48 \<and> (x = 120 \<or> x = 88) \<and> hex_digit d \<noteq> None then drop 2 cs else cs
      | _ \<Rightarrow> cs)"

definition strtoul16 :: "bytes \<Rightarrow> u64" where
  "strtoul16 s =
     (let s = dropWhile is_space s
      in case s of
           [] \<Rightarrow> 0
         | c # cs \<Rightarrow>
             let body = (if c = 43 \<or> c = 45 then cs else s);
                 v = hex_value 0 (strip_0x body);
                 r = (if v \<ge> 2 ^ 64 then - 1 else of_nat v)
             in if c = 45 \<and> v < 2 ^ 64 then - r else r)"

definition hex_field :: "bytes \<Rightarrow> nat \<Rightarrow> nat \<Rightarrow> u64" where
  "hex_field s start n = strtoul16 (take n (drop start s))"

text \<open>The constructor from a string; a NUL ends the string, so none occurs in \<open>s\<close>.\<close>

definition Uuid_parse :: "bytes \<Rightarrow> ds_error + Uuid" where
  "Uuid_parse s =
     (if length s \<noteq> 36 \<or> s ! 8 \<noteq> 45 \<or> s ! 13 \<noteq> 45 \<or> s ! 18 \<noteq> 45 \<or> s ! 23 \<noteq> 45
      then Inl MalformedData
      else Inr \<lparr>m_data1 = ucast (hex_field s 0 8), m_data2 = ucast (hex_field s 9 4),
                m_data3 = ucast (hex_field s 14 4),
                m_data4 = map (\<lambda>i. ucast (hex_field s i 2)) [19, 21, 24, 26, 28, 30, 32, 34]\<rparr>)"

text \<open>
  \<open>toString\<close>. \<open>hex w v\<close> is what \<open>ST::format\<close> prints for \<open>{0wx}\<close>: the library is not part of the
  sources, and \<open>hex_format\<close> is its documented behaviour.
\<close>

definition Uuid_toString :: "(nat \<Rightarrow> nat \<Rightarrow> bytes) \<Rightarrow> Uuid \<Rightarrow> bool \<Rightarrow> bytes" where
  "Uuid_toString hex u pretty =
     (let d = (\<lambda>i. hex 2 (unat (m_data4 u ! i)));
          uuidStr = hex 8 (unat (m_data1 u)) @ [45] @ hex 4 (unat (m_data2 u)) @ [45]
            @ hex 4 (unat (m_data3 u)) @ [45] @ d 0 @ d 1 @ [45] @ d 2 @ d 3 @ d 4 @ d 5 @ d 6 @ d 7
      in if pretty then [123] @ uuidStr @ [125] else uuidStr)"

definition hex_format :: "(nat \<Rightarrow> nat \<Rightarrow> bytes) \<Rightarrow> bool" where
  "hex_format hex \<longleftrightarrow>
     (\<forall>w v. v < 16 ^ w \<longrightarrow> length (hex w v) = w
        \<and> (\<forall>c \<in> set (hex w v). hex_digit c \<noteq> None \<and> c < 128) \<and> hex_value 0 (hex w v) = v)"

section \<open>ShaHash\<close>

text \<open>\<open>uint32_t m_data[5]\<close>.\<close>

type_synonym ShaHash = "u32 list"

definition SWAP_BYTES :: "u32 \<Rightarrow> u32" where
  "SWAP_BYTES x = le_word (rev (le_bytes 4 x))"

definition ShaHash_parse :: "bytes \<Rightarrow> ShaHash" where
  "ShaHash_parse s = map (\<lambda>i. SWAP_BYTES (ucast (hex_field s (i * 8) 8))) [0..<5]"

definition ShaHash_read :: "ShaHash rd" where
  "ShaHash_read = rcount 5 read_u32"

definition ShaHash_write :: "ShaHash \<Rightarrow> bytes" where
  "ShaHash_write h = concat (map write_u32 h)"

definition ShaHash_swapBytes :: "ShaHash \<Rightarrow> ShaHash" where
  "ShaHash_swapBytes h = map SWAP_BYTES h"

definition ShaHash_toString :: "(nat \<Rightarrow> nat \<Rightarrow> bytes) \<Rightarrow> ShaHash \<Rightarrow> bytes" where
  "ShaHash_toString hex h = concat (map (\<lambda>w. hex 8 (unat (SWAP_BYTES w))) h)"

subsection \<open>SHA-0\<close>

definition rol32 :: "u32 \<Rightarrow> nat \<Rightarrow> u32" where
  "rol32 value n = push_bit n value OR drop_bit (32 - n) value"

definition sha0_pad :: "bytes \<Rightarrow> bytes" where
  "sha0_pad data =
     (let size' = length data;
          buf_size0 = size' + 1 + 8;
          buf_size = (if buf_size0 mod 64 \<noteq> 0 then buf_size0 + (64 - buf_size0 mod 64) else buf_size0)
      in data @ [0x80] @ replicate (buf_size - 8 - size' - 1) 0
           @ rev (le_bytes 8 (of_nat size' * 8 :: u64)))"

text \<open>\<open>work[80]\<close> for one block: sixteen big-endian words, extended by the SHA-0 recurrence.\<close>

definition sha0_extend :: "u32 list \<Rightarrow> u32 list" where
  "sha0_extend work0 =
     foldl (\<lambda>work i. work @ [work ! (i - 3) XOR work ! (i - 8) XOR work ! (i - 14) XOR work ! (i - 16)])
       work0 [16..<80]"

definition sha0_f :: "nat \<Rightarrow> u32 \<Rightarrow> u32 \<Rightarrow> u32 \<Rightarrow> u32" where
  "sha0_f i b c d =
     (if i < 20 then (b AND c) OR (NOT b AND d)
      else if i < 40 then b XOR c XOR d
      else if i < 60 then (b AND c) OR (b AND d) OR (c AND d)
      else b XOR c XOR d)"

definition sha0_K :: "nat \<Rightarrow> u32" where
  "sha0_K i = (if i < 20 then 0x5a827999 else if i < 40 then 0x6ed9eba1
               else if i < 60 then 0x8f1bbcdc else 0xca62c1d6)"

definition sha0_step :: "u32 list \<Rightarrow> u32 \<times> u32 \<times> u32 \<times> u32 \<times> u32 \<Rightarrow> nat \<Rightarrow> u32 \<times> u32 \<times> u32 \<times> u32 \<times> u32" where
  "sha0_step work = (\<lambda>(h0, h1, h2, h3, h4) i.
     (rol32 h0 5 + sha0_f i h1 h2 h3 + h4 + sha0_K i + work ! i, h0, rol32 h1 30, h2, h3))"

definition sha0_block :: "u32 \<times> u32 \<times> u32 \<times> u32 \<times> u32 \<Rightarrow> bytes \<Rightarrow> u32 \<times> u32 \<times> u32 \<times> u32 \<times> u32" where
  "sha0_block = (\<lambda>(h0, h1, h2, h3, h4) block.
     let work = sha0_extend (map SWAP_BYTES (u32s block))
     in case foldl (sha0_step work) (h0, h1, h2, h3, h4) [0..<80] of
          (v0, v1, v2, v3, v4) \<Rightarrow> (h0 + v0, h1 + v1, h2 + v2, h3 + v3, h4 + v4))"

function sha0_blocks :: "bytes \<Rightarrow> u32 \<times> u32 \<times> u32 \<times> u32 \<times> u32 \<Rightarrow> u32 \<times> u32 \<times> u32 \<times> u32 \<times> u32" where
  "sha0_blocks buf hash =
     (if buf = [] then hash else sha0_blocks (drop 64 buf) (sha0_block hash (take 64 buf)))"
  by pat_completeness auto
termination by (relation "measure (\<lambda>(buf, hash). length buf)") auto

declare sha0_blocks.simps [simp del]

definition ds_internal_sha0 :: "bytes \<Rightarrow> ShaHash" where
  "ds_internal_sha0 data =
     (case sha0_blocks (sha0_pad data)
             (0x67452301, 0xefcdab89, 0x98badcfe, 0x10325476, 0xc3d2e1f0) of
        (h0, h1, h2, h3, h4) \<Rightarrow> map SWAP_BYTES [h0, h1, h2, h3, h4])"

section \<open>Vectors, matrices and colours\<close>

record Vector3 =
  v_X :: f32
  v_Y :: f32
  v_Z :: f32

record Quaternion =
  q_X :: f32
  q_Y :: f32
  q_Z :: f32
  q_W :: f32

record ColorRgba =
  c_R :: f32
  c_G :: f32
  c_B :: f32
  c_A :: f32

record ColorRgba8 =
  c8_R :: byte
  c8_G :: byte
  c8_B :: byte
  c8_A :: byte

text \<open>\<open>read<DS::Vector3>()\<close> and \<open>read<DS::Quaternion>()\<close> read the whole struct at once.\<close>

definition Vector3_read :: "Vector3 rd" where
  "Vector3_read bs =
     (if length (take 12 bs) \<noteq> 12 then Inl EofException
      else case u32s (take 12 bs) of
             [x, y, z] \<Rightarrow> Inr (\<lparr>v_X = x, v_Y = y, v_Z = z\<rparr>, drop 12 bs)
           | _ \<Rightarrow> Inl EofException)"

definition Vector3_write :: "Vector3 \<Rightarrow> bytes" where
  "Vector3_write v = u32s_bytes [v_X v, v_Y v, v_Z v]"

definition Quaternion_read :: "Quaternion rd" where
  "Quaternion_read bs =
     (if length (take 16 bs) \<noteq> 16 then Inl EofException
      else case u32s (take 16 bs) of
             [x, y, z, w] \<Rightarrow> Inr (\<lparr>q_X = x, q_Y = y, q_Z = z, q_W = w\<rparr>, drop 16 bs)
           | _ \<Rightarrow> Inl EofException)"

definition Quaternion_write :: "Quaternion \<Rightarrow> bytes" where
  "Quaternion_write q = u32s_bytes [q_X q, q_Y q, q_Z q, q_W q]"

text \<open>\<open>m_map\<close> row by row; \<open>0x3F800000\<close> is \<open>1.0f\<close>.\<close>

record Matrix44 =
  m_identity :: bool
  m_map :: "f32 list"

definition Matrix44_reset :: Matrix44 where
  "Matrix44_reset =
     \<lparr>m_identity = True,
      m_map = [0x3F800000, 0, 0, 0,  0, 0x3F800000, 0, 0,  0, 0, 0x3F800000, 0,  0, 0, 0, 0x3F800000]\<rparr>"

definition Matrix44_eq :: "Matrix44 \<Rightarrow> Matrix44 \<Rightarrow> bool" where
  "Matrix44_eq a b \<longleftrightarrow> (if m_identity a \<and> m_identity b then True else m_map a = m_map b)"

definition Matrix44_read :: "Matrix44 rd" where
  "Matrix44_read =
     rbind Stream_read_bool (\<lambda>b.
     if b then rbind (rcount 16 read_u32) (\<lambda>ws. rret \<lparr>m_identity = False, m_map = ws\<rparr>)
     else rret Matrix44_reset)"

definition Matrix44_write :: "Matrix44 \<Rightarrow> bytes" where
  "Matrix44_write m =
     Stream_write_bool (\<not> m_identity m) @ (if \<not> m_identity m then concat (map write_u32 (m_map m)) else [])"

definition Matrix44_wf :: "Matrix44 \<Rightarrow> bool" where
  "Matrix44_wf m \<longleftrightarrow> length (m_map m) = 16 \<and> (m_identity m \<longrightarrow> m = Matrix44_reset)"

section \<open>Stream formats\<close>

lemma length_u32s_bytes [simp]: "length (u32s_bytes ws) = 4 * length ws"
  by (induction ws) (auto simp: u32s_bytes_def)

lemma le_bytes_4: "le_bytes 4 w = [ucast w, ucast (drop_bit 8 w), ucast (drop_bit 16 w), ucast (drop_bit 24 w)]"
  by (simp add: le_bytes_def upt_rec)

lemma u32s_u32s_bytes [simp]: "u32s (u32s_bytes ws) = ws"
proof (induction ws)
  case Nil
  show ?case by (simp add: u32s_bytes_def)
next
  case (Cons w ws)
  have "le_word (le_bytes 4 w) = w" by (rule le_word_le_bytes) simp
  then show ?case using Cons.IH by (simp add: u32s_bytes_def le_bytes_4)
qed

lemma u32s_bytes_u32s: "4 dvd length bs \<Longrightarrow> u32s_bytes (u32s bs) = bs"
proof (induction bs rule: u32s.induct)
  case (1 a b c d bs)
  have "le_bytes 4 (le_word [a, b, c, d] :: u32) = [a, b, c, d]" by (rule le_bytes_le_word) simp_all
  moreover have "4 dvd length bs" using 1(2) by simp presburger
  ultimately show ?case using 1(1) by (simp add: u32s_bytes_def)
qed (auto simp: u32s_bytes_def dest: dvd_imp_le)

lemma length_u32s: "length (u32s bs) = length bs div 4"
  by (induction bs rule: u32s.induct) auto

interpretation bitvec: codec BitVector_write "BitVector_read junk" BitVector_wf for junk
proof
  fix v bs assume "BitVector_wf v"
  then show "BitVector_read junk (BitVector_write v @ bs) = Inr (v, bs)"
    by (simp add: BitVector_read_def BitVector_write_def BitVector_wf_def unat_of_nat read_array_append)
qed

lemma reads_prefix_BitVector [suffix_intros]: "reads_prefix (BitVector_read junk)"
  unfolding BitVector_read_def by (intro suffix_intros)

interpretation utime: exact_codec UnifiedTime_write UnifiedTime_read "\<lambda>_. True"
proof
  show "UnifiedTime_read (UnifiedTime_write t @ bs) = Inr (t, bs)" for t bs
    by (cases t) (simp add: UnifiedTime_read_def UnifiedTime_write_def)
  show "True \<and> bs = UnifiedTime_write t @ bs'" if "UnifiedTime_read bs = Inr (t, bs')" for bs t bs'
    using that by (auto simp: UnifiedTime_read_def UnifiedTime_write_def rbind_eq_Inr u32.dec_iff)
qed

interpretation uuid: codec Uuid_write "Uuid_read old" "\<lambda>u. Uuid_wf u \<and> Uuid_wf old" for old
  by unfold_locales
    (simp add: Uuid_read_def Uuid_write_def Uuid_wf_def read_array_append)

lemma reads_prefix_Uuid [suffix_intros]: "reads_prefix (Uuid_read old)"
  unfolding Uuid_read_def by (intro suffix_intros)

lemma Uuid_null_wf [simp]: "Uuid_wf Uuid_null"
  by (simp add: Uuid_null_def Uuid_wf_def)

interpretation sha: exact_codec ShaHash_write ShaHash_read "\<lambda>h. length h = 5"
proof
  show "ShaHash_read (ShaHash_write h @ bs) = Inr (h, bs)" if "length h = 5" for h bs
    using u32.dec_enc_list [of h bs] that by (simp add: ShaHash_read_def ShaHash_write_def)
  show "length h = 5 \<and> bs = ShaHash_write h @ bs'" if "ShaHash_read bs = Inr (h, bs')" for bs h bs'
    using u32.list_enc_dec [of 5 bs h bs'] that by (simp add: ShaHash_read_def ShaHash_write_def)
qed

interpretation vec3: codec Vector3_write Vector3_read "\<lambda>_. True"
  by unfold_locales (simp add: Vector3_read_def Vector3_write_def)

interpretation quat: codec Quaternion_write Quaternion_read "\<lambda>_. True"
  by unfold_locales (simp add: Quaternion_read_def Quaternion_write_def)

interpretation matrix: codec Matrix44_write Matrix44_read Matrix44_wf
proof
  fix m bs assume wf: "Matrix44_wf m"
  show "Matrix44_read (Matrix44_write m @ bs) = Inr (m, bs)"
  proof (cases "m_identity m")
    case True
    then show ?thesis using wf by (simp add: Matrix44_read_def Matrix44_write_def Matrix44_wf_def)
  next
    case False
    then show ?thesis
      using wf u32.dec_enc_list [of "m_map m" bs]
      by (simp add: Matrix44_read_def Matrix44_write_def Matrix44_wf_def)
  qed
qed

lemma reads_prefix_structs [suffix_intros]:
  "reads_prefix Vector3_read" "reads_prefix Quaternion_read" "reads_prefix Matrix44_read"
proof -
  show "reads_prefix Vector3_read" "reads_prefix Quaternion_read"
    by (auto simp: reads_prefix_def Vector3_read_def Quaternion_read_def suffix_drop
        split: if_splits list.splits)
  show "reads_prefix Matrix44_read" unfolding Matrix44_read_def by (intro suffix_intros)
qed

lemmas type_rd [rd_simps, simp] =
  bitvec.dec_enc utime.dec_enc uuid.dec_enc sha.dec_enc vec3.dec_enc quat.dec_enc matrix.dec_enc

section \<open>The order of time stamps\<close>

text \<open>\<open>operator>\<close> is the strict part of a linear order.\<close>

instantiation UnifiedTime :: linorder
begin

definition less_UnifiedTime :: "UnifiedTime \<Rightarrow> UnifiedTime \<Rightarrow> bool" where
  "less_UnifiedTime a b \<longleftrightarrow> UnifiedTime_gt b a"

definition less_eq_UnifiedTime :: "UnifiedTime \<Rightarrow> UnifiedTime \<Rightarrow> bool" where
  "less_eq_UnifiedTime a b \<longleftrightarrow> a = b \<or> UnifiedTime_gt b a"

instance
proof
  fix a b c :: UnifiedTime
  show "a < b \<longleftrightarrow> a \<le> b \<and> \<not> b \<le> a"
    by (auto simp: less_UnifiedTime_def less_eq_UnifiedTime_def UnifiedTime_gt_def split: if_splits)
  show "a \<le> a" by (simp add: less_eq_UnifiedTime_def)
  show "a \<le> b \<Longrightarrow> b \<le> c \<Longrightarrow> a \<le> c"
    by (auto simp: less_eq_UnifiedTime_def UnifiedTime_gt_def split: if_splits)
  show "a \<le> b \<Longrightarrow> b \<le> a \<Longrightarrow> a = b"
    by (auto simp: less_eq_UnifiedTime_def UnifiedTime_gt_def split: if_splits)
  show "a \<le> b \<or> b \<le> a"
    by (cases a; cases b) (auto simp: less_eq_UnifiedTime_def UnifiedTime_gt_def not_less_iff_gr_or_eq)
qed

end

section \<open>BitVector as a set of indices\<close>

definition bv_bit :: "BitVector \<Rightarrow> nat \<Rightarrow> bool" where
  "bv_bit v i \<longleftrightarrow> i div 32 < m_words v \<and> bit (m_bits v ! (i div 32)) (i mod 32)"

lemma get_bv_bit:
  assumes "length (m_bits v) = m_words v"
  shows "BitVector_get v i = (if i div 32 = m_words v then Inl UndefinedBehaviour else Inr (bv_bit v i))"
  using assms by (auto simp: BitVector_get_def bv_bit_def and_exp_eq_0_iff_not_bit)

lemma set_words:
  assumes "length (m_bits v) = m_words v"
  shows "m_words (BitVector_set v i b) = max (m_words v) (i div 32 + 1)"
    and "length (m_bits (BitVector_set v i b)) = m_words (BitVector_set v i b)"
  using assms by (auto simp: BitVector_set_def Let_def)

lemma set_bits:
  assumes "length (m_bits v) = m_words v"
  shows "m_bits (BitVector_set v i b) =
    (let ws = m_bits v @ replicate (i div 32 + 1 - m_words v) 0; w = ws ! (i div 32)
     in ws[i div 32 := (if b then w OR push_bit (i mod 32) 1 else w AND NOT (push_bit (i mod 32) 1))])"
  using assms by (auto simp: BitVector_set_def Let_def)

lemma div_mod_32: "(i :: nat) div 32 = j div 32 \<Longrightarrow> i mod 32 = j mod 32 \<Longrightarrow> i = j"
  by (metis div_mult_mod_eq)

lemma bit_update:
  "bit ((if b then w OR push_bit n 1 else w AND NOT (push_bit n 1)) :: u32) m
     = (if m = n then b \<and> n < 32 else bit w m)"
  by (auto simp: bit_simps dest: bit_imp_le_length)

lemma set_bv_bit:
  assumes "length (m_bits v) = m_words v"
  shows "bv_bit (BitVector_set v i b) = (bv_bit v)(i := b)"
proof
  fix j
  let ?ws = "m_bits v @ replicate (i div 32 + 1 - m_words v) 0"
  have len: "length ?ws = max (m_words v) (i div 32 + 1)" using assms by simp
  have old: "j div 32 < length ?ws \<Longrightarrow> bit (?ws ! (j div 32)) (j mod 32) = bv_bit v j"
    using assms by (auto simp: bv_bit_def nth_append)
  show "bv_bit (BitVector_set v i b) j = ((bv_bit v)(i := b)) j"
  proof (cases "j div 32 = i div 32")
    case True
    then have "bv_bit (BitVector_set v i b) j = (if j mod 32 = i mod 32 then b else bv_bit v j)"
      using len old unfolding bv_bit_def set_words [OF assms] set_bits [OF assms] Let_def
      by (simp add: bit_update max_def)
    then show ?thesis using True div_mod_32 [of j i] by auto
  next
    case False
    then have "bv_bit (BitVector_set v i b) j = bv_bit v j"
      using old len assms unfolding bv_bit_def [of "BitVector_set v i b"] set_words [OF assms] set_bits [OF assms] Let_def
      by (auto simp: bv_bit_def)
    then show ?thesis using False by auto
  qed
qed

section \<open>Hexadecimal text\<close>

lemma hex_value_digits:
  "\<forall>c \<in> set cs. hex_digit c \<noteq> None \<Longrightarrow> hex_value acc (cs @ ds) = hex_value (hex_value acc cs) ds"
  by (induction cs arbitrary: acc) auto

lemma hex_digit_not_sign: "hex_digit c \<noteq> None \<Longrightarrow> \<not> is_space c \<and> c \<noteq> 43 \<and> c \<noteq> 45 \<and> c \<noteq> 120 \<and> c \<noteq> 88"
  by (auto simp: hex_digit_def is_space_def word_le_nat_alt split: if_splits)

lemma strtoul16_digits:
  assumes "cs \<noteq> []" "\<forall>c \<in> set cs. hex_digit c \<noteq> None" "hex_value 0 cs < 2 ^ 64"
  shows "strtoul16 cs = of_nat (hex_value 0 cs)"
proof -
  obtain c ds where cs: "cs = c # ds" using assms(1) by (cases cs) auto
  have c: "\<not> is_space c" "c \<noteq> 43" "c \<noteq> 45" using hex_digit_not_sign [of c] assms(2) cs by auto
  have "strip_0x cs = cs"
    using assms(2) hex_digit_not_sign by (auto simp: strip_0x_def cs split: list.splits)
  then show ?thesis using c assms(3) by (simp add: strtoul16_def cs Let_def)
qed

lemma strtoul16_hex:
  assumes "hex_format hex" "v < 16 ^ w" "0 < w" "w \<le> 8"
  shows "strtoul16 (hex w v) = of_nat v"
proof -
  have h: "length (hex w v) = w" "\<forall>c \<in> set (hex w v). hex_digit c \<noteq> None" "hex_value 0 (hex w v) = v"
    using assms(1,2) unfolding hex_format_def by blast+
  have "(16 :: nat) ^ w \<le> 16 ^ 8" using assms(4) by (intro power_increasing) simp_all
  then have "v < 2 ^ 64" using assms(2) by simp
  then show ?thesis using strtoul16_digits [of "hex w v"] h assms(3) by (cases "hex w v") auto
qed

lemma hex_format_length: "hex_format hex \<Longrightarrow> v < 16 ^ w \<Longrightarrow> length (hex w v) = w"
  by (simp add: hex_format_def)

text \<open>The fields of a printed Uuid are where the parser looks for them.\<close>

lemma hex_bounds: "unat (w :: u32) < 16 ^ 8" "unat (h :: u16) < 16 ^ 4" "unat (b :: byte) < 16 ^ 2"
proof -
  have "unat w < 2 ^ LENGTH(32)" "unat h < 2 ^ LENGTH(16)" "unat b < 2 ^ LENGTH(8)" by (rule unsigned_less)+
  then show "unat w < 16 ^ 8" "unat h < 16 ^ 4" "unat b < 16 ^ 2" by simp_all
qed

lemma ucast_u64: "ucast (ucast w :: u64) = (w :: u32)" "ucast (ucast h :: u64) = (h :: u16)"
  "ucast (ucast b :: u64) = (b :: byte)"
  by (rule bit_word_eqI, simp add: bit_ucast_iff)+

lemma Uuid_parse_toString:
  assumes hex: "hex_format hex" and wf: "Uuid_wf u"
  shows "Uuid_parse (Uuid_toString hex u False) = Inr u"
proof -
  obtain d0 d1 d2 d3 d4 d5 d6 d7 where d4: "m_data4 u = [d0, d1, d2, d3, d4, d5, d6, d7]"
    using wf unfolding Uuid_wf_def by (auto simp: numeral_eq_Suc length_Suc_conv)
  note len = hex_bounds [THEN hex_format_length [OF hex]]
  have f: "strtoul16 (hex 8 (unat w)) = ucast (w :: u32)" "strtoul16 (hex 4 (unat h)) = ucast (h :: u16)"
    "strtoul16 (hex 2 (unat b)) = ucast (b :: byte)" for w h b
    using hex_bounds(1) [of w] hex_bounds(2) [of h] hex_bounds(3) [of b] by (simp_all add: strtoul16_hex [OF hex] unsigned_of_nat)
  show ?thesis
    by (simp add: Uuid_parse_def Uuid_toString_def Let_def d4 len nth_append hex_field_def f ucast_u64)
qed

lemma SWAP_BYTES_SWAP_BYTES [simp]: "SWAP_BYTES (SWAP_BYTES w) = w"
  by (simp add: SWAP_BYTES_def le_bytes_le_word le_word_le_bytes)

lemma ShaHash_swap_swap: "ShaHash_swapBytes (ShaHash_swapBytes h) = h"
  by (simp add: ShaHash_swapBytes_def o_def)

lemma ShaHash_parse_toString:
  assumes hex: "hex_format hex" and "length h = 5"
  shows "ShaHash_parse (ShaHash_toString hex h) = h"
proof -
  obtain a b c d e where h: "h = [a, b, c, d, e]"
    using assms(2) by (auto simp: numeral_eq_Suc length_Suc_conv)
  note len = hex_bounds(1) [THEN hex_format_length [OF hex]]
  have f: "strtoul16 (hex 8 (unat w)) = ucast (w :: u32)" for w
    using hex_bounds(1) [of w] by (simp add: strtoul16_hex [OF hex] unsigned_of_nat)
  show ?thesis
    by (simp add: ShaHash_parse_def ShaHash_toString_def h upt_rec hex_field_def len f ucast_u64)
qed

text \<open>A printer with the behaviour the library documents.\<close>

primrec hex_pad :: "nat \<Rightarrow> nat \<Rightarrow> bytes" where
  "hex_pad 0 v = []"
| "hex_pad (Suc w) v =
     hex_pad w (v div 16) @ [of_nat (if v mod 16 < 10 then 48 + v mod 16 else 87 + v mod 16)]"

lemma hex_digit_pad:
  assumes "d < 16"
  shows "hex_digit (of_nat (if d < 10 then 48 + d else 87 + d)) = Some d"
    and "(of_nat (if d < 10 then 48 + d else 87 + d) :: byte) < 128"
proof -
  have "unat (of_nat (if d < 10 then 48 + d else 87 + d) :: byte) = (if d < 10 then 48 + d else 87 + d)"
    using assms by (simp add: unat_of_nat)
  then show "hex_digit (of_nat (if d < 10 then 48 + d else 87 + d)) = Some d"
    "(of_nat (if d < 10 then 48 + d else 87 + d) :: byte) < 128"
    using assms by (auto simp: hex_digit_def word_le_nat_alt word_less_nat_alt split: if_splits)
qed

lemma hex_format_hex_pad: "hex_format hex_pad"
proof -
  have "length (hex_pad w v) = w \<and> (\<forall>c \<in> set (hex_pad w v). hex_digit c \<noteq> None \<and> c < 128)
      \<and> hex_value 0 (hex_pad w v) = v" if "v < 16 ^ w" for w v
    using that
  proof (induction w arbitrary: v)
    case (Suc w)
    have "v div 16 < 16 ^ w" using Suc.prems by (simp add: less_mult_imp_div_less mult.commute)
    with Suc.IH have IH: "length (hex_pad w (v div 16)) = w"
      "\<forall>c \<in> set (hex_pad w (v div 16)). hex_digit c \<noteq> None \<and> c < 128"
      "hex_value 0 (hex_pad w (v div 16)) = v div 16" by blast+
    have "hex_value 0 (hex_pad (Suc w) v) = v"
      using IH(2,3) hex_digit_pad(1) [of "v mod 16"] by (simp add: hex_value_digits)
    then show ?case using IH(1,2) hex_digit_pad [of "v mod 16"] by auto
  qed simp
  then show ?thesis by (simp add: hex_format_def)
qed

text \<open>The padded message is the data, a one bit, zeros and the bit length, in whole blocks.\<close>

lemma sha0_pad_blocks: "64 dvd length (sha0_pad data)"
proof -
  let ?n = "length data + 9"
  have "length (sha0_pad data) = (if ?n mod 64 \<noteq> 0 then ?n + (64 - ?n mod 64) else ?n)"
    by (simp add: sha0_pad_def Let_def add.commute [of "length data"])
  also have "64 dvd \<dots>"
  proof (cases "?n mod 64 = 0")
    case False
    have "?n + (64 - ?n mod 64) = 64 * (?n div 64) + 64"
      using mult_div_mod_eq [of 64 ?n] mod_less_divisor [of 64 ?n] by linarith
    with False show ?thesis by simp
  qed (simp add: mod_eq_0_iff_dvd)
  finally show ?thesis .
qed

section \<open>Properties\<close>

text \<open>
  A bit vector is a finite set of indices: after \<open>set(i, b)\<close>, \<open>get\<close> answers \<open>b\<close> at \<open>i\<close> and as
  before elsewhere, except at an index in the first word past the array, where it reads out of
  bounds; the invariant is kept.
\<close>

theorem bitvector_set_get:
  assumes "BitVector_wf v" and "i div 32 + 1 < 2 ^ 32"
  shows "BitVector_wf (BitVector_set v i b)
    \<and> (BitVector_get (BitVector_set v i b) j =
         (if j div 32 = max (m_words v) (i div 32 + 1) then Inl UndefinedBehaviour
          else if j = i then Inr b
          else if j div 32 = m_words v then Inr False
          else BitVector_get v j))"
proof -
  have v: "length (m_bits v) = m_words v" using assms(1) by (simp add: BitVector_wf_def)
  show ?thesis
    using assms v set_words [OF v, of i b]
    by (auto simp: get_bv_bit set_bv_bit BitVector_wf_def bv_bit_def)
qed

theorem bitvector_set_get_witness:
  "BitVector_wf (BitVector_set BitVector_new 40 True)
    \<and> (BitVector_get (BitVector_set BitVector_new 40 True) 7 =
         (if (7 :: nat) div 32 = max (m_words BitVector_new) (40 div 32 + 1) then Inl UndefinedBehaviour
          else if (7 :: nat) = 40 then Inr True
          else if (7 :: nat) div 32 = m_words BitVector_new then Inr False
          else BitVector_get BitVector_new 7))"
  by (rule bitvector_set_get) (simp_all add: BitVector_wf_def BitVector_new_def)

text \<open>
  The printed form of a \<open>Uuid\<close> parses back to it, and that of a \<open>ShaHash\<close> does, given that
  \<open>ST::format\<close> prints zero-padded hexadecimal numerals.
\<close>

theorem uuid_sha_text_roundtrip:
  assumes "hex_format hex" and "Uuid_wf u" and "length h = 5"
  shows "Uuid_parse (Uuid_toString hex u False) = Inr u
    \<and> ShaHash_parse (ShaHash_toString hex h) = h"
  using assms by (simp add: Uuid_parse_toString ShaHash_parse_toString)

theorem uuid_sha_text_roundtrip_witness:
  "Uuid_parse (Uuid_toString hex_pad Uuid_null False) = Inr Uuid_null
    \<and> ShaHash_parse (ShaHash_toString hex_pad [0x11223344, 1, 2, 3, 4]) = [0x11223344, 1, 2, 3, 4]"
  by (rule uuid_sha_text_roundtrip) (simp_all add: hex_format_hex_pad)

text \<open>
  C24: the byte formats of the value types are read back: bit vectors, times, identifiers, hashes,
  vectors, quaternions and matrices (of which the identity is sent as one byte).
\<close>

theorem wire_types_roundtrip:
  assumes "BitVector_wf v" and "Uuid_wf u" and "Uuid_wf old" and "length h = 5" and "Matrix44_wf m"
  shows "BitVector_read junk (BitVector_write v @ bs) = Inr (v, bs)
    \<and> UnifiedTime_read (UnifiedTime_write t @ bs) = Inr (t, bs)
    \<and> Uuid_read old (Uuid_write u @ bs) = Inr (u, bs)
    \<and> ShaHash_read (ShaHash_write h @ bs) = Inr (h, bs)
    \<and> Vector3_read (Vector3_write p @ bs) = Inr (p, bs)
    \<and> Quaternion_read (Quaternion_write q @ bs) = Inr (q, bs)
    \<and> Matrix44_read (Matrix44_write m @ bs) = Inr (m, bs)"
  using assms
  by (simp add: bitvec.dec_enc utime.dec_enc uuid.dec_enc sha.dec_enc vec3.dec_enc quat.dec_enc matrix.dec_enc)

theorem wire_types_roundtrip_witness:
  "let v = BitVector_set BitVector_new 3 True; t = UnifiedTime 5 6; p = \<lparr>v_X = 1, v_Y = 2, v_Z = 3\<rparr>;
       q = \<lparr>q_X = 1, q_Y = 2, q_Z = 3, q_W = 4\<rparr> in
   BitVector_read (\<lambda>_. 0) (BitVector_write v @ [9]) = Inr (v, [9])
    \<and> UnifiedTime_read (UnifiedTime_write t @ [9]) = Inr (t, [9])
    \<and> Uuid_read Uuid_null (Uuid_write Uuid_null @ [9]) = Inr (Uuid_null, [9])
    \<and> ShaHash_read (ShaHash_write [1, 2, 3, 4, 5] @ [9]) = Inr ([1, 2, 3, 4, 5], [9])
    \<and> Vector3_read (Vector3_write p @ [9]) = Inr (p, [9])
    \<and> Quaternion_read (Quaternion_write q @ [9]) = Inr (q, [9])
    \<and> Matrix44_read (Matrix44_write Matrix44_reset @ [9]) = Inr (Matrix44_reset, [9])"
  unfolding Let_def
  by (rule wire_types_roundtrip)
    (simp_all add: BitVector_wf_def BitVector_set_def BitVector_new_def Matrix44_wf_def Matrix44_reset_def)

end
