(* ===== verification/Keys.thy ===== *)
theory Keys
  imports Wire_Types
begin

unbundle bit_operations_syntax

text \<open>
  Plasma object keys, \<open>src/PlasMOUL/Key.h\<close> and \<open>Key.cpp\<close>: locations, object identifiers and nullable
  references to them. Strings go through the \<open>string_theory\<close> conversions \<open>L\<close>.
\<close>

section \<open>Location\<close>

record Location =
  m_sequence :: u32
  l_flags :: u16

text \<open>\<open>Location(int prefix, int page, uint16_t flags)\<close>.\<close>

definition Location_new :: "int \<Rightarrow> int \<Rightarrow> u16 \<Rightarrow> Location" where
  "Location_new prefix' page flags =
     \<lparr>m_sequence = (if prefix' < 0
                    then (push_bit 16 (of_int (- prefix')) + (of_int page AND 0xFFFF)) + 0xFF000001
                    else push_bit 16 (of_int prefix') + (of_int page AND 0xFFFF) + 33),
      l_flags = flags\<rparr>"

definition Location_Invalid :: Location where
  "Location_Invalid = \<lparr>m_sequence = 0xFFFFFFFF, l_flags = 0\<rparr>"

definition Location_Virtual :: Location where
  "Location_Virtual = \<lparr>m_sequence = 0, l_flags = 0\<rparr>"

definition Location_read :: "Location rd" where
  "Location_read = rbind read_u32 (\<lambda>seq. rbind read_u16 (\<lambda>flags.
     rret \<lparr>m_sequence = seq, l_flags = flags\<rparr>))"

definition Location_write :: "Location \<Rightarrow> bytes" where
  "Location_write l = write_u32 (m_sequence l) @ write_u16 (l_flags l)"

definition Location_eq :: "Location \<Rightarrow> Location \<Rightarrow> bool" where
  "Location_eq a b \<longleftrightarrow> m_sequence a = m_sequence b"

definition Location_less :: "Location \<Rightarrow> Location \<Rightarrow> bool" where
  "Location_less a b \<longleftrightarrow> m_sequence a < m_sequence b"

section \<open>Uoid\<close>

record Uoid =
  m_location :: Location
  m_loadMask :: byte
  u_type :: u16
  u_name :: st_string
  u_id :: u32
  m_cloneId :: u32
  m_clonePlayerId :: u32

definition Uoid_new :: Uoid where
  "Uoid_new = \<lparr>m_location = Location_Invalid, m_loadMask = 0xFF, u_type = 0x8000, u_name = [],
               u_id = 0, m_cloneId = 0, m_clonePlayerId = 0\<rparr>"

definition Uoid_isNull :: "Uoid \<Rightarrow> bool" where
  "Uoid_isNull u \<longleftrightarrow> u_type u = 0x8000"

text \<open>\<open>enum UoidContents\<close>: bit 0 is \<open>e_HasCloneIds\<close>, bit 1 \<open>e_HasLoadMask\<close>.\<close>

definition Uoid_read :: "ext_lib \<Rightarrow> Uoid rd" where
  "Uoid_read L =
     rbind read_u8 (\<lambda>contents.
     rbind Location_read (\<lambda>loc.
     rbind (if bit contents 1 then read_u8 else rret 0xFF) (\<lambda>mask.
     rbind read_u16 (\<lambda>type.
     rbind read_u32 (\<lambda>id.
     rbind (Stream_readSafeString L e_StringRAW8) (\<lambda>name.
     if bit contents 0
     then rbind read_u32 (\<lambda>clone. rbind read_u32 (\<lambda>player.
            rret \<lparr>m_location = loc, m_loadMask = mask, u_type = type, u_name = name, u_id = id,
                  m_cloneId = clone, m_clonePlayerId = player\<rparr>))
     else rret \<lparr>m_location = loc, m_loadMask = mask, u_type = type, u_name = name, u_id = id,
                m_cloneId = 0, m_clonePlayerId = 0\<rparr>))))))"

definition Uoid_write :: "ext_lib \<Rightarrow> Uoid \<Rightarrow> bytes" where
  "Uoid_write L u =
     (let contents = (if m_loadMask u \<noteq> 0xFF then 2 else 0)
            OR (if m_cloneId u \<noteq> 0 \<or> m_clonePlayerId u \<noteq> 0 then 1 else 0)
      in write_u8 contents
         @ Location_write (m_location u)
         @ (if bit contents 1 then write_u8 (m_loadMask u) else [])
         @ write_u16 (u_type u)
         @ write_u32 (u_id u)
         @ Stream_writeSafeString L (u_name u) e_StringRAW8
         @ (if bit contents 0 then write_u32 (m_cloneId u) @ write_u32 (m_clonePlayerId u) else []))"

definition Uoid_wf :: "ext_lib \<Rightarrow> Uoid \<Rightarrow> bool" where
  "Uoid_wf L u \<longleftrightarrow> safe_ok L e_StringRAW8 (u_name u)"

text \<open>\<open>operator==\<close> leaves the load mask out.\<close>

definition Uoid_eq :: "Uoid \<Rightarrow> Uoid \<Rightarrow> bool" where
  "Uoid_eq a b \<longleftrightarrow> Location_eq (m_location a) (m_location b) \<and> u_type a = u_type b
     \<and> u_name a = u_name b \<and> u_id a = u_id b \<and> m_cloneId a = m_cloneId b
     \<and> m_clonePlayerId a = m_clonePlayerId b"

section \<open>Key\<close>

text \<open>A key is a reference to an object identifier, or null.\<close>

type_synonym Key = "Uoid option"

definition Key_read :: "ext_lib \<Rightarrow> Key rd" where
  "Key_read L =
     rbind Stream_read_bool (\<lambda>present.
     if present then rbind (Uoid_read L) (\<lambda>u. rret (Some u)) else rret None)"

definition Key_write :: "ext_lib \<Rightarrow> Key \<Rightarrow> bytes" where
  "Key_write L k = Stream_write_bool (k \<noteq> None) @ (case k of None \<Rightarrow> [] | Some u \<Rightarrow> Uoid_write L u)"

definition Key_wf :: "ext_lib \<Rightarrow> Key \<Rightarrow> bool" where
  "Key_wf L k \<longleftrightarrow> (case k of None \<Rightarrow> True | Some u \<Rightarrow> Uoid_wf L u)"

definition Key_location :: "Key \<Rightarrow> Location" where
  "Key_location k = (case k of Some u \<Rightarrow> m_location u | None \<Rightarrow> Location_Invalid)"

definition Key_type :: "Key \<Rightarrow> u16" where
  "Key_type k = (case k of Some u \<Rightarrow> u_type u | None \<Rightarrow> 0x8000)"

definition Key_name :: "Key \<Rightarrow> st_string" where
  "Key_name k = (case k of Some u \<Rightarrow> u_name u | None \<Rightarrow> [])"

section \<open>Keys are read back\<close>

interpretation location: exact_codec Location_write Location_read "\<lambda>_. True"
proof
  show "Location_read (Location_write l @ bs) = Inr (l, bs)" for l bs
    by (simp add: Location_read_def Location_write_def)
  show "True \<and> bs = Location_write l @ bs'" if "Location_read bs = Inr (l, bs')" for bs l bs'
    using that by (auto simp: Location_read_def Location_write_def rbind_eq_Inr u32.dec_iff u16.dec_iff)
qed

lemma uoid_contents_bits:
  "bit ((if a then 2 else 0) OR (if b then 1 else 0) :: byte) 1 = a"
  "bit ((if a then 2 else 0) OR (if b then 1 else 0) :: byte) 0 = b"
  by (simp_all add: bit_simps)

interpretation uoid: codec "Uoid_write L" "Uoid_read L" "Uoid_wf L" for L
proof
  fix u bs assume "Uoid_wf L u"
  then show "Uoid_read L (Uoid_write L u @ bs) = Inr (u, bs)"
    by (simp add: Uoid_read_def Uoid_write_def Uoid_wf_def uoid_contents_bits Let_def
        location.dec_enc safestr.dec_enc del: bit_0)
qed

interpretation key: codec "Key_write L" "Key_read L" "Key_wf L" for L
proof
  fix k bs assume "Key_wf L k"
  then show "Key_read L (Key_write L k @ bs) = Inr (k, bs)"
    by (cases k) (simp_all add: Key_read_def Key_write_def Key_wf_def uoid.dec_enc)
qed

lemmas reads_prefix_location [suffix_intros] = location.dec_suffix

lemmas key_rd [rd_simps, simp] = location.dec_enc uoid.dec_enc key.dec_enc

lemma reads_prefix_keys [suffix_intros]: "reads_prefix (Uoid_read L)" "reads_prefix (Key_read L)"
proof -
  show u: "reads_prefix (Uoid_read L)"
    unfolding Uoid_read_def by (intro suffix_intros)
  show "reads_prefix (Key_read L)" unfolding Key_read_def by (intro suffix_intros u)
qed

section \<open>Properties\<close>

text \<open>
  A key is read back from what was written, and no two keys with names the format can carry are
  written alike, so that the bytes of a key cannot be taken for another key followed by other data.
\<close>

theorem key_unambiguous:
  assumes "Key_wf L k" and "Key_wf L k'"
  shows "Key_read L (Key_write L k @ bs) = Inr (k, bs)
    \<and> (Key_write L k @ bs = Key_write L k' @ cs \<longrightarrow> k = k' \<and> bs = cs)"
  using key.dec_enc [OF assms(1)] key.enc_unambiguous [OF assms] by blast

theorem key_unambiguous_witness:
  "let k = Some (Uoid_new\<lparr>u_name := [72, 105], m_cloneId := 4\<rparr>) in
   Key_read ascii_lib (Key_write ascii_lib k @ [1]) = Inr (k, [1])
    \<and> (Key_write ascii_lib k @ [1] = Key_write ascii_lib None @ [2] \<longrightarrow> k = None \<and> [1] = [2 :: byte])"
  unfolding Let_def
  by (rule key_unambiguous)
    (simp_all add: Key_wf_def Uoid_wf_def Uoid_new_def safe_ok_def ascii_lib_def buf_front_def)

end
