(* ===== verification/Messages.thy ===== *)
theory Messages
  imports Keys
begin

unbundle bit_operations_syntax

text \<open>
  The Plasma messages whose fields are plain data, \<open>src/PlasMOUL/Messages\<close>: per class a record with
  the class's fields (the base class as the field \<open>base\<close>), its \<open>read\<close> and \<open>write\<close>, and the values
  the format can carry (\<open>wf\<close>: strings that survive the string formats, vectors whose length fits
  their count). Every class is an interpretation of \<open>codec\<close>. A message that does not override
  \<open>makeSafeForNet\<close> passes unchanged.
\<close>

section \<open>Counted vectors\<close>

text \<open>
  \<open>xs.resize(stream->read<T>()); for (...) xs[i].read(stream)\<close> and the matching writer, for a count
  of \<open>n\<close> bytes.
\<close>

definition read_list :: "nat \<Rightarrow> 'a rd \<Rightarrow> 'a list rd" where
  "read_list n p = rbind (Stream_read n :: u64 rd) (\<lambda>k. rcount (unat k) p)"

definition write_list :: "nat \<Rightarrow> ('a \<Rightarrow> bytes) \<Rightarrow> 'a list \<Rightarrow> bytes" where
  "write_list n w xs = Stream_write n (of_nat (length xs) :: u64) @ concat (map w xs)"

definition list_wf :: "nat \<Rightarrow> ('a \<Rightarrow> bool) \<Rightarrow> 'a list \<Rightarrow> bool" where
  "list_wf n ok xs \<longleftrightarrow> n \<le> 8 \<and> length xs < 2 ^ (8 * n) \<and> length xs < 2 ^ 64 \<and> list_all ok xs"

context codec
begin

lemma read_write_list:
  "list_wf n wf xs \<Longrightarrow> read_list n dec (write_list n enc xs @ bs) = Inr (xs, bs)"
  by (simp add: read_list_def write_list_def list_wf_def Stream_read_len unat_of_nat dec_enc_list)

end

lemma reads_prefix_read_list [suffix_intros]: "reads_prefix p \<Longrightarrow> reads_prefix (read_list n p)"
  unfolding read_list_def by (intro suffix_intros)

lemma list_wf_True: "list_wf n (\<lambda>_. True) xs \<longleftrightarrow> n \<le> 8 \<and> length xs < 2 ^ (8 * n) \<and> length xs < 2 ^ 64"
  by (simp add: list_wf_def)

text \<open>A key that is sent only when it is not null, behind a flag of its own.\<close>

definition OptKey_read :: "ext_lib \<Rightarrow> Key rd" where
  "OptKey_read L = rbind Stream_read_bool (\<lambda>b. if b then Key_read L else rret None)"

definition OptKey_write :: "ext_lib \<Rightarrow> Key \<Rightarrow> bytes" where
  "OptKey_write L k =
     (if k \<noteq> None then Stream_write_bool True @ Key_write L k else Stream_write_bool False)"

interpretation optkey: codec "OptKey_write L" "OptKey_read L" "Key_wf L" for L
  by unfold_locales (simp add: OptKey_read_def OptKey_write_def)

lemma reads_prefix_optkey [suffix_intros]: "reads_prefix (OptKey_read L)"
  unfolding OptKey_read_def by (intro suffix_intros)

definition ColorRgba_read :: "ColorRgba rd" where
  "ColorRgba_read =
     rbind read_u32 (\<lambda>r. rbind read_u32 (\<lambda>g. rbind read_u32 (\<lambda>b. rbind read_u32 (\<lambda>a.
     rret \<lparr>c_R = r, c_G = g, c_B = b, c_A = a\<rparr>))))"

definition ColorRgba_write :: "ColorRgba \<Rightarrow> bytes" where
  "ColorRgba_write c = write_u32 (c_R c) @ write_u32 (c_G c) @ write_u32 (c_B c) @ write_u32 (c_A c)"

interpretation color: codec ColorRgba_write ColorRgba_read "\<lambda>_. True"
  by unfold_locales (simp add: ColorRgba_read_def ColorRgba_write_def)

lemma reads_prefix_color [suffix_intros]: "reads_prefix ColorRgba_read"
  unfolding ColorRgba_read_def by (intro suffix_intros)

lemmas rb_enc = u8.reads_back_enc u16.reads_back_enc u32.reads_back_enc u64.reads_back_enc
  cbool.reads_back_enc cbool32.reads_back_enc safestr.reads_back_enc pstr.reads_back_enc
  utime.reads_back_enc uuid.reads_back_enc vec3.reads_back_enc matrix.reads_back_enc
  bitvec.reads_back_enc location.reads_back_enc uoid.reads_back_enc key.reads_back_enc
  optkey.reads_back_enc color.reads_back_enc

lemmas vec_rd [rd_simps] = key.read_write_list optkey.dec_enc color.dec_enc

section \<open>Message classes\<close>

record Message =
  ms_sender :: Key
  ms_receivers :: "Key list"
  ms_timestamp :: f64
  ms_bcastFlags :: u32

definition Message_read :: "ext_lib \<Rightarrow> Message rd" where
  "Message_read L =
     rbind (Key_read L) (\<lambda>sender.
     rbind (read_list 4 (Key_read L)) (\<lambda>receivers.
     rbind (read_u64) (\<lambda>timestamp.
     rbind (read_u32) (\<lambda>bcastFlags.
     rret \<lparr>ms_sender = sender, ms_receivers = receivers, ms_timestamp = timestamp, ms_bcastFlags = bcastFlags\<rparr>))))"

definition Message_write :: "ext_lib \<Rightarrow> Message \<Rightarrow> bytes" where
  "Message_write L m =
     Key_write L (ms_sender m)
     @ write_list 4 (Key_write L) (ms_receivers m)
     @ write_u64 (ms_timestamp m)
     @ write_u32 (ms_bcastFlags m)"

definition Message_wf :: "ext_lib \<Rightarrow> Message \<Rightarrow> bool" where
  "Message_wf L m \<longleftrightarrow> Key_wf L (ms_sender m)
     \<and> list_wf 4 (Key_wf L) (ms_receivers m)"

interpretation message_c: codec "Message_write L" "Message_read L" "Message_wf L" for L
  by unfold_locales (simp add: Message_read_def Message_write_def Message_wf_def rd_simps)

lemma reads_prefix_Message [suffix_intros]: "reads_prefix (Message_read L)"
  unfolding Message_read_def by (intro suffix_intros)

lemmas message_c_rd [rd_simps] = message_c.dec_enc

record AvatarInputStateMsg =
  ais_base :: Message
  ais_state :: u16

definition AvatarInputStateMsg_read :: "ext_lib \<Rightarrow> AvatarInputStateMsg rd" where
  "AvatarInputStateMsg_read L =
     rbind (Message_read L) (\<lambda>base.
     rbind (read_u16) (\<lambda>state.
     rret \<lparr>ais_base = base, ais_state = state\<rparr>))"

definition AvatarInputStateMsg_write :: "ext_lib \<Rightarrow> AvatarInputStateMsg \<Rightarrow> bytes" where
  "AvatarInputStateMsg_write L m =
     Message_write L (ais_base m)
     @ write_u16 (ais_state m)"

definition AvatarInputStateMsg_wf :: "ext_lib \<Rightarrow> AvatarInputStateMsg \<Rightarrow> bool" where
  "AvatarInputStateMsg_wf L m \<longleftrightarrow> Message_wf L (ais_base m)"

interpretation avatarInputStateMsg_c: codec "AvatarInputStateMsg_write L" "AvatarInputStateMsg_read L" "AvatarInputStateMsg_wf L" for L
  by unfold_locales (simp add: AvatarInputStateMsg_read_def AvatarInputStateMsg_write_def AvatarInputStateMsg_wf_def rd_simps)

lemma reads_prefix_AvatarInputStateMsg [suffix_intros]: "reads_prefix (AvatarInputStateMsg_read L)"
  unfolding AvatarInputStateMsg_read_def by (intro suffix_intros)

lemmas avatarInputStateMsg_c_rd [rd_simps] = avatarInputStateMsg_c.dec_enc

record AvBrainGenericMsg =
  abg_base :: Message
  abg_type :: u32
  abg_stage :: u32
  abg_setTime :: bool
  abg_newTime :: f32
  abg_setDirection :: bool
  abg_newDirection :: bool
  abg_transitionTime :: f32

definition AvBrainGenericMsg_read :: "ext_lib \<Rightarrow> AvBrainGenericMsg rd" where
  "AvBrainGenericMsg_read L =
     rbind (Message_read L) (\<lambda>base.
     rbind (read_u32) (\<lambda>type.
     rbind (read_u32) (\<lambda>stage.
     rbind (Stream_read_bool) (\<lambda>setTime.
     rbind (read_u32) (\<lambda>newTime.
     rbind (Stream_read_bool) (\<lambda>setDirection.
     rbind (Stream_read_bool) (\<lambda>newDirection.
     rbind (read_u32) (\<lambda>transitionTime.
     rret \<lparr>abg_base = base, abg_type = type, abg_stage = stage, abg_setTime = setTime, abg_newTime = newTime, abg_setDirection = setDirection, abg_newDirection = newDirection, abg_transitionTime = transitionTime\<rparr>))))))))"

definition AvBrainGenericMsg_write :: "ext_lib \<Rightarrow> AvBrainGenericMsg \<Rightarrow> bytes" where
  "AvBrainGenericMsg_write L m =
     Message_write L (abg_base m)
     @ write_u32 (abg_type m)
     @ write_u32 (abg_stage m)
     @ Stream_write_bool (abg_setTime m)
     @ write_u32 (abg_newTime m)
     @ Stream_write_bool (abg_setDirection m)
     @ Stream_write_bool (abg_newDirection m)
     @ write_u32 (abg_transitionTime m)"

definition AvBrainGenericMsg_wf :: "ext_lib \<Rightarrow> AvBrainGenericMsg \<Rightarrow> bool" where
  "AvBrainGenericMsg_wf L m \<longleftrightarrow> Message_wf L (abg_base m)"

interpretation avBrainGenericMsg_c: codec "AvBrainGenericMsg_write L" "AvBrainGenericMsg_read L" "AvBrainGenericMsg_wf L" for L
  by unfold_locales (simp add: AvBrainGenericMsg_read_def AvBrainGenericMsg_write_def AvBrainGenericMsg_wf_def rd_simps)

lemma reads_prefix_AvBrainGenericMsg [suffix_intros]: "reads_prefix (AvBrainGenericMsg_read L)"
  unfolding AvBrainGenericMsg_read_def by (intro suffix_intros)

lemmas avBrainGenericMsg_c_rd [rd_simps] = avBrainGenericMsg_c.dec_enc

record AvTaskSeekDoneMsg =
  atsd_base :: Message
  atsd_aborted :: bool

definition AvTaskSeekDoneMsg_read :: "ext_lib \<Rightarrow> AvTaskSeekDoneMsg rd" where
  "AvTaskSeekDoneMsg_read L =
     rbind (Message_read L) (\<lambda>base.
     rbind (Stream_read_bool) (\<lambda>aborted.
     rret \<lparr>atsd_base = base, atsd_aborted = aborted\<rparr>))"

definition AvTaskSeekDoneMsg_write :: "ext_lib \<Rightarrow> AvTaskSeekDoneMsg \<Rightarrow> bytes" where
  "AvTaskSeekDoneMsg_write L m =
     Message_write L (atsd_base m)
     @ Stream_write_bool (atsd_aborted m)"

definition AvTaskSeekDoneMsg_wf :: "ext_lib \<Rightarrow> AvTaskSeekDoneMsg \<Rightarrow> bool" where
  "AvTaskSeekDoneMsg_wf L m \<longleftrightarrow> Message_wf L (atsd_base m)"

interpretation avTaskSeekDoneMsg_c: codec "AvTaskSeekDoneMsg_write L" "AvTaskSeekDoneMsg_read L" "AvTaskSeekDoneMsg_wf L" for L
  by unfold_locales (simp add: AvTaskSeekDoneMsg_read_def AvTaskSeekDoneMsg_write_def AvTaskSeekDoneMsg_wf_def rd_simps)

lemma reads_prefix_AvTaskSeekDoneMsg [suffix_intros]: "reads_prefix (AvTaskSeekDoneMsg_read L)"
  unfolding AvTaskSeekDoneMsg_read_def by (intro suffix_intros)

lemmas avTaskSeekDoneMsg_c_rd [rd_simps] = avTaskSeekDoneMsg_c.dec_enc

record BackdoorMsg =
  bd_base :: Message
  bd_target :: st_string
  bd_string :: st_string

definition BackdoorMsg_read :: "ext_lib \<Rightarrow> BackdoorMsg rd" where
  "BackdoorMsg_read L =
     rbind (Message_read L) (\<lambda>base.
     rbind (Stream_readSafeString L e_StringRAW8) (\<lambda>target.
     rbind (Stream_readSafeString L e_StringRAW8) (\<lambda>string.
     rret \<lparr>bd_base = base, bd_target = target, bd_string = string\<rparr>)))"

definition BackdoorMsg_write :: "ext_lib \<Rightarrow> BackdoorMsg \<Rightarrow> bytes" where
  "BackdoorMsg_write L m =
     Message_write L (bd_base m)
     @ Stream_writeSafeString L (bd_target m) e_StringRAW8
     @ Stream_writeSafeString L (bd_string m) e_StringRAW8"

definition BackdoorMsg_wf :: "ext_lib \<Rightarrow> BackdoorMsg \<Rightarrow> bool" where
  "BackdoorMsg_wf L m \<longleftrightarrow> Message_wf L (bd_base m)
     \<and> safe_ok L e_StringRAW8 (bd_target m)
     \<and> safe_ok L e_StringRAW8 (bd_string m)"

interpretation backdoorMsg_c: codec "BackdoorMsg_write L" "BackdoorMsg_read L" "BackdoorMsg_wf L" for L
  by unfold_locales (simp add: BackdoorMsg_read_def BackdoorMsg_write_def BackdoorMsg_wf_def rd_simps)

lemma reads_prefix_BackdoorMsg [suffix_intros]: "reads_prefix (BackdoorMsg_read L)"
  unfolding BackdoorMsg_read_def by (intro suffix_intros)

lemmas backdoorMsg_c_rd [rd_simps] = backdoorMsg_c.dec_enc

record BulletMsg =
  bul_base :: Message
  bul_cmd :: byte
  bul_from :: Vector3
  bul_direction :: Vector3
  bul_range :: f32
  bul_radius :: f32
  bul_partyTime :: f32

definition BulletMsg_read :: "ext_lib \<Rightarrow> BulletMsg rd" where
  "BulletMsg_read L =
     rbind (Message_read L) (\<lambda>base.
     rbind (read_u8) (\<lambda>cmd.
     rbind (Vector3_read) (\<lambda>from.
     rbind (Vector3_read) (\<lambda>direction.
     rbind (read_u32) (\<lambda>range.
     rbind (read_u32) (\<lambda>radius.
     rbind (read_u32) (\<lambda>partyTime.
     rret \<lparr>bul_base = base, bul_cmd = cmd, bul_from = from, bul_direction = direction, bul_range = range, bul_radius = radius, bul_partyTime = partyTime\<rparr>)))))))"

definition BulletMsg_write :: "ext_lib \<Rightarrow> BulletMsg \<Rightarrow> bytes" where
  "BulletMsg_write L m =
     Message_write L (bul_base m)
     @ write_u8 (bul_cmd m)
     @ Vector3_write (bul_from m)
     @ Vector3_write (bul_direction m)
     @ write_u32 (bul_range m)
     @ write_u32 (bul_radius m)
     @ write_u32 (bul_partyTime m)"

definition BulletMsg_wf :: "ext_lib \<Rightarrow> BulletMsg \<Rightarrow> bool" where
  "BulletMsg_wf L m \<longleftrightarrow> Message_wf L (bul_base m)"

interpretation bulletMsg_c: codec "BulletMsg_write L" "BulletMsg_read L" "BulletMsg_wf L" for L
  by unfold_locales (simp add: BulletMsg_read_def BulletMsg_write_def BulletMsg_wf_def rd_simps)

lemma reads_prefix_BulletMsg [suffix_intros]: "reads_prefix (BulletMsg_read L)"
  unfolding BulletMsg_read_def by (intro suffix_intros)

lemmas bulletMsg_c_rd [rd_simps] = bulletMsg_c.dec_enc

record ClimbMsg =
  cli_base :: Message
  cli_cmd :: u32
  cli_direction :: u32
  cli_status :: bool
  cli_target :: Key

definition ClimbMsg_read :: "ext_lib \<Rightarrow> ClimbMsg rd" where
  "ClimbMsg_read L =
     rbind (Message_read L) (\<lambda>base.
     rbind (read_u32) (\<lambda>cmd.
     rbind (read_u32) (\<lambda>direction.
     rbind (Stream_read_bool) (\<lambda>status.
     rbind (Key_read L) (\<lambda>target.
     rret \<lparr>cli_base = base, cli_cmd = cmd, cli_direction = direction, cli_status = status, cli_target = target\<rparr>)))))"

definition ClimbMsg_write :: "ext_lib \<Rightarrow> ClimbMsg \<Rightarrow> bytes" where
  "ClimbMsg_write L m =
     Message_write L (cli_base m)
     @ write_u32 (cli_cmd m)
     @ write_u32 (cli_direction m)
     @ Stream_write_bool (cli_status m)
     @ Key_write L (cli_target m)"

definition ClimbMsg_wf :: "ext_lib \<Rightarrow> ClimbMsg \<Rightarrow> bool" where
  "ClimbMsg_wf L m \<longleftrightarrow> Message_wf L (cli_base m)
     \<and> Key_wf L (cli_target m)"

interpretation climbMsg_c: codec "ClimbMsg_write L" "ClimbMsg_read L" "ClimbMsg_wf L" for L
  by unfold_locales (simp add: ClimbMsg_read_def ClimbMsg_write_def ClimbMsg_wf_def rd_simps)

lemma reads_prefix_ClimbMsg [suffix_intros]: "reads_prefix (ClimbMsg_read L)"
  unfolding ClimbMsg_read_def by (intro suffix_intros)

lemmas climbMsg_c_rd [rd_simps] = climbMsg_c.dec_enc

record ClothingMsg =
  clo_base :: Message
  clo_commands :: u32
  clo_item :: Key
  clo_color :: ColorRgba
  clo_layer :: byte
  clo_delta :: byte
  clo_weight :: f32

definition ClothingMsg_read :: "ext_lib \<Rightarrow> ClothingMsg rd" where
  "ClothingMsg_read L =
     rbind (Message_read L) (\<lambda>base.
     rbind (read_u32) (\<lambda>commands.
     rbind (OptKey_read L) (\<lambda>item.
     rbind (ColorRgba_read) (\<lambda>color.
     rbind (read_u8) (\<lambda>layer.
     rbind (read_u8) (\<lambda>delta.
     rbind (read_u32) (\<lambda>weight.
     rret \<lparr>clo_base = base, clo_commands = commands, clo_item = item, clo_color = color, clo_layer = layer, clo_delta = delta, clo_weight = weight\<rparr>)))))))"

definition ClothingMsg_write :: "ext_lib \<Rightarrow> ClothingMsg \<Rightarrow> bytes" where
  "ClothingMsg_write L m =
     Message_write L (clo_base m)
     @ write_u32 (clo_commands m)
     @ OptKey_write L (clo_item m)
     @ ColorRgba_write (clo_color m)
     @ write_u8 (clo_layer m)
     @ write_u8 (clo_delta m)
     @ write_u32 (clo_weight m)"

definition ClothingMsg_wf :: "ext_lib \<Rightarrow> ClothingMsg \<Rightarrow> bool" where
  "ClothingMsg_wf L m \<longleftrightarrow> Message_wf L (clo_base m)
     \<and> Key_wf L (clo_item m)"

interpretation clothingMsg_c: codec "ClothingMsg_write L" "ClothingMsg_read L" "ClothingMsg_wf L" for L
  by unfold_locales (simp add: ClothingMsg_read_def ClothingMsg_write_def ClothingMsg_wf_def rd_simps)

lemma reads_prefix_ClothingMsg [suffix_intros]: "reads_prefix (ClothingMsg_read L)"
  unfolding ClothingMsg_read_def by (intro suffix_intros)

lemmas clothingMsg_c_rd [rd_simps] = clothingMsg_c.dec_enc

record EnableMsg =
  en_base :: Message
  en_cmd :: BitVector
  en_types :: BitVector

definition EnableMsg_read :: "ext_lib \<Rightarrow> EnableMsg rd" where
  "EnableMsg_read L =
     rbind (Message_read L) (\<lambda>base.
     rbind (BitVector_read (uninit L)) (\<lambda>cmd.
     rbind (BitVector_read (uninit L)) (\<lambda>types.
     rret \<lparr>en_base = base, en_cmd = cmd, en_types = types\<rparr>)))"

definition EnableMsg_write :: "ext_lib \<Rightarrow> EnableMsg \<Rightarrow> bytes" where
  "EnableMsg_write L m =
     Message_write L (en_base m)
     @ BitVector_write (en_cmd m)
     @ BitVector_write (en_types m)"

definition EnableMsg_wf :: "ext_lib \<Rightarrow> EnableMsg \<Rightarrow> bool" where
  "EnableMsg_wf L m \<longleftrightarrow> Message_wf L (en_base m)
     \<and> BitVector_wf (en_cmd m)
     \<and> BitVector_wf (en_types m)"

interpretation enableMsg_c: codec "EnableMsg_write L" "EnableMsg_read L" "EnableMsg_wf L" for L
  by unfold_locales (simp add: EnableMsg_read_def EnableMsg_write_def EnableMsg_wf_def rd_simps)

lemma reads_prefix_EnableMsg [suffix_intros]: "reads_prefix (EnableMsg_read L)"
  unfolding EnableMsg_read_def by (intro suffix_intros)

lemmas enableMsg_c_rd [rd_simps] = enableMsg_c.dec_enc

record InputEventMsg =
  ie_base :: Message
  ie_event :: u32

definition InputEventMsg_read :: "ext_lib \<Rightarrow> InputEventMsg rd" where
  "InputEventMsg_read L =
     rbind (Message_read L) (\<lambda>base.
     rbind (read_u32) (\<lambda>event.
     rret \<lparr>ie_base = base, ie_event = event\<rparr>))"

definition InputEventMsg_write :: "ext_lib \<Rightarrow> InputEventMsg \<Rightarrow> bytes" where
  "InputEventMsg_write L m =
     Message_write L (ie_base m)
     @ write_u32 (ie_event m)"

definition InputEventMsg_wf :: "ext_lib \<Rightarrow> InputEventMsg \<Rightarrow> bool" where
  "InputEventMsg_wf L m \<longleftrightarrow> Message_wf L (ie_base m)"

interpretation inputEventMsg_c: codec "InputEventMsg_write L" "InputEventMsg_read L" "InputEventMsg_wf L" for L
  by unfold_locales (simp add: InputEventMsg_read_def InputEventMsg_write_def InputEventMsg_wf_def rd_simps)

lemma reads_prefix_InputEventMsg [suffix_intros]: "reads_prefix (InputEventMsg_read L)"
  unfolding InputEventMsg_read_def by (intro suffix_intros)

lemmas inputEventMsg_c_rd [rd_simps] = inputEventMsg_c.dec_enc

record ControlEventMsg =
  ce_base :: InputEventMsg
  ce_controlCode :: u32
  ce_activated :: bool
  ce_controlPercent :: f32
  ce_turnToPoint :: Vector3
  ce_cmd :: st_string

definition ControlEventMsg_read :: "ext_lib \<Rightarrow> ControlEventMsg rd" where
  "ControlEventMsg_read L =
     rbind (InputEventMsg_read L) (\<lambda>base.
     rbind (read_u32) (\<lambda>controlCode.
     rbind (Stream_read_bool32) (\<lambda>activated.
     rbind (read_u32) (\<lambda>controlPercent.
     rbind (Vector3_read) (\<lambda>turnToPoint.
     rbind (Stream_readPString L 2 e_StringRAW8) (\<lambda>cmd.
     rret \<lparr>ce_base = base, ce_controlCode = controlCode, ce_activated = activated, ce_controlPercent = controlPercent, ce_turnToPoint = turnToPoint, ce_cmd = cmd\<rparr>))))))"

definition ControlEventMsg_write :: "ext_lib \<Rightarrow> ControlEventMsg \<Rightarrow> bytes" where
  "ControlEventMsg_write L m =
     InputEventMsg_write L (ce_base m)
     @ write_u32 (ce_controlCode m)
     @ Stream_write_bool32 (ce_activated m)
     @ write_u32 (ce_controlPercent m)
     @ Vector3_write (ce_turnToPoint m)
     @ Stream_writePString L 2 (ce_cmd m) e_StringRAW8"

definition ControlEventMsg_wf :: "ext_lib \<Rightarrow> ControlEventMsg \<Rightarrow> bool" where
  "ControlEventMsg_wf L m \<longleftrightarrow> InputEventMsg_wf L (ce_base m)
     \<and> pstring_ok L 2 (ce_cmd m)"

interpretation controlEventMsg_c: codec "ControlEventMsg_write L" "ControlEventMsg_read L" "ControlEventMsg_wf L" for L
  by unfold_locales (simp add: ControlEventMsg_read_def ControlEventMsg_write_def ControlEventMsg_wf_def rd_simps)

lemma reads_prefix_ControlEventMsg [suffix_intros]: "reads_prefix (ControlEventMsg_read L)"
  unfolding ControlEventMsg_read_def by (intro suffix_intros)

lemmas controlEventMsg_c_rd [rd_simps] = controlEventMsg_c.dec_enc

record InputIfaceMgrMsg =
  iim_base :: Message
  iim_command :: byte
  iim_pageId :: u32
  iim_ageName :: st_string
  iim_ageFilename :: st_string
  iim_spawnPoint :: st_string
  iim_avatar :: Key

definition InputIfaceMgrMsg_read :: "ext_lib \<Rightarrow> InputIfaceMgrMsg rd" where
  "InputIfaceMgrMsg_read L =
     rbind (Message_read L) (\<lambda>base.
     rbind (read_u8) (\<lambda>command.
     rbind (read_u32) (\<lambda>pageId.
     rbind (Stream_readSafeString L e_StringRAW8) (\<lambda>ageName.
     rbind (Stream_readSafeString L e_StringRAW8) (\<lambda>ageFilename.
     rbind (Stream_readSafeString L e_StringRAW8) (\<lambda>spawnPoint.
     rbind (Key_read L) (\<lambda>avatar.
     rret \<lparr>iim_base = base, iim_command = command, iim_pageId = pageId, iim_ageName = ageName, iim_ageFilename = ageFilename, iim_spawnPoint = spawnPoint, iim_avatar = avatar\<rparr>)))))))"

definition InputIfaceMgrMsg_write :: "ext_lib \<Rightarrow> InputIfaceMgrMsg \<Rightarrow> bytes" where
  "InputIfaceMgrMsg_write L m =
     Message_write L (iim_base m)
     @ write_u8 (iim_command m)
     @ write_u32 (iim_pageId m)
     @ Stream_writeSafeString L (iim_ageName m) e_StringRAW8
     @ Stream_writeSafeString L (iim_ageFilename m) e_StringRAW8
     @ Stream_writeSafeString L (iim_spawnPoint m) e_StringRAW8
     @ Key_write L (iim_avatar m)"

definition InputIfaceMgrMsg_wf :: "ext_lib \<Rightarrow> InputIfaceMgrMsg \<Rightarrow> bool" where
  "InputIfaceMgrMsg_wf L m \<longleftrightarrow> Message_wf L (iim_base m)
     \<and> safe_ok L e_StringRAW8 (iim_ageName m)
     \<and> safe_ok L e_StringRAW8 (iim_ageFilename m)
     \<and> safe_ok L e_StringRAW8 (iim_spawnPoint m)
     \<and> Key_wf L (iim_avatar m)"

interpretation inputIfaceMgrMsg_c: codec "InputIfaceMgrMsg_write L" "InputIfaceMgrMsg_read L" "InputIfaceMgrMsg_wf L" for L
  by unfold_locales (simp add: InputIfaceMgrMsg_read_def InputIfaceMgrMsg_write_def InputIfaceMgrMsg_wf_def rd_simps)

lemma reads_prefix_InputIfaceMgrMsg [suffix_intros]: "reads_prefix (InputIfaceMgrMsg_read L)"
  unfolding InputIfaceMgrMsg_read_def by (intro suffix_intros)

lemmas inputIfaceMgrMsg_c_rd [rd_simps] = inputIfaceMgrMsg_c.dec_enc

record KIMessage =
  ki_base :: Message
  ki_command :: byte
  ki_user :: st_string
  ki_playerId :: u32
  ki_string :: st_string
  ki_flags :: u32
  ki_delay :: f32
  ki_value :: u32

definition KIMessage_read :: "ext_lib \<Rightarrow> KIMessage rd" where
  "KIMessage_read L =
     rbind (Message_read L) (\<lambda>base.
     rbind (read_u8) (\<lambda>command.
     rbind (Stream_readSafeString L e_StringUTF8) (\<lambda>user.
     rbind (read_u32) (\<lambda>playerId.
     rbind (Stream_readSafeString L e_StringUTF16) (\<lambda>string.
     rbind (read_u32) (\<lambda>flags.
     rbind (read_u32) (\<lambda>delay.
     rbind (read_u32) (\<lambda>value.
     rret \<lparr>ki_base = base, ki_command = command, ki_user = user, ki_playerId = playerId, ki_string = string, ki_flags = flags, ki_delay = delay, ki_value = value\<rparr>))))))))"

definition KIMessage_write :: "ext_lib \<Rightarrow> KIMessage \<Rightarrow> bytes" where
  "KIMessage_write L m =
     Message_write L (ki_base m)
     @ write_u8 (ki_command m)
     @ Stream_writeSafeString L (ki_user m) e_StringUTF8
     @ write_u32 (ki_playerId m)
     @ Stream_writeSafeString L (ki_string m) e_StringUTF16
     @ write_u32 (ki_flags m)
     @ write_u32 (ki_delay m)
     @ write_u32 (ki_value m)"

definition KIMessage_wf :: "ext_lib \<Rightarrow> KIMessage \<Rightarrow> bool" where
  "KIMessage_wf L m \<longleftrightarrow> Message_wf L (ki_base m)
     \<and> safe_ok L e_StringUTF8 (ki_user m)
     \<and> safe_ok L e_StringUTF16 (ki_string m)"

interpretation kIMessage_c: codec "KIMessage_write L" "KIMessage_read L" "KIMessage_wf L" for L
  by unfold_locales (simp add: KIMessage_read_def KIMessage_write_def KIMessage_wf_def rd_simps)

lemma reads_prefix_KIMessage [suffix_intros]: "reads_prefix (KIMessage_read L)"
  unfolding KIMessage_read_def by (intro suffix_intros)

lemmas kIMessage_c_rd [rd_simps] = kIMessage_c.dec_enc

record LinkEffectsTriggerMsg =
  let_base :: Message
  let_invisLevel :: u32
  let_leaving :: bool
  let_linkKey :: Key
  let_effects :: u32
  let_animKey :: Key

definition LinkEffectsTriggerMsg_read :: "ext_lib \<Rightarrow> LinkEffectsTriggerMsg rd" where
  "LinkEffectsTriggerMsg_read L =
     rbind (Message_read L) (\<lambda>base.
     rbind (read_u32) (\<lambda>invisLevel.
     rbind (Stream_read_bool) (\<lambda>leaving.
     rbind (Key_read L) (\<lambda>linkKey.
     rbind (read_u32) (\<lambda>effects.
     rbind (Key_read L) (\<lambda>animKey.
     rret \<lparr>let_base = base, let_invisLevel = invisLevel, let_leaving = leaving, let_linkKey = linkKey, let_effects = effects, let_animKey = animKey\<rparr>))))))"

definition LinkEffectsTriggerMsg_write :: "ext_lib \<Rightarrow> LinkEffectsTriggerMsg \<Rightarrow> bytes" where
  "LinkEffectsTriggerMsg_write L m =
     Message_write L (let_base m)
     @ write_u32 (let_invisLevel m)
     @ Stream_write_bool (let_leaving m)
     @ Key_write L (let_linkKey m)
     @ write_u32 (let_effects m)
     @ Key_write L (let_animKey m)"

definition LinkEffectsTriggerMsg_wf :: "ext_lib \<Rightarrow> LinkEffectsTriggerMsg \<Rightarrow> bool" where
  "LinkEffectsTriggerMsg_wf L m \<longleftrightarrow> Message_wf L (let_base m)
     \<and> Key_wf L (let_linkKey m)
     \<and> Key_wf L (let_animKey m)"

interpretation linkEffectsTriggerMsg_c: codec "LinkEffectsTriggerMsg_write L" "LinkEffectsTriggerMsg_read L" "LinkEffectsTriggerMsg_wf L" for L
  by unfold_locales (simp add: LinkEffectsTriggerMsg_read_def LinkEffectsTriggerMsg_write_def LinkEffectsTriggerMsg_wf_def rd_simps)

lemma reads_prefix_LinkEffectsTriggerMsg [suffix_intros]: "reads_prefix (LinkEffectsTriggerMsg_read L)"
  unfolding LinkEffectsTriggerMsg_read_def by (intro suffix_intros)

lemmas linkEffectsTriggerMsg_c_rd [rd_simps] = linkEffectsTriggerMsg_c.dec_enc

record MultistageModMsg =
  mm_base :: Message
  mm_cmds :: BitVector
  mm_stage :: byte
  mm_numLoops :: byte

definition MultistageModMsg_read :: "ext_lib \<Rightarrow> MultistageModMsg rd" where
  "MultistageModMsg_read L =
     rbind (Message_read L) (\<lambda>base.
     rbind (BitVector_read (uninit L)) (\<lambda>cmds.
     rbind (read_u8) (\<lambda>stage.
     rbind (read_u8) (\<lambda>numLoops.
     rret \<lparr>mm_base = base, mm_cmds = cmds, mm_stage = stage, mm_numLoops = numLoops\<rparr>))))"

definition MultistageModMsg_write :: "ext_lib \<Rightarrow> MultistageModMsg \<Rightarrow> bytes" where
  "MultistageModMsg_write L m =
     Message_write L (mm_base m)
     @ BitVector_write (mm_cmds m)
     @ write_u8 (mm_stage m)
     @ write_u8 (mm_numLoops m)"

definition MultistageModMsg_wf :: "ext_lib \<Rightarrow> MultistageModMsg \<Rightarrow> bool" where
  "MultistageModMsg_wf L m \<longleftrightarrow> Message_wf L (mm_base m)
     \<and> BitVector_wf (mm_cmds m)"

interpretation multistageModMsg_c: codec "MultistageModMsg_write L" "MultistageModMsg_read L" "MultistageModMsg_wf L" for L
  by unfold_locales (simp add: MultistageModMsg_read_def MultistageModMsg_write_def MultistageModMsg_wf_def rd_simps)

lemma reads_prefix_MultistageModMsg [suffix_intros]: "reads_prefix (MultistageModMsg_read L)"
  unfolding MultistageModMsg_read_def by (intro suffix_intros)

lemmas multistageModMsg_c_rd [rd_simps] = multistageModMsg_c.dec_enc

record ParticleKillMsg =
  pk_base :: Message
  pk_numToKill :: f32
  pk_timeLeft :: f32
  pk_flags :: byte

definition ParticleKillMsg_read :: "ext_lib \<Rightarrow> ParticleKillMsg rd" where
  "ParticleKillMsg_read L =
     rbind (Message_read L) (\<lambda>base.
     rbind (read_u32) (\<lambda>numToKill.
     rbind (read_u32) (\<lambda>timeLeft.
     rbind (read_u8) (\<lambda>flags.
     rret \<lparr>pk_base = base, pk_numToKill = numToKill, pk_timeLeft = timeLeft, pk_flags = flags\<rparr>))))"

definition ParticleKillMsg_write :: "ext_lib \<Rightarrow> ParticleKillMsg \<Rightarrow> bytes" where
  "ParticleKillMsg_write L m =
     Message_write L (pk_base m)
     @ write_u32 (pk_numToKill m)
     @ write_u32 (pk_timeLeft m)
     @ write_u8 (pk_flags m)"

definition ParticleKillMsg_wf :: "ext_lib \<Rightarrow> ParticleKillMsg \<Rightarrow> bool" where
  "ParticleKillMsg_wf L m \<longleftrightarrow> Message_wf L (pk_base m)"

interpretation particleKillMsg_c: codec "ParticleKillMsg_write L" "ParticleKillMsg_read L" "ParticleKillMsg_wf L" for L
  by unfold_locales (simp add: ParticleKillMsg_read_def ParticleKillMsg_write_def ParticleKillMsg_wf_def rd_simps)

lemma reads_prefix_ParticleKillMsg [suffix_intros]: "reads_prefix (ParticleKillMsg_read L)"
  unfolding ParticleKillMsg_read_def by (intro suffix_intros)

lemmas particleKillMsg_c_rd [rd_simps] = particleKillMsg_c.dec_enc

record ParticleTransferMsg =
  pt_base :: Message
  pt_sysKey :: Key
  pt_transferCount :: u16

definition ParticleTransferMsg_read :: "ext_lib \<Rightarrow> ParticleTransferMsg rd" where
  "ParticleTransferMsg_read L =
     rbind (Message_read L) (\<lambda>base.
     rbind (Key_read L) (\<lambda>sysKey.
     rbind (read_u16) (\<lambda>transferCount.
     rret \<lparr>pt_base = base, pt_sysKey = sysKey, pt_transferCount = transferCount\<rparr>)))"

definition ParticleTransferMsg_write :: "ext_lib \<Rightarrow> ParticleTransferMsg \<Rightarrow> bytes" where
  "ParticleTransferMsg_write L m =
     Message_write L (pt_base m)
     @ Key_write L (pt_sysKey m)
     @ write_u16 (pt_transferCount m)"

definition ParticleTransferMsg_wf :: "ext_lib \<Rightarrow> ParticleTransferMsg \<Rightarrow> bool" where
  "ParticleTransferMsg_wf L m \<longleftrightarrow> Message_wf L (pt_base m)
     \<and> Key_wf L (pt_sysKey m)"

interpretation particleTransferMsg_c: codec "ParticleTransferMsg_write L" "ParticleTransferMsg_read L" "ParticleTransferMsg_wf L" for L
  by unfold_locales (simp add: ParticleTransferMsg_read_def ParticleTransferMsg_write_def ParticleTransferMsg_wf_def rd_simps)

lemma reads_prefix_ParticleTransferMsg [suffix_intros]: "reads_prefix (ParticleTransferMsg_read L)"
  unfolding ParticleTransferMsg_read_def by (intro suffix_intros)

lemmas particleTransferMsg_c_rd [rd_simps] = particleTransferMsg_c.dec_enc

record PseudoLinkEffectMsg =
  ple_base :: Message
  ple_linkObj :: Key
  ple_avatar :: Key

definition PseudoLinkEffectMsg_read :: "ext_lib \<Rightarrow> PseudoLinkEffectMsg rd" where
  "PseudoLinkEffectMsg_read L =
     rbind (Message_read L) (\<lambda>base.
     rbind (Key_read L) (\<lambda>linkObj.
     rbind (Key_read L) (\<lambda>avatar.
     rret \<lparr>ple_base = base, ple_linkObj = linkObj, ple_avatar = avatar\<rparr>)))"

definition PseudoLinkEffectMsg_write :: "ext_lib \<Rightarrow> PseudoLinkEffectMsg \<Rightarrow> bytes" where
  "PseudoLinkEffectMsg_write L m =
     Message_write L (ple_base m)
     @ Key_write L (ple_linkObj m)
     @ Key_write L (ple_avatar m)"

definition PseudoLinkEffectMsg_wf :: "ext_lib \<Rightarrow> PseudoLinkEffectMsg \<Rightarrow> bool" where
  "PseudoLinkEffectMsg_wf L m \<longleftrightarrow> Message_wf L (ple_base m)
     \<and> Key_wf L (ple_linkObj m)
     \<and> Key_wf L (ple_avatar m)"

interpretation pseudoLinkEffectMsg_c: codec "PseudoLinkEffectMsg_write L" "PseudoLinkEffectMsg_read L" "PseudoLinkEffectMsg_wf L" for L
  by unfold_locales (simp add: PseudoLinkEffectMsg_read_def PseudoLinkEffectMsg_write_def PseudoLinkEffectMsg_wf_def rd_simps)

lemma reads_prefix_PseudoLinkEffectMsg [suffix_intros]: "reads_prefix (PseudoLinkEffectMsg_read L)"
  unfolding PseudoLinkEffectMsg_read_def by (intro suffix_intros)

lemmas pseudoLinkEffectMsg_c_rd [rd_simps] = pseudoLinkEffectMsg_c.dec_enc

record ServerReplyMsg =
  sr_base :: Message
  sr_reply :: u32

definition ServerReplyMsg_read :: "ext_lib \<Rightarrow> ServerReplyMsg rd" where
  "ServerReplyMsg_read L =
     rbind (Message_read L) (\<lambda>base.
     rbind (read_u32) (\<lambda>reply.
     rret \<lparr>sr_base = base, sr_reply = reply\<rparr>))"

definition ServerReplyMsg_write :: "ext_lib \<Rightarrow> ServerReplyMsg \<Rightarrow> bytes" where
  "ServerReplyMsg_write L m =
     Message_write L (sr_base m)
     @ write_u32 (sr_reply m)"

definition ServerReplyMsg_wf :: "ext_lib \<Rightarrow> ServerReplyMsg \<Rightarrow> bool" where
  "ServerReplyMsg_wf L m \<longleftrightarrow> Message_wf L (sr_base m)"

interpretation serverReplyMsg_c: codec "ServerReplyMsg_write L" "ServerReplyMsg_read L" "ServerReplyMsg_wf L" for L
  by unfold_locales (simp add: ServerReplyMsg_read_def ServerReplyMsg_write_def ServerReplyMsg_wf_def rd_simps)

lemma reads_prefix_ServerReplyMsg [suffix_intros]: "reads_prefix (ServerReplyMsg_read L)"
  unfolding ServerReplyMsg_read_def by (intro suffix_intros)

lemmas serverReplyMsg_c_rd [rd_simps] = serverReplyMsg_c.dec_enc

record SetNetGroupIdMsg =
  sng_base :: Message
  sng_location :: Location
  sng_flags :: byte

definition SetNetGroupIdMsg_read :: "ext_lib \<Rightarrow> SetNetGroupIdMsg rd" where
  "SetNetGroupIdMsg_read L =
     rbind (Message_read L) (\<lambda>base.
     rbind (Location_read) (\<lambda>location.
     rbind (read_u8) (\<lambda>flags.
     rret \<lparr>sng_base = base, sng_location = location, sng_flags = flags\<rparr>)))"

definition SetNetGroupIdMsg_write :: "ext_lib \<Rightarrow> SetNetGroupIdMsg \<Rightarrow> bytes" where
  "SetNetGroupIdMsg_write L m =
     Message_write L (sng_base m)
     @ Location_write (sng_location m)
     @ write_u8 (sng_flags m)"

definition SetNetGroupIdMsg_wf :: "ext_lib \<Rightarrow> SetNetGroupIdMsg \<Rightarrow> bool" where
  "SetNetGroupIdMsg_wf L m \<longleftrightarrow> Message_wf L (sng_base m)"

interpretation setNetGroupIdMsg_c: codec "SetNetGroupIdMsg_write L" "SetNetGroupIdMsg_read L" "SetNetGroupIdMsg_wf L" for L
  by unfold_locales (simp add: SetNetGroupIdMsg_read_def SetNetGroupIdMsg_write_def SetNetGroupIdMsg_wf_def rd_simps)

lemma reads_prefix_SetNetGroupIdMsg [suffix_intros]: "reads_prefix (SetNetGroupIdMsg_read L)"
  unfolding SetNetGroupIdMsg_read_def by (intro suffix_intros)

lemmas setNetGroupIdMsg_c_rd [rd_simps] = setNetGroupIdMsg_c.dec_enc

record SubWorldMsg =
  sw_base :: Message
  sw_world :: Key

definition SubWorldMsg_read :: "ext_lib \<Rightarrow> SubWorldMsg rd" where
  "SubWorldMsg_read L =
     rbind (Message_read L) (\<lambda>base.
     rbind (Key_read L) (\<lambda>world.
     rret \<lparr>sw_base = base, sw_world = world\<rparr>))"

definition SubWorldMsg_write :: "ext_lib \<Rightarrow> SubWorldMsg \<Rightarrow> bytes" where
  "SubWorldMsg_write L m =
     Message_write L (sw_base m)
     @ Key_write L (sw_world m)"

definition SubWorldMsg_wf :: "ext_lib \<Rightarrow> SubWorldMsg \<Rightarrow> bool" where
  "SubWorldMsg_wf L m \<longleftrightarrow> Message_wf L (sw_base m)
     \<and> Key_wf L (sw_world m)"

interpretation subWorldMsg_c: codec "SubWorldMsg_write L" "SubWorldMsg_read L" "SubWorldMsg_wf L" for L
  by unfold_locales (simp add: SubWorldMsg_read_def SubWorldMsg_write_def SubWorldMsg_wf_def rd_simps)

lemma reads_prefix_SubWorldMsg [suffix_intros]: "reads_prefix (SubWorldMsg_read L)"
  unfolding SubWorldMsg_read_def by (intro suffix_intros)

lemmas subWorldMsg_c_rd [rd_simps] = subWorldMsg_c.dec_enc

record WarpMsg =
  wm_base :: Message
  wm_transform :: Matrix44
  wm_warpFlags :: u32

definition WarpMsg_read :: "ext_lib \<Rightarrow> WarpMsg rd" where
  "WarpMsg_read L =
     rbind (Message_read L) (\<lambda>base.
     rbind (Matrix44_read) (\<lambda>transform.
     rbind (read_u32) (\<lambda>warpFlags.
     rret \<lparr>wm_base = base, wm_transform = transform, wm_warpFlags = warpFlags\<rparr>)))"

definition WarpMsg_write :: "ext_lib \<Rightarrow> WarpMsg \<Rightarrow> bytes" where
  "WarpMsg_write L m =
     Message_write L (wm_base m)
     @ Matrix44_write (wm_transform m)
     @ write_u32 (wm_warpFlags m)"

definition WarpMsg_wf :: "ext_lib \<Rightarrow> WarpMsg \<Rightarrow> bool" where
  "WarpMsg_wf L m \<longleftrightarrow> Message_wf L (wm_base m)
     \<and> Matrix44_wf (wm_transform m)"

interpretation warpMsg_c: codec "WarpMsg_write L" "WarpMsg_read L" "WarpMsg_wf L" for L
  by unfold_locales (simp add: WarpMsg_read_def WarpMsg_write_def WarpMsg_wf_def rd_simps)

lemma reads_prefix_WarpMsg [suffix_intros]: "reads_prefix (WarpMsg_read L)"
  unfolding WarpMsg_read_def by (intro suffix_intros)

lemmas warpMsg_c_rd [rd_simps] = warpMsg_c.dec_enc


text \<open>
  \<open>KIMessage::makeSafeForNet\<close>: anything but a chat message (command 0) is dropped, and a chat
  message loses the administrator flag (bit 1).
\<close>

definition KIMessage_makeSafeForNet :: "KIMessage \<Rightarrow> bool \<times> KIMessage" where
  "KIMessage_makeSafeForNet m =
     (if ki_command m \<noteq> 0 then (False, m)
      else (True, m\<lparr>ki_flags := ki_flags m AND NOT 2\<rparr>))"

end
