(* ===== verification/Game_Data.thy ===== *)
theory Game_Data
  imports Messages
begin

unbundle bit_operations_syntax

text \<open>
  The plain data inside messages: generic values (\<open>src/PlasMOUL/GenericValue.cpp\<close>), age links
  (\<open>AgeLinkStruct.cpp\<close>), notification events (\<open>Messages/EventData.cpp\<close>, \<open>NotifyMsg.cpp\<close>,
  \<open>LinkToAgeMsg.cpp\<close>) and the parts of avatar brains and tasks that hold no other object
  (\<open>Avatar/AnimStage.cpp\<close>, \<open>ArmatureBrain.cpp\<close>, \<open>AvTask.cpp\<close>).
\<close>

section \<open>GenericValue\<close>

text \<open>
  The type byte selects the member of the union that is read and written; a byte the switch does
  not list selects none.
\<close>

datatype GenericValue =
    GV_Int u32
  | GV_Float f32
  | GV_Bool bool
  | GV_String st_string
  | GV_Char byte
  | GV_Any st_string
  | GV_UInt u32
  | GV_Double f64
  | GV_Empty byte

definition GenericValue_read :: "ext_lib \<Rightarrow> GenericValue rd" where
  "GenericValue_read L =
     rbind read_u8 (\<lambda>dataType.
     if dataType = 3 then rbind (Stream_readSafeString L e_StringRAW8) (\<lambda>s. rret (GV_String s))
     else if dataType = 5 then rbind (Stream_readSafeString L e_StringRAW8) (\<lambda>s. rret (GV_Any s))
     else if dataType = 2 then rbind Stream_read_bool (\<lambda>b. rret (GV_Bool b))
     else if dataType = 4 then rbind read_u8 (\<lambda>c. rret (GV_Char c))
     else if dataType = 0 then rbind read_u32 (\<lambda>i. rret (GV_Int i))
     else if dataType = 6 then rbind read_u32 (\<lambda>i. rret (GV_UInt i))
     else if dataType = 1 then rbind read_u32 (\<lambda>f. rret (GV_Float f))
     else if dataType = 7 then rbind read_u64 (\<lambda>d. rret (GV_Double d))
     else rret (GV_Empty dataType))"

fun GenericValue_write :: "ext_lib \<Rightarrow> GenericValue \<Rightarrow> bytes" where
  "GenericValue_write L (GV_String s) = write_u8 3 @ Stream_writeSafeString L s e_StringRAW8"
| "GenericValue_write L (GV_Any s) = write_u8 5 @ Stream_writeSafeString L s e_StringRAW8"
| "GenericValue_write L (GV_Bool b) = write_u8 2 @ Stream_write_bool b"
| "GenericValue_write L (GV_Char c) = write_u8 4 @ write_u8 c"
| "GenericValue_write L (GV_Int i) = write_u8 0 @ write_u32 i"
| "GenericValue_write L (GV_UInt i) = write_u8 6 @ write_u32 i"
| "GenericValue_write L (GV_Float f) = write_u8 1 @ write_u32 f"
| "GenericValue_write L (GV_Double d) = write_u8 7 @ write_u64 d"
| "GenericValue_write L (GV_Empty t) = write_u8 t"

fun GenericValue_wf :: "ext_lib \<Rightarrow> GenericValue \<Rightarrow> bool" where
  "GenericValue_wf L (GV_String s) = safe_ok L e_StringRAW8 s"
| "GenericValue_wf L (GV_Any s) = safe_ok L e_StringRAW8 s"
| "GenericValue_wf L (GV_Empty t) = (t > 7)"
| "GenericValue_wf L _ = True"

interpretation genericValue_c: codec "GenericValue_write L" "GenericValue_read L" "GenericValue_wf L" for L
proof
  fix v bs assume "GenericValue_wf L v"
  then show "GenericValue_read L (GenericValue_write L v @ bs) = Inr (v, bs)"
    by (cases v) (auto simp: GenericValue_read_def rd_simps)
qed

lemma reads_prefix_GenericValue [suffix_intros]: "reads_prefix (GenericValue_read L)"
  unfolding GenericValue_read_def by (intro suffix_intros)

lemmas genericValue_c_rd [rd_simps] = genericValue_c.dec_enc

section \<open>Age links\<close>

record SpawnPointInfo =
  sp_flags :: BitVector
  sp_title :: st_string
  sp_spawnPt :: st_string
  sp_cameraStack :: st_string

definition SpawnPointInfo_new :: SpawnPointInfo where
  "SpawnPointInfo_new = \<lparr>sp_flags = BitVector_new, sp_title = [], sp_spawnPt = [], sp_cameraStack = []\<rparr>"

definition SpawnPointInfo_read :: "ext_lib \<Rightarrow> SpawnPointInfo rd" where
  "SpawnPointInfo_read L =
     rbind (BitVector_read (uninit L)) (\<lambda>flags.
     rbind (rlift (BitVector_get flags 0)) (\<lambda>hasTitle.
     rbind (if hasTitle then Stream_readPString L 2 e_StringRAW8 else rret []) (\<lambda>title.
     rbind (rlift (BitVector_get flags 1)) (\<lambda>hasName.
     rbind (if hasName then Stream_readPString L 2 e_StringRAW8 else rret []) (\<lambda>name.
     rbind (rlift (BitVector_get flags 2)) (\<lambda>hasCameraStack.
     rbind (if hasCameraStack then Stream_readPString L 2 e_StringRAW8 else rret []) (\<lambda>cameraStack.
     rret \<lparr>sp_flags = flags, sp_title = title, sp_spawnPt = name, sp_cameraStack = cameraStack\<rparr>)))))))"

definition SpawnPointInfo_write :: "ext_lib \<Rightarrow> SpawnPointInfo \<Rightarrow> wres" where
  "SpawnPointInfo_write L s = wconcat
     [Inr (BitVector_write (sp_flags s)),
      wif (BitVector_get (sp_flags s) 0) (Inr (Stream_writePString L 2 (sp_title s) e_StringRAW8)),
      wif (BitVector_get (sp_flags s) 1) (Inr (Stream_writePString L 2 (sp_spawnPt s) e_StringRAW8)),
      wif (BitVector_get (sp_flags s) 2) (Inr (Stream_writePString L 2 (sp_cameraStack s) e_StringRAW8))]"

text \<open>The setters keep the flags and the strings together.\<close>

definition SpawnPointInfo_setTitle :: "st_string \<Rightarrow> SpawnPointInfo \<Rightarrow> SpawnPointInfo" where
  "SpawnPointInfo_setTitle title s =
     s\<lparr>sp_title := title, sp_flags := BitVector_set (sp_flags s) 0 (title \<noteq> [])\<rparr>"

definition SpawnPointInfo_setName :: "st_string \<Rightarrow> SpawnPointInfo \<Rightarrow> SpawnPointInfo" where
  "SpawnPointInfo_setName name s =
     s\<lparr>sp_spawnPt := name, sp_flags := BitVector_set (sp_flags s) 1 (name \<noteq> [])\<rparr>"

definition SpawnPointInfo_setCameraStack :: "st_string \<Rightarrow> SpawnPointInfo \<Rightarrow> SpawnPointInfo" where
  "SpawnPointInfo_setCameraStack stack s =
     s\<lparr>sp_cameraStack := stack, sp_flags := BitVector_set (sp_flags s) 2 (stack \<noteq> [])\<rparr>"

text \<open>
  A spawn point can be sent once its flags have a word: \<open>get\<close> on an empty vector reads through the
  null array.
\<close>

definition SpawnPointInfo_wf :: "ext_lib \<Rightarrow> SpawnPointInfo \<Rightarrow> bool" where
  "SpawnPointInfo_wf L s \<longleftrightarrow> BitVector_wf (sp_flags s) \<and> 0 < m_words (sp_flags s)
     \<and> (if bv_bit (sp_flags s) 0 then pstring_ok L 2 (sp_title s) else sp_title s = [])
     \<and> (if bv_bit (sp_flags s) 1 then pstring_ok L 2 (sp_spawnPt s) else sp_spawnPt s = [])
     \<and> (if bv_bit (sp_flags s) 2 then pstring_ok L 2 (sp_cameraStack s) else sp_cameraStack s = [])"

lemma SpawnPointInfo_reads_back:
  assumes "SpawnPointInfo_wf L s"
  shows "reads_back (SpawnPointInfo_write L s) (SpawnPointInfo_read L) s"
proof -
  have get: "BitVector_get (sp_flags s) i = Inr (bv_bit (sp_flags s) i)" if "i < 32" for i
    using assms that by (simp add: get_bv_bit SpawnPointInfo_wf_def BitVector_wf_def)
  show ?thesis
    using assms unfolding reads_back_def SpawnPointInfo_write_def SpawnPointInfo_read_def SpawnPointInfo_wf_def
    by (auto simp: get rd_simps split: if_splits)
qed

interpretation spawnPoint: partial_codec "SpawnPointInfo_write L" "SpawnPointInfo_read L" "SpawnPointInfo_wf L" for L
  by unfold_locales (rule SpawnPointInfo_reads_back [unfolded reads_back_def])

lemma reads_prefix_SpawnPointInfo [suffix_intros]: "reads_prefix (SpawnPointInfo_read L)"
  unfolding SpawnPointInfo_read_def by (intro suffix_intros)

record AgeInfoStruct =
  ai_flags :: byte
  ai_ageFilename :: st_string
  ai_ageInstanceName :: st_string
  ai_ageInstanceUuid :: Uuid
  ai_ageUserDefinedName :: st_string
  ai_ageSequenceNumber :: u32
  ai_ageDescription :: st_string
  ai_ageLanguage :: u32

definition AgeInfoStruct_read :: "ext_lib \<Rightarrow> AgeInfoStruct rd" where
  "AgeInfoStruct_read L =
     rbind (read_u8) (\<lambda>flags.
     rbind (if bit flags 0 then Stream_readPString L 2 e_StringRAW8 else rret []) (\<lambda>ageFilename.
     rbind (if bit flags 1 then Stream_readPString L 2 e_StringRAW8 else rret []) (\<lambda>ageInstanceName.
     rbind (if bit flags 2 then Uuid_read Uuid_null else rret Uuid_null) (\<lambda>ageInstanceUuid.
     rbind (if bit flags 3 then Stream_readPString L 2 e_StringRAW8 else rret []) (\<lambda>ageUserDefinedName.
     rbind (if bit flags 4 then read_u32 else rret 0) (\<lambda>ageSequenceNumber.
     rbind (if bit flags 5 then Stream_readPString L 2 e_StringRAW8 else rret []) (\<lambda>ageDescription.
     rbind (if bit flags 6 then read_u32 else rret 0xFFFFFFFF) (\<lambda>ageLanguage.
     rret \<lparr>ai_flags = flags, ai_ageFilename = ageFilename, ai_ageInstanceName = ageInstanceName, ai_ageInstanceUuid = ageInstanceUuid, ai_ageUserDefinedName = ageUserDefinedName, ai_ageSequenceNumber = ageSequenceNumber, ai_ageDescription = ageDescription, ai_ageLanguage = ageLanguage\<rparr>))))))))"

definition AgeInfoStruct_write :: "ext_lib \<Rightarrow> AgeInfoStruct \<Rightarrow> bytes" where
  "AgeInfoStruct_write L m =
     write_u8 (ai_flags m)
     @ (if bit (ai_flags m) 0 then Stream_writePString L 2 (ai_ageFilename m) e_StringRAW8 else [])
     @ (if bit (ai_flags m) 1 then Stream_writePString L 2 (ai_ageInstanceName m) e_StringRAW8 else [])
     @ (if bit (ai_flags m) 2 then Uuid_write (ai_ageInstanceUuid m) else [])
     @ (if bit (ai_flags m) 3 then Stream_writePString L 2 (ai_ageUserDefinedName m) e_StringRAW8 else [])
     @ (if bit (ai_flags m) 4 then write_u32 (ai_ageSequenceNumber m) else [])
     @ (if bit (ai_flags m) 5 then Stream_writePString L 2 (ai_ageDescription m) e_StringRAW8 else [])
     @ (if bit (ai_flags m) 6 then write_u32 (ai_ageLanguage m) else [])"

definition AgeInfoStruct_wf :: "ext_lib \<Rightarrow> AgeInfoStruct \<Rightarrow> bool" where
  "AgeInfoStruct_wf L m \<longleftrightarrow> (if bit (ai_flags m) 0 then pstring_ok L 2 (ai_ageFilename m) else ai_ageFilename m = [])
     \<and> (if bit (ai_flags m) 1 then pstring_ok L 2 (ai_ageInstanceName m) else ai_ageInstanceName m = [])
     \<and> (if bit (ai_flags m) 2 then Uuid_wf (ai_ageInstanceUuid m) else ai_ageInstanceUuid m = Uuid_null)
     \<and> (if bit (ai_flags m) 3 then pstring_ok L 2 (ai_ageUserDefinedName m) else ai_ageUserDefinedName m = [])
     \<and> (if bit (ai_flags m) 4 then True else ai_ageSequenceNumber m = 0)
     \<and> (if bit (ai_flags m) 5 then pstring_ok L 2 (ai_ageDescription m) else ai_ageDescription m = [])
     \<and> (if bit (ai_flags m) 6 then True else ai_ageLanguage m = 0xFFFFFFFF)"

lemma AgeInfoStruct_reads_back:
  assumes "AgeInfoStruct_wf L m"
  shows "reads_back (Inr (AgeInfoStruct_write L m)) (AgeInfoStruct_read L) m"
  unfolding AgeInfoStruct_read_def AgeInfoStruct_write_def
  by (rule rb_field [where x = "ai_flags m"],
      rule rb_opt [where x = "ai_ageFilename m"],
      rule rb_opt [where x = "ai_ageInstanceName m"],
      rule rb_opt [where x = "ai_ageInstanceUuid m"],
      rule rb_opt [where x = "ai_ageUserDefinedName m"],
      rule rb_opt [where x = "ai_ageSequenceNumber m"],
      rule rb_opt [where x = "ai_ageDescription m"],
      rule rb_opt_last [where x = "ai_ageLanguage m"];
      use assms in \<open>simp add: AgeInfoStruct_wf_def rb_enc\<close>)

interpretation ageInfoStruct_c: codec "AgeInfoStruct_write L" "AgeInfoStruct_read L" "AgeInfoStruct_wf L" for L
  by (rule codecI) (rule AgeInfoStruct_reads_back)

lemma reads_prefix_AgeInfoStruct [suffix_intros]: "reads_prefix (AgeInfoStruct_read L)"
  unfolding AgeInfoStruct_read_def by (intro suffix_intros)

lemmas ageInfoStruct_c_rd [rd_simps] = ageInfoStruct_c.dec_enc


text \<open>The members as the constructor leaves them; \<open>m_ageLanguage\<close> is \<open>-1\<close>.\<close>

definition AgeInfoStruct_new :: AgeInfoStruct where
  "AgeInfoStruct_new =
     \<lparr>ai_flags = 0, ai_ageFilename = [], ai_ageInstanceName = [], ai_ageInstanceUuid = Uuid_null,
      ai_ageUserDefinedName = [], ai_ageSequenceNumber = 0, ai_ageDescription = [],
      ai_ageLanguage = 0xFFFFFFFF\<rparr>"

text \<open>\<open>UPDATEFLAG\<close> and the setters.\<close>

definition UPDATEFLAG :: "nat \<Rightarrow> bool \<Rightarrow> 'a::len word \<Rightarrow> 'a word" where
  "UPDATEFLAG i on flags = (if on then flags OR push_bit i 1 else flags AND NOT (push_bit i 1))"

definition AgeInfoStruct_setFilename :: "st_string \<Rightarrow> AgeInfoStruct \<Rightarrow> AgeInfoStruct" where
  "AgeInfoStruct_setFilename filename s =
     s\<lparr>ai_ageFilename := filename, ai_flags := UPDATEFLAG 0 (filename \<noteq> []) (ai_flags s)\<rparr>"

definition AgeInfoStruct_setInstanceName :: "st_string \<Rightarrow> AgeInfoStruct \<Rightarrow> AgeInfoStruct" where
  "AgeInfoStruct_setInstanceName name s =
     s\<lparr>ai_ageInstanceName := name, ai_flags := UPDATEFLAG 1 (name \<noteq> []) (ai_flags s)\<rparr>"

definition AgeInfoStruct_setInstanceUuid :: "Uuid \<Rightarrow> AgeInfoStruct \<Rightarrow> AgeInfoStruct" where
  "AgeInfoStruct_setInstanceUuid uuid s =
     s\<lparr>ai_ageInstanceUuid := uuid, ai_flags := UPDATEFLAG 2 (\<not> Uuid_isNull uuid) (ai_flags s)\<rparr>"

definition AgeInfoStruct_setUserDefinedName :: "st_string \<Rightarrow> AgeInfoStruct \<Rightarrow> AgeInfoStruct" where
  "AgeInfoStruct_setUserDefinedName name s =
     s\<lparr>ai_ageUserDefinedName := name, ai_flags := UPDATEFLAG 3 (name \<noteq> []) (ai_flags s)\<rparr>"

definition AgeInfoStruct_setSequenceNumber :: "u32 \<Rightarrow> AgeInfoStruct \<Rightarrow> AgeInfoStruct" where
  "AgeInfoStruct_setSequenceNumber sq s =
     s\<lparr>ai_ageSequenceNumber := sq, ai_flags := UPDATEFLAG 4 (sq \<noteq> 0) (ai_flags s)\<rparr>"

definition AgeInfoStruct_setDescription :: "st_string \<Rightarrow> AgeInfoStruct \<Rightarrow> AgeInfoStruct" where
  "AgeInfoStruct_setDescription description s =
     s\<lparr>ai_ageDescription := description, ai_flags := UPDATEFLAG 5 (description \<noteq> []) (ai_flags s)\<rparr>"

definition AgeInfoStruct_setLanguage :: "u32 \<Rightarrow> AgeInfoStruct \<Rightarrow> AgeInfoStruct" where
  "AgeInfoStruct_setLanguage language s =
     s\<lparr>ai_ageLanguage := language, ai_flags := UPDATEFLAG 6 (sint language \<ge> 0) (ai_flags s)\<rparr>"

record AgeLinkStruct =
  al_flags :: u16
  al_ageInfo :: AgeInfoStruct
  al_linkingRules :: byte
  al_spawnPt :: SpawnPointInfo
  al_amCcr :: bool
  al_parentAgeFilename :: st_string

definition AgeLinkStruct_new :: AgeLinkStruct where
  "AgeLinkStruct_new =
     \<lparr>al_flags = 0x21, al_ageInfo = AgeInfoStruct_new, al_linkingRules = 0,
      al_spawnPt = SpawnPointInfo_new, al_amCcr = False, al_parentAgeFilename = []\<rparr>"

text \<open>Bits 2 and 3 are the dead ways to send a spawn point: a reader refuses them.\<close>

definition AgeLinkStruct_read :: "ext_lib \<Rightarrow> AgeLinkStruct rd" where
  "AgeLinkStruct_read L =
     rbind read_u16 (\<lambda>flags.
     if flags AND 0xC \<noteq> 0 then rfail MalformedData else
     rbind (if bit flags 0 then AgeInfoStruct_read L else rret AgeInfoStruct_new) (\<lambda>ageInfo.
     rbind (if bit flags 1 then read_u8 else rret 0) (\<lambda>linkingRules.
     rbind (if bit flags 5 then SpawnPointInfo_read L else rret SpawnPointInfo_new) (\<lambda>spawnPt.
     rbind (if bit flags 4 then Stream_read_bool else rret False) (\<lambda>amCcr.
     rbind (if bit flags 6 then Stream_readPString L 2 e_StringRAW8 else rret []) (\<lambda>parentAge.
     rret \<lparr>al_flags = flags, al_ageInfo = ageInfo, al_linkingRules = linkingRules,
           al_spawnPt = spawnPt, al_amCcr = amCcr, al_parentAgeFilename = parentAge\<rparr>))))))"

definition AgeLinkStruct_write :: "ext_lib \<Rightarrow> AgeLinkStruct \<Rightarrow> wres" where
  "AgeLinkStruct_write L s = wconcat
     [Inr (write_u16 (al_flags s AND NOT 0xC)),
      if bit (al_flags s) 0 then Inr (AgeInfoStruct_write L (al_ageInfo s)) else Inr [],
      if bit (al_flags s) 1 then Inr (write_u8 (al_linkingRules s)) else Inr [],
      if bit (al_flags s) 5 then SpawnPointInfo_write L (al_spawnPt s) else Inr [],
      if bit (al_flags s) 4 then Inr (Stream_write_bool (al_amCcr s)) else Inr [],
      if bit (al_flags s) 6 then Inr (Stream_writePString L 2 (al_parentAgeFilename s) e_StringRAW8)
      else Inr []]"

definition AgeLinkStruct_wf :: "ext_lib \<Rightarrow> AgeLinkStruct \<Rightarrow> bool" where
  "AgeLinkStruct_wf L s \<longleftrightarrow> al_flags s AND 0xC = 0
     \<and> (if bit (al_flags s) 0 then AgeInfoStruct_wf L (al_ageInfo s) else al_ageInfo s = AgeInfoStruct_new)
     \<and> (bit (al_flags s) 1 \<or> al_linkingRules s = 0)
     \<and> (if bit (al_flags s) 5 then SpawnPointInfo_wf L (al_spawnPt s) else al_spawnPt s = SpawnPointInfo_new)
     \<and> (bit (al_flags s) 4 \<or> \<not> al_amCcr s)
     \<and> (if bit (al_flags s) 6 then pstring_ok L 2 (al_parentAgeFilename s) else al_parentAgeFilename s = [])"

lemma and_NOT_self: "w AND m = 0 \<Longrightarrow> w AND NOT m = (w :: 'a::len word)"
  by (metis and.right_neutral bit.conj_disj_distrib bit.disj_cancel_right or.left_neutral)

lemma AgeLinkStruct_reads_back:
  assumes "AgeLinkStruct_wf L s"
  shows "reads_back (AgeLinkStruct_write L s) (AgeLinkStruct_read L) s"
proof -
  have nf: "al_flags s AND NOT 0xC = al_flags s"
    using assms by (intro and_NOT_self) (simp add: AgeLinkStruct_wf_def)
  have ok: "\<not> al_flags s AND 0xC \<noteq> 0" using assms by (simp add: AgeLinkStruct_wf_def)
  show ?thesis
    unfolding AgeLinkStruct_write_def AgeLinkStruct_read_def nf
    apply (rule reads_back_Cons [OF u16.reads_back_enc [OF TrueI]], subst if_not_P [OF ok])
    apply (intro reads_back_opt [where x = "al_ageInfo s"] reads_back_opt [where x = "al_linkingRules s"]
        reads_back_opt [where x = "al_spawnPt s"] reads_back_opt [where x = "al_amCcr s"]
        reads_back_opt [where x = "al_parentAgeFilename s"] reads_back_Nil
        ageInfoStruct_c.reads_back_enc u8.reads_back_enc cbool.reads_back_enc pstr.reads_back_enc
        SpawnPointInfo_reads_back)
    using assms by (simp_all add: AgeLinkStruct_wf_def)
qed

interpretation ageLink: partial_codec "AgeLinkStruct_write L" "AgeLinkStruct_read L" "AgeLinkStruct_wf L" for L
  by unfold_locales (rule AgeLinkStruct_reads_back [unfolded reads_back_def])

lemma reads_prefix_AgeLinkStruct [suffix_intros]: "reads_prefix (AgeLinkStruct_read L)"
  unfolding AgeLinkStruct_read_def by (intro suffix_intros)

record LinkToAgeMsg =
  lta_base :: Message
  lta_flags :: byte
  lta_ageLink :: AgeLinkStruct
  lta_linkInAnim :: st_string

definition LinkToAgeMsg_read :: "ext_lib \<Rightarrow> LinkToAgeMsg rd" where
  "LinkToAgeMsg_read L =
     rbind (Message_read L) (\<lambda>base.
     rbind read_u8 (\<lambda>flags.
     rbind (AgeLinkStruct_read L) (\<lambda>ageLink.
     rbind (Stream_readSafeString L e_StringRAW8) (\<lambda>anim.
     rret \<lparr>lta_base = base, lta_flags = flags, lta_ageLink = ageLink, lta_linkInAnim = anim\<rparr>))))"

definition LinkToAgeMsg_write :: "ext_lib \<Rightarrow> LinkToAgeMsg \<Rightarrow> wres" where
  "LinkToAgeMsg_write L m = wconcat
     [Inr (Message_write L (lta_base m)), Inr (write_u8 (lta_flags m)),
      AgeLinkStruct_write L (lta_ageLink m),
      Inr (Stream_writeSafeString L (lta_linkInAnim m) e_StringRAW8)]"

definition LinkToAgeMsg_wf :: "ext_lib \<Rightarrow> LinkToAgeMsg \<Rightarrow> bool" where
  "LinkToAgeMsg_wf L m \<longleftrightarrow> Message_wf L (lta_base m) \<and> AgeLinkStruct_wf L (lta_ageLink m)
     \<and> safe_ok L e_StringRAW8 (lta_linkInAnim m)"

lemma LinkToAgeMsg_reads_back:
  assumes "LinkToAgeMsg_wf L m"
  shows "reads_back (LinkToAgeMsg_write L m) (LinkToAgeMsg_read L) m"
  using assms AgeLinkStruct_reads_back [of L "lta_ageLink m"]
  unfolding reads_back_def LinkToAgeMsg_write_def LinkToAgeMsg_read_def LinkToAgeMsg_wf_def
  by (auto simp: rd_simps)

interpretation linkToAge: partial_codec "LinkToAgeMsg_write L" "LinkToAgeMsg_read L" "LinkToAgeMsg_wf L" for L
  by unfold_locales (rule LinkToAgeMsg_reads_back [unfolded reads_back_def])

section \<open>Event data\<close>

text \<open>One constructor per class; \<open>VariableEventData\<close> keeps its type word, its number and its key.\<close>

datatype EventData =
    CollisionEventData bool Key Key
  | PickedEventData Key Key bool Vector3
  | ControlKeyEventData u32 bool
  | VariableEventData st_string u32 u32 Key
  | FacingEventData Key Key f32 bool
  | ContainedEventData Key Key bool
  | ActivateEventData bool bool
  | CallbackEventData u32
  | ResponderStateEventData u32
  | MultiStageEventData u32 u32 Key
  | SpawnedEventData Key Key
  | ClickDragEventData
  | CoopEventData u32 u16
  | OfferLinkBookEventData Key u32 u32
  | BookEventData u32 u32
  | ClimbingBlockerHitEventData Key

text \<open>\<open>VariableEventData::read\<close>: only a float (1) or an integer (3) is kept.\<close>

definition VariableEventData_read :: "ext_lib \<Rightarrow> EventData rd" where
  "VariableEventData_read L =
     rbind (Stream_readSafeString L e_StringUTF8) (\<lambda>name.
     rbind read_u32 (\<lambda>dataType.
     rbind read_u32 (\<lambda>number.
     rbind (Key_read L) (\<lambda>key.
     rret (VariableEventData name dataType (if dataType = 1 \<or> dataType = 3 then number else 0) key)))))"

definition EventData_Read :: "ext_lib \<Rightarrow> EventData rd" where
  "EventData_Read L =
     rbind read_u32 (\<lambda>type.
     if type = 1 then
       rbind Stream_read_bool (\<lambda>enter. rbind (Key_read L) (\<lambda>hitter. rbind (Key_read L) (\<lambda>hittee.
       rret (CollisionEventData enter hitter hittee))))
     else if type = 2 then
       rbind (Key_read L) (\<lambda>picker. rbind (Key_read L) (\<lambda>picked. rbind Stream_read_bool (\<lambda>enabled.
       rbind Vector3_read (\<lambda>hitPoint. rret (PickedEventData picker picked enabled hitPoint)))))
     else if type = 3 then
       rbind read_u32 (\<lambda>controlKey. rbind Stream_read_bool (\<lambda>down.
       rret (ControlKeyEventData controlKey down)))
     else if type = 4 then VariableEventData_read L
     else if type = 5 then
       rbind (Key_read L) (\<lambda>facer. rbind (Key_read L) (\<lambda>facee. rbind read_u32 (\<lambda>dot.
       rbind Stream_read_bool (\<lambda>enabled. rret (FacingEventData facer facee dot enabled)))))
     else if type = 6 then
       rbind (Key_read L) (\<lambda>inside. rbind (Key_read L) (\<lambda>container. rbind Stream_read_bool (\<lambda>entering.
       rret (ContainedEventData inside container entering))))
     else if type = 7 then
       rbind Stream_read_bool (\<lambda>active. rbind Stream_read_bool (\<lambda>activate.
       rret (ActivateEventData active activate)))
     else if type = 8 then rbind read_u32 (\<lambda>callbackType. rret (CallbackEventData callbackType))
     else if type = 9 then rbind read_u32 (\<lambda>state. rret (ResponderStateEventData state))
     else if type = 10 then
       rbind read_u32 (\<lambda>stage. rbind read_u32 (\<lambda>event. rbind (Key_read L) (\<lambda>avatar.
       rret (MultiStageEventData stage event avatar))))
     else if type = 11 then
       rbind (Key_read L) (\<lambda>spawner. rbind (Key_read L) (\<lambda>spawnee. rret (SpawnedEventData spawner spawnee)))
     else if type = 12 then rret ClickDragEventData
     else if type = 13 then
       rbind read_u32 (\<lambda>id. rbind read_u16 (\<lambda>serial. rret (CoopEventData id serial)))
     else if type = 14 then
       rbind (Key_read L) (\<lambda>offerer. rbind read_u32 (\<lambda>targetAge. rbind read_u32 (\<lambda>offeree.
       rret (OfferLinkBookEventData offerer targetAge offeree))))
     else if type = 15 then
       rbind read_u32 (\<lambda>event. rbind read_u32 (\<lambda>linkId. rret (BookEventData event linkId)))
     else if type = 16 then rbind (Key_read L) (\<lambda>blocker. rret (ClimbingBlockerHitEventData blocker))
     else rfail MalformedData)"

fun EventData_Write :: "ext_lib \<Rightarrow> EventData \<Rightarrow> bytes" where
  "EventData_Write L (CollisionEventData enter hitter hittee) =
     write_u32 1 @ Stream_write_bool enter @ Key_write L hitter @ Key_write L hittee"
| "EventData_Write L (PickedEventData picker picked enabled hitPoint) =
     write_u32 2 @ Key_write L picker @ Key_write L picked @ Stream_write_bool enabled
       @ Vector3_write hitPoint"
| "EventData_Write L (ControlKeyEventData controlKey down) =
     write_u32 3 @ write_u32 controlKey @ Stream_write_bool down"
| "EventData_Write L (VariableEventData name dataType number key) =
     write_u32 4 @ Stream_writeSafeString L name e_StringUTF8 @ write_u32 dataType
       @ write_u32 (if dataType = 1 \<or> dataType = 3 then number else 0) @ Key_write L key"
| "EventData_Write L (FacingEventData facer facee dot enabled) =
     write_u32 5 @ Key_write L facer @ Key_write L facee @ write_u32 dot @ Stream_write_bool enabled"
| "EventData_Write L (ContainedEventData inside container entering) =
     write_u32 6 @ Key_write L inside @ Key_write L container @ Stream_write_bool entering"
| "EventData_Write L (ActivateEventData active activate) =
     write_u32 7 @ Stream_write_bool active @ Stream_write_bool activate"
| "EventData_Write L (CallbackEventData callbackType) = write_u32 8 @ write_u32 callbackType"
| "EventData_Write L (ResponderStateEventData state) = write_u32 9 @ write_u32 state"
| "EventData_Write L (MultiStageEventData stage event avatar) =
     write_u32 10 @ write_u32 stage @ write_u32 event @ Key_write L avatar"
| "EventData_Write L (SpawnedEventData spawner spawnee) =
     write_u32 11 @ Key_write L spawner @ Key_write L spawnee"
| "EventData_Write L ClickDragEventData = write_u32 12"
| "EventData_Write L (CoopEventData i serial) = write_u32 13 @ write_u32 i @ write_u16 serial"
| "EventData_Write L (OfferLinkBookEventData offerer targetAge offeree) =
     write_u32 14 @ Key_write L offerer @ write_u32 targetAge @ write_u32 offeree"
| "EventData_Write L (BookEventData event linkId) = write_u32 15 @ write_u32 event @ write_u32 linkId"
| "EventData_Write L (ClimbingBlockerHitEventData blocker) = write_u32 16 @ Key_write L blocker"

fun EventData_wf :: "ext_lib \<Rightarrow> EventData \<Rightarrow> bool" where
  "EventData_wf L (CollisionEventData _ hitter hittee) = (Key_wf L hitter \<and> Key_wf L hittee)"
| "EventData_wf L (PickedEventData picker picked _ _) = (Key_wf L picker \<and> Key_wf L picked)"
| "EventData_wf L (VariableEventData name dataType number key) =
     (safe_ok L e_StringUTF8 name \<and> (dataType = 1 \<or> dataType = 3 \<or> number = 0) \<and> Key_wf L key)"
| "EventData_wf L (FacingEventData facer facee _ _) = (Key_wf L facer \<and> Key_wf L facee)"
| "EventData_wf L (ContainedEventData inside container _) = (Key_wf L inside \<and> Key_wf L container)"
| "EventData_wf L (MultiStageEventData _ _ avatar) = Key_wf L avatar"
| "EventData_wf L (SpawnedEventData spawner spawnee) = (Key_wf L spawner \<and> Key_wf L spawnee)"
| "EventData_wf L (OfferLinkBookEventData offerer _ _) = Key_wf L offerer"
| "EventData_wf L (ClimbingBlockerHitEventData blocker) = Key_wf L blocker"
| "EventData_wf L _ = True"

interpretation eventData: codec "EventData_Write L" "EventData_Read L" "EventData_wf L" for L
proof
  fix d bs assume "EventData_wf L d"
  then show "EventData_Read L (EventData_Write L d @ bs) = Inr (d, bs)"
    by (cases d) (auto simp: EventData_Read_def VariableEventData_read_def rd_simps)
qed

lemma reads_prefix_VariableEventData [suffix_intros]: "reads_prefix (VariableEventData_read L)"
  unfolding VariableEventData_read_def by (intro suffix_intros)

lemma reads_prefix_EventData [suffix_intros]: "reads_prefix (EventData_Read L)"
  unfolding EventData_Read_def by (intro suffix_intros vec3.dec_enc reads_prefix_structs)

lemmas eventData_rd [rd_simps] = eventData.dec_enc eventData.read_write_list

record NotifyMsg =
  nm_base :: Message
  nm_type :: u32
  nm_state :: f32
  nm_id :: u32
  nm_events :: "EventData list"

definition NotifyMsg_read :: "ext_lib \<Rightarrow> NotifyMsg rd" where
  "NotifyMsg_read L =
     rbind (Message_read L) (\<lambda>base.
     rbind (read_u32) (\<lambda>type.
     rbind (read_u32) (\<lambda>state.
     rbind (read_u32) (\<lambda>id.
     rbind (read_list 4 (EventData_Read L)) (\<lambda>events.
     rret \<lparr>nm_base = base, nm_type = type, nm_state = state, nm_id = id, nm_events = events\<rparr>)))))"

definition NotifyMsg_write :: "ext_lib \<Rightarrow> NotifyMsg \<Rightarrow> bytes" where
  "NotifyMsg_write L m =
     Message_write L (nm_base m)
     @ write_u32 (nm_type m)
     @ write_u32 (nm_state m)
     @ write_u32 (nm_id m)
     @ write_list 4 (EventData_Write L) (nm_events m)"

definition NotifyMsg_wf :: "ext_lib \<Rightarrow> NotifyMsg \<Rightarrow> bool" where
  "NotifyMsg_wf L m \<longleftrightarrow> Message_wf L (nm_base m)
     \<and> list_wf 4 (EventData_wf L) (nm_events m)"

interpretation notifyMsg_c: codec "NotifyMsg_write L" "NotifyMsg_read L" "NotifyMsg_wf L" for L
  by unfold_locales (simp add: NotifyMsg_read_def NotifyMsg_write_def NotifyMsg_wf_def rd_simps)

lemma reads_prefix_NotifyMsg [suffix_intros]: "reads_prefix (NotifyMsg_read L)"
  unfolding NotifyMsg_read_def by (intro suffix_intros)

lemmas notifyMsg_c_rd [rd_simps] = notifyMsg_c.dec_enc

section \<open>Avatar data\<close>

text \<open>
  The members \<open>AnimStage::read\<close> and \<open>write\<close> carry, and those that \<open>readAux\<close> and \<open>writeAux\<close>
  carry.
\<close>

record AnimStage =
  as_animName :: st_string
  as_notify :: byte
  as_forwardType :: u32
  as_backType :: u32
  as_advanceType :: u32
  as_regressType :: u32
  as_loops :: u32
  as_doAdvance :: bool
  as_advanceTo :: u32
  as_doRegress :: bool
  as_regressTo :: u32

definition AnimStage_read :: "ext_lib \<Rightarrow> AnimStage rd" where
  "AnimStage_read L =
     rbind (Stream_readSafeString L e_StringRAW8) (\<lambda>animName.
     rbind (read_u8) (\<lambda>notify.
     rbind (read_u32) (\<lambda>forwardType.
     rbind (read_u32) (\<lambda>backType.
     rbind (read_u32) (\<lambda>advanceType.
     rbind (read_u32) (\<lambda>regressType.
     rbind (read_u32) (\<lambda>loops.
     rbind (Stream_read_bool) (\<lambda>doAdvance.
     rbind (read_u32) (\<lambda>advanceTo.
     rbind (Stream_read_bool) (\<lambda>doRegress.
     rbind (read_u32) (\<lambda>regressTo.
     rret \<lparr>as_animName = animName, as_notify = notify, as_forwardType = forwardType, as_backType = backType, as_advanceType = advanceType, as_regressType = regressType, as_loops = loops, as_doAdvance = doAdvance, as_advanceTo = advanceTo, as_doRegress = doRegress, as_regressTo = regressTo\<rparr>)))))))))))"

definition AnimStage_write :: "ext_lib \<Rightarrow> AnimStage \<Rightarrow> bytes" where
  "AnimStage_write L m =
     Stream_writeSafeString L (as_animName m) e_StringRAW8
     @ write_u8 (as_notify m)
     @ write_u32 (as_forwardType m)
     @ write_u32 (as_backType m)
     @ write_u32 (as_advanceType m)
     @ write_u32 (as_regressType m)
     @ write_u32 (as_loops m)
     @ Stream_write_bool (as_doAdvance m)
     @ write_u32 (as_advanceTo m)
     @ Stream_write_bool (as_doRegress m)
     @ write_u32 (as_regressTo m)"

definition AnimStage_wf :: "ext_lib \<Rightarrow> AnimStage \<Rightarrow> bool" where
  "AnimStage_wf L m \<longleftrightarrow> safe_ok L e_StringRAW8 (as_animName m)"

interpretation animStage_c: codec "AnimStage_write L" "AnimStage_read L" "AnimStage_wf L" for L
  by unfold_locales (simp add: AnimStage_read_def AnimStage_write_def AnimStage_wf_def rd_simps)

lemma reads_prefix_AnimStage [suffix_intros]: "reads_prefix (AnimStage_read L)"
  unfolding AnimStage_read_def by (intro suffix_intros)

lemmas animStage_c_rd [rd_simps] = animStage_c.dec_enc

record AnimStageAux =
  asx_localTime :: f32
  asx_length :: f32
  asx_curLoop :: u32
  asx_attached :: bool

definition AnimStageAux_read :: "ext_lib \<Rightarrow> AnimStageAux rd" where
  "AnimStageAux_read L =
     rbind (read_u32) (\<lambda>localTime.
     rbind (read_u32) (\<lambda>length.
     rbind (read_u32) (\<lambda>curLoop.
     rbind (Stream_read_bool) (\<lambda>attached.
     rret \<lparr>asx_localTime = localTime, asx_length = length, asx_curLoop = curLoop, asx_attached = attached\<rparr>))))"

definition AnimStageAux_write :: "ext_lib \<Rightarrow> AnimStageAux \<Rightarrow> bytes" where
  "AnimStageAux_write L m =
     write_u32 (asx_localTime m)
     @ write_u32 (asx_length m)
     @ write_u32 (asx_curLoop m)
     @ Stream_write_bool (asx_attached m)"

definition AnimStageAux_wf :: "ext_lib \<Rightarrow> AnimStageAux \<Rightarrow> bool" where
  "AnimStageAux_wf L m \<longleftrightarrow> True"

interpretation animStageAux_c: codec "AnimStageAux_write L" "AnimStageAux_read L" "AnimStageAux_wf L" for L
  by unfold_locales (simp add: AnimStageAux_read_def AnimStageAux_write_def AnimStageAux_wf_def rd_simps)

lemma reads_prefix_AnimStageAux [suffix_intros]: "reads_prefix (AnimStageAux_read L)"
  unfolding AnimStageAux_read_def by (intro suffix_intros)

lemmas animStageAux_c_rd [rd_simps] = animStageAux_c.dec_enc


text \<open>\<open>ArmatureBrain\<close> has no members: what it reads is thrown away, what it writes is zero.\<close>

definition ArmatureBrain_read :: "ext_lib \<Rightarrow> unit rd" where
  "ArmatureBrain_read L =
     rbind read_u32 (\<lambda>_.
     rbind Stream_read_bool (\<lambda>b.
     rbind (if b then Key_read L else rret None) (\<lambda>_.
     rbind read_u32 (\<lambda>_. rbind read_u32 (\<lambda>_. rbind read_u64 (\<lambda>_. rret ()))))))"

definition ArmatureBrain_write :: bytes where
  "ArmatureBrain_write = write_u32 0 @ Stream_write_bool False @ write_u32 0 @ write_u32 0 @ write_u64 0"

interpretation armatureBrain: codec "\<lambda>_. ArmatureBrain_write" "ArmatureBrain_read L" "\<lambda>_. True" for L
  by unfold_locales (simp add: ArmatureBrain_read_def ArmatureBrain_write_def rd_simps)

lemma reads_prefix_ArmatureBrain [suffix_intros]: "reads_prefix (ArmatureBrain_read L)"
  unfolding ArmatureBrain_read_def by (intro suffix_intros)

definition AvBrainHuman_read :: "ext_lib \<Rightarrow> bool rd" where
  "AvBrainHuman_read L = rbind (ArmatureBrain_read L) (\<lambda>_. Stream_read_bool)"

definition AvBrainHuman_write :: "bool \<Rightarrow> bytes" where
  "AvBrainHuman_write isCustomAvatar = ArmatureBrain_write @ Stream_write_bool isCustomAvatar"

interpretation avBrainHuman: codec AvBrainHuman_write "AvBrainHuman_read L" "\<lambda>_. True" for L
  by unfold_locales
    (simp add: AvBrainHuman_read_def AvBrainHuman_write_def armatureBrain.bind_enc [where x = "()"])

lemma reads_prefix_AvBrainHuman [suffix_intros]: "reads_prefix (AvBrainHuman_read L)"
  unfolding AvBrainHuman_read_def by (intro suffix_intros)

record AvAnimTask =
  aat_animName :: st_string
  aat_initialBlend :: f32
  aat_targetBlend :: f32
  aat_fadeSpeed :: f32
  aat_setTime :: f32
  aat_start :: bool
  aat_loop :: bool
  aat_attach :: bool

definition AvAnimTask_read :: "ext_lib \<Rightarrow> AvAnimTask rd" where
  "AvAnimTask_read L =
     rbind (Stream_readSafeString L e_StringRAW8) (\<lambda>animName.
     rbind (read_u32) (\<lambda>initialBlend.
     rbind (read_u32) (\<lambda>targetBlend.
     rbind (read_u32) (\<lambda>fadeSpeed.
     rbind (read_u32) (\<lambda>setTime.
     rbind (Stream_read_bool) (\<lambda>start.
     rbind (Stream_read_bool) (\<lambda>loop.
     rbind (Stream_read_bool) (\<lambda>attach.
     rret \<lparr>aat_animName = animName, aat_initialBlend = initialBlend, aat_targetBlend = targetBlend, aat_fadeSpeed = fadeSpeed, aat_setTime = setTime, aat_start = start, aat_loop = loop, aat_attach = attach\<rparr>))))))))"

definition AvAnimTask_write :: "ext_lib \<Rightarrow> AvAnimTask \<Rightarrow> bytes" where
  "AvAnimTask_write L m =
     Stream_writeSafeString L (aat_animName m) e_StringRAW8
     @ write_u32 (aat_initialBlend m)
     @ write_u32 (aat_targetBlend m)
     @ write_u32 (aat_fadeSpeed m)
     @ write_u32 (aat_setTime m)
     @ Stream_write_bool (aat_start m)
     @ Stream_write_bool (aat_loop m)
     @ Stream_write_bool (aat_attach m)"

definition AvAnimTask_wf :: "ext_lib \<Rightarrow> AvAnimTask \<Rightarrow> bool" where
  "AvAnimTask_wf L m \<longleftrightarrow> safe_ok L e_StringRAW8 (aat_animName m)"

interpretation avAnimTask_c: codec "AvAnimTask_write L" "AvAnimTask_read L" "AvAnimTask_wf L" for L
  by unfold_locales (simp add: AvAnimTask_read_def AvAnimTask_write_def AvAnimTask_wf_def rd_simps)

lemma reads_prefix_AvAnimTask [suffix_intros]: "reads_prefix (AvAnimTask_read L)"
  unfolding AvAnimTask_read_def by (intro suffix_intros)

lemmas avAnimTask_c_rd [rd_simps] = avAnimTask_c.dec_enc

record AvOneShotLinkTask =
  aol_animName :: st_string
  aol_markerName :: st_string

definition AvOneShotLinkTask_read :: "ext_lib \<Rightarrow> AvOneShotLinkTask rd" where
  "AvOneShotLinkTask_read L =
     rbind (Stream_readSafeString L e_StringRAW8) (\<lambda>animName.
     rbind (Stream_readSafeString L e_StringRAW8) (\<lambda>markerName.
     rret \<lparr>aol_animName = animName, aol_markerName = markerName\<rparr>))"

definition AvOneShotLinkTask_write :: "ext_lib \<Rightarrow> AvOneShotLinkTask \<Rightarrow> bytes" where
  "AvOneShotLinkTask_write L m =
     Stream_writeSafeString L (aol_animName m) e_StringRAW8
     @ Stream_writeSafeString L (aol_markerName m) e_StringRAW8"

definition AvOneShotLinkTask_wf :: "ext_lib \<Rightarrow> AvOneShotLinkTask \<Rightarrow> bool" where
  "AvOneShotLinkTask_wf L m \<longleftrightarrow> safe_ok L e_StringRAW8 (aol_animName m)
     \<and> safe_ok L e_StringRAW8 (aol_markerName m)"

interpretation avOneShotLinkTask_c: codec "AvOneShotLinkTask_write L" "AvOneShotLinkTask_read L" "AvOneShotLinkTask_wf L" for L
  by unfold_locales (simp add: AvOneShotLinkTask_read_def AvOneShotLinkTask_write_def AvOneShotLinkTask_wf_def rd_simps)

lemma reads_prefix_AvOneShotLinkTask [suffix_intros]: "reads_prefix (AvOneShotLinkTask_read L)"
  unfolding AvOneShotLinkTask_read_def by (intro suffix_intros)

lemmas avOneShotLinkTask_c_rd [rd_simps] = avOneShotLinkTask_c.dec_enc

end
