(* ===== verification/Net_Messages.thy ===== *)
theory Net_Messages
  imports Game_Data
begin

unbundle bit_operations_syntax

text \<open>
  The network messages that hold no other object, \<open>src/PlasMOUL/NetMessages\<close>: the flag-driven header
  \<open>NetMessage\<close>, member and room lists, voice data, and \<open>NetMsgStream\<close>, the optionally compressed
  stream inside a message with the SDL and shared-state messages that use it.
\<close>

section \<open>NetMessage\<close>

record NetMessage =
  nt_contentFlags :: u32
  nt_protocolVerMaj :: byte
  nt_protocolVerMin :: byte
  nt_timestamp :: UnifiedTime
  nt_context :: u32
  nt_transId :: u32
  nt_playerId :: u32
  nt_acctId :: Uuid

text \<open>\<open>NETMSG_PROTOCOL_MAJ\<close> is 12 and \<open>NETMSG_PROTOCOL_MIN\<close> is 6.\<close>

definition NetMessage_readVersion :: "(byte \<times> byte) rd" where
  "NetMessage_readVersion =
     rbind read_u8 (\<lambda>maj. rbind read_u8 (\<lambda>min.
     if maj \<noteq> 12 \<or> min \<noteq> 6 then rfail MalformedData else rret (maj, min)))"

definition NetMessage_read :: "NetMessage rd" where
  "NetMessage_read =
     rbind read_u32 (\<lambda>flags.
     rbind (if bit flags 16 then NetMessage_readVersion else rret (12, 6)) (\<lambda>ver.
     rbind (if bit flags 0 then UnifiedTime_read else rret UnifiedTime_null) (\<lambda>timestamp.
     rbind (if bit flags 7 then read_u32 else rret 0) (\<lambda>context.
     rbind (if bit flags 9 then read_u32 else rret 0) (\<lambda>transId.
     rbind (if bit flags 12 then read_u32 else rret 0) (\<lambda>playerId.
     rbind (if bit flags 14 then Uuid_read Uuid_null else rret Uuid_null) (\<lambda>acctId.
     rret \<lparr>nt_contentFlags = flags, nt_protocolVerMaj = fst ver, nt_protocolVerMin = snd ver,
           nt_timestamp = timestamp, nt_context = context, nt_transId = transId,
           nt_playerId = playerId, nt_acctId = acctId\<rparr>)))))))"

definition NetMessage_write :: "NetMessage \<Rightarrow> bytes" where
  "NetMessage_write m =
     (let flags = nt_contentFlags m in
      write_u32 flags
      @ (if bit flags 16 then write_u8 (nt_protocolVerMaj m) @ write_u8 (nt_protocolVerMin m) else [])
      @ (if bit flags 0 then UnifiedTime_write (nt_timestamp m) else [])
      @ (if bit flags 7 then write_u32 (nt_context m) else [])
      @ (if bit flags 9 then write_u32 (nt_transId m) else [])
      @ (if bit flags 12 then write_u32 (nt_playerId m) else [])
      @ (if bit flags 14 then Uuid_write (nt_acctId m) else []))"

definition NetMessage_wf :: "NetMessage \<Rightarrow> bool" where
  "NetMessage_wf m \<longleftrightarrow>
     nt_protocolVerMaj m = 12 \<and> nt_protocolVerMin m = 6
     \<and> (\<not> bit (nt_contentFlags m) 0 \<longrightarrow> nt_timestamp m = UnifiedTime_null)
     \<and> (\<not> bit (nt_contentFlags m) 7 \<longrightarrow> nt_context m = 0)
     \<and> (\<not> bit (nt_contentFlags m) 9 \<longrightarrow> nt_transId m = 0)
     \<and> (\<not> bit (nt_contentFlags m) 12 \<longrightarrow> nt_playerId m = 0)
     \<and> (if bit (nt_contentFlags m) 14 then Uuid_wf (nt_acctId m) else nt_acctId m = Uuid_null)"

lemma NetMessage_version:
  "reads_back (Inr (write_u8 12 @ write_u8 6)) NetMessage_readVersion (12, 6)"
  by (simp add: reads_back_def NetMessage_readVersion_def)

lemma NetMessage_reads_back:
  assumes "NetMessage_wf m"
  shows "reads_back (Inr (NetMessage_write m)) NetMessage_read m"
  unfolding NetMessage_read_def NetMessage_write_def Let_def
  by (rule rb_field [where x = "nt_contentFlags m"],
      rule rb_opt [where x = "(nt_protocolVerMaj m, nt_protocolVerMin m)"],
      rule rb_opt [where x = "nt_timestamp m"], rule rb_opt [where x = "nt_context m"],
      rule rb_opt [where x = "nt_transId m"], rule rb_opt [where x = "nt_playerId m"],
      rule rb_opt_last [where x = "nt_acctId m"];
      use assms in \<open>simp add: NetMessage_wf_def rb_enc NetMessage_version\<close>)

interpretation netMessage: codec NetMessage_write NetMessage_read NetMessage_wf
  by (rule codecI) (rule NetMessage_reads_back)

lemma reads_prefix_NetMessage [suffix_intros]: "reads_prefix NetMessage_read"
  unfolding NetMessage_read_def NetMessage_readVersion_def by (intro suffix_intros utime.dec_suffix)

lemmas netMessage_rd [rd_simps] = netMessage.dec_enc

text \<open>What an uninitialised member holds.\<close>

definition uninit_word :: "ext_lib \<Rightarrow> nat \<Rightarrow> 'a::len word" where
  "uninit_word L n = le_word (map (uninit L) [0..<n])"

text \<open>A block of bytes behind its length; a short read leaves the fresh array as it was.\<close>

definition read_blob :: "ext_lib \<Rightarrow> nat \<Rightarrow> bytes rd" where
  "read_blob L n = rbind (Stream_read n :: u64 rd) (\<lambda>k. read_array (map (uninit L) [0..<unat k]))"

definition write_blob :: "nat \<Rightarrow> bytes \<Rightarrow> bytes" where
  "write_blob n b = Stream_write n (of_nat (length b) :: u64) @ b"

definition blob_ok :: "nat \<Rightarrow> bytes \<Rightarrow> bool" where
  "blob_ok n b \<longleftrightarrow> n \<le> 8 \<and> length b < 2 ^ (8 * n) \<and> length b < 2 ^ 64"

interpretation blob: codec "write_blob n" "read_blob L n" "blob_ok n" for L n
  by unfold_locales
    (simp add: read_blob_def write_blob_def blob_ok_def Stream_read_len read_array_append unat_of_nat)

lemma reads_prefix_blob [suffix_intros]: "reads_prefix (read_blob L n)"
  unfolding read_blob_def by (intro suffix_intros)

lemmas blob_rd [rd_simps] = blob.dec_enc u32.read_write_list

section \<open>Lists of members, rooms and groups\<close>

record GroupInfo =
  gi_location :: Location
  gi_flags :: byte
  gi_own :: bool

definition GroupInfo_read :: "ext_lib \<Rightarrow> GroupInfo rd" where
  "GroupInfo_read L =
     rbind (Location_read) (\<lambda>location.
     rbind (read_u8) (\<lambda>flags.
     rbind (Stream_read_bool) (\<lambda>own.
     rret \<lparr>gi_location = location, gi_flags = flags, gi_own = own\<rparr>)))"

definition GroupInfo_write :: "ext_lib \<Rightarrow> GroupInfo \<Rightarrow> bytes" where
  "GroupInfo_write L m =
     Location_write (gi_location m)
     @ write_u8 (gi_flags m)
     @ Stream_write_bool (gi_own m)"

definition GroupInfo_wf :: "ext_lib \<Rightarrow> GroupInfo \<Rightarrow> bool" where
  "GroupInfo_wf L m \<longleftrightarrow> True"

interpretation groupInfo_c: codec "GroupInfo_write L" "GroupInfo_read L" "GroupInfo_wf L" for L
  by unfold_locales (simp add: GroupInfo_read_def GroupInfo_write_def GroupInfo_wf_def rd_simps)

lemma reads_prefix_GroupInfo [suffix_intros]: "reads_prefix (GroupInfo_read L)"
  unfolding GroupInfo_read_def by (intro suffix_intros)

lemmas groupInfo_c_rd [rd_simps] = groupInfo_c.dec_enc

lemmas groupInfo_c_list [rd_simps] = groupInfo_c.read_write_list

record NetMsgGroupOwner =
  go_base :: NetMessage
  go_groups :: "GroupInfo list"

definition NetMsgGroupOwner_read :: "ext_lib \<Rightarrow> NetMsgGroupOwner rd" where
  "NetMsgGroupOwner_read L =
     rbind (NetMessage_read) (\<lambda>base.
     rbind (read_list 4 (GroupInfo_read L)) (\<lambda>groups.
     rret \<lparr>go_base = base, go_groups = groups\<rparr>))"

definition NetMsgGroupOwner_write :: "ext_lib \<Rightarrow> NetMsgGroupOwner \<Rightarrow> bytes" where
  "NetMsgGroupOwner_write L m =
     NetMessage_write (go_base m)
     @ write_list 4 (GroupInfo_write L) (go_groups m)"

definition NetMsgGroupOwner_wf :: "ext_lib \<Rightarrow> NetMsgGroupOwner \<Rightarrow> bool" where
  "NetMsgGroupOwner_wf L m \<longleftrightarrow> NetMessage_wf (go_base m)
     \<and> list_wf 4 (GroupInfo_wf L) (go_groups m)"

interpretation netMsgGroupOwner_c: codec "NetMsgGroupOwner_write L" "NetMsgGroupOwner_read L" "NetMsgGroupOwner_wf L" for L
  by unfold_locales (simp add: NetMsgGroupOwner_read_def NetMsgGroupOwner_write_def NetMsgGroupOwner_wf_def rd_simps)

lemma reads_prefix_NetMsgGroupOwner [suffix_intros]: "reads_prefix (NetMsgGroupOwner_read L)"
  unfolding NetMsgGroupOwner_read_def by (intro suffix_intros)

lemmas netMsgGroupOwner_c_rd [rd_simps] = netMsgGroupOwner_c.dec_enc

record NetMsgInitialAgeStateSent =
  ias_base :: NetMessage
  ias_numStates :: u32

definition NetMsgInitialAgeStateSent_read :: "ext_lib \<Rightarrow> NetMsgInitialAgeStateSent rd" where
  "NetMsgInitialAgeStateSent_read L =
     rbind (NetMessage_read) (\<lambda>base.
     rbind (read_u32) (\<lambda>numStates.
     rret \<lparr>ias_base = base, ias_numStates = numStates\<rparr>))"

definition NetMsgInitialAgeStateSent_write :: "ext_lib \<Rightarrow> NetMsgInitialAgeStateSent \<Rightarrow> bytes" where
  "NetMsgInitialAgeStateSent_write L m =
     NetMessage_write (ias_base m)
     @ write_u32 (ias_numStates m)"

definition NetMsgInitialAgeStateSent_wf :: "ext_lib \<Rightarrow> NetMsgInitialAgeStateSent \<Rightarrow> bool" where
  "NetMsgInitialAgeStateSent_wf L m \<longleftrightarrow> NetMessage_wf (ias_base m)"

interpretation netMsgInitialAgeStateSent_c: codec "NetMsgInitialAgeStateSent_write L" "NetMsgInitialAgeStateSent_read L" "NetMsgInitialAgeStateSent_wf L" for L
  by unfold_locales (simp add: NetMsgInitialAgeStateSent_read_def NetMsgInitialAgeStateSent_write_def NetMsgInitialAgeStateSent_wf_def rd_simps)

lemma reads_prefix_NetMsgInitialAgeStateSent [suffix_intros]: "reads_prefix (NetMsgInitialAgeStateSent_read L)"
  unfolding NetMsgInitialAgeStateSent_read_def by (intro suffix_intros)

lemmas netMsgInitialAgeStateSent_c_rd [rd_simps] = netMsgInitialAgeStateSent_c.dec_enc

record ClientGuid =
  cg_flags :: u16
  cg_AcctUuid :: Uuid
  cg_PlayerId :: u32
  cg_PlayerName :: st_string
  cg_CCRLevel :: byte
  cg_ProtectedLogin :: bool
  cg_BuildType :: byte
  cg_SrcAddr :: u32
  cg_SrcPort :: u16
  cg_Reserved :: u16
  cg_ClientKey :: st_string

definition ClientGuid_read :: "ext_lib \<Rightarrow> ClientGuid rd" where
  "ClientGuid_read L =
     rbind (read_u16) (\<lambda>flags.
     rbind (if bit flags 0 then Uuid_read Uuid_null else rret Uuid_null) (\<lambda>AcctUuid.
     rbind (if bit flags 1 \<or> bit flags 2 then read_u32 else rret (uninit_word L 4)) (\<lambda>PlayerId.
     rbind (if bit flags 6 then Stream_readPString L 2 e_StringRAW8 else rret []) (\<lambda>PlayerName.
     rbind (if bit flags 3 then read_u8 else rret (uninit_word L 1)) (\<lambda>CCRLevel.
     rbind (if bit flags 4 then Stream_read_bool else rret (uninit L 0 \<noteq> 0)) (\<lambda>ProtectedLogin.
     rbind (if bit flags 5 then read_u8 else rret (uninit_word L 1)) (\<lambda>BuildType.
     rbind (if bit flags 7 then read_u32 else rret (uninit_word L 4)) (\<lambda>SrcAddr.
     rbind (if bit flags 8 then read_u16 else rret (uninit_word L 2)) (\<lambda>SrcPort.
     rbind (if bit flags 9 then read_u16 else rret (uninit_word L 2)) (\<lambda>Reserved.
     rbind (if bit flags 10 then Stream_readPString L 2 e_StringRAW8 else rret []) (\<lambda>ClientKey.
     rret \<lparr>cg_flags = flags, cg_AcctUuid = AcctUuid, cg_PlayerId = PlayerId, cg_PlayerName = PlayerName, cg_CCRLevel = CCRLevel, cg_ProtectedLogin = ProtectedLogin, cg_BuildType = BuildType, cg_SrcAddr = SrcAddr, cg_SrcPort = SrcPort, cg_Reserved = Reserved, cg_ClientKey = ClientKey\<rparr>)))))))))))"

definition ClientGuid_write :: "ext_lib \<Rightarrow> ClientGuid \<Rightarrow> bytes" where
  "ClientGuid_write L m =
     write_u16 (cg_flags m)
     @ (if bit (cg_flags m) 0 then Uuid_write (cg_AcctUuid m) else [])
     @ (if bit (cg_flags m) 1 \<or> bit (cg_flags m) 2 then write_u32 (cg_PlayerId m) else [])
     @ (if bit (cg_flags m) 6 then Stream_writePString L 2 (cg_PlayerName m) e_StringRAW8 else [])
     @ (if bit (cg_flags m) 3 then write_u8 (cg_CCRLevel m) else [])
     @ (if bit (cg_flags m) 4 then Stream_write_bool (cg_ProtectedLogin m) else [])
     @ (if bit (cg_flags m) 5 then write_u8 (cg_BuildType m) else [])
     @ (if bit (cg_flags m) 7 then write_u32 (cg_SrcAddr m) else [])
     @ (if bit (cg_flags m) 8 then write_u16 (cg_SrcPort m) else [])
     @ (if bit (cg_flags m) 9 then write_u16 (cg_Reserved m) else [])
     @ (if bit (cg_flags m) 10 then Stream_writePString L 2 (cg_ClientKey m) e_StringRAW8 else [])"

definition ClientGuid_wf :: "ext_lib \<Rightarrow> ClientGuid \<Rightarrow> bool" where
  "ClientGuid_wf L m \<longleftrightarrow> (if bit (cg_flags m) 0 then Uuid_wf (cg_AcctUuid m) else cg_AcctUuid m = Uuid_null)
     \<and> (if bit (cg_flags m) 1 \<or> bit (cg_flags m) 2 then True else cg_PlayerId m = (uninit_word L 4))
     \<and> (if bit (cg_flags m) 6 then pstring_ok L 2 (cg_PlayerName m) else cg_PlayerName m = [])
     \<and> (if bit (cg_flags m) 3 then True else cg_CCRLevel m = (uninit_word L 1))
     \<and> (if bit (cg_flags m) 4 then True else cg_ProtectedLogin m = (uninit L 0 \<noteq> 0))
     \<and> (if bit (cg_flags m) 5 then True else cg_BuildType m = (uninit_word L 1))
     \<and> (if bit (cg_flags m) 7 then True else cg_SrcAddr m = (uninit_word L 4))
     \<and> (if bit (cg_flags m) 8 then True else cg_SrcPort m = (uninit_word L 2))
     \<and> (if bit (cg_flags m) 9 then True else cg_Reserved m = (uninit_word L 2))
     \<and> (if bit (cg_flags m) 10 then pstring_ok L 2 (cg_ClientKey m) else cg_ClientKey m = [])"

lemma ClientGuid_reads_back:
  assumes "ClientGuid_wf L m"
  shows "reads_back (Inr (ClientGuid_write L m)) (ClientGuid_read L) m"
  unfolding ClientGuid_read_def ClientGuid_write_def
  by (rule rb_field [where x = "cg_flags m"],
      rule rb_opt [where x = "cg_AcctUuid m"],
      rule rb_opt [where x = "cg_PlayerId m"],
      rule rb_opt [where x = "cg_PlayerName m"],
      rule rb_opt [where x = "cg_CCRLevel m"],
      rule rb_opt [where x = "cg_ProtectedLogin m"],
      rule rb_opt [where x = "cg_BuildType m"],
      rule rb_opt [where x = "cg_SrcAddr m"],
      rule rb_opt [where x = "cg_SrcPort m"],
      rule rb_opt [where x = "cg_Reserved m"],
      rule rb_opt_last [where x = "cg_ClientKey m"];
      use assms in \<open>simp add: ClientGuid_wf_def rb_enc\<close>)

interpretation clientGuid_c: codec "ClientGuid_write L" "ClientGuid_read L" "ClientGuid_wf L" for L
  by (rule codecI) (rule ClientGuid_reads_back)

lemma reads_prefix_ClientGuid [suffix_intros]: "reads_prefix (ClientGuid_read L)"
  unfolding ClientGuid_read_def by (intro suffix_intros)

lemmas clientGuid_c_rd [rd_simps] = clientGuid_c.dec_enc

record NetMsgMemberInfo =
  mi_flags :: u32
  mi_client :: ClientGuid
  mi_avatarKey :: Uoid

definition NetMsgMemberInfo_read :: "ext_lib \<Rightarrow> NetMsgMemberInfo rd" where
  "NetMsgMemberInfo_read L =
     rbind (read_u32) (\<lambda>flags.
     rbind (ClientGuid_read L) (\<lambda>client.
     rbind (Uoid_read L) (\<lambda>avatarKey.
     rret \<lparr>mi_flags = flags, mi_client = client, mi_avatarKey = avatarKey\<rparr>)))"

definition NetMsgMemberInfo_write :: "ext_lib \<Rightarrow> NetMsgMemberInfo \<Rightarrow> bytes" where
  "NetMsgMemberInfo_write L m =
     write_u32 (mi_flags m)
     @ ClientGuid_write L (mi_client m)
     @ Uoid_write L (mi_avatarKey m)"

definition NetMsgMemberInfo_wf :: "ext_lib \<Rightarrow> NetMsgMemberInfo \<Rightarrow> bool" where
  "NetMsgMemberInfo_wf L m \<longleftrightarrow> ClientGuid_wf L (mi_client m)
     \<and> Uoid_wf L (mi_avatarKey m)"

interpretation netMsgMemberInfo_c: codec "NetMsgMemberInfo_write L" "NetMsgMemberInfo_read L" "NetMsgMemberInfo_wf L" for L
  by unfold_locales (simp add: NetMsgMemberInfo_read_def NetMsgMemberInfo_write_def NetMsgMemberInfo_wf_def rd_simps)

lemma reads_prefix_NetMsgMemberInfo [suffix_intros]: "reads_prefix (NetMsgMemberInfo_read L)"
  unfolding NetMsgMemberInfo_read_def by (intro suffix_intros)

lemmas netMsgMemberInfo_c_rd [rd_simps] = netMsgMemberInfo_c.dec_enc

lemmas netMsgMemberInfo_c_list [rd_simps] = netMsgMemberInfo_c.read_write_list

record NetMsgMembersList =
  ml_base :: NetMessage
  ml_members :: "NetMsgMemberInfo list"

definition NetMsgMembersList_read :: "ext_lib \<Rightarrow> NetMsgMembersList rd" where
  "NetMsgMembersList_read L =
     rbind (NetMessage_read) (\<lambda>base.
     rbind (read_list 2 (NetMsgMemberInfo_read L)) (\<lambda>members.
     rret \<lparr>ml_base = base, ml_members = members\<rparr>))"

definition NetMsgMembersList_write :: "ext_lib \<Rightarrow> NetMsgMembersList \<Rightarrow> bytes" where
  "NetMsgMembersList_write L m =
     NetMessage_write (ml_base m)
     @ write_list 2 (NetMsgMemberInfo_write L) (ml_members m)"

definition NetMsgMembersList_wf :: "ext_lib \<Rightarrow> NetMsgMembersList \<Rightarrow> bool" where
  "NetMsgMembersList_wf L m \<longleftrightarrow> NetMessage_wf (ml_base m)
     \<and> list_wf 2 (NetMsgMemberInfo_wf L) (ml_members m)"

interpretation netMsgMembersList_c: codec "NetMsgMembersList_write L" "NetMsgMembersList_read L" "NetMsgMembersList_wf L" for L
  by unfold_locales (simp add: NetMsgMembersList_read_def NetMsgMembersList_write_def NetMsgMembersList_wf_def rd_simps)

lemma reads_prefix_NetMsgMembersList [suffix_intros]: "reads_prefix (NetMsgMembersList_read L)"
  unfolding NetMsgMembersList_read_def by (intro suffix_intros)

lemmas netMsgMembersList_c_rd [rd_simps] = netMsgMembersList_c.dec_enc

record NetMsgMemberUpdate =
  mu_base :: NetMessage
  mu_member :: NetMsgMemberInfo
  mu_addMember :: bool

definition NetMsgMemberUpdate_read :: "ext_lib \<Rightarrow> NetMsgMemberUpdate rd" where
  "NetMsgMemberUpdate_read L =
     rbind (NetMessage_read) (\<lambda>base.
     rbind (NetMsgMemberInfo_read L) (\<lambda>member.
     rbind (Stream_read_bool) (\<lambda>addMember.
     rret \<lparr>mu_base = base, mu_member = member, mu_addMember = addMember\<rparr>)))"

definition NetMsgMemberUpdate_write :: "ext_lib \<Rightarrow> NetMsgMemberUpdate \<Rightarrow> bytes" where
  "NetMsgMemberUpdate_write L m =
     NetMessage_write (mu_base m)
     @ NetMsgMemberInfo_write L (mu_member m)
     @ Stream_write_bool (mu_addMember m)"

definition NetMsgMemberUpdate_wf :: "ext_lib \<Rightarrow> NetMsgMemberUpdate \<Rightarrow> bool" where
  "NetMsgMemberUpdate_wf L m \<longleftrightarrow> NetMessage_wf (mu_base m)
     \<and> NetMsgMemberInfo_wf L (mu_member m)"

interpretation netMsgMemberUpdate_c: codec "NetMsgMemberUpdate_write L" "NetMsgMemberUpdate_read L" "NetMsgMemberUpdate_wf L" for L
  by unfold_locales (simp add: NetMsgMemberUpdate_read_def NetMsgMemberUpdate_write_def NetMsgMemberUpdate_wf_def rd_simps)

lemma reads_prefix_NetMsgMemberUpdate [suffix_intros]: "reads_prefix (NetMsgMemberUpdate_read L)"
  unfolding NetMsgMemberUpdate_read_def by (intro suffix_intros)

lemmas netMsgMemberUpdate_c_rd [rd_simps] = netMsgMemberUpdate_c.dec_enc

record NetMsgPlayerPage =
  pp_base :: NetMessage
  pp_unload :: bool
  pp_uoid :: Uoid

definition NetMsgPlayerPage_read :: "ext_lib \<Rightarrow> NetMsgPlayerPage rd" where
  "NetMsgPlayerPage_read L =
     rbind (NetMessage_read) (\<lambda>base.
     rbind (Stream_read_bool) (\<lambda>unload.
     rbind (Uoid_read L) (\<lambda>uoid.
     rret \<lparr>pp_base = base, pp_unload = unload, pp_uoid = uoid\<rparr>)))"

definition NetMsgPlayerPage_write :: "ext_lib \<Rightarrow> NetMsgPlayerPage \<Rightarrow> bytes" where
  "NetMsgPlayerPage_write L m =
     NetMessage_write (pp_base m)
     @ Stream_write_bool (pp_unload m)
     @ Uoid_write L (pp_uoid m)"

definition NetMsgPlayerPage_wf :: "ext_lib \<Rightarrow> NetMsgPlayerPage \<Rightarrow> bool" where
  "NetMsgPlayerPage_wf L m \<longleftrightarrow> NetMessage_wf (pp_base m)
     \<and> Uoid_wf L (pp_uoid m)"

interpretation netMsgPlayerPage_c: codec "NetMsgPlayerPage_write L" "NetMsgPlayerPage_read L" "NetMsgPlayerPage_wf L" for L
  by unfold_locales (simp add: NetMsgPlayerPage_read_def NetMsgPlayerPage_write_def NetMsgPlayerPage_wf_def rd_simps)

lemma reads_prefix_NetMsgPlayerPage [suffix_intros]: "reads_prefix (NetMsgPlayerPage_read L)"
  unfolding NetMsgPlayerPage_read_def by (intro suffix_intros)

lemmas netMsgPlayerPage_c_rd [rd_simps] = netMsgPlayerPage_c.dec_enc

record NetMsgRelevanceRegions =
  rr_base :: NetMessage
  rr_regionsICareAbout :: BitVector
  rr_regionsIAmIn :: BitVector

definition NetMsgRelevanceRegions_read :: "ext_lib \<Rightarrow> NetMsgRelevanceRegions rd" where
  "NetMsgRelevanceRegions_read L =
     rbind (NetMessage_read) (\<lambda>base.
     rbind (BitVector_read (uninit L)) (\<lambda>regionsICareAbout.
     rbind (BitVector_read (uninit L)) (\<lambda>regionsIAmIn.
     rret \<lparr>rr_base = base, rr_regionsICareAbout = regionsICareAbout, rr_regionsIAmIn = regionsIAmIn\<rparr>)))"

definition NetMsgRelevanceRegions_write :: "ext_lib \<Rightarrow> NetMsgRelevanceRegions \<Rightarrow> bytes" where
  "NetMsgRelevanceRegions_write L m =
     NetMessage_write (rr_base m)
     @ BitVector_write (rr_regionsICareAbout m)
     @ BitVector_write (rr_regionsIAmIn m)"

definition NetMsgRelevanceRegions_wf :: "ext_lib \<Rightarrow> NetMsgRelevanceRegions \<Rightarrow> bool" where
  "NetMsgRelevanceRegions_wf L m \<longleftrightarrow> NetMessage_wf (rr_base m)
     \<and> BitVector_wf (rr_regionsICareAbout m)
     \<and> BitVector_wf (rr_regionsIAmIn m)"

interpretation netMsgRelevanceRegions_c: codec "NetMsgRelevanceRegions_write L" "NetMsgRelevanceRegions_read L" "NetMsgRelevanceRegions_wf L" for L
  by unfold_locales (simp add: NetMsgRelevanceRegions_read_def NetMsgRelevanceRegions_write_def NetMsgRelevanceRegions_wf_def rd_simps)

lemma reads_prefix_NetMsgRelevanceRegions [suffix_intros]: "reads_prefix (NetMsgRelevanceRegions_read L)"
  unfolding NetMsgRelevanceRegions_read_def by (intro suffix_intros)

lemmas netMsgRelevanceRegions_c_rd [rd_simps] = netMsgRelevanceRegions_c.dec_enc

record Room =
  rm_location :: Location
  rm_name :: st_string

definition Room_read :: "ext_lib \<Rightarrow> Room rd" where
  "Room_read L =
     rbind (Location_read) (\<lambda>location.
     rbind (Stream_readPString L 2 e_StringRAW8) (\<lambda>name.
     rret \<lparr>rm_location = location, rm_name = name\<rparr>))"

definition Room_write :: "ext_lib \<Rightarrow> Room \<Rightarrow> bytes" where
  "Room_write L m =
     Location_write (rm_location m)
     @ Stream_writePString L 2 (rm_name m) e_StringRAW8"

definition Room_wf :: "ext_lib \<Rightarrow> Room \<Rightarrow> bool" where
  "Room_wf L m \<longleftrightarrow> pstring_ok L 2 (rm_name m)"

interpretation room_c: codec "Room_write L" "Room_read L" "Room_wf L" for L
  by unfold_locales (simp add: Room_read_def Room_write_def Room_wf_def rd_simps)

lemma reads_prefix_Room [suffix_intros]: "reads_prefix (Room_read L)"
  unfolding Room_read_def by (intro suffix_intros)

lemmas room_c_rd [rd_simps] = room_c.dec_enc

lemmas room_c_list [rd_simps] = room_c.read_write_list

record NetMsgRoomsList =
  rl_base :: NetMessage
  rl_rooms :: "Room list"

definition NetMsgRoomsList_read :: "ext_lib \<Rightarrow> NetMsgRoomsList rd" where
  "NetMsgRoomsList_read L =
     rbind (NetMessage_read) (\<lambda>base.
     rbind (read_list 4 (Room_read L)) (\<lambda>rooms.
     rret \<lparr>rl_base = base, rl_rooms = rooms\<rparr>))"

definition NetMsgRoomsList_write :: "ext_lib \<Rightarrow> NetMsgRoomsList \<Rightarrow> bytes" where
  "NetMsgRoomsList_write L m =
     NetMessage_write (rl_base m)
     @ write_list 4 (Room_write L) (rl_rooms m)"

definition NetMsgRoomsList_wf :: "ext_lib \<Rightarrow> NetMsgRoomsList \<Rightarrow> bool" where
  "NetMsgRoomsList_wf L m \<longleftrightarrow> NetMessage_wf (rl_base m)
     \<and> list_wf 4 (Room_wf L) (rl_rooms m)"

interpretation netMsgRoomsList_c: codec "NetMsgRoomsList_write L" "NetMsgRoomsList_read L" "NetMsgRoomsList_wf L" for L
  by unfold_locales (simp add: NetMsgRoomsList_read_def NetMsgRoomsList_write_def NetMsgRoomsList_wf_def rd_simps)

lemma reads_prefix_NetMsgRoomsList [suffix_intros]: "reads_prefix (NetMsgRoomsList_read L)"
  unfolding NetMsgRoomsList_read_def by (intro suffix_intros)

lemmas netMsgRoomsList_c_rd [rd_simps] = netMsgRoomsList_c.dec_enc

record NetMsgPagingRoom =
  pr_base :: NetMsgRoomsList
  pr_pagingFlags :: byte

definition NetMsgPagingRoom_read :: "ext_lib \<Rightarrow> NetMsgPagingRoom rd" where
  "NetMsgPagingRoom_read L =
     rbind (NetMsgRoomsList_read L) (\<lambda>base.
     rbind (read_u8) (\<lambda>pagingFlags.
     rret \<lparr>pr_base = base, pr_pagingFlags = pagingFlags\<rparr>))"

definition NetMsgPagingRoom_write :: "ext_lib \<Rightarrow> NetMsgPagingRoom \<Rightarrow> bytes" where
  "NetMsgPagingRoom_write L m =
     NetMsgRoomsList_write L (pr_base m)
     @ write_u8 (pr_pagingFlags m)"

definition NetMsgPagingRoom_wf :: "ext_lib \<Rightarrow> NetMsgPagingRoom \<Rightarrow> bool" where
  "NetMsgPagingRoom_wf L m \<longleftrightarrow> NetMsgRoomsList_wf L (pr_base m)"

interpretation netMsgPagingRoom_c: codec "NetMsgPagingRoom_write L" "NetMsgPagingRoom_read L" "NetMsgPagingRoom_wf L" for L
  by unfold_locales (simp add: NetMsgPagingRoom_read_def NetMsgPagingRoom_write_def NetMsgPagingRoom_wf_def rd_simps)

lemma reads_prefix_NetMsgPagingRoom [suffix_intros]: "reads_prefix (NetMsgPagingRoom_read L)"
  unfolding NetMsgPagingRoom_read_def by (intro suffix_intros)

lemmas netMsgPagingRoom_c_rd [rd_simps] = netMsgPagingRoom_c.dec_enc

record NetMsgVoice =
  vo_base :: NetMessage
  vo_flags :: byte
  vo_frames :: byte
  vo_data :: bytes
  vo_receivers :: "u32 list"

definition NetMsgVoice_read :: "ext_lib \<Rightarrow> NetMsgVoice rd" where
  "NetMsgVoice_read L =
     rbind (NetMessage_read) (\<lambda>base.
     rbind (read_u8) (\<lambda>flags.
     rbind (read_u8) (\<lambda>frames.
     rbind (read_blob L 2) (\<lambda>data.
     rbind (read_list 1 (read_u32)) (\<lambda>receivers.
     rret \<lparr>vo_base = base, vo_flags = flags, vo_frames = frames, vo_data = data, vo_receivers = receivers\<rparr>)))))"

definition NetMsgVoice_write :: "ext_lib \<Rightarrow> NetMsgVoice \<Rightarrow> bytes" where
  "NetMsgVoice_write L m =
     NetMessage_write (vo_base m)
     @ write_u8 (vo_flags m)
     @ write_u8 (vo_frames m)
     @ write_blob 2 (vo_data m)
     @ write_list 1 (write_u32) (vo_receivers m)"

definition NetMsgVoice_wf :: "ext_lib \<Rightarrow> NetMsgVoice \<Rightarrow> bool" where
  "NetMsgVoice_wf L m \<longleftrightarrow> NetMessage_wf (vo_base m)
     \<and> blob_ok 2 (vo_data m)
     \<and> list_wf 1 (\<lambda>_. True) (vo_receivers m)"

interpretation netMsgVoice_c: codec "NetMsgVoice_write L" "NetMsgVoice_read L" "NetMsgVoice_wf L" for L
  by unfold_locales (simp add: NetMsgVoice_read_def NetMsgVoice_write_def NetMsgVoice_wf_def rd_simps)

lemma reads_prefix_NetMsgVoice [suffix_intros]: "reads_prefix (NetMsgVoice_read L)"
  unfolding NetMsgVoice_read_def by (intro suffix_intros)

lemmas netMsgVoice_c_rd [rd_simps] = netMsgVoice_c.dec_enc

section \<open>NetMsgStream\<close>

text \<open>
  Compression 2 is \<open>e_CompressZlib\<close>: the first two bytes (the type of the object inside) stay as they
  are, the rest is compressed. The sizes are trusted: a promised length below two makes the copy of
  those bytes overrun the new buffer, and a text shorter than promised leaves its tail uninitialised.
\<close>

definition NetMsgStream_read :: "ext_lib \<Rightarrow> (byte \<times> bytes) rd" where
  "NetMsgStream_read L =
     rbind read_u32 (\<lambda>uncompressedSize.
     rbind read_u8 (\<lambda>compression.
     rbind read_u32 (\<lambda>size'.
     rbind (read_array (map (uninit L) [0..<unat size'])) (\<lambda>buffer.
     if compression = 2 then
       if size' < 2 then rfail MalformedData
       else if uncompressedSize < 2 then rfail UndefinedBehaviour
       else case zlib_uncompress L (unat uncompressedSize - 2) (drop 2 buffer) of
              None \<Rightarrow> rfail MalformedData
            | Some text \<Rightarrow>
                rret (compression, fill (map (uninit L) [0..<unat uncompressedSize]) (take 2 buffer @ text))
     else rret (compression, buffer)))))"

definition NetMsgStream_write :: "ext_lib \<Rightarrow> byte \<Rightarrow> bytes \<Rightarrow> wres" where
  "NetMsgStream_write L compression stream = wconcat
     [Inr (write_u32 (of_nat (length stream))), Inr (write_u8 compression),
      if compression = 2 then
        if length stream < 2 then Inl MalformedData
        else case zlib_compress L (zlib_compressBound L (length stream - 2)) (drop 2 stream) of
               None \<Rightarrow> Inl MalformedData
             | Some z \<Rightarrow> Inr (write_u32 (of_nat (length z + 2)) @ take 2 stream @ z)
      else Inr (write_u32 (of_nat (length stream)) @ stream)]"

text \<open>The streams that survive: sizes that fit, and for zlib an inverse pair on this text.\<close>

definition stream_ok :: "ext_lib \<Rightarrow> byte \<Rightarrow> bytes \<Rightarrow> bool" where
  "stream_ok L compression stream \<longleftrightarrow> length stream < 2 ^ 32
     \<and> (compression = 2 \<longrightarrow> 2 \<le> length stream
         \<and> (case zlib_compress L (zlib_compressBound L (length stream - 2)) (drop 2 stream) of
              None \<Rightarrow> False
            | Some z \<Rightarrow> length z + 2 < 2 ^ 32
                \<and> zlib_uncompress L (length stream - 2) z = Some (drop 2 stream)))"

lemma word_lt_2: "n < 2 ^ 32 \<Longrightarrow> (of_nat n < (2 :: u32)) = (n < 2)"
  by (simp add: word_less_nat_alt unat_of_nat)

lemma NetMsgStream_reads_back:
  assumes "stream_ok L compression stream"
  shows "reads_back (NetMsgStream_write L compression stream) (NetMsgStream_read L) (compression, stream)"
proof (cases "compression = 2")
  case False
  with assms show ?thesis
    by (auto simp: reads_back_def NetMsgStream_write_def NetMsgStream_read_def stream_ok_def
        read_array_append unat_of_nat)
next
  case True
  define n where "n = length stream"
  from assms True obtain z where z: "2 \<le> n" "n < 2 ^ 32" "length z + 2 < 2 ^ 32"
    "zlib_compress L (zlib_compressBound L (n - 2)) (drop 2 stream) = Some z"
    "zlib_uncompress L (n - 2) z = Some (drop 2 stream)"
    by (auto simp: stream_ok_def n_def split: option.splits)
  have nat: "unat (of_nat n :: u32) = n" "unat (of_nat (length z + 2) :: u32) = length z + 2"
    using z(2,3) by (simp_all only: unat_of_nat len_num1 mod_less) (simp_all add: mod_less)
  have lt: "\<not> (of_nat n :: u32) < 2" "\<not> (of_nat (length z + 2) :: u32) < 2"
    using z by (simp_all only: word_lt_2)
  have w: "NetMsgStream_write L compression stream = Inr (write_u32 (of_nat n) @ write_u8 compression
      @ write_u32 (of_nat (length z + 2)) @ take 2 stream @ z)"
    using True z n_def by (simp add: NetMsgStream_write_def)
  have arr: "read_array (map (uninit L) [0..<length z + 2]) (take 2 stream @ z @ bs) = Inr (take 2 stream @ z, bs)" for bs
    using z(1) read_array_append [of "take 2 stream @ z" _ bs] by (simp add: n_def)
  have "NetMsgStream_read L ((write_u32 (of_nat n) @ write_u8 compression
      @ write_u32 (of_nat (length z + 2)) @ take 2 stream @ z) @ bs) = Inr ((compression, stream), bs)" for bs
    using True z(1,5) lt nat arr [of bs]
    by (simp add: NetMsgStream_read_def fill_def n_def del: of_nat_add of_nat_numeral)
  with w show ?thesis unfolding reads_back_def by blast
qed

text \<open>Reading from the stream inside; what it leaves unread is dropped.\<close>

definition rsub :: "'a rd \<Rightarrow> bytes \<Rightarrow> 'a rd" where
  "rsub p stream = rlift (case p stream of Inl e \<Rightarrow> Inl e | Inr (x, _) \<Rightarrow> Inr x)"

lemma rsub_simp: "p stream = Inr (x, rest) \<Longrightarrow> rsub p stream = rret x"
  by (rule ext) (simp add: rsub_def)

lemma reads_prefix_rsub [suffix_intros]: "reads_prefix (rsub p stream)"
  unfolding rsub_def by (intro suffix_intros)

section \<open>NetMsgObject and NetMsgSDLState\<close>

record NetMsgObject =
  no_base :: NetMessage
  no_object :: Uoid
  no_compression :: byte

definition NetMsgObject_read :: "ext_lib \<Rightarrow> NetMsgObject rd" where
  "NetMsgObject_read L =
     rbind NetMessage_read (\<lambda>base.
     rbind (Uoid_read L) (\<lambda>obj.
     rret \<lparr>no_base = base, no_object = obj, no_compression = 0\<rparr>))"

definition NetMsgObject_write :: "ext_lib \<Rightarrow> NetMsgObject \<Rightarrow> bytes" where
  "NetMsgObject_write L m = NetMessage_write (no_base m) @ Uoid_write L (no_object m)"

definition NetMsgObject_wf :: "ext_lib \<Rightarrow> NetMsgObject \<Rightarrow> bool" where
  "NetMsgObject_wf L m \<longleftrightarrow> NetMessage_wf (no_base m) \<and> Uoid_wf L (no_object m)"

lemma NetMsgObject_reads_back:
  assumes "NetMsgObject_wf L m"
  shows "reads_back (Inr (NetMsgObject_write L m)) (NetMsgObject_read L) (m\<lparr>no_compression := 0\<rparr>)"
  using assms by (simp add: reads_back_def NetMsgObject_write_def NetMsgObject_read_def NetMsgObject_wf_def rd_simps)

record NetMsgSDLState =
  ss_base :: NetMsgObject
  ss_sdlBlob :: bytes
  ss_isInitial :: bool
  ss_persistOnServer :: bool
  ss_isAvatar :: bool

definition NetMsgSDLState_read :: "ext_lib \<Rightarrow> NetMsgSDLState rd" where
  "NetMsgSDLState_read L =
     rbind (NetMsgObject_read L) (\<lambda>base.
     rbind (NetMsgStream_read L) (\<lambda>(compression, blob).
     rbind Stream_read_bool (\<lambda>isInitial.
     rbind Stream_read_bool (\<lambda>persistOnServer.
     rbind Stream_read_bool (\<lambda>isAvatar.
     rret \<lparr>ss_base = base\<lparr>no_compression := compression\<rparr>, ss_sdlBlob = blob, ss_isInitial = isInitial,
           ss_persistOnServer = persistOnServer, ss_isAvatar = isAvatar\<rparr>)))))"

definition NetMsgSDLState_write :: "ext_lib \<Rightarrow> NetMsgSDLState \<Rightarrow> wres" where
  "NetMsgSDLState_write L m = wconcat
     [Inr (NetMsgObject_write L (ss_base m)),
      NetMsgStream_write L (no_compression (ss_base m)) (ss_sdlBlob m),
      Inr (Stream_write_bool (ss_isInitial m)), Inr (Stream_write_bool (ss_persistOnServer m)),
      Inr (Stream_write_bool (ss_isAvatar m))]"

definition NetMsgSDLState_wf :: "ext_lib \<Rightarrow> NetMsgSDLState \<Rightarrow> bool" where
  "NetMsgSDLState_wf L m \<longleftrightarrow> NetMsgObject_wf L (ss_base m)
     \<and> stream_ok L (no_compression (ss_base m)) (ss_sdlBlob m)"

lemma NetMsgSDLState_reads_back:
  assumes "NetMsgSDLState_wf L m"
  shows "reads_back (NetMsgSDLState_write L m) (NetMsgSDLState_read L) m"
  unfolding NetMsgSDLState_write_def NetMsgSDLState_read_def
  apply (rule reads_back_Cons [OF NetMsgObject_reads_back])
   apply (use assms in \<open>simp add: NetMsgSDLState_wf_def\<close>)
  apply (rule reads_back_Cons [OF NetMsgStream_reads_back])
   apply (use assms in \<open>simp add: NetMsgSDLState_wf_def\<close>)
  unfolding prod.case
  by (intro reads_back_Cons [OF cbool.reads_back_enc [OF TrueI]] reads_back_Nil) simp

interpretation sdlState: partial_codec "NetMsgSDLState_write L" "NetMsgSDLState_read L" "NetMsgSDLState_wf L" for L
  by unfold_locales (rule NetMsgSDLState_reads_back [unfolded reads_back_def])

section \<open>Shared state\<close>

text \<open>\<open>GenericType\<close>: as \<open>GenericValue\<close>, with UTF-8 strings and one member for both integer types.\<close>

datatype GenericType =
    GT_Int u32
  | GT_Float f32
  | GT_Bool bool
  | GT_String st_string
  | GT_Byte byte
  | GT_Any st_string
  | GT_Uint u32
  | GT_Double f64
  | GT_Empty byte

definition GenericType_read :: "ext_lib \<Rightarrow> GenericType rd" where
  "GenericType_read L =
     rbind read_u8 (\<lambda>type.
     if type = 0 then rbind read_u32 (\<lambda>i. rret (GT_Int i))
     else if type = 6 then rbind read_u32 (\<lambda>i. rret (GT_Uint i))
     else if type = 3 then rbind (Stream_readSafeString L e_StringUTF8) (\<lambda>s. rret (GT_String s))
     else if type = 5 then rbind (Stream_readSafeString L e_StringUTF8) (\<lambda>s. rret (GT_Any s))
     else if type = 1 then rbind read_u32 (\<lambda>f. rret (GT_Float f))
     else if type = 2 then rbind Stream_read_bool (\<lambda>b. rret (GT_Bool b))
     else if type = 4 then rbind read_u8 (\<lambda>b. rret (GT_Byte b))
     else if type = 7 then rbind read_u64 (\<lambda>d. rret (GT_Double d))
     else rret (GT_Empty type))"

fun GenericType_write :: "ext_lib \<Rightarrow> GenericType \<Rightarrow> bytes" where
  "GenericType_write L (GT_Int i) = write_u8 0 @ write_u32 i"
| "GenericType_write L (GT_Uint i) = write_u8 6 @ write_u32 i"
| "GenericType_write L (GT_String s) = write_u8 3 @ Stream_writeSafeString L s e_StringUTF8"
| "GenericType_write L (GT_Any s) = write_u8 5 @ Stream_writeSafeString L s e_StringUTF8"
| "GenericType_write L (GT_Float f) = write_u8 1 @ write_u32 f"
| "GenericType_write L (GT_Bool b) = write_u8 2 @ Stream_write_bool b"
| "GenericType_write L (GT_Byte b) = write_u8 4 @ write_u8 b"
| "GenericType_write L (GT_Double d) = write_u8 7 @ write_u64 d"
| "GenericType_write L (GT_Empty t) = write_u8 t"

fun GenericType_wf :: "ext_lib \<Rightarrow> GenericType \<Rightarrow> bool" where
  "GenericType_wf L (GT_String s) = safe_ok L e_StringUTF8 s"
| "GenericType_wf L (GT_Any s) = safe_ok L e_StringUTF8 s"
| "GenericType_wf L (GT_Empty t) = (t > 7)"
| "GenericType_wf L _ = True"

interpretation genericType: codec "GenericType_write L" "GenericType_read L" "GenericType_wf L" for L
proof
  fix v bs assume "GenericType_wf L v"
  then show "GenericType_read L (GenericType_write L v @ bs) = Inr (v, bs)"
    by (cases v) (auto simp: GenericType_read_def rd_simps)
qed

lemma reads_prefix_GenericType [suffix_intros]: "reads_prefix (GenericType_read L)"
  unfolding GenericType_read_def by (intro suffix_intros)

lemmas genericType_rd [rd_simps] = genericType.dec_enc

record GenericVar =
  gv_name :: st_string
  gv_value :: GenericType

definition GenericVar_read :: "ext_lib \<Rightarrow> GenericVar rd" where
  "GenericVar_read L =
     rbind (Stream_readSafeString L e_StringUTF8) (\<lambda>name.
     rbind (GenericType_read L) (\<lambda>value.
     rret \<lparr>gv_name = name, gv_value = value\<rparr>))"

definition GenericVar_write :: "ext_lib \<Rightarrow> GenericVar \<Rightarrow> bytes" where
  "GenericVar_write L m =
     Stream_writeSafeString L (gv_name m) e_StringUTF8
     @ GenericType_write L (gv_value m)"

definition GenericVar_wf :: "ext_lib \<Rightarrow> GenericVar \<Rightarrow> bool" where
  "GenericVar_wf L m \<longleftrightarrow> safe_ok L e_StringUTF8 (gv_name m)
     \<and> GenericType_wf L (gv_value m)"

interpretation genericVar_c: codec "GenericVar_write L" "GenericVar_read L" "GenericVar_wf L" for L
  by unfold_locales (simp add: GenericVar_read_def GenericVar_write_def GenericVar_wf_def rd_simps)

lemma reads_prefix_GenericVar [suffix_intros]: "reads_prefix (GenericVar_read L)"
  unfolding GenericVar_read_def by (intro suffix_intros)

lemmas genericVar_c_rd [rd_simps] = genericVar_c.dec_enc


record NetMsgSharedState =
  sh_base :: NetMsgObject
  sh_lockRequest :: byte
  sh_serverMayDelete :: bool
  sh_stateName :: st_string
  sh_vars :: "GenericVar list"

text \<open>The state inside the stream: name, number of variables, flag, variables.\<close>

definition SharedState_parse :: "ext_lib \<Rightarrow> (st_string \<times> bool \<times> GenericVar list) rd" where
  "SharedState_parse L =
     rbind (Stream_readPString L 2 e_StringUTF8) (\<lambda>name.
     rbind read_u32 (\<lambda>count.
     rbind Stream_read_bool (\<lambda>mayDelete.
     rbind (rcount (unat count) (GenericVar_read L)) (\<lambda>vars.
     rret (name, mayDelete, vars)))))"

definition SharedState_print :: "ext_lib \<Rightarrow> NetMsgSharedState \<Rightarrow> bytes" where
  "SharedState_print L m =
     Stream_writePString L 2 (sh_stateName m) e_StringUTF8
     @ write_u32 (of_nat (length (sh_vars m)))
     @ Stream_write_bool (sh_serverMayDelete m)
     @ concat (map (GenericVar_write L) (sh_vars m))"

definition NetMsgSharedState_read :: "ext_lib \<Rightarrow> NetMsgSharedState rd" where
  "NetMsgSharedState_read L =
     rbind (NetMsgObject_read L) (\<lambda>base.
     rbind (NetMsgStream_read L) (\<lambda>(compression, stream).
     rbind (rsub (SharedState_parse L) stream) (\<lambda>(name, mayDelete, vars).
     rbind read_u8 (\<lambda>lockRequest.
     rret \<lparr>sh_base = base\<lparr>no_compression := compression\<rparr>, sh_lockRequest = lockRequest,
           sh_serverMayDelete = mayDelete, sh_stateName = name, sh_vars = vars\<rparr>))))"

definition NetMsgSharedState_write :: "ext_lib \<Rightarrow> NetMsgSharedState \<Rightarrow> wres" where
  "NetMsgSharedState_write L m = wconcat
     [Inr (NetMsgObject_write L (sh_base m)),
      NetMsgStream_write L (no_compression (sh_base m)) (SharedState_print L m),
      Inr (write_u8 (sh_lockRequest m))]"

text \<open>
  The name is written as UTF-8 and read as Latin-1, since \<open>readPString\<close> does not pass its format on:
  only names on which the two agree survive.
\<close>

definition NetMsgSharedState_wf :: "ext_lib \<Rightarrow> NetMsgSharedState \<Rightarrow> bool" where
  "NetMsgSharedState_wf L m \<longleftrightarrow> NetMsgObject_wf L (sh_base m)
     \<and> stream_ok L (no_compression (sh_base m)) (SharedState_print L m)
     \<and> length (sh_stateName m) < 2 ^ 16 \<and> from_latin_1 L (sh_stateName m) = sh_stateName m
     \<and> length (sh_vars m) < 2 ^ 32 \<and> list_all (GenericVar_wf L) (sh_vars m)"

lemma SharedState_parse_print:
  assumes "NetMsgSharedState_wf L m"
  shows "SharedState_parse L (SharedState_print L m) = Inr ((sh_stateName m, sh_serverMayDelete m, sh_vars m), [])"
proof -
  have "Stream_readPString L 2 e_StringUTF8 (Stream_writePString L 2 (sh_stateName m) e_StringUTF8 @ bs)
      = Inr (sh_stateName m, bs)" for bs
    using assms by (simp add: NetMsgSharedState_wf_def Stream_readPString_def Stream_writePString_def
        Stream_read_len to_narrow_def Stream_readString_def unat_of_nat Let_def)
  moreover have "rcount (length (sh_vars m)) (GenericVar_read L) (concat (map (GenericVar_write L) (sh_vars m)))
      = Inr (sh_vars m, [])"
    using genericVar_c.dec_enc_list [of L "sh_vars m" "[]"] assms by (simp add: NetMsgSharedState_wf_def)
  ultimately show ?thesis
    using assms by (simp add: SharedState_parse_def SharedState_print_def NetMsgSharedState_wf_def unat_of_nat)
qed

lemma NetMsgSharedState_reads_back:
  assumes "NetMsgSharedState_wf L m"
  shows "reads_back (NetMsgSharedState_write L m) (NetMsgSharedState_read L) m"
  unfolding NetMsgSharedState_write_def NetMsgSharedState_read_def
  apply (rule reads_back_Cons [OF NetMsgObject_reads_back])
   apply (use assms in \<open>simp add: NetMsgSharedState_wf_def\<close>)
  apply (rule reads_back_Cons [OF NetMsgStream_reads_back])
   apply (use assms in \<open>simp add: NetMsgSharedState_wf_def\<close>)
  unfolding prod.case rsub_simp [of "SharedState_parse L", OF SharedState_parse_print [OF assms]] rbind_rret
  by (intro reads_back_Cons [OF u8.reads_back_enc [OF TrueI]] reads_back_Nil) simp

interpretation sharedState: partial_codec "NetMsgSharedState_write L" "NetMsgSharedState_read L"
    "NetMsgSharedState_wf L" for L
  by unfold_locales (rule NetMsgSharedState_reads_back [unfolded reads_back_def])

end
