(* ===== verification/Creatables.thy ===== *)
theory Creatables
  imports Net_Messages
begin

unbundle bit_operations_syntax

text \<open>
  The objects the factory creates, \<open>src/PlasMOUL/factory.cpp\<close> and \<open>creatable_types.inl\<close>, with the
  classes that hold other objects: avatar tasks, brains, coordinators, clone messages, callbacks, game
  messages and creatable lists. A class that holds objects is a datatype over the type \<open>'c\<close> of what
  it holds; \<open>node\<close> is their union, and a creatable is a node over creatables. A reader takes the
  factory it calls for nested objects as the argument \<open>rec\<close>; a writer takes the images of the nested
  objects. \<open>Factory_read\<close> ties the knot for a given nesting depth.
\<close>

section \<open>Classes without nested objects\<close>

definition Vector3_zero :: Vector3 where
  "Vector3_zero = \<lparr>v_X = 0, v_Y = 0, v_Z = 0\<rparr>"

text \<open>
  The plain members of the classes below, in the order they are read and written: what \<open>AvSeekMsg\<close>,
  \<open>AvOneShotMsg\<close>, \<open>AvCoopMsg\<close>, \<open>LoadCloneMsg\<close>, \<open>AnimCmdMsg\<close>, \<open>AvBrainGeneric\<close> (before and after
  its messages) and \<open>AvBrainCoop\<close> add to their bases.
\<close>

record AvSeekFields =
  seek_seekPoint :: Key
  seek_targetPos :: Vector3
  seek_targetLook :: Vector3
  seek_duration :: f32
  seek_smartSeek :: bool
  seek_animName :: st_string
  seek_alignType :: u16
  seek_noSeek :: bool
  seek_flags :: byte
  seek_finishKey :: Key

definition AvSeekFields_read :: "ext_lib \<Rightarrow> AvSeekFields rd" where
  "AvSeekFields_read L =
     rbind (Key_read L) (\<lambda>seekPoint.
     rbind (if seekPoint = None then Vector3_read else rret Vector3_zero) (\<lambda>targetPos.
     rbind (if seekPoint = None then Vector3_read else rret Vector3_zero) (\<lambda>targetLook.
     rbind (read_u32) (\<lambda>duration.
     rbind (Stream_read_bool) (\<lambda>smartSeek.
     rbind (Stream_readSafeString L e_StringRAW8) (\<lambda>animName.
     rbind (read_u16) (\<lambda>alignType.
     rbind (Stream_read_bool) (\<lambda>noSeek.
     rbind (read_u8) (\<lambda>flags.
     rbind (Key_read L) (\<lambda>finishKey.
     rret \<lparr>seek_seekPoint = seekPoint, seek_targetPos = targetPos, seek_targetLook = targetLook, seek_duration = duration, seek_smartSeek = smartSeek, seek_animName = animName, seek_alignType = alignType, seek_noSeek = noSeek, seek_flags = flags, seek_finishKey = finishKey\<rparr>))))))))))"

definition AvSeekFields_write :: "ext_lib \<Rightarrow> AvSeekFields \<Rightarrow> bytes" where
  "AvSeekFields_write L m =
     Key_write L (seek_seekPoint m)
     @ (if (seek_seekPoint m) = None then Vector3_write (seek_targetPos m) else [])
     @ (if (seek_seekPoint m) = None then Vector3_write (seek_targetLook m) else [])
     @ write_u32 (seek_duration m)
     @ Stream_write_bool (seek_smartSeek m)
     @ Stream_writeSafeString L (seek_animName m) e_StringRAW8
     @ write_u16 (seek_alignType m)
     @ Stream_write_bool (seek_noSeek m)
     @ write_u8 (seek_flags m)
     @ Key_write L (seek_finishKey m)"

definition AvSeekFields_wf :: "ext_lib \<Rightarrow> AvSeekFields \<Rightarrow> bool" where
  "AvSeekFields_wf L m \<longleftrightarrow> Key_wf L (seek_seekPoint m)
     \<and> (if (seek_seekPoint m) = None then True else seek_targetPos m = Vector3_zero)
     \<and> (if (seek_seekPoint m) = None then True else seek_targetLook m = Vector3_zero)
     \<and> safe_ok L e_StringRAW8 (seek_animName m)
     \<and> Key_wf L (seek_finishKey m)"

lemma AvSeekFields_reads_back:
  assumes "AvSeekFields_wf L m"
  shows "reads_back (Inr (AvSeekFields_write L m)) (AvSeekFields_read L) m"
  unfolding AvSeekFields_read_def AvSeekFields_write_def
  by (rule rb_field [where x = "seek_seekPoint m"],
      rule rb_opt [where x = "seek_targetPos m"],
      rule rb_opt [where x = "seek_targetLook m"],
      rule rb_field [where x = "seek_duration m"],
      rule rb_field [where x = "seek_smartSeek m"],
      rule rb_field [where x = "seek_animName m"],
      rule rb_field [where x = "seek_alignType m"],
      rule rb_field [where x = "seek_noSeek m"],
      rule rb_field [where x = "seek_flags m"],
      rule rb_field_last [where x = "seek_finishKey m"];
      use assms in \<open>simp add: AvSeekFields_wf_def rb_enc\<close>)

interpretation avSeekFields_c: codec "AvSeekFields_write L" "AvSeekFields_read L" "AvSeekFields_wf L" for L
  by (rule codecI) (rule AvSeekFields_reads_back)

lemma reads_prefix_AvSeekFields [suffix_intros]: "reads_prefix (AvSeekFields_read L)"
  unfolding AvSeekFields_read_def by (intro suffix_intros)

lemmas avSeekFields_c_rd [rd_simps] = avSeekFields_c.dec_enc

record AvOneShotFields =
  shot_oneShotAnimName :: st_string
  shot_drivable :: bool
  shot_reversible :: bool

definition AvOneShotFields_read :: "ext_lib \<Rightarrow> AvOneShotFields rd" where
  "AvOneShotFields_read L =
     rbind (Stream_readSafeString L e_StringRAW8) (\<lambda>oneShotAnimName.
     rbind (Stream_read_bool) (\<lambda>drivable.
     rbind (Stream_read_bool) (\<lambda>reversible.
     rret \<lparr>shot_oneShotAnimName = oneShotAnimName, shot_drivable = drivable, shot_reversible = reversible\<rparr>)))"

definition AvOneShotFields_write :: "ext_lib \<Rightarrow> AvOneShotFields \<Rightarrow> bytes" where
  "AvOneShotFields_write L m =
     Stream_writeSafeString L (shot_oneShotAnimName m) e_StringRAW8
     @ Stream_write_bool (shot_drivable m)
     @ Stream_write_bool (shot_reversible m)"

definition AvOneShotFields_wf :: "ext_lib \<Rightarrow> AvOneShotFields \<Rightarrow> bool" where
  "AvOneShotFields_wf L m \<longleftrightarrow> safe_ok L e_StringRAW8 (shot_oneShotAnimName m)"

interpretation avOneShotFields_c: codec "AvOneShotFields_write L" "AvOneShotFields_read L" "AvOneShotFields_wf L" for L
  by unfold_locales (simp add: AvOneShotFields_read_def AvOneShotFields_write_def AvOneShotFields_wf_def rd_simps)

lemma reads_prefix_AvOneShotFields [suffix_intros]: "reads_prefix (AvOneShotFields_read L)"
  unfolding AvOneShotFields_read_def by (intro suffix_intros)

lemmas avOneShotFields_c_rd [rd_simps] = avOneShotFields_c.dec_enc

record AvCoopFields =
  coop_initiatorId :: u32
  coop_initiatorSerial :: u16
  coop_command :: u16

definition AvCoopFields_read :: "ext_lib \<Rightarrow> AvCoopFields rd" where
  "AvCoopFields_read L =
     rbind (read_u32) (\<lambda>initiatorId.
     rbind (read_u16) (\<lambda>initiatorSerial.
     rbind (read_u16) (\<lambda>command.
     rret \<lparr>coop_initiatorId = initiatorId, coop_initiatorSerial = initiatorSerial, coop_command = command\<rparr>)))"

definition AvCoopFields_write :: "ext_lib \<Rightarrow> AvCoopFields \<Rightarrow> bytes" where
  "AvCoopFields_write L m =
     write_u32 (coop_initiatorId m)
     @ write_u16 (coop_initiatorSerial m)
     @ write_u16 (coop_command m)"

definition AvCoopFields_wf :: "ext_lib \<Rightarrow> AvCoopFields \<Rightarrow> bool" where
  "AvCoopFields_wf L m \<longleftrightarrow> True"

interpretation avCoopFields_c: codec "AvCoopFields_write L" "AvCoopFields_read L" "AvCoopFields_wf L" for L
  by unfold_locales (simp add: AvCoopFields_read_def AvCoopFields_write_def AvCoopFields_wf_def rd_simps)

lemma reads_prefix_AvCoopFields [suffix_intros]: "reads_prefix (AvCoopFields_read L)"
  unfolding AvCoopFields_read_def by (intro suffix_intros)

lemmas avCoopFields_c_rd [rd_simps] = avCoopFields_c.dec_enc

record LoadCloneFields =
  lc_cloneKey :: Key
  lc_requestorKey :: Key
  lc_originPlayerId :: u32
  lc_userData :: u32
  lc_validMsg :: bool
  lc_isLoading :: bool

definition LoadCloneFields_read :: "ext_lib \<Rightarrow> LoadCloneFields rd" where
  "LoadCloneFields_read L =
     rbind (Key_read L) (\<lambda>cloneKey.
     rbind (Key_read L) (\<lambda>requestorKey.
     rbind (read_u32) (\<lambda>originPlayerId.
     rbind (read_u32) (\<lambda>userData.
     rbind (Stream_read_bool) (\<lambda>validMsg.
     rbind (Stream_read_bool) (\<lambda>isLoading.
     rret \<lparr>lc_cloneKey = cloneKey, lc_requestorKey = requestorKey, lc_originPlayerId = originPlayerId, lc_userData = userData, lc_validMsg = validMsg, lc_isLoading = isLoading\<rparr>))))))"

definition LoadCloneFields_write :: "ext_lib \<Rightarrow> LoadCloneFields \<Rightarrow> bytes" where
  "LoadCloneFields_write L m =
     Key_write L (lc_cloneKey m)
     @ Key_write L (lc_requestorKey m)
     @ write_u32 (lc_originPlayerId m)
     @ write_u32 (lc_userData m)
     @ Stream_write_bool (lc_validMsg m)
     @ Stream_write_bool (lc_isLoading m)"

definition LoadCloneFields_wf :: "ext_lib \<Rightarrow> LoadCloneFields \<Rightarrow> bool" where
  "LoadCloneFields_wf L m \<longleftrightarrow> Key_wf L (lc_cloneKey m)
     \<and> Key_wf L (lc_requestorKey m)"

interpretation loadCloneFields_c: codec "LoadCloneFields_write L" "LoadCloneFields_read L" "LoadCloneFields_wf L" for L
  by unfold_locales (simp add: LoadCloneFields_read_def LoadCloneFields_write_def LoadCloneFields_wf_def rd_simps)

lemma reads_prefix_LoadCloneFields [suffix_intros]: "reads_prefix (LoadCloneFields_read L)"
  unfolding LoadCloneFields_read_def by (intro suffix_intros)

lemmas loadCloneFields_c_rd [rd_simps] = loadCloneFields_c.dec_enc

record AnimCmdFields =
  ac_cmd :: BitVector
  ac_begin :: f32
  ac_end :: f32
  ac_loopEnd :: f32
  ac_loopBegin :: f32
  ac_speed :: f32
  ac_speedChangeRate :: f32
  ac_time :: f32
  ac_animName :: st_string
  ac_loopName :: st_string

definition AnimCmdFields_read :: "ext_lib \<Rightarrow> AnimCmdFields rd" where
  "AnimCmdFields_read L =
     rbind (BitVector_read (uninit L)) (\<lambda>cmd.
     rbind (read_u32) (\<lambda>begin.
     rbind (read_u32) (\<lambda>end.
     rbind (read_u32) (\<lambda>loopEnd.
     rbind (read_u32) (\<lambda>loopBegin.
     rbind (read_u32) (\<lambda>speed.
     rbind (read_u32) (\<lambda>speedChangeRate.
     rbind (read_u32) (\<lambda>time.
     rbind (Stream_readSafeString L e_StringRAW8) (\<lambda>animName.
     rbind (Stream_readSafeString L e_StringRAW8) (\<lambda>loopName.
     rret \<lparr>ac_cmd = cmd, ac_begin = begin, ac_end = end, ac_loopEnd = loopEnd, ac_loopBegin = loopBegin, ac_speed = speed, ac_speedChangeRate = speedChangeRate, ac_time = time, ac_animName = animName, ac_loopName = loopName\<rparr>))))))))))"

definition AnimCmdFields_write :: "ext_lib \<Rightarrow> AnimCmdFields \<Rightarrow> bytes" where
  "AnimCmdFields_write L m =
     BitVector_write (ac_cmd m)
     @ write_u32 (ac_begin m)
     @ write_u32 (ac_end m)
     @ write_u32 (ac_loopEnd m)
     @ write_u32 (ac_loopBegin m)
     @ write_u32 (ac_speed m)
     @ write_u32 (ac_speedChangeRate m)
     @ write_u32 (ac_time m)
     @ Stream_writeSafeString L (ac_animName m) e_StringRAW8
     @ Stream_writeSafeString L (ac_loopName m) e_StringRAW8"

definition AnimCmdFields_wf :: "ext_lib \<Rightarrow> AnimCmdFields \<Rightarrow> bool" where
  "AnimCmdFields_wf L m \<longleftrightarrow> BitVector_wf (ac_cmd m)
     \<and> safe_ok L e_StringRAW8 (ac_animName m)
     \<and> safe_ok L e_StringRAW8 (ac_loopName m)"

interpretation animCmdFields_c: codec "AnimCmdFields_write L" "AnimCmdFields_read L" "AnimCmdFields_wf L" for L
  by unfold_locales (simp add: AnimCmdFields_read_def AnimCmdFields_write_def AnimCmdFields_wf_def rd_simps)

lemma reads_prefix_AnimCmdFields [suffix_intros]: "reads_prefix (AnimCmdFields_read L)"
  unfolding AnimCmdFields_read_def by (intro suffix_intros)

lemmas animCmdFields_c_rd [rd_simps] = animCmdFields_c.dec_enc

record BrainStageFields =
  bs_curStage :: u32
  bs_type :: u32
  bs_exitFlags :: u32
  bs_mode :: byte
  bs_forward :: bool

definition BrainStageFields_read :: "ext_lib \<Rightarrow> BrainStageFields rd" where
  "BrainStageFields_read L =
     rbind (read_u32) (\<lambda>curStage.
     rbind (read_u32) (\<lambda>type.
     rbind (read_u32) (\<lambda>exitFlags.
     rbind (read_u8) (\<lambda>mode.
     rbind (Stream_read_bool) (\<lambda>forward.
     rret \<lparr>bs_curStage = curStage, bs_type = type, bs_exitFlags = exitFlags, bs_mode = mode, bs_forward = forward\<rparr>)))))"

definition BrainStageFields_write :: "ext_lib \<Rightarrow> BrainStageFields \<Rightarrow> bytes" where
  "BrainStageFields_write L m =
     write_u32 (bs_curStage m)
     @ write_u32 (bs_type m)
     @ write_u32 (bs_exitFlags m)
     @ write_u8 (bs_mode m)
     @ Stream_write_bool (bs_forward m)"

definition BrainStageFields_wf :: "ext_lib \<Rightarrow> BrainStageFields \<Rightarrow> bool" where
  "BrainStageFields_wf L m \<longleftrightarrow> True"

interpretation brainStageFields_c: codec "BrainStageFields_write L" "BrainStageFields_read L" "BrainStageFields_wf L" for L
  by unfold_locales (simp add: BrainStageFields_read_def BrainStageFields_write_def BrainStageFields_wf_def rd_simps)

lemma reads_prefix_BrainStageFields [suffix_intros]: "reads_prefix (BrainStageFields_read L)"
  unfolding BrainStageFields_read_def by (intro suffix_intros)

lemmas brainStageFields_c_rd [rd_simps] = brainStageFields_c.dec_enc

record BrainFadeFields =
  bf_fadeIn :: f32
  bf_fadeOut :: f32
  bf_moveMode :: byte
  bf_bodyUsage :: byte
  bf_recipient :: Key

definition BrainFadeFields_read :: "ext_lib \<Rightarrow> BrainFadeFields rd" where
  "BrainFadeFields_read L =
     rbind (read_u32) (\<lambda>fadeIn.
     rbind (read_u32) (\<lambda>fadeOut.
     rbind (read_u8) (\<lambda>moveMode.
     rbind (read_u8) (\<lambda>bodyUsage.
     rbind (Key_read L) (\<lambda>recipient.
     rret \<lparr>bf_fadeIn = fadeIn, bf_fadeOut = fadeOut, bf_moveMode = moveMode, bf_bodyUsage = bodyUsage, bf_recipient = recipient\<rparr>)))))"

definition BrainFadeFields_write :: "ext_lib \<Rightarrow> BrainFadeFields \<Rightarrow> bytes" where
  "BrainFadeFields_write L m =
     write_u32 (bf_fadeIn m)
     @ write_u32 (bf_fadeOut m)
     @ write_u8 (bf_moveMode m)
     @ write_u8 (bf_bodyUsage m)
     @ Key_write L (bf_recipient m)"

definition BrainFadeFields_wf :: "ext_lib \<Rightarrow> BrainFadeFields \<Rightarrow> bool" where
  "BrainFadeFields_wf L m \<longleftrightarrow> Key_wf L (bf_recipient m)"

interpretation brainFadeFields_c: codec "BrainFadeFields_write L" "BrainFadeFields_read L" "BrainFadeFields_wf L" for L
  by unfold_locales (simp add: BrainFadeFields_read_def BrainFadeFields_write_def BrainFadeFields_wf_def rd_simps)

lemma reads_prefix_BrainFadeFields [suffix_intros]: "reads_prefix (BrainFadeFields_read L)"
  unfolding BrainFadeFields_read_def by (intro suffix_intros)

lemmas brainFadeFields_c_rd [rd_simps] = brainFadeFields_c.dec_enc

record BrainCoopFields =
  bc_initiatorId :: u32
  bc_initiatorSerial :: u16
  bc_host :: Key
  bc_guest :: Key
  bc_waitingForClick :: bool
  bc_recipients :: "Key list"

definition BrainCoopFields_read :: "ext_lib \<Rightarrow> BrainCoopFields rd" where
  "BrainCoopFields_read L =
     rbind (read_u32) (\<lambda>initiatorId.
     rbind (read_u16) (\<lambda>initiatorSerial.
     rbind (OptKey_read L) (\<lambda>host.
     rbind (OptKey_read L) (\<lambda>guest.
     rbind (Stream_read_bool) (\<lambda>waitingForClick.
     rbind (read_list 2 (Key_read L)) (\<lambda>recipients.
     rret \<lparr>bc_initiatorId = initiatorId, bc_initiatorSerial = initiatorSerial, bc_host = host, bc_guest = guest, bc_waitingForClick = waitingForClick, bc_recipients = recipients\<rparr>))))))"

definition BrainCoopFields_write :: "ext_lib \<Rightarrow> BrainCoopFields \<Rightarrow> bytes" where
  "BrainCoopFields_write L m =
     write_u32 (bc_initiatorId m)
     @ write_u16 (bc_initiatorSerial m)
     @ OptKey_write L (bc_host m)
     @ OptKey_write L (bc_guest m)
     @ Stream_write_bool (bc_waitingForClick m)
     @ write_list 2 (Key_write L) (bc_recipients m)"

definition BrainCoopFields_wf :: "ext_lib \<Rightarrow> BrainCoopFields \<Rightarrow> bool" where
  "BrainCoopFields_wf L m \<longleftrightarrow> Key_wf L (bc_host m)
     \<and> Key_wf L (bc_guest m)
     \<and> list_wf 2 (Key_wf L) (bc_recipients m)"

interpretation brainCoopFields_c: codec "BrainCoopFields_write L" "BrainCoopFields_read L" "BrainCoopFields_wf L" for L
  by unfold_locales (simp add: BrainCoopFields_read_def BrainCoopFields_write_def BrainCoopFields_wf_def rd_simps)

lemma reads_prefix_BrainCoopFields [suffix_intros]: "reads_prefix (BrainCoopFields_read L)"
  unfolding BrainCoopFields_read_def by (intro suffix_intros)

lemmas brainCoopFields_c_rd [rd_simps] = brainCoopFields_c.dec_enc

text \<open>
  The creatables without nested objects, under the names of \<open>creatable_types.inl\<close>. An \<open>AnimStage\<close>
  is created with its auxiliary members zero; only \<open>AvBrainGeneric\<close> reads and writes them.
\<close>

datatype plain =
    C_InputEventMsg InputEventMsg
  | C_ControlEventMsg ControlEventMsg
  | C_NetMsgPagingRoom NetMsgPagingRoom
  | C_EnableMsg EnableMsg
  | C_WarpMsg WarpMsg
  | C_NetMsgGroupOwner NetMsgGroupOwner
  | C_NetMsgGameStateRequest NetMsgRoomsList
  | C_ServerReplyMsg ServerReplyMsg
  | C_NetMsgVoice NetMsgVoice
  | C_NetMsgTestAndSet NetMsgSharedState
  | C_NetMsgMembersListReq NetMessage
  | C_NetMsgMembersList NetMsgMembersList
  | C_NetMsgMemberUpdate NetMsgMemberUpdate
  | C_NetMsgInitialAgeStateSent NetMsgInitialAgeStateSent
  | C_AvTaskSeekDoneMsg AvTaskSeekDoneMsg
  | C_AgeLinkStruct AgeLinkStruct
  | C_NetMsgSDLState NetMsgSDLState
  | C_LinkToAgeMsg LinkToAgeMsg
  | C_NotifyMsg NotifyMsg
  | C_LinkEffectsTriggerMsg LinkEffectsTriggerMsg
  | C_NetMsgSDLStateBCast NetMsgSDLState
  | C_ParticleTransferMsg ParticleTransferMsg
  | C_ParticleKillMsg ParticleKillMsg
  | C_AvatarInputStateMsg AvatarInputStateMsg
  | C_AgeInfoStruct AgeInfoStruct
  | C_ClothingMsg ClothingMsg
  | C_AvBrainHuman bool
  | C_AvBrainCritter
  | C_AvBrainDrive
  | C_InputIfaceMgrMsg InputIfaceMgrMsg
  | C_KIMessage KIMessage
  | C_AvAnimTask AvAnimTask
  | C_AvSeekTask
  | C_AvOneShotTask
  | C_AnimStage AnimStage
  | C_GenericValue GenericValue
  | C_AvBrainGenericMsg AvBrainGenericMsg
  | C_AvTaskSeek
  | C_MultistageModMsg MultistageModMsg
  | C_BulletMsg BulletMsg
  | C_NetMsgRelevanceRegions NetMsgRelevanceRegions
  | C_NetMsgPlayerPage NetMsgPlayerPage
  | C_SubWorldMsg SubWorldMsg
  | C_AvBrainSwim
  | C_ClimbMsg ClimbMsg
  | C_AvBrainClimb
  | C_SetNetGroupIdMsg SetNetGroupIdMsg
  | C_BackdoorMsg BackdoorMsg
  | C_AvOneShotLinkTask AvOneShotLinkTask
  | C_PseudoLinkEffectMsg PseudoLinkEffectMsg
  | C_AvBrainRideAnimatedPhysical

fun plain_type :: "plain \<Rightarrow> u16" where
  "plain_type (C_InputEventMsg _) = 0x020B"
| "plain_type (C_ControlEventMsg _) = 0x0210"
| "plain_type (C_NetMsgPagingRoom _) = 0x0218"
| "plain_type (C_EnableMsg _) = 0x0254"
| "plain_type (C_WarpMsg _) = 0x0255"
| "plain_type (C_NetMsgGroupOwner _) = 0x0264"
| "plain_type (C_NetMsgGameStateRequest _) = 0x0265"
| "plain_type (C_ServerReplyMsg _) = 0x026F"
| "plain_type (C_NetMsgVoice _) = 0x0279"
| "plain_type (C_NetMsgTestAndSet _) = 0x027D"
| "plain_type (C_NetMsgMembersListReq _) = 0x02AD"
| "plain_type (C_NetMsgMembersList _) = 0x02AE"
| "plain_type (C_NetMsgMemberUpdate _) = 0x02B1"
| "plain_type (C_NetMsgInitialAgeStateSent _) = 0x02B8"
| "plain_type (C_AvTaskSeekDoneMsg _) = 0x02C0"
| "plain_type (C_AgeLinkStruct _) = 0x02C4"
| "plain_type (C_NetMsgSDLState _) = 0x02CD"
| "plain_type (C_LinkToAgeMsg _) = 0x02E6"
| "plain_type (C_NotifyMsg _) = 0x02ED"
| "plain_type (C_LinkEffectsTriggerMsg _) = 0x0300"
| "plain_type (C_NetMsgSDLStateBCast _) = 0x0329"
| "plain_type (C_ParticleTransferMsg _) = 0x0333"
| "plain_type (C_ParticleKillMsg _) = 0x0334"
| "plain_type (C_AvatarInputStateMsg _) = 0x0347"
| "plain_type (C_AgeInfoStruct _) = 0x0348"
| "plain_type (C_ClothingMsg _) = 0x0357"
| "plain_type (C_AvBrainHuman _) = 0x035C"
| "plain_type C_AvBrainCritter = 0x035D"
| "plain_type C_AvBrainDrive = 0x035E"
| "plain_type (C_InputIfaceMgrMsg _) = 0x0363"
| "plain_type (C_KIMessage _) = 0x0364"
| "plain_type (C_AvAnimTask _) = 0x036B"
| "plain_type C_AvSeekTask = 0x036C"
| "plain_type C_AvOneShotTask = 0x036E"
| "plain_type (C_AnimStage _) = 0x0371"
| "plain_type (C_GenericValue _) = 0x038C"
| "plain_type (C_AvBrainGenericMsg _) = 0x038F"
| "plain_type C_AvTaskSeek = 0x0390"
| "plain_type (C_MultistageModMsg _) = 0x03A3"
| "plain_type (C_BulletMsg _) = 0x03A6"
| "plain_type (C_NetMsgRelevanceRegions _) = 0x03AC"
| "plain_type (C_NetMsgPlayerPage _) = 0x03B4"
| "plain_type (C_SubWorldMsg _) = 0x03BF"
| "plain_type C_AvBrainSwim = 0x042D"
| "plain_type (C_ClimbMsg _) = 0x0451"
| "plain_type C_AvBrainClimb = 0x0453"
| "plain_type (C_SetNetGroupIdMsg _) = 0x0464"
| "plain_type (C_BackdoorMsg _) = 0x0465"
| "plain_type (C_AvOneShotLinkTask _) = 0x0488"
| "plain_type (C_PseudoLinkEffectMsg _) = 0x0494"
| "plain_type C_AvBrainRideAnimatedPhysical = 0x049E"

fun plain_write :: "ext_lib \<Rightarrow> plain \<Rightarrow> wres" where
  "plain_write L (C_InputEventMsg x) = Inr (InputEventMsg_write L x)"
| "plain_write L (C_ControlEventMsg x) = Inr (ControlEventMsg_write L x)"
| "plain_write L (C_NetMsgPagingRoom x) = Inr (NetMsgPagingRoom_write L x)"
| "plain_write L (C_EnableMsg x) = Inr (EnableMsg_write L x)"
| "plain_write L (C_WarpMsg x) = Inr (WarpMsg_write L x)"
| "plain_write L (C_NetMsgGroupOwner x) = Inr (NetMsgGroupOwner_write L x)"
| "plain_write L (C_NetMsgGameStateRequest x) = Inr (NetMsgRoomsList_write L x)"
| "plain_write L (C_ServerReplyMsg x) = Inr (ServerReplyMsg_write L x)"
| "plain_write L (C_NetMsgVoice x) = Inr (NetMsgVoice_write L x)"
| "plain_write L (C_NetMsgTestAndSet x) = NetMsgSharedState_write L x"
| "plain_write L (C_NetMsgMembersListReq x) = Inr (NetMessage_write x)"
| "plain_write L (C_NetMsgMembersList x) = Inr (NetMsgMembersList_write L x)"
| "plain_write L (C_NetMsgMemberUpdate x) = Inr (NetMsgMemberUpdate_write L x)"
| "plain_write L (C_NetMsgInitialAgeStateSent x) = Inr (NetMsgInitialAgeStateSent_write L x)"
| "plain_write L (C_AvTaskSeekDoneMsg x) = Inr (AvTaskSeekDoneMsg_write L x)"
| "plain_write L (C_AgeLinkStruct x) = AgeLinkStruct_write L x"
| "plain_write L (C_NetMsgSDLState x) = NetMsgSDLState_write L x"
| "plain_write L (C_LinkToAgeMsg x) = LinkToAgeMsg_write L x"
| "plain_write L (C_NotifyMsg x) = Inr (NotifyMsg_write L x)"
| "plain_write L (C_LinkEffectsTriggerMsg x) = Inr (LinkEffectsTriggerMsg_write L x)"
| "plain_write L (C_NetMsgSDLStateBCast x) = NetMsgSDLState_write L x"
| "plain_write L (C_ParticleTransferMsg x) = Inr (ParticleTransferMsg_write L x)"
| "plain_write L (C_ParticleKillMsg x) = Inr (ParticleKillMsg_write L x)"
| "plain_write L (C_AvatarInputStateMsg x) = Inr (AvatarInputStateMsg_write L x)"
| "plain_write L (C_AgeInfoStruct x) = Inr (AgeInfoStruct_write L x)"
| "plain_write L (C_ClothingMsg x) = Inr (ClothingMsg_write L x)"
| "plain_write L (C_AvBrainHuman x) = Inr (AvBrainHuman_write x)"
| "plain_write L C_AvBrainCritter = Inr ArmatureBrain_write"
| "plain_write L C_AvBrainDrive = Inr ArmatureBrain_write"
| "plain_write L (C_InputIfaceMgrMsg x) = Inr (InputIfaceMgrMsg_write L x)"
| "plain_write L (C_KIMessage x) = Inr (KIMessage_write L x)"
| "plain_write L (C_AvAnimTask x) = Inr (AvAnimTask_write L x)"
| "plain_write L C_AvSeekTask = Inr []"
| "plain_write L C_AvOneShotTask = Inr []"
| "plain_write L (C_AnimStage x) = Inr (AnimStage_write L x)"
| "plain_write L (C_GenericValue x) = Inr (GenericValue_write L x)"
| "plain_write L (C_AvBrainGenericMsg x) = Inr (AvBrainGenericMsg_write L x)"
| "plain_write L C_AvTaskSeek = Inr []"
| "plain_write L (C_MultistageModMsg x) = Inr (MultistageModMsg_write L x)"
| "plain_write L (C_BulletMsg x) = Inr (BulletMsg_write L x)"
| "plain_write L (C_NetMsgRelevanceRegions x) = Inr (NetMsgRelevanceRegions_write L x)"
| "plain_write L (C_NetMsgPlayerPage x) = Inr (NetMsgPlayerPage_write L x)"
| "plain_write L (C_SubWorldMsg x) = Inr (SubWorldMsg_write L x)"
| "plain_write L C_AvBrainSwim = Inr ArmatureBrain_write"
| "plain_write L (C_ClimbMsg x) = Inr (ClimbMsg_write L x)"
| "plain_write L C_AvBrainClimb = Inr ArmatureBrain_write"
| "plain_write L (C_SetNetGroupIdMsg x) = Inr (SetNetGroupIdMsg_write L x)"
| "plain_write L (C_BackdoorMsg x) = Inr (BackdoorMsg_write L x)"
| "plain_write L (C_AvOneShotLinkTask x) = Inr (AvOneShotLinkTask_write L x)"
| "plain_write L (C_PseudoLinkEffectMsg x) = Inr (PseudoLinkEffectMsg_write L x)"
| "plain_write L C_AvBrainRideAnimatedPhysical = Inr ArmatureBrain_write"

fun plain_wf :: "ext_lib \<Rightarrow> plain \<Rightarrow> bool" where
  "plain_wf L (C_InputEventMsg x) = (InputEventMsg_wf L x)"
| "plain_wf L (C_ControlEventMsg x) = (ControlEventMsg_wf L x)"
| "plain_wf L (C_NetMsgPagingRoom x) = (NetMsgPagingRoom_wf L x)"
| "plain_wf L (C_EnableMsg x) = (EnableMsg_wf L x)"
| "plain_wf L (C_WarpMsg x) = (WarpMsg_wf L x)"
| "plain_wf L (C_NetMsgGroupOwner x) = (NetMsgGroupOwner_wf L x)"
| "plain_wf L (C_NetMsgGameStateRequest x) = (NetMsgRoomsList_wf L x)"
| "plain_wf L (C_ServerReplyMsg x) = (ServerReplyMsg_wf L x)"
| "plain_wf L (C_NetMsgVoice x) = (NetMsgVoice_wf L x)"
| "plain_wf L (C_NetMsgTestAndSet x) = (NetMsgSharedState_wf L x)"
| "plain_wf L (C_NetMsgMembersListReq x) = (NetMessage_wf x)"
| "plain_wf L (C_NetMsgMembersList x) = (NetMsgMembersList_wf L x)"
| "plain_wf L (C_NetMsgMemberUpdate x) = (NetMsgMemberUpdate_wf L x)"
| "plain_wf L (C_NetMsgInitialAgeStateSent x) = (NetMsgInitialAgeStateSent_wf L x)"
| "plain_wf L (C_AvTaskSeekDoneMsg x) = (AvTaskSeekDoneMsg_wf L x)"
| "plain_wf L (C_AgeLinkStruct x) = (AgeLinkStruct_wf L x)"
| "plain_wf L (C_NetMsgSDLState x) = (NetMsgSDLState_wf L x)"
| "plain_wf L (C_LinkToAgeMsg x) = (LinkToAgeMsg_wf L x)"
| "plain_wf L (C_NotifyMsg x) = (NotifyMsg_wf L x)"
| "plain_wf L (C_LinkEffectsTriggerMsg x) = (LinkEffectsTriggerMsg_wf L x)"
| "plain_wf L (C_NetMsgSDLStateBCast x) = (NetMsgSDLState_wf L x)"
| "plain_wf L (C_ParticleTransferMsg x) = (ParticleTransferMsg_wf L x)"
| "plain_wf L (C_ParticleKillMsg x) = (ParticleKillMsg_wf L x)"
| "plain_wf L (C_AvatarInputStateMsg x) = (AvatarInputStateMsg_wf L x)"
| "plain_wf L (C_AgeInfoStruct x) = (AgeInfoStruct_wf L x)"
| "plain_wf L (C_ClothingMsg x) = (ClothingMsg_wf L x)"
| "plain_wf L (C_AvBrainHuman x) = True"
| "plain_wf L C_AvBrainCritter = True"
| "plain_wf L C_AvBrainDrive = True"
| "plain_wf L (C_InputIfaceMgrMsg x) = (InputIfaceMgrMsg_wf L x)"
| "plain_wf L (C_KIMessage x) = (KIMessage_wf L x)"
| "plain_wf L (C_AvAnimTask x) = (AvAnimTask_wf L x)"
| "plain_wf L C_AvSeekTask = True"
| "plain_wf L C_AvOneShotTask = True"
| "plain_wf L (C_AnimStage x) = (AnimStage_wf L x)"
| "plain_wf L (C_GenericValue x) = (GenericValue_wf L x)"
| "plain_wf L (C_AvBrainGenericMsg x) = (AvBrainGenericMsg_wf L x)"
| "plain_wf L C_AvTaskSeek = True"
| "plain_wf L (C_MultistageModMsg x) = (MultistageModMsg_wf L x)"
| "plain_wf L (C_BulletMsg x) = (BulletMsg_wf L x)"
| "plain_wf L (C_NetMsgRelevanceRegions x) = (NetMsgRelevanceRegions_wf L x)"
| "plain_wf L (C_NetMsgPlayerPage x) = (NetMsgPlayerPage_wf L x)"
| "plain_wf L (C_SubWorldMsg x) = (SubWorldMsg_wf L x)"
| "plain_wf L C_AvBrainSwim = True"
| "plain_wf L (C_ClimbMsg x) = (ClimbMsg_wf L x)"
| "plain_wf L C_AvBrainClimb = True"
| "plain_wf L (C_SetNetGroupIdMsg x) = (SetNetGroupIdMsg_wf L x)"
| "plain_wf L (C_BackdoorMsg x) = (BackdoorMsg_wf L x)"
| "plain_wf L (C_AvOneShotLinkTask x) = (AvOneShotLinkTask_wf L x)"
| "plain_wf L (C_PseudoLinkEffectMsg x) = (PseudoLinkEffectMsg_wf L x)"
| "plain_wf L C_AvBrainRideAnimatedPhysical = True"

definition rmap :: "('a \<Rightarrow> 'b) \<Rightarrow> 'a rd \<Rightarrow> 'b rd" where
  "rmap f p = rbind p (\<lambda>x. rret (f x))"

definition plain_types :: "ext_lib \<Rightarrow> (u16 \<times> plain rd) list" where
  "plain_types L =
     [(0x020B, rmap C_InputEventMsg (InputEventMsg_read L)),
      (0x0210, rmap C_ControlEventMsg (ControlEventMsg_read L)),
      (0x0218, rmap C_NetMsgPagingRoom (NetMsgPagingRoom_read L)),
      (0x0254, rmap C_EnableMsg (EnableMsg_read L)),
      (0x0255, rmap C_WarpMsg (WarpMsg_read L)),
      (0x0264, rmap C_NetMsgGroupOwner (NetMsgGroupOwner_read L)),
      (0x0265, rmap C_NetMsgGameStateRequest (NetMsgRoomsList_read L)),
      (0x026F, rmap C_ServerReplyMsg (ServerReplyMsg_read L)),
      (0x0279, rmap C_NetMsgVoice (NetMsgVoice_read L)),
      (0x027D, rmap C_NetMsgTestAndSet (NetMsgSharedState_read L)),
      (0x02AD, rmap C_NetMsgMembersListReq (NetMessage_read)),
      (0x02AE, rmap C_NetMsgMembersList (NetMsgMembersList_read L)),
      (0x02B1, rmap C_NetMsgMemberUpdate (NetMsgMemberUpdate_read L)),
      (0x02B8, rmap C_NetMsgInitialAgeStateSent (NetMsgInitialAgeStateSent_read L)),
      (0x02C0, rmap C_AvTaskSeekDoneMsg (AvTaskSeekDoneMsg_read L)),
      (0x02C4, rmap C_AgeLinkStruct (AgeLinkStruct_read L)),
      (0x02CD, rmap C_NetMsgSDLState (NetMsgSDLState_read L)),
      (0x02E6, rmap C_LinkToAgeMsg (LinkToAgeMsg_read L)),
      (0x02ED, rmap C_NotifyMsg (NotifyMsg_read L)),
      (0x0300, rmap C_LinkEffectsTriggerMsg (LinkEffectsTriggerMsg_read L)),
      (0x0329, rmap C_NetMsgSDLStateBCast (NetMsgSDLState_read L)),
      (0x0333, rmap C_ParticleTransferMsg (ParticleTransferMsg_read L)),
      (0x0334, rmap C_ParticleKillMsg (ParticleKillMsg_read L)),
      (0x0347, rmap C_AvatarInputStateMsg (AvatarInputStateMsg_read L)),
      (0x0348, rmap C_AgeInfoStruct (AgeInfoStruct_read L)),
      (0x0357, rmap C_ClothingMsg (ClothingMsg_read L)),
      (0x035C, rmap C_AvBrainHuman (AvBrainHuman_read L)),
      (0x035D, rmap (\<lambda>_. C_AvBrainCritter) (ArmatureBrain_read L)),
      (0x035E, rmap (\<lambda>_. C_AvBrainDrive) (ArmatureBrain_read L)),
      (0x0363, rmap C_InputIfaceMgrMsg (InputIfaceMgrMsg_read L)),
      (0x0364, rmap C_KIMessage (KIMessage_read L)),
      (0x036B, rmap C_AvAnimTask (AvAnimTask_read L)),
      (0x036C, rmap (\<lambda>_. C_AvSeekTask) (rret ())),
      (0x036E, rmap (\<lambda>_. C_AvOneShotTask) (rret ())),
      (0x0371, rmap C_AnimStage (AnimStage_read L)),
      (0x038C, rmap C_GenericValue (GenericValue_read L)),
      (0x038F, rmap C_AvBrainGenericMsg (AvBrainGenericMsg_read L)),
      (0x0390, rmap (\<lambda>_. C_AvTaskSeek) (rret ())),
      (0x03A3, rmap C_MultistageModMsg (MultistageModMsg_read L)),
      (0x03A6, rmap C_BulletMsg (BulletMsg_read L)),
      (0x03AC, rmap C_NetMsgRelevanceRegions (NetMsgRelevanceRegions_read L)),
      (0x03B4, rmap C_NetMsgPlayerPage (NetMsgPlayerPage_read L)),
      (0x03BF, rmap C_SubWorldMsg (SubWorldMsg_read L)),
      (0x042D, rmap (\<lambda>_. C_AvBrainSwim) (ArmatureBrain_read L)),
      (0x0451, rmap C_ClimbMsg (ClimbMsg_read L)),
      (0x0453, rmap (\<lambda>_. C_AvBrainClimb) (ArmatureBrain_read L)),
      (0x0464, rmap C_SetNetGroupIdMsg (SetNetGroupIdMsg_read L)),
      (0x0465, rmap C_BackdoorMsg (BackdoorMsg_read L)),
      (0x0488, rmap C_AvOneShotLinkTask (AvOneShotLinkTask_read L)),
      (0x0494, rmap C_PseudoLinkEffectMsg (PseudoLinkEffectMsg_read L)),
      (0x049E, rmap (\<lambda>_. C_AvBrainRideAnimatedPhysical) (ArmatureBrain_read L))]"

lemma reads_back_rmap: "reads_back w p x \<Longrightarrow> f x = y \<Longrightarrow> reads_back w (rmap f p) y"
  unfolding rmap_def reads_back_def by auto

lemma rmap_rret: "rmap f (rret x) = rret (f x)"
  by (rule ext) (simp add: rmap_def)

lemma ArmatureBrain_reads_back: "reads_back (Inr ArmatureBrain_write) (ArmatureBrain_read L) ()"
  by (rule armatureBrain.reads_back_enc) simp

lemmas plain_enc =
  inputEventMsg_c.reads_back_enc
  controlEventMsg_c.reads_back_enc
  netMsgPagingRoom_c.reads_back_enc
  enableMsg_c.reads_back_enc
  warpMsg_c.reads_back_enc
  netMsgGroupOwner_c.reads_back_enc
  netMsgRoomsList_c.reads_back_enc
  serverReplyMsg_c.reads_back_enc
  netMsgVoice_c.reads_back_enc
  NetMsgSharedState_reads_back
  netMessage.reads_back_enc
  netMsgMembersList_c.reads_back_enc
  netMsgMemberUpdate_c.reads_back_enc
  netMsgInitialAgeStateSent_c.reads_back_enc
  avTaskSeekDoneMsg_c.reads_back_enc
  AgeLinkStruct_reads_back
  NetMsgSDLState_reads_back
  LinkToAgeMsg_reads_back
  notifyMsg_c.reads_back_enc
  linkEffectsTriggerMsg_c.reads_back_enc
  particleTransferMsg_c.reads_back_enc
  particleKillMsg_c.reads_back_enc
  avatarInputStateMsg_c.reads_back_enc
  ageInfoStruct_c.reads_back_enc
  clothingMsg_c.reads_back_enc
  avBrainHuman.reads_back_enc
  inputIfaceMgrMsg_c.reads_back_enc
  kIMessage_c.reads_back_enc
  avAnimTask_c.reads_back_enc
  animStage_c.reads_back_enc
  genericValue_c.reads_back_enc
  avBrainGenericMsg_c.reads_back_enc
  multistageModMsg_c.reads_back_enc
  bulletMsg_c.reads_back_enc
  netMsgRelevanceRegions_c.reads_back_enc
  netMsgPlayerPage_c.reads_back_enc
  subWorldMsg_c.reads_back_enc
  climbMsg_c.reads_back_enc
  setNetGroupIdMsg_c.reads_back_enc
  backdoorMsg_c.reads_back_enc
  avOneShotLinkTask_c.reads_back_enc
  pseudoLinkEffectMsg_c.reads_back_enc
  ArmatureBrain_reads_back

text \<open>Every plain object is in the table under its type, with a reader for what it writes.\<close>

lemma plain_reads_back:
  assumes "plain_wf L x"
  shows "\<exists>p. map_of (plain_types L) (plain_type x) = Some p \<and> reads_back (plain_write L x) p x"
  using assms
  by (cases x) (auto simp: plain_types_def plain_enc rmap_rret intro!: reads_back_rmap)

end
