(* ===== verification/Objects.thy ===== *)
theory Objects
  imports Creatables
begin

unbundle bit_operations_syntax

text \<open>
  The classes that hold other objects (\<open>src/PlasMOUL/Avatar\<close>, \<open>Messages\<close>, \<open>NetMessages\<close>) and how they
  are written: every class is a datatype over the type \<open>'c\<close> of the objects it holds (a null pointer
  is \<open>None\<close>), \<open>node\<close> is the union of all classes and a \<open>creatable\<close> is a node over creatables. A
  writer works on the class with its nested objects replaced by their images.
\<close>

section \<open>Classes with nested objects\<close>

datatype 'c AvTaskMsg = AvTaskMsg (atm_base: Message) (atm_task: "'c option")

datatype 'c AvPushBrainMsg = AvPushBrainMsg (apb_base: "'c AvTaskMsg") (apb_brain: "'c option")

datatype 'c AvSeekMsg = AvSeekMsg (as_base: "'c AvTaskMsg") (as_fields: AvSeekFields)

datatype 'c AvOneShotMsg = AvOneShotMsg (aos_base: "'c AvSeekMsg") (aos_fields: AvOneShotFields)

datatype 'c AvTaskBrain = AvTaskBrain (atb_brain: "'c option")

datatype 'c AvCoopMsg =
  AvCoopMsg (acm_base: Message) (acm_coordinator: "'c option") (acm_fields: AvCoopFields)

datatype 'c LoadCloneMsg =
  LoadCloneMsg (lcm_base: Message) (lcm_fields: LoadCloneFields) (lcm_triggerMsg: "'c option")

datatype 'c LoadAvatarMsg =
  LoadAvatarMsg (lam_base: "'c LoadCloneMsg") (lam_isPlayer: bool) (lam_spawnPoint: Key)
    (lam_initTask: "'c option") (lam_userString: st_string)

datatype 'c MessageWithCallbacks =
  MessageWithCallbacks (mwc_base: Message) (mwc_callbacks: "'c option list")

datatype 'c AnimCmdMsg =
  AnimCmdMsg (acmd_base: "'c MessageWithCallbacks") (acmd_fields: AnimCmdFields)

datatype 'c AvBrainGeneric =
  AvBrainGeneric (abg_stages: "(AnimStage \<times> AnimStageAux) list") (abg_stageFields: BrainStageFields)
    (abg_startMessage: "'c option") (abg_endMessage: "'c option") (abg_fadeFields: BrainFadeFields)

datatype 'c AvBrainCoop = AvBrainCoop (abc_base: "'c AvBrainGeneric") (abc_fields: BrainCoopFields)

datatype 'c CoopCoordinator =
  CoopCoordinator (cc_hostKey: Key) (cc_guestKey: Key) (cc_hostBrain: "'c option")
    (cc_guestBrain: "'c option") (cc_hostOfferStage: byte) (cc_guestAcceptStage: bool)
    (cc_acceptMsg: "'c option") (cc_synchBone: st_string) (cc_autoStartGuest: bool)

datatype 'c NetMsgGameMessage =
  NetMsgGameMessage (ngm_base: NetMessage) (ngm_compression: byte) (ngm_message: "'c option")
    (ngm_deliveryTime: UnifiedTime)

datatype 'c NetMsgGameMessageDirected =
  NetMsgGameMessageDirected (ngd_base: "'c NetMsgGameMessage") (ngd_receivers: "u32 list")

datatype 'c NetMsgLoadClone =
  NetMsgLoadClone (nlc_base: "'c NetMsgGameMessage") (nlc_object: Uoid) (nlc_isPlayer: bool)
    (nlc_isLoading: bool) (nlc_isInitialState: bool)

text \<open>\<open>CreatableList\<close>: the ordered map \<open>m_items\<close> is its list of entries in key order.\<close>

datatype 'c CreatableList = CreatableList (cl_flags: byte) (cl_items: "(u16 \<times> 'c) list")

datatype 'c LinkingMgrMsg =
  LinkingMgrMsg (lmm_base: Message) (lmm_contentFlags: BitVector) (lmm_cmd: byte)
    (lmm_args: "'c CreatableList")

datatype 'c node =
    N_plain plain
  | N_CoopCoordinator "'c CoopCoordinator"
  | N_AnimCmdMsg "'c AnimCmdMsg"
  | N_LoadCloneMsg "'c LoadCloneMsg"
  | N_NetMsgGameMessage "'c NetMsgGameMessage"
  | N_MessageWithCallbacks "'c MessageWithCallbacks"
  | N_AvTaskMsg "'c AvTaskMsg"
  | N_AvSeekMsg "'c AvSeekMsg"
  | N_AvOneShotMsg "'c AvOneShotMsg"
  | N_NetMsgGameMessageDirected "'c NetMsgGameMessageDirected"
  | N_LinkingMgrMsg "'c LinkingMgrMsg"
  | N_AvBrainGeneric "'c AvBrainGeneric"
  | N_AvPushBrainMsg "'c AvPushBrainMsg"
  | N_AvPopBrainMsg "'c AvTaskMsg"
  | N_AvTaskBrain "'c AvTaskBrain"
  | N_LoadAvatarMsg "'c LoadAvatarMsg"
  | N_NetMsgLoadClone "'c NetMsgLoadClone"
  | N_AvCoopMsg "'c AvCoopMsg"
  | N_AvBrainCoop "'c AvBrainCoop"

datatype creatable = Creatable (node_of: "creatable node")

fun node_type :: "'c node \<Rightarrow> u16" where
  "node_type (N_plain x) = plain_type x"
| "node_type (N_CoopCoordinator _) = 0x011B"
| "node_type (N_AnimCmdMsg _) = 0x0206"
| "node_type (N_LoadCloneMsg _) = 0x0253"
| "node_type (N_NetMsgGameMessage _) = 0x026B"
| "node_type (N_MessageWithCallbacks _) = 0x0283"
| "node_type (N_AvTaskMsg _) = 0x0298"
| "node_type (N_AvSeekMsg _) = 0x0299"
| "node_type (N_AvOneShotMsg _) = 0x029A"
| "node_type (N_NetMsgGameMessageDirected _) = 0x032E"
| "node_type (N_LinkingMgrMsg _) = 0x034B"
| "node_type (N_AvBrainGeneric _) = 0x0360"
| "node_type (N_AvPushBrainMsg _) = 0x0367"
| "node_type (N_AvPopBrainMsg _) = 0x0368"
| "node_type (N_AvTaskBrain _) = 0x0370"
| "node_type (N_LoadAvatarMsg _) = 0x03B1"
| "node_type (N_NetMsgLoadClone _) = 0x03B3"
| "node_type (N_AvCoopMsg _) = 0x045E"
| "node_type (N_AvBrainCoop _) = 0x045F"

section \<open>Writing\<close>

text \<open>\<open>Factory::WriteCreatable\<close> of a pointer whose object has the given image.\<close>

definition WriteCreatable :: "wres option \<Rightarrow> wres" where
  "WriteCreatable obj = (case obj of Some img \<Rightarrow> img | None \<Rightarrow> Inr (write_u16 0x8000))"

text \<open>A pointer that is sent behind a flag, and only when it is not null.\<close>

definition write_flagged :: "wres option \<Rightarrow> wres" where
  "write_flagged obj =
     (case obj of Some img \<Rightarrow> wconcat [Inr (Stream_write_bool True), img]
      | None \<Rightarrow> Inr (Stream_write_bool False))"

fun AvTaskMsg_write :: "ext_lib \<Rightarrow> wres AvTaskMsg \<Rightarrow> wres" where
  "AvTaskMsg_write L (AvTaskMsg base task) = wconcat [Inr (Message_write L base), write_flagged task]"

fun AvPushBrainMsg_write :: "ext_lib \<Rightarrow> wres AvPushBrainMsg \<Rightarrow> wres" where
  "AvPushBrainMsg_write L (AvPushBrainMsg base brain) =
     wconcat [AvTaskMsg_write L base, WriteCreatable brain]"

fun AvSeekMsg_write :: "ext_lib \<Rightarrow> wres AvSeekMsg \<Rightarrow> wres" where
  "AvSeekMsg_write L (AvSeekMsg base members) =
     wconcat [AvTaskMsg_write L base, Inr (AvSeekFields_write L members)]"

fun AvOneShotMsg_write :: "ext_lib \<Rightarrow> wres AvOneShotMsg \<Rightarrow> wres" where
  "AvOneShotMsg_write L (AvOneShotMsg base members) =
     wconcat [AvSeekMsg_write L base, Inr (AvOneShotFields_write L members)]"

fun AvTaskBrain_write :: "wres AvTaskBrain \<Rightarrow> wres" where
  "AvTaskBrain_write (AvTaskBrain brain) = wconcat [WriteCreatable brain]"

fun AvCoopMsg_write :: "ext_lib \<Rightarrow> wres AvCoopMsg \<Rightarrow> wres" where
  "AvCoopMsg_write L (AvCoopMsg base coordinator members) =
     wconcat [Inr (Message_write L base), write_flagged coordinator, Inr (AvCoopFields_write L members)]"

fun LoadCloneMsg_write :: "ext_lib \<Rightarrow> wres LoadCloneMsg \<Rightarrow> wres" where
  "LoadCloneMsg_write L (LoadCloneMsg base members trigger) =
     wconcat [Inr (Message_write L base), Inr (LoadCloneFields_write L members), WriteCreatable trigger]"

fun LoadAvatarMsg_write :: "ext_lib \<Rightarrow> wres LoadAvatarMsg \<Rightarrow> wres" where
  "LoadAvatarMsg_write L (LoadAvatarMsg base isPlayer spawnPoint initTask userString) =
     wconcat [LoadCloneMsg_write L base, Inr (Stream_write_bool isPlayer), Inr (Key_write L spawnPoint),
              write_flagged initTask, Inr (Stream_writeSafeString L userString e_StringRAW8)]"

fun MessageWithCallbacks_write :: "ext_lib \<Rightarrow> wres MessageWithCallbacks \<Rightarrow> wres" where
  "MessageWithCallbacks_write L (MessageWithCallbacks base callbacks) =
     wconcat [Inr (Message_write L base), Inr (write_u32 (of_nat (length callbacks))),
              wconcat (map WriteCreatable callbacks)]"

fun AnimCmdMsg_write :: "ext_lib \<Rightarrow> wres AnimCmdMsg \<Rightarrow> wres" where
  "AnimCmdMsg_write L (AnimCmdMsg base members) =
     wconcat [MessageWithCallbacks_write L base, Inr (AnimCmdFields_write L members)]"

text \<open>
  \<open>AvBrainGeneric::write\<close> puts no flag in front of its two messages, unlike \<open>read\<close>, which expects
  one.
\<close>

definition AnimStage_writeBoth :: "ext_lib \<Rightarrow> AnimStage \<times> AnimStageAux \<Rightarrow> bytes" where
  "AnimStage_writeBoth L = (\<lambda>(stage, aux).
     write_u16 0x0371 @ AnimStage_write L stage @ AnimStageAux_write L aux)"

fun AvBrainGeneric_write :: "ext_lib \<Rightarrow> wres AvBrainGeneric \<Rightarrow> wres" where
  "AvBrainGeneric_write L (AvBrainGeneric stages stageFields startMessage endMessage fadeFields) =
     wconcat [Inr ArmatureBrain_write, Inr (write_list 4 (AnimStage_writeBoth L) stages),
              Inr (BrainStageFields_write L stageFields), WriteCreatable startMessage,
              WriteCreatable endMessage, Inr (BrainFadeFields_write L fadeFields)]"

fun AvBrainCoop_write :: "ext_lib \<Rightarrow> wres AvBrainCoop \<Rightarrow> wres" where
  "AvBrainCoop_write L (AvBrainCoop base members) =
     wconcat [AvBrainGeneric_write L base, Inr (BrainCoopFields_write L members)]"

fun CoopCoordinator_write :: "ext_lib \<Rightarrow> wres CoopCoordinator \<Rightarrow> wres" where
  "CoopCoordinator_write L
     (CoopCoordinator hostKey guestKey hostBrain guestBrain offerStage acceptStage acceptMsg synchBone autoStart) =
     wconcat [Inr (Key_write L hostKey), Inr (Key_write L guestKey), WriteCreatable hostBrain,
              WriteCreatable guestBrain, Inr (write_u8 offerStage), Inr (Stream_write_bool acceptStage),
              write_flagged acceptMsg, Inr (Stream_writeSafeString L synchBone e_StringRAW8),
              Inr (Stream_write_bool autoStart)]"

definition deliveryTime_write :: "UnifiedTime \<Rightarrow> bytes" where
  "deliveryTime_write t =
     (if \<not> UnifiedTime_isNull t then Stream_write_bool True @ UnifiedTime_write t
      else Stream_write_bool False)"

text \<open>The stream inside a game message holds the image of its message.\<close>

fun NetMsgGameMessage_write :: "ext_lib \<Rightarrow> wres NetMsgGameMessage \<Rightarrow> wres" where
  "NetMsgGameMessage_write L (NetMsgGameMessage base compression message deliveryTime) =
     wconcat [Inr (NetMessage_write base),
              case WriteCreatable message of Inl e \<Rightarrow> Inl e
                | Inr stream \<Rightarrow> NetMsgStream_write L compression stream,
              Inr (deliveryTime_write deliveryTime)]"

fun NetMsgGameMessageDirected_write :: "ext_lib \<Rightarrow> wres NetMsgGameMessageDirected \<Rightarrow> wres" where
  "NetMsgGameMessageDirected_write L (NetMsgGameMessageDirected base receivers) =
     wconcat [NetMsgGameMessage_write L base, Inr (write_list 1 write_u32 receivers)]"

fun NetMsgLoadClone_write :: "ext_lib \<Rightarrow> wres NetMsgLoadClone \<Rightarrow> wres" where
  "NetMsgLoadClone_write L (NetMsgLoadClone base object isPlayer isLoading isInitialState) =
     wconcat [NetMsgGameMessage_write L base, Inr (Uoid_write L object), Inr (Stream_write_bool isPlayer),
              Inr (Stream_write_bool isLoading), Inr (Stream_write_bool isInitialState)]"

text \<open>
  \<open>CreatableList::write\<close>: the entries go to a buffer; above 255 bytes it is compressed if the list
  wants that, with the uninitialised \<open>zBufSz\<close> as the capacity told to zlib, into a buffer of \<open>bufSz\<close>
  bytes. Bit 0 of the flags is \<open>e_WantCompression\<close>, bit 1 \<open>e_Compressed\<close>.
\<close>

definition items_write :: "(u16 \<times> wres) list \<Rightarrow> wres" where
  "items_write items = wconcat
     (Inr (write_u16 (of_nat (length items))) # map (\<lambda>(i, img). wconcat [Inr (write_u16 i), img]) items)"

definition buffer_write :: "ext_lib \<Rightarrow> byte \<Rightarrow> bytes \<Rightarrow> wres" where
  "buffer_write L m_flags buf =
     (let flags = m_flags AND NOT 2;
          raw = Inr (write_u8 flags @ write_u32 (of_nat (length buf)) @ buf)
      in if bit flags 0 \<and> length buf > 255 then
           case zlib_compress L (unat (uninit_word L 8 :: u64)) buf of
             None \<Rightarrow> raw
           | Some z \<Rightarrow> if length z > length buf then Inl UndefinedBehaviour
                       else Inr (write_u8 (flags OR 2) @ write_u32 (of_nat (length buf))
                                 @ write_u32 (of_nat (length z)) @ z)
         else raw)"

fun CreatableList_write :: "ext_lib \<Rightarrow> wres CreatableList \<Rightarrow> wres" where
  "CreatableList_write L (CreatableList flags items) =
     (case items_write items of Inl e \<Rightarrow> Inl e | Inr buf \<Rightarrow> buffer_write L flags buf)"

fun LinkingMgrMsg_write :: "ext_lib \<Rightarrow> wres LinkingMgrMsg \<Rightarrow> wres" where
  "LinkingMgrMsg_write L (LinkingMgrMsg base contentFlags cmd args) =
     wconcat [Inr (Message_write L base), Inr (BitVector_write contentFlags),
              wif (BitVector_get contentFlags 0) (Inr (write_u8 cmd)),
              wif (BitVector_get contentFlags 1) (CreatableList_write L args)]"

text \<open>The virtual \<open>write\<close>, then the image of an object: its type and what it writes.\<close>

fun node_write :: "ext_lib \<Rightarrow> wres node \<Rightarrow> wres" where
  "node_write L (N_plain x) = plain_write L x"
| "node_write L (N_CoopCoordinator m) = CoopCoordinator_write L m"
| "node_write L (N_AnimCmdMsg m) = AnimCmdMsg_write L m"
| "node_write L (N_LoadCloneMsg m) = LoadCloneMsg_write L m"
| "node_write L (N_NetMsgGameMessage m) = NetMsgGameMessage_write L m"
| "node_write L (N_MessageWithCallbacks m) = MessageWithCallbacks_write L m"
| "node_write L (N_AvTaskMsg m) = AvTaskMsg_write L m"
| "node_write L (N_AvSeekMsg m) = AvSeekMsg_write L m"
| "node_write L (N_AvOneShotMsg m) = AvOneShotMsg_write L m"
| "node_write L (N_NetMsgGameMessageDirected m) = NetMsgGameMessageDirected_write L m"
| "node_write L (N_LinkingMgrMsg m) = LinkingMgrMsg_write L m"
| "node_write L (N_AvBrainGeneric m) = AvBrainGeneric_write L m"
| "node_write L (N_AvPushBrainMsg m) = AvPushBrainMsg_write L m"
| "node_write L (N_AvPopBrainMsg m) = AvTaskMsg_write L m"
| "node_write L (N_AvTaskBrain m) = AvTaskBrain_write m"
| "node_write L (N_LoadAvatarMsg m) = LoadAvatarMsg_write L m"
| "node_write L (N_NetMsgLoadClone m) = NetMsgLoadClone_write L m"
| "node_write L (N_AvCoopMsg m) = AvCoopMsg_write L m"
| "node_write L (N_AvBrainCoop m) = AvBrainCoop_write L m"

primrec creatable_image :: "ext_lib \<Rightarrow> creatable \<Rightarrow> wres" where
  "creatable_image L (Creatable n) =
     wconcat [Inr (write_u16 (node_type n)), node_write L (map_node (creatable_image L) n)]"

definition Factory_WriteCreatable :: "ext_lib \<Rightarrow> creatable option \<Rightarrow> wres" where
  "Factory_WriteCreatable L obj = WriteCreatable (map_option (creatable_image L) obj)"

end
