(* ===== verification/Factory.thy ===== *)
theory Factory
  imports Objects
begin

unbundle bit_operations_syntax

text \<open>
  \<open>src/PlasMOUL/factory.cpp\<close>: how objects are created and read. A reader of a class with nested
  objects takes the factory it calls as the argument \<open>rec\<close>; \<open>Factory_read\<close> ties the knot for nesting
  up to a given depth. The main lemma is that the factory reads back every well-formed object, given
  more fuel than the object is deep, whatever follows it in the stream.
\<close>

section \<open>Classes and casts\<close>

text \<open>What \<open>dynamic_cast\<close> can tell about an object: the base classes the readers cast to.\<close>

datatype base_class = B_Message | B_NetMessage | B_Brain | B_BrainCoop | B_Task | B_Coordinator | B_Other

fun plain_class :: "plain \<Rightarrow> base_class" where
  "plain_class (C_NetMsgPagingRoom _) = B_NetMessage"
| "plain_class (C_NetMsgGroupOwner _) = B_NetMessage"
| "plain_class (C_NetMsgGameStateRequest _) = B_NetMessage"
| "plain_class (C_NetMsgVoice _) = B_NetMessage"
| "plain_class (C_NetMsgTestAndSet _) = B_NetMessage"
| "plain_class (C_NetMsgMembersListReq _) = B_NetMessage"
| "plain_class (C_NetMsgMembersList _) = B_NetMessage"
| "plain_class (C_NetMsgMemberUpdate _) = B_NetMessage"
| "plain_class (C_NetMsgInitialAgeStateSent _) = B_NetMessage"
| "plain_class (C_NetMsgSDLState _) = B_NetMessage"
| "plain_class (C_NetMsgSDLStateBCast _) = B_NetMessage"
| "plain_class (C_NetMsgRelevanceRegions _) = B_NetMessage"
| "plain_class (C_NetMsgPlayerPage _) = B_NetMessage"
| "plain_class (C_AvBrainHuman _) = B_Brain"
| "plain_class C_AvBrainCritter = B_Brain"
| "plain_class C_AvBrainDrive = B_Brain"
| "plain_class C_AvBrainSwim = B_Brain"
| "plain_class C_AvBrainClimb = B_Brain"
| "plain_class C_AvBrainRideAnimatedPhysical = B_Brain"
| "plain_class (C_AvAnimTask _) = B_Task"
| "plain_class C_AvSeekTask = B_Task"
| "plain_class C_AvOneShotTask = B_Task"
| "plain_class C_AvTaskSeek = B_Task"
| "plain_class (C_AvOneShotLinkTask _) = B_Task"
| "plain_class (C_AgeLinkStruct _) = B_Other"
| "plain_class (C_AgeInfoStruct _) = B_Other"
| "plain_class (C_AnimStage _) = B_Other"
| "plain_class (C_GenericValue _) = B_Other"
| "plain_class _ = B_Message"

fun node_class :: "'c node \<Rightarrow> base_class" where
  "node_class (N_plain x) = plain_class x"
| "node_class (N_CoopCoordinator _) = B_Coordinator"
| "node_class (N_NetMsgGameMessage _) = B_NetMessage"
| "node_class (N_NetMsgGameMessageDirected _) = B_NetMessage"
| "node_class (N_NetMsgLoadClone _) = B_NetMessage"
| "node_class (N_AvBrainGeneric _) = B_Brain"
| "node_class (N_AvBrainCoop _) = B_BrainCoop"
| "node_class (N_AvTaskBrain _) = B_Task"
| "node_class _ = B_Message"

definition is_Message :: "creatable \<Rightarrow> bool" where
  "is_Message c \<longleftrightarrow> node_class (node_of c) = B_Message"

definition is_AvTask :: "creatable \<Rightarrow> bool" where
  "is_AvTask c \<longleftrightarrow> node_class (node_of c) = B_Task"

definition is_ArmatureBrain :: "creatable \<Rightarrow> bool" where
  "is_ArmatureBrain c \<longleftrightarrow> node_class (node_of c) = B_Brain \<or> node_class (node_of c) = B_BrainCoop"

definition is_AvBrainCoop :: "creatable \<Rightarrow> bool" where
  "is_AvBrainCoop c \<longleftrightarrow> node_class (node_of c) = B_BrainCoop"

definition is_CoopCoordinator :: "creatable \<Rightarrow> bool" where
  "is_CoopCoordinator c \<longleftrightarrow> node_class (node_of c) = B_Coordinator"

section \<open>Reading\<close>

type_synonym factory = "u16 \<Rightarrow> creatable option rd"

definition ReadCreatable :: "factory \<Rightarrow> creatable option rd" where
  "ReadCreatable rec = rbind read_u16 rec"

text \<open>\<open>Factory::Read<T>\<close>: null when the object is not a \<open>T\<close>.\<close>

definition Factory_Read :: "factory \<Rightarrow> (creatable \<Rightarrow> bool) \<Rightarrow> creatable option rd" where
  "Factory_Read rec is_T =
     rbind (ReadCreatable rec) (\<lambda>obj.
     rret (case obj of Some c \<Rightarrow> if is_T c then Some c else None | None \<Rightarrow> None))"

definition read_flagged :: "factory \<Rightarrow> (creatable \<Rightarrow> bool) \<Rightarrow> creatable option rd" where
  "read_flagged rec is_T = rbind Stream_read_bool (\<lambda>b. if b then Factory_Read rec is_T else rret None)"

definition AvTaskMsg_read :: "ext_lib \<Rightarrow> factory \<Rightarrow> creatable AvTaskMsg rd" where
  "AvTaskMsg_read L rec =
     rbind (Message_read L) (\<lambda>base. rbind (read_flagged rec is_AvTask) (\<lambda>task.
     rret (AvTaskMsg base task)))"

definition AvPushBrainMsg_read :: "ext_lib \<Rightarrow> factory \<Rightarrow> creatable AvPushBrainMsg rd" where
  "AvPushBrainMsg_read L rec =
     rbind (AvTaskMsg_read L rec) (\<lambda>base. rbind (Factory_Read rec is_ArmatureBrain) (\<lambda>brain.
     rret (AvPushBrainMsg base brain)))"

definition AvSeekMsg_read :: "ext_lib \<Rightarrow> factory \<Rightarrow> creatable AvSeekMsg rd" where
  "AvSeekMsg_read L rec =
     rbind (AvTaskMsg_read L rec) (\<lambda>base. rbind (AvSeekFields_read L) (\<lambda>members.
     rret (AvSeekMsg base members)))"

definition AvOneShotMsg_read :: "ext_lib \<Rightarrow> factory \<Rightarrow> creatable AvOneShotMsg rd" where
  "AvOneShotMsg_read L rec =
     rbind (AvSeekMsg_read L rec) (\<lambda>base. rbind (AvOneShotFields_read L) (\<lambda>members.
     rret (AvOneShotMsg base members)))"

definition AvTaskBrain_read :: "factory \<Rightarrow> creatable AvTaskBrain rd" where
  "AvTaskBrain_read rec = rbind (Factory_Read rec is_ArmatureBrain) (\<lambda>brain. rret (AvTaskBrain brain))"

definition AvCoopMsg_read :: "ext_lib \<Rightarrow> factory \<Rightarrow> creatable AvCoopMsg rd" where
  "AvCoopMsg_read L rec =
     rbind (Message_read L) (\<lambda>base. rbind (read_flagged rec is_CoopCoordinator) (\<lambda>coordinator.
     rbind (AvCoopFields_read L) (\<lambda>members. rret (AvCoopMsg base coordinator members))))"

definition LoadCloneMsg_read :: "ext_lib \<Rightarrow> factory \<Rightarrow> creatable LoadCloneMsg rd" where
  "LoadCloneMsg_read L rec =
     rbind (Message_read L) (\<lambda>base. rbind (LoadCloneFields_read L) (\<lambda>members.
     rbind (Factory_Read rec is_Message) (\<lambda>trigger. rret (LoadCloneMsg base members trigger))))"

definition LoadAvatarMsg_read :: "ext_lib \<Rightarrow> factory \<Rightarrow> creatable LoadAvatarMsg rd" where
  "LoadAvatarMsg_read L rec =
     rbind (LoadCloneMsg_read L rec) (\<lambda>base. rbind Stream_read_bool (\<lambda>isPlayer.
     rbind (Key_read L) (\<lambda>spawnPoint. rbind (read_flagged rec is_AvTask) (\<lambda>initTask.
     rbind (Stream_readSafeString L e_StringRAW8) (\<lambda>userString.
     rret (LoadAvatarMsg base isPlayer spawnPoint initTask userString))))))"

text \<open>The loop of \<open>read\<close> runs to the capacity of the fresh vector, which is its size.\<close>

definition MessageWithCallbacks_read :: "ext_lib \<Rightarrow> factory \<Rightarrow> creatable MessageWithCallbacks rd" where
  "MessageWithCallbacks_read L rec =
     rbind (Message_read L) (\<lambda>base. rbind read_u32 (\<lambda>count.
     rbind (rcount (unat count) (Factory_Read rec is_Message)) (\<lambda>callbacks.
     rret (MessageWithCallbacks base callbacks))))"

definition AnimCmdMsg_read :: "ext_lib \<Rightarrow> factory \<Rightarrow> creatable AnimCmdMsg rd" where
  "AnimCmdMsg_read L rec =
     rbind (MessageWithCallbacks_read L rec) (\<lambda>base. rbind (AnimCmdFields_read L) (\<lambda>members.
     rret (AnimCmdMsg base members)))"

text \<open>
  \<open>Factory::Read<AnimStage>\<close> followed by \<open>readAux\<close>: a null result is dereferenced.
\<close>

definition AnimStage_readBoth :: "ext_lib \<Rightarrow> factory \<Rightarrow> (AnimStage \<times> AnimStageAux) rd" where
  "AnimStage_readBoth L rec =
     rbind (ReadCreatable rec) (\<lambda>obj.
     case obj of
       Some (Creatable (N_plain (C_AnimStage stage))) \<Rightarrow>
         rbind (AnimStageAux_read L) (\<lambda>aux. rret (stage, aux))
     | _ \<Rightarrow> rfail UndefinedBehaviour)"

definition AvBrainGeneric_read :: "ext_lib \<Rightarrow> factory \<Rightarrow> creatable AvBrainGeneric rd" where
  "AvBrainGeneric_read L rec =
     rbind (ArmatureBrain_read L) (\<lambda>_.
     rbind (read_list 4 (AnimStage_readBoth L rec)) (\<lambda>stages.
     rbind (BrainStageFields_read L) (\<lambda>stageFields.
     rbind (read_flagged rec is_Message) (\<lambda>startMessage.
     rbind (read_flagged rec is_Message) (\<lambda>endMessage.
     rbind (BrainFadeFields_read L) (\<lambda>fadeFields.
     rret (AvBrainGeneric stages stageFields startMessage endMessage fadeFields)))))))"

definition AvBrainCoop_read :: "ext_lib \<Rightarrow> factory \<Rightarrow> creatable AvBrainCoop rd" where
  "AvBrainCoop_read L rec =
     rbind (AvBrainGeneric_read L rec) (\<lambda>base. rbind (BrainCoopFields_read L) (\<lambda>members.
     rret (AvBrainCoop base members)))"

definition CoopCoordinator_read :: "ext_lib \<Rightarrow> factory \<Rightarrow> creatable CoopCoordinator rd" where
  "CoopCoordinator_read L rec =
     rbind (Key_read L) (\<lambda>hostKey. rbind (Key_read L) (\<lambda>guestKey.
     rbind (Factory_Read rec is_AvBrainCoop) (\<lambda>hostBrain.
     rbind (Factory_Read rec is_AvBrainCoop) (\<lambda>guestBrain.
     rbind read_u8 (\<lambda>offerStage. rbind Stream_read_bool (\<lambda>acceptStage.
     rbind (read_flagged rec is_Message) (\<lambda>acceptMsg.
     rbind (Stream_readSafeString L e_StringRAW8) (\<lambda>synchBone.
     rbind Stream_read_bool (\<lambda>autoStart.
     rret (CoopCoordinator hostKey guestKey hostBrain guestBrain offerStage acceptStage acceptMsg
             synchBone autoStart))))))))))"

definition deliveryTime_read :: "UnifiedTime rd" where
  "deliveryTime_read =
     rbind Stream_read_bool (\<lambda>b. if b then UnifiedTime_read else rret UnifiedTime_null)"

definition NetMsgGameMessage_read :: "ext_lib \<Rightarrow> factory \<Rightarrow> creatable NetMsgGameMessage rd" where
  "NetMsgGameMessage_read L rec =
     rbind NetMessage_read (\<lambda>base.
     rbind (NetMsgStream_read L) (\<lambda>(compression, stream).
     rbind (rsub (Factory_Read rec is_Message) stream) (\<lambda>message.
     rbind deliveryTime_read (\<lambda>deliveryTime.
     rret (NetMsgGameMessage base compression message deliveryTime)))))"

definition NetMsgGameMessageDirected_read ::
  "ext_lib \<Rightarrow> factory \<Rightarrow> creatable NetMsgGameMessageDirected rd" where
  "NetMsgGameMessageDirected_read L rec =
     rbind (NetMsgGameMessage_read L rec) (\<lambda>base. rbind (read_list 1 read_u32) (\<lambda>receivers.
     rret (NetMsgGameMessageDirected base receivers)))"

definition NetMsgLoadClone_read :: "ext_lib \<Rightarrow> factory \<Rightarrow> creatable NetMsgLoadClone rd" where
  "NetMsgLoadClone_read L rec =
     rbind (NetMsgGameMessage_read L rec) (\<lambda>base. rbind (Uoid_read L) (\<lambda>object.
     rbind Stream_read_bool (\<lambda>isPlayer. rbind Stream_read_bool (\<lambda>isLoading.
     rbind Stream_read_bool (\<lambda>isInitialState.
     rret (NetMsgLoadClone base object isPlayer isLoading isInitialState))))))"

text \<open>\<open>m_items[id] = cre\<close> on the ordered map.\<close>

fun map_insert :: "'k::linorder \<Rightarrow> 'v \<Rightarrow> ('k \<times> 'v) list \<Rightarrow> ('k \<times> 'v) list" where
  "map_insert k v [] = [(k, v)]"
| "map_insert k v ((k', v') # m) =
     (if k < k' then (k, v) # (k', v') # m
      else if k = k' then (k, v) # m
      else (k', v') # map_insert k v m)"

definition item_read :: "factory \<Rightarrow> (u16 \<times> creatable) rd" where
  "item_read rec =
     rbind read_u16 (\<lambda>i. rbind read_u16 (\<lambda>type. rbind (rec type) (\<lambda>obj.
     case obj of None \<Rightarrow> rfail MalformedData | Some c \<Rightarrow> rret (i, c))))"

definition items_read :: "factory \<Rightarrow> (u16 \<times> creatable) list rd" where
  "items_read rec =
     rbind read_u16 (\<lambda>numItems. rbind (rcount (unat numItems) (item_read rec)) (\<lambda>items.
     rret (foldl (\<lambda>m (i, c). map_insert i c m) [] items)))"

text \<open>The uninitialised \<open>zLen\<close> is the capacity told to zlib for a buffer of \<open>bufSz\<close> bytes.\<close>

definition buffer_read :: "ext_lib \<Rightarrow> (byte \<times> bytes) rd" where
  "buffer_read L =
     rbind read_u8 (\<lambda>flags. rbind read_u32 (\<lambda>bufSz.
     if bit flags 1 then
       rbind read_u32 (\<lambda>zBufSz. rbind (read_array (map (uninit L) [0..<unat zBufSz])) (\<lambda>zBuf.
       case zlib_uncompress L (unat (uninit_word L 8 :: u64)) zBuf of
         None \<Rightarrow> rfail MalformedData
       | Some buf \<Rightarrow> if length buf > unat bufSz then rfail UndefinedBehaviour
                     else if length buf \<noteq> unat bufSz then rfail MalformedData
                     else rret (flags AND NOT 2, buf)))
     else rbind (read_array (map (uninit L) [0..<unat bufSz])) (\<lambda>buf. rret (flags, buf))))"

definition CreatableList_read :: "ext_lib \<Rightarrow> factory \<Rightarrow> creatable CreatableList rd" where
  "CreatableList_read L rec =
     rbind (buffer_read L) (\<lambda>(flags, buf). rbind (rsub (items_read rec) buf) (\<lambda>items.
     rret (CreatableList flags items)))"

text \<open>A list that is not read stays as constructed: empty, wanting compression.\<close>

definition LinkingMgrMsg_read :: "ext_lib \<Rightarrow> factory \<Rightarrow> creatable LinkingMgrMsg rd" where
  "LinkingMgrMsg_read L rec =
     rbind (Message_read L) (\<lambda>base.
     rbind (BitVector_read (uninit L)) (\<lambda>contentFlags.
     rbind (rlift (BitVector_get contentFlags 0)) (\<lambda>hasCommand.
     rbind (if hasCommand then read_u8 else rret 0) (\<lambda>cmd.
     rbind (rlift (BitVector_get contentFlags 1)) (\<lambda>hasArgs.
     rbind (if hasArgs then CreatableList_read L rec else rret (CreatableList 1 [])) (\<lambda>args.
     rret (LinkingMgrMsg base contentFlags cmd args)))))))"

section \<open>The factory\<close>

text \<open>\<open>creatable_types.inl\<close>: the type of every class with what its virtual \<open>read\<close> does.\<close>

definition node_types :: "ext_lib \<Rightarrow> factory \<Rightarrow> (u16 \<times> creatable node rd) list" where
  "node_types L rec =
     map (\<lambda>(type, p). (type, rmap N_plain p)) (plain_types L)
     @ [(0x011B, rmap N_CoopCoordinator (CoopCoordinator_read L rec)),
        (0x0206, rmap N_AnimCmdMsg (AnimCmdMsg_read L rec)),
        (0x0253, rmap N_LoadCloneMsg (LoadCloneMsg_read L rec)),
        (0x026B, rmap N_NetMsgGameMessage (NetMsgGameMessage_read L rec)),
        (0x0283, rmap N_MessageWithCallbacks (MessageWithCallbacks_read L rec)),
        (0x0298, rmap N_AvTaskMsg (AvTaskMsg_read L rec)),
        (0x0299, rmap N_AvSeekMsg (AvSeekMsg_read L rec)),
        (0x029A, rmap N_AvOneShotMsg (AvOneShotMsg_read L rec)),
        (0x032E, rmap N_NetMsgGameMessageDirected (NetMsgGameMessageDirected_read L rec)),
        (0x034B, rmap N_LinkingMgrMsg (LinkingMgrMsg_read L rec)),
        (0x0360, rmap N_AvBrainGeneric (AvBrainGeneric_read L rec)),
        (0x0367, rmap N_AvPushBrainMsg (AvPushBrainMsg_read L rec)),
        (0x0368, rmap N_AvPopBrainMsg (AvTaskMsg_read L rec)),
        (0x0370, rmap N_AvTaskBrain (AvTaskBrain_read rec)),
        (0x03B1, rmap N_LoadAvatarMsg (LoadAvatarMsg_read L rec)),
        (0x03B3, rmap N_NetMsgLoadClone (NetMsgLoadClone_read L rec)),
        (0x045E, rmap N_AvCoopMsg (AvCoopMsg_read L rec)),
        (0x045F, rmap N_AvBrainCoop (AvBrainCoop_read L rec))]"

text \<open>\<open>Factory::Create\<close> and the virtual \<open>read\<close> of what it created.\<close>

definition Factory_Create_read :: "ext_lib \<Rightarrow> factory \<Rightarrow> factory" where
  "Factory_Create_read L rec type =
     (case map_of (node_types L rec) type of
        Some p \<Rightarrow> rmap (\<lambda>n. Some (Creatable n)) p
      | None \<Rightarrow> if type = 0x8000 then rret None else rfail FactoryException)"

primrec Factory_read :: "ext_lib \<Rightarrow> nat \<Rightarrow> factory" where
  "Factory_read L 0 = (\<lambda>_. rfail NoFuel)"
| "Factory_read L (Suc fuel) = Factory_Create_read L (Factory_read L fuel)"

definition Factory_ReadCreatable :: "ext_lib \<Rightarrow> nat \<Rightarrow> creatable option rd" where
  "Factory_ReadCreatable L fuel = ReadCreatable (Factory_read L fuel)"

section \<open>Well-formed objects\<close>

text \<open>The objects a node holds, and the nesting depth of an object.\<close>

primrec somes :: "'c option list \<Rightarrow> 'c list" where
  "somes [] = []"
| "somes (obj # objs) = (case obj of Some c \<Rightarrow> [c] | None \<Rightarrow> []) @ somes objs"

fun node_children :: "'c node \<Rightarrow> 'c list" where
  "node_children (N_plain _) = []"
| "node_children (N_CoopCoordinator m) =
     somes [cc_hostBrain m, cc_guestBrain m, cc_acceptMsg m]"
| "node_children (N_AnimCmdMsg m) = somes (mwc_callbacks (acmd_base m))"
| "node_children (N_LoadCloneMsg m) = somes [lcm_triggerMsg m]"
| "node_children (N_NetMsgGameMessage m) = somes [ngm_message m]"
| "node_children (N_MessageWithCallbacks m) = somes (mwc_callbacks m)"
| "node_children (N_AvTaskMsg m) = somes [atm_task m]"
| "node_children (N_AvSeekMsg m) = somes [atm_task (as_base m)]"
| "node_children (N_AvOneShotMsg m) = somes [atm_task (as_base (aos_base m))]"
| "node_children (N_NetMsgGameMessageDirected m) = somes [ngm_message (ngd_base m)]"
| "node_children (N_LinkingMgrMsg m) = map snd (cl_items (lmm_args m))"
| "node_children (N_AvBrainGeneric m) = somes [abg_startMessage m, abg_endMessage m]"
| "node_children (N_AvPushBrainMsg m) = somes [atm_task (apb_base m), apb_brain m]"
| "node_children (N_AvPopBrainMsg m) = somes [atm_task m]"
| "node_children (N_AvTaskBrain m) = somes [atb_brain m]"
| "node_children (N_LoadAvatarMsg m) = somes [lcm_triggerMsg (lam_base m), lam_initTask m]"
| "node_children (N_NetMsgLoadClone m) = somes [ngm_message (nlc_base m)]"
| "node_children (N_AvCoopMsg m) = somes [acm_coordinator m]"
| "node_children (N_AvBrainCoop m) =
     somes [abg_startMessage (abc_base m), abg_endMessage (abc_base m)]"

primrec depth :: "creatable \<Rightarrow> nat" where
  "depth (Creatable n) = Suc (foldr max (node_children (map_node depth n)) 0)"

text \<open>
  The objects that survive: strings, counts and sizes that fit, pointers to objects of the class the
  reader casts to, an \<open>AvBrainGeneric\<close> without messages, a list of arguments that is sent raw.
\<close>

fun AvTaskMsg_wf :: "ext_lib \<Rightarrow> creatable AvTaskMsg \<Rightarrow> bool" where
  "AvTaskMsg_wf L (AvTaskMsg base task) = (Message_wf L base \<and> pred_option is_AvTask task)"

fun AvSeekMsg_wf :: "ext_lib \<Rightarrow> creatable AvSeekMsg \<Rightarrow> bool" where
  "AvSeekMsg_wf L (AvSeekMsg base members) = (AvTaskMsg_wf L base \<and> AvSeekFields_wf L members)"

fun LoadCloneMsg_wf :: "ext_lib \<Rightarrow> creatable LoadCloneMsg \<Rightarrow> bool" where
  "LoadCloneMsg_wf L (LoadCloneMsg base members trigger) =
     (Message_wf L base \<and> LoadCloneFields_wf L members \<and> pred_option is_Message trigger)"

fun MessageWithCallbacks_wf :: "ext_lib \<Rightarrow> creatable MessageWithCallbacks \<Rightarrow> bool" where
  "MessageWithCallbacks_wf L (MessageWithCallbacks base callbacks) =
     (Message_wf L base \<and> length callbacks < 2 ^ 32 \<and> list_all (pred_option is_Message) callbacks)"

definition stage_wf :: "ext_lib \<Rightarrow> AnimStage \<times> AnimStageAux \<Rightarrow> bool" where
  "stage_wf L s \<longleftrightarrow> AnimStage_wf L (fst s) \<and> AnimStageAux_wf L (snd s)"

fun AvBrainGeneric_wf :: "ext_lib \<Rightarrow> creatable AvBrainGeneric \<Rightarrow> bool" where
  "AvBrainGeneric_wf L (AvBrainGeneric stages stageFields startMessage endMessage fadeFields) =
     (list_wf 4 (stage_wf L) stages \<and> BrainStageFields_wf L stageFields \<and> startMessage = None
      \<and> endMessage = None \<and> BrainFadeFields_wf L fadeFields)"

fun NetMsgGameMessage_wf :: "ext_lib \<Rightarrow> creatable NetMsgGameMessage \<Rightarrow> bool" where
  "NetMsgGameMessage_wf L (NetMsgGameMessage base compression message deliveryTime) =
     (NetMessage_wf base \<and> pred_option is_Message message
      \<and> (case Factory_WriteCreatable L message of Inl e \<Rightarrow> False
         | Inr stream \<Rightarrow> stream_ok L compression stream))"

fun CreatableList_wf :: "ext_lib \<Rightarrow> creatable CreatableList \<Rightarrow> bool" where
  "CreatableList_wf L (CreatableList flags items) =
     (\<not> bit flags 1 \<and> length items < 2 ^ 16 \<and> sorted_wrt (<) (map fst items)
      \<and> (case items_write (map (map_prod id (creatable_image L)) items) of Inl e \<Rightarrow> False
         | Inr buf \<Rightarrow> length buf < 2 ^ 32 \<and> (bit flags 0 \<longrightarrow> length buf \<le> 255)))"

fun LinkingMgrMsg_wf :: "ext_lib \<Rightarrow> creatable LinkingMgrMsg \<Rightarrow> bool" where
  "LinkingMgrMsg_wf L (LinkingMgrMsg base contentFlags cmd args) =
     (Message_wf L base \<and> BitVector_wf contentFlags \<and> 0 < m_words contentFlags
      \<and> (bv_bit contentFlags 0 \<or> cmd = 0)
      \<and> (if bv_bit contentFlags 1 then CreatableList_wf L args else args = CreatableList 1 []))"

fun node_wf :: "ext_lib \<Rightarrow> creatable node \<Rightarrow> bool" where
  "node_wf L (N_plain x) = plain_wf L x"
| "node_wf L (N_CoopCoordinator m) =
     (Key_wf L (cc_hostKey m) \<and> Key_wf L (cc_guestKey m) \<and> pred_option is_AvBrainCoop (cc_hostBrain m)
      \<and> pred_option is_AvBrainCoop (cc_guestBrain m) \<and> pred_option is_Message (cc_acceptMsg m)
      \<and> safe_ok L e_StringRAW8 (cc_synchBone m))"
| "node_wf L (N_AnimCmdMsg m) =
     (MessageWithCallbacks_wf L (acmd_base m) \<and> AnimCmdFields_wf L (acmd_fields m))"
| "node_wf L (N_LoadCloneMsg m) = LoadCloneMsg_wf L m"
| "node_wf L (N_NetMsgGameMessage m) = NetMsgGameMessage_wf L m"
| "node_wf L (N_MessageWithCallbacks m) = MessageWithCallbacks_wf L m"
| "node_wf L (N_AvTaskMsg m) = AvTaskMsg_wf L m"
| "node_wf L (N_AvSeekMsg m) = AvSeekMsg_wf L m"
| "node_wf L (N_AvOneShotMsg m) = (AvSeekMsg_wf L (aos_base m) \<and> AvOneShotFields_wf L (aos_fields m))"
| "node_wf L (N_NetMsgGameMessageDirected m) =
     (NetMsgGameMessage_wf L (ngd_base m) \<and> list_wf 1 (\<lambda>_. True) (ngd_receivers m))"
| "node_wf L (N_LinkingMgrMsg m) = LinkingMgrMsg_wf L m"
| "node_wf L (N_AvBrainGeneric m) = AvBrainGeneric_wf L m"
| "node_wf L (N_AvPushBrainMsg m) =
     (AvTaskMsg_wf L (apb_base m) \<and> pred_option is_ArmatureBrain (apb_brain m))"
| "node_wf L (N_AvPopBrainMsg m) = AvTaskMsg_wf L m"
| "node_wf L (N_AvTaskBrain m) = pred_option is_ArmatureBrain (atb_brain m)"
| "node_wf L (N_LoadAvatarMsg m) =
     (LoadCloneMsg_wf L (lam_base m) \<and> Key_wf L (lam_spawnPoint m) \<and> pred_option is_AvTask (lam_initTask m)
      \<and> safe_ok L e_StringRAW8 (lam_userString m))"
| "node_wf L (N_NetMsgLoadClone m) = (NetMsgGameMessage_wf L (nlc_base m) \<and> Uoid_wf L (nlc_object m))"
| "node_wf L (N_AvCoopMsg m) =
     (Message_wf L (acm_base m) \<and> pred_option is_CoopCoordinator (acm_coordinator m)
      \<and> AvCoopFields_wf L (acm_fields m))"
| "node_wf L (N_AvBrainCoop m) = (AvBrainGeneric_wf L (abc_base m) \<and> BrainCoopFields_wf L (abc_fields m))"

primrec creatable_wf :: "ext_lib \<Rightarrow> creatable \<Rightarrow> bool" where
  "creatable_wf L (Creatable n) \<longleftrightarrow>
     node_wf L n \<and> list_all (\<lambda>b. b) (node_children (map_node (creatable_wf L) n))"

lemma somes_map: "somes (map (map_option f) xs) = map f (somes xs)"
  by (induction xs) (auto split: option.splits)

lemma node_children_map: "node_children (map_node f n) = map f (node_children n)"
  using somes_map [of f]
  by (cases n) (auto simp: AvTaskMsg.map_sel AvSeekMsg.map_sel AvOneShotMsg.map_sel
      AvPushBrainMsg.map_sel AvTaskBrain.map_sel LoadCloneMsg.map_sel LoadAvatarMsg.map_sel
      MessageWithCallbacks.map_sel AnimCmdMsg.map_sel AvBrainGeneric.map_sel AvBrainCoop.map_sel
      CoopCoordinator.map_sel NetMsgGameMessage.map_sel NetMsgGameMessageDirected.map_sel
      NetMsgLoadClone.map_sel AvCoopMsg.map_sel LinkingMgrMsg.map_sel CreatableList.map_sel
      split: option.splits)

lemma creatable_wf_children:
  "creatable_wf L (Creatable n) \<longleftrightarrow> node_wf L n \<and> (\<forall>c \<in> set (node_children n). creatable_wf L c)"
  by (simp add: node_children_map list_all_iff)

lemma foldr_max: "x \<in> set xs \<Longrightarrow> x \<le> foldr max xs (0 :: nat)"
  by (induction xs) auto

lemma depth_children: "c \<in> set (node_children n) \<Longrightarrow> depth c < depth (Creatable n)"
  using foldr_max [of "depth c" "map depth (node_children n)"] by (simp add: node_children_map)

declare creatable_wf.simps [simp del] depth.simps [simp del]

section \<open>What a factory promises\<close>

text \<open>
  A factory reads back the objects it knows, the animation stages that brains embed, and null. The
  readers of the classes with nested objects need no more.
\<close>

lemma rb_Cons:
  "reads_back (wconcat ws) (f x) y \<Longrightarrow> reads_back w p x \<Longrightarrow> reads_back (wconcat (w # ws)) (rbind p f) y"
  by (rule reads_back_Cons)

lemma reads_back_alone: "reads_back w p x \<Longrightarrow> w = Inr b \<Longrightarrow> p b = Inr (x, [])"
  unfolding reads_back_def by (metis append_Nil2 sum.inject(2))

lemma map_insert_last:
  "sorted_wrt (<) (map fst m @ [k]) \<Longrightarrow> map_insert k v m = m @ [(k, v)]"
  by (induction m) (auto simp: sorted_wrt_append)

lemma foldl_map_insert:
  "sorted_wrt (<) (map fst (acc @ items)) \<Longrightarrow> foldl (\<lambda>m (i, c). map_insert i c m) acc items = acc @ items"
proof (induction items arbitrary: acc)
  case (Cons x items)
  have "map_insert (fst x) (snd x) acc = acc @ [x]"
    using Cons.prems map_insert_last [of acc "fst x" "snd x"] by (simp add: sorted_wrt_append)
  then show ?case using Cons.IH [of "acc @ [x]"] Cons.prems by (simp add: split_beta)
qed simp

lemma set_somes [simp]: "set (somes (obj # objs)) = set_option obj \<union> set (somes objs)"
  by (cases obj) simp_all

lemma set_somes_mem: "obj \<in> set objs \<Longrightarrow> set_option obj \<subseteq> set (somes objs)"
  by (induction objs) auto

declare somes.simps(2) [simp del]

lemma BitVector_get_first:
  "BitVector_wf v \<Longrightarrow> 0 < m_words v \<Longrightarrow> i < 32 \<Longrightarrow> BitVector_get v i = Inr (bv_bit v i)"
  by (simp add: get_bv_bit BitVector_wf_def)

lemma buffer_reads_back:
  assumes "\<not> bit flags 1" and "length buf < 2 ^ 32" and "bit flags 0 \<longrightarrow> length buf \<le> 255"
  shows "reads_back (buffer_write L flags buf) (buffer_read L) (flags, buf)"
proof -
  have f: "flags AND NOT 2 = flags"
    using assms(1) and_exp_eq_0_iff_not_bit [of flags 1] by (intro and_NOT_self) simp
  have "buffer_write L flags buf = Inr (write_u8 flags @ write_u32 (of_nat (length buf)) @ buf)"
    using assms(3) unfolding buffer_write_def f Let_def by auto
  then show ?thesis
    using assms(1,2) by (simp add: reads_back_def buffer_read_def read_array_append unat_of_nat)
qed

lemma plain_read_back:
  assumes "plain_wf L x"
  shows "\<exists>p. map_of (node_types L rec) (node_type (N_plain x)) = Some p
    \<and> reads_back (plain_write L x) p (N_plain x)"
proof -
  obtain p where "map_of (plain_types L) (plain_type x) = Some p" "reads_back (plain_write L x) p x"
    using plain_reads_back [OF assms] by blast
  then show ?thesis by (auto simp: node_types_def map_add_def map_of_map intro!: reads_back_rmap)
qed

lemma Create_read_back:
  assumes "map_of (node_types L rec) (node_type n) = Some p" and "reads_back w p n"
  shows "reads_back (wconcat [Inr (write_u16 (node_type n)), w]) (ReadCreatable (Factory_Create_read L rec))
    (Some (Creatable n))"
proof -
  have "reads_back w (Factory_Create_read L rec (node_type n)) (Some (Creatable n))"
    using assms by (simp add: Factory_Create_read_def reads_back_rmap)
  then show ?thesis
    unfolding ReadCreatable_def
    by (intro reads_back_Cons [OF u16.reads_back_enc [OF TrueI]] reads_back_last)
qed

lemma Create_null: "Factory_Create_read L rec 0x8000 = rret None"
  by (simp add: Factory_Create_read_def node_types_def plain_types_def)

lemma Create_unknown:
  "type \<notin> fst ` set (node_types L rec) \<Longrightarrow> type \<noteq> 0x8000 \<Longrightarrow>
   Factory_Create_read L rec type = rfail FactoryException"
  by (simp add: Factory_Create_read_def map_of_eq_None_iff [THEN iffD2])

locale object_factory =
  fixes L :: ext_lib
    and rec :: factory
    and known :: "creatable set"
  assumes null_read: "rec 0x8000 = rret None"
    and known_read: "c \<in> known \<Longrightarrow> reads_back (creatable_image L c) (ReadCreatable rec) (Some c)"
    and stage_read: "AnimStage_wf L a \<Longrightarrow>
      reads_back (Inr (write_u16 0x0371 @ AnimStage_write L a)) (ReadCreatable rec)
        (Some (Creatable (N_plain (C_AnimStage a))))"
begin

lemma pointer_read:
  assumes "pred_option is_T obj" and "set_option obj \<subseteq> known"
  shows "reads_back (WriteCreatable (map_option (creatable_image L) obj)) (Factory_Read rec is_T) obj"
proof (cases obj)
  case None
  then show ?thesis
    by (simp add: reads_back_def WriteCreatable_def Factory_Read_def ReadCreatable_def null_read)
next
  case (Some c)
  then have "reads_back (creatable_image L c) (ReadCreatable rec) (Some c)" using assms by (simp add: known_read)
  then show ?thesis
    using Some assms by (auto simp: reads_back_def WriteCreatable_def Factory_Read_def)
qed

lemma flagged_read:
  assumes "pred_option is_T obj" and "set_option obj \<subseteq> known"
  shows "reads_back (write_flagged (map_option (creatable_image L) obj)) (read_flagged rec is_T) obj"
proof (cases obj)
  case None
  then show ?thesis by (simp add: reads_back_def write_flagged_def read_flagged_def cbool.bind_enc)
next
  case (Some c)
  then have "reads_back (creatable_image L c) (Factory_Read rec is_T) (Some c)"
    using pointer_read [OF assms] by (simp add: WriteCreatable_def)
  then show ?thesis using Some by (auto simp: reads_back_def write_flagged_def read_flagged_def)
qed

lemma AvTaskMsg_read_back:
  assumes "AvTaskMsg_wf L m" and "set_option (atm_task m) \<subseteq> known"
  shows "reads_back (AvTaskMsg_write L (map_AvTaskMsg (creatable_image L) m)) (AvTaskMsg_read L rec) m"
  using assms
  by (cases m) (auto simp: AvTaskMsg_read_def intro!: rb_Cons reads_back_Nil message_c.reads_back_enc flagged_read
      simp del: wconcat.simps)

lemmas object_intros = rb_Cons reads_back_Nil flagged_read pointer_read message_c.reads_back_enc
  cbool.reads_back_enc u8.reads_back_enc u32.reads_back_enc key.reads_back_enc uoid.reads_back_enc
  safestr.reads_back_enc avSeekFields_c.reads_back_enc avOneShotFields_c.reads_back_enc
  avCoopFields_c.reads_back_enc loadCloneFields_c.reads_back_enc animCmdFields_c.reads_back_enc
  brainStageFields_c.reads_back_enc brainFadeFields_c.reads_back_enc brainCoopFields_c.reads_back_enc
  AvTaskMsg_read_back

lemma AvPushBrainMsg_read_back:
  assumes "node_wf L (N_AvPushBrainMsg m)" and "set (node_children (N_AvPushBrainMsg m)) \<subseteq> known"
  shows "reads_back (AvPushBrainMsg_write L (map_AvPushBrainMsg (creatable_image L) m)) (AvPushBrainMsg_read L rec) m"
  using assms
  by (cases m) (auto simp: AvPushBrainMsg_read_def intro!: object_intros
      simp del: wconcat.simps)

lemma AvSeekMsg_read_back:
  assumes "AvSeekMsg_wf L m" and "set_option (atm_task (as_base m)) \<subseteq> known"
  shows "reads_back (AvSeekMsg_write L (map_AvSeekMsg (creatable_image L) m)) (AvSeekMsg_read L rec) m"
  using assms
  by (cases m) (auto simp: AvSeekMsg_read_def intro!: object_intros simp del: wconcat.simps)

lemma AvOneShotMsg_read_back:
  assumes "node_wf L (N_AvOneShotMsg m)" and "set_option (atm_task (as_base (aos_base m))) \<subseteq> known"
  shows "reads_back (AvOneShotMsg_write L (map_AvOneShotMsg (creatable_image L) m)) (AvOneShotMsg_read L rec) m"
  using assms
  by (cases m) (auto simp: AvOneShotMsg_read_def intro!: object_intros AvSeekMsg_read_back simp del: wconcat.simps)

lemma AvTaskBrain_read_back:
  assumes "node_wf L (N_AvTaskBrain m)" and "set_option (atb_brain m) \<subseteq> known"
  shows "reads_back (AvTaskBrain_write (map_AvTaskBrain (creatable_image L) m)) (AvTaskBrain_read rec) m"
  using assms
  by (cases m) (auto simp: AvTaskBrain_read_def intro!: object_intros simp del: wconcat.simps)

lemma AvCoopMsg_read_back:
  assumes "node_wf L (N_AvCoopMsg m)" and "set_option (acm_coordinator m) \<subseteq> known"
  shows "reads_back (AvCoopMsg_write L (map_AvCoopMsg (creatable_image L) m)) (AvCoopMsg_read L rec) m"
  using assms
  by (cases m) (auto simp: AvCoopMsg_read_def intro!: object_intros simp del: wconcat.simps)

lemma LoadCloneMsg_read_back:
  assumes "LoadCloneMsg_wf L m" and "set_option (lcm_triggerMsg m) \<subseteq> known"
  shows "reads_back (LoadCloneMsg_write L (map_LoadCloneMsg (creatable_image L) m)) (LoadCloneMsg_read L rec) m"
  using assms
  by (cases m) (auto simp: LoadCloneMsg_read_def intro!: object_intros simp del: wconcat.simps)

lemma LoadAvatarMsg_read_back:
  assumes "node_wf L (N_LoadAvatarMsg m)" and "set (node_children (N_LoadAvatarMsg m)) \<subseteq> known"
  shows "reads_back (LoadAvatarMsg_write L (map_LoadAvatarMsg (creatable_image L) m)) (LoadAvatarMsg_read L rec) m"
  using assms
  by (cases m) (auto simp: LoadAvatarMsg_read_def intro!: object_intros LoadCloneMsg_read_back
      simp del: wconcat.simps)

lemma callbacks_read_back:
  assumes "list_all (pred_option is_Message) cs" and "set (somes cs) \<subseteq> known"
  shows "reads_back (wconcat (map WriteCreatable (map (map_option (creatable_image L)) cs)))
    (rcount (length cs) (Factory_Read rec is_Message)) cs"
  unfolding map_map
proof (rule reads_back_list)
  fix obj assume "obj \<in> set cs"
  then have "pred_option is_Message obj" "set_option obj \<subseteq> known"
    using assms set_somes_mem [of obj cs] by (auto simp: list_all_iff)
  then show "reads_back ((WriteCreatable \<circ> map_option (creatable_image L)) obj) (Factory_Read rec is_Message) obj"
    by (simp add: pointer_read)
qed

lemma MessageWithCallbacks_read_back:
  assumes "MessageWithCallbacks_wf L m" and "set (somes (mwc_callbacks m)) \<subseteq> known"
  shows "reads_back (MessageWithCallbacks_write L (map_MessageWithCallbacks (creatable_image L) m))
    (MessageWithCallbacks_read L rec) m"
proof (cases m)
  case (MessageWithCallbacks base cs)
  then have "reads_back (wconcat (map WriteCreatable (map (map_option (creatable_image L)) cs)))
      (rcount (unat (of_nat (length cs) :: u32)) (Factory_Read rec is_Message)) cs"
    using assms callbacks_read_back [of cs] by (simp add: unat_of_nat)
  then show ?thesis
    using assms MessageWithCallbacks
    by (auto simp: MessageWithCallbacks_read_def intro!: object_intros simp del: wconcat.simps)
qed

lemma AnimCmdMsg_read_back:
  assumes "node_wf L (N_AnimCmdMsg m)" and "set (node_children (N_AnimCmdMsg m)) \<subseteq> known"
  shows "reads_back (AnimCmdMsg_write L (map_AnimCmdMsg (creatable_image L) m)) (AnimCmdMsg_read L rec) m"
  using assms
  by (cases m) (auto simp: AnimCmdMsg_read_def intro!: object_intros MessageWithCallbacks_read_back
      simp del: wconcat.simps)

lemma CoopCoordinator_read_back:
  assumes "node_wf L (N_CoopCoordinator m)" and "set (node_children (N_CoopCoordinator m)) \<subseteq> known"
  shows "reads_back (CoopCoordinator_write L (map_CoopCoordinator (creatable_image L) m)) (CoopCoordinator_read L rec) m"
proof (cases m)
  case (CoopCoordinator k1 k2 b1 b2 o1 a1 msg s a2)
  then have "set_option b1 \<subseteq> known" "set_option b2 \<subseteq> known" "set_option msg \<subseteq> known"
    using assms(2) by auto
  then show ?thesis
    using assms(1) CoopCoordinator
    by (auto simp: CoopCoordinator_read_def intro!: object_intros simp del: wconcat.simps)
qed

text \<open>
  The writer of \<open>AvBrainGeneric\<close> leaves the flags out, yet two null messages come back: the reader
  takes the low byte of the first null type for an unset flag and its high byte for a set one.
\<close>

lemma null_messages:
  assumes "reads_back (wconcat ws) (f None None) y"
  shows "reads_back (wconcat (WriteCreatable None # WriteCreatable None # ws))
    (rbind (read_flagged rec is_T) (\<lambda>a. rbind (read_flagged rec is_T) (f a))) y"
proof -
  obtain c where c: "wconcat ws = Inr c" "\<And>bs. f None None (c @ bs) = Inr (y, bs)"
    using assms unfolding reads_back_def by blast
  have w: "write_u16 0x8000 = [0, 0x80]" by (simp add: write_u16_def Stream_write_def le_bytes_def upt_rec)
  have "write_u8 0 = [0]" "write_u8 0x80 = [0x80]" by (simp_all add: write_u8_def Stream_write_def le_bytes_def upt_rec)
  then have r: "read_u8 (0 # bs) = Inr (0, bs)" "read_u8 (0x80 # bs) = Inr (0x80, bs)" for bs
    using u8.dec_enc [where x = 0 and bs = bs] u8.dec_enc [where x = "0x80" and bs = bs] by simp_all
  have "read_u16 (0 # 0x80 # bs) = Inr (0x8000, bs)" for bs
    using u16.dec_enc [where x = "0x8000" and bs = bs] w by simp
  then show ?thesis
    unfolding reads_back_def using c
    by (auto simp: WriteCreatable_def w read_flagged_def Stream_read_bool_def r rbind_assoc Factory_Read_def
        ReadCreatable_def null_read)
qed

lemma stage_reads_back:
  assumes "stage_wf L s"
  shows "AnimStage_readBoth L rec (AnimStage_writeBoth L s @ bs) = Inr (s, bs)"
  using assms stage_read [of "fst s"]
  by (cases s) (auto simp: AnimStage_readBoth_def AnimStage_writeBoth_def stage_wf_def reads_back_def rd_simps)

lemma stages_read_back:
  assumes "list_wf 4 (stage_wf L) stages"
  shows "reads_back (Inr (write_list 4 (AnimStage_writeBoth L) stages)) (read_list 4 (AnimStage_readBoth L rec)) stages"
proof -
  have "codec (AnimStage_writeBoth L) (AnimStage_readBoth L rec) (stage_wf L)"
    by unfold_locales (rule stage_reads_back)
  then show ?thesis by (simp add: reads_back_def codec.read_write_list [OF _ assms])
qed

lemma AvBrainGeneric_read_back:
  assumes "AvBrainGeneric_wf L m"
  shows "reads_back (AvBrainGeneric_write L (map_AvBrainGeneric (creatable_image L) m)) (AvBrainGeneric_read L rec) m"
  using assms
  by (cases m) (auto simp: AvBrainGeneric_read_def intro!: null_messages object_intros stages_read_back
      ArmatureBrain_reads_back simp del: wconcat.simps)

lemma AvBrainCoop_read_back:
  assumes "node_wf L (N_AvBrainCoop m)"
  shows "reads_back (AvBrainCoop_write L (map_AvBrainCoop (creatable_image L) m)) (AvBrainCoop_read L rec) m"
  using assms
  by (cases m) (auto simp: AvBrainCoop_read_def intro!: object_intros AvBrainGeneric_read_back simp del: wconcat.simps)

lemma deliveryTime_read_back: "reads_back (Inr (deliveryTime_write t)) deliveryTime_read t"
  by (cases t)
    (auto simp: reads_back_def deliveryTime_write_def deliveryTime_read_def UnifiedTime_isNull_def UnifiedTime_null_def)

lemma NetMsgGameMessage_read_back:
  assumes "NetMsgGameMessage_wf L m" and "set_option (ngm_message m) \<subseteq> known"
  shows "reads_back (NetMsgGameMessage_write L (map_NetMsgGameMessage (creatable_image L) m))
    (NetMsgGameMessage_read L rec) m"
proof (cases m)
  case (NetMsgGameMessage base compression message t)
  then obtain stream where w: "WriteCreatable (map_option (creatable_image L) message) = Inr stream"
    "stream_ok L compression stream"
    using assms(1) by (auto simp: Factory_WriteCreatable_def split: sum.splits)
  have "Factory_Read rec is_Message stream = Inr (message, [])"
    using NetMsgGameMessage assms by (intro reads_back_alone [OF pointer_read w(1)]) auto
  then have "rsub (Factory_Read rec is_Message) stream = rret message" by (simp add: rsub_simp)
  then show ?thesis
    using assms(1) NetMsgGameMessage w
    by (auto simp: NetMsgGameMessage_read_def intro!: reads_back_Cons [OF netMessage.reads_back_enc]
        reads_back_Cons [OF NetMsgStream_reads_back] reads_back_Cons [OF deliveryTime_read_back] reads_back_Nil
        simp del: wconcat.simps)
qed

lemma NetMsgGameMessageDirected_read_back:
  assumes "node_wf L (N_NetMsgGameMessageDirected m)" and "set_option (ngm_message (ngd_base m)) \<subseteq> known"
  shows "reads_back (NetMsgGameMessageDirected_write L (map_NetMsgGameMessageDirected (creatable_image L) m))
    (NetMsgGameMessageDirected_read L rec) m"
proof -
  have "reads_back (Inr (write_list 1 write_u32 xs)) (read_list 1 read_u32) xs" if "list_wf 1 (\<lambda>_. True) xs" for xs
    using that by (simp add: reads_back_def u32.read_write_list)
  then show ?thesis
    using assms
    by (cases m) (auto simp: NetMsgGameMessageDirected_read_def intro!: object_intros NetMsgGameMessage_read_back
        simp del: wconcat.simps One_nat_def)
qed

lemma NetMsgLoadClone_read_back:
  assumes "node_wf L (N_NetMsgLoadClone m)" and "set_option (ngm_message (nlc_base m)) \<subseteq> known"
  shows "reads_back (NetMsgLoadClone_write L (map_NetMsgLoadClone (creatable_image L) m)) (NetMsgLoadClone_read L rec) m"
  using assms
  by (cases m) (auto simp: NetMsgLoadClone_read_def intro!: object_intros NetMsgGameMessage_read_back
      simp del: wconcat.simps)

lemma item_read_back:
  assumes "c \<in> known"
  shows "reads_back (wconcat [Inr (write_u16 i), creatable_image L c]) (item_read rec) (i, c)"
proof -
  have "item_read rec = rbind read_u16 (\<lambda>i. rbind (ReadCreatable rec) (\<lambda>obj.
      case obj of None \<Rightarrow> rfail MalformedData | Some c \<Rightarrow> rret (i, c)))"
    by (simp add: item_read_def ReadCreatable_def rbind_assoc)
  then show ?thesis
    using known_read [OF assms] by (auto simp: reads_back_def)
qed

lemma items_read_back:
  assumes "length items < 2 ^ 16" and "sorted_wrt (<) (map fst items)" and "snd ` set items \<subseteq> known"
  shows "reads_back (items_write (map (map_prod id (creatable_image L)) items)) (items_read rec) items"
proof -
  let ?w = "\<lambda>(i, c). wconcat [Inr (write_u16 i), creatable_image L c]"
  have "reads_back (wconcat (map ?w items)) (rcount (length items) (item_read rec)) items"
    using assms(3) by (intro reads_back_list) (auto intro!: item_read_back simp del: wconcat.simps)
  then have "reads_back (wconcat (map ?w items)) (rbind (rcount (unat (of_nat (length items) :: u16)) (item_read rec))
      (\<lambda>items. rret (foldl (\<lambda>m (i, c). map_insert i c m) [] items))) items"
    using assms(1,2) foldl_map_insert [of "[]" items] by (simp add: unat_of_nat reads_back_rbind)
  then have "reads_back (wconcat (Inr (write_u16 (of_nat (length items))) # map ?w items)) (items_read rec) items"
    unfolding items_read_def by (intro reads_back_Cons [OF u16.reads_back_enc [OF TrueI]])
  moreover have "items_write (map (map_prod id (creatable_image L)) items)
      = wconcat (Inr (write_u16 (of_nat (length items))) # map ?w items)"
    by (simp add: items_write_def o_def case_prod_unfold del: wconcat.simps)
  ultimately show ?thesis by simp
qed

lemma CreatableList_read_back:
  assumes "CreatableList_wf L m" and "snd ` set (cl_items m) \<subseteq> known"
  shows "reads_back (CreatableList_write L (map_CreatableList (creatable_image L) m)) (CreatableList_read L rec) m"
proof (cases m)
  case (CreatableList flags items)
  then obtain buf where w: "items_write (map (map_prod id (creatable_image L)) items) = Inr buf"
    "length buf < 2 ^ 32" "bit flags 0 \<longrightarrow> length buf \<le> 255"
    using assms(1) by (auto split: sum.splits)
  have "items_read rec buf = Inr (items, [])"
    using CreatableList assms by (intro reads_back_alone [OF items_read_back w(1)]) auto
  then have "rsub (items_read rec) buf = rret items" by (simp add: rsub_simp)
  moreover have "reads_back (buffer_write L flags buf) (buffer_read L) (flags, buf)"
    using CreatableList assms(1) w by (intro buffer_reads_back) auto
  ultimately show ?thesis
    using CreatableList w(1) by (auto simp: CreatableList_read_def intro!: reads_back_rbind)
qed

lemma LinkingMgrMsg_read_back:
  assumes "node_wf L (N_LinkingMgrMsg m)" and "set (node_children (N_LinkingMgrMsg m)) \<subseteq> known"
  shows "reads_back (LinkingMgrMsg_write L (map_LinkingMgrMsg (creatable_image L) m)) (LinkingMgrMsg_read L rec) m"
proof (cases m)
  case (LinkingMgrMsg base flags cmd args)
  have get: "BitVector_get flags 0 = Inr (bv_bit flags 0)" "BitVector_get flags 1 = Inr (bv_bit flags 1)"
    using assms(1) LinkingMgrMsg by (auto intro!: BitVector_get_first)
  have "snd ` set (cl_items args) \<subseteq> known" using assms(2) LinkingMgrMsg by simp
  then have args: "bv_bit flags 1 \<Longrightarrow> reads_back (CreatableList_write L (map_CreatableList (creatable_image L) args))
      (CreatableList_read L rec) args" "\<not> bv_bit flags 1 \<Longrightarrow> args = CreatableList 1 []"
    using assms(1) LinkingMgrMsg by (auto intro!: CreatableList_read_back split: if_splits)
  have "LinkingMgrMsg_write L (map_LinkingMgrMsg (creatable_image L) m) = wconcat
      [Inr (Message_write L base), Inr (BitVector_write flags), if bv_bit flags 0 then Inr (write_u8 cmd) else Inr [],
       if bv_bit flags 1 then CreatableList_write L (map_CreatableList (creatable_image L) args) else Inr []]"
    using LinkingMgrMsg get by (simp add: wif_def del: wconcat.simps)
  then show ?thesis
    using assms(1) LinkingMgrMsg args unfolding LinkingMgrMsg_read_def
    by (simp only: node_wf.simps LinkingMgrMsg_wf.simps)
      (intro reads_back_Cons [OF message_c.reads_back_enc] reads_back_Cons [OF bitvec.reads_back_enc]
        reads_back_rlift [OF get(1)] reads_back_rlift [OF get(2)] reads_back_opt [where x = cmd]
        reads_back_opt [where x = args] u8.reads_back_enc reads_back_Nil; simp)
qed

lemmas class_read_back = AvTaskMsg_read_back AvPushBrainMsg_read_back AvSeekMsg_read_back AvOneShotMsg_read_back
  AvTaskBrain_read_back AvCoopMsg_read_back LoadCloneMsg_read_back LoadAvatarMsg_read_back
  MessageWithCallbacks_read_back AnimCmdMsg_read_back CoopCoordinator_read_back AvBrainGeneric_read_back
  AvBrainCoop_read_back NetMsgGameMessage_read_back NetMsgGameMessageDirected_read_back
  NetMsgLoadClone_read_back LinkingMgrMsg_read_back

text \<open>The table has, for every class, a reader for what the class writes.\<close>

lemma node_read_back:
  assumes "node_wf L n" and "set (node_children n) \<subseteq> known"
  shows "\<exists>p. map_of (node_types L rec) (node_type n) = Some p
    \<and> reads_back (node_write L (map_node (creatable_image L) n)) p n"
proof (cases n)
  case (N_plain x)
  then show ?thesis using plain_read_back [of L x rec] assms(1) by simp
qed (use assms in \<open>auto simp: node_types_def plain_types_def simp del: node_wf.simps(2,3,9-11,13,15-19) intro!: reads_back_rmap class_read_back\<close>)

lemma object_read_back:
  assumes "node_wf L n" and "set (node_children n) \<subseteq> known"
  shows "reads_back (creatable_image L (Creatable n)) (ReadCreatable (Factory_Create_read L rec)) (Some (Creatable n))"
  using node_read_back [OF assms] unfolding creatable_image.simps by (blast intro: Create_read_back)

end

section \<open>The factory keeps the promise\<close>

lemma stage_object:
  assumes "AnimStage_wf L a"
  shows "reads_back (Inr (write_u16 0x0371 @ AnimStage_write L a)) (ReadCreatable (Factory_Create_read L rec))
    (Some (Creatable (N_plain (C_AnimStage a))))"
proof -
  obtain p where "map_of (node_types L rec) (node_type (N_plain (C_AnimStage a) :: creatable node)) = Some p"
    "reads_back (plain_write L (C_AnimStage a)) p (N_plain (C_AnimStage a))"
    using plain_read_back [of L "C_AnimStage a" rec] assms by auto
  from Create_read_back [OF this] show ?thesis by simp
qed

lemma Factory_read_promise:
  "object_factory L (Factory_read L (Suc n)) {c. creatable_wf L c \<and> depth c \<le> n}"
proof (induction n)
  case 0
  have d: "depth c > 0" for c by (cases c) (simp add: depth.simps)
  show ?case
    by (simp add: object_factory_def Create_null stage_object) (metis d less_numeral_extra(3))
next
  case (Suc n)
  let ?known = "{c. creatable_wf L c \<and> depth c \<le> n}"
  have "reads_back (creatable_image L c) (ReadCreatable (Factory_Create_read L (Factory_read L (Suc n)))) (Some c)"
    if "creatable_wf L c" "depth c \<le> Suc n" for c
  proof (cases c)
    case (Creatable nd)
    have "set (node_children nd) \<subseteq> ?known"
      using that Creatable depth_children [of _ nd] by (fastforce simp: creatable_wf_children)
    then show ?thesis
      using object_factory.object_read_back [OF Suc] that(1) Creatable by (simp add: creatable_wf_children)
  qed
  then show ?case by (simp add: object_factory_def Create_null stage_object)
qed

interpretation moul: object_factory L "Factory_read L (Suc n)" "{c. creatable_wf L c \<and> depth c \<le> n}" for L n
  by (rule Factory_read_promise)

section \<open>Properties\<close>

text \<open>
  C9: the factory reads back every well-formed object it writes, however deeply nested and whatever
  follows in the stream, given fuel for its nesting depth; a null pointer is read back as null, and a
  type that is not in the table is refused.
\<close>

theorem factory_roundtrip:
  assumes "creatable_wf L c" and "depth c < fuel"
  shows "(\<exists>b. Factory_WriteCreatable L (Some c) = Inr b
      \<and> (\<forall>bs. Factory_ReadCreatable L fuel (b @ bs) = Inr (Some c, bs)))
    \<and> (\<exists>b. Factory_WriteCreatable L None = Inr b
      \<and> (\<forall>bs. Factory_ReadCreatable L fuel (b @ bs) = Inr (None, bs)))
    \<and> (\<forall>type bs. type \<notin> insert 0x8000 (fst ` set (node_types L (Factory_read L (fuel - 1)))) \<longrightarrow>
      Factory_ReadCreatable L fuel (write_u16 type @ bs) = Inl FactoryException)"
proof -
  obtain n where n: "fuel = Suc n" "depth c \<le> n" using assms(2) by (cases fuel) auto
  have "reads_back (creatable_image L c) (Factory_ReadCreatable L fuel) (Some c)"
    unfolding Factory_ReadCreatable_def n(1) using assms(1) n(2) by (intro moul.known_read [of _ _ n]) simp
  then show ?thesis
    by (auto simp: reads_back_def Factory_WriteCreatable_def WriteCreatable_def Factory_ReadCreatable_def
        ReadCreatable_def n(1) Create_null Create_unknown)
qed

definition sample_task :: creatable where
  "sample_task = Creatable (N_AvTaskMsg (AvTaskMsg
     \<lparr>ms_sender = None, ms_receivers = [None], ms_timestamp = 0, ms_bcastFlags = 0x41\<rparr>
     (Some (Creatable (N_AvTaskBrain (AvTaskBrain (Some (Creatable (N_plain (C_AvBrainHuman True))))))))))"

theorem factory_roundtrip_witness:
  "(\<exists>b. Factory_WriteCreatable ascii_lib (Some sample_task) = Inr b
      \<and> (\<forall>bs. Factory_ReadCreatable ascii_lib 4 (b @ bs) = Inr (Some sample_task, bs)))
    \<and> (\<forall>bs. Factory_ReadCreatable ascii_lib 4 (write_u16 0x0001 @ bs) = Inl FactoryException)"
proof -
  have "creatable_wf ascii_lib sample_task" "depth sample_task < 4"
    by (simp_all add: sample_task_def creatable_wf_children depth.simps somes.simps is_AvTask_def
        is_ArmatureBrain_def Message_wf_def Key_wf_def list_wf_def)
  note roundtrip = factory_roundtrip [OF this]
  have "(1 :: u16) \<notin> insert 0x8000 (fst ` set (node_types ascii_lib (Factory_read ascii_lib (4 - 1))))"
    by (simp add: node_types_def plain_types_def)
  then show ?thesis using roundtrip by blast
qed

end
