(* ===== verification/Net_Safety.thy ===== *)
theory Net_Safety
  imports Factory
begin

unbundle bit_operations_syntax

text \<open>
  What the server lets through to other clients: the virtual \<open>makeSafeForNet\<close> of messages, brains,
  tasks and coordinators, which refuses or defuses a message a client must not send. The specification
  \<open>net_safe\<close> says what no forwarded message may contain at any depth; the filter establishes it for
  every message the factory can have read, and lets exactly the messages through that can be made safe.
\<close>

section \<open>makeSafeForNet\<close>

text \<open>
  A check answers whether the object may be sent, and the object as it is afterwards. The nested
  objects come paired with the result of their own check.
\<close>

type_synonym 'a check = "ds_error + bool \<times> 'a"

definition cmap :: "('a \<Rightarrow> 'b) \<Rightarrow> 'a check \<Rightarrow> 'b check" where
  "cmap f r = (case r of Inl e \<Rightarrow> Inl e | Inr (b, x) \<Rightarrow> Inr (b, f x))"

text \<open>\<open>a && b\<close>: \<open>b\<close> is not evaluated, and its object stays as it was, when \<open>a\<close> is false.\<close>

definition cand :: "'a check \<Rightarrow> 'b check \<Rightarrow> 'b \<Rightarrow> ('a \<times> 'b) check" where
  "cand r s old =
     (case r of
        Inl e \<Rightarrow> Inl e
      | Inr (True, x) \<Rightarrow> cmap (Pair x) s
      | Inr (False, x) \<Rightarrow> Inr (False, (x, old)))"

type_synonym checked = "creatable \<times> creatable check"

text \<open>\<open>p == nullptr || p->makeSafeForNet()\<close>.\<close>

definition check_pointer :: "checked option \<Rightarrow> creatable option check" where
  "check_pointer p = (case p of None \<Rightarrow> Inr (True, None) | Some (_, r) \<Rightarrow> cmap Some r)"

fun AvTaskMsg_makeSafeForNet :: "checked AvTaskMsg \<Rightarrow> creatable AvTaskMsg check" where
  "AvTaskMsg_makeSafeForNet (AvTaskMsg base task) = cmap (AvTaskMsg base) (check_pointer task)"

fun AvPushBrainMsg_makeSafeForNet :: "checked AvPushBrainMsg \<Rightarrow> creatable AvPushBrainMsg check" where
  "AvPushBrainMsg_makeSafeForNet (AvPushBrainMsg base brain) =
     cmap (\<lambda>(base, brain). AvPushBrainMsg base brain)
       (cand (AvTaskMsg_makeSafeForNet base) (check_pointer brain) (map_option fst brain))"

fun AvSeekMsg_makeSafeForNet :: "checked AvSeekMsg \<Rightarrow> creatable AvSeekMsg check" where
  "AvSeekMsg_makeSafeForNet (AvSeekMsg base members) =
     cmap (\<lambda>base. AvSeekMsg base members) (AvTaskMsg_makeSafeForNet base)"

fun AvOneShotMsg_makeSafeForNet :: "checked AvOneShotMsg \<Rightarrow> creatable AvOneShotMsg check" where
  "AvOneShotMsg_makeSafeForNet (AvOneShotMsg base members) =
     cmap (\<lambda>base. AvOneShotMsg base members) (AvSeekMsg_makeSafeForNet base)"

fun AvTaskBrain_makeSafeForNet :: "checked AvTaskBrain \<Rightarrow> creatable AvTaskBrain check" where
  "AvTaskBrain_makeSafeForNet (AvTaskBrain brain) = cmap AvTaskBrain (check_pointer brain)"

fun AvCoopMsg_makeSafeForNet :: "checked AvCoopMsg \<Rightarrow> creatable AvCoopMsg check" where
  "AvCoopMsg_makeSafeForNet (AvCoopMsg base coordinator members) =
     cmap (\<lambda>coordinator. AvCoopMsg base coordinator members) (check_pointer coordinator)"

fun LoadCloneMsg_makeSafeForNet :: "checked LoadCloneMsg \<Rightarrow> creatable LoadCloneMsg check" where
  "LoadCloneMsg_makeSafeForNet (LoadCloneMsg base members trigger) =
     cmap (LoadCloneMsg base members) (check_pointer trigger)"

fun LoadAvatarMsg_makeSafeForNet :: "checked LoadAvatarMsg \<Rightarrow> creatable LoadAvatarMsg check" where
  "LoadAvatarMsg_makeSafeForNet (LoadAvatarMsg base isPlayer spawnPoint initTask userString) =
     cmap (\<lambda>(base, initTask). LoadAvatarMsg base isPlayer spawnPoint initTask userString)
       (cand (LoadCloneMsg_makeSafeForNet base) (check_pointer initTask) (map_option fst initTask))"

text \<open>\<open>MessageWithCallbacks::makeSafeForNet\<close> calls through its pointers without a null check.\<close>

fun callbacks_makeSafeForNet :: "checked option list \<Rightarrow> creatable option list check" where
  "callbacks_makeSafeForNet [] = Inr (True, [])"
| "callbacks_makeSafeForNet (None # cs) = Inl UndefinedBehaviour"
| "callbacks_makeSafeForNet (Some c # cs) =
     cmap (\<lambda>(c, cs). c # cs)
       (cand (check_pointer (Some c)) (callbacks_makeSafeForNet cs) (map (map_option fst) cs))"

fun MessageWithCallbacks_makeSafeForNet ::
  "checked MessageWithCallbacks \<Rightarrow> creatable MessageWithCallbacks check" where
  "MessageWithCallbacks_makeSafeForNet (MessageWithCallbacks base callbacks) =
     cmap (MessageWithCallbacks base) (callbacks_makeSafeForNet callbacks)"

fun AnimCmdMsg_makeSafeForNet :: "checked AnimCmdMsg \<Rightarrow> creatable AnimCmdMsg check" where
  "AnimCmdMsg_makeSafeForNet (AnimCmdMsg base members) =
     cmap (\<lambda>base. AnimCmdMsg base members) (MessageWithCallbacks_makeSafeForNet base)"

fun AvBrainGeneric_makeSafeForNet :: "'c AvBrainGeneric \<Rightarrow> bool" where
  "AvBrainGeneric_makeSafeForNet (AvBrainGeneric _ _ startMessage endMessage _) =
     (startMessage = None \<and> endMessage = None)"

fun CoopCoordinator_makeSafeForNet :: "checked CoopCoordinator \<Rightarrow> creatable CoopCoordinator check" where
  "CoopCoordinator_makeSafeForNet
     (CoopCoordinator hostKey guestKey hostBrain guestBrain offerStage acceptStage acceptMsg synchBone autoStart) =
     cmap (\<lambda>((hostBrain, guestBrain), acceptMsg).
             CoopCoordinator hostKey guestKey hostBrain guestBrain offerStage acceptStage acceptMsg
               synchBone autoStart)
       (cand (cand (check_pointer hostBrain) (check_pointer guestBrain) (map_option fst guestBrain))
          (check_pointer acceptMsg) (map_option fst acceptMsg))"

text \<open>
  The classes without nested objects: input events, warps and backdoor messages are refused, chat
  messages are defused (\<open>KIMessage_makeSafeForNet\<close>), all others pass.
\<close>

fun plain_makeSafeForNet :: "plain \<Rightarrow> bool \<times> plain" where
  "plain_makeSafeForNet (C_InputEventMsg m) = (False, C_InputEventMsg m)"
| "plain_makeSafeForNet (C_ControlEventMsg m) = (False, C_ControlEventMsg m)"
| "plain_makeSafeForNet (C_WarpMsg m) = (False, C_WarpMsg m)"
| "plain_makeSafeForNet (C_BackdoorMsg m) = (False, C_BackdoorMsg m)"
| "plain_makeSafeForNet (C_KIMessage m) = map_prod id C_KIMessage (KIMessage_makeSafeForNet m)"
| "plain_makeSafeForNet x = (True, x)"

text \<open>The virtual call. Network messages have no such method; they are never asked.\<close>

fun node_makeSafeForNet :: "checked node \<Rightarrow> creatable node check" where
  "node_makeSafeForNet (N_plain x) = Inr (map_prod id N_plain (plain_makeSafeForNet x))"
| "node_makeSafeForNet (N_CoopCoordinator m) = cmap N_CoopCoordinator (CoopCoordinator_makeSafeForNet m)"
| "node_makeSafeForNet (N_AnimCmdMsg m) = cmap N_AnimCmdMsg (AnimCmdMsg_makeSafeForNet m)"
| "node_makeSafeForNet (N_LoadCloneMsg m) = cmap N_LoadCloneMsg (LoadCloneMsg_makeSafeForNet m)"
| "node_makeSafeForNet (N_MessageWithCallbacks m) =
     cmap N_MessageWithCallbacks (MessageWithCallbacks_makeSafeForNet m)"
| "node_makeSafeForNet (N_AvTaskMsg m) = cmap N_AvTaskMsg (AvTaskMsg_makeSafeForNet m)"
| "node_makeSafeForNet (N_AvSeekMsg m) = cmap N_AvSeekMsg (AvSeekMsg_makeSafeForNet m)"
| "node_makeSafeForNet (N_AvOneShotMsg m) = cmap N_AvOneShotMsg (AvOneShotMsg_makeSafeForNet m)"
| "node_makeSafeForNet (N_LinkingMgrMsg m) = Inr (False, N_LinkingMgrMsg (map_LinkingMgrMsg fst m))"
| "node_makeSafeForNet (N_AvBrainGeneric m) =
     Inr (AvBrainGeneric_makeSafeForNet m, N_AvBrainGeneric (map_AvBrainGeneric fst m))"
| "node_makeSafeForNet (N_AvPushBrainMsg m) = cmap N_AvPushBrainMsg (AvPushBrainMsg_makeSafeForNet m)"
| "node_makeSafeForNet (N_AvPopBrainMsg m) = cmap N_AvPopBrainMsg (AvTaskMsg_makeSafeForNet m)"
| "node_makeSafeForNet (N_AvTaskBrain m) = cmap N_AvTaskBrain (AvTaskBrain_makeSafeForNet m)"
| "node_makeSafeForNet (N_LoadAvatarMsg m) = cmap N_LoadAvatarMsg (LoadAvatarMsg_makeSafeForNet m)"
| "node_makeSafeForNet (N_AvCoopMsg m) = cmap N_AvCoopMsg (AvCoopMsg_makeSafeForNet m)"
| "node_makeSafeForNet (N_AvBrainCoop m) =
     Inr (AvBrainGeneric_makeSafeForNet (abc_base m), N_AvBrainCoop (map_AvBrainCoop fst m))"
| "node_makeSafeForNet n = Inr (True, map_node fst n)"

primrec makeSafeForNet :: "creatable \<Rightarrow> creatable check" where
  "makeSafeForNet (Creatable n) =
     cmap Creatable (node_makeSafeForNet (map_node (\<lambda>c. (c, makeSafeForNet c)) n))"

section \<open>What may be sent\<close>

fun plain_safe :: "plain \<Rightarrow> bool" where
  "plain_safe (C_InputEventMsg _) = False"
| "plain_safe (C_ControlEventMsg _) = False"
| "plain_safe (C_WarpMsg _) = False"
| "plain_safe (C_BackdoorMsg _) = False"
| "plain_safe (C_KIMessage m) = (ki_command m = 0 \<and> \<not> bit (ki_flags m) 1)"
| "plain_safe _ = True"

fun node_safe :: "'c node \<Rightarrow> bool" where
  "node_safe (N_plain x) = plain_safe x"
| "node_safe (N_LinkingMgrMsg _) = False"
| "node_safe (N_AvBrainGeneric m) = (abg_startMessage m = None \<and> abg_endMessage m = None)"
| "node_safe (N_AvBrainCoop m) = (abg_startMessage (abc_base m) = None \<and> abg_endMessage (abc_base m) = None)"
| "node_safe _ = True"

primrec net_safe :: "creatable \<Rightarrow> bool" where
  "net_safe (Creatable n) \<longleftrightarrow> node_safe n \<and> list_all (\<lambda>b. b) (node_children (map_node net_safe n))"

lemma net_safe_children:
  "net_safe (Creatable n) \<longleftrightarrow> node_safe n \<and> (\<forall>c \<in> set (node_children n). net_safe c)"
  by (simp add: node_children_map list_all_iff)

section \<open>The filter establishes it\<close>

lemma cmap_True [simp]: "cmap f r = Inr (True, y) \<longleftrightarrow> (\<exists>x. r = Inr (True, x) \<and> y = f x)"
  by (auto simp: cmap_def split: sum.splits)

lemma cand_True [simp]:
  "cand r s old = Inr (True, p) \<longleftrightarrow> (\<exists>x y. r = Inr (True, x) \<and> s = Inr (True, y) \<and> p = (x, y))"
  by (auto simp: cand_def split: sum.splits bool.splits)

lemma check_pointer_True [simp]:
  "check_pointer p = Inr (True, q) \<longleftrightarrow>
     (p = None \<and> q = None) \<or> (\<exists>c c'. p = Some (c, Inr (True, c')) \<and> q = Some c')"
  by (auto simp: check_pointer_def split: option.splits)

text \<open>
  The classes whose objects have a \<open>makeSafeForNet\<close>, and the objects all of whose pointers lead to
  such classes, apart from those in creatable lists.
\<close>

definition checkable :: "creatable \<Rightarrow> bool" where
  "checkable c \<longleftrightarrow> node_class (node_of c) \<noteq> B_NetMessage \<and> node_class (node_of c) \<noteq> B_Other"

fun node_cast :: "creatable node \<Rightarrow> bool" where
  "node_cast (N_LinkingMgrMsg _) = True"
| "node_cast n = list_all checkable (node_children n)"

primrec well_cast :: "creatable \<Rightarrow> bool" where
  "well_cast (Creatable n) \<longleftrightarrow> node_cast n \<and> list_all (\<lambda>b. b) (node_children (map_node well_cast n))"

lemma well_cast_children:
  "well_cast (Creatable n) \<longleftrightarrow> node_cast n \<and> (\<forall>c \<in> set (node_children n). well_cast c)"
  by (simp add: node_children_map list_all_iff)

declare net_safe.simps [simp del] well_cast.simps [simp del]

lemma set_somes_iff: "c \<in> set (somes objs) \<longleftrightarrow> Some c \<in> set objs"
  by (induction objs) auto

lemma children_induct [case_names node]:
  assumes "\<And>n. (\<And>c. c \<in> set (node_children n) \<Longrightarrow> P c) \<Longrightarrow> P (Creatable n)"
  shows "P c"
proof (induction c rule: measure_induct_rule [of depth])
  case (less c)
  then show ?case using assms depth_children by (cases c) auto
qed

lemma plain_made_safe: "plain_makeSafeForNet x = (True, y) \<Longrightarrow> plain_safe y"
  by (cases x)
    (auto simp: KIMessage_makeSafeForNet_def bit_simps split: if_splits)

lemma callbacks_made_safe:
  "callbacks_makeSafeForNet (map (map_option (\<lambda>c. (c, r c))) cs) = Inr (True, qs) \<Longrightarrow>
   \<forall>c' \<in> set (somes qs). \<exists>c \<in> set (somes cs). r c = Inr (True, c')"
proof (induction cs arbitrary: qs)
  case (Cons c cs)
  then show ?case by (cases c) fastforce+
qed simp

text \<open>
  The node that comes back is made of the checked objects: what its own class forbids is gone, and
  each nested object is the result of a successful check.
\<close>

lemma node_made_safe:
  assumes "node_makeSafeForNet (map_node (\<lambda>c. (c, r c)) n) = Inr (True, n')"
    and "node_class n \<noteq> B_NetMessage"
  shows "node_safe n' \<and> (\<forall>c' \<in> set (node_children n'). \<exists>c \<in> set (node_children n). r c = Inr (True, c'))"
proof (cases n)
  case (N_AnimCmdMsg m)
  then show ?thesis
    using assms(1) by (cases m; cases "acmd_base m") (auto dest: callbacks_made_safe)
next
  case (N_MessageWithCallbacks m)
  then show ?thesis
    using assms(1) by (cases m) (auto dest: callbacks_made_safe)
next
  case (N_AvSeekMsg m)
  then show ?thesis using assms(1) by (cases m; cases "as_base m") auto
next
  case (N_AvOneShotMsg m)
  then show ?thesis using assms(1) by (cases m; cases "aos_base m"; cases "as_base (aos_base m)") auto
next
  case (N_AvPushBrainMsg m)
  then show ?thesis using assms(1) by (cases m; cases "apb_base m") auto
next
  case (N_LoadAvatarMsg m)
  then show ?thesis using assms(1) by (cases m; cases "lam_base m") auto
next
  case (N_AvBrainGeneric m)
  then show ?thesis using assms(1) by (cases m) (auto simp: somes.simps)
next
  case (N_AvBrainCoop m)
  then show ?thesis using assms(1) by (cases m; cases "abc_base m") (auto simp: somes.simps)
next
  case (N_plain x)
  then show ?thesis using assms(1) plain_made_safe [of x] by (cases "plain_makeSafeForNet x") auto
next
  case (N_CoopCoordinator m)
  then show ?thesis using assms(1) by (cases m) auto
next
  case (N_LoadCloneMsg m)
  then show ?thesis using assms(1) by (cases m) auto
next
  case (N_AvTaskMsg m)
  then show ?thesis using assms(1) by (cases m) auto
next
  case (N_AvPopBrainMsg m)
  then show ?thesis using assms(1) by (cases m) auto
next
  case (N_AvTaskBrain m)
  then show ?thesis using assms(1) by (cases m) auto
next
  case (N_AvCoopMsg m)
  then show ?thesis using assms(1) by (cases m) auto
qed (use assms in auto)

lemma made_safe:
  "well_cast c \<Longrightarrow> checkable c \<Longrightarrow> makeSafeForNet c = Inr (True, c') \<Longrightarrow> net_safe c'"
proof (induction c arbitrary: c' rule: children_induct)
  case (node n)
  then obtain n' where n': "node_makeSafeForNet (map_node (\<lambda>c. (c, makeSafeForNet c)) n) = Inr (True, n')"
    "c' = Creatable n'" by auto
  have "node_class n \<noteq> B_NetMessage" using node.prems(2) by (simp add: checkable_def)
  note safe = node_made_safe [OF n'(1) this]
  show ?case
  proof (cases "\<exists>m. n = N_LinkingMgrMsg m")
    case True
    then show ?thesis using n' by auto
  next
    case False
    then have "\<forall>c \<in> set (node_children n). checkable c"
      using node.prems(1) by (cases n) (auto simp: well_cast_children list_all_iff)
    then show ?thesis
      using safe node.IH node.prems(1) unfolding n'(2) net_safe_children by (metis well_cast_children)
  qed
qed

section \<open>What the factory can have read\<close>

text \<open>Every result of the reader satisfies the predicate.\<close>

definition yields :: "'a rd \<Rightarrow> ('a \<Rightarrow> bool) \<Rightarrow> bool" where
  "yields p P \<longleftrightarrow> (\<forall>bs x bs'. p bs = Inr (x, bs') \<longrightarrow> P x)"

lemma yieldsD: "yields p P \<Longrightarrow> p bs = Inr (x, bs') \<Longrightarrow> P x"
  unfolding yields_def by blast

lemma yields_rret: "P x \<Longrightarrow> yields (rret x) P"
  by (simp add: yields_def)

lemma yields_rfail: "yields (rfail e) P"
  by (simp add: yields_def)

lemma yields_rbind: "yields p Q \<Longrightarrow> (\<And>x. Q x \<Longrightarrow> yields (f x) P) \<Longrightarrow> yields (rbind p f) P"
  unfolding yields_def by (simp add: rbind_eq_Inr) blast

lemma yields_skip: "(\<And>x. yields (f x) P) \<Longrightarrow> yields (rbind p f) P"
  by (rule yields_rbind [where Q = "\<lambda>_. True"]) (simp_all add: yields_def)

lemma yields_if: "yields p P \<Longrightarrow> yields q P \<Longrightarrow> yields (if b then p else q) P"
  by simp

lemma yields_rmap: "yields p (\<lambda>x. P (f x)) \<Longrightarrow> yields (rmap f p) P"
  unfolding rmap_def by (erule yields_rbind) (rule yields_rret)

lemma yields_rcount: "yields p P \<Longrightarrow> yields (rcount n p) (list_all P)"
proof (induction n)
  case (Suc n)
  then show ?case by (auto intro!: yields_rbind [of p P] yields_rbind [of _ "list_all P"] yields_rret)
qed (simp add: yields_rret)

lemma yields_rsub: "yields p P \<Longrightarrow> yields (rsub p stream) P"
  unfolding rsub_def yields_def by (auto simp: rlift_def split: sum.splits)

definition pointer_ok :: "creatable option \<Rightarrow> bool" where
  "pointer_ok obj \<longleftrightarrow> pred_option (\<lambda>c. well_cast c \<and> checkable c) obj"

lemma pointers_ok: "list_all pointer_ok objs \<Longrightarrow> c \<in> set (somes objs) \<Longrightarrow> well_cast c \<and> checkable c"
  by (induction objs) (auto simp: pointer_ok_def option.pred_set)

lemma node_ok:
  assumes "node_children n = somes objs" and "list_all pointer_ok objs"
  shows "well_cast (Creatable n)"
proof -
  have "\<forall>c \<in> set (node_children n). well_cast c \<and> checkable c" using pointers_ok [OF assms(2)] assms(1) by simp
  then show ?thesis by (cases n) (auto simp: well_cast_children list_all_iff)
qed

text \<open>A pointer type all of whose objects have the check.\<close>

definition casts :: "(creatable \<Rightarrow> bool) \<Rightarrow> bool" where
  "casts is_T \<longleftrightarrow> (\<forall>c. is_T c \<longrightarrow> checkable c)"

lemma casts_all: "casts is_Message" "casts is_AvTask" "casts is_ArmatureBrain" "casts is_AvBrainCoop"
  "casts is_CoopCoordinator"
  by (auto simp: casts_def is_Message_def is_AvTask_def is_ArmatureBrain_def is_AvBrainCoop_def
      is_CoopCoordinator_def checkable_def)

lemma pointer_ok_None [simp]: "pointer_ok None"
  by (simp add: pointer_ok_def)

lemma map_insert_values: "snd ` set (map_insert k v m) \<subseteq> insert v (snd ` set m)"
  by (induction k v m rule: map_insert.induct) auto

lemma foldl_insert_values:
  "snd ` set (foldl (\<lambda>m (i, c). map_insert i c m) acc items) \<subseteq> snd ` set acc \<union> snd ` set items"
proof (induction items arbitrary: acc)
  case (Cons x items)
  show ?case
    using Cons.IH [of "map_insert (fst x) (snd x) acc"] map_insert_values [of "fst x" "snd x" acc]
    by (simp add: split_beta) blast
qed simp

lemma yields_weaken: "yields p P \<Longrightarrow> (\<And>x. P x \<Longrightarrow> Q x) \<Longrightarrow> yields p Q"
  unfolding yields_def by blast

lemma plain_yields: "yields p (\<lambda>x. well_cast (Creatable (N_plain x)))"
  by (simp add: yields_def well_cast_children)

lemmas nodes_ok = node_children.simps(2-10,12-) [THEN node_ok]

text \<open>A factory whose objects are well cast.\<close>

locale casting_factory =
  fixes rec :: factory
  assumes rec_yields: "yields (rec type) (pred_option well_cast)"
begin

lemma ReadCreatable_yields: "yields (ReadCreatable rec) (pred_option well_cast)"
  unfolding ReadCreatable_def by (rule yields_skip) (rule rec_yields)

lemma Factory_Read_yields: "casts is_T \<Longrightarrow> yields (Factory_Read rec is_T) pointer_ok"
  unfolding Factory_Read_def casts_def
  by (rule yields_rbind [OF ReadCreatable_yields])
    (auto intro!: yields_rret simp: pointer_ok_def split: option.splits)

lemma read_flagged_yields: "casts is_T \<Longrightarrow> yields (read_flagged rec is_T) pointer_ok"
  unfolding read_flagged_def
  by (rule yields_skip, rule yields_if, erule Factory_Read_yields, rule yields_rret, simp)

lemmas pointer_steps = yields_rbind [OF Factory_Read_yields] yields_rbind [OF read_flagged_yields]

lemma AvTaskMsg_yields: "yields (AvTaskMsg_read L rec) (\<lambda>m. pointer_ok (atm_task m))"
  unfolding AvTaskMsg_read_def
  by (rule pointer_steps yields_skip yields_rret casts_all | simp)+

lemma AvSeekMsg_yields: "yields (AvSeekMsg_read L rec) (\<lambda>m. pointer_ok (atm_task (as_base m)))"
  unfolding AvSeekMsg_read_def
  by (rule yields_rbind [OF AvTaskMsg_yields], rule yields_skip, rule yields_rret) simp

lemma LoadCloneMsg_yields: "yields (LoadCloneMsg_read L rec) (\<lambda>m. pointer_ok (lcm_triggerMsg m))"
  unfolding LoadCloneMsg_read_def
  by (rule pointer_steps yields_skip yields_rret casts_all | simp)+

lemma MessageWithCallbacks_yields:
  "yields (MessageWithCallbacks_read L rec) (\<lambda>m. list_all pointer_ok (mwc_callbacks m))"
  unfolding MessageWithCallbacks_read_def
  by (rule yields_skip, rule yields_skip, rule yields_rbind [OF yields_rcount [OF Factory_Read_yields]],
      rule casts_all, rule yields_rret) simp

lemma AvBrainGeneric_yields:
  "yields (AvBrainGeneric_read L rec) (\<lambda>m. pointer_ok (abg_startMessage m) \<and> pointer_ok (abg_endMessage m))"
  unfolding AvBrainGeneric_read_def
  by (rule pointer_steps yields_skip yields_rret casts_all | simp)+

lemma CoopCoordinator_yields:
  "yields (CoopCoordinator_read L rec)
     (\<lambda>m. pointer_ok (cc_hostBrain m) \<and> pointer_ok (cc_guestBrain m) \<and> pointer_ok (cc_acceptMsg m))"
  unfolding CoopCoordinator_read_def
  by (rule pointer_steps yields_skip yields_rret casts_all | simp)+

lemma NetMsgGameMessage_yields: "yields (NetMsgGameMessage_read L rec) (\<lambda>m. pointer_ok (ngm_message m))"
  unfolding NetMsgGameMessage_read_def split_beta
  by (rule yields_skip, rule yields_skip, rule yields_rbind [OF yields_rsub [OF Factory_Read_yields]],
      rule casts_all, rule yields_skip, rule yields_rret) simp

lemma items_yields: "yields (items_read rec) (\<lambda>items. \<forall>c \<in> snd ` set items. well_cast c)"
proof -
  have item: "yields (item_read rec) (\<lambda>x. well_cast (snd x))"
    unfolding item_read_def
    by (rule yields_skip, rule yields_skip, rule yields_rbind [OF rec_yields])
      (auto intro!: yields_rret yields_rfail split: option.splits)
  have vals: "\<forall>c \<in> snd ` set (foldl (\<lambda>m (i, c). map_insert i c m) [] items). well_cast c"
    if "list_all (\<lambda>x. well_cast (snd x)) items" for items :: "(u16 \<times> creatable) list"
    using foldl_insert_values [of "[]" items] that by (fastforce simp: list_all_iff)
  show ?thesis
    unfolding items_read_def
    by (rule yields_skip, rule yields_rbind [OF yields_rcount [OF item]], rule yields_rret, erule vals)
qed

lemma LinkingMgrMsg_yields: "yields (LinkingMgrMsg_read L rec) (\<lambda>m. well_cast (Creatable (N_LinkingMgrMsg m)))"
proof -
  have "yields (CreatableList_read L rec) (\<lambda>m. \<forall>c \<in> snd ` set (cl_items m). well_cast c)"
    unfolding CreatableList_read_def split_beta
    by (rule yields_skip, rule yields_rbind [OF yields_rsub [OF items_yields]], rule yields_rret) simp
  then have *: "yields (if b then CreatableList_read L rec else rret (CreatableList 1 []))
      (\<lambda>m. \<forall>c \<in> snd ` set (cl_items m). well_cast c)" for b
    by (intro yields_if yields_rret) simp_all
  show ?thesis
    unfolding LinkingMgrMsg_read_def
    by (rule yields_skip, rule yields_skip, rule yields_skip, rule yields_skip, rule yields_skip,
        rule yields_rbind [OF *], rule yields_rret) (simp add: well_cast_children)
qed

lemmas class_yields = AvTaskMsg_yields AvSeekMsg_yields LoadCloneMsg_yields MessageWithCallbacks_yields
  AvBrainGeneric_yields CoopCoordinator_yields NetMsgGameMessage_yields

lemmas class_steps = class_yields [THEN yields_rbind] pointer_steps

lemma derived_yields:
  "yields (AvPushBrainMsg_read L rec) (\<lambda>m. pointer_ok (atm_task (apb_base m)) \<and> pointer_ok (apb_brain m))"
  "yields (AvOneShotMsg_read L rec) (\<lambda>m. pointer_ok (atm_task (as_base (aos_base m))))"
  "yields (AvTaskBrain_read rec) (\<lambda>m. pointer_ok (atb_brain m))"
  "yields (AvCoopMsg_read L rec) (\<lambda>m. pointer_ok (acm_coordinator m))"
  "yields (LoadAvatarMsg_read L rec) (\<lambda>m. pointer_ok (lcm_triggerMsg (lam_base m)) \<and> pointer_ok (lam_initTask m))"
  "yields (AnimCmdMsg_read L rec) (\<lambda>m. list_all pointer_ok (mwc_callbacks (acmd_base m)))"
  "yields (AvBrainCoop_read L rec)
     (\<lambda>m. pointer_ok (abg_startMessage (abc_base m)) \<and> pointer_ok (abg_endMessage (abc_base m)))"
  "yields (NetMsgGameMessageDirected_read L rec) (\<lambda>m. pointer_ok (ngm_message (ngd_base m)))"
  "yields (NetMsgLoadClone_read L rec) (\<lambda>m. pointer_ok (ngm_message (nlc_base m)))"
  unfolding AvPushBrainMsg_read_def AvOneShotMsg_read_def AvTaskBrain_read_def AvCoopMsg_read_def
    LoadAvatarMsg_read_def AnimCmdMsg_read_def AvBrainCoop_read_def NetMsgGameMessageDirected_read_def
    NetMsgLoadClone_read_def
  by (rule class_steps yields_skip yields_rret casts_all | simp)+

lemma node_yields:
  assumes "(type, p) \<in> set (node_types L rec)"
  shows "yields p (\<lambda>n. well_cast (Creatable n))"
  using assms unfolding node_types_def
  by (auto intro!: yields_rmap LinkingMgrMsg_yields plain_yields
      class_yields [THEN yields_weaken] derived_yields [THEN yields_weaken] nodes_ok)

lemma Factory_Create_read_yields: "yields (Factory_Create_read L rec type) (pred_option well_cast)"
proof (cases "map_of (node_types L rec) type")
  case (Some p)
  then show ?thesis
    using node_yields [OF map_of_SomeD] by (auto simp: Factory_Create_read_def intro!: yields_rmap)
qed (auto simp: Factory_Create_read_def intro: yields_rret yields_rfail)

end

lemma Factory_read_casting: "casting_factory (Factory_read L fuel)"
proof (induction fuel)
  case (Suc fuel)
  then show ?case by (simp add: casting_factory.intro casting_factory.Factory_Create_read_yields)
qed (simp add: casting_factory_def yields_def)

interpretation moul_cast: casting_factory "Factory_read L fuel" for L fuel
  by (rule Factory_read_casting)

section \<open>Completeness\<close>

text \<open>
  An object that is safe already, with no null among its callbacks, passes the filter unchanged: the
  server never drops or alters such a message.
\<close>

fun callbacks_set :: "'c node \<Rightarrow> bool" where
  "callbacks_set (N_AnimCmdMsg m) = (None \<notin> set (mwc_callbacks (acmd_base m)))"
| "callbacks_set (N_MessageWithCallbacks m) = (None \<notin> set (mwc_callbacks m))"
| "callbacks_set _ = True"

primrec callbacks_ok :: "creatable \<Rightarrow> bool" where
  "callbacks_ok (Creatable n) \<longleftrightarrow> callbacks_set n \<and> list_all (\<lambda>b. b) (node_children (map_node callbacks_ok n))"

lemma callbacks_ok_children:
  "callbacks_ok (Creatable n) \<longleftrightarrow> callbacks_set n \<and> (\<forall>c \<in> set (node_children n). callbacks_ok c)"
  by (simp add: node_children_map list_all_iff)

declare callbacks_ok.simps [simp del]

lemma callbacks_pass:
  assumes "None \<notin> set cs" and "\<forall>c \<in> set (somes cs). r c = Inr (True, c)"
  shows "callbacks_makeSafeForNet (map (map_option (\<lambda>c. (c, r c))) cs) = Inr (True, cs)"
  using assms
proof (induction cs)
  case (Cons c cs)
  then show ?case by (cases c) auto
qed simp

lemma pointer_pass:
  "\<forall>c \<in> set (somes [p]). r c = Inr (True, c) \<Longrightarrow> check_pointer (map_option (\<lambda>c. (c, r c)) p) = Inr (True, p)"
  by (cases p) auto

lemma plain_pass:
  assumes "plain_safe x"
  shows "plain_makeSafeForNet x = (True, x)"
proof (cases x)
  case (C_KIMessage m)
  then have "ki_flags m AND NOT 2 = ki_flags m"
    using assms by (intro bit_eqI) (auto simp: bit_simps)
  then show ?thesis using C_KIMessage assms by (simp add: KIMessage_makeSafeForNet_def)
qed (use assms in auto)

lemma node_pass:
  assumes "node_safe n" and "callbacks_set n" and "\<forall>c \<in> set (node_children n). r c = Inr (True, c)"
  shows "node_makeSafeForNet (map_node (\<lambda>c. (c, r c)) n) = Inr (True, n)"
proof (cases n)
  case (N_AnimCmdMsg m)
  then show ?thesis
    using assms by (cases m; cases "acmd_base m") (simp add: callbacks_pass)
next
  case (N_MessageWithCallbacks m)
  then show ?thesis using assms by (cases m) (simp add: callbacks_pass)
next
  case (N_AvSeekMsg m)
  then show ?thesis using assms by (cases m; cases "as_base m") (simp add: pointer_pass del: somes.simps)
next
  case (N_AvOneShotMsg m)
  then show ?thesis
    using assms by (cases m; cases "aos_base m"; cases "as_base (aos_base m)") (simp add: pointer_pass del: somes.simps)
next
  case (N_AvPushBrainMsg m)
  then show ?thesis using assms by (cases m; cases "apb_base m") (simp add: pointer_pass)
next
  case (N_LoadAvatarMsg m)
  then show ?thesis using assms by (cases m; cases "lam_base m") (simp add: pointer_pass)
next
  case (N_AvBrainGeneric m)
  then show ?thesis using assms by (cases m) simp
next
  case (N_AvBrainCoop m)
  then show ?thesis using assms by (cases m; cases "abc_base m") simp
next
  case (N_plain x)
  then show ?thesis using assms plain_pass by simp
next
  case (N_CoopCoordinator m)
  then show ?thesis using assms by (cases m) (simp add: pointer_pass)
next
  case (N_LoadCloneMsg m)
  then show ?thesis using assms by (cases m) (simp add: pointer_pass)
next
  case (N_AvTaskMsg m)
  then show ?thesis using assms by (cases m) (simp add: pointer_pass)
next
  case (N_AvPopBrainMsg m)
  then show ?thesis using assms by (cases m) (simp add: pointer_pass)
next
  case (N_AvTaskBrain m)
  then show ?thesis using assms by (cases m) (simp add: pointer_pass)
next
  case (N_AvCoopMsg m)
  then show ?thesis using assms by (cases m) (simp add: pointer_pass)
qed (use assms in \<open>simp_all add: NetMsgGameMessage.map_comp NetMsgGameMessageDirected.map_comp NetMsgLoadClone.map_comp comp_def NetMsgGameMessage.map_ident NetMsgGameMessageDirected.map_ident NetMsgLoadClone.map_ident\<close>)

lemma safe_passes:
  "net_safe c \<Longrightarrow> callbacks_ok c \<Longrightarrow> makeSafeForNet c = Inr (True, c)"
proof (induction c rule: children_induct)
  case (node n)
  then have "\<forall>c \<in> set (node_children n). makeSafeForNet c = Inr (True, c)"
    by (simp add: net_safe_children callbacks_ok_children)
  then show ?case
    using node.prems by (simp add: node_pass net_safe_children callbacks_ok_children)
qed

section \<open>Properties\<close>

text \<open>
  C1: whatever bytes a client sends, when the factory reads a game message from them and
  \<open>makeSafeForNet\<close> accepts the message inside, then the object that is passed on is safe at every depth:
  no input event, warp, backdoor or linking manager message, no chat message with a server command or an
  admin flag, and no brain with a start or end message, not even inside the tasks, brains, callbacks and
  coordinators it carries.
\<close>

theorem accepted_message_is_safe:
  assumes "Factory_ReadCreatable L fuel bs = Inr (Some (Creatable n), bs')"
    and "n = N_NetMsgGameMessage m \<or> n = N_NetMsgGameMessageDirected (NetMsgGameMessageDirected m receivers)
       \<or> n = N_NetMsgLoadClone (NetMsgLoadClone m object isPlayer isLoading isInitialState)"
    and "ngm_message m = Some msg" and "makeSafeForNet msg = Inr (True, msg')"
  shows "net_safe msg'"
proof -
  have "well_cast (Creatable n)"
    using yieldsD [OF moul_cast.ReadCreatable_yields assms(1) [unfolded Factory_ReadCreatable_def]] by simp
  then have "well_cast msg" "checkable msg"
    using assms(2,3) by (auto simp: well_cast_children somes.simps)
  then show ?thesis using assms(4) by (rule made_safe)
qed

definition sample_chat :: "u32 \<Rightarrow> creatable" where
  "sample_chat flags = Creatable (N_plain (C_KIMessage
     \<lparr>ki_base = \<lparr>ms_sender = None, ms_receivers = [], ms_timestamp = 0, ms_bcastFlags = 0x41\<rparr>,
      ki_command = 0, ki_user = [], ki_playerId = 7, ki_string = [72, 105], ki_flags = flags, ki_delay = 0,
      ki_value = 0\<rparr>))"

definition sample_game :: "creatable NetMsgGameMessage" where
  "sample_game = NetMsgGameMessage
     \<lparr>nt_contentFlags = 0, nt_protocolVerMaj = 12, nt_protocolVerMin = 6, nt_timestamp = UnifiedTime_null,
      nt_context = 0, nt_transId = 0, nt_playerId = 0, nt_acctId = Uuid_null\<rparr>
     0 (Some (sample_chat 3)) UnifiedTime_null"

lemma sample_game_wf: "creatable_wf ascii_lib (Creatable (N_NetMsgGameMessage sample_game))"
proof -
  have chat: "creatable_wf ascii_lib (sample_chat 3)"
    by (simp add: sample_chat_def creatable_wf_children KIMessage_wf_def Message_wf_def Key_wf_def list_wf_def
        safe_ok_def ascii_lib_def buf_front_def)
  obtain b where b: "Factory_WriteCreatable ascii_lib (Some (sample_chat 3)) = Inr b" "length b < 2 ^ 32"
    by (simp add: Factory_WriteCreatable_def WriteCreatable_def sample_chat_def KIMessage_write_def Message_write_def
        Key_write_def write_list_def Stream_writeSafeString_def to_narrow_def Let_def ascii_lib_def)
  show ?thesis
    using chat b
    by (simp add: sample_game_def creatable_wf_children somes.simps NetMessage_wf_def stream_ok_def is_Message_def
        sample_chat_def)
qed

theorem accepted_message_is_safe_witness:
  "\<exists>b. Factory_ReadCreatable ascii_lib 3 b = Inr (Some (Creatable (N_NetMsgGameMessage sample_game)), [])
     \<and> makeSafeForNet (sample_chat 3) = Inr (True, sample_chat 1) \<and> net_safe (sample_chat 1)"
proof -
  obtain b where b: "Factory_ReadCreatable ascii_lib 3 b = Inr (Some (Creatable (N_NetMsgGameMessage sample_game)), [])"
    using moul.known_read [of "Creatable (N_NetMsgGameMessage sample_game)" ascii_lib 2] sample_game_wf
    by (auto simp: Factory_ReadCreatable_def reads_back_def sample_game_def sample_chat_def depth.simps somes.simps
        numeral_eq_Suc)
  have "makeSafeForNet (sample_chat 3) = Inr (True, sample_chat 1)"
    by (simp add: sample_chat_def KIMessage_makeSafeForNet_def cmap_def)
  then show ?thesis
    using accepted_message_is_safe [OF b disjI1, OF refl, of "sample_chat 3" "sample_chat 1"] b
    by (auto simp: sample_game_def)
qed

text \<open>
  A message that is safe at every depth and has no null callback passes \<open>makeSafeForNet\<close>, and
  passes unchanged; in particular what the filter has let through once is let through again as it is.
\<close>

theorem safe_message_unchanged:
  assumes "net_safe msg" and "callbacks_ok msg"
  shows "makeSafeForNet msg = Inr (True, msg)"
  using assms by (rule safe_passes)

definition sample_push :: creatable where
  "sample_push = Creatable (N_AvPushBrainMsg (AvPushBrainMsg (AvTaskMsg
     \<lparr>ms_sender = None, ms_receivers = [None], ms_timestamp = 0, ms_bcastFlags = 0x41\<rparr> None)
     (Some (Creatable (N_plain (C_AvBrainHuman True))))))"

theorem safe_message_unchanged_witness: "makeSafeForNet sample_push = Inr (True, sample_push)"
  by (rule safe_message_unchanged) (simp_all add: sample_push_def net_safe_children callbacks_ok_children)

end
