(* ===== verification/Descriptors.thy ===== *)
theory Descriptors
  imports Wire_Types "HOL-Library.AList"
begin

text \<open>
  \<open>src/SDL/DescriptorDb.h\<close> and \<open>DescriptorDb.cpp\<close>: the descriptors of SDL states and the database
  the server keeps them in, by name (compared without case) and version, with a copy of the highest
  version under the key \<open>-1\<close>. The lemmas say what a lookup finds after any sequence of loads.
\<close>

section \<open>Descriptors\<close>

datatype VarType =
    e_VarInt | e_VarFloat | e_VarBool | e_VarString | e_VarKey | e_VarStateDesc
  | e_VarCreatable | e_VarDouble | e_VarTime | e_VarByte | e_VarShort | e_VarAgeTimeOfDay
  | e_VarVector3 | e_VarPoint3 | e_VarRgb | e_VarRgba | e_VarQuaternion
  | e_VarRgb8 | e_VarRgba8 | e_VarInvalid

text \<open>
  The members of the union are kept apart: a default is only ever read as the member that the
  descriptor's type selects, which is the one the parser stored.
\<close>

record VarDefault =
  vd_valid :: bool
  vd_int :: u32
  vd_float :: f32
  vd_double :: f64
  vd_bool :: bool
  vd_vector :: Vector3
  vd_quat :: Quaternion
  vd_color :: ColorRgba
  vd_color8 :: ColorRgba8
  vd_time :: UnifiedTime
  vd_string :: st_string

record VarDescriptor =
  vr_type :: VarType
  vr_typeName :: st_string
  vr_name :: st_string
  vr_size :: int
  vr_default :: VarDefault
  vr_defaultOption :: st_string
  vr_displayOption :: st_string

record StateDescriptor =
  sd_name :: st_string
  sd_version :: int
  sd_vars :: "VarDescriptor list"
  sd_varmap :: "(st_string \<times> nat) list"

definition VarDefault_new :: VarDefault where
  "VarDefault_new = \<lparr>vd_valid = False, vd_int = 0, vd_float = 0, vd_double = 0, vd_bool = False,
     vd_vector = \<lparr>v_X = 0, v_Y = 0, v_Z = 0\<rparr>, vd_quat = \<lparr>q_X = 0, q_Y = 0, q_Z = 0, q_W = 0\<rparr>,
     vd_color = \<lparr>c_R = 0, c_G = 0, c_B = 0, c_A = 0\<rparr>, vd_color8 = \<lparr>c8_R = 0, c8_G = 0, c8_B = 0, c8_A = 0\<rparr>,
     vd_time = UnifiedTime_null, vd_string = []\<rparr>"

definition VarDefault_clear :: "VarDefault \<Rightarrow> VarDefault" where
  "VarDefault_clear d = d\<lparr>vd_valid := False, vd_time := UnifiedTime_null, vd_string := []\<rparr>"

definition VarDescriptor_new :: VarDescriptor where
  "VarDescriptor_new = \<lparr>vr_type = e_VarInvalid, vr_typeName = [], vr_name = [], vr_size = 0,
     vr_default = VarDefault_new, vr_defaultOption = [], vr_displayOption = []\<rparr>"

definition VarDescriptor_clear :: "VarDescriptor \<Rightarrow> VarDescriptor" where
  "VarDescriptor_clear v = \<lparr>vr_type = e_VarInvalid, vr_typeName = [], vr_name = [], vr_size = 0,
     vr_default = VarDefault_clear (vr_default v), vr_defaultOption = [], vr_displayOption = []\<rparr>"

definition StateDescriptor_new :: StateDescriptor where
  "StateDescriptor_new = \<lparr>sd_name = [], sd_version = - 1, sd_vars = [], sd_varmap = []\<rparr>"

section \<open>The database\<close>

text \<open>
  \<open>s_descriptors\<close>: keyed by the case-folded name, since \<open>ST::hash_i\<close> and \<open>ST::equal_i\<close> ignore case
  (the folding is the library's, \<open>casefold\<close>); each entry maps versions to descriptors.
\<close>

type_synonym versionmap = "(int \<times> StateDescriptor) list"
type_synonym descmap = "(st_string \<times> versionmap) list"

text \<open>A \<open>StateDescriptor*\<close> into the database: the keys of the entry and the entry.\<close>

type_synonym desc_ptr = "(st_string \<times> int) \<times> StateDescriptor"

definition versions_of :: "(st_string \<Rightarrow> st_string) \<Rightarrow> descmap \<Rightarrow> st_string \<Rightarrow> versionmap" where
  "versions_of casefold db name = (case map_of db (casefold name) of None \<Rightarrow> [] | Some vs \<Rightarrow> vs)"

definition load_descriptor :: "(st_string \<Rightarrow> st_string) \<Rightarrow> descmap \<Rightarrow> StateDescriptor \<Rightarrow> descmap" where
  "load_descriptor casefold db d =
     (let vs = AList.update (sd_version d) d (versions_of casefold db (sd_name d));
          highest = (case map_of vs (- 1) of None \<Rightarrow> StateDescriptor_new | Some h \<Rightarrow> h);
          vs = AList.update (- 1) (if sd_version highest < sd_version d then d else highest) vs
      in AList.update (casefold (sd_name d)) vs db)"

definition LoadDescriptorsFromFile ::
  "(st_string \<Rightarrow> st_string) \<Rightarrow> descmap \<Rightarrow> StateDescriptor list \<Rightarrow> descmap" where
  "LoadDescriptorsFromFile casefold db descriptors = foldl (load_descriptor casefold) db descriptors"

definition FindDescriptor :: "(st_string \<Rightarrow> st_string) \<Rightarrow> descmap \<Rightarrow> st_string \<Rightarrow> int \<Rightarrow> desc_ptr option" where
  "FindDescriptor casefold db name version =
     (case map_of db (casefold name) of
        None \<Rightarrow> None
      | Some vs \<Rightarrow> (case map_of vs version of
                      None \<Rightarrow> None
                    | Some d \<Rightarrow> Some ((casefold name, version), d)))"

text \<open>The loop over the versions; the order in which the hash map yields them makes no difference.\<close>

definition newest :: "versionmap \<Rightarrow> int \<times> StateDescriptor" where
  "newest vs = foldl (\<lambda>newi veri. if fst veri > fst newi then veri else newi) (hd vs) vs"

definition FindLatestDescriptor :: "(st_string \<Rightarrow> st_string) \<Rightarrow> descmap \<Rightarrow> st_string \<Rightarrow> desc_ptr option" where
  "FindLatestDescriptor casefold db name =
     (case map_of db (casefold name) of
        None \<Rightarrow> None
      | Some vs \<Rightarrow> Some ((casefold name, fst (newest vs)), snd (newest vs)))"

text \<open>\<open>functor\<close> is called on the latest descriptor of every name until it returns false.\<close>

fun ForLatestDescriptors :: "(st_string \<Rightarrow> desc_ptr \<Rightarrow> 's \<Rightarrow> bool \<times> 's) \<Rightarrow> descmap \<Rightarrow> 's \<Rightarrow> bool \<times> 's" where
  "ForLatestDescriptors functor [] s = (True, s)"
| "ForLatestDescriptors functor ((name, vs) # db) s =
     (case functor name ((name, fst (newest vs)), snd (newest vs)) s of
        (True, s') \<Rightarrow> ForLatestDescriptors functor db s'
      | (False, s') \<Rightarrow> (False, s'))"

section \<open>What a lookup finds\<close>

text \<open>
  The abstract database: which descriptor was loaded last under a name and a version, and the highest
  version of the name.
\<close>

definition last_loaded :: "(st_string \<Rightarrow> st_string) \<Rightarrow> StateDescriptor list \<Rightarrow> st_string \<Rightarrow> int \<Rightarrow> StateDescriptor option" where
  "last_loaded casefold ds name version =
     List.find (\<lambda>d. casefold (sd_name d) = casefold name \<and> sd_version d = version) (rev ds)"

lemma newest_fold:
  "foldl (\<lambda>n v. if fst v > fst n then v else n) a vs \<in> insert a (set vs)
   \<and> (\<forall>v \<in> insert a (set vs). fst v \<le> fst (foldl (\<lambda>n v. if fst v > fst n then v else n) a (vs :: versionmap)))"
  by (induction vs arbitrary: a) (auto, (smt (verit, best) insert_iff)+)

lemma newest_props:
  assumes "vs \<noteq> []"
  shows "newest vs \<in> set vs" and "v \<in> set vs \<Longrightarrow> fst v \<le> fst (newest vs)"
  using newest_fold [of "hd vs" vs] assms by (auto simp: newest_def insert_absorb)

lemma newest_map_of:
  assumes "map_of vs v = Some d" and "\<And>u c. map_of vs u = Some c \<Longrightarrow> u \<le> v" and "distinct (map fst vs)"
  shows "newest vs = (v, d)"
proof -
  have ne: "vs \<noteq> []" and mem: "(v, d) \<in> set vs" using assms(1) by (auto dest: map_of_SomeD)
  have "map_of vs (fst (newest vs)) = Some (snd (newest vs))"
    using newest_props(1) [OF ne] assms(3) by simp
  moreover have "fst (newest vs) = v"
    using assms(2) [OF calculation] newest_props(2) [OF ne mem] by simp
  ultimately show ?thesis using assms(1) by (metis option.inject prod.collapse)
qed

lemma versions_load:
  "map_of (versions_of casefold (load_descriptor casefold db d) name) =
     (if casefold name = casefold (sd_name d)
      then let m = (map_of (versions_of casefold db name))(sd_version d \<mapsto> d);
               highest = (case m (- 1) of None \<Rightarrow> StateDescriptor_new | Some h \<Rightarrow> h)
           in m(- 1 \<mapsto> (if sd_version highest < sd_version d then d else highest))
      else map_of (versions_of casefold db name))"
  by (simp add: versions_of_def load_descriptor_def Let_def update_conv' map_of_eq_None_iff)

lemma update_nonempty: "AList.update k v al \<noteq> []"
  by (cases al) auto

lemma load_versions:
  "\<exists>h. versions_of casefold (load_descriptor casefold db d) name =
     (if casefold name = casefold (sd_name d)
      then AList.update (- 1) h (AList.update (sd_version d) d (versions_of casefold db name))
      else versions_of casefold db name)"
  unfolding versions_of_def load_descriptor_def Let_def update_conv'
  by (cases "casefold name = casefold (sd_name d)") (auto simp del: if_split)

text \<open>
  What a database is after the descriptors \<open>ds\<close> were loaded into an empty one: every version under its
  number, and under \<open>-1\<close> a descriptor of the highest version.
\<close>

definition db_holds :: "(st_string \<Rightarrow> st_string) \<Rightarrow> StateDescriptor list \<Rightarrow> descmap \<Rightarrow> bool" where
  "db_holds casefold ds db \<longleftrightarrow>
     (\<forall>name v. v \<noteq> - 1 \<longrightarrow> map_of (versions_of casefold db name) v = last_loaded casefold ds name v)
     \<and> (\<forall>name. case map_of (versions_of casefold db name) (- 1) of
           None \<Rightarrow> \<forall>d \<in> set ds. casefold (sd_name d) \<noteq> casefold name
         | Some h \<Rightarrow> h \<in> set ds \<and> casefold (sd_name h) = casefold name
             \<and> (\<forall>d \<in> set ds. casefold (sd_name d) = casefold name \<longrightarrow> sd_version d \<le> sd_version h))
     \<and> (\<forall>name. map_of db (casefold name) \<noteq> Some [])
     \<and> (\<forall>name. distinct (map fst (versions_of casefold db name)))"

lemma db_holds_load:
  assumes "db_holds casefold ds db" and "0 \<le> sd_version d"
  shows "db_holds casefold (ds @ [d]) (load_descriptor casefold db d)"
  unfolding db_holds_def
proof (intro conjI allI impI)
  fix name :: st_string and v :: int assume "v \<noteq> - 1"
  then show "map_of (versions_of casefold (load_descriptor casefold db d) name) v = last_loaded casefold (ds @ [d]) name v"
    using assms(1) unfolding db_holds_def versions_load last_loaded_def by (auto simp: Let_def)
next
  fix name
  show "case map_of (versions_of casefold (load_descriptor casefold db d) name) (- 1) of
      None \<Rightarrow> \<forall>da \<in> set (ds @ [d]). casefold (sd_name da) \<noteq> casefold name
    | Some h \<Rightarrow> h \<in> set (ds @ [d]) \<and> casefold (sd_name h) = casefold name
        \<and> (\<forall>da \<in> set (ds @ [d]). casefold (sd_name da) = casefold name \<longrightarrow> sd_version da \<le> sd_version h)"
    using assms spec [OF conjunct1 [OF conjunct2 [OF assms(1) [unfolded db_holds_def]]], of name]
    unfolding versions_load
    by (auto simp: Let_def StateDescriptor_new_def split: option.splits)
next
  fix name
  show "map_of (load_descriptor casefold db d) (casefold name) \<noteq> Some []"
    using assms(1) by (simp add: db_holds_def load_descriptor_def Let_def update_conv' update_nonempty)
next
  fix name
  have "distinct (map fst (versions_of casefold db name))" using assms(1) by (simp add: db_holds_def)
  then show "distinct (map fst (versions_of casefold (load_descriptor casefold db d) name))"
    using load_versions [of casefold db d name] by (auto simp: distinct_update)
qed

lemma db_holds_file:
  "(\<And>d. d \<in> set ds \<Longrightarrow> 0 \<le> sd_version d) \<Longrightarrow> db_holds casefold ds (LoadDescriptorsFromFile casefold [] ds)"
proof (induction ds rule: rev_induct)
  case Nil
  then show ?case by (simp add: db_holds_def LoadDescriptorsFromFile_def versions_of_def last_loaded_def)
next
  case (snoc d ds)
  then show ?case by (simp add: LoadDescriptorsFromFile_def db_holds_load)
qed

lemma db_holds_latest:
  "db_holds casefold ds db \<Longrightarrow>
   case map_of (versions_of casefold db name) (- 1) of
     None \<Rightarrow> \<forall>d \<in> set ds. casefold (sd_name d) \<noteq> casefold name
   | Some h \<Rightarrow> h \<in> set ds \<and> casefold (sd_name h) = casefold name
       \<and> (\<forall>d \<in> set ds. casefold (sd_name d) = casefold name \<longrightarrow> sd_version d \<le> sd_version h)"
  unfolding db_holds_def by blast

lemma find_SomeD: "List.find P xs = Some x \<Longrightarrow> P x \<and> x \<in> set xs"
  by (induction xs) (auto split: if_splits)

lemma last_loaded_SomeD:
  "last_loaded casefold ds name v = Some d \<Longrightarrow>
   d \<in> set ds \<and> casefold (sd_name d) = casefold name \<and> sd_version d = v"
  unfolding last_loaded_def by (drule find_SomeD) simp

lemma find_unique:
  "x \<in> set xs \<Longrightarrow> P x \<Longrightarrow> \<forall>y \<in> set xs. P y \<longrightarrow> y = x \<Longrightarrow> List.find P xs = Some x"
proof (induction xs)
  case (Cons y ys)
  show ?case
  proof (cases "P y")
    case True
    then have "y = x" using Cons.prems(3) by (meson list.set_intros(1))
    then show ?thesis using True by simp
  next
    case False
    then have "x \<in> set ys" using Cons.prems(1,2) by (metis set_ConsD)
    then have "List.find P ys = Some x" using Cons.IH Cons.prems(2,3) by (meson list.set_intros(2))
    then show ?thesis using False by simp
  qed
qed simp

lemma last_loaded_distinct:
  assumes "distinct (map (\<lambda>d. (casefold (sd_name d), sd_version d)) ds)" and "d \<in> set ds"
  shows "last_loaded casefold ds (sd_name d) (sd_version d) = Some d"
proof -
  have "inj_on (\<lambda>d. (casefold (sd_name d), sd_version d)) (set ds)" using assms(1) by (simp add: distinct_map)
  then show ?thesis
    using assms(2) unfolding last_loaded_def by (intro find_unique) (auto dest: inj_onD)
qed

lemma db_holds_absent:
  assumes "db_holds casefold ds db" and "\<forall>c \<in> set ds. casefold other \<noteq> casefold (sd_name c)"
  shows "map_of db (casefold other) = None"
proof (rule ccontr)
  assume "map_of db (casefold other) \<noteq> None"
  then obtain vs where vs: "map_of db (casefold other) = Some vs" by auto
  then have "vs \<noteq> []" using assms(1) by (auto simp: db_holds_def)
  then obtain v d where "map_of vs v = Some d" by (cases vs) fastforce+
  then have "map_of (versions_of casefold db other) v = Some d" using vs by (simp add: versions_of_def)
  then show False
    using assms db_holds_latest [OF assms(1), of other]
    by (cases "v = - 1") (auto simp: db_holds_def dest!: last_loaded_SomeD)
qed

section \<open>Properties\<close>

text \<open>
  C25: after loading any descriptors of distinct names (up to case) and versions, in any order,
  \<open>FindDescriptor\<close> finds each of them under any spelling of its name and its version; version \<open>-1\<close> and
  \<open>FindLatestDescriptor\<close> both find the descriptor of the highest version of the name; and a name that was not
  loaded is not found.
\<close>

theorem descriptor_lookup:
  assumes "\<forall>d \<in> set ds. 0 \<le> sd_version d"
    and "distinct (map (\<lambda>d. (casefold (sd_name d), sd_version d)) ds)"
    and "d \<in> set ds" and "casefold name = casefold (sd_name d)"
    and "db = LoadDescriptorsFromFile casefold [] ds"
  shows "FindDescriptor casefold db name (sd_version d) = Some ((casefold name, sd_version d), d)
    \<and> (\<exists>h \<in> set ds. casefold (sd_name h) = casefold name
      \<and> (\<forall>c \<in> set ds. casefold (sd_name c) = casefold name \<longrightarrow> sd_version c \<le> sd_version h)
      \<and> FindDescriptor casefold db name (- 1) = Some ((casefold name, - 1), h)
      \<and> FindLatestDescriptor casefold db name = Some ((casefold name, sd_version h), h))
    \<and> ((\<forall>c \<in> set ds. casefold other \<noteq> casefold (sd_name c)) \<longrightarrow>
      FindDescriptor casefold db other v = None \<and> FindLatestDescriptor casefold db other = None)"
proof -
  have holds: "db_holds casefold ds db" using db_holds_file assms(1,5) by blast
  let ?m = "map_of (versions_of casefold db name)"
  have found: "?m (sd_version c) = Some c" if "c \<in> set ds" "casefold (sd_name c) = casefold name" for c
  proof -
    have "sd_version c \<noteq> - 1" using assms(1) that(1) by fastforce
    then have "?m (sd_version c) = last_loaded casefold ds name (sd_version c)" using holds by (simp add: db_holds_def)
    then show ?thesis using last_loaded_distinct [OF assms(2) that(1)] by (simp add: last_loaded_def that(2))
  qed
  then obtain h where h: "?m (- 1) = Some h" "h \<in> set ds" "casefold (sd_name h) = casefold name"
    "\<forall>c \<in> set ds. casefold (sd_name c) = casefold name \<longrightarrow> sd_version c \<le> sd_version h"
    using assms(3,4) db_holds_latest [OF holds, of name] by (auto split: option.splits)
  have "newest (versions_of casefold db name) = (sd_version h, h)"
  proof (rule newest_map_of)
    fix u c assume "?m u = Some c"
    then show "u \<le> sd_version h"
      using holds h(1,4) assms(1) \<open>h \<in> set ds\<close>
      by (cases "u = - 1") (auto simp: db_holds_def dest!: last_loaded_SomeD)
  qed (use found h holds in \<open>simp_all add: db_holds_def\<close>)
  moreover have "map_of db (casefold name) = Some (versions_of casefold db name)"
    using h(1) by (auto simp: versions_of_def split: option.splits)
  ultimately show ?thesis
    using found [OF assms(3) assms(4) [symmetric]] h db_holds_absent [OF holds, of other]
    unfolding FindDescriptor_def FindLatestDescriptor_def
    by (intro conjI bexI [of _ h]; simp)
qed

definition sample_descriptors :: "StateDescriptor list" where
  "sample_descriptors =
     [\<lparr>sd_name = [84], sd_version = 1, sd_vars = [], sd_varmap = []\<rparr>,
      \<lparr>sd_name = [84], sd_version = 2, sd_vars = [], sd_varmap = []\<rparr>]"

theorem descriptor_lookup_witness:
  "FindDescriptor (\<lambda>n. n) (LoadDescriptorsFromFile (\<lambda>n. n) [] sample_descriptors) [84] 1
     = Some (([84], 1), sample_descriptors ! 0)
   \<and> FindLatestDescriptor (\<lambda>n. n) (LoadDescriptorsFromFile (\<lambda>n. n) [] sample_descriptors) [84]
     = Some (([84], 2), sample_descriptors ! 1)"
proof -
  let ?db = "LoadDescriptorsFromFile (\<lambda>n. n) [] sample_descriptors"
  have "\<forall>d \<in> set sample_descriptors. 0 \<le> sd_version d"
    "distinct (map (\<lambda>d. (sd_name d, sd_version d)) sample_descriptors)"
    "sample_descriptors ! 0 \<in> set sample_descriptors" "[84] = sd_name (sample_descriptors ! 0)"
    by (simp_all add: sample_descriptors_def)
  note lookup = descriptor_lookup [of sample_descriptors "\<lambda>n. n", OF this refl, of "[]" 0]
  from lookup have "FindDescriptor (\<lambda>n. n) ?db [84] 1 = Some (([84], 1), sample_descriptors ! 0)"
    by (simp add: sample_descriptors_def)
  moreover from lookup obtain h where h: "h \<in> set sample_descriptors"
    "\<forall>c \<in> set sample_descriptors. sd_name c = [84] \<longrightarrow> sd_version c \<le> sd_version h"
    "FindLatestDescriptor (\<lambda>n. n) ?db [84] = Some (([84], sd_version h), h)"
    by blast
  moreover have "h = sample_descriptors ! 1" using h(1,2) by (auto simp: sample_descriptors_def)
  ultimately show ?thesis by (simp add: sample_descriptors_def)
qed

end
