(* ===== verification/Sdl_State.thy ===== *)
theory Sdl_State
  imports Descriptors Net_Safety
begin

unbundle bit_operations_syntax

text \<open>
  \<open>src/SDL/StateInfo.h\<close> and \<open>StateInfo.cpp\<close>: the persistent state of ages and objects. A state is a
  tree of variables described by a descriptor of the database; this theory has every operation on it.
  The handles of the sources share their data by reference counting; no operation changes a variable
  that another state holds (\<open>read\<close> runs on a state that was just created, \<open>add\<close> and \<open>merge\<close>
  replace handles), so a handle is the value it refers to.
\<close>

section \<open>State\<close>

datatype sdl_value =
    V_Int u32 | V_Float f32 | V_Bool bool | V_String st_string | V_Key Uoid
  | V_Creatable "creatable option" | V_Double f64 | V_Time UnifiedTime | V_Byte byte | V_Short u16
  | V_Vector Vector3 | V_Quat Quaternion | V_Color ColorRgba | V_Color8 ColorRgba8
  | V_Child State | V_Nothing
and Variable =
  Variable (v_desc: VarDescriptor) (v_values: "sdl_value list") (v_timestamp: UnifiedTime)
    (v_hint: st_string) (v_flags: u16)
and State =
    NullState
  | State (st_desc: desc_ptr) (st_vars: "Variable list") (st_object: Uoid) (st_flags: u16)

text \<open>
  The surroundings of the operations: the libraries, the case folding of names, the descriptor
  database, the fuel for nested creatables, and the clock: \<open>setNow\<close> in a read with \<open>n\<close> bytes
  unread gives \<open>se_clock n\<close>, so successive calls may give any times.
\<close>

record sdl_env =
  se_lib :: ext_lib
  se_fold :: "st_string \<Rightarrow> st_string"
  se_db :: descmap
  se_fuel :: nat
  se_clock :: "nat \<Rightarrow> UnifiedTime"

text \<open>
  Bits of \<open>Variable::Contents\<close>: 1 \<open>e_HasNotificationInfo\<close>, 2 \<open>e_HasTimeStamp\<close>, 3 \<open>e_SameAsDefault\<close>,
  4 \<open>e_HasDirtyFlag\<close>, 5 \<open>e_WantTimeStamp\<close>, 8 \<open>e_XIsDirty\<close>.
\<close>

definition dirty :: "Variable \<Rightarrow> bool" where
  "dirty v \<longleftrightarrow> bit (v_flags v) 8"

section \<open>Lengths\<close>

definition stupidLengthRead :: "nat \<Rightarrow> nat rd" where
  "stupidLengthRead max' =
     (if max' < 0x100 then rbind read_u8 (\<lambda>n. rret (unat n))
      else if max' < 0x10000 then rbind read_u16 (\<lambda>n. rret (unat n))
      else rbind read_u32 (\<lambda>n. rret (unat n)))"

definition stupidLengthWrite :: "nat \<Rightarrow> nat \<Rightarrow> bytes" where
  "stupidLengthWrite max' value =
     (if max' < 0x100 then write_u8 (of_nat value)
      else if max' < 0x10000 then write_u16 (of_nat value)
      else write_u32 (of_nat value))"

section \<open>Comparison of floating-point numbers\<close>

text \<open>\<open>==\<close> on the IEEE 754 bit patterns: no NaN equals anything, and the two zeros are equal.\<close>

definition f32_eq :: "f32 \<Rightarrow> f32 \<Rightarrow> bool" where
  "f32_eq a b \<longleftrightarrow> a AND 0x7FFFFFFF \<le> 0x7F800000 \<and> b AND 0x7FFFFFFF \<le> 0x7F800000
     \<and> (a = b \<or> a AND 0x7FFFFFFF = 0 \<and> b AND 0x7FFFFFFF = 0)"

definition f64_eq :: "f64 \<Rightarrow> f64 \<Rightarrow> bool" where
  "f64_eq a b \<longleftrightarrow> a AND 0x7FFFFFFFFFFFFFFF \<le> 0x7FF0000000000000
     \<and> b AND 0x7FFFFFFFFFFFFFFF \<le> 0x7FF0000000000000
     \<and> (a = b \<or> a AND 0x7FFFFFFFFFFFFFFF = 0 \<and> b AND 0x7FFFFFFFFFFFFFFF = 0)"

definition Vector3_eq :: "Vector3 \<Rightarrow> Vector3 \<Rightarrow> bool" where
  "Vector3_eq a b \<longleftrightarrow> f32_eq (v_X a) (v_X b) \<and> f32_eq (v_Y a) (v_Y b) \<and> f32_eq (v_Z a) (v_Z b)"

definition Quaternion_eq :: "Quaternion \<Rightarrow> Quaternion \<Rightarrow> bool" where
  "Quaternion_eq a b \<longleftrightarrow> f32_eq (q_X a) (q_X b) \<and> f32_eq (q_Y a) (q_Y b) \<and> f32_eq (q_Z a) (q_Z b)
     \<and> f32_eq (q_W a) (q_W b)"

definition ColorRgba_eq :: "ColorRgba \<Rightarrow> ColorRgba \<Rightarrow> bool" where
  "ColorRgba_eq a b \<longleftrightarrow> f32_eq (c_R a) (c_R b) \<and> f32_eq (c_G a) (c_G b) \<and> f32_eq (c_B a) (c_B b)
     \<and> f32_eq (c_A a) (c_A b)"

section \<open>Defaults\<close>

text \<open>
  \<open>Variable::setDefault\<close> and \<open>State::setDefault\<close>. The value a variable that is not a state gets;
  \<open>0x3F800000\<close> is \<open>1.0f\<close>. An \<open>e_VarAgeTimeOfDay\<close> has no value.
\<close>

definition default_value :: "VarDescriptor \<Rightarrow> sdl_value \<Rightarrow> sdl_value" where
  "default_value desc old =
     (let d = vr_default desc; valid = vd_valid d in
      case vr_type desc of
        e_VarInt \<Rightarrow> V_Int (if valid then vd_int d else 0)
      | e_VarFloat \<Rightarrow> V_Float (if valid then vd_float d else 0)
      | e_VarBool \<Rightarrow> V_Bool (if valid then vd_bool d else False)
      | e_VarString \<Rightarrow> V_String (if valid then vd_string d else [])
      | e_VarKey \<Rightarrow> V_Key Uoid_new
      | e_VarCreatable \<Rightarrow> V_Creatable None
      | e_VarDouble \<Rightarrow> V_Double (if valid then vd_double d else 0)
      | e_VarTime \<Rightarrow> V_Time (if valid then vd_time d else UnifiedTime_null)
      | e_VarByte \<Rightarrow> V_Byte (if valid then ucast (vd_int d) else 0)
      | e_VarShort \<Rightarrow> V_Short (if valid then ucast (vd_int d) else 0)
      | e_VarVector3 \<Rightarrow> V_Vector (if valid then vd_vector d else \<lparr>v_X = 0, v_Y = 0, v_Z = 0\<rparr>)
      | e_VarPoint3 \<Rightarrow> V_Vector (if valid then vd_vector d else \<lparr>v_X = 0, v_Y = 0, v_Z = 0\<rparr>)
      | e_VarQuaternion \<Rightarrow>
          V_Quat (if valid then vd_quat d else \<lparr>q_X = 0, q_Y = 0, q_Z = 0, q_W = 0x3F800000\<rparr>)
      | e_VarRgb \<Rightarrow>
          V_Color (if valid then vd_color d else \<lparr>c_R = 0, c_G = 0, c_B = 0, c_A = 0x3F800000\<rparr>)
      | e_VarRgba \<Rightarrow>
          V_Color (if valid then vd_color d else \<lparr>c_R = 0, c_G = 0, c_B = 0, c_A = 0x3F800000\<rparr>)
      | e_VarRgb8 \<Rightarrow>
          V_Color8 (if valid then vd_color8 d else \<lparr>c8_R = 0, c8_G = 0, c8_B = 0, c8_A = 0xFF\<rparr>)
      | e_VarRgba8 \<Rightarrow>
          V_Color8 (if valid then vd_color8 d else \<lparr>c8_R = 0, c8_G = 0, c8_B = 0, c8_A = 0xFF\<rparr>)
      | _ \<Rightarrow> old)"

fun value_setDefault :: "VarDescriptor \<Rightarrow> sdl_value \<Rightarrow> sdl_value"
  and Variable_setDefault :: "Variable \<Rightarrow> Variable"
  and State_setDefault :: "State \<Rightarrow> State" where
  "value_setDefault desc (V_Child s) =
     (if vr_type desc = e_VarStateDesc then V_Child (State_setDefault s) else default_value desc (V_Child s))"
| "value_setDefault desc v = default_value desc v"
| "Variable_setDefault (Variable desc vs t h f) = Variable desc (map (value_setDefault desc) vs) t h (f OR 8)"
| "State_setDefault NullState = NullState"
| "State_setDefault (State d vars obj f) = State d (map Variable_setDefault vars) obj f"

definition scalar_isDefault :: "VarDescriptor \<Rightarrow> sdl_value \<Rightarrow> bool" where
  "scalar_isDefault desc v =
     (let d = vr_default desc in
      case vr_type desc of
        e_VarInt \<Rightarrow> v = V_Int (vd_int d)
      | e_VarFloat \<Rightarrow> (case v of V_Float x \<Rightarrow> f32_eq x (vd_float d) | _ \<Rightarrow> False)
      | e_VarBool \<Rightarrow> v = V_Bool (vd_bool d)
      | e_VarString \<Rightarrow> v = V_String (vd_string d)
      | e_VarKey \<Rightarrow> (case v of V_Key u \<Rightarrow> Uoid_isNull u | _ \<Rightarrow> False)
      | e_VarCreatable \<Rightarrow> v = V_Creatable None
      | e_VarDouble \<Rightarrow> (case v of V_Double x \<Rightarrow> f64_eq x (vd_double d) | _ \<Rightarrow> False)
      | e_VarTime \<Rightarrow> v = V_Time (vd_time d)
      | e_VarByte \<Rightarrow> (case v of V_Byte x \<Rightarrow> scast x = vd_int d | _ \<Rightarrow> False)
      | e_VarShort \<Rightarrow> (case v of V_Short x \<Rightarrow> scast x = vd_int d | _ \<Rightarrow> False)
      | e_VarVector3 \<Rightarrow> (case v of V_Vector x \<Rightarrow> Vector3_eq x (vd_vector d) | _ \<Rightarrow> False)
      | e_VarPoint3 \<Rightarrow> (case v of V_Vector x \<Rightarrow> Vector3_eq x (vd_vector d) | _ \<Rightarrow> False)
      | e_VarQuaternion \<Rightarrow> (case v of V_Quat x \<Rightarrow> Quaternion_eq x (vd_quat d) | _ \<Rightarrow> False)
      | e_VarRgb \<Rightarrow> (case v of V_Color x \<Rightarrow> ColorRgba_eq x (vd_color d) | _ \<Rightarrow> False)
      | e_VarRgba \<Rightarrow> (case v of V_Color x \<Rightarrow> ColorRgba_eq x (vd_color d) | _ \<Rightarrow> False)
      | e_VarRgb8 \<Rightarrow> v = V_Color8 (vd_color8 d)
      | e_VarRgba8 \<Rightarrow> v = V_Color8 (vd_color8 d)
      | _ \<Rightarrow> True)"

text \<open>Variables of variable length, and those without a default in the file, are never at the default.\<close>

fun value_isDefault :: "VarDescriptor \<Rightarrow> sdl_value \<Rightarrow> bool"
  and Variable_isDefault :: "Variable \<Rightarrow> bool"
  and State_isDefault :: "State \<Rightarrow> bool" where
  "value_isDefault desc (V_Child s) =
     (if vr_type desc = e_VarStateDesc then State_isDefault s else scalar_isDefault desc (V_Child s))"
| "value_isDefault desc v = scalar_isDefault desc v"
| "Variable_isDefault (Variable desc vs t h f) =
     (if vr_size desc = - 1 then False
      else if \<not> vd_valid (vr_default desc) then False
      else list_all (value_isDefault desc) vs)"
| "State_isDefault NullState = True"
| "State_isDefault (State d vars obj f) = list_all Variable_isDefault vars"

fun State_isDirty :: "State \<Rightarrow> bool" where
  "State_isDirty NullState = False"
| "State_isDirty (State d vars obj f) = list_ex dirty vars"

section \<open>Creation\<close>

text \<open>
  The elements of a fresh array; \<open>DS::ColorRgba8\<close> has no constructor, so its elements are what the
  allocation held.
\<close>

definition fresh_value :: "ext_lib \<Rightarrow> VarType \<Rightarrow> nat \<Rightarrow> sdl_value" where
  "fresh_value L type i =
     (case type of
        e_VarInt \<Rightarrow> V_Int 0
      | e_VarFloat \<Rightarrow> V_Float 0
      | e_VarBool \<Rightarrow> V_Bool False
      | e_VarString \<Rightarrow> V_String []
      | e_VarKey \<Rightarrow> V_Key Uoid_new
      | e_VarCreatable \<Rightarrow> V_Creatable None
      | e_VarDouble \<Rightarrow> V_Double 0
      | e_VarTime \<Rightarrow> V_Time UnifiedTime_null
      | e_VarByte \<Rightarrow> V_Byte 0
      | e_VarShort \<Rightarrow> V_Short 0
      | e_VarVector3 \<Rightarrow> V_Vector \<lparr>v_X = 0, v_Y = 0, v_Z = 0\<rparr>
      | e_VarPoint3 \<Rightarrow> V_Vector \<lparr>v_X = 0, v_Y = 0, v_Z = 0\<rparr>
      | e_VarQuaternion \<Rightarrow> V_Quat \<lparr>q_X = 0, q_Y = 0, q_Z = 0, q_W = 0\<rparr>
      | e_VarRgb \<Rightarrow> V_Color \<lparr>c_R = 0, c_G = 0, c_B = 0, c_A = 0\<rparr>
      | e_VarRgba \<Rightarrow> V_Color \<lparr>c_R = 0, c_G = 0, c_B = 0, c_A = 0\<rparr>
      | e_VarRgb8 \<Rightarrow> V_Color8 \<lparr>c8_R = uninit L (4 * i + 2), c8_G = uninit L (4 * i + 1), c8_B = uninit L (4 * i),
                               c8_A = uninit L (4 * i + 3)\<rparr>
      | e_VarRgba8 \<Rightarrow> V_Color8 \<lparr>c8_R = uninit L (4 * i + 2), c8_G = uninit L (4 * i + 1), c8_B = uninit L (4 * i),
                                c8_A = uninit L (4 * i + 3)\<rparr>
      | _ \<Rightarrow> V_Nothing)"

text \<open>
  \<open>_ref::resize\<close>; \<open>new_state\<close> is the constructor of a nested state. The old elements are released
  and the dirty bit is cleared.
\<close>

type_synonym new_state = "desc_ptr option \<Rightarrow> ds_error + State"

definition resize_values :: "sdl_env \<Rightarrow> new_state \<Rightarrow> VarDescriptor \<Rightarrow> nat \<Rightarrow> ds_error + sdl_value list" where
  "resize_values E new desc n =
     (if n = 0 then Inr []
      else if vr_type desc = e_VarStateDesc
      then (case new (FindDescriptor (se_fold E) (se_db E) (vr_typeName desc) (- 1)) of
              Inl e \<Rightarrow> Inl e
            | Inr s \<Rightarrow> Inr (replicate n (V_Child s)))
      else Inr (map (fresh_value (se_lib E) (vr_type desc)) [0..<n]))"

definition Variable_resize :: "sdl_env \<Rightarrow> new_state \<Rightarrow> Variable \<Rightarrow> nat \<Rightarrow> ds_error + Variable" where
  "Variable_resize E new v n =
     (case resize_values E new (v_desc v) n of
        Inl e \<Rightarrow> Inl e
      | Inr vs \<Rightarrow> Inr (Variable (v_desc v) vs (v_timestamp v) (v_hint v) (v_flags v AND NOT 0x100)))"

definition Variable_new :: "sdl_env \<Rightarrow> new_state \<Rightarrow> VarDescriptor \<Rightarrow> ds_error + Variable" where
  "Variable_new E new desc =
     (let v = Variable desc [] UnifiedTime_null [] 0
      in if vr_size desc > 0 then Variable_resize E new v (nat (vr_size desc)) else Inr v)"

fun sequence :: "(ds_error + 'a) list \<Rightarrow> ds_error + 'a list" where
  "sequence [] = Inr []"
| "sequence (r # rs) =
     (case r of Inl e \<Rightarrow> Inl e
      | Inr x \<Rightarrow> (case sequence rs of Inl e \<Rightarrow> Inl e | Inr xs \<Rightarrow> Inr (x # xs)))"

text \<open>
  The constructor of a state. A descriptor that holds itself makes it recurse without end; the fuel is
  the nesting depth it is followed to.
\<close>

fun State_new :: "sdl_env \<Rightarrow> nat \<Rightarrow> new_state" where
  "State_new E fuel None = Inr NullState"
| "State_new E 0 (Some desc) = Inl NoFuel"
| "State_new E (Suc fuel) (Some desc) =
     (case sequence (map (Variable_new E (State_new E fuel)) (sd_vars (snd desc))) of
        Inl e \<Rightarrow> Inl e
      | Inr vars \<Rightarrow> Inr (State_setDefault (State desc vars Uoid_new 0)))"

section \<open>Writing\<close>

text \<open>The text of a string variable: its bytes up to a NUL, at most 31, padded to 32 with NULs.\<close>

definition c_str :: "st_string \<Rightarrow> bytes" where
  "c_str s = takeWhile (\<lambda>c. c \<noteq> 0) s"

definition string_field :: "st_string \<Rightarrow> bytes" where
  "string_field s = (let t = take 31 (c_str s) in t @ replicate (32 - length t) 0)"

fun creatable_field :: "ext_lib \<Rightarrow> creatable option \<Rightarrow> wres" where
  "creatable_field L None = Inr (write_u16 0x8000)"
| "creatable_field L (Some (Creatable n)) =
     (case node_write L (map_node (creatable_image L) n) of
        Inl e \<Rightarrow> Inl e
      | Inr body \<Rightarrow> Inr (write_u16 (node_type n) @ write_u32 (of_nat (length body)) @ body))"

text \<open>\<open>_ref::write\<close> for one element; a value of another type than the descriptor's does not occur.\<close>

definition value_write :: "ext_lib \<Rightarrow> VarDescriptor \<Rightarrow> sdl_value \<Rightarrow> wres" where
  "value_write L desc v =
     (case (vr_type desc, v) of
        (e_VarInt, V_Int x) \<Rightarrow> Inr (write_u32 x)
      | (e_VarFloat, V_Float x) \<Rightarrow> Inr (write_u32 x)
      | (e_VarBool, V_Bool x) \<Rightarrow> Inr (Stream_write_bool x)
      | (e_VarString, V_String s) \<Rightarrow> Inr (string_field s)
      | (e_VarKey, V_Key u) \<Rightarrow> Inr (Uoid_write L u)
      | (e_VarCreatable, V_Creatable c) \<Rightarrow> creatable_field L c
      | (e_VarDouble, V_Double x) \<Rightarrow> Inr (write_u64 x)
      | (e_VarTime, V_Time t) \<Rightarrow> Inr (UnifiedTime_write t)
      | (e_VarByte, V_Byte x) \<Rightarrow> Inr (write_u8 x)
      | (e_VarShort, V_Short x) \<Rightarrow> Inr (write_u16 x)
      | (e_VarVector3, V_Vector x) \<Rightarrow> Inr (Vector3_write x)
      | (e_VarPoint3, V_Vector x) \<Rightarrow> Inr (Vector3_write x)
      | (e_VarQuaternion, V_Quat x) \<Rightarrow> Inr (Quaternion_write x)
      | (e_VarRgb, V_Color c) \<Rightarrow> Inr (write_u32 (c_R c) @ write_u32 (c_G c) @ write_u32 (c_B c))
      | (e_VarRgba, V_Color c) \<Rightarrow>
          Inr (write_u32 (c_R c) @ write_u32 (c_G c) @ write_u32 (c_B c) @ write_u32 (c_A c))
      | (e_VarRgb8, V_Color8 c) \<Rightarrow> Inr (write_u8 (c8_R c) @ write_u8 (c8_G c) @ write_u8 (c8_B c))
      | (e_VarRgba8, V_Color8 c) \<Rightarrow>
          Inr (write_u8 (c8_R c) @ write_u8 (c8_G c) @ write_u8 (c8_B c) @ write_u8 (c8_A c))
      | (e_VarStateDesc, _) \<Rightarrow> Inl AssertionFailure
      | (e_VarAgeTimeOfDay, _) \<Rightarrow> Inr []
      | (e_VarInvalid, _) \<Rightarrow> Inl MalformedData
      | _ \<Rightarrow> Inl UndefinedBehaviour)"

text \<open>
  A loop that writes the dirty elements of an array, given what each would write, with their indices
  when not all of them are written.
\<close>

definition write_dirty :: "bool \<Rightarrow> nat \<Rightarrow> (bool \<times> wres) list \<Rightarrow> wres" where
  "write_dirty useIndices max' imgs =
     wconcat (concat (map (\<lambda>(i, is_dirty, img).
       if is_dirty then (if useIndices then [Inr (stupidLengthWrite max' i)] else []) @ [img] else [])
       (enumerate 0 imgs)))"

text \<open>
  \<open>Variable::write\<close> counts all the nested states, and then writes the dirty ones only;
  \<open>State::write\<close> counts the dirty variables, and stops the loop over the nested states at that count.
  Both are translated as they are.
\<close>

definition children_write :: "int \<Rightarrow> (bool \<times> wres) list \<Rightarrow> wres" where
  "children_write size' imgs =
     (let count = length imgs;
          stupid = (if size' = - 1 then 0 else length imgs);
          useIndices = (count \<noteq> length imgs)
      in wconcat [Inr (if size' = - 1 then write_u32 (of_nat (length imgs)) else []),
                  Inr (stupidLengthWrite stupid count), write_dirty useIndices stupid imgs])"

definition vars_write :: "nat \<Rightarrow> (bool \<times> wres) list \<Rightarrow> (bool \<times> wres) list \<Rightarrow> wres" where
  "vars_write n simple sd =
     (let count = length (filter fst simple); sdCount = length (filter fst sd)
      in wconcat [Inr (stupidLengthWrite n count), write_dirty (count \<noteq> length simple) n simple,
                  Inr (stupidLengthWrite n sdCount),
                  write_dirty (sdCount \<noteq> length sd) n (take sdCount sd)])"

fun child_image :: "ext_lib \<Rightarrow> sdl_value \<Rightarrow> bool \<times> wres"
  and Variable_write :: "ext_lib \<Rightarrow> Variable \<Rightarrow> wres"
  and State_write :: "ext_lib \<Rightarrow> State \<Rightarrow> wres" where
  "child_image L (V_Child s) = (State_isDirty s, State_write L s)"
| "child_image L v = (True, Inl UndefinedBehaviour)"
| "Variable_write L (Variable desc vs t h f) =
     (let flags = (if Variable_isDefault (Variable desc vs t h f) then f OR 8 else f)
      in wconcat
           [Inr (write_u8 (if h \<noteq> [] then 2 else 0)),
            Inr (if h \<noteq> [] then write_u8 0 @ Stream_writeSafeString L h e_StringRAW8 else []),
            Inr (write_u8 (ucast flags)),
            if vr_type desc = e_VarStateDesc then children_write (vr_size desc) (map (child_image L) vs)
            else wconcat
              [Inr (if bit flags 2 then UnifiedTime_write t else []),
               if bit flags 3 then Inr []
               else wconcat (Inr (if vr_size desc = - 1 then write_u32 (of_nat (length vs)) else [])
                      # map (value_write L desc) vs)]])"
| "State_write L NullState = Inl UndefinedBehaviour"
| "State_write L (State d vars obj f) =
     (let imgs = map (\<lambda>v. (vr_type (v_desc v) = e_VarStateDesc, dirty v, Variable_write L v)) vars
      in wconcat
           [Inr (write_u16 f), Inr (write_u8 6),
            vars_write (length (sd_vars (snd d))) (map snd (filter (\<lambda>x. \<not> fst x) imgs)) (map snd (filter fst imgs))])"

text \<open>
  \<open>write\<close> is const, but it sets \<open>e_SameAsDefault\<close> in the variables it writes: the state afterwards.
\<close>

definition Variable_marked :: "Variable \<Rightarrow> Variable" where
  "Variable_marked v =
     Variable (v_desc v) (v_values v) (v_timestamp v) (v_hint v)
       (if Variable_isDefault v then v_flags v OR 8 else v_flags v)"

definition State_toBlob :: "ext_lib \<Rightarrow> State \<Rightarrow> wres" where
  "State_toBlob L s =
     (case s of
        NullState \<Rightarrow> Inr []
      | State d vars obj f \<Rightarrow>
          wconcat [Inr (write_u16 (if Uoid_isNull obj then 0x8000 else 0x8001)),
                   Inr (Stream_writeSafeString L (sd_name (snd d)) e_StringRAW8),
                   Inr (write_u16 (of_int (sd_version (snd d)))),
                   Inr (if Uoid_isNull obj then [] else Uoid_write L obj),
                   State_write L s])"

section \<open>Reading\<close>

text \<open>\<open>_ref::read\<close> for one element, given what it held before.\<close>

definition creatable_read :: "ext_lib \<Rightarrow> nat \<Rightarrow> sdl_value \<Rightarrow> sdl_value rd" where
  "creatable_read L fuel old =
     rbind read_u16 (\<lambda>type.
     if type = 0x8000 then rret old
     else if map_of (node_types L (Factory_read L fuel)) type = None then rfail FactoryException
     else rbind read_u32 (\<lambda>_. rmap V_Creatable (Factory_read L fuel type)))"

definition value_read :: "sdl_env \<Rightarrow> VarType \<Rightarrow> sdl_value \<Rightarrow> sdl_value rd" where
  "value_read E type old =
     (let L = se_lib E in
      case type of
        e_VarInt \<Rightarrow> rmap V_Int read_u32
      | e_VarFloat \<Rightarrow> rmap V_Float read_u32
      | e_VarBool \<Rightarrow> rmap V_Bool Stream_read_bool
      | e_VarString \<Rightarrow>
          rbind (read_array (map (uninit L) [0..<32])) (\<lambda>buffer. rret (V_String (from_utf8 L (c_str buffer))))
      | e_VarKey \<Rightarrow> rmap V_Key (Uoid_read L)
      | e_VarCreatable \<Rightarrow> creatable_read L (se_fuel E) old
      | e_VarDouble \<Rightarrow> rmap V_Double read_u64
      | e_VarTime \<Rightarrow> rmap V_Time UnifiedTime_read
      | e_VarByte \<Rightarrow> rmap V_Byte read_u8
      | e_VarShort \<Rightarrow> rmap V_Short read_u16
      | e_VarVector3 \<Rightarrow> rmap V_Vector Vector3_read
      | e_VarPoint3 \<Rightarrow> rmap V_Vector Vector3_read
      | e_VarQuaternion \<Rightarrow> rmap V_Quat Quaternion_read
      | e_VarRgb \<Rightarrow>
          (case old of
             V_Color c \<Rightarrow> rbind read_u32 (\<lambda>r. rbind read_u32 (\<lambda>g. rbind read_u32 (\<lambda>b.
               rret (V_Color (c\<lparr>c_R := r, c_G := g, c_B := b\<rparr>)))))
           | _ \<Rightarrow> rfail UndefinedBehaviour)
      | e_VarRgba \<Rightarrow> rbind read_u32 (\<lambda>r. rbind read_u32 (\<lambda>g. rbind read_u32 (\<lambda>b. rbind read_u32 (\<lambda>a.
               rret (V_Color \<lparr>c_R = r, c_G = g, c_B = b, c_A = a\<rparr>)))))
      | e_VarRgb8 \<Rightarrow>
          (case old of
             V_Color8 c \<Rightarrow> rbind read_u8 (\<lambda>r. rbind read_u8 (\<lambda>g. rbind read_u8 (\<lambda>b.
               rret (V_Color8 (c\<lparr>c8_R := r, c8_G := g, c8_B := b\<rparr>)))))
           | _ \<Rightarrow> rfail UndefinedBehaviour)
      | e_VarRgba8 \<Rightarrow> rbind read_u8 (\<lambda>r. rbind read_u8 (\<lambda>g. rbind read_u8 (\<lambda>b. rbind read_u8 (\<lambda>a.
               rret (V_Color8 \<lparr>c8_R = r, c8_G = g, c8_B = b, c8_A = a\<rparr>)))))
      | e_VarStateDesc \<Rightarrow> rfail AssertionFailure
      | e_VarAgeTimeOfDay \<Rightarrow> rret old
      | e_VarInvalid \<Rightarrow> rfail MalformedData)"

fun rmaps :: "('a \<Rightarrow> 'b rd) \<Rightarrow> 'a list \<Rightarrow> 'b list rd" where
  "rmaps p [] = rret []"
| "rmaps p (x # xs) = rbind (p x) (\<lambda>y. rbind (rmaps p xs) (\<lambda>ys. rret (y # ys)))"

text \<open>
  The loop that reads \<open>count\<close> elements, in order or at the indices the stream names, of the elements
  of \<open>xs\<close> at the positions \<open>pos\<close>.
\<close>

fun read_elems :: "bool \<Rightarrow> nat \<Rightarrow> ('a \<Rightarrow> 'a rd) \<Rightarrow> nat list \<Rightarrow> nat list \<Rightarrow> 'a list \<Rightarrow> 'a list rd" where
  "read_elems useIndices max' p pos [] xs = rret xs"
| "read_elems useIndices max' p pos (i # is) xs =
     rbind (if useIndices then stupidLengthRead max' else rret i) (\<lambda>idx.
     if idx \<ge> length pos then rfail MalformedData
     else rbind (p (xs ! (pos ! idx))) (\<lambda>x. read_elems useIndices max' p pos is (xs[pos ! idx := x])))"

definition read_counted :: "nat \<Rightarrow> ('a \<Rightarrow> 'a rd) \<Rightarrow> nat list \<Rightarrow> 'a list \<Rightarrow> 'a list rd" where
  "read_counted max' p pos xs =
     rbind (stupidLengthRead max') (\<lambda>count. read_elems (count \<noteq> length pos) max' p pos [0..<count] xs)"

text \<open>The 32-bit count of a variable of variable length, and the array of that size.\<close>

definition read_size :: "sdl_env \<Rightarrow> new_state \<Rightarrow> VarDescriptor \<Rightarrow> sdl_value list \<Rightarrow> sdl_value list rd" where
  "read_size E new desc vs =
     (if vr_size desc = - 1
      then rbind read_u32 (\<lambda>count.
             if unat count \<ge> 10000 then rfail MalformedData else rlift (resize_values E new desc (unat count)))
      else rret vs)"

fun child_read :: "(State \<Rightarrow> State rd) \<Rightarrow> sdl_value \<Rightarrow> sdl_value rd" where
  "child_read rec (V_Child s) = rmap V_Child (rec s)"
| "child_read rec v = rfail UndefinedBehaviour"

definition rclock :: "sdl_env \<Rightarrow> UnifiedTime rd" where
  "rclock E bs = Inr (se_clock E (length bs), bs)"

definition Variable_read :: "sdl_env \<Rightarrow> (State \<Rightarrow> State rd) \<Rightarrow> new_state \<Rightarrow> Variable \<Rightarrow> Variable rd" where
  "Variable_read E rec new v =
     (let desc = v_desc v in
      rbind read_u8 (\<lambda>contents.
      rbind (if bit contents 1 then rbind read_u8 (\<lambda>_. Stream_readSafeString (se_lib E) e_StringRAW8)
             else rret (v_hint v)) (\<lambda>hint.
      rbind read_u8 (\<lambda>low.
      let flags = (v_flags v AND NOT 0xFF) OR ucast low in
      if vr_type desc = e_VarStateDesc then
        rbind (read_size E new desc (v_values v)) (\<lambda>vs.
        rbind (read_counted (if vr_size desc = - 1 then 0 else length vs) (child_read rec) [0..<length vs] vs) (\<lambda>vs.
        rret (Variable desc vs (v_timestamp v) hint (flags OR 0x100))))
      else
        rbind (if bit flags 2 then UnifiedTime_read else rret (v_timestamp v)) (\<lambda>t.
        rbind (if bit flags 4 \<and> bit flags 5
               then rbind (rclock E) (\<lambda>now. rret (now, (flags AND NOT 0x20) OR 4))
               else rret (t, flags)) (\<lambda>(t, flags).
        rbind (if bit flags 3 then rret (v_values v)
               else rbind (read_size E new desc (v_values v)) (rmaps (value_read E (vr_type desc)))) (\<lambda>vs.
        rret (Variable desc vs t hint (flags OR 0x100)))))))))"

text \<open>\<open>m_simpleVars\<close> and \<open>m_sdVars\<close>: the positions of the plain variables and of the nested states.\<close>

definition simpleVars :: "StateDescriptor \<Rightarrow> nat list" where
  "simpleVars d = filter (\<lambda>i. vr_type (sd_vars d ! i) \<noteq> e_VarStateDesc) [0..<length (sd_vars d)]"

definition sdVars :: "StateDescriptor \<Rightarrow> nat list" where
  "sdVars d = filter (\<lambda>i. vr_type (sd_vars d ! i) = e_VarStateDesc) [0..<length (sd_vars d)]"

fun State_read :: "sdl_env \<Rightarrow> nat \<Rightarrow> State \<Rightarrow> State rd" where
  "State_read E fuel NullState = rret NullState"
| "State_read E 0 (State d vars obj f) = rfail NoFuel"
| "State_read E (Suc fuel) (State d vars obj f) =
     (let n = length (sd_vars (snd d)); var_read = Variable_read E (State_read E fuel) (State_new E fuel) in
      rbind read_u16 (\<lambda>flags.
      rbind read_u8 (\<lambda>version.
      if version \<noteq> 6 then rfail MalformedData
      else
        rbind (read_counted n var_read (simpleVars (snd d)) vars) (\<lambda>vars.
        rbind (read_counted n var_read (sdVars (snd d)) vars) (\<lambda>vars.
        rret (State d vars obj flags))))))"

definition State_Create :: "sdl_env \<Rightarrow> nat \<Rightarrow> State rd" where
  "State_Create E fuel =
     rbind read_u16 (\<lambda>flags.
     if flags AND 0x8000 = 0 then rfail MalformedData
     else
       rbind (Stream_readSafeString (se_lib E) e_StringRAW8) (\<lambda>name.
       rbind read_u16 (\<lambda>version.
       rbind (rlift (State_new E fuel (FindDescriptor (se_fold E) (se_db E) name (sint version)))) (\<lambda>s.
       case s of
         NullState \<Rightarrow> rret NullState
       | State d vars obj f \<Rightarrow>
           if bit flags 0 then rbind (Uoid_read (se_lib E)) (\<lambda>obj. rret (State d vars obj f)) else rret s))))"

definition State_FromBlob :: "sdl_env \<Rightarrow> nat \<Rightarrow> bytes \<Rightarrow> ds_error + State" where
  "State_FromBlob E fuel blob =
     (if blob = [] then Inr NullState
      else case rbind (State_Create E fuel) (State_read E fuel) blob of
             Inl e \<Rightarrow> Inl e
           | Inr (s, rest) \<Rightarrow> Inr s)"

section \<open>Combination and upgrade\<close>

text \<open>
  \<open>State::add\<close> and \<open>State::merge\<close>. Descriptors are compared as pointers, that is by their place in the
  database; a null argument is dereferenced.
\<close>

fun State_add :: "State \<Rightarrow> State \<Rightarrow> ds_error + State" where
  "State_add NullState s = Inr NullState"
| "State_add (State d vars obj f) NullState = Inl UndefinedBehaviour"
| "State_add (State d vars obj f) (State d' vars' obj' f') =
     (if fst d' \<noteq> fst d then Inl MalformedData
      else Inr (State d (map2 (\<lambda>v v'. if dirty v' then v' else v) vars vars') obj f))"

fun State_merge :: "State \<Rightarrow> State \<Rightarrow> ds_error + State" where
  "State_merge NullState s = Inr NullState"
| "State_merge (State d vars obj f) NullState = Inl UndefinedBehaviour"
| "State_merge (State d vars obj f) (State d' vars' obj' f') =
     (if fst d' \<noteq> fst d then Inr (State d vars obj f)
      else Inr (State d (map2 (\<lambda>v v'. if UnifiedTime_gt (v_timestamp v') (v_timestamp v) then v' else v) vars vars')
             obj f))"

text \<open>
  \<open>Variable::copy\<close>: only the elements are copied; \<open>upd\<close> is \<open>State::update\<close> on a nested state.
\<close>

fun child_copy :: "(State \<Rightarrow> ds_error + bool \<times> State) \<Rightarrow> sdl_value \<Rightarrow> ds_error + sdl_value" where
  "child_copy upd (V_Child s) = (case upd s of Inl e \<Rightarrow> Inl e | Inr (_, s') \<Rightarrow> Inr (V_Child s'))"
| "child_copy upd v = Inl UndefinedBehaviour"

definition Variable_copy ::
  "sdl_env \<Rightarrow> (State \<Rightarrow> ds_error + bool \<times> State) \<Rightarrow> new_state \<Rightarrow> Variable \<Rightarrow> Variable \<Rightarrow> ds_error + Variable" where
  "Variable_copy E upd new v rhs =
     (if vr_type (v_desc v) \<noteq> vr_type (v_desc rhs) then Inl MalformedData
      else case (if vr_size (v_desc v) = - 1 then Variable_resize E new v (length (v_values rhs)) else Inr v) of
        Inl e \<Rightarrow> Inl e
      | Inr v \<Rightarrow>
          let minsize = min (length (v_values v)) (length (v_values rhs)) in
          if vr_type (v_desc v) = e_VarInvalid then Inl AssertionFailure
          else case (if vr_type (v_desc v) = e_VarStateDesc
                     then sequence (map (child_copy upd) (take minsize (v_values rhs)))
                     else Inr (take minsize (v_values rhs))) of
            Inl e \<Rightarrow> Inl e
          | Inr vs \<Rightarrow> Inr (Variable (v_desc v) (vs @ drop minsize (v_values v)) (v_timestamp v) (v_hint v) (v_flags v)))"

text \<open>
  The loop of \<open>State::update\<close> for one variable of the new descriptor: the old variable of the same
  name, if there was one, is copied into it.
\<close>

definition update_var ::
  "sdl_env \<Rightarrow> (State \<Rightarrow> ds_error + bool \<times> State) \<Rightarrow> new_state \<Rightarrow> StateDescriptor \<Rightarrow> Variable list \<Rightarrow> Variable
    \<Rightarrow> ds_error + Variable" where
  "update_var E upd new old vars v =
     (case map_of (sd_varmap old) (vr_name (v_desc v)) of
        None \<Rightarrow> Inr v
      | Some k \<Rightarrow> if k < length vars then Variable_copy E upd new v (vars ! k) else Inl UndefinedBehaviour)"

fun State_update :: "sdl_env \<Rightarrow> nat \<Rightarrow> State \<Rightarrow> ds_error + bool \<times> State" where
  "State_update E fuel NullState = Inr (False, NullState)"
| "State_update E 0 (State d vars obj f) = Inl NoFuel"
| "State_update E (Suc fuel) (State d vars obj f) =
     (case FindLatestDescriptor (se_fold E) (se_db E) (sd_name (snd d)) of
        None \<Rightarrow> Inl UndefinedBehaviour
      | Some newdesc \<Rightarrow>
          if fst newdesc = fst d then Inr (False, State d vars obj f)
          else case State_new E (Suc fuel) (Some newdesc) of
                 Inr (State d' vars' obj' f') \<Rightarrow>
                   (case sequence (map (update_var E (State_update E fuel) (State_new E fuel) (snd d) vars) vars') of
                      Inl e \<Rightarrow> Inl e
                    | Inr vars'' \<Rightarrow> Inr (True, State d' vars'' obj' f'))
               | Inr NullState \<Rightarrow> Inl UndefinedBehaviour
               | Inl e \<Rightarrow> Inl e)"

end
