(* ===== verification/Sdl_Typing.thy ===== *)
theory Sdl_Typing
  imports Sdl_State
begin

unbundle bit_operations_syntax

text \<open>
  The type invariant of SDL states: every variable is the one its descriptor declares, holds the
  declared number of elements, and each element has the declared type. Every operation keeps it,
  whatever bytes a state is read from; and a state that has it can be written.
\<close>

section \<open>Induction over states\<close>

lemma state_induct [case_names scalar child variable null state]:
  assumes "\<And>v. (\<And>s. v \<noteq> V_Child s) \<Longrightarrow> P v" and "\<And>s. R s \<Longrightarrow> P (V_Child s)"
    and "\<And>desc vs t h f. (\<And>v. v \<in> set vs \<Longrightarrow> P v) \<Longrightarrow> Q (Variable desc vs t h f)"
    and "R NullState" and "\<And>d vars obj f. (\<And>w. w \<in> set vars \<Longrightarrow> Q w) \<Longrightarrow> R (State d vars obj f)"
  shows "P v" and "Q w" and "R s"
proof -
  show "P v" and "Q w" and "R s"
    by (induction v and w and s rule: sdl_value.induct Variable.induct State.induct) (auto intro: assms)
qed

section \<open>The invariant\<close>

definition scalar_typed :: "VarType \<Rightarrow> sdl_value \<Rightarrow> bool" where
  "scalar_typed type v =
     (case v of
        V_Int _ \<Rightarrow> type = e_VarInt
      | V_Float _ \<Rightarrow> type = e_VarFloat
      | V_Bool _ \<Rightarrow> type = e_VarBool
      | V_String _ \<Rightarrow> type = e_VarString
      | V_Key _ \<Rightarrow> type = e_VarKey
      | V_Creatable _ \<Rightarrow> type = e_VarCreatable
      | V_Double _ \<Rightarrow> type = e_VarDouble
      | V_Time _ \<Rightarrow> type = e_VarTime
      | V_Byte _ \<Rightarrow> type = e_VarByte
      | V_Short _ \<Rightarrow> type = e_VarShort
      | V_Vector _ \<Rightarrow> type = e_VarVector3 \<or> type = e_VarPoint3
      | V_Quat _ \<Rightarrow> type = e_VarQuaternion
      | V_Color _ \<Rightarrow> type = e_VarRgb \<or> type = e_VarRgba
      | V_Color8 _ \<Rightarrow> type = e_VarRgb8 \<or> type = e_VarRgba8
      | V_Child _ \<Rightarrow> False
      | V_Nothing \<Rightarrow> type = e_VarAgeTimeOfDay \<or> type = e_VarInvalid)"

definition size_ok :: "VarDescriptor \<Rightarrow> nat \<Rightarrow> bool" where
  "size_ok desc n \<longleftrightarrow> vr_size desc = - 1 \<or> n = nat (vr_size desc)"

fun value_typed :: "VarType \<Rightarrow> sdl_value \<Rightarrow> bool"
  and Variable_typed :: "Variable \<Rightarrow> bool"
  and State_typed :: "State \<Rightarrow> bool" where
  "value_typed type (V_Child s) = (type = e_VarStateDesc \<and> State_typed s)"
| "value_typed type v = scalar_typed type v"
| "Variable_typed (Variable desc vs t h f) = (size_ok desc (length vs) \<and> list_all (value_typed (vr_type desc)) vs)"
| "State_typed NullState = True"
| "State_typed (State d vars obj f) = (map v_desc vars = sd_vars (snd d) \<and> list_all Variable_typed vars)"

lemma Variable_typed_iff:
  "Variable_typed v \<longleftrightarrow> size_ok (v_desc v) (length (v_values v))
     \<and> list_all (value_typed (vr_type (v_desc v))) (v_values v)"
  by (cases v) simp

lemma scalar_imp_typed: "scalar_typed type v \<Longrightarrow> value_typed type v"
  by (cases v) (auto simp: scalar_typed_def)

section \<open>Creation\<close>

lemma default_value_typed:
  "vr_type desc \<noteq> e_VarStateDesc \<Longrightarrow> value_typed (vr_type desc) old \<Longrightarrow> value_typed (vr_type desc) (default_value desc old)"
  by (cases "vr_type desc") (simp_all add: default_value_def Let_def scalar_typed_def)

lemma v_desc_setDefault [simp]: "v_desc (Variable_setDefault w) = v_desc w"
  by (cases w) simp

lemma setDefault_typed:
  "value_typed (vr_type desc) v \<Longrightarrow> value_typed (vr_type desc) (value_setDefault desc v)"
  "Variable_typed w \<Longrightarrow> Variable_typed (Variable_setDefault w)"
  "State_typed s \<Longrightarrow> State_typed (State_setDefault s)"
  by (induction desc v and w and s rule: value_setDefault_Variable_setDefault_State_setDefault.induct)
    (auto simp: list_all_iff comp_def scalar_typed_def default_value_def Let_def split: VarType.splits)

lemma fresh_value_typed: "type \<noteq> e_VarStateDesc \<Longrightarrow> value_typed type (fresh_value L type i)"
  by (cases type) (simp_all add: fresh_value_def scalar_typed_def)

text \<open>What a constructor of nested states has to give.\<close>

definition typed_new :: "new_state \<Rightarrow> bool" where
  "typed_new new \<longleftrightarrow> (\<forall>p s. new p = Inr s \<longrightarrow> State_typed s)"

lemma resize_typed:
  assumes "typed_new new" and "resize_values E new desc n = Inr vs"
  shows "length vs = n \<and> list_all (value_typed (vr_type desc)) vs"
  using assms
  by (auto simp: resize_values_def typed_new_def list_all_iff intro: fresh_value_typed split: if_splits sum.splits)

lemma Variable_new_typed:
  "typed_new new \<Longrightarrow> Variable_new E new desc = Inr v \<Longrightarrow> Variable_typed v \<and> v_desc v = desc"
  by (auto simp: Variable_new_def Variable_resize_def Variable_typed_iff size_ok_def Let_def dest: resize_typed
      split: if_splits sum.splits)

lemma sequence_map_Inr_id [simp]: "sequence (map Inr xs) = Inr xs"
  by (induction xs) auto

lemma sequence_Inr: "sequence rs = Inr xs \<longleftrightarrow> rs = map Inr xs"
proof
  show "sequence rs = Inr xs \<Longrightarrow> rs = map Inr xs"
    by (induction rs arbitrary: xs) (auto split: sum.splits)
qed simp

lemma sequence_map_Inr: "sequence (map f xs) = Inr ys \<longleftrightarrow> list_all2 (\<lambda>x y. f x = Inr y) xs ys"
  by (auto simp: sequence_Inr list_all2_conv_all_nth list_eq_iff_nth_eq)

lemma State_new_typed: "typed_new (State_new E fuel)"
proof (induction fuel)
  case (Suc fuel)
  have "State_typed s" if s: "State_new E (Suc fuel) (Some d) = Inr s" for d s
  proof -
    obtain vars where "list_all2 (\<lambda>x y. Variable_new E (State_new E fuel) x = Inr y) (sd_vars (snd d)) vars"
      "s = State_setDefault (State d vars Uoid_new 0)"
      using s by (auto simp: sequence_map_Inr split: sum.splits)
    moreover from this(1) have "map v_desc vars = sd_vars (snd d) \<and> list_all Variable_typed vars"
      by (induction rule: list_all2_induct) (auto dest: Variable_new_typed [OF Suc])
    ultimately show ?thesis by (metis State_typed.simps(2) setDefault_typed(3))
  qed
  moreover have "State_typed s" if "State_new E (Suc fuel) None = Inr s" for s using that by auto
  ultimately show ?case unfolding typed_new_def by (metis not_None_eq)
next
  case 0
  have "p = None" if "State_new E 0 p = Inr s" for p s using that by (cases p) simp_all
  then show ?case unfolding typed_new_def by (metis State_new.simps(1) State_typed.simps(1) sum.inject(2))
qed

section \<open>Reading\<close>

lemma creatable_read_typed:
  "value_typed e_VarCreatable old \<Longrightarrow> yields (creatable_read L fuel old) (value_typed e_VarCreatable)"
  unfolding creatable_read_def
  by (rule yields_skip, intro yields_if yields_rret yields_rfail yields_skip yields_rmap)
    (simp_all add: scalar_typed_def yields_def)

lemma value_read_typed: "value_typed type old \<Longrightarrow> yields (value_read E type old) (value_typed type)"
proof (cases "type = e_VarCreatable")
  case False
  then show "value_typed type old \<Longrightarrow> ?thesis"
    by (cases type)
      (auto simp: value_read_def Let_def scalar_typed_def yields_def rmap_def rbind_eq_Inr split: sdl_value.splits)
qed (simp add: value_read_def creatable_read_typed)

lemma rmaps_yields:
  assumes "\<And>x. x \<in> set xs \<Longrightarrow> yields (p x) P"
  shows "yields (rmaps p xs) (\<lambda>ys. length ys = length xs \<and> list_all P ys)"
  using assms
proof (induction xs)
  case (Cons x xs)
  then show ?case
    by (auto intro!: yields_rbind [of "p x" P]
        yields_rbind [of "rmaps p xs" "\<lambda>ys. length ys = length xs \<and> list_all P ys"] yields_rret)
qed (simp add: yields_rret)

text \<open>A loop over elements keeps what reading an element keeps, of an element and of its place.\<close>

lemma read_elems_yields:
  assumes "\<And>i x. i < length xs \<Longrightarrow> P i x \<Longrightarrow> yields (p x) (P i)"
    and "\<forall>k \<in> set pos. k < length xs" and "\<forall>i < length xs. P i (xs ! i)"
  shows "yields (read_elems useIndices m p pos is xs) (\<lambda>ys. length ys = length xs \<and> (\<forall>i < length xs. P i (ys ! i)))"
  using assms
proof (induction "is" arbitrary: xs)
  case (Cons i "is")
  have elem: "yields (p (xs ! (pos ! idx))) (P (pos ! idx))" if "idx < length pos" for idx
    using Cons.prems that by (metis nth_mem)
  have rest: "yields (read_elems useIndices m p pos is (xs[pos ! idx := x]))
      (\<lambda>ys. length ys = length xs \<and> (\<forall>i < length xs. P i (ys ! i)))"
    if "P (pos ! idx) x" for idx x
  proof -
    have "P i (xs[pos ! idx := x] ! i)" if "i < length xs" for i
      using Cons.prems(3) \<open>P (pos ! idx) x\<close> that by (cases "i = pos ! idx") auto
    then show ?thesis using Cons.IH [of "xs[pos ! idx := x]"] Cons.prems(1,2) by simp
  qed
  have "yields (if idx \<ge> length pos then rfail MalformedData
      else rbind (p (xs ! (pos ! idx))) (\<lambda>x. read_elems useIndices m p pos is (xs[pos ! idx := x])))
      (\<lambda>ys. length ys = length xs \<and> (\<forall>i < length xs. P i (ys ! i)))" for idx
  proof (cases "idx \<ge> length pos")
    case False
    then show ?thesis using yields_rbind [OF elem rest] by simp
  qed (simp add: yields_def)
  then show ?case unfolding read_elems.simps by (rule yields_skip)
qed (simp add: yields_def)

lemma read_counted_yields:
  assumes "\<And>i x. i < length xs \<Longrightarrow> P i x \<Longrightarrow> yields (p x) (P i)"
    and "\<forall>k \<in> set pos. k < length xs" and "\<forall>i < length xs. P i (xs ! i)"
  shows "yields (read_counted m p pos xs) (\<lambda>ys. length ys = length xs \<and> (\<forall>i < length xs. P i (ys ! i)))"
  unfolding read_counted_def using assms by (intro yields_skip read_elems_yields)

lemma read_size_yields:
  assumes "typed_new new" and "size_ok desc (length vs)" and "list_all (value_typed (vr_type desc)) vs"
  shows "yields (read_size E new desc vs)
    (\<lambda>vs. size_ok desc (length vs) \<and> list_all (value_typed (vr_type desc)) vs)"
proof (cases "vr_size desc = - 1")
  case True
  have "yields (rlift (resize_values E new desc n))
      (\<lambda>vs. size_ok desc (length vs) \<and> list_all (value_typed (vr_type desc)) vs)" for n
    using resize_typed [OF assms(1)] True by (auto simp: yields_def rlift_def size_ok_def split: sum.splits)
  then show ?thesis using True unfolding read_size_def by (auto intro!: yields_skip yields_rfail)
qed (use assms in \<open>auto simp: read_size_def intro!: yields_rret\<close>)

text \<open>Reading a variable keeps its descriptor and the invariant.\<close>

lemma Variable_read_typed:
  assumes "\<And>s. State_typed s \<Longrightarrow> yields (rec s) State_typed" and "typed_new new" and "Variable_typed v"
  shows "yields (Variable_read E rec new v) (\<lambda>w. Variable_typed w \<and> v_desc w = v_desc v)"
proof -
  let ?desc = "v_desc v"
  let ?ok = "\<lambda>vs. size_ok ?desc (length vs) \<and> list_all (value_typed (vr_type ?desc)) vs"
  have v: "?ok (v_values v)" using assms(3) by (simp add: Variable_typed_iff)
  have size: "yields (read_size E new ?desc (v_values v)) ?ok" using read_size_yields assms(2) v by blast
  have child: "yields (child_read rec x) (value_typed e_VarStateDesc)" if "value_typed e_VarStateDesc x" for x
    using that assms(1) by (cases x) (auto intro!: yields_rmap yields_rfail simp: scalar_typed_def)
  have children: "yields (read_counted m (child_read rec) [0..<length vs] vs) ?ok"
    if "?ok vs" "vr_type ?desc = e_VarStateDesc" for m vs
    by (rule yields_weaken [OF read_counted_yields [where P = "\<lambda>_. value_typed e_VarStateDesc"]])
      (use that child in \<open>auto simp: list_all_length\<close>)
  have scalars: "yields (rmaps (value_read E (vr_type ?desc)) vs) ?ok" if "?ok vs" for vs
    by (rule yields_weaken [OF rmaps_yields [where P = "value_typed (vr_type ?desc)"]])
      (use that value_read_typed in \<open>auto simp: list_all_iff\<close>)
  have elems: "yields (if b then rret (v_values v)
      else rbind (read_size E new ?desc (v_values v)) (rmaps (value_read E (vr_type ?desc)))) ?ok" for b
    by (intro yields_if yields_rret v yields_rbind [OF size] scalars)
  show ?thesis
  proof (cases "vr_type ?desc = e_VarStateDesc")
    case True
    show ?thesis
      unfolding Variable_read_def Let_def if_P [OF True]
      by (rule yields_skip, rule yields_skip, rule yields_skip, rule yields_rbind [OF size],
          rule yields_rbind [OF children [OF _ True]], assumption, rule yields_rret) (simp add: Variable_typed_iff)
  next
    case False
    show ?thesis
      unfolding Variable_read_def Let_def if_not_P [OF False] split_beta
      by (rule yields_skip, rule yields_skip, rule yields_skip, rule yields_skip, rule yields_skip,
          rule yields_rbind [OF elems], rule yields_rret) (simp add: Variable_typed_iff)
  qed
qed

lemma positions: "\<forall>k \<in> set (simpleVars d). k < length (sd_vars d)" "\<forall>k \<in> set (sdVars d). k < length (sd_vars d)"
  by (simp_all add: simpleVars_def sdVars_def)

lemma vars_typed_nth:
  "map v_desc vars = ds \<and> list_all Variable_typed vars \<longleftrightarrow>
   length vars = length ds \<and> (\<forall>i < length vars. Variable_typed (vars ! i) \<and> v_desc (vars ! i) = ds ! i)"
  by (auto simp: list_all_length list_eq_iff_nth_eq)

lemma State_read_typed: "State_typed s \<Longrightarrow> yields (State_read E fuel s) State_typed"
proof (induction fuel arbitrary: s)
  case 0
  then show ?case by (cases s) (auto simp: yields_def)
next
  case (Suc fuel)
  show ?case
  proof (cases s)
    case (State d vars obj f)
    let ?ds = "sd_vars (snd d)"
    let ?ok = "\<lambda>vars. length vars = length ?ds \<and> (\<forall>i < length ?ds. Variable_typed (vars ! i) \<and> v_desc (vars ! i) = ?ds ! i)"
    have vars: "?ok vars" using Suc.prems State vars_typed_nth [of vars ?ds] by auto
    have "yields (Variable_read E (State_read E fuel) (State_new E fuel) v) (\<lambda>w. Variable_typed w \<and> v_desc w = ?ds ! i)"
      if "Variable_typed v \<and> v_desc v = ?ds ! i" for v i
      using that Variable_read_typed [OF Suc.IH State_new_typed, where v = v] by simp
    then have step: "yields (read_counted n (Variable_read E (State_read E fuel) (State_new E fuel)) pos vars) ?ok"
      if "?ok vars" "\<forall>k \<in> set pos. k < length ?ds" for n pos vars
      using that by (intro yields_weaken [OF read_counted_yields
            [where P = "\<lambda>i v. Variable_typed v \<and> v_desc v = ?ds ! i"]]) auto
    have final: "yields (rret (State d vars obj flags)) State_typed" if "?ok vars" for vars flags
      using that vars_typed_nth [of vars ?ds] by (intro yields_rret) simp
    show ?thesis
      unfolding State State_read.simps Let_def
      by (rule yields_skip, rule yields_skip, rule yields_if, rule yields_rfail,
          rule yields_rbind [OF step [OF vars positions(1)]], rule yields_rbind [OF step [OF _ positions(2)]],
          assumption, erule final)
  qed (simp add: yields_def)
qed

lemma State_Create_typed: "yields (State_Create E fuel) State_typed"
proof -
  have "yields (rlift (State_new E fuel p)) State_typed" for p
    using State_new_typed [of E fuel] by (auto simp: yields_def rlift_def typed_new_def split: sum.splits)
  then have create: "yields (rlift (State_new E fuel p)) State_typed" for p by simp
  show ?thesis
    unfolding State_Create_def
    by (rule yields_skip, rule yields_if, rule yields_rfail, rule yields_skip, rule yields_skip,
        rule yields_rbind [OF create]) (auto intro!: yields_rret yields_skip split: State.split)
qed

section \<open>Combination and upgrade\<close>

text \<open>Two states of one descriptor: choosing the variables from either keeps the invariant.\<close>

lemma map2_typed:
  assumes "map v_desc vars = ds \<and> list_all Variable_typed vars" and "map v_desc vars' = ds \<and> list_all Variable_typed vars'"
    and "\<And>v v'. c v v' = v \<or> c v v' = v'"
  shows "map v_desc (map2 c vars vars') = ds \<and> list_all Variable_typed (map2 c vars vars')"
  using assms unfolding vars_typed_nth by simp metis

text \<open>Pointers to descriptors of one database that are equal point to the same descriptor.\<close>

lemma State_combine_typed:
  assumes "State_typed (State d vars obj f)" and "State_typed (State d vars' obj' f')"
  shows "State_add (State d vars obj f) (State d vars' obj' f') = Inr t \<Longrightarrow> State_typed t"
    and "State_merge (State d vars obj f) (State d vars' obj' f') = Inr t \<Longrightarrow> State_typed t"
proof -
  note vars = assms [unfolded State_typed.simps]
  have "State_typed (State d (map2 (\<lambda>v v'. if p v v' then v' else v) vars vars') obj f)" for p
    using map2_typed [OF vars, of "\<lambda>v v'. if p v v' then v' else v"] by simp
  then show "State_add (State d vars obj f) (State d vars' obj' f') = Inr t \<Longrightarrow> State_typed t"
    and "State_merge (State d vars obj f) (State d vars' obj' f') = Inr t \<Longrightarrow> State_typed t"
    by (auto simp del: State_typed.simps)
qed

definition typed_upd :: "(State \<Rightarrow> ds_error + bool \<times> State) \<Rightarrow> bool" where
  "typed_upd upd \<longleftrightarrow> (\<forall>s r s'. State_typed s \<longrightarrow> upd s = Inr (r, s') \<longrightarrow> State_typed s')"

lemma child_copy_typed:
  assumes "typed_upd upd"
    and "value_typed e_VarStateDesc v" and "child_copy upd v = Inr w"
  shows "value_typed e_VarStateDesc w"
  using assms unfolding typed_upd_def by (cases v) (auto split: sum.splits)

lemma Variable_copy_typed:
  assumes upd: "typed_upd upd" and new: "typed_new new" and v: "Variable_typed v" and rhs: "Variable_typed rhs"
    and copy: "Variable_copy E upd new v rhs = Inr w"
  shows "Variable_typed w \<and> v_desc w = v_desc v"
proof -
  let ?type = "vr_type (v_desc v)"
  from copy have type: "?type = vr_type (v_desc rhs)" by (auto simp: Variable_copy_def split: if_splits)
  from copy obtain u where
    u: "(if vr_size (v_desc v) = - 1 then Variable_resize E new v (length (v_values rhs)) else Inr v) = Inr u"
    unfolding Variable_copy_def by (auto split: if_splits sum.splits)
  then have u_ok: "Variable_typed u" "v_desc u = v_desc v"
    using v resize_typed [OF new]
    by (auto simp: Variable_resize_def Variable_typed_iff size_ok_def split: if_splits sum.splits)
  let ?min = "min (length (v_values u)) (length (v_values rhs))"
  obtain vs where vs:
    "(if ?type = e_VarStateDesc then sequence (map (child_copy upd) (take ?min (v_values rhs)))
      else Inr (take ?min (v_values rhs))) = Inr vs"
    "w = Variable (v_desc u) (vs @ drop ?min (v_values u)) (v_timestamp u) (v_hint u) (v_flags u)"
    using copy unfolding Variable_copy_def u Let_def
    by (simp add: type u_ok(2) split: if_split_asm sum.split_asm)
  have rhs_ok: "list_all (value_typed ?type) (take ?min (v_values rhs))"
    using rhs by (auto simp: Variable_typed_iff type list_all_iff dest: in_set_takeD)
  have "length vs = ?min \<and> list_all (value_typed ?type) vs"
  proof (cases "?type = e_VarStateDesc")
    case True
    then have "list_all2 (\<lambda>x y. child_copy upd x = Inr y) (take ?min (v_values rhs)) vs"
      using vs(1) by (simp add: sequence_map_Inr)
    moreover from this have "list_all (value_typed ?type) vs"
      using rhs_ok unfolding True
      by (induction rule: list_all2_induct) (auto dest: child_copy_typed [OF upd])
    ultimately show ?thesis by (auto dest: list_all2_lengthD)
  qed (use vs(1) rhs_ok in auto)
  then show ?thesis
    using u_ok vs(2) by (auto simp: Variable_typed_iff list_all_iff dest: in_set_dropD)
qed

lemma update_var_typed:
  assumes "typed_upd upd" and "typed_new new"
    and "list_all Variable_typed vars" and "Variable_typed v" and "update_var E upd new old vars v = Inr w"
  shows "Variable_typed w \<and> v_desc w = v_desc v"
proof (cases "map_of (sd_varmap old) (vr_name (v_desc v))")
  case (Some k)
  then have k: "k < length vars" "Variable_copy E upd new v (vars ! k) = Inr w"
    using assms(5) by (auto simp: update_var_def split: if_splits)
  then have "Variable_typed (vars ! k)" using assms(3) by (simp add: list_all_length)
  then show ?thesis using Variable_copy_typed assms(1,2,4) k(2) by blast
qed (use assms in \<open>simp add: update_var_def\<close>)

text \<open>An upgrade that was carried out: the new state, and each of its variables updated from the old ones.\<close>

lemma State_updateE:
  assumes "State_update E (Suc fuel) (State d vars obj f) = Inr (r, s')"
  obtains (current) "r = False" "s' = State d vars obj f"
  | (upgraded) newdesc d' vars' obj' f' vars'' where "r = True"
    "FindLatestDescriptor (se_fold E) (se_db E) (sd_name (snd d)) = Some newdesc" "fst newdesc \<noteq> fst d"
    "State_new E (Suc fuel) (Some newdesc) = Inr (State d' vars' obj' f')"
    "list_all2 (\<lambda>v w. update_var E (State_update E fuel) (State_new E fuel) (snd d) vars v = Inr w) vars' vars''"
    "s' = State d' vars'' obj' f'"
proof (cases "FindLatestDescriptor (se_fold E) (se_db E) (sd_name (snd d))")
  case (Some newdesc)
  show ?thesis
  proof (cases "fst newdesc = fst d")
    case False
    note upd = assms [unfolded State_update.simps Some option.case if_not_P [OF False]]
    show ?thesis
    proof (cases "State_new E (Suc fuel) (Some newdesc)")
      case (Inr t)
      show ?thesis
      proof (cases t)
        case (State d' vars' obj' f')
        let ?u = "map (update_var E (State_update E fuel) (State_new E fuel) (snd d) vars) vars'"
        note upd = upd [unfolded Inr sum.case State State.case]
        obtain vars'' where u: "sequence ?u = Inr vars''" using upd by (cases "sequence ?u") simp_all
        show ?thesis
          using upgraded [OF _ Some False Inr [unfolded State] u [unfolded sequence_map_Inr]] upd u by simp
      qed (use upd Inr in simp)
    qed (use upd in simp)
  qed (use assms Some current in simp)
qed (use assms in simp)

lemma State_update_typed: "typed_upd (State_update E fuel)"
proof (induction fuel)
  case 0
  have "s' = NullState" if "State_update E 0 s = Inr (r, s')" for s r s' using that by (cases s) simp_all
  then show ?case unfolding typed_upd_def by (metis State_typed.simps(1))
next
  case (Suc fuel)
  have "State_typed s'" if typed: "State_typed (State d vars obj f)"
    and upd: "State_update E (Suc fuel) (State d vars obj f) = Inr (r, s')" for d vars obj f r s'
    using upd
  proof (cases rule: State_updateE)
    case (upgraded newdesc d' vars' obj' f' vars'')
    have "State_typed (State d' vars' obj' f')" using State_new_typed upgraded(4) unfolding typed_new_def by blast
    then have "map v_desc vars' = sd_vars (snd d')" "list_all Variable_typed vars'" by simp_all
    moreover have "Variable_typed w \<and> v_desc w = v_desc v"
      if "Variable_typed v" "update_var E (State_update E fuel) (State_new E fuel) (snd d) vars v = Inr w" for v w
      using update_var_typed [OF Suc.IH State_new_typed _ that] typed by simp
    then have "list_all2 (\<lambda>v w. Variable_typed w \<and> v_desc w = v_desc v) vars' vars''"
      using upgraded(5) \<open>list_all Variable_typed vars'\<close> unfolding list_all2_conv_all_nth list_all_length by blast
    then have "map v_desc vars'' = map v_desc vars'" "list_all Variable_typed vars''"
      by (auto simp: list_all2_conv_all_nth list_all_length list_eq_iff_nth_eq)
    ultimately show ?thesis using upgraded(6) by simp
  qed (use typed in simp)
  moreover have "State_typed s'" if "State_update E (Suc fuel) NullState = Inr (r, s')" for r s' using that by simp
  ultimately show ?case unfolding typed_upd_def by (metis State.exhaust)
qed

section \<open>Writing\<close>

text \<open>
  The descriptors the parser can produce: no variable without a type. Then a state that has the
  invariant is written without a failed assertion and without touching anything out of bounds; only
  an object among its values can make the writer throw.
\<close>

definition no_error :: "wres \<Rightarrow> bool" where
  "no_error w \<longleftrightarrow> (\<exists>b. w = Inr b)"

lemma no_error_wconcat: "no_error (wconcat ws) \<longleftrightarrow> list_all no_error ws"
  by (induction ws) (auto simp: no_error_def split: sum.splits)

lemma no_error_Inr [simp]: "no_error (Inr b)"
  by (simp add: no_error_def)

definition plain_type_ok :: "VarType \<Rightarrow> bool" where
  "plain_type_ok type \<longleftrightarrow> type \<noteq> e_VarInvalid \<and> type \<noteq> e_VarCreatable"

fun value_writable :: "sdl_value \<Rightarrow> bool"
  and Variable_writable :: "Variable \<Rightarrow> bool"
  and State_writable :: "State \<Rightarrow> bool" where
  "value_writable (V_Child s) = State_writable s"
| "value_writable v = True"
| "Variable_writable (Variable desc vs t h f) = (plain_type_ok (vr_type desc) \<and> list_all value_writable vs)"
| "State_writable NullState = True"
| "State_writable (State d vars obj f) = list_all Variable_writable vars"

lemma value_typed_scalar: "type \<noteq> e_VarStateDesc \<Longrightarrow> value_typed type v \<Longrightarrow> scalar_typed type v"
  by (cases v) simp_all

lemma value_write_ok:
  "scalar_typed (vr_type desc) v \<Longrightarrow> plain_type_ok (vr_type desc) \<Longrightarrow> no_error (value_write L desc v)"
  by (cases v; cases "vr_type desc") (simp_all add: scalar_typed_def value_write_def plain_type_ok_def)

lemma write_dirty_ok: "list_all (\<lambda>(b, w). b \<longrightarrow> no_error w) imgs \<Longrightarrow> no_error (write_dirty useIndices m imgs)"
  unfolding write_dirty_def no_error_wconcat
  by (auto simp: list_all_iff in_set_enumerate_eq) (metis case_prodD nth_mem)+

lemma list_all_take: "list_all P xs \<Longrightarrow> list_all P (take k xs)"
  by (auto simp: list_all_iff dest: in_set_takeD)

lemma loops_ok:
  "list_all (\<lambda>(b, w). b \<longrightarrow> no_error w) imgs \<Longrightarrow> no_error (children_write n imgs)"
  "list_all (\<lambda>(b, w). b \<longrightarrow> no_error w) imgs \<Longrightarrow> list_all (\<lambda>(b, w). b \<longrightarrow> no_error w) imgs' \<Longrightarrow>
   no_error (vars_write m imgs imgs')"
  by (simp_all add: children_write_def vars_write_def Let_def no_error_wconcat write_dirty_ok list_all_take
      del: wconcat.simps)

lemma write_ok:
  "value_typed e_VarStateDesc v \<longrightarrow> value_writable v \<longrightarrow> fst (child_image L v) \<longrightarrow> no_error (snd (child_image L v))"
  "Variable_typed w \<longrightarrow> Variable_writable w \<longrightarrow> no_error (Variable_write L w)"
  "State_typed s \<longrightarrow> State_writable s \<longrightarrow> s \<noteq> NullState \<longrightarrow> no_error (State_write L s)"
proof (induction v and w and s rule: state_induct)
  case (scalar v)
  then show ?case by (cases v) (auto simp: scalar_typed_def)
next
  case (child s)
  then show ?case by (cases s) (auto simp del: State_write.simps)
next
  case (variable desc vs t h f)
  show ?case
  proof (intro impI)
    assume prems: "Variable_typed (Variable desc vs t h f)" "Variable_writable (Variable desc vs t h f)"
    have "no_error (children_write (vr_size desc) (map (child_image L) vs))" if "vr_type desc = e_VarStateDesc"
      using variable.IH prems that by (intro loops_ok) (auto simp: list_all_iff case_prod_unfold)
    moreover have "list_all (\<lambda>v. no_error (value_write L desc v)) vs" if "vr_type desc \<noteq> e_VarStateDesc"
      using prems that value_typed_scalar value_write_ok by (auto simp: list_all_iff)
    ultimately show "no_error (Variable_write L (Variable desc vs t h f))"
      by (simp add: Let_def no_error_wconcat list_all_iff del: wconcat.simps)
  qed
next
  case (state d vars obj f)
  then show ?case
    by (auto simp: Let_def no_error_wconcat list_all_iff simp del: wconcat.simps intro!: loops_ok)
qed simp

section \<open>Properties\<close>

text \<open>
  C11: the type invariant. Whatever bytes it is given, \<open>State::FromBlob\<close> only gives states in which every variable
  has the descriptor, the number of elements and the types of elements its state's descriptor declares, at every depth;
  \<open>setDefault\<close>, \<open>add\<close>, \<open>merge\<close> and \<open>update\<close> keep this; and such a state is written without an error when
  it is not null and no variable, at any depth, is invalid or of the type \<open>CREATABLE\<close>: the \<open>write\<close> of an object may fail.
\<close>

theorem sdl_type_invariant:
  "(\<forall>fuel blob s. State_FromBlob E fuel blob = Inr s \<longrightarrow> State_typed s)
   \<and> (\<forall>s. State_typed s \<longrightarrow> State_typed (State_setDefault s))
   \<and> (\<forall>s fuel r s'. State_typed s \<longrightarrow> State_update E fuel s = Inr (r, s') \<longrightarrow> State_typed s')
   \<and> (\<forall>d vars obj f vars' obj' f' t. State_typed (State d vars obj f) \<longrightarrow> State_typed (State d vars' obj' f') \<longrightarrow>
        State_add (State d vars obj f) (State d vars' obj' f') = Inr t
        \<or> State_merge (State d vars obj f) (State d vars' obj' f') = Inr t \<longrightarrow> State_typed t)
   \<and> (\<forall>s L. State_typed s \<longrightarrow> State_writable s \<longrightarrow> s \<noteq> NullState \<longrightarrow> (\<exists>b. State_write L s = Inr b))"
proof (intro conjI allI impI)
  fix fuel blob s assume "State_FromBlob E fuel blob = Inr s"
  then show "State_typed s"
    using yieldsD [OF yields_rbind [OF State_Create_typed State_read_typed]]
    by (auto simp: State_FromBlob_def split: if_splits sum.splits)
next
  fix s assume "State_typed s"
  then show "State_typed (State_setDefault s)" by (rule setDefault_typed)
next
  fix s fuel r s' assume "State_typed s" and "State_update E fuel s = Inr (r, s')"
  then show "State_typed s'" using State_update_typed unfolding typed_upd_def by blast
next
  fix d vars obj f vars' obj' f' t
  assume "State_typed (State d vars obj f)" and "State_typed (State d vars' obj' f')"
    and "State_add (State d vars obj f) (State d vars' obj' f') = Inr t
      \<or> State_merge (State d vars obj f) (State d vars' obj' f') = Inr t"
  then show "State_typed t" using State_combine_typed by blast
next
  fix s L assume "State_typed s" and "State_writable s" and "s \<noteq> NullState"
  then show "\<exists>b. State_write L s = Inr b" using write_ok(3) unfolding no_error_def by blast
qed

definition sample_desc :: StateDescriptor where
  "sample_desc = \<lparr>sd_name = [84], sd_version = 1,
     sd_vars = [VarDescriptor_new\<lparr>vr_type := e_VarInt, vr_name := [97], vr_size := 1,
                  vr_default := VarDefault_new\<lparr>vd_valid := True, vd_int := 5\<rparr>\<rparr>,
                VarDescriptor_new\<lparr>vr_type := e_VarShort, vr_name := [98], vr_size := - 1\<rparr>],
     sd_varmap = [([97], 0), ([98], 1)]\<rparr>"

definition sample_env :: sdl_env where
  "sample_env = \<lparr>se_lib = ascii_lib, se_fold = (\<lambda>n. n),
     se_db = LoadDescriptorsFromFile (\<lambda>n. n) [] [sample_desc], se_fuel = 0, se_clock = (\<lambda>_. UnifiedTime 9 0)\<rparr>"

definition sample_blob :: bytes where
  "sample_blob = [0x00, 0x80, 0x01, 0xF0, 0xAB, 0x01, 0x00, 0x00, 0x00, 0x06, 0x01, 0x00, 0x00, 0x00,
     0x07, 0x00, 0x00, 0x00, 0x00]"

definition sample_state :: State where
  "sample_state = State (([84], 1), sample_desc)
     [Variable (sd_vars sample_desc ! 0) [V_Int 7] UnifiedTime_null [] 0x100,
      Variable (sd_vars sample_desc ! 1) [] UnifiedTime_null [] 8] Uoid_new 0"

lemma sample_read: "State_FromBlob sample_env 1 sample_blob = Inr sample_state"
  by code_simp

theorem sdl_type_invariant_witness:
  "State_FromBlob sample_env 1 sample_blob = Inr sample_state \<and> State_typed sample_state
   \<and> (\<exists>b. State_write ascii_lib sample_state = Inr b)"
proof -
  have "State_typed sample_state" using sdl_type_invariant [of sample_env] sample_read by blast
  moreover have "State_writable sample_state" "sample_state \<noteq> NullState"
    by (simp_all add: sample_state_def sample_desc_def plain_type_ok_def)
  ultimately show ?thesis using sdl_type_invariant [of sample_env] sample_read by blast
qed

end
