(* ===== verification/Sdl_Sync.thy ===== *)
theory Sdl_Sync
  imports Sdl_Typing
begin

unbundle bit_operations_syntax

text \<open>
  How copies of a state are brought together. \<open>merge\<close> lets the later time stamp win, variable by
  variable, so that the result does not depend on the order in which the copies arrive; \<open>add\<close> applies
  the changes a client sent; \<open>update\<close> carries the values over to a newer descriptor. The last part shows
  what an upgraded state loses when it is saved.
\<close>

section \<open>Merging\<close>

definition newer :: "Variable \<Rightarrow> Variable \<Rightarrow> Variable" where
  "newer v v' = (if UnifiedTime_gt (v_timestamp v') (v_timestamp v) then v' else v)"

lemma newer_less: "newer v v' = (if v_timestamp v < v_timestamp v' then v' else v)"
  by (simp add: newer_def less_UnifiedTime_def)

lemma merge_newer:
  "fst d' = fst d \<Longrightarrow> State_merge (State d vars obj f) (State d' vars' obj' f') = Inr (State d (map2 newer vars vars') obj f)"
  by (simp add: newer_def)

text \<open>Merging a sequence of states, one after the other.\<close>

fun State_merges :: "State \<Rightarrow> State list \<Rightarrow> ds_error + State" where
  "State_merges s [] = Inr s"
| "State_merges s (t # ts) = (case State_merge s t of Inl e \<Rightarrow> Inl e | Inr u \<Rightarrow> State_merges u ts)"

lemma newest_var:
  "foldl newer v ws \<in> insert v (set ws)
   \<and> (\<forall>w \<in> insert v (set ws). v_timestamp w \<le> v_timestamp (foldl newer v ws))"
proof (induction ws arbitrary: v)
  case (Cons w ws)
  have "newer v w \<in> {v, w}" "v_timestamp v \<le> v_timestamp (newer v w)" "v_timestamp w \<le> v_timestamp (newer v w)"
    by (auto simp: newer_less)
  with Cons [of "newer v w"] show ?case by (auto intro: order_trans)
qed simp

definition same_shape :: "desc_ptr \<Rightarrow> nat \<Rightarrow> State \<Rightarrow> bool" where
  "same_shape d n s \<longleftrightarrow> (\<exists>d' vars obj f. s = State d' vars obj f \<and> fst d' = fst d \<and> length vars = n)"

lemma merges_vars:
  assumes "length vars = n" and "list_all (same_shape d n) ts"
  shows "State_merges (State d vars obj f) ts =
    Inr (State d (map (\<lambda>i. foldl newer (vars ! i) (map (\<lambda>t. st_vars t ! i) ts)) [0..<n]) obj f)"
  using assms
proof (induction ts arbitrary: vars)
  case Nil
  then show ?case by (auto intro!: nth_equalityI)
next
  case (Cons t ts)
  have "same_shape d n t" using Cons.prems(2) by simp
  then obtain d' vars' obj' f' where t: "t = State d' vars' obj' f'" "fst d' = fst d" "length vars' = n"
    unfolding same_shape_def by blast
  have "State_merges (State d vars obj f) (t # ts) = State_merges (State d (map2 newer vars vars') obj f) ts"
    using t by (simp add: merge_newer del: State_merge.simps)
  also have "\<dots> = Inr (State d (map (\<lambda>i. foldl newer (map2 newer vars vars' ! i) (map (\<lambda>t. st_vars t ! i) ts)) [0..<n]) obj f)"
    using Cons t by simp
  finally show ?case using Cons.prems(1) t by simp
qed

section \<open>Adding\<close>

lemma add_vars:
  "fst d' = fst d \<Longrightarrow> length vars = length vars' \<Longrightarrow>
   State_add (State d vars obj f) (State d' vars' obj' f') =
     Inr (State d (map (\<lambda>i. if dirty (vars' ! i) then vars' ! i else vars ! i) [0..<length vars]) obj f)"
  by (auto intro!: nth_equalityI)

section \<open>Upgrading\<close>

lemma Variable_new_clean: "Variable_new E new desc = Inr v \<Longrightarrow> \<not> dirty v"
  by (auto simp: Variable_new_def Variable_resize_def dirty_def Let_def split: if_splits sum.splits)

lemma setDefault_clean: "dirty (Variable_setDefault v) \<longleftrightarrow> dirty v"
  by (cases v) (simp add: dirty_def bit_simps)

lemma State_new_shape:
  assumes "State_new E fuel (Some d) = Inr s"
  obtains vars where "s = State d vars Uoid_new 0" "\<forall>v \<in> set vars. \<not> dirty v"
proof -
  obtain fuel' where fuel: "fuel = Suc fuel'" using assms by (cases fuel) auto
  then obtain vars where vars: "list_all2 (\<lambda>x y. Variable_new E (State_new E fuel') x = Inr y) (sd_vars (snd d)) vars"
    "s = State d (map Variable_setDefault vars) Uoid_new 0"
    using assms by (auto simp: sequence_map_Inr split: sum.splits)
  have "\<not> dirty v" if "v \<in> set vars" for v
    using vars(1) that by (auto simp: list_all2_conv_all_nth in_set_conv_nth dest: Variable_new_clean)
  then show ?thesis using that vars(2) by (simp add: setDefault_clean)
qed

lemma Variable_copy_flags:
  assumes "Variable_copy E upd new v rhs = Inr w"
  shows "dirty w \<longrightarrow> dirty v"
  using assms
  by (auto simp: Variable_copy_def Variable_resize_def Let_def dirty_def bit_simps split: if_split_asm sum.split_asm)

lemma update_var_clean: "update_var E upd new old vars v = Inr w \<Longrightarrow> \<not> dirty v \<Longrightarrow> \<not> dirty w"
  using Variable_copy_flags by (auto simp: update_var_def split: option.splits if_splits)

lemma update_clean:
  assumes "State_update E (Suc fuel) (State d vars obj f) = Inr (True, s')"
  obtains newdesc vars' vars0 where "FindLatestDescriptor (se_fold E) (se_db E) (sd_name (snd d)) = Some newdesc"
    "s' = State newdesc vars' Uoid_new 0" "\<forall>v \<in> set vars'. \<not> dirty v"
    "State_new E (Suc fuel) (Some newdesc) = Inr (State newdesc vars0 Uoid_new 0)"
  using assms
proof (cases rule: State_updateE)
  case (upgraded newdesc d' vars' obj' f' vars'')
  obtain vars0 where new: "State d' vars' obj' f' = State newdesc vars0 Uoid_new 0" "\<forall>v \<in> set vars0. \<not> dirty v"
    using State_new_shape [OF upgraded(4)] by blast
  have "\<not> dirty (vars'' ! i)" if "i < length vars''" for i
    using upgraded(5) that new update_var_clean [of E "State_update E fuel" "State_new E fuel" "snd d" vars "vars' ! i"]
    by (simp add: list_all2_conv_all_nth)
  then have "\<forall>w \<in> set vars''. \<not> dirty w" by (metis in_set_conv_nth)
  then show ?thesis using that upgraded new(1) by auto
qed auto

text \<open>A state with no dirty variable writes its header and two empty lists, which read back as nothing.\<close>

lemma write_dirty_none: "\<forall>x \<in> set imgs. \<not> fst x \<Longrightarrow> write_dirty u m imgs = Inr []"
proof -
  assume "\<forall>x \<in> set imgs. \<not> fst x"
  then have "concat (map (\<lambda>(i, is_dirty, img).
      if is_dirty then (if u then [Inr (stupidLengthWrite m i)] else []) @ [img] else []) (enumerate k imgs)) = []" for k
    by (induction imgs arbitrary: k) auto
  then show ?thesis unfolding write_dirty_def by (metis wconcat.simps(1))
qed

lemma stupidLength_roundtrip:
  assumes "n < 0x100 \<or> 0x100 \<le> m \<and> n < 0x10000 \<or> 0x10000 \<le> m \<and> n < 2 ^ 32"
  shows "stupidLengthRead m (stupidLengthWrite m n @ bs) = Inr (n, bs)"
  using assms
  by (auto simp: stupidLengthRead_def stupidLengthWrite_def u8.bind_enc u16.bind_enc u32.bind_enc unat_of_nat)

lemma vars_write_none:
  assumes "\<forall>x \<in> set simple. \<not> fst x" and "\<forall>x \<in> set sd. \<not> fst x"
  shows "vars_write n simple sd = Inr (stupidLengthWrite n 0 @ stupidLengthWrite n 0)"
proof -
  have "filter fst simple = []" "filter fst sd = []" using assms by (simp_all add: filter_empty_conv)
  then show ?thesis using assms(1) by (simp add: vars_write_def write_dirty_none)
qed

lemma clean_write:
  assumes "\<forall>v \<in> set vars. \<not> dirty v"
  shows "State_write L (State d vars obj f) =
    Inr (write_u16 f @ write_u8 6 @ stupidLengthWrite (length (sd_vars (snd d))) 0
         @ stupidLengthWrite (length (sd_vars (snd d))) 0)"
proof -
  let ?imgs = "map (\<lambda>v. (vr_type (v_desc v) = e_VarStateDesc, dirty v, Variable_write L v)) vars"
  have "vars_write n (map snd (filter (\<lambda>x. \<not> fst x) ?imgs)) (map snd (filter fst ?imgs)) =
      Inr (stupidLengthWrite n 0 @ stupidLengthWrite n 0)" for n
    using assms by (intro vars_write_none) auto
  then show ?thesis by (simp add: Let_def)
qed

lemma clean_read:
  "State_read E (Suc fuel) (State d vars obj f)
     (write_u16 f' @ write_u8 6 @ stupidLengthWrite (length (sd_vars (snd d))) 0
      @ stupidLengthWrite (length (sd_vars (snd d))) 0 @ bs) = Inr (State d vars obj f', bs)"
  by (simp add: Let_def u16.bind_enc u8.bind_enc read_counted_def stupidLength_roundtrip)

lemma Variable_copy_values:
  assumes "Variable_copy E upd new v rhs = Inr w" and "vr_type (v_desc v) \<noteq> e_VarStateDesc"
  shows "vr_type (v_desc rhs) = vr_type (v_desc v) \<and> v_desc w = v_desc v
    \<and> v_values w = (if vr_size (v_desc v) = - 1 then v_values rhs
        else take (length (v_values v)) (v_values rhs) @ drop (length (v_values rhs)) (v_values v))"
proof (cases "vr_size (v_desc v) = - 1")
  case True
  then obtain vs where vs: "resize_values E new (v_desc v) (length (v_values rhs)) = Inr vs"
    using assms by (auto simp: Variable_copy_def Variable_resize_def split: if_split_asm sum.split_asm)
  then have "length vs = length (v_values rhs)"
    using assms(2) by (auto simp: resize_values_def split: if_splits)
  then show ?thesis
    using assms True vs by (auto simp: Variable_copy_def Variable_resize_def Let_def split: if_split_asm)
next
  case False
  have "min (length (v_values v)) (length (v_values rhs)) = length (v_values v)
      \<and> drop (length (v_values rhs)) (v_values v) = drop (length (v_values v)) (v_values v)
    \<or> min (length (v_values v)) (length (v_values rhs)) = length (v_values rhs)
      \<and> take (length (v_values v)) (v_values rhs) = v_values rhs"
    by (cases "length (v_values v) \<le> length (v_values rhs)") auto
  then show ?thesis
    using assms False by (auto simp: Variable_copy_def Let_def split: if_split_asm)
qed

section \<open>Properties\<close>

text \<open>
  C28: merging is last-writer-wins and does not depend on the order. Merging any states of one
  descriptor into a state succeeds and leaves in every position a variable with the latest time stamp
  among all of them; and when no two different variables of a position carry the same time stamp,
  merging the same states in another order gives the same state.
\<close>

theorem merge_latest_wins:
  assumes "length vars = n" and "list_all (same_shape d n) ts"
  shows "\<exists>vars'. State_merges (State d vars obj f) ts = Inr (State d vars' obj f) \<and> length vars' = n
    \<and> (\<forall>i < n. let candidates = insert (vars ! i) ((\<lambda>t. st_vars t ! i) ` set ts)
        in vars' ! i \<in> candidates \<and> (\<forall>v \<in> candidates. v_timestamp v \<le> v_timestamp (vars' ! i)))
    \<and> ((\<forall>i < n. inj_on v_timestamp (insert (vars ! i) ((\<lambda>t. st_vars t ! i) ` set ts))) \<longrightarrow>
        (\<forall>us. set us = set ts \<longrightarrow> State_merges (State d vars obj f) us = Inr (State d vars' obj f)))"
proof -
  let ?pick = "\<lambda>ts i. foldl newer (vars ! i) (map (\<lambda>t. st_vars t ! i) ts)"
  have pick: "?pick us i \<in> insert (vars ! i) ((\<lambda>t. st_vars t ! i) ` set us)"
    "\<forall>v \<in> insert (vars ! i) ((\<lambda>t. st_vars t ! i) ` set us). v_timestamp v \<le> v_timestamp (?pick us i)" for us i
    using newest_var [of "vars ! i" "map (\<lambda>t. st_vars t ! i) us"] by auto
  have merged: "State_merges (State d vars obj f) us = Inr (State d (map (?pick us) [0..<n]) obj f)"
    if "set us = set ts" for us
    using assms that by (intro merges_vars) (simp_all add: list_all_iff)
  have same: "?pick us i = ?pick ts i"
    if "set us = set ts" "inj_on v_timestamp (insert (vars ! i) ((\<lambda>t. st_vars t ! i) ` set ts))" for us i
    using pick [where us = us and i = i] pick [where us = ts and i = i] that
    by (intro inj_onD [OF that(2)]) (auto intro: antisym)
  show ?thesis
  proof (intro exI [of _ "map (?pick ts) [0..<n]"] conjI allI impI)
    fix i assume "i < n"
    then have i: "map (?pick ts) [0..<n] ! i = ?pick ts i" by simp
    show "let candidates = insert (vars ! i) ((\<lambda>t. st_vars t ! i) ` set ts)
        in map (?pick ts) [0..<n] ! i \<in> candidates
          \<and> (\<forall>v \<in> candidates. v_timestamp v \<le> v_timestamp (map (?pick ts) [0..<n] ! i))"
      using pick [where us = ts and i = i] unfolding Let_def i by blast
  next
    fix us assume "\<forall>i < n. inj_on v_timestamp (insert (vars ! i) ((\<lambda>t. st_vars t ! i) ` set ts))" "set us = set ts"
    then have "?pick us i = ?pick ts i" if "i < n" for i using same [of us i] that by blast
    then have "map (?pick us) [0..<n] = map (?pick ts) [0..<n]" by (intro map_cong [OF refl]) auto
    then show "State_merges (State d vars obj f) us = Inr (State d (map (?pick ts) [0..<n]) obj f)"
      using merged [OF \<open>set us = set ts\<close>] by simp
  qed (simp_all add: merged)
qed

text \<open>
  C29: a client's changes. Adding a state takes over exactly its dirty variables; adding two states
  one after the other is the same as adding their sum; a state of another descriptor is refused.
\<close>

theorem add_changes:
  assumes "fst d' = fst d" and "fst d'' = fst d" and "length vars' = length vars" and "length vars'' = length vars"
  shows "\<exists>u. State_add (State d vars obj f) (State d' vars' obj' f') = Inr (State d u obj f)
      \<and> length u = length vars
      \<and> (\<forall>i < length vars. u ! i = (if dirty (vars' ! i) then vars' ! i else vars ! i))
      \<and> (\<exists>w. State_add (State d' vars' obj' f') (State d'' vars'' obj'' f'') = Inr (State d' w obj' f')
          \<and> State_add (State d u obj f) (State d'' vars'' obj'' f'')
             = State_add (State d vars obj f) (State d' w obj' f'))
    \<and> (\<forall>e. fst e \<noteq> fst d \<longrightarrow> State_add (State d vars obj f) (State e vars' obj' f') = Inl MalformedData)"
  using assms by (simp add: add_vars del: State_add.simps(3)) (auto intro!: nth_equalityI)

text \<open>
  An upgrade keeps the values. The new state has the latest descriptor; a variable whose name the
  old descriptor did not have is at its default; one that it had must have the same type, and (when
  it is not a nested state) takes over the old elements: all of them when its length is variable, else as
  many as fit, any further ones staying at the default.
\<close>

theorem update_keeps_values:
  assumes "State_update E (Suc fuel) (State d vars obj f) = Inr (True, State d' vars' obj' f')"
  shows "FindLatestDescriptor (se_fold E) (se_db E) (sd_name (snd d)) = Some d' \<and> fst d' \<noteq> fst d
    \<and> (\<exists>vars0. State_new E (Suc fuel) (Some d') = Inr (State d' vars0 Uoid_new 0) \<and> length vars' = length vars0
      \<and> (\<forall>i < length vars0.
          case map_of (sd_varmap (snd d)) (vr_name (v_desc (vars0 ! i))) of
            None \<Rightarrow> vars' ! i = vars0 ! i
          | Some k \<Rightarrow> k < length vars \<and>
              (vr_type (v_desc (vars0 ! i)) \<noteq> e_VarStateDesc \<longrightarrow>
               vr_type (v_desc (vars ! k)) = vr_type (v_desc (vars0 ! i))
               \<and> v_values (vars' ! i) =
                   (if vr_size (v_desc (vars0 ! i)) = - 1 then v_values (vars ! k)
                    else take (length (v_values (vars0 ! i))) (v_values (vars ! k))
                         @ drop (length (v_values (vars ! k))) (v_values (vars0 ! i))))))"
  using assms
proof (cases rule: State_updateE)
  case (upgraded newdesc d1 vars1 obj1 f1 vars2)
  obtain vars0 where new: "State d1 vars1 obj1 f1 = State newdesc vars0 Uoid_new 0"
    using State_new_shape [OF upgraded(4)] by blast
  have len: "length vars' = length vars0" and step: "\<And>i. i < length vars0 \<Longrightarrow>
      update_var E (State_update E fuel) (State_new E fuel) (snd d) vars (vars0 ! i) = Inr (vars' ! i)"
    using upgraded(5,6) new by (simp_all add: list_all2_conv_all_nth)
  have "case map_of (sd_varmap (snd d)) (vr_name (v_desc (vars0 ! i))) of
      None \<Rightarrow> vars' ! i = vars0 ! i
    | Some k \<Rightarrow> k < length vars \<and>
        (vr_type (v_desc (vars0 ! i)) \<noteq> e_VarStateDesc \<longrightarrow>
         vr_type (v_desc (vars ! k)) = vr_type (v_desc (vars0 ! i))
         \<and> v_values (vars' ! i) =
             (if vr_size (v_desc (vars0 ! i)) = - 1 then v_values (vars ! k)
              else take (length (v_values (vars0 ! i))) (v_values (vars ! k))
                   @ drop (length (v_values (vars ! k))) (v_values (vars0 ! i))))" if "i < length vars0" for i
    using step [OF that] Variable_copy_values
    unfolding update_var_def by (auto split: option.splits if_split_asm)
  then show ?thesis using upgraded(2-4,6) new len by simp
qed simp

text \<open>
  C30: what an upgrade costs. The state that \<open>update\<close> returns after carrying the values over to a newer
  descriptor has no dirty variable, so that \<open>toBlob\<close> writes none of them: whatever the values were, reading
  the blob back gives the defaults of the new descriptor.
\<close>

theorem upgraded_state_saves_nothing:
  assumes "State_update E (Suc fuel) (State d vars obj f) = Inr (True, s')"
    and "FindLatestDescriptor (se_fold E) (se_db E) (sd_name (snd d)) = Some newdesc"
    and "safe_ok (se_lib E) e_StringRAW8 (sd_name (snd newdesc))"
    and "FindDescriptor (se_fold E) (se_db E) (sd_name (snd newdesc))
           (sint (of_int (sd_version (snd newdesc)) :: u16)) = Some newdesc"
  shows "\<not> State_isDirty s' \<and> (\<exists>blob. State_toBlob (se_lib E) s' = Inr blob
    \<and> State_FromBlob E (Suc fuel) blob = State_new E (Suc fuel) (Some newdesc))"
proof -
  obtain vars' vars0 where s': "s' = State newdesc vars' Uoid_new 0" "\<forall>v \<in> set vars'. \<not> dirty v"
    and new: "State_new E (Suc fuel) (Some newdesc) = Inr (State newdesc vars0 Uoid_new 0)"
    using update_clean [OF assms(1)] assms(2) by (metis option.inject)
  let ?n = "length (sd_vars (snd newdesc))"
  let ?body = "write_u16 0 @ write_u8 6 @ stupidLengthWrite ?n 0 @ stupidLengthWrite ?n 0"
  let ?blob = "write_u16 0x8000 @ Stream_writeSafeString (se_lib E) (sd_name (snd newdesc)) e_StringRAW8
      @ write_u16 (of_int (sd_version (snd newdesc))) @ ?body"
  have blob: "State_toBlob (se_lib E) s' = Inr ?blob"
    using clean_write [OF s'(2)] unfolding s'(1) State_toBlob_def
    by (simp add: Uoid_isNull_def Uoid_new_def del: State_write.simps)
  have "State_Create E (Suc fuel) ?blob = Inr (State newdesc vars0 Uoid_new 0, ?body)"
    unfolding State_Create_def
    by (simp add: u16.bind_enc safestr.bind_enc [OF assms(3)] assms(4) new del: State_new.simps)
  moreover have "State_read E (Suc fuel) (State newdesc vars0 Uoid_new 0) ?body = Inr (State newdesc vars0 Uoid_new 0, [])"
    using clean_read [of E fuel newdesc vars0 Uoid_new 0 0 "[]"] by (simp del: State_read.simps)
  moreover have "?blob \<noteq> []" by (simp flip: length_greater_0_conv)
  ultimately have "State_FromBlob E (Suc fuel) ?blob = State_new E (Suc fuel) (Some newdesc)"
    unfolding State_FromBlob_def by (simp add: new del: State_read.simps State_new.simps)
  moreover have "\<not> State_isDirty s'" using s' by (simp add: list_ex_iff)
  ultimately show ?thesis using blob by blast
qed

definition sample_var :: "nat \<Rightarrow> u32 \<Rightarrow> Variable" where
  "sample_var t x = Variable (sd_vars sample_desc ! 0) [V_Int x] (UnifiedTime (of_nat t) 0) [] 0x100"

definition sample_copy :: "nat \<Rightarrow> u32 \<Rightarrow> State" where
  "sample_copy t x = State (([84], 1), sample_desc) [sample_var t x] Uoid_new 0"

theorem merge_latest_wins_witness:
  "\<exists>vars'. State_merges (sample_copy 1 10) [sample_copy 3 30, sample_copy 2 20]
      = Inr (State (([84], 1), sample_desc) vars' Uoid_new 0)
    \<and> State_merges (sample_copy 1 10) [sample_copy 2 20, sample_copy 3 30]
      = Inr (State (([84], 1), sample_desc) vars' Uoid_new 0) \<and> vars' ! 0 = sample_var 3 30"
proof -
  let ?d = "(([84], 1), sample_desc)"
  have shape: "length [sample_var 1 10] = 1"
    "list_all (same_shape ?d 1) [sample_copy 3 30, sample_copy 2 20]"
    by (simp_all add: same_shape_def sample_copy_def)
  have less: "UnifiedTime 1 0 < UnifiedTime 2 0" "UnifiedTime 2 0 < UnifiedTime 3 0" "UnifiedTime 1 0 < UnifiedTime 3 0"
    by (simp_all add: less_UnifiedTime_def UnifiedTime_gt_def)
  have inj: "\<forall>i < 1. inj_on v_timestamp (insert ([sample_var 1 10] ! i)
      ((\<lambda>t. st_vars t ! i) ` set [sample_copy 3 30, sample_copy 2 20]))"
    by (simp add: inj_on_def sample_copy_def sample_var_def)
  from merge_latest_wins [OF shape, of Uoid_new 0] obtain vars' where
    m: "State_merges (sample_copy 1 10) [sample_copy 3 30, sample_copy 2 20] = Inr (State ?d vars' Uoid_new 0)"
    and best: "vars' ! 0 \<in> {sample_var 1 10, sample_var 3 30, sample_var 2 20}"
      "v_timestamp (sample_var 3 30) \<le> v_timestamp (vars' ! 0)"
    and perm: "\<forall>us. set us = set [sample_copy 3 30, sample_copy 2 20] \<longrightarrow>
      State_merges (sample_copy 1 10) us = Inr (State ?d vars' Uoid_new 0)"
    using inj by (auto simp: Let_def sample_copy_def)
  have "vars' ! 0 = sample_var 3 30" using best less by (auto simp: sample_var_def)
  moreover have "State_merges (sample_copy 1 10) [sample_copy 2 20, sample_copy 3 30] = Inr (State ?d vars' Uoid_new 0)"
    by (rule perm [rule_format]) auto
  ultimately show ?thesis using m by blast
qed

theorem add_changes_witness:
  "\<exists>u. State_add (sample_copy 1 10) (sample_copy 2 20) = Inr (State (([84], 1), sample_desc) u Uoid_new 0)
     \<and> u ! 0 = sample_var 2 20"
  using add_changes [of "(([84], 1), sample_desc)" "(([84], 1), sample_desc)" "(([84], 1), sample_desc)"
      "[sample_var 2 20]" "[sample_var 1 10]" "[sample_var 2 20]" Uoid_new 0 Uoid_new 0 Uoid_new 0]
  by (auto simp: sample_copy_def sample_var_def dirty_def simp del: State_add.simps)

text \<open>The descriptor of the samples with a second version that has one more variable.\<close>

definition sample_desc2 :: StateDescriptor where
  "sample_desc2 = sample_desc\<lparr>sd_version := 2,
     sd_vars := sd_vars sample_desc @ [VarDescriptor_new\<lparr>vr_type := e_VarBool, vr_name := [99], vr_size := 1\<rparr>],
     sd_varmap := [([97], 0), ([98], 1), ([99], 2)]\<rparr>"

definition sample_env2 :: sdl_env where
  "sample_env2 = sample_env\<lparr>se_db := LoadDescriptorsFromFile (\<lambda>n. n) [] [sample_desc, sample_desc2]\<rparr>"

definition sample_upgraded :: "u32 \<Rightarrow> State" where
  "sample_upgraded x = State (([84], 2), sample_desc2)
     [Variable (sd_vars sample_desc2 ! 0) [V_Int x] UnifiedTime_null [] 8,
      Variable (sd_vars sample_desc2 ! 1) [] UnifiedTime_null [] 8,
      Variable (sd_vars sample_desc2 ! 2) [V_Bool False] UnifiedTime_null [] 8] Uoid_new 0"

lemma sample_update: "State_update sample_env2 (Suc 0) sample_state = Inr (True, sample_upgraded 7)"
  by code_simp

lemma sample_find:
  "FindLatestDescriptor (se_fold sample_env2) (se_db sample_env2) (sd_name sample_desc) = Some (([84], 2), sample_desc2)"
  "FindDescriptor (se_fold sample_env2) (se_db sample_env2) (sd_name sample_desc2)
     (sint (of_int (sd_version sample_desc2) :: u16)) = Some (([84], 2), sample_desc2)"
  "State_new sample_env2 (Suc 0) (Some (([84], 2), sample_desc2)) = Inr (sample_upgraded 5)"
  by code_simp+

theorem update_keeps_values_witness:
  "State_update sample_env2 (Suc 0) sample_state = Inr (True, sample_upgraded 7)
   \<and> FindLatestDescriptor (se_fold sample_env2) (se_db sample_env2) (sd_name sample_desc)
       = Some (([84], 2), sample_desc2)"
  using update_keeps_values [OF sample_update [unfolded sample_state_def sample_upgraded_def]] sample_update by simp

theorem upgraded_state_saves_nothing_witness:
  "State_update sample_env2 (Suc 0) sample_state = Inr (True, sample_upgraded 7)
   \<and> (\<exists>blob. State_toBlob (se_lib sample_env2) (sample_upgraded 7) = Inr blob
       \<and> State_FromBlob sample_env2 (Suc 0) blob = Inr (sample_upgraded 5))"
proof -
  have "safe_ok (se_lib sample_env2) e_StringRAW8 (sd_name sample_desc2)" by code_simp
  then show ?thesis
    using upgraded_state_saves_nothing [OF sample_update [unfolded sample_state_def], of "(([84], 2), sample_desc2)"]
      sample_find sample_update by (simp del: State_new.simps)
qed

end
