(* ===== verification/Sdl_Roundtrip.thy ===== *)
theory Sdl_Roundtrip
  imports Sdl_Typing
begin

unbundle bit_operations_syntax

text \<open>
  What \<open>State::FromBlob\<close> gives back of what \<open>State::toBlob\<close> saved: the dirty variables as they were and
  the others at their defaults, for the states the format can express.
\<close>

section \<open>Loops\<close>

lemma stupidLength_back:
  assumes "n < 0x100 \<or> n \<le> m \<and> m < 2 ^ 32"
  shows "reads_back (Inr (stupidLengthWrite m n)) (stupidLengthRead m) n"
  using assms
  by (auto simp: reads_back_def stupidLengthRead_def stupidLengthWrite_def u8.bind_enc u16.bind_enc u32.bind_enc
      unat_of_nat)

definition dirty_entry :: "bool \<Rightarrow> nat \<Rightarrow> nat \<times> bool \<times> wres \<Rightarrow> wres list" where
  "dirty_entry u m = (\<lambda>(i, is_dirty, img).
     if is_dirty then (if u then [Inr (stupidLengthWrite m i)] else []) @ [img] else [])"

lemma dirty_entry_simps:
  "dirty_entry u m (i, True, img) = (if u then [Inr (stupidLengthWrite m i)] else []) @ [img]"
  "dirty_entry u m (i, False, img) = []"
  by (simp_all add: dirty_entry_def)

lemma write_dirty_entries: "write_dirty u m imgs = wconcat (concat (map (dirty_entry u m) (enumerate 0 imgs)))"
  by (simp add: write_dirty_def dirty_entry_def)

text \<open>Writing the dirty elements at the positions \<open>pos\<close> and reading them back in a loop.\<close>

lemma loop_back:
  assumes "drop j pos = ks" and "distinct ks" and "length is = length (filter D ks)"
    and "\<And>k. k \<in> set ks \<Longrightarrow> k < length ys"
    and "\<And>k. k \<in> set ks \<Longrightarrow> D k \<Longrightarrow> reads_back (w k) (p (ys ! k)) (xs ! k)"
    and "\<And>k. k \<in> set ks \<Longrightarrow> \<not> D k \<Longrightarrow> xs ! k = ys ! k"
    and "\<not> u \<Longrightarrow> list_all D ks \<and> is = [j..<j + length ks]"
    and "length pos < 0x100 \<or> length pos \<le> m \<and> m < 2 ^ 32"
  shows "reads_back (wconcat (concat (map (dirty_entry u m) (enumerate j (map (\<lambda>k. (D k, w k)) ks)))))
    (read_elems u m p pos is ys) (foldl (\<lambda>ys k. ys[k := xs ! k]) ys ks)"
  using assms(1-7)
proof (induction ks arbitrary: j ys "is")
  case Nil
  then show ?case by (simp add: reads_back_def)
next
  case (Cons k ks)
  have j: "j < length pos" "pos ! j = k" "drop (Suc j) pos = ks"
    using Cons.prems(1) by (metis drop_all linorder_not_le list.distinct(1), metis nth_via_drop, metis drop_Suc list.sel(3) tl_drop)
  have idx: "reads_back (Inr (stupidLengthWrite m j)) (stupidLengthRead m) j"
    using j(1) assms(8) by (intro stupidLength_back) auto
  have rest: "reads_back (wconcat (concat (map (dirty_entry u m) (enumerate (Suc j) (map (\<lambda>k. (D k, w k)) ks)))))
      (read_elems u m p pos is' (ys[k := xs ! k])) (foldl (\<lambda>ys k. ys[k := xs ! k]) (ys[k := xs ! k]) ks)"
    if "length is' = length (filter D ks)" "\<not> u \<Longrightarrow> is' = [Suc j..<Suc j + length ks]" for is'
    using Cons.prems that j(3)
    by (intro Cons.IH) (auto simp: nth_list_update)
  have upt: "[j..<j + length (k # ks)] = j # [Suc j..<Suc j + length ks]"
    by (simp add: upt_conv_Cons del: upt_Suc)
  show ?case
  proof (cases "D k")
    case True
    then obtain i is' where "is": "is = i # is'" using Cons.prems(3) by (cases "is") auto
    have tail: "reads_back (wconcat (concat (map (dirty_entry u m) (enumerate (Suc j) (map (\<lambda>k. (D k, w k)) ks)))))
        (read_elems u m p pos is' (ys[k := xs ! k])) (foldl (\<lambda>ys k. ys[k := xs ! k]) (ys[k := xs ! k]) ks)"
      using Cons.prems(3,7) [unfolded upt] "is" True by (intro rest) simp_all
    have elem: "reads_back (wconcat (w k # concat (map (dirty_entry u m) (enumerate (Suc j) (map (\<lambda>k. (D k, w k)) ks)))))
        (rbind (p (ys ! k)) (\<lambda>x. read_elems u m p pos is' (ys[k := x])))
        (foldl (\<lambda>ys k. ys[k := xs ! k]) (ys[k := xs ! k]) ks)"
      using Cons.prems(5) [of k] True tail by (intro reads_back_Cons) simp_all
    show ?thesis
    proof (cases u)
      case u: True
      have "reads_back (wconcat (Inr (stupidLengthWrite m j) # w k
            # concat (map (dirty_entry u m) (enumerate (Suc j) (map (\<lambda>k. (D k, w k)) ks)))))
          (rbind (stupidLengthRead m) (\<lambda>idx. if length pos \<le> idx then rfail MalformedData
            else rbind (p (ys ! (pos ! idx))) (\<lambda>x. read_elems u m p pos is' (ys[pos ! idx := x]))))
          (foldl (\<lambda>ys k. ys[k := xs ! k]) (ys[k := xs ! k]) ks)"
        by (rule reads_back_Cons [OF idx]) (use elem j in \<open>simp del: wconcat.simps\<close>)
      moreover have u_eq: "u = True" using u by simp
      ultimately show ?thesis
        using True "is" unfolding u_eq by (simp add: dirty_entry_simps del: wconcat.simps)
    next
      case u: False
      then have "i = j" using Cons.prems(7) [unfolded upt] "is" by simp
      then show ?thesis using elem True u j "is" by (simp add: dirty_entry_simps del: wconcat.simps)
    qed
  next
    case False
    then have "ys[k := xs ! k] = ys" using Cons.prems(6) [of k] by simp
    moreover have u using Cons.prems(7) False by auto
    ultimately show ?thesis
      using rest [of "is"] Cons.prems(3) False by (simp add: dirty_entry_simps del: wconcat.simps)
  qed
qed

lemma foldl_update_nth:
  "i < length ys \<Longrightarrow> foldl (\<lambda>ys k. ys[k := xs ! k]) ys ks ! i = (if i \<in> set ks then xs ! i else ys ! i)"
  by (induction ks arbitrary: ys) (auto simp: nth_list_update)

lemma length_foldl_update [simp]: "length (foldl (\<lambda>ys k. ys[k := xs ! k]) ys ks) = length ys"
  by (induction ks arbitrary: ys) auto

lemma length_filter_eq: "length (filter D xs) = length xs \<Longrightarrow> filter D xs = xs"
  by (metis length_filter_conv_card filter_id_conv length_filter_less linorder_neq_iff)

lemma counted_back:
  assumes "distinct pos" and "\<And>k. k \<in> set pos \<Longrightarrow> k < length ys"
    and "\<And>k. k \<in> set pos \<Longrightarrow> D k \<Longrightarrow> reads_back (w k) (p (ys ! k)) (xs ! k)"
    and "\<And>k. k \<in> set pos \<Longrightarrow> \<not> D k \<Longrightarrow> xs ! k = ys ! k"
    and "length pos < 0x100 \<or> length pos \<le> m \<and> m < 2 ^ 32"
  shows "reads_back (wconcat [Inr (stupidLengthWrite m (length (filter D pos))),
      write_dirty (length (filter D pos) \<noteq> length pos) m (map (\<lambda>k. (D k, w k)) pos)])
    (read_counted m p pos ys) (foldl (\<lambda>ys k. ys[k := xs ! k]) ys pos)"
proof -
  have "reads_back (write_dirty (length (filter D pos) \<noteq> length pos) m (map (\<lambda>k. (D k, w k)) pos))
      (read_elems (length (filter D pos) \<noteq> length pos) m p pos [0..<length (filter D pos)] ys)
      (foldl (\<lambda>ys k. ys[k := xs ! k]) ys pos)"
    unfolding write_dirty_entries
  proof (rule loop_back)
    show "list_all D pos \<and> [0..<length (filter D pos)] = [0..<0 + length pos]"
      if "\<not> length (filter D pos) \<noteq> length pos"
      using that length_filter_eq [of D pos] by (simp add: filter_id_conv list_all_iff)
  qed (use assms in auto)
  then show ?thesis
    unfolding read_counted_def using assms(5) le_less_trans [OF length_filter_le [of D pos]]
      order.trans [OF length_filter_le [of D pos]]
    by (intro reads_back_Cons [OF stupidLength_back reads_back_last]) auto
qed

section \<open>Elements\<close>

lemma node_types_known:
  "map_of (node_types L rec) type = None \<longleftrightarrow> map_of (node_types L rec') type = None"
proof -
  have "map fst (node_types L rec) = map fst (node_types L rec')" by (simp add: node_types_def)
  then show ?thesis unfolding map_of_eq_None_iff by (metis list.set_map)
qed

lemma null_type: "map_of (node_types L rec) 0x8000 = None"
  by (simp add: node_types_def plain_types_def)

lemma creatable_back:
  assumes "creatable_wf L c" and "depth c < fuel"
  shows "reads_back (creatable_field L (Some c)) (creatable_read L fuel old) (V_Creatable (Some c))"
proof -
  obtain n where c: "c = Creatable n" by (cases c)
  obtain m where fuel: "fuel = Suc m" "depth c \<le> m" using assms(2) by (cases fuel) auto
  have "reads_back (creatable_image L c) (ReadCreatable (Factory_read L fuel)) (Some c)"
    unfolding fuel(1) using assms(1) fuel(2) by (intro moul.known_read [of _ _ m]) simp
  then obtain b where b: "node_write L (map_node (creatable_image L) n) = Inr b"
    "\<forall>bs. Factory_read L fuel (node_type n) (b @ bs) = Inr (Some c, bs)"
    unfolding c ReadCreatable_def by (auto simp: reads_back_def u16.bind_enc split: sum.splits)
  from b(2) have "map_of (node_types L (Factory_read L m)) (node_type n) \<noteq> None"
    unfolding fuel(1) by (auto simp: Factory_Create_read_def split: if_splits option.splits)
  then have "map_of (node_types L (Factory_read L fuel)) (node_type n) \<noteq> None" "node_type n \<noteq> 0x8000"
    using node_types_known null_type by metis+
  then show ?thesis
    using b by (simp add: c reads_back_def creatable_read_def u16.bind_enc u32.bind_enc rmap_def)
qed

text \<open>The elements the format can express, given what the array held before.\<close>

definition value_rt :: "sdl_env \<Rightarrow> VarType \<Rightarrow> sdl_value \<Rightarrow> sdl_value \<Rightarrow> bool" where
  "value_rt E type old v \<longleftrightarrow> scalar_typed type v \<and> type \<noteq> e_VarInvalid \<and>
     (case v of
        V_String s \<Rightarrow> length s < 32 \<and> 0 \<notin> set s \<and> from_utf8 (se_lib E) s = s
      | V_Key u \<Rightarrow> Uoid_wf (se_lib E) u
      | V_Creatable None \<Rightarrow> old = V_Creatable None
      | V_Creatable (Some c) \<Rightarrow> creatable_wf (se_lib E) c \<and> depth c < se_fuel E
      | V_Color c \<Rightarrow> type = e_VarRgb \<longrightarrow> (\<exists>o'. old = V_Color o' \<and> c_A o' = c_A c)
      | V_Color8 c \<Rightarrow> type = e_VarRgb8 \<longrightarrow> (\<exists>o'. old = V_Color8 o' \<and> c8_A o' = c8_A c)
      | V_Nothing \<Rightarrow> old = V_Nothing
      | _ \<Rightarrow> True)"

lemma c_str_field:
  assumes "length s < 32" and "0 \<notin> set s"
  shows "length (string_field s) = 32" and "c_str (string_field s) = s"
proof -
  have "takeWhile (\<lambda>c. c \<noteq> 0) s = s" using assms(2) by (auto simp: takeWhile_eq_all_conv)
  then have c: "c_str s = s" by (simp add: c_str_def)
  obtain k where k: "32 - length s = Suc k" using assms(1) by (intro that [of "31 - length s"]) simp
  show "length (string_field s) = 32" using assms(1) by (simp add: string_field_def c)
  have "c_str (s @ replicate (Suc k) 0) = s"
    using \<open>takeWhile (\<lambda>c. c \<noteq> 0) s = s\<close> assms(2) by (simp add: c_str_def takeWhile_append)
  then show "c_str (string_field s) = s" using assms(1) k by (simp add: string_field_def c)
qed

lemma value_back:
  assumes "value_rt E (vr_type desc) old v"
  shows "reads_back (value_write (se_lib E) desc v) (value_read E (vr_type desc) old) v"
proof (cases v)
  case (V_String s)
  then have t: "vr_type desc = e_VarString" "length s < 32" "0 \<notin> set s" "from_utf8 (se_lib E) s = s"
    using assms by (simp_all add: value_rt_def scalar_typed_def)
  have "read_array (map (uninit (se_lib E)) [0..<32]) (string_field s @ bs) = Inr (string_field s, bs)" for bs
    using c_str_field(1) [OF t(2,3)] by (intro read_array_append) simp
  then show ?thesis
    using t V_String c_str_field(2) [OF t(2,3)]
    by (simp add: reads_back_def value_write_def value_read_def Let_def)
next
  case (V_Creatable c)
  then have t: "vr_type desc = e_VarCreatable" using assms by (simp add: value_rt_def scalar_typed_def)
  show ?thesis
  proof (cases c)
    case None
    then show ?thesis
      using assms V_Creatable t
      by (simp add: value_rt_def value_write_def value_read_def Let_def reads_back_def creatable_read_def u16.bind_enc)
  next
    case (Some c')
    then show ?thesis
      using assms V_Creatable t creatable_back [of "se_lib E" c' "se_fuel E" old]
      by (simp add: value_rt_def value_write_def value_read_def Let_def del: creatable_field.simps)
  qed
qed (use assms in \<open>auto simp: value_rt_def scalar_typed_def value_write_def value_read_def Let_def reads_back_def rmap_def
       u8.dec_enc u16.dec_enc u32.dec_enc u64.dec_enc cbool.dec_enc uoid.dec_enc utime.dec_enc vec3.dec_enc quat.dec_enc\<close>)

section \<open>Variables\<close>

lemma rmaps_back:
  assumes "list_all2 (\<lambda>old v. reads_back (w v) (p old) v) olds vs"
  shows "reads_back (wconcat (map w vs)) (rmaps p olds) vs"
  using assms
proof (induction rule: list_all2_induct)
  case (Cons old olds v vs)
  have "reads_back (wconcat (map w vs)) (rbind (rmaps p olds) (\<lambda>ys. rret (v # ys))) (v # vs)"
    using Cons by (intro reads_back_rbind) simp_all
  with Cons(1) show ?case by (simp add: reads_back_Cons del: wconcat.simps)
qed (simp add: reads_back_def)

definition values_rt :: "sdl_env \<Rightarrow> new_state \<Rightarrow> VarDescriptor \<Rightarrow> sdl_value list \<Rightarrow> sdl_value list \<Rightarrow> bool" where
  "values_rt E new desc olds vs \<longleftrightarrow>
     (if vr_size desc = - 1
      then length vs < 10000 \<and> (\<exists>fresh. resize_values E new desc (length vs) = Inr fresh
             \<and> list_all2 (value_rt E (vr_type desc)) fresh vs)
      else list_all2 (value_rt E (vr_type desc)) olds vs)"

definition child_rt :: "(State \<Rightarrow> State \<Rightarrow> bool) \<Rightarrow> sdl_value \<Rightarrow> sdl_value \<Rightarrow> bool" where
  "child_rt rt old v \<longleftrightarrow> (\<exists>s0 s. old = V_Child s0 \<and> v = V_Child s \<and> State_isDirty s \<and> rt s0 s)"

definition children_rt ::
  "sdl_env \<Rightarrow> (State \<Rightarrow> State \<Rightarrow> bool) \<Rightarrow> new_state \<Rightarrow> VarDescriptor \<Rightarrow> sdl_value list \<Rightarrow> sdl_value list \<Rightarrow> bool" where
  "children_rt E rt new desc olds vs \<longleftrightarrow>
     (if vr_size desc = - 1
      then length vs < 0x100 \<and> (\<exists>fresh. resize_values E new desc (length vs) = Inr fresh \<and> list_all2 (child_rt rt) fresh vs)
      else length vs < 2 ^ 32 \<and> list_all2 (child_rt rt) olds vs)"

lemma size_back:
  assumes "if vr_size desc = - 1 then length vs < 10000 \<and> resize_values E new desc (length vs) = Inr fresh else fresh = olds"
  shows "reads_back (Inr (if vr_size desc = - 1 then write_u32 (of_nat (length vs)) else [])) (read_size E new desc olds) fresh"
  using assms by (auto simp: reads_back_def read_size_def u32.bind_enc unat_of_nat split: if_splits)

lemma values_back:
  assumes "values_rt E new desc olds vs"
  shows "reads_back (wconcat (Inr (if vr_size desc = - 1 then write_u32 (of_nat (length vs)) else [])
      # map (value_write (se_lib E) desc) vs))
    (rbind (read_size E new desc olds) (rmaps (value_read E (vr_type desc)))) vs"
proof -
  obtain fresh where f: "list_all2 (value_rt E (vr_type desc)) fresh vs"
    "if vr_size desc = - 1 then length vs < 10000 \<and> resize_values E new desc (length vs) = Inr fresh else fresh = olds"
    using assms by (auto simp: values_rt_def split: if_splits)
  show ?thesis
    by (rule reads_back_Cons [OF size_back [OF f(2)] rmaps_back])
      (use f(1) value_back in \<open>auto simp: list_all2_conv_all_nth\<close>)
qed

lemma children_back:
  assumes rec: "\<And>s0 s. rt s0 s \<Longrightarrow> reads_back (State_write (se_lib E) s) (rec s0) s"
    and "children_rt E rt new desc olds vs"
  shows "reads_back (children_write (vr_size desc) (map (child_image (se_lib E)) vs))
    (rbind (read_size E new desc olds) (\<lambda>vs.
      read_counted (if vr_size desc = - 1 then 0 else length vs) (child_read rec) [0..<length vs] vs)) vs"
proof -
  obtain fresh where f: "list_all2 (child_rt rt) fresh vs"
    "if vr_size desc = - 1 then length vs < 10000 \<and> resize_values E new desc (length vs) = Inr fresh else fresh = olds"
    and len: "length vs < 0x100 \<or> vr_size desc \<noteq> - 1 \<and> length vs < 2 ^ 32"
    using assms(2) by (auto simp: children_rt_def split: if_splits)
  let ?m = "if vr_size desc = - 1 then 0 else length vs"
  let ?imgs = "map (child_image (se_lib E)) vs"
  have m: "length vs < 0x100 \<or> length vs \<le> ?m \<and> ?m < 2 ^ 32" using len by (auto split: if_splits)
  have same: "length fresh = length vs" using f(1) by (rule list_all2_lengthD)
  have child: "child_rt rt (fresh ! k) (vs ! k)" if "k < length vs" for k
    using f(1) that by (simp add: list_all2_conv_all_nth)
  have dirty: "?imgs = map (\<lambda>k. (True, snd (child_image (se_lib E) (vs ! k)))) [0..<length vs]"
  proof (rule nth_equalityI)
    fix k assume "k < length ?imgs"
    then show "?imgs ! k = map (\<lambda>k. (True, snd (child_image (se_lib E) (vs ! k)))) [0..<length vs] ! k"
      using child [of k] by (auto simp: child_rt_def simp del: State_write.simps)
  qed simp
  have elem: "reads_back (snd (child_image (se_lib E) (vs ! k))) (child_read rec (fresh ! k)) (vs ! k)"
    if "k < length vs" for k
  proof -
    have k: "k < length vs" by (fact that)
    obtain s0 s where c: "fresh ! k = V_Child s0" "vs ! k = V_Child s" "rt s0 s"
      using child [OF k] unfolding child_rt_def by blast
    then show ?thesis using reads_back_rmap [OF rec [OF c(3)], of V_Child] by simp
  qed
  have "reads_back (wconcat [Inr (stupidLengthWrite ?m (length vs)), write_dirty False ?m ?imgs])
      (read_counted ?m (child_read rec) [0..<length vs] fresh) (foldl (\<lambda>ys k. ys[k := vs ! k]) fresh [0..<length vs])"
    using counted_back [of "[0..<length vs]" fresh "\<lambda>_. True" "\<lambda>k. snd (child_image (se_lib E) (vs ! k))"
        "child_read rec" vs ?m] elem same m
    unfolding dirty by (simp del: wconcat.simps split del: if_split)
  moreover have "foldl (\<lambda>ys k. ys[k := vs ! k]) fresh [0..<length vs] = vs"
    using same by (intro nth_equalityI) (simp_all add: foldl_update_nth)
  ultimately show ?thesis
    unfolding children_write_def Let_def length_map using same
    by (intro reads_back_Cons [OF size_back [OF f(2)]])
      (simp del: wconcat.simps split del: if_split cong del: if_weak_cong)
qed

definition Variable_rt ::
  "sdl_env \<Rightarrow> (State \<Rightarrow> State \<Rightarrow> bool) \<Rightarrow> new_state \<Rightarrow> Variable \<Rightarrow> Variable \<Rightarrow> bool" where
  "Variable_rt E rt new v0 v \<longleftrightarrow>
     v_desc v = v_desc v0 \<and> (v_hint v = [] \<longrightarrow> v_hint v0 = []) \<and> (v_hint v \<noteq> [] \<longrightarrow> safe_ok (se_lib E) e_StringRAW8 (v_hint v))
     \<and> v_flags v0 AND NOT 0x1FF = 0 \<and> v_flags v AND NOT 0xFF = 0x100
     \<and> (Variable_isDefault v \<longrightarrow> bit (v_flags v) 3)
     \<and> (if vr_type (v_desc v) = e_VarStateDesc
        then v_timestamp v = v_timestamp v0 \<and> children_rt E rt new (v_desc v) (v_values v0) (v_values v)
        else (bit (v_flags v) 2 \<or> v_timestamp v = v_timestamp v0) \<and> \<not> (bit (v_flags v) 4 \<and> bit (v_flags v) 5)
          \<and> (if bit (v_flags v) 3 then v_values v = v_values v0
             else values_rt E new (v_desc v) (v_values v0) (v_values v)))"

lemma one_bit: "bit (0x100 :: u16) i \<longleftrightarrow> i = 8" "bit (8 :: u16) i \<longleftrightarrow> i = 3"
proof -
  have "bit (2 ^ 8 :: u16) i \<longleftrightarrow> i = 8" "bit (2 ^ 3 :: u16) i \<longleftrightarrow> i = 3"
    by (auto simp: bit_exp_iff possible_bit_word simp del: power_numeral)
  then show "bit (0x100 :: u16) i \<longleftrightarrow> i = 8" "bit (8 :: u16) i \<longleftrightarrow> i = 3" by simp_all
qed

lemma low_bits: 
  fixes f :: u16
  shows "bit (f AND NOT (mask n)) i \<longleftrightarrow> bit f i \<and> n \<le> i" "bit (ucast (ucast f :: byte) :: u16) i \<longleftrightarrow> bit f i \<and> i < 8"
  by (auto simp: bit_simps dest: bit_imp_le_length)

lemma or_8: "bit (f :: u16) 3 \<Longrightarrow> f OR 8 = f"
  by (rule bit_eqI) (auto simp only: bit_or_iff one_bit)

lemma flags_back:
  fixes f f0 :: u16
  assumes "f0 AND NOT 0x1FF = 0" and "f AND NOT 0xFF = 0x100"
  shows "((f0 AND NOT 0xFF) OR ucast (ucast f :: byte)) OR 0x100 = f"
    and "i < 8 \<Longrightarrow> bit ((f0 AND NOT 0xFF) OR ucast (ucast f :: byte)) i \<longleftrightarrow> bit f i"
proof -
  have mask: "(0xFF :: u16) = mask 8" "(0x1FF :: u16) = mask 9"
    by (simp_all add: mask_eq_exp_minus_1)
  note words = assms [unfolded mask]
  have f0: "bit f0 i \<Longrightarrow> i < 9" for i
    using arg_cong [OF words(1), of "\<lambda>w. bit w i"] low_bits(1) [of f0 9 i] by simp
  have f: "8 \<le> i \<Longrightarrow> bit f i \<longleftrightarrow> i = 8" for i
    using low_bits(1) [of f 8 i] unfolding words(2) one_bit by simp
  show "i < 8 \<Longrightarrow> bit ((f0 AND NOT 0xFF) OR ucast (ucast f :: byte)) i \<longleftrightarrow> bit f i"
    unfolding mask by (simp only: bit_or_iff low_bits) simp
  show "((f0 AND NOT 0xFF) OR ucast (ucast f :: byte)) OR 0x100 = f"
    unfolding mask
  proof (rule bit_eqI)
    fix i
    show "bit (((f0 AND NOT (mask 8)) OR ucast (ucast f :: byte)) OR 0x100) i \<longleftrightarrow> bit f i"
      using f0 [of i] f [of i] by (simp only: bit_or_iff low_bits one_bit) linarith
  qed
qed
lemma hint_back:
  assumes "h = [] \<longrightarrow> h0 = []" and "h \<noteq> [] \<longrightarrow> safe_ok L e_StringRAW8 h"
  shows "reads_back (Inr (if h \<noteq> [] then write_u8 0 @ Stream_writeSafeString L h e_StringRAW8 else []))
    (if bit (if h \<noteq> [] then 2 else 0 :: byte) 1 then rbind read_u8 (\<lambda>_. Stream_readSafeString L e_StringRAW8)
     else rret h0) h"
  using assms by (auto simp: reads_back_def u8.bind_enc safestr.dec_enc)

lemma header_back:
  assumes "h = [] \<longrightarrow> h0 = []" and "h \<noteq> [] \<longrightarrow> safe_ok L e_StringRAW8 h" and "reads_back w (k h low) y"
  shows "reads_back (wconcat [Inr (write_u8 (if h \<noteq> [] then 2 else 0)),
      Inr (if h \<noteq> [] then write_u8 0 @ Stream_writeSafeString L h e_StringRAW8 else []), Inr (write_u8 low), w])
    (rbind read_u8 (\<lambda>contents.
      rbind (if bit contents 1 then rbind read_u8 (\<lambda>_. Stream_readSafeString L e_StringRAW8) else rret h0) (\<lambda>hint.
      rbind read_u8 (k hint)))) y"
  by (intro reads_back_Cons [OF u8.reads_back_enc [OF TrueI]] reads_back_Cons [OF hint_back [OF assms(1,2)]]
      reads_back_last assms(3))

lemma Variable_back:
  assumes rec: "\<And>s0 s. rt s0 s \<Longrightarrow> reads_back (State_write (se_lib E) s) (rec s0) s"
    and rt: "Variable_rt E rt new v0 v"
  shows "reads_back (Variable_write (se_lib E) v) (Variable_read E rec new v0) v"
proof -
  obtain desc vs t h f where v: "v = Variable desc vs t h f" by (cases v)
  have d: "v_desc v0 = desc" using rt v by (simp add: Variable_rt_def)
  have flags: "(if Variable_isDefault (Variable desc vs t h f) then f OR 8 else f) = f"
    using rt v or_8 [of f] by (simp add: Variable_rt_def)
  let ?flags = "(v_flags v0 AND NOT 0xFF) OR ucast (ucast f :: byte)"
  have bits: "?flags OR 0x100 = f" "\<And>i. i < 8 \<Longrightarrow> bit ?flags i \<longleftrightarrow> bit f i"
    using flags_back [of "v_flags v0" f] rt v by (auto simp: Variable_rt_def)
  have low: "bit ?flags 2 = bit f 2" "bit ?flags 3 = bit f 3" "bit ?flags 4 = bit f 4" "bit ?flags 5 = bit f 5"
    by (rule bits(2), simp)+
  have hint: "h = [] \<longrightarrow> v_hint v0 = []" "h \<noteq> [] \<longrightarrow> safe_ok (se_lib E) e_StringRAW8 h"
    using rt v by (simp_all add: Variable_rt_def)
  show ?thesis
  proof (cases "vr_type desc = e_VarStateDesc")
    case True
    have "children_rt E rt new desc (v_values v0) vs" "t = v_timestamp v0"
      using rt v True d by (simp_all add: Variable_rt_def)
    then show ?thesis
      unfolding v Variable_write.simps Variable_read_def Let_def flags d
      using True bits(1)
        reads_back_rbind [OF children_back [OF rec, of rt], where f = "\<lambda>vs. rret (Variable desc vs t h f)"]
      by (intro header_back hint) (simp add: rbind_assoc del: wconcat.simps)
  next
    case False
    have rt': "bit f 2 \<or> t = v_timestamp v0" "\<not> (bit f 4 \<and> bit f 5)"
      "bit f 3 \<Longrightarrow> vs = v_values v0" "\<not> bit f 3 \<Longrightarrow> values_rt E new desc (v_values v0) vs"
      using rt v False d by (simp_all add: Variable_rt_def split: if_splits)
    have time: "reads_back (Inr (if bit f 2 then UnifiedTime_write t else []))
        (if bit f 2 then UnifiedTime_read else rret (v_timestamp v0)) t"
      using rt'(1) by (auto simp: reads_back_def utime.dec_enc)
    have elems: "reads_back (if bit f 3 then Inr []
          else wconcat (Inr (if vr_size desc = - 1 then write_u32 (of_nat (length vs)) else [])
                 # map (value_write (se_lib E) desc) vs))
        (if bit f 3 then rret (v_values v0)
         else rbind (read_size E new desc (v_values v0)) (rmaps (value_read E (vr_type desc)))) vs"
      using rt'(3) values_back [OF rt'(4)] by (simp del: wconcat.simps split del: if_split add: if_split [of "\<lambda>w. reads_back w _ _"])
    have body: "reads_back (wconcat [Inr (if bit f 2 then UnifiedTime_write t else []),
          if bit f 3 then Inr []
          else wconcat (Inr (if vr_size desc = - 1 then write_u32 (of_nat (length vs)) else [])
                 # map (value_write (se_lib E) desc) vs)])
        (rbind (if bit f 2 then UnifiedTime_read else rret (v_timestamp v0)) (\<lambda>t.
          rbind (if bit f 3 then rret (v_values v0)
                 else rbind (read_size E new desc (v_values v0)) (rmaps (value_read E (vr_type desc)))) (\<lambda>vs.
          rret (Variable desc vs t h f))))
        (Variable desc vs t h f)"
      by (rule reads_back_Cons [OF time reads_back_last [OF reads_back_rbind [OF elems refl]]])
    show ?thesis
      unfolding v Variable_write.simps Variable_read_def Let_def flags d
      by (intro header_back hint)
        (use False bits(1) rt'(2) body in \<open>simp only: if_False rbind_rret prod.case simp_thms low\<close>)
  qed
qed

section \<open>States\<close>

text \<open>
  The states the format can express, given the state it is read into: every dirty variable can be
  expressed, the others are as they were, and the dirty nested states come first, because the loop that
  writes them stops at their number.
\<close>

fun State_rt :: "sdl_env \<Rightarrow> nat \<Rightarrow> State \<Rightarrow> State \<Rightarrow> bool" where
  "State_rt E (Suc fuel) (State d0 vars0 obj0 f0) (State d vars obj f) \<longleftrightarrow>
     d = d0 \<and> obj = obj0 \<and> map v_desc vars = sd_vars (snd d) \<and> length vars0 = length vars \<and> length vars < 2 ^ 32
     \<and> list_all2 (\<lambda>v0 v. if dirty v then Variable_rt E (State_rt E fuel) (State_new E fuel) v0 v else v = v0) vars0 vars
     \<and> (let nested = filter (\<lambda>v. vr_type (v_desc v) = e_VarStateDesc) vars
        in take (length (filter dirty nested)) nested = filter dirty nested)"
| "State_rt E fuel s0 s \<longleftrightarrow> False"

lemma write_dirty_take:
  assumes "take (length (filter fst xs)) xs = filter fst xs"
  shows "write_dirty u m (take (length (filter fst xs)) xs) = write_dirty u m xs"
proof -
  let ?n = "length (filter fst xs)"
  have "filter fst (take ?n xs) @ filter fst (drop ?n xs) = filter fst xs"
    by (simp flip: filter_append)
  then have clean: "filter fst (drop ?n xs) = []" unfolding assms by simp
  have "concat (map (dirty_entry u m) (enumerate j ys)) = []" if "filter fst ys = []" for j ys
    using that by (induction ys arbitrary: j) (auto simp: dirty_entry_simps split: if_splits)
  then have "concat (map (dirty_entry u m) (enumerate 0 (take ?n xs @ drop ?n xs)))
      = concat (map (dirty_entry u m) (enumerate 0 (take ?n xs)))"
    using clean unfolding enumerate_append_eq map_append concat_append by simp
  then show ?thesis by (simp add: write_dirty_entries)
qed

lemma filter_positions: "filter P xs = map (nth xs) (filter (\<lambda>i. P (xs ! i)) [0..<length xs])"
  using filter_map [of P "nth xs" "[0..<length xs]"] by (simp add: map_nth comp_def)

lemma images_at:
  assumes "map v_desc vars = ds"
  shows "map snd (filter (\<lambda>x. P (fst x)) (map (\<lambda>v. (q (v_desc v), g v)) vars))
    = map (\<lambda>k. g (vars ! k)) (filter (\<lambda>k. P (q (ds ! k))) [0..<length ds])"
  unfolding assms [symmetric] by (auto simp: filter_map comp_def filter_positions [of _ vars] intro!: arg_cong [of _ _ "map _"] filter_cong)

lemma reads_back_pair:
  assumes "reads_back (wconcat [v, w]) p x" and "reads_back (wconcat ws) (f x) y"
  shows "reads_back (wconcat (v # w # ws)) (rbind p f) y"
proof -
  have "wconcat (v # w # ws) = wconcat [wconcat [v, w], wconcat ws]" by (simp split: sum.splits)
  then show ?thesis
    by (simp only:) (rule reads_back_Cons [OF assms(1)], rule reads_back_last [OF assms(2)])
qed

lemma State_back:
  "State_rt E fuel s0 s \<Longrightarrow> reads_back (State_write (se_lib E) s) (State_read E fuel s0) s"
proof (induction fuel arbitrary: s0 s)
  case (Suc fuel)
  obtain d vars0 obj f0 vars f where s: "s0 = State d vars0 obj f0" "s = State d vars obj f"
    using Suc.prems by (cases s0; cases s) auto
  let ?n = "length (sd_vars (snd d))"
  let ?rt = "Variable_rt E (State_rt E fuel) (State_new E fuel)"
  let ?p = "Variable_read E (State_read E fuel) (State_new E fuel)"
  let ?D = "\<lambda>k. dirty (vars ! k)" and ?w = "\<lambda>k. Variable_write (se_lib E) (vars ! k)"
  let ?upd = "foldl (\<lambda>ys k. ys[k := vars ! k])"
  have descs: "map v_desc vars = sd_vars (snd d)" and len: "length vars0 = length vars" "?n = length vars" "?n < 2 ^ 32"
    using Suc.prems s by (auto dest: arg_cong [of _ _ length])
  have var: "if ?D k then ?rt (vars0 ! k) (vars ! k) else vars ! k = vars0 ! k" if "k < ?n" for k
    using Suc.prems s len that by (simp add: list_all2_conv_all_nth)
  let ?imgs = "map (\<lambda>v. (vr_type (v_desc v) = e_VarStateDesc, dirty v, Variable_write (se_lib E) v)) vars"
  let ?ws = "map (\<lambda>k. (?D k, ?w k))"
  have images: "map snd (filter (\<lambda>x. \<not> fst x) ?imgs) = ?ws (simpleVars (snd d))"
    "map snd (filter fst ?imgs) = ?ws (sdVars (snd d))"
    using images_at [OF descs, of Not "\<lambda>t. vr_type t = e_VarStateDesc" "\<lambda>v. (dirty v, Variable_write (se_lib E) v)"]
      images_at [OF descs, of "\<lambda>b. b" "\<lambda>t. vr_type t = e_VarStateDesc" "\<lambda>v. (dirty v, Variable_write (se_lib E) v)"]
    by (simp_all add: simpleVars_def sdVars_def)
  have pos: "distinct (simpleVars (snd d))" "distinct (sdVars (snd d))"
    "set (simpleVars (snd d)) \<union> set (sdVars (snd d)) = {..<?n}" "set (simpleVars (snd d)) \<inter> set (sdVars (snd d)) = {}"
    by (auto simp: simpleVars_def sdVars_def)
  have bound: "length (simpleVars (snd d)) \<le> ?n" "length (sdVars (snd d)) \<le> ?n"
    using length_filter_le [of _ "[0..<?n]"] by (simp_all add: simpleVars_def sdVars_def)
  have var_back: "reads_back (?w k) (?p (vars0 ! k)) (vars ! k)" if "k < ?n" "?D k" for k
    using Variable_back [OF Suc.IH] var [OF that(1)] that(2) by simp
  have clean: "vars ! k = vars0 ! k" if "k < ?n" "\<not> ?D k" for k using var [OF that(1)] that(2) by simp
  let ?vars1 = "?upd vars0 (simpleVars (snd d))"
  have vars1: "?vars1 ! k = vars0 ! k" if "k \<in> set (sdVars (snd d))" for k
    using that pos(3,4) len by (subst foldl_update_nth) auto
  have loop1: "reads_back (wconcat [Inr (stupidLengthWrite ?n (length (filter ?D (simpleVars (snd d))))),
        write_dirty (length (filter ?D (simpleVars (snd d))) \<noteq> length (simpleVars (snd d))) ?n (?ws (simpleVars (snd d)))])
      (read_counted ?n ?p (simpleVars (snd d)) vars0) ?vars1"
    using pos(1,3) len bound clean var_back by (intro counted_back) auto
  have loop2: "reads_back (wconcat [Inr (stupidLengthWrite ?n (length (filter ?D (sdVars (snd d))))),
        write_dirty (length (filter ?D (sdVars (snd d))) \<noteq> length (sdVars (snd d))) ?n (?ws (sdVars (snd d)))])
      (read_counted ?n ?p (sdVars (snd d)) ?vars1) (?upd ?vars1 (sdVars (snd d)))"
    using pos(2,3) len bound clean var_back vars1 by (intro counted_back) auto
  have whole: "?upd ?vars1 (sdVars (snd d)) = vars"
    using pos(3) len by (intro nth_equalityI) (auto simp: foldl_update_nth)
  have cut: "write_dirty u ?n (take (length (filter ?D (sdVars (snd d)))) (?ws (sdVars (snd d))))
      = write_dirty u ?n (?ws (sdVars (snd d)))" for u
  proof -
    let ?nested = "filter (\<lambda>v. vr_type (v_desc v) = e_VarStateDesc) vars"
    let ?h = "\<lambda>v. (dirty v, Variable_write (se_lib E) v)"
    have "map snd (filter fst ?imgs) = map ?h ?nested" by (simp add: filter_map comp_def)
    then have ws: "?ws (sdVars (snd d)) = map ?h ?nested" unfolding images .
    then have "length (filter fst (?ws (sdVars (snd d)))) = length (filter fst (map ?h ?nested))" by simp
    then have n: "length (filter ?D (sdVars (snd d))) = length (filter dirty ?nested)"
      by (simp add: filter_map comp_def)
    have "take (length (filter dirty ?nested)) ?nested = filter dirty ?nested"
      using Suc.prems s by (simp add: Let_def)
    then show ?thesis
      unfolding ws n using write_dirty_take [of "map ?h ?nested" u ?n] by (simp add: filter_map comp_def take_map)
  qed
  have count: "length (filter fst (?ws ks)) = length (filter ?D ks)" for ks by (simp add: filter_map comp_def)
  show ?case
    unfolding s State_write.simps State_read.simps Let_def images vars_write_def
    unfolding count cut length_map
    by (rule reads_back_Cons [OF u16.reads_back_enc [OF TrueI]], rule reads_back_Cons [OF u8.reads_back_enc [OF TrueI]],
        rule reads_back_last, simp only: simp_thms if_False, rule reads_back_pair [OF loop1],
        rule reads_back_rbind [OF loop2], simp only: whole)
qed simp

section \<open>Blobs\<close>

lemma blob_back:
  assumes "State_new E fuel (FindDescriptor (se_fold E) (se_db E) (sd_name (snd d)) (sint (of_int (sd_version (snd d)) :: u16)))
      = Inr (State d vars0 Uoid_new f0)"
    and "State_rt E fuel (State d vars0 obj f0) (State d vars obj f)"
    and "safe_ok (se_lib E) e_StringRAW8 (sd_name (snd d))"
    and "if Uoid_isNull obj then obj = Uoid_new else Uoid_wf (se_lib E) obj"
  shows "reads_back (State_toBlob (se_lib E) (State d vars obj f)) (rbind (State_Create E fuel) (State_read E fuel))
    (State d vars obj f)"
proof -
  let ?flags = "if Uoid_isNull obj then 0x8000 else 0x8001 :: u16"
  have flags: "?flags AND 0x8000 \<noteq> 0" "bit ?flags 0 \<longleftrightarrow> \<not> Uoid_isNull obj" by simp_all
  have obj: "reads_back (Inr (if Uoid_isNull obj then [] else Uoid_write (se_lib E) obj))
      (if bit ?flags 0 then rbind (Uoid_read (se_lib E)) (\<lambda>obj. rret (State d vars0 obj f0))
       else rret (State d vars0 Uoid_new f0)) (State d vars0 obj f0)"
    using assms(4) flags(2) by (auto simp: reads_back_def uoid.bind_enc split: if_splits)
  show ?thesis
    unfolding State_toBlob_def State.case State_Create_def rbind_assoc
    by (rule reads_back_Cons [OF u16.reads_back_enc [OF TrueI]])
       (use flags(1) in \<open>simp only: if_False rbind_assoc\<close>,
        rule reads_back_Cons [OF safestr.reads_back_enc], use assms(3) in simp,
        rule reads_back_Cons [OF u16.reads_back_enc [OF TrueI]], rule reads_back_rlift [OF assms(1)],
        simp only: State.case, rule reads_back_Cons [OF obj], rule reads_back_last, rule State_back [OF assms(2)])
qed

text \<open>
  C27: What \<open>State::toBlob\<close> saves \<open>State::FromBlob\<close> restores: a state whose descriptor the database knows and
  whose dirty variables the format can express comes back as it was, every value, timestamp, hint and flag of it.
\<close>

theorem sdl_blob_roundtrip:
  assumes "State_new E fuel (FindDescriptor (se_fold E) (se_db E) (sd_name (snd d)) (sint (of_int (sd_version (snd d)) :: u16)))
      = Inr (State d vars0 Uoid_new f0)"
    and "State_rt E fuel (State d vars0 obj f0) (State d vars obj f)"
    and "safe_ok (se_lib E) e_StringRAW8 (sd_name (snd d))"
    and "if Uoid_isNull obj then obj = Uoid_new else Uoid_wf (se_lib E) obj"
  shows "\<exists>blob. State_toBlob (se_lib E) (State d vars obj f) = Inr blob
    \<and> State_FromBlob E fuel blob = Inr (State d vars obj f)"
proof -
  obtain blob where blob: "State_toBlob (se_lib E) (State d vars obj f) = Inr blob"
    "\<And>bs. rbind (State_Create E fuel) (State_read E fuel) (blob @ bs) = Inr (State d vars obj f, bs)"
    using blob_back [OF assms] unfolding reads_back_def by blast
  have "read_u16 [] = Inl EofException" by code_simp
  then have "blob \<noteq> []" using blob(2) [of "[]"] by (auto simp: State_Create_def rbind_assoc)
  then show ?thesis using blob(1) blob(2) [of "[]"] by (auto simp: State_FromBlob_def)
qed

definition nested_desc :: StateDescriptor where
  "nested_desc = \<lparr>sd_name = [85], sd_version = 2,
     sd_vars = [VarDescriptor_new\<lparr>vr_type := e_VarStateDesc, vr_typeName := [84], vr_name := [99], vr_size := 1\<rparr>,
                VarDescriptor_new\<lparr>vr_type := e_VarByte, vr_name := [100], vr_size := 2\<rparr>],
     sd_varmap = [([99], 0), ([100], 1)]\<rparr>"

definition nested_env :: sdl_env where
  "nested_env = sample_env\<lparr>se_db := LoadDescriptorsFromFile (\<lambda>n. n) [] [sample_desc, nested_desc]\<rparr>"

text \<open>A state with a nested state and an array, as the constructor makes it and after some changes.\<close>

definition nested_new :: "Variable list" where
  "nested_new =
     [Variable (sd_vars nested_desc ! 0)
        [V_Child (State (([84], - 1), sample_desc)
           [Variable (sd_vars sample_desc ! 0) [V_Int 5] UnifiedTime_null [] 8,
            Variable (sd_vars sample_desc ! 1) [] UnifiedTime_null [] 8] Uoid_new 0)] UnifiedTime_null [] 8,
      Variable (sd_vars nested_desc ! 1) [V_Byte 0, V_Byte 0] UnifiedTime_null [] 8]"

definition nested_vars :: "Variable list" where
  "nested_vars =
     [Variable (sd_vars nested_desc ! 0)
        [V_Child (State (([84], - 1), sample_desc)
           [Variable (sd_vars sample_desc ! 0) [V_Int 7] UnifiedTime_null [] 0x100,
            Variable (sd_vars sample_desc ! 1) [] UnifiedTime_null [] 8] Uoid_new 0)] UnifiedTime_null [] 0x100,
      Variable (sd_vars nested_desc ! 1) [V_Byte 3, V_Byte 4] (UnifiedTime 5 6) [] 0x104]"

lemma nested_created:
  "State_new nested_env 2 (FindDescriptor (se_fold nested_env) (se_db nested_env) [85] 2)
   = Inr (State (([85], 2), nested_desc) nested_new Uoid_new 0)"
  by code_simp

lemma nested_rt:
  "State_rt nested_env (Suc (Suc 0)) (State (([85], 2), nested_desc) nested_new Uoid_new 0)
     (State (([85], 2), nested_desc) nested_vars Uoid_new 0)"
  by (simp add: scalar_isDefault_def nested_new_def nested_vars_def nested_desc_def sample_desc_def Let_def dirty_def
      Variable_rt_def children_rt_def child_rt_def values_rt_def value_rt_def scalar_typed_def VarDescriptor_new_def VarDefault_new_def)

theorem sdl_blob_roundtrip_witness:
  "\<exists>blob. State_toBlob ascii_lib (State (([85], 2), nested_desc) nested_vars Uoid_new 0) = Inr blob
    \<and> State_FromBlob nested_env 2 blob = Inr (State (([85], 2), nested_desc) nested_vars Uoid_new 0)"
proof -
  have "se_lib nested_env = ascii_lib" by (simp add: nested_env_def sample_env_def)
  moreover have "safe_ok ascii_lib e_StringRAW8 [85]" by code_simp
  moreover have "Uoid_isNull Uoid_new" by code_simp
  moreover have "sint (2 :: u16) = 2" by code_simp
  ultimately show ?thesis
    using sdl_blob_roundtrip [of nested_env 2 "(([85], 2), nested_desc)" nested_new 0 Uoid_new nested_vars 0]
      nested_created nested_rt by (simp add: nested_desc_def numeral_2_eq_2)
qed

end
