(* ===== verification/Sdl_Parser.thy ===== *)
theory Sdl_Parser
  imports Descriptors Encrypted_Stream
begin

text \<open>
  The parser of descriptor files, \<open>SDL::Parser\<close> of \<open>SDL/SdlParser.cpp\<close>: the scanner, the parser of
  \<open>DEFAULT\<close> attributes and the state machine over the tokens. What the parser prints is not modelled.
\<close>

section \<open>Numbers\<close>

text \<open>
  The conversions of the C library on the numbers the scanner lets through: an optional minus sign, then
  digits and points. With base 0 a leading zero makes the number octal.
\<close>

definition is_digit :: "byte \<Rightarrow> bool" where
  "is_digit c \<longleftrightarrow> 48 \<le> c \<and> c \<le> 57"

definition digits_value :: "int \<Rightarrow> bytes \<Rightarrow> int" where
  "digits_value base cs = foldl (\<lambda>v c. base * v + (uint c - 48)) 0 cs"

definition sign_split :: "bytes \<Rightarrow> bool \<times> bytes" where
  "sign_split s = (case s of c # cs \<Rightarrow> if c = 45 then (True, cs) else (False, s) | [] \<Rightarrow> (False, []))"

definition base0_value :: "bytes \<Rightarrow> int" where
  "base0_value cs =
     (if take 1 cs = [48] then digits_value 8 (takeWhile (\<lambda>c. is_digit c \<and> c < 56) cs)
      else digits_value 10 (takeWhile is_digit cs))"

definition strtol :: "bytes \<Rightarrow> int" where
  "strtol s =
     (case sign_split s of (neg, cs) \<Rightarrow>
        max (- (2 ^ 63)) (min (2 ^ 63 - 1) (if neg then - base0_value cs else base0_value cs)))"

definition strtoul :: "bytes \<Rightarrow> u64" where
  "strtoul s =
     (case sign_split s of (neg, cs) \<Rightarrow>
        if base0_value cs \<ge> 2 ^ 64 then - 1
        else if neg then - of_int (base0_value cs) else of_int (base0_value cs))"

text \<open>A \<open>long\<close> stored in an \<open>int\<close>.\<close>

definition long_to_int :: "int \<Rightarrow> int" where
  "long_to_int n = sint (of_int n :: u32)"

text \<open>
  \<open>strtof\<close> and \<open>strtod\<close>: the decimal \<open>m / 10^k\<close> rounded to the nearest value with a significand of \<open>p\<close> bits,
  ties to even. The bits of the result are those of the significand added to the exponent field, also for
  the subnormal numbers (exponent \<open>emin\<close>) and when rounding carries into the exponent.
\<close>

definition decimal :: "bytes \<Rightarrow> int \<times> nat" where
  "decimal cs =
     (let whole = takeWhile is_digit cs; rest = dropWhile is_digit cs;
          frac = (if take 1 rest = [46] then takeWhile is_digit (tl rest) else [])
      in (digits_value 10 (whole @ frac), length frac))"

definition half_even :: "int \<Rightarrow> int \<Rightarrow> int" where
  "half_even n d =
     (let q = n div d; r = n mod d
      in if 2 * r > d \<or> 2 * r = d \<and> odd q then q + 1 else q)"

fun bit_length :: "int \<Rightarrow> int" where
  "bit_length n = (if n \<le> 0 then 0 else 1 + bit_length (n div 2))"

declare bit_length.simps [simp del]

definition scaled :: "int \<Rightarrow> int \<Rightarrow> int \<Rightarrow> int \<times> int" where
  "scaled n d e = (if e \<ge> 0 then (n, d * 2 ^ nat e) else (n * 2 ^ nat (- e), d))"

definition float_bits :: "int \<Rightarrow> int \<Rightarrow> int \<Rightarrow> int \<Rightarrow> int" where
  "float_bits p emin n d =
     (if n = 0 then 0
      else let e0 = bit_length n - bit_length d - p;
               (a, b) = scaled n d e0;
               e = max emin (if a div b \<ge> 2 ^ nat (p - 1) then if a div b \<ge> 2 ^ nat p then e0 + 1 else e0 else e0 - 1);
               (a, b) = scaled n d e
           in (e - emin) * 2 ^ nat (p - 1) + half_even a b)"

definition strtof :: "bytes \<Rightarrow> f32" where
  "strtof s =
     (case sign_split s of (neg, cs) \<Rightarrow> case decimal cs of (m, k) \<Rightarrow>
        (if neg then 0x80000000 else 0) + of_int (min 0x7F800000 (float_bits 24 (- 149) m (10 ^ k))))"

definition strtod :: "bytes \<Rightarrow> f64" where
  "strtod s =
     (case sign_split s of (neg, cs) \<Rightarrow> case decimal cs of (m, k) \<Rightarrow>
        (if neg then 0x8000000000000000 else 0) + of_int (min 0x7FF0000000000000 (float_bits 53 (- 1074) m (10 ^ k))))"

section \<open>Tokens\<close>

text \<open>The token types; one below 256 is the character itself.\<close>

datatype TokenType =
    e_TokEof | e_TokError | Tok_char byte
  | e_TokStatedesc | e_TokVersion | e_TokVar | e_TokInt | e_TokFloat | e_TokBool
  | e_TokString | e_TokPlKey | e_TokCreatable | e_TokDouble | e_TokTime | e_TokByte
  | e_TokShort | e_TokAgeTimeOfDay | e_TokVector3 | e_TokPoint3 | e_TokQuat | e_TokRgb
  | e_TokRgb8 | e_TokRgba | e_TokRgba8 | e_TokDefault | e_TokDefaultOption | e_TokDisplayOption
  | e_TokIdent | e_TokNumeric | e_TokQuoted | e_TokTypename

record Token =
  tk_type :: TokenType
  tk_value :: st_string
  tk_lineno :: int

definition str_to_toktype :: "st_string \<Rightarrow> TokenType" where
  "str_to_toktype str =
     (if str = ascii ''STATEDESC'' then e_TokStatedesc
      else if str = ascii ''VERSION'' then e_TokVersion
      else if str = ascii ''VAR'' then e_TokVar
      else if str = ascii ''INT'' then e_TokInt
      else if str = ascii ''FLOAT'' then e_TokFloat
      else if str = ascii ''BOOL'' then e_TokBool
      else if str = ascii ''STRING32'' then e_TokString
      else if str = ascii ''PLKEY'' then e_TokPlKey
      else if str = ascii ''CREATABLE'' then e_TokCreatable
      else if str = ascii ''DOUBLE'' then e_TokDouble
      else if str = ascii ''TIME'' then e_TokTime
      else if str = ascii ''BYTE'' then e_TokByte
      else if str = ascii ''SHORT'' then e_TokShort
      else if str = ascii ''AGETIMEOFDAY'' then e_TokAgeTimeOfDay
      else if str = ascii ''VECTOR3'' then e_TokVector3
      else if str = ascii ''POINT3'' then e_TokPoint3
      else if str = ascii ''QUATERNION'' then e_TokQuat
      else if str = ascii ''RGB'' then e_TokRgb
      else if str = ascii ''RGB8'' then e_TokRgb8
      else if str = ascii ''RGBA'' then e_TokRgba
      else if str = ascii ''RGBA8'' then e_TokRgba8
      else if str = ascii ''DEFAULT'' then e_TokDefault
      else if str = ascii ''DEFAULTOPTION'' then e_TokDefaultOption
      else if str = ascii ''DISPLAYOPTION'' then e_TokDisplayOption
      else e_TokIdent)"

text \<open>
  The parser: the lines of \<open>m_fileStream\<close> that are not read yet, the line number and the token buffer.
  \<open>next\<close> reads \<open>m_fileStream\<close> whether or not \<open>open\<close> found the file encrypted, so the stream that
  would decrypt it is only made, which takes its header off the file.
\<close>

record Parser =
  p_file :: bytes
  p_lineno :: int
  p_buffer :: "Token list"

definition Parser_open :: "bytes \<Rightarrow> bytes option \<Rightarrow> Parser option" where
  "Parser_open header0 file =
     (case file of
        None \<Rightarrow> None
      | Some text \<Rightarrow>
          if magic_type (fill header0 (take 12 text)) \<noteq> None
          then (if magic_type (fill (replicate 16 0) (take 16 text)) = None then None
                else Some \<lparr>p_file = drop 16 text, p_lineno = 0, p_buffer = []\<rparr>)
          else Some \<lparr>p_file = text, p_lineno = 0, p_buffer = []\<rparr>)"

definition Parser_push :: "Token \<Rightarrow> Parser \<Rightarrow> Parser" where
  "Parser_push tok p = p\<lparr>p_buffer := tok # p_buffer p\<rparr>"

definition is_blank :: "byte \<Rightarrow> bool" where
  "is_blank c \<longleftrightarrow> c = 32 \<or> c = 9 \<or> c = 8 \<or> c = 13 \<or> c = 10"

definition is_letter :: "byte \<Rightarrow> bool" where
  "is_letter c \<longleftrightarrow> 65 \<le> c \<and> c \<le> 90 \<or> 97 \<le> c \<and> c \<le> 122"

definition is_punct :: "byte \<Rightarrow> bool" where
  "is_punct c \<longleftrightarrow> c = 40 \<or> c = 41 \<or> c = 91 \<or> c = 93 \<or> c = 123 \<or> c = 125 \<or> c = 61 \<or> c = 44 \<or> c = 59"

definition starts_number :: "byte \<Rightarrow> bytes \<Rightarrow> bool" where
  "starts_number c cs \<longleftrightarrow> is_digit c \<or> c = 45 \<and> cs \<noteq> [] \<and> is_digit (hd cs)"

definition in_number :: "byte \<Rightarrow> bool" where
  "in_number c \<longleftrightarrow> is_digit c \<or> c = 46"

definition in_name :: "byte \<Rightarrow> bool" where
  "in_name c \<longleftrightarrow> is_letter c \<or> is_digit c \<or> c = 95 \<or> c = 45"

definition in_typename :: "byte \<Rightarrow> bool" where
  "in_typename c \<longleftrightarrow> is_letter c \<or> is_digit c \<or> c = 95"

definition tcons :: "Token \<Rightarrow> ds_error + Token list \<Rightarrow> ds_error + Token list" where
  "tcons t r = (case r of Inl e \<Rightarrow> Inl e | Inr ts \<Rightarrow> Inr (t # ts))"

text \<open>
  The scan of a line up to its terminator. A string constant without its closing quote moves \<open>lnp\<close> past
  the terminator, from where the scan goes on in whatever the line buffer holds.
\<close>

function scan :: "ext_lib \<Rightarrow> Token \<Rightarrow> bytes \<Rightarrow> ds_error + Token list" where
  "scan L tokbuf [] = Inr []"
| "scan L tokbuf (c # cs) =
     (if c = 35 then Inr []
      else if is_blank c then scan L tokbuf cs
      else if starts_number c cs then
        (let tok = tokbuf\<lparr>tk_type := e_TokNumeric, tk_value := from_latin_1 L (c # takeWhile in_number cs)\<rparr>
         in tcons tok (scan L tok (dropWhile in_number cs)))
      else if is_letter c \<or> c = 95 \<or> c = 45 then
        (let str = from_latin_1 L (c # takeWhile in_name cs);
             tok = tokbuf\<lparr>tk_type := str_to_toktype str, tk_value := str\<rparr>
         in tcons tok (scan L tok (dropWhile in_name cs)))
      else if c = 36 then
        (let tok = tokbuf\<lparr>tk_type := e_TokTypename, tk_value := from_latin_1 L (takeWhile in_typename cs)\<rparr>
         in tcons tok (scan L tok (dropWhile in_typename cs)))
      else if is_punct c then
        (let tok = tokbuf\<lparr>tk_type := Tok_char c\<rparr> in tcons tok (scan L tok cs))
      else if c = 34 then
        (let tok = tokbuf\<lparr>tk_type := e_TokQuoted, tk_value := from_latin_1 L (takeWhile (\<lambda>d. d \<noteq> 34) cs)\<rparr>;
             rest = dropWhile (\<lambda>d. d \<noteq> 34) cs
         in if rest = [] then Inl UndefinedBehaviour else tcons tok (scan L tok (tl rest)))
      else Inr [tokbuf\<lparr>tk_type := e_TokError\<rparr>])"
  by pat_completeness auto

termination scan
  by (relation "measure (\<lambda>(L, tokbuf, cs). length cs)")
    (auto simp: less_Suc_eq_le length_dropWhile_le intro: diff_le_self [THEN order_trans])

declare scan.simps(2) [simp del]

definition c_line :: "bytes \<Rightarrow> bytes" where
  "c_line line = takeWhile (\<lambda>c. c \<noteq> 0) line"

text \<open>\<open>next\<close>; the line number of the token at the end of the file is not set and not used.\<close>

definition new_token :: "int \<Rightarrow> Token" where
  "new_token lineno = \<lparr>tk_type = e_TokEof, tk_value = [], tk_lineno = lineno\<rparr>"

function Parser_next :: "ext_lib \<Rightarrow> Parser \<Rightarrow> ds_error + Token \<times> Parser" where
  "Parser_next L p =
     (case p_buffer p of
        tok # buf \<Rightarrow> Inr (tok, p\<lparr>p_buffer := buf\<rparr>)
      | [] \<Rightarrow>
          (case Stream_readLine 4096 (p_file p) of
             Inl e \<Rightarrow> Inl e
           | Inr ((ok, line), rest) \<Rightarrow>
               if \<not> ok then Inr (new_token 0, p\<lparr>p_file := rest\<rparr>)
               else case scan L (new_token (p_lineno p + 1)) (c_line line) of
                      Inl e \<Rightarrow> Inl e
                    | Inr toks \<Rightarrow> Parser_next L \<lparr>p_file = rest, p_lineno = p_lineno p + 1, p_buffer = toks\<rparr>))"
  by pat_completeness auto

lemma readLine_shrinks:
  assumes "Stream_readLine 4096 bs = Inr ((True, line), rest)"
  shows "length rest < length bs"
proof -
  obtain l r where "readLine_loop 4095 bs = (l, r)" by fastforce
  moreover from this have "l @ r = bs" by (rule readLine_loop_append)
  ultimately show ?thesis using assms by (auto simp: Stream_readLine_def)
qed

termination Parser_next
  by (relation "measure (\<lambda>(L, p). length (p_file p) + (if p_buffer p = [] then 1 else 0))")
    (auto dest!: readLine_shrinks)

declare Parser_next.simps [simp del]

text \<open>The tokens that a parser has yet to deal with, the final ones not counted.\<close>

definition final_token :: "Token \<Rightarrow> bool" where
  "final_token tok \<longleftrightarrow> tk_type tok = e_TokError \<or> tk_type tok = e_TokEof"

definition tok_weight :: "Token \<Rightarrow> nat" where
  "tok_weight tok = (if final_token tok then 0 else 1)"

definition pending :: "Parser \<Rightarrow> nat" where
  "pending p = length (p_file p) + sum_list (map tok_weight (p_buffer p))"

lemma tok_weight_le: "tok_weight tok \<le> 1"
  by (simp add: tok_weight_def)

lemma tcons_Inr: "tcons t r = Inr ts \<longleftrightarrow> (\<exists>us. r = Inr us \<and> ts = t # us)"
  by (auto simp: tcons_def split: sum.splits)

lemma scan_length: "scan L tokbuf cs = Inr toks \<Longrightarrow> length toks \<le> length cs"
proof (induction "length cs" arbitrary: tokbuf cs toks rule: less_induct)
  case less
  show ?case
  proof (cases cs)
    case (Cons c cs')
    have step: "length toks \<le> Suc (length cs')" if "tcons t (scan L t' ds) = Inr toks" "length ds \<le> length cs'" for t t' ds
      using that less.hyps [of ds t'] Cons by (fastforce simp: tcons_Inr)
    have skip: "length toks \<le> Suc (length cs')" if "scan L tokbuf cs' = Inr toks"
      using that less.hyps [of cs' tokbuf] Cons by fastforce
    have tl: "length (tl (dropWhile P cs')) \<le> length cs'" for P
      using length_dropWhile_le [of P cs'] by simp
    show ?thesis
      using less.prems unfolding Cons scan.simps Let_def
      by (auto simp: length_dropWhile_le split: if_splits dest: skip elim!: step intro: tl)
  qed (use less.prems in simp)
qed

lemma scan_weight: "scan L tokbuf cs = Inr toks \<Longrightarrow> sum_list (map tok_weight toks) \<le> length cs"
  using scan_length [of L tokbuf cs toks] sum_list_mono [of toks tok_weight "\<lambda>_. 1"] tok_weight_le
  by (simp add: sum_list_triv)

lemma next_pending: "Parser_next L p = Inr (tok, p') \<Longrightarrow> tok_weight tok + pending p' \<le> pending p"
proof (induction L p arbitrary: tok p' rule: Parser_next.induct)
  case (1 L p)
  show ?case
  proof (cases "p_buffer p")
    case Nil
    obtain ok line rest where r: "Stream_readLine 4096 (p_file p) = Inr ((ok, line), rest)"
      using "1.prems" Nil by (auto simp: Parser_next.simps [of L p] split: sum.splits prod.splits if_splits)
    then obtain l where l: "line @ rest = p_file p" "ok \<longleftrightarrow> line \<noteq> []"
      using readLine_loop_append by (auto simp: Stream_readLine_def split: prod.splits)
    show ?thesis
    proof (cases ok)
      case True
      then obtain toks where toks: "scan L (new_token (p_lineno p + 1)) (c_line line) = Inr toks"
        "Parser_next L \<lparr>p_file = rest, p_lineno = p_lineno p + 1, p_buffer = toks\<rparr> = Inr (tok, p')"
        using "1.prems" Nil r by (auto simp: Parser_next.simps [of L p] split: sum.splits)
      have "tok_weight tok + pending p' \<le> pending \<lparr>p_file = rest, p_lineno = p_lineno p + 1, p_buffer = toks\<rparr>"
        using "1.IH" [OF Nil r] True toks by simp
      also have "\<dots> \<le> length rest + length line"
        using scan_weight [OF toks(1)] length_takeWhile_le [of "\<lambda>c. c \<noteq> 0" line] by (simp add: pending_def c_line_def)
      finally show ?thesis using l(1) Nil by (simp add: pending_def flip: l(1))
    next
      case False
      then show ?thesis
        using "1.prems" Nil r l by (auto simp: Parser_next.simps [of L p] pending_def new_token_def tok_weight_def final_token_def)
    qed
  next
    case (Cons t ts)
    then show ?thesis using "1.prems" by (auto simp: Parser_next.simps [of L p] pending_def)
  qed
qed

section \<open>Defaults\<close>

datatype parse_state =
    e_State_File | e_State_Statedesc_ID | e_State_Statedesc_BR | e_State_Statedesc | e_State_Version_N
  | e_State_Var_TP | e_State_Var_ID | e_State_Var_SZ | e_State_Var
  | e_State_Default_EQ | e_State_Default | e_State_DefaultOption_EQ | e_State_DefaultOption
  | e_State_DisplayOption_EQ | e_State_DisplayOption | e_State_SZ_N | e_State_SZ_X | e_State_LS_I | e_State_LS_X

text \<open>\<open>BAD_TOK\<close>: the token, made an error, goes back to the front of the buffer.\<close>

definition bad_tok :: "Token \<Rightarrow> Parser \<Rightarrow> Parser" where
  "bad_tok tok p = Parser_push (tok\<lparr>tk_type := e_TokError\<rparr>) p"

text \<open>The switch in the loop of \<open>parse_default\<close>; \<open>None\<close> is \<open>BAD_TOK\<close>.\<close>

definition default_step :: "parse_state \<Rightarrow> Token list \<Rightarrow> Token \<Rightarrow> (parse_state \<times> Token list) option" where
  "default_step state vals tok =
     (if tk_type tok = Tok_char 40 then (if state = e_State_Default then Some (e_State_LS_I, vals) else None)
      else if tk_type tok = Tok_char 41 then (if state = e_State_LS_X then Some (e_State_Var, vals) else None)
      else if tk_type tok = Tok_char 44 then (if state = e_State_LS_X then Some (e_State_LS_I, vals) else None)
      else if tk_type tok = e_TokNumeric then
        (if state = e_State_LS_I then Some (e_State_LS_X, vals @ [tok])
         else if state = e_State_Default then Some (e_State_Var, vals @ [tok]) else None)
      else if tk_type tok = e_TokIdent \<or> tk_type tok = e_TokQuoted then
        (if state = e_State_Default then Some (e_State_Var, vals @ [tok]) else None)
      else None)"

lemma pending_push: "pending (Parser_push tok p) = tok_weight tok + pending p"
  by (simp add: pending_def Parser_push_def)

lemma pending_bad_tok [simp]: "pending (bad_tok tok p) = pending p"
  by (simp add: bad_tok_def pending_push tok_weight_def final_token_def)

text \<open>The loop; its result says whether the loop was left at its end or by the return in it.\<close>

function default_tokens ::
  "ext_lib \<Rightarrow> parse_state \<Rightarrow> Token list \<Rightarrow> Token \<Rightarrow> Parser
     \<Rightarrow> ds_error + bool \<times> parse_state \<times> Token list \<times> Token \<times> Parser" where
  "default_tokens L state vals tok p =
     (if state = e_State_Var then Inr (True, state, vals, tok, p)
      else case Parser_next L p of
             Inl e \<Rightarrow> Inl e
           | Inr (tok, p) \<Rightarrow>
               if final_token tok then Inr (False, state, vals, tok, Parser_push tok p)
               else case default_step state vals tok of
                      None \<Rightarrow> default_tokens L state vals (tok\<lparr>tk_type := e_TokError\<rparr>) (bad_tok tok p)
                    | Some (state, vals) \<Rightarrow> default_tokens L state vals tok p)"
  by pat_completeness auto

termination default_tokens
  by (relation "measure (\<lambda>(L, state, vals, tok, p). pending p)")
    (auto dest!: next_pending simp: tok_weight_def)

declare default_tokens.simps [simp del]

text \<open>
  \<open>values[0]\<close> to \<open>values[n - 1]\<close> checked in turn to be numbers: their texts, \<open>None\<close> at the first that is not,
  undefined behaviour at an index that is not there (a wrong number of values is reported, but does not
  keep them from being read).
\<close>

fun numerics :: "nat \<Rightarrow> Token list \<Rightarrow> ds_error + st_string list option" where
  "numerics 0 vals = Inr (Some [])"
| "numerics (Suc n) [] = Inl UndefinedBehaviour"
| "numerics (Suc n) (v # vals) =
     (if tk_type v \<noteq> e_TokNumeric then Inr None
      else case numerics n vals of
             Inl e \<Rightarrow> Inl e
           | Inr r \<Rightarrow> Inr (map_option (\<lambda>xs. tk_value v # xs) r))"

text \<open>The value stored: \<open>None\<close> stands for a \<open>BAD_TOK\<close>, and the number of parameters is the one \<open>CHECK_PARAMS\<close> asks for.\<close>

definition default_params :: "VarType \<Rightarrow> nat option" where
  "default_params type =
     (if type \<in> {e_VarBool, e_VarInt, e_VarByte, e_VarShort, e_VarFloat, e_VarDouble, e_VarString, e_VarTime, e_VarKey} then Some 1
      else if type \<in> {e_VarVector3, e_VarPoint3, e_VarRgb, e_VarRgb8} then Some 3
      else if type \<in> {e_VarQuaternion, e_VarRgba, e_VarRgba8} then Some 4
      else None)"

definition with_numerics ::
  "nat \<Rightarrow> Token list \<Rightarrow> (st_string list \<Rightarrow> VarDefault \<Rightarrow> VarDefault) \<Rightarrow> VarDefault \<Rightarrow> ds_error + VarDefault option" where
  "with_numerics n vals store d =
     (case numerics n vals of
        Inl e \<Rightarrow> Inl e
      | Inr None \<Rightarrow> Inr None
      | Inr (Some xs) \<Rightarrow> Inr (Some (store xs d)))"

definition default_store :: "VarType \<Rightarrow> Token list \<Rightarrow> VarDefault \<Rightarrow> ds_error + VarDefault option" where
  "default_store type vals d =
     (case type of
        e_VarBool \<Rightarrow>
          (case vals of
             [] \<Rightarrow> Inl UndefinedBehaviour
           | v # _ \<Rightarrow>
               Inr (if tk_type v = e_TokNumeric then Some (d\<lparr>vd_bool := strtol (tk_value v) \<noteq> 0\<rparr>)
                    else if tk_type v = e_TokIdent then
                      (if tk_value v = ascii ''true'' then Some (d\<lparr>vd_bool := True\<rparr>)
                       else if tk_value v = ascii ''false'' then Some (d\<lparr>vd_bool := False\<rparr>) else None)
                    else None))
      | e_VarInt \<Rightarrow> with_numerics 1 vals (\<lambda>xs d. d\<lparr>vd_int := of_int (strtol (xs ! 0))\<rparr>) d
      | e_VarByte \<Rightarrow> with_numerics 1 vals (\<lambda>xs d. d\<lparr>vd_int := of_int (strtol (xs ! 0))\<rparr>) d
      | e_VarShort \<Rightarrow> with_numerics 1 vals (\<lambda>xs d. d\<lparr>vd_int := of_int (strtol (xs ! 0))\<rparr>) d
      | e_VarFloat \<Rightarrow> with_numerics 1 vals (\<lambda>xs d. d\<lparr>vd_float := strtof (xs ! 0)\<rparr>) d
      | e_VarDouble \<Rightarrow> with_numerics 1 vals (\<lambda>xs d. d\<lparr>vd_double := strtod (xs ! 0)\<rparr>) d
      | e_VarString \<Rightarrow>
          (case vals of
             [] \<Rightarrow> Inl UndefinedBehaviour
           | v # _ \<Rightarrow> Inr (if tk_type v = e_TokIdent \<or> tk_type v = e_TokQuoted
                             then Some (d\<lparr>vd_string := tk_value v\<rparr>) else None))
      | e_VarTime \<Rightarrow> with_numerics 1 vals (\<lambda>xs d. d\<lparr>vd_time := UnifiedTime (ucast (strtoul (xs ! 0))) 0\<rparr>) d
      | e_VarVector3 \<Rightarrow> with_numerics 3 vals (\<lambda>xs d.
          d\<lparr>vd_vector := \<lparr>v_X = strtof (xs ! 0), v_Y = strtof (xs ! 1), v_Z = strtof (xs ! 2)\<rparr>\<rparr>) d
      | e_VarPoint3 \<Rightarrow> with_numerics 3 vals (\<lambda>xs d.
          d\<lparr>vd_vector := \<lparr>v_X = strtof (xs ! 0), v_Y = strtof (xs ! 1), v_Z = strtof (xs ! 2)\<rparr>\<rparr>) d
      | e_VarQuaternion \<Rightarrow> with_numerics 4 vals (\<lambda>xs d.
          d\<lparr>vd_quat := \<lparr>q_X = strtof (xs ! 0), q_Y = strtof (xs ! 1), q_Z = strtof (xs ! 2), q_W = strtof (xs ! 3)\<rparr>\<rparr>) d
      | e_VarRgb \<Rightarrow> with_numerics 3 vals (\<lambda>xs d.
          d\<lparr>vd_color := \<lparr>c_R = strtof (xs ! 0), c_G = strtof (xs ! 1), c_B = strtof (xs ! 2), c_A = 0x3F800000\<rparr>\<rparr>) d
      | e_VarRgba \<Rightarrow> with_numerics 4 vals (\<lambda>xs d.
          d\<lparr>vd_color := \<lparr>c_R = strtof (xs ! 0), c_G = strtof (xs ! 1), c_B = strtof (xs ! 2), c_A = strtof (xs ! 3)\<rparr>\<rparr>) d
      | e_VarRgb8 \<Rightarrow> with_numerics 3 vals (\<lambda>xs d.
          d\<lparr>vd_color8 := \<lparr>c8_R = ucast (strtoul (xs ! 0)), c8_G = ucast (strtoul (xs ! 1)),
                            c8_B = ucast (strtoul (xs ! 2)), c8_A = 255\<rparr>\<rparr>) d
      | e_VarRgba8 \<Rightarrow> with_numerics 4 vals (\<lambda>xs d.
          d\<lparr>vd_color8 := \<lparr>c8_R = ucast (strtoul (xs ! 0)), c8_G = ucast (strtoul (xs ! 1)),
                            c8_B = ucast (strtoul (xs ! 2)), c8_A = ucast (strtoul (xs ! 3))\<rparr>\<rparr>) d
      | e_VarKey \<Rightarrow>
          (case vals of
             [] \<Rightarrow> Inl UndefinedBehaviour
           | v # _ \<Rightarrow> Inr (if tk_type v = e_TokIdent \<and> tk_value v = ascii ''nil'' then Some d else None))
      | _ \<Rightarrow> Inr (Some d))"

definition parse_default :: "ext_lib \<Rightarrow> VarDescriptor \<Rightarrow> Parser \<Rightarrow> ds_error + parse_state \<times> VarDescriptor \<times> Parser" where
  "parse_default L var p =
     (case default_tokens L e_State_Default [] (new_token 0) p of
        Inl e \<Rightarrow> Inl e
      | Inr (False, state, vals, tok, p) \<Rightarrow> Inr (state, var, p)
      | Inr (True, state, vals, tok, p) \<Rightarrow>
          let p = (case default_params (vr_type var) of
                     Some n \<Rightarrow> if length vals \<noteq> n then bad_tok tok p else p
                   | None \<Rightarrow> p)
          in case default_store (vr_type var) vals (vr_default var) of
               Inl e \<Rightarrow> Inl e
             | Inr None \<Rightarrow> Inr (state, var\<lparr>vr_default := (vr_default var)\<lparr>vd_valid := True\<rparr>\<rparr>, bad_tok tok p)
             | Inr (Some d) \<Rightarrow> Inr (state, var\<lparr>vr_default := d\<lparr>vd_valid := True\<rparr>\<rparr>, p))"

section \<open>The state machine\<close>

text \<open>The locals of \<open>parse\<close>.\<close>

record parse_vars =
  ps_descriptors :: "StateDescriptor list"
  ps_desc :: StateDescriptor
  ps_var :: VarDescriptor
  ps_state :: parse_state
  ps_parser :: Parser

definition index_vars :: "StateDescriptor \<Rightarrow> StateDescriptor" where
  "index_vars d =
     d\<lparr>sd_varmap := foldl (\<lambda>m (i, v). AList.update (vr_name v) i m) (sd_varmap d) (enumerate 0 (sd_vars d))\<rparr>"

definition StateDescriptor_clear :: "StateDescriptor \<Rightarrow> StateDescriptor" where
  "StateDescriptor_clear d = \<lparr>sd_name = [], sd_version = - 1, sd_vars = [], sd_varmap = []\<rparr>"

definition push_var :: "parse_vars \<Rightarrow> parse_vars" where
  "push_var s = s\<lparr>ps_desc := (ps_desc s)\<lparr>sd_vars := sd_vars (ps_desc s) @ [ps_var s]\<rparr>\<rparr>"

definition parse_bad :: "Token \<Rightarrow> parse_vars \<Rightarrow> parse_vars" where
  "parse_bad tok s = s\<lparr>ps_parser := bad_tok tok (ps_parser s)\<rparr>"

text \<open>A token that starts a default is put back for \<open>parse_default\<close>.\<close>

definition default_from :: "ext_lib \<Rightarrow> Token \<Rightarrow> parse_vars \<Rightarrow> ds_error + parse_vars" where
  "default_from L tok s =
     (case parse_default L (ps_var s) (Parser_push tok (ps_parser s)) of
        Inl e \<Rightarrow> Inl e
      | Inr (state, var, p) \<Rightarrow> Inr (s\<lparr>ps_state := state, ps_var := var, ps_parser := p\<rparr>))"

definition close_desc :: "parse_vars \<Rightarrow> parse_vars" where
  "close_desc s =
     (let s = (if ps_state s = e_State_Var then push_var s else s);
          s = s\<lparr>ps_desc := index_vars (ps_desc s)\<rparr>
      in s\<lparr>ps_descriptors := ps_descriptors s @ [ps_desc s], ps_state := e_State_File\<rparr>)"

text \<open>The punctuation; a comma or a closing parenthesis belongs inside a default only.\<close>

definition punct_step :: "ext_lib \<Rightarrow> Token \<Rightarrow> byte \<Rightarrow> parse_vars \<Rightarrow> ds_error + parse_vars" where
  "punct_step L tok c s =
     (let state = ps_state s; bad = Inr (parse_bad tok s); goto = (\<lambda>state. Inr (s\<lparr>ps_state := state\<rparr>))
      in if c = 40 then (if state = e_State_Default then default_from L tok s else bad)
         else if c = 59 then Inr s
         else if c = 61 then
           (if state = e_State_Default_EQ then goto e_State_Default
            else if state = e_State_DefaultOption_EQ then goto e_State_DefaultOption
            else if state = e_State_DisplayOption_EQ then goto e_State_DisplayOption
            else bad)
         else if c = 91 then (if state = e_State_Var_SZ then goto e_State_SZ_N else bad)
         else if c = 93 then
           (if state = e_State_SZ_N then Inr (s\<lparr>ps_var := (ps_var s)\<lparr>vr_size := - 1\<rparr>, ps_state := e_State_Var\<rparr>)
            else if state = e_State_SZ_X then goto e_State_Var
            else bad)
         else if c = 123 then (if state = e_State_Statedesc_BR then goto e_State_Statedesc else bad)
         else if c = 125 then
           (if state = e_State_Var \<or> state = e_State_Statedesc then Inr (close_desc s) else bad)
         else bad)"

text \<open>\<open>TYPE_TOK\<close>: the type that a keyword names.\<close>

definition tok_vartype :: "TokenType \<Rightarrow> VarType option" where
  "tok_vartype t =
     (case t of
        e_TokInt \<Rightarrow> Some e_VarInt
      |  e_TokFloat \<Rightarrow> Some e_VarFloat
      |  e_TokBool \<Rightarrow> Some e_VarBool
      |  e_TokString \<Rightarrow> Some e_VarString
      |  e_TokPlKey \<Rightarrow> Some e_VarKey
      |  e_TokCreatable \<Rightarrow> Some e_VarCreatable
      |  e_TokDouble \<Rightarrow> Some e_VarDouble
      |  e_TokTime \<Rightarrow> Some e_VarTime
      |  e_TokByte \<Rightarrow> Some e_VarByte
      |  e_TokShort \<Rightarrow> Some e_VarShort
      |  e_TokAgeTimeOfDay \<Rightarrow> Some e_VarAgeTimeOfDay
      |  e_TokVector3 \<Rightarrow> Some e_VarVector3
      |  e_TokPoint3 \<Rightarrow> Some e_VarPoint3
      |  e_TokQuat \<Rightarrow> Some e_VarQuaternion
      |  e_TokRgb \<Rightarrow> Some e_VarRgb
      |  e_TokRgb8 \<Rightarrow> Some e_VarRgb8
      |  e_TokRgba \<Rightarrow> Some e_VarRgba
      |  e_TokRgba8 \<Rightarrow> Some e_VarRgba8
      | _ \<Rightarrow> None)"

definition parse_step :: "ext_lib \<Rightarrow> Token \<Rightarrow> parse_vars \<Rightarrow> ds_error + parse_vars" where
  "parse_step L tok s =
     (let state = ps_state s; bad = Inr (parse_bad tok s); goto = (\<lambda>state. Inr (s\<lparr>ps_state := state\<rparr>))
      in case tk_type tok of
           Tok_char c \<Rightarrow> punct_step L tok c s
         | e_TokStatedesc \<Rightarrow>
             (let s = (if state = e_State_File then s\<lparr>ps_state := e_State_Statedesc_ID\<rparr> else parse_bad tok s)
              in Inr (s\<lparr>ps_desc := StateDescriptor_clear (ps_desc s)\<rparr>))
         | e_TokVersion \<Rightarrow>
             (if state = e_State_Var then Inr ((push_var s)\<lparr>ps_state := e_State_Version_N\<rparr>)
              else if state = e_State_Statedesc then goto e_State_Version_N
              else bad)
         | e_TokVar \<Rightarrow>
             (let s = (if state = e_State_Var then (push_var s)\<lparr>ps_state := e_State_Var_TP\<rparr>
                       else if state = e_State_Statedesc then s\<lparr>ps_state := e_State_Var_TP\<rparr>
                       else parse_bad tok s)
              in Inr (s\<lparr>ps_var := VarDescriptor_clear (ps_var s)\<rparr>))
         | e_TokDefault \<Rightarrow> (if state = e_State_Var then goto e_State_Default_EQ else bad)
         | e_TokDefaultOption \<Rightarrow> (if state = e_State_Var then goto e_State_DefaultOption_EQ else bad)
         | e_TokDisplayOption \<Rightarrow> (if state = e_State_Var then goto e_State_DisplayOption_EQ else bad)
         | e_TokIdent \<Rightarrow>
             (if state = e_State_Statedesc_ID
              then Inr (s\<lparr>ps_desc := (ps_desc s)\<lparr>sd_name := tk_value tok\<rparr>, ps_state := e_State_Statedesc_BR\<rparr>)
              else if state = e_State_Var_ID
              then Inr (s\<lparr>ps_var := (ps_var s)\<lparr>vr_name := tk_value tok\<rparr>, ps_state := e_State_Var_SZ\<rparr>)
              else if state = e_State_Default then default_from L tok s
              else if state = e_State_DefaultOption
              then Inr (s\<lparr>ps_var := (ps_var s)\<lparr>vr_defaultOption := tk_value tok\<rparr>, ps_state := e_State_Var\<rparr>)
              else if state = e_State_DisplayOption
              then Inr (s\<lparr>ps_var := (ps_var s)\<lparr>vr_displayOption := tk_value tok\<rparr>, ps_state := e_State_Var\<rparr>)
              else bad)
         | e_TokNumeric \<Rightarrow>
             (if state = e_State_Version_N
              then Inr (s\<lparr>ps_desc := (ps_desc s)\<lparr>sd_version := long_to_int (strtol (tk_value tok))\<rparr>,
                          ps_state := e_State_Statedesc\<rparr>)
              else if state = e_State_SZ_N
              then Inr (s\<lparr>ps_var := (ps_var s)\<lparr>vr_size := long_to_int (strtol (tk_value tok))\<rparr>, ps_state := e_State_SZ_X\<rparr>)
              else if state = e_State_Default then default_from L tok s
              else bad)
         | e_TokQuoted \<Rightarrow> (if state = e_State_Default then default_from L tok s else bad)
         | e_TokTypename \<Rightarrow>
             (if state = e_State_Var_TP
              then Inr (s\<lparr>ps_var := (ps_var s)\<lparr>vr_type := e_VarStateDesc, vr_typeName := tk_value tok\<rparr>,
                          ps_state := e_State_Var_ID\<rparr>)
              else bad)
         | t \<Rightarrow>
             (case tok_vartype t of
                Some type \<Rightarrow>
                  (if state = e_State_Var_TP
                   then Inr (s\<lparr>ps_var := (ps_var s)\<lparr>vr_type := type\<rparr>, ps_state := e_State_Var_ID\<rparr>)
                   else bad)
              | None \<Rightarrow> bad))"

lemma default_tokens_pending:
  "default_tokens L state vals tok p = Inr (b, state', vals', tok', p') \<Longrightarrow> pending p' \<le> pending p"
proof (induction L state vals tok p arbitrary: b state' vals' tok' p' rule: default_tokens.induct)
  case (1 L state vals tok p)
  show ?case
  proof (cases "state = e_State_Var")
    case True
    then show ?thesis using "1.prems" unfolding default_tokens.simps [of L state vals tok p] by simp
  next
    case False
    then obtain t q where n: "Parser_next L p = Inr (t, q)"
      using "1.prems" by (auto simp: default_tokens.simps [of L state vals tok p] split: sum.splits prod.splits)
    show ?thesis
      using "1.prems" "1.IH" [OF False n refl] False n next_pending [OF n]
      by (auto simp: default_tokens.simps [of L state vals tok p] pending_push split: if_splits option.splits) fastforce+
  qed
qed

lemma default_tokens_consumes:
  assumes "default_tokens L state vals tok (Parser_push t p) = Inr (b, state', vals', tok', p')"
    and "\<not> final_token t" and "state \<noteq> e_State_Var"
  shows "pending p' \<le> pending p"
proof -
  have n: "Parser_next L (Parser_push t p) = Inr (t, p)"
    by (simp add: Parser_next.simps Parser_push_def)
  show ?thesis
    using assms n by (auto simp: default_tokens.simps [of L state vals tok "Parser_push t p"] split: option.splits dest: default_tokens_pending)
qed

lemma parse_default_consumes:
  assumes "parse_default L var (Parser_push t p) = Inr (state, var', p')" and "\<not> final_token t"
  shows "pending p' \<le> pending p"
  using assms
  by (auto simp: parse_default_def Let_def split: sum.splits option.splits if_splits bool.splits
      dest!: default_tokens_consumes)

lemma default_from_pending:
  assumes "default_from L tok s = Inr s'" and "\<not> final_token tok"
  shows "pending (ps_parser s') \<le> pending (ps_parser s)"
  using assms by (auto simp: default_from_def split: sum.splits dest: parse_default_consumes)

lemma parse_bad_pending [simp]: "pending (ps_parser (parse_bad tok s)) = pending (ps_parser s)"
  by (simp add: parse_bad_def)

lemma push_var_parser [simp]: "ps_parser (push_var s) = ps_parser s" "ps_parser (close_desc s) = ps_parser s"
  by (simp_all add: push_var_def close_desc_def Let_def)

lemma punct_step_pending:
  assumes "punct_step L tok c s = Inr s'" and "\<not> final_token tok"
  shows "pending (ps_parser s') \<le> pending (ps_parser s)"
  using assms by (auto simp: punct_step_def Let_def split: if_splits dest: default_from_pending)

lemma parse_step_pending:
  assumes "parse_step L tok s = Inr s'" and "\<not> final_token tok"
  shows "pending (ps_parser s') \<le> pending (ps_parser s)"
  using assms
  by (cases "tk_type tok")
    (auto simp: parse_step_def Let_def tok_vartype_def split: if_splits dest: default_from_pending punct_step_pending)

function parse_loop :: "ext_lib \<Rightarrow> parse_vars \<Rightarrow> ds_error + StateDescriptor list" where
  "parse_loop L s =
     (case Parser_next L (ps_parser s) of
        Inl e \<Rightarrow> Inl e
      | Inr (tok, p) \<Rightarrow>
          if final_token tok then Inr (ps_descriptors s)
          else case parse_step L tok (s\<lparr>ps_parser := p\<rparr>) of
                 Inl e \<Rightarrow> Inl e
               | Inr s \<Rightarrow> parse_loop L s)"
  by pat_completeness auto

termination parse_loop
  by (relation "measure (\<lambda>(L, s). pending (ps_parser s))")
    (auto dest!: next_pending parse_step_pending simp: tok_weight_def)

declare parse_loop.simps [simp del]

definition parse_start :: "Parser \<Rightarrow> parse_vars" where
  "parse_start p = \<lparr>ps_descriptors = [], ps_desc = StateDescriptor_new, ps_var = VarDescriptor_new,
     ps_state = e_State_File, ps_parser = p\<rparr>"

definition Parser_parse :: "ext_lib \<Rightarrow> Parser \<Rightarrow> ds_error + StateDescriptor list" where
  "Parser_parse L p =
     (case parse_loop L (parse_start p) of
        Inl e \<Rightarrow> Inl e
      | Inr descriptors \<Rightarrow> Inr (filter (\<lambda>d. \<not> sd_version d < 0) descriptors))"

end
