(* ===== verification/Sdl_Grammar.thy ===== *)
theory Sdl_Grammar
  imports Sdl_Parser
begin

text \<open>
  What the descriptor parser accepts and returns: an invariant of the descriptors it gives for any file,
  and the grammar of descriptor files with its meaning, which the parser implements.
\<close>

section \<open>Any file\<close>

text \<open>A descriptor as the parser leaves it: a version, typed variables, and an index by name.\<close>

definition desc_indexed :: "StateDescriptor \<Rightarrow> bool" where
  "desc_indexed d \<longleftrightarrow>
     (\<forall>v \<in> set (sd_vars d). vr_type v \<noteq> e_VarInvalid)
     \<and> dom (map_of (sd_varmap d)) = vr_name ` set (sd_vars d)
     \<and> (\<forall>n k. map_of (sd_varmap d) n = Some k \<longrightarrow> k < length (sd_vars d) \<and> vr_name (sd_vars d ! k) = n)"

fun in_var :: "parse_state \<Rightarrow> bool" where
  "in_var e_State_File = False"
| "in_var e_State_Statedesc_ID = False"
| "in_var e_State_Statedesc_BR = False"
| "in_var e_State_Statedesc = False"
| "in_var e_State_Version_N = False"
| "in_var e_State_Var_TP = False"
| "in_var state = True"

definition desc_open :: "StateDescriptor \<Rightarrow> bool" where
  "desc_open d \<longleftrightarrow> sd_varmap d = [] \<and> (\<forall>v \<in> set (sd_vars d). vr_type v \<noteq> e_VarInvalid)"

definition parse_inv :: "parse_vars \<Rightarrow> bool" where
  "parse_inv s \<longleftrightarrow>
     list_all desc_indexed (ps_descriptors s)
     \<and> (ps_state s \<noteq> e_State_File \<longrightarrow> desc_open (ps_desc s))
     \<and> (in_var (ps_state s) \<longrightarrow> vr_type (ps_var s) \<noteq> e_VarInvalid)"

lemma desc_open_simps [simp]:
  "desc_open (StateDescriptor_clear d)"
  "desc_open (d\<lparr>sd_name := n\<rparr>) = desc_open d" "desc_open (d\<lparr>sd_version := k\<rparr>) = desc_open d"
  "desc_open (d\<lparr>sd_vars := sd_vars d @ [v]\<rparr>) \<longleftrightarrow> desc_open d \<and> vr_type v \<noteq> e_VarInvalid"
  by (auto simp: desc_open_def StateDescriptor_clear_def)

lemma index_vars_map:
  "map_of (foldl (\<lambda>m (i, v). AList.update (vr_name v) i m) m (enumerate j vs))
   = map_of m ++ map_of (rev (map (\<lambda>(i, v). (vr_name v, i)) (enumerate j vs)))"
  by (induction vs arbitrary: m j) (simp_all add: update_conv' map_of_append map_add_assoc)

lemma index_vars_indexed:
  assumes "desc_open d"
  shows "desc_indexed (index_vars d)"
proof -
  let ?ps = "map (\<lambda>(i, v). (vr_name v, i)) (enumerate 0 (sd_vars d))"
  have m: "map_of (sd_varmap (index_vars d)) = map_of (rev ?ps)"
    using assms by (simp add: desc_open_def index_vars_def index_vars_map)
  have "k < length (sd_vars d) \<and> vr_name (sd_vars d ! k) = n" if "map_of (rev ?ps) n = Some k" for n k
    using map_of_SomeD [OF that] by (auto simp: in_set_enumerate_eq)
  moreover have "dom (map_of (rev ?ps)) = vr_name ` snd ` set (enumerate 0 (sd_vars d))"
    by (force simp: dom_map_of_conv_image_fst)
  moreover have "snd ` set (enumerate 0 (sd_vars d)) = set (sd_vars d)" by (metis list.set_map map_snd_enumerate)
  ultimately show ?thesis using assms unfolding desc_indexed_def m by (simp add: index_vars_def desc_open_def)
qed

lemma default_store_error: "default_store type vals d = Inl e \<Longrightarrow> e = UndefinedBehaviour"
proof -
  have num: "numerics n vals = Inl e \<Longrightarrow> e = UndefinedBehaviour" for n
    by (induction n vals rule: numerics.induct) (auto split: if_splits sum.splits)
  show "default_store type vals d = Inl e \<Longrightarrow> e = UndefinedBehaviour"
    by (cases type) (auto simp: default_store_def with_numerics_def split: list.splits sum.splits option.splits dest: num)
qed

lemma tcons_Inl: "tcons t r = Inl e \<longleftrightarrow> r = Inl e"
  by (auto simp: tcons_def split: sum.splits)

lemma scan_error: "scan L tokbuf cs = Inl e \<Longrightarrow> e = UndefinedBehaviour"
  by (induction L tokbuf cs rule: scan.induct) (auto simp: scan.simps(2) Let_def tcons_Inl split: if_splits)

lemma next_error: "Parser_next L p = Inl e \<Longrightarrow> e = UndefinedBehaviour"
  by (induction L p rule: Parser_next.induct)
    (subst (asm) (2) Parser_next.simps,
     auto simp: Stream_readLine_def split: list.splits prod.splits if_splits sum.splits dest: scan_error)

lemma default_tokens_error: "default_tokens L state vals tok p = Inl e \<Longrightarrow> e = UndefinedBehaviour"
  by (induction L state vals tok p rule: default_tokens.induct)
    (subst (asm) (3) default_tokens.simps,
     auto split: if_splits sum.splits prod.splits option.splits dest: next_error)

lemma parse_step_error: "parse_step L tok s = Inl e \<Longrightarrow> e = UndefinedBehaviour"
proof -
  have d: "default_from L tok s = Inl e \<Longrightarrow> e = UndefinedBehaviour"
    by (auto simp: default_from_def parse_default_def Let_def split: sum.splits bool.splits option.splits if_splits
        dest: default_tokens_error default_store_error)
  then have "punct_step L tok c s = Inl e \<Longrightarrow> e = UndefinedBehaviour" for c
    by (auto simp: punct_step_def Let_def split: if_splits)
  with d show "parse_step L tok s = Inl e \<Longrightarrow> e = UndefinedBehaviour"
    by (cases "tk_type tok") (auto simp: parse_step_def Let_def tok_vartype_def split: if_splits)
qed

lemma default_tokens_state:
  "default_tokens L state vals tok p = Inr (b, state', vals', tok', p') \<Longrightarrow> in_var state \<Longrightarrow> in_var state'"
proof (induction L state vals tok p arbitrary: b state' vals' tok' p' rule: default_tokens.induct)
  case (1 L state vals tok p)
  show ?case
  proof (cases "state = e_State_Var")
    case True
    then show ?thesis using "1.prems" unfolding default_tokens.simps [of L state vals tok p] by simp
  next
    case False
    then obtain t q where n: "Parser_next L p = Inr (t, q)"
      using "1.prems" by (auto simp: default_tokens.simps [of L state vals tok p] split: sum.splits prod.splits)
    have step: "default_step state vals t = Some (st, vs) \<Longrightarrow> in_var st" for st vs
      by (auto simp: default_step_def split: if_splits)
    show ?thesis
      using "1.prems" "1.IH" [OF False n refl] False n step
      by (auto simp: default_tokens.simps [of L state vals tok p] split: if_splits option.splits)
  qed
qed

lemma default_from_inv:
  assumes "default_from L tok s = Inr s'" and "parse_inv s" and "ps_state s = e_State_Default"
  shows "parse_inv s'"
proof -
  obtain state var p where pd: "parse_default L (ps_var s) (Parser_push tok (ps_parser s)) = Inr (state, var, p)"
    and s': "s' = s\<lparr>ps_state := state, ps_var := var, ps_parser := p\<rparr>"
    using assms(1) by (auto simp: default_from_def split: sum.splits)
  have "in_var state \<and> vr_type var = vr_type (ps_var s)"
    using pd by (auto simp: parse_default_def Let_def split: sum.splits bool.splits option.splits if_splits
        dest!: default_tokens_state)
  then show ?thesis using assms(2,3) unfolding s' by (cases state) (simp_all add: parse_inv_def)
qed

lemma parse_bad_inv [simp]: "parse_inv (parse_bad tok s) = parse_inv s"
  by (simp add: parse_inv_def parse_bad_def)

lemma goto_inv:
  assumes "parse_inv s" and "ps_state s \<noteq> e_State_File \<or> state = e_State_File"
    and "in_var state \<longrightarrow> in_var (ps_state s)"
  shows "parse_inv (s\<lparr>ps_state := state\<rparr>)"
  using assms by (auto simp: parse_inv_def)

lemma close_desc_inv:
  assumes "parse_inv s" and "ps_state s = e_State_Var \<or> ps_state s = e_State_Statedesc"
  shows "parse_inv (close_desc s)"
  using assms by (auto simp: parse_inv_def close_desc_def push_var_def Let_def intro!: index_vars_indexed)

lemma punct_step_inv:
  assumes "punct_step L tok c s = Inr s'" and "parse_inv s"
  shows "parse_inv s'"
  using assms default_from_inv [of L tok s s'] close_desc_inv [of s]
  by (auto simp: punct_step_def Let_def split: if_splits intro!: goto_inv) (simp_all add: parse_inv_def)

lemma keyword_inv:
  assumes "parse_inv s"
  shows "ps_state s = e_State_Var \<Longrightarrow> parse_inv ((push_var s)\<lparr>ps_state := e_State_Version_N\<rparr>)"
    and "ps_state s = e_State_Var \<Longrightarrow> parse_inv ((push_var s)\<lparr>ps_state := e_State_Var_TP, ps_var := v\<rparr>)"
    and "ps_state s \<noteq> e_State_File \<Longrightarrow> parse_inv (s\<lparr>ps_state := e_State_Var_TP, ps_var := v\<rparr>)"
    and "ps_state s \<noteq> e_State_File \<Longrightarrow> parse_inv (s\<lparr>ps_desc := (ps_desc s)\<lparr>sd_name := n\<rparr>, ps_state := e_State_Statedesc_BR\<rparr>)"
    and "ps_state s \<noteq> e_State_File \<Longrightarrow> parse_inv (s\<lparr>ps_desc := (ps_desc s)\<lparr>sd_version := k\<rparr>, ps_state := e_State_Statedesc\<rparr>)"
    and "ps_state s \<noteq> e_State_File \<Longrightarrow> in_var state \<Longrightarrow> vr_type v \<noteq> e_VarInvalid \<Longrightarrow> parse_inv (s\<lparr>ps_var := v, ps_state := state\<rparr>)"
    and "parse_inv (s\<lparr>ps_state := e_State_Statedesc_ID, ps_desc := StateDescriptor_clear d\<rparr>)"
  using assms by (auto simp: parse_inv_def push_var_def)

text \<open>After \<open>BAD_TOK\<close> only the finished descriptors matter.\<close>

definition stopped :: "parse_vars \<Rightarrow> bool" where
  "stopped s \<longleftrightarrow> list_all desc_indexed (ps_descriptors s)
     \<and> p_buffer (ps_parser s) \<noteq> [] \<and> final_token (hd (p_buffer (ps_parser s)))"

lemma stopped_bad:
  "parse_inv s \<Longrightarrow> stopped ((parse_bad tok s)\<lparr>ps_var := v\<rparr>)"
  by (simp add: stopped_def parse_inv_def parse_bad_def bad_tok_def Parser_push_def final_token_def)

lemma type_known: "tok_vartype t = Some type \<Longrightarrow> type \<noteq> e_VarInvalid"
  by (auto simp: tok_vartype_def split: TokenType.splits)

lemma parse_step_inv:
  assumes "parse_step L tok s = Inr s'" and "parse_inv s"
  shows "parse_inv s' \<or> stopped s'"
proof -
  note known = keyword_inv [OF assms(2)]
  have bad: "parse_inv (parse_bad tok s)" using assms(2) by simp
  have cleared: "parse_inv ((parse_bad tok s)\<lparr>ps_desc := StateDescriptor_clear d\<rparr>)" for d
    using assms(2) by (simp add: parse_inv_def parse_bad_def)
  have unfold: "in_var (ps_state s) \<Longrightarrow> vr_type (ps_var s) \<noteq> e_VarInvalid" using assms(2) by (simp add: parse_inv_def)
  show ?thesis
    using assms(1) punct_step_inv [OF _ assms(2)] default_from_inv [OF _ assms(2)] known bad goto_inv [OF assms(2)]
      stopped_bad [OF assms(2), where tok = tok] cleared unfold
    by (cases "tk_type tok") (auto simp: parse_step_def Let_def tok_vartype_def split: if_splits)
qed

lemma parse_loop_inv:
  assumes "parse_inv s \<or> stopped s"
  shows "parse_loop L s = Inl UndefinedBehaviour \<or> (\<exists>ds. parse_loop L s = Inr ds \<and> list_all desc_indexed ds)"
  using assms
proof (induction L s rule: parse_loop.induct)
  case (1 L s)
  show ?case
  proof (cases "Parser_next L (ps_parser s)")
    case (Inl e)
    then show ?thesis using next_error [OF Inl] by (simp add: parse_loop.simps [of L s])
  next
    case (Inr r)
    obtain tok p where n: "Parser_next L (ps_parser s) = Inr (tok, p)" using Inr by (cases r) simp
    have descs: "list_all desc_indexed (ps_descriptors s)" using "1.prems" by (auto simp: parse_inv_def stopped_def)
    show ?thesis
    proof (cases "final_token tok")
      case True
      then show ?thesis using n descs by (simp add: parse_loop.simps [of L s])
    next
      case False
      have "\<not> stopped s"
        using n False by (auto simp: stopped_def Parser_next.simps [of L "ps_parser s"] split: list.splits)
      then have inv: "parse_inv (s\<lparr>ps_parser := p\<rparr>)" using "1.prems" by (simp add: parse_inv_def)
      show ?thesis
      proof (cases "parse_step L tok (s\<lparr>ps_parser := p\<rparr>)")
        case (Inl e)
        then show ?thesis using n False parse_step_error [OF Inl] by (simp add: parse_loop.simps [of L s])
      next
        case (Inr s')
        then show ?thesis
          using "1.IH" [OF n refl False Inr] parse_step_inv [OF Inr inv] n False by (simp add: parse_loop.simps [of L s])
      qed
    qed
  qed
qed

text \<open>
  C26: the parser returns for every file. Either the file makes it read outside an array, or it returns
  descriptors each of which has a version, only variables of known types, and an index that gives for the
  names of its variables, and for no other, the position of a variable of that name.
\<close>

theorem parser_total:
  "Parser_parse L p = Inl UndefinedBehaviour
   \<or> (\<exists>ds. Parser_parse L p = Inr ds \<and> (\<forall>d \<in> set ds. 0 \<le> sd_version d \<and> desc_indexed d))"
proof -
  have "parse_inv (parse_start p)" by (simp add: parse_start_def parse_inv_def)
  then show ?thesis
    using parse_loop_inv [of "parse_start p" L] by (auto simp: Parser_parse_def list_all_iff)
qed

definition sample_text :: bytes where
  "sample_text = ascii ''STATEDESC T{VERSION 2 VAR INT a[1]}VAR''"

theorem parser_total_witness:
  "\<exists>ds. Parser_parse ascii_lib \<lparr>p_file = sample_text, p_lineno = 0, p_buffer = []\<rparr> = Inr ds
    \<and> length ds = 1 \<and> list_all (\<lambda>d. 0 \<le> sd_version d \<and> desc_indexed d) ds"
proof -
  let ?p = "\<lparr>p_file = sample_text, p_lineno = 0, p_buffer = []\<rparr>"
  have "case Parser_parse ascii_lib ?p of Inl e \<Rightarrow> False | Inr ds \<Rightarrow> length ds = 1" by code_simp
  then show ?thesis using parser_total [of ascii_lib ?p] by (auto simp: list_all_iff)
qed

section \<open>The grammar\<close>

text \<open>A symbol is a token without its line; keywords carry their text, punctuation does not.\<close>

type_synonym symbol = "TokenType \<times> st_string"

definition keyword :: "string \<Rightarrow> symbol" where
  "keyword s = (str_to_toktype (ascii s), ascii s)"

definition punct :: "byte \<Rightarrow> symbol" where
  "punct c = (Tok_char c, [])"

datatype attr_syntax =
    Default symbol | DefaultList "st_string list" | DefaultOption st_string | DisplayOption st_string

record var_syntax =
  x_type :: symbol
  x_name :: st_string
  x_size :: "st_string option"
  x_attrs :: "attr_syntax list"

datatype item_syntax = Version st_string | Var var_syntax

type_synonym desc_syntax = "st_string \<times> item_syntax list"

fun list_syms :: "st_string list \<Rightarrow> symbol list" where
  "list_syms [] = []"
| "list_syms [v] = [(e_TokNumeric, v)]"
| "list_syms (v # vs) = (e_TokNumeric, v) # punct 44 # list_syms vs"

fun attr_syms :: "attr_syntax \<Rightarrow> symbol list" where
  "attr_syms (Default v) = [keyword ''DEFAULT'', punct 61, v]"
| "attr_syms (DefaultList vs) = [keyword ''DEFAULT'', punct 61, punct 40] @ list_syms vs @ [punct 41]"
| "attr_syms (DefaultOption v) = [keyword ''DEFAULTOPTION'', punct 61, (e_TokIdent, v)]"
| "attr_syms (DisplayOption v) = [keyword ''DISPLAYOPTION'', punct 61, (e_TokIdent, v)]"

definition var_syms :: "var_syntax \<Rightarrow> symbol list" where
  "var_syms x =
     [keyword ''VAR'', x_type x, (e_TokIdent, x_name x), punct 91]
     @ (case x_size x of None \<Rightarrow> [] | Some n \<Rightarrow> [(e_TokNumeric, n)]) @ [punct 93]
     @ concat (map attr_syms (x_attrs x))"

fun item_syms :: "item_syntax \<Rightarrow> symbol list" where
  "item_syms (Version n) = [keyword ''VERSION'', (e_TokNumeric, n)]"
| "item_syms (Var x) = var_syms x"

definition desc_syms :: "desc_syntax \<Rightarrow> symbol list" where
  "desc_syms = (\<lambda>(name, items).
     [keyword ''STATEDESC'', (e_TokIdent, name), punct 123] @ concat (map item_syms items) @ [punct 125])"

text \<open>
  The meaning: a variable starts from a cleared one, whose members of the union of defaults are what the
  variable before it left there.
\<close>

definition sym_token :: "symbol \<Rightarrow> Token" where
  "sym_token = (\<lambda>(t, v). \<lparr>tk_type = t, tk_value = v, tk_lineno = 0\<rparr>)"

definition default_sem :: "VarDescriptor \<Rightarrow> symbol list \<Rightarrow> VarDescriptor option" where
  "default_sem var vs =
     (if default_params (vr_type var) \<in> {None, Some (length vs)}
      then case default_store (vr_type var) (map sym_token vs) (vr_default var) of
             Inr (Some d) \<Rightarrow> Some (var\<lparr>vr_default := d\<lparr>vd_valid := True\<rparr>\<rparr>)
           | _ \<Rightarrow> None
      else None)"

fun attr_sem :: "VarDescriptor \<Rightarrow> attr_syntax \<Rightarrow> VarDescriptor option" where
  "attr_sem var (Default v) =
     (if fst v \<in> {e_TokNumeric, e_TokIdent, e_TokQuoted} then default_sem var [v] else None)"
| "attr_sem var (DefaultList vs) =
     (if vs = [] then None else default_sem var (map (\<lambda>v. (e_TokNumeric, v)) vs))"
| "attr_sem var (DefaultOption v) = Some (var\<lparr>vr_defaultOption := v\<rparr>)"
| "attr_sem var (DisplayOption v) = Some (var\<lparr>vr_displayOption := v\<rparr>)"

fun fold_sem :: "('s \<Rightarrow> 'a \<Rightarrow> 's option) \<Rightarrow> 's \<Rightarrow> 'a list \<Rightarrow> 's option" where
  "fold_sem f s [] = Some s"
| "fold_sem f s (x # xs) = (case f s x of None \<Rightarrow> None | Some s' \<Rightarrow> fold_sem f s' xs)"

definition type_sem :: "symbol \<Rightarrow> (VarType \<times> st_string) option" where
  "type_sem = (\<lambda>(t, v). if t = e_TokTypename then Some (e_VarStateDesc, v) else map_option (\<lambda>type. (type, [])) (tok_vartype t))"

definition var_sem :: "VarDescriptor \<Rightarrow> var_syntax \<Rightarrow> VarDescriptor option" where
  "var_sem prev x =
     (case type_sem (x_type x) of
        None \<Rightarrow> None
      | Some (type, typeName) \<Rightarrow>
          fold_sem attr_sem
            ((VarDescriptor_clear prev)\<lparr>vr_type := type, vr_typeName := typeName, vr_name := x_name x,
               vr_size := (case x_size x of None \<Rightarrow> - 1 | Some n \<Rightarrow> long_to_int (strtol n))\<rparr>) (x_attrs x))"

fun item_sem :: "StateDescriptor \<times> VarDescriptor \<Rightarrow> item_syntax \<Rightarrow> (StateDescriptor \<times> VarDescriptor) option" where
  "item_sem (d, prev) (Version n) = Some (d\<lparr>sd_version := long_to_int (strtol n)\<rparr>, prev)"
| "item_sem (d, prev) (Var x) = map_option (\<lambda>v. (d\<lparr>sd_vars := sd_vars d @ [v]\<rparr>, v)) (var_sem prev x)"

definition desc_sem ::
  "StateDescriptor list \<times> VarDescriptor \<Rightarrow> desc_syntax \<Rightarrow> (StateDescriptor list \<times> VarDescriptor) option" where
  "desc_sem = (\<lambda>(ds, prev) (name, items).
     map_option (\<lambda>(d, v). (ds @ [index_vars d], v))
       (fold_sem item_sem (StateDescriptor_new\<lparr>sd_name := name\<rparr>, prev) items))"

definition file_sem :: "desc_syntax list \<Rightarrow> StateDescriptor list option" where
  "file_sem file =
     map_option (\<lambda>(ds, v). filter (\<lambda>d. 0 \<le> sd_version d) ds) (fold_sem desc_sem ([], VarDescriptor_new) file)"

section \<open>What the scanner feeds to the parser\<close>

definition tok_is :: "symbol \<Rightarrow> Token \<Rightarrow> bool" where
  "tok_is y tok \<longleftrightarrow> tk_type tok = fst y \<and> (\<not> (\<exists>c. fst y = Tok_char c) \<longrightarrow> tk_value tok = snd y)"

fun feeds :: "ext_lib \<Rightarrow> Parser \<Rightarrow> symbol list \<Rightarrow> bool" where
  "feeds L p [] \<longleftrightarrow> (\<exists>tok p'. Parser_next L p = Inr (tok, p') \<and> final_token tok)"
| "feeds L p (y # ys) \<longleftrightarrow> (\<exists>tok p'. Parser_next L p = Inr (tok, p') \<and> tok_is y tok \<and> feeds L p' ys)"

text \<open>The loop, fed the symbols \<open>ys\<close>, goes from \<open>s\<close> to \<open>s'\<close>.\<close>

definition moves :: "ext_lib \<Rightarrow> symbol list \<Rightarrow> parse_vars \<Rightarrow> parse_vars \<Rightarrow> bool" where
  "moves L ys s s' \<longleftrightarrow>
     (\<forall>p zs. feeds L p (ys @ zs) \<longrightarrow>
        (\<exists>p'. feeds L p' zs \<and> parse_loop L (s\<lparr>ps_parser := p\<rparr>) = parse_loop L (s'\<lparr>ps_parser := p'\<rparr>)))"

lemma moves_Nil [simp]: "moves L [] s s"
  by (auto simp: moves_def)

lemma moves_append:
  assumes "moves L ys s s'" and "moves L zs s' s''"
  shows "moves L (ys @ zs) s s''"
  using assms unfolding moves_def by (metis append.assoc)

lemma moves_step:
  assumes "\<And>tok p. tok_is y tok \<Longrightarrow> parse_step L tok (s\<lparr>ps_parser := p\<rparr>) = Inr (s'\<lparr>ps_parser := p\<rparr>)"
    and "fst y \<notin> {e_TokError, e_TokEof}" and "moves L ys s' s''"
  shows "moves L (y # ys) s s''"
proof -
  have "\<exists>q. feeds L q (ys @ zs) \<and> parse_loop L (s\<lparr>ps_parser := p\<rparr>) = parse_loop L (s'\<lparr>ps_parser := q\<rparr>)"
    if fed: "feeds L p (y # ys @ zs)" for p zs
  proof -
    obtain tok p' where n: "Parser_next L p = Inr (tok, p')" "tok_is y tok" "feeds L p' (ys @ zs)"
      using fed by auto
    then have "\<not> final_token tok" using assms(2) by (auto simp: final_token_def tok_is_def)
    then show ?thesis using n assms(1) [OF n(2), of p'] by (intro exI [of _ p']) (simp add: parse_loop.simps [of L "s\<lparr>ps_parser := p\<rparr>"])
  qed
  then show ?thesis using assms(3) unfolding moves_def by (metis append_Cons)
qed

lemma keyword_types [simp]:
  "fst (keyword ''STATEDESC'') = e_TokStatedesc" "fst (keyword ''VERSION'') = e_TokVersion" "fst (keyword ''VAR'') = e_TokVar"
  "fst (keyword ''DEFAULT'') = e_TokDefault" "fst (keyword ''DEFAULTOPTION'') = e_TokDefaultOption"
  "fst (keyword ''DISPLAYOPTION'') = e_TokDisplayOption"
  by code_simp+

lemma punct_type [simp]: "fst (punct c) = Tok_char c"
  by (simp add: punct_def)

lemmas step_simps = parse_step_def punct_step_def tok_is_def Let_def

lemma moves_one:
  assumes "\<And>tok p. tok_is y tok \<Longrightarrow> parse_step L tok (s\<lparr>ps_parser := p\<rparr>) = Inr (s'\<lparr>ps_parser := p\<rparr>)"
    and "fst y \<notin> {e_TokError, e_TokEof}"
  shows "moves L [y] s s'"
  by (rule moves_step [OF assms moves_Nil])

subsection \<open>Defaults\<close>

definition same_text :: "Token \<Rightarrow> Token \<Rightarrow> bool" where
  "same_text a b \<longleftrightarrow> tk_type a = tk_type b \<and> tk_value a = tk_value b"

lemma numerics_text: "list_all2 same_text as bs \<Longrightarrow> numerics n as = numerics n bs"
  by (induction n as arbitrary: bs rule: numerics.induct) (auto simp: same_text_def list_all2_Cons1 cong: sum.case_cong)

lemma default_store_text:
  assumes "list_all2 same_text as bs"
  shows "default_store type as d = default_store type bs d"
  using assms numerics_text [OF assms]
  by (cases type) (auto simp: default_store_def with_numerics_def same_text_def list_all2_Cons1 list_all2_Cons2 split: list.splits)

lemma parse_default_store:
  assumes "default_tokens L e_State_Default [] (new_token 0) p = Inr (True, e_State_Var, vals, tok, p')"
    and "list_all2 same_text vals (map sym_token vs)" and "default_sem var vs = Some var'"
  shows "parse_default L var p = Inr (e_State_Var, var', p')"
proof -
  have "length vals = length vs" using assms(2) by (simp add: list_all2_conv_all_nth)
  then show ?thesis
    using assms default_store_text [OF assms(2)]
    by (auto simp: parse_default_def default_sem_def Let_def split: if_splits sum.splits option.splits)
qed

lemma next_pushed: "Parser_next L (Parser_push t p) = Inr (t, p)"
  by (simp add: Parser_next.simps Parser_push_def)

lemma attr_start:
  assumes "ps_state s = e_State_Var"
  shows "moves L ys (s\<lparr>ps_state := e_State_Default\<rparr>) s' \<Longrightarrow> moves L (keyword ''DEFAULT'' # punct 61 # ys) s s'"
    and "moves L ys (s\<lparr>ps_state := e_State_DefaultOption\<rparr>) s' \<Longrightarrow> moves L (keyword ''DEFAULTOPTION'' # punct 61 # ys) s s'"
    and "moves L ys (s\<lparr>ps_state := e_State_DisplayOption\<rparr>) s' \<Longrightarrow> moves L (keyword ''DISPLAYOPTION'' # punct 61 # ys) s s'"
proof -
  have two: "moves L (y # z # ys) s s'"
    if "\<And>tok p. tok_is y tok \<Longrightarrow> parse_step L tok (s\<lparr>ps_parser := p\<rparr>) = Inr (s\<lparr>ps_state := st, ps_parser := p\<rparr>)"
      "\<And>tok p. tok_is z tok \<Longrightarrow> parse_step L tok (s\<lparr>ps_state := st, ps_parser := p\<rparr>) = Inr (s\<lparr>ps_state := st', ps_parser := p\<rparr>)"
      "fst y \<notin> {e_TokError, e_TokEof}" "fst z \<notin> {e_TokError, e_TokEof}" "moves L ys (s\<lparr>ps_state := st'\<rparr>) s'" for y z st st'
    using that by (intro moves_step [where s' = "s\<lparr>ps_state := st\<rparr>"] moves_step [where s' = "s\<lparr>ps_state := st'\<rparr>"]) simp_all
  show "moves L ys (s\<lparr>ps_state := e_State_Default\<rparr>) s' \<Longrightarrow> moves L (keyword ''DEFAULT'' # punct 61 # ys) s s'"
    "moves L ys (s\<lparr>ps_state := e_State_DefaultOption\<rparr>) s' \<Longrightarrow> moves L (keyword ''DEFAULTOPTION'' # punct 61 # ys) s s'"
    "moves L ys (s\<lparr>ps_state := e_State_DisplayOption\<rparr>) s' \<Longrightarrow> moves L (keyword ''DISPLAYOPTION'' # punct 61 # ys) s s'"
    by (rule two [where st = e_State_Default_EQ] two [where st = e_State_DefaultOption_EQ] two [where st = e_State_DisplayOption_EQ];
        simp add: step_simps assms; fail)+
qed

lemma Default_moves:
  assumes "ps_state s = e_State_Var" and "attr_sem (ps_var s) (Default v) = Some var"
  shows "moves L (attr_syms (Default v)) s (s\<lparr>ps_var := var\<rparr>)"
proof -
  have v: "fst v \<in> {e_TokNumeric, e_TokIdent, e_TokQuoted}" "default_sem (ps_var s) [v] = Some var"
    using assms(2) by (auto split: if_splits)
  have "parse_step L tok (s\<lparr>ps_state := e_State_Default, ps_parser := p\<rparr>) = Inr (s\<lparr>ps_var := var, ps_parser := p\<rparr>)"
    if tok: "tok_is v tok" for tok p
  proof -
    have d: "default_tokens L e_State_Default [] (new_token 0) (Parser_push tok p) = Inr (True, e_State_Var, [tok], tok, p)"
      using tok v(1)
      by (auto simp: default_tokens.simps next_pushed final_token_def default_step_def tok_is_def)
    have "same_text tok (sym_token v)" using tok v(1) by (cases v) (auto simp: same_text_def sym_token_def tok_is_def)
    then have "parse_default L (ps_var s) (Parser_push tok p) = Inr (e_State_Var, var, p)"
      using parse_default_store [OF d _ v(2)] by simp
    then show ?thesis using tok v(1) assms(1) by (auto simp: step_simps default_from_def)
  qed
  then show ?thesis
    unfolding attr_syms.simps using v(1)
    by (intro attr_start(1) [OF assms(1)] moves_step [where s' = "s\<lparr>ps_var := var\<rparr>"]) (auto simp: assms(1))
qed

lemma list_moves:
  assumes "vs \<noteq> []" and "feeds L p (list_syms vs @ punct 41 # zs)"
  shows "\<exists>toks tok p'. default_tokens L e_State_LS_I vals t p = Inr (True, e_State_Var, vals @ toks, tok, p')
    \<and> list_all2 same_text toks (map (\<lambda>v. sym_token (e_TokNumeric, v)) vs) \<and> feeds L p' zs"
  using assms
proof (induction vs arbitrary: vals t p rule: list_syms.induct)
  case (2 v)
  then obtain t1 p1 t2 p2 where n: "Parser_next L p = Inr (t1, p1)" "tok_is (e_TokNumeric, v) t1"
    "Parser_next L p1 = Inr (t2, p2)" "tok_is (punct 41) t2" "feeds L p2 zs"
    by auto
  then have "default_tokens L e_State_LS_I vals t p = Inr (True, e_State_Var, vals @ [t1], t2, p2)"
    by (simp add: default_tokens.simps final_token_def default_step_def tok_is_def)
  then show ?case using n by (auto simp: same_text_def sym_token_def tok_is_def)
next
  case (3 v w vs)
  then obtain t1 p1 t2 p2 where n: "Parser_next L p = Inr (t1, p1)" "tok_is (e_TokNumeric, v) t1"
    "Parser_next L p1 = Inr (t2, p2)" "tok_is (punct 44) t2" "feeds L p2 (list_syms (w # vs) @ punct 41 # zs)"
    by auto
  then have d: "default_tokens L e_State_LS_I vals t p = default_tokens L e_State_LS_I (vals @ [t1]) t2 p2"
    by (simp add: default_tokens.simps [of L _ _ _ p] default_tokens.simps [of L _ _ _ p1] final_token_def default_step_def tok_is_def)
  obtain toks tok p' where ih: "default_tokens L e_State_LS_I (vals @ [t1]) t2 p2 = Inr (True, e_State_Var, (vals @ [t1]) @ toks, tok, p')"
    "list_all2 same_text toks (map (\<lambda>v. sym_token (e_TokNumeric, v)) (w # vs))" "feeds L p' zs"
    using "3.IH" [OF _ n(5)] by blast
  have "same_text t1 (sym_token (e_TokNumeric, v))" using n(2) by (simp add: same_text_def sym_token_def tok_is_def)
  then show ?case using d ih by (intro exI [of _ "t1 # toks"]) auto
qed simp

lemma DefaultList_moves:
  assumes "ps_state s = e_State_Var" and "attr_sem (ps_var s) (DefaultList vs) = Some var"
  shows "moves L (attr_syms (DefaultList vs)) s (s\<lparr>ps_var := var\<rparr>)"
proof -
  have v: "vs \<noteq> []" "default_sem (ps_var s) (map (\<lambda>v. (e_TokNumeric, v)) vs) = Some var"
    using assms(2) by (auto split: if_splits)
  have "\<exists>q. feeds L q zs \<and> parse_loop L (s\<lparr>ps_state := e_State_Default, ps_parser := p\<rparr>) = parse_loop L (s\<lparr>ps_var := var, ps_parser := q\<rparr>)"
    if fed: "feeds L p (punct 40 # list_syms vs @ punct 41 # zs)" for p zs
  proof -
    obtain tok p1 where n: "Parser_next L p = Inr (tok, p1)" "tok_is (punct 40) tok" "feeds L p1 (list_syms vs @ punct 41 # zs)"
      using fed by auto
    obtain toks tok' q where d: "default_tokens L e_State_LS_I [] tok p1 = Inr (True, e_State_Var, toks, tok', q)"
      "list_all2 same_text toks (map (\<lambda>v. sym_token (e_TokNumeric, v)) vs)" "feeds L q zs"
      using list_moves [OF v(1) n(3), of "[]" tok] by auto
    have "default_tokens L e_State_Default [] (new_token 0) (Parser_push tok p1) = default_tokens L e_State_LS_I [] tok p1"
      using n(2) by (simp add: default_tokens.simps [of L e_State_Default] next_pushed final_token_def default_step_def tok_is_def)
    then have "parse_default L (ps_var s) (Parser_push tok p1) = Inr (e_State_Var, var, q)"
      using d by (intro parse_default_store [OF _ _ v(2)]) (simp_all add: comp_def)
    then have loop: "parse_loop L (s\<lparr>ps_state := e_State_Default, ps_parser := p\<rparr>)
        = parse_loop L (s\<lparr>ps_state := e_State_Var, ps_var := var, ps_parser := q\<rparr>)"
      using n by (simp add: parse_loop.simps [of L "s\<lparr>ps_state := e_State_Default, ps_parser := p\<rparr>"]
          step_simps default_from_def final_token_def)
    have "s\<lparr>ps_state := e_State_Var, ps_var := var, ps_parser := q\<rparr> = s\<lparr>ps_var := var, ps_parser := q\<rparr>"
      using assms(1) by (cases s) simp
    then show ?thesis using loop d(3) by (intro exI [of _ q]) (rule conjI, assumption, rule trans [OF loop], rule arg_cong)
  qed
  then have "moves L (punct 40 # list_syms vs @ [punct 41]) (s\<lparr>ps_state := e_State_Default\<rparr>) (s\<lparr>ps_var := var\<rparr>)"
    by (simp add: moves_def)
  then show ?thesis using attr_start(1) [OF assms(1)] by simp
qed

lemma attr_moves:
  assumes "ps_state s = e_State_Var" and "attr_sem (ps_var s) a = Some var"
  shows "moves L (attr_syms a) s (s\<lparr>ps_var := var\<rparr>)"
proof (cases a)
  case (DefaultOption v)
  show ?thesis
    using assms unfolding DefaultOption attr_syms.simps
    by (intro attr_start(2) [OF assms(1)] moves_step [where s' = "s\<lparr>ps_var := var\<rparr>"]) (auto simp: step_simps)
next
  case (DisplayOption v)
  show ?thesis
    using assms unfolding DisplayOption attr_syms.simps
    by (intro attr_start(3) [OF assms(1)] moves_step [where s' = "s\<lparr>ps_var := var\<rparr>"]) (auto simp: step_simps)
qed (use assms Default_moves DefaultList_moves in blast)+

subsection \<open>Variables and descriptors\<close>

lemma fold_moves:
  assumes "\<And>x s r r'. I r s \<Longrightarrow> f r x = Some r' \<Longrightarrow> \<exists>s'. I r' s' \<and> moves L (g x) s s'"
    and "I r s" and "fold_sem f r xs = Some r'"
  shows "\<exists>s'. I r' s' \<and> moves L (concat (map g xs)) s s'"
  using assms(2,3)
proof (induction xs arbitrary: r s)
  case (Cons x xs)
  then obtain r1 where r1: "f r x = Some r1" "fold_sem f r1 xs = Some r'" by (auto split: option.splits)
  from assms(1) [OF Cons.prems(1) r1(1)] obtain s1 where s1: "I r1 s1" "moves L (g x) s s1" by blast
  from Cons.IH [OF s1(1) r1(2)] obtain s2 where "I r' s2" "moves L (concat (map g xs)) s1 s2" by blast
  then show ?case using moves_append [OF s1(2)] by auto
qed auto

text \<open>What the parser has read of a descriptor: the last variable may still be in its buffer.\<close>

definition holds :: "StateDescriptor list \<Rightarrow> StateDescriptor \<times> VarDescriptor \<Rightarrow> parse_vars \<Rightarrow> bool" where
  "holds ds = (\<lambda>(d, v) s. ps_descriptors s = ds \<and> ps_var s = v
     \<and> (ps_state s = e_State_Statedesc \<and> ps_desc s = d
        \<or> ps_state s = e_State_Var \<and> (ps_desc s)\<lparr>sd_vars := sd_vars (ps_desc s) @ [v]\<rparr> = d))"

lemma attrs_moves:
  assumes "ps_state s = e_State_Var" and "fold_sem attr_sem (ps_var s) as = Some var"
  shows "moves L (concat (map attr_syms as)) s (s\<lparr>ps_var := var\<rparr>)"
proof -
  let ?I = "\<lambda>v s'. ps_state s' = e_State_Var \<and> s' = s\<lparr>ps_var := v\<rparr>"
  have "\<exists>s'. ?I var s' \<and> moves L (concat (map attr_syms as)) s s'"
  proof (rule fold_moves [OF _ _ assms(2)])
    show "\<exists>s'. ?I r' s' \<and> moves L (attr_syms x) s1 s'" if "?I r s1" "attr_sem r x = Some r'" for x s1 r r'
      using that assms(1) attr_moves [of s1 x r' L] by (intro exI [of _ "s\<lparr>ps_var := r'\<rparr>"]) simp
    show "?I (ps_var s) s" using assms(1) by (cases s) simp
  qed
  then show ?thesis by auto
qed

lemma type_step:
  assumes "type_sem y = Some (type, name)" and "tok_is y tok" and "ps_state s = e_State_Var_TP" and "vr_typeName (ps_var s) = []"
  shows "parse_step L tok s = Inr (s\<lparr>ps_var := (ps_var s)\<lparr>vr_type := type, vr_typeName := name\<rparr>, ps_state := e_State_Var_ID\<rparr>)"
proof -
  obtain t n where y: "y = (t, n)" by (cases y)
  obtain ds d w st p where s: "s = \<lparr>ps_descriptors = ds, ps_desc = d, ps_var = w, ps_state = st, ps_parser = p\<rparr>"
    by (cases s)
  show ?thesis
    using assms unfolding y s by (cases t; cases w) (simp_all add: type_sem_def step_simps tok_vartype_def)
qed

lemma var_moves:
  assumes "holds ds (d, prev) s" and "var_sem prev x = Some v"
  shows "\<exists>s'. holds ds (d\<lparr>sd_vars := sd_vars d @ [v]\<rparr>, v) s' \<and> moves L (var_syms x) s s'"
proof -
  obtain type name where t: "type_sem (x_type x) = Some (type, name)"
    and v: "fold_sem attr_sem ((VarDescriptor_clear prev)\<lparr>vr_type := type, vr_typeName := name, vr_name := x_name x,
      vr_size := (case x_size x of None \<Rightarrow> - 1 | Some n \<Rightarrow> long_to_int (strtol n))\<rparr>) (x_attrs x) = Some v"
    using assms(2) by (auto simp: var_sem_def split: option.splits)
  let ?R = "\<lambda>v state. \<lparr>ps_descriptors = ds, ps_desc = d, ps_var = v, ps_state = state, ps_parser = ps_parser s\<rparr>"
  let ?v1 = "(VarDescriptor_clear prev)\<lparr>vr_type := type, vr_typeName := name\<rparr>"
  let ?v2 = "?v1\<lparr>vr_name := x_name x\<rparr>"
  let ?v3 = "?v2\<lparr>vr_size := (case x_size x of None \<Rightarrow> - 1 | Some n \<Rightarrow> long_to_int (strtol n))\<rparr>"
  have typed: "fst (x_type x) \<notin> {e_TokError, e_TokEof}"
    using t by (auto simp: type_sem_def tok_vartype_def split: prod.splits if_splits)
  have m1: "moves L [keyword ''VAR''] s (?R (VarDescriptor_clear prev) e_State_Var_TP)"
    using assms(1) by (cases s) (auto simp: holds_def step_simps push_var_def intro!: moves_one)
  have m2: "moves L [x_type x] (?R (VarDescriptor_clear prev) e_State_Var_TP) (?R ?v1 e_State_Var_ID)"
    using type_step [OF t] typed by (intro moves_one) (simp_all add: VarDescriptor_clear_def)
  have m3: "moves L [(e_TokIdent, x_name x)] (?R ?v1 e_State_Var_ID) (?R ?v2 e_State_Var_SZ)"
    by (intro moves_one) (simp_all add: step_simps)
  have m4: "moves L [punct 91] (?R ?v2 e_State_Var_SZ) (?R ?v2 e_State_SZ_N)"
    by (intro moves_one) (simp_all add: step_simps)
  have m5: "moves L ((case x_size x of None \<Rightarrow> [] | Some n \<Rightarrow> [(e_TokNumeric, n)]) @ [punct 93])
      (?R ?v2 e_State_SZ_N) (?R ?v3 e_State_Var)"
    by (cases "x_size x")
      (auto simp: step_simps intro!: moves_one moves_step [where s' = "?R ?v3 e_State_SZ_X"])
  have m6: "moves L (concat (map attr_syms (x_attrs x))) (?R ?v3 e_State_Var) (?R v e_State_Var)"
    using attrs_moves [of "?R ?v3 e_State_Var" "x_attrs x" v L] v by simp
  have "moves L (var_syms x) s (?R v e_State_Var)"
    using moves_append [OF m1 moves_append [OF m2 moves_append [OF m3 moves_append [OF m4 moves_append [OF m5 m6]]]]]
    by (simp add: var_syms_def)
  then show ?thesis by (intro exI [of _ "?R v e_State_Var"]) (simp add: holds_def)
qed

lemma item_moves:
  assumes "holds ds r s" and "item_sem r i = Some r'"
  shows "\<exists>s'. holds ds r' s' \<and> moves L (item_syms i) s s'"
proof (cases i)
  case (Version n)
  obtain d prev where r: "r = (d, prev)" by (cases r)
  let ?R = "\<lambda>d state. \<lparr>ps_descriptors = ds, ps_desc = d, ps_var = prev, ps_state = state, ps_parser = ps_parser s\<rparr>"
  have "moves L [keyword ''VERSION''] s (?R d e_State_Version_N)"
    using assms(1) r by (cases s) (auto simp: holds_def step_simps push_var_def intro!: moves_one)
  moreover have "moves L [(e_TokNumeric, n)] (?R d e_State_Version_N) (?R (d\<lparr>sd_version := long_to_int (strtol n)\<rparr>) e_State_Statedesc)"
    by (intro moves_one) (simp_all add: step_simps)
  ultimately have "moves L (item_syms i) s (?R (d\<lparr>sd_version := long_to_int (strtol n)\<rparr>) e_State_Statedesc)"
    using moves_append Version by fastforce
  then show ?thesis using assms(2) r Version by (intro exI) (auto simp: holds_def)
next
  case (Var x)
  then show ?thesis using assms var_moves [of ds "fst r" "snd r" s x] by (cases r) auto
qed

definition between :: "StateDescriptor list \<times> VarDescriptor \<Rightarrow> parse_vars \<Rightarrow> bool" where
  "between = (\<lambda>(ds, v) s. ps_descriptors s = ds \<and> ps_var s = v \<and> ps_state s = e_State_File)"

lemma desc_moves:
  assumes "between r s" and "desc_sem r y = Some r'"
  shows "\<exists>s'. between r' s' \<and> moves L (desc_syms y) s s'"
proof -
  obtain ds prev name items where r: "r = (ds, prev)" "y = (name, items)" by (cases r; cases y)
  obtain d v where d: "fold_sem item_sem (StateDescriptor_new\<lparr>sd_name := name\<rparr>, prev) items = Some (d, v)"
    "r' = (ds @ [index_vars d], v)"
    using assms(2) r by (auto simp: desc_sem_def)
  let ?R = "\<lambda>d state. \<lparr>ps_descriptors = ds, ps_desc = d, ps_var = prev, ps_state = state, ps_parser = ps_parser s\<rparr>"
  let ?d = "StateDescriptor_new\<lparr>sd_name := name\<rparr>"
  have m1: "moves L [keyword ''STATEDESC''] s (?R StateDescriptor_new e_State_Statedesc_ID)"
    using assms(1) r by (cases s) (auto simp: between_def step_simps StateDescriptor_clear_def StateDescriptor_new_def intro!: moves_one)
  have m2: "moves L [(e_TokIdent, name)] (?R StateDescriptor_new e_State_Statedesc_ID) (?R ?d e_State_Statedesc_BR)"
    by (intro moves_one) (simp_all add: step_simps)
  have m3: "moves L [punct 123] (?R ?d e_State_Statedesc_BR) (?R ?d e_State_Statedesc)"
    by (intro moves_one) (simp_all add: step_simps)
  have "holds ds (?d, prev) (?R ?d e_State_Statedesc)" by (simp add: holds_def)
  then have "\<exists>s1. holds ds (d, v) s1 \<and> moves L (concat (map item_syms items)) (?R ?d e_State_Statedesc) s1"
    by (rule fold_moves [OF _ _ d(1), rotated]) (rule item_moves)
  then obtain s1 where s1: "holds ds (d, v) s1" "moves L (concat (map item_syms items)) (?R ?d e_State_Statedesc) s1" by blast
  have m4: "moves L [punct 125] s1 (close_desc s1)"
    using s1(1) by (intro moves_one) (auto simp: step_simps holds_def close_desc_def push_var_def)
  have "moves L (desc_syms y) s (close_desc s1)"
    using moves_append [OF m1 moves_append [OF m2 moves_append [OF m3 moves_append [OF s1(2) m4]]]]
    by (simp add: desc_syms_def r(2))
  moreover have "between r' (close_desc s1)"
    using s1(1) d(2) by (auto simp: holds_def between_def close_desc_def push_var_def Let_def)
  ultimately show ?thesis by blast
qed

lemma file_moves:
  assumes "file_sem file = Some ds" and "feeds L p (concat (map desc_syms file))"
  shows "Parser_parse L p = Inr ds"
proof -
  obtain es v where r: "fold_sem desc_sem ([], VarDescriptor_new) file = Some (es, v)" "ds = filter (\<lambda>d. 0 \<le> sd_version d) es"
    using assms(1) by (auto simp: file_sem_def)
  have "between ([], VarDescriptor_new) (parse_start p)" by (simp add: between_def parse_start_def)
  then have "\<exists>s. between (es, v) s \<and> moves L (concat (map desc_syms file)) (parse_start p) s"
    by (rule fold_moves [OF _ _ r(1), rotated]) (rule desc_moves)
  then obtain s where s: "between (es, v) s" "moves L (concat (map desc_syms file)) (parse_start p) s" by blast
  obtain p' where p': "feeds L p' []" "parse_loop L ((parse_start p)\<lparr>ps_parser := p\<rparr>) = parse_loop L (s\<lparr>ps_parser := p'\<rparr>)"
    using s(2) assms(2) unfolding moves_def by (metis append_Nil2)
  have "parse_loop L (s\<lparr>ps_parser := p'\<rparr>) = Inr es"
    using p'(1) s(1) by (auto simp: parse_loop.simps [of L "s\<lparr>ps_parser := p'\<rparr>"] between_def)
  then have "parse_loop L (parse_start p) = Inr es" using p'(2) by (simp add: parse_start_def)
  then show ?thesis by (simp add: Parser_parse_def r(2) linorder_not_less)
qed

end
