(* ===== verification/Sdl_Text.thy ===== *)
theory Sdl_Text
  imports Sdl_Grammar
begin

text \<open>
  Descriptor files as text, one symbol a line: the scanner and the parser together implement the grammar.
\<close>

section \<open>Text\<close>

fun sym_text :: "symbol \<Rightarrow> bytes" where
  "sym_text (Tok_char c, v) = [c]"
| "sym_text (e_TokQuoted, v) = 34 # v @ [34]"
| "sym_text (e_TokTypename, v) = 36 # v"
| "sym_text (t, v) = v"

definition word_ok :: "TokenType \<Rightarrow> bytes \<Rightarrow> bool" where
  "word_ok t v \<longleftrightarrow> v \<noteq> [] \<and> (is_letter (hd v) \<or> hd v = 95 \<or> hd v = 45) \<and> \<not> starts_number (hd v) (tl v)
     \<and> list_all in_name (tl v) \<and> str_to_toktype v = t"

fun shape_ok :: "symbol \<Rightarrow> bool" where
  "shape_ok (Tok_char c, v) \<longleftrightarrow> is_punct c"
| "shape_ok (e_TokQuoted, v) \<longleftrightarrow> list_all (\<lambda>c. c \<noteq> 34 \<and> c \<noteq> 10 \<and> c \<noteq> 0) v"
| "shape_ok (e_TokTypename, v) \<longleftrightarrow> list_all in_typename v"
| "shape_ok (e_TokNumeric, v) \<longleftrightarrow> v \<noteq> [] \<and> starts_number (hd v) (tl v) \<and> list_all in_number (tl v)"
| "shape_ok (e_TokEof, v) \<longleftrightarrow> False"
| "shape_ok (e_TokError, v) \<longleftrightarrow> False"
| "shape_ok (t, v) \<longleftrightarrow> word_ok t v"

definition sym_ok :: "ext_lib \<Rightarrow> symbol \<Rightarrow> bool" where
  "sym_ok L y \<longleftrightarrow> int (length (snd y)) < 4000 \<and> from_latin_1 L (snd y) = snd y \<and> shape_ok y"

lemma span_line:
  assumes "list_all P cs" and "\<not> P x"
  shows "takeWhile P (cs @ x # ds) = cs" "dropWhile P (cs @ x # ds) = x # ds"
  using assms by (induction cs) auto

lemma newline_ends: "\<not> in_name 10" "\<not> in_typename 10" "\<not> in_number 10" "is_blank 10" "\<not> is_digit 10"
  by (simp_all add: in_name_def in_typename_def in_number_def is_blank_def is_letter_def is_digit_def)

lemma scan_newline [simp]: "scan L tokbuf [10] = Inr []"
  by (simp add: scan.simps newline_ends)

lemma starts_number_line: "starts_number c (cs @ [10]) = starts_number c cs"
  by (cases cs) (auto simp: starts_number_def newline_ends)

lemma scan_word:
  assumes "word_ok t v" and "from_latin_1 L v = v"
  shows "scan L tokbuf (v @ [10]) = Inr [tokbuf\<lparr>tk_type := t, tk_value := v\<rparr>]"
proof -
  obtain c cs where v: "v = c # cs" using assms(1) by (cases v) (auto simp: word_ok_def)
  have c: "is_letter c \<or> c = 95 \<or> c = 45" "\<not> starts_number c cs" "list_all in_name cs" "str_to_toktype v = t"
    using assms(1) v by (simp_all add: word_ok_def)
  have "c \<noteq> 35 \<and> \<not> is_blank c" using c(1) by (auto simp: is_letter_def is_blank_def)
  then show ?thesis
    using c assms(2) span_line [OF c(3) newline_ends(1), of "[]"]
    by (auto simp: v scan.simps(2) [of L tokbuf c] Let_def starts_number_line tcons_def)
qed

lemma scan_symbol:
  assumes "sym_ok L y"
  shows "\<exists>tok. scan L tokbuf (sym_text y @ [10]) = Inr [tok] \<and> tok_is y tok"
proof -
  obtain t v where y: "y = (t, v)" by (cases y)
  have lib: "from_latin_1 L v = v" and ok: "shape_ok (t, v)" using assms by (simp_all add: sym_ok_def y)
  have word: ?thesis if "word_ok t v" "sym_text y = v"
    using scan_word [OF that(1) lib, of tokbuf] that(2) by (simp add: y tok_is_def)
  show ?thesis
  proof (cases t)
    case (Tok_char c)
    then have p: "is_punct c" using ok by simp
    then have "c \<noteq> 35 \<and> \<not> is_blank c \<and> c \<noteq> 36 \<and> c \<noteq> 95 \<and> c \<noteq> 45" by (auto simp: is_punct_def is_blank_def)
    moreover have "\<not> is_letter c" "\<not> is_digit c" using p by (auto simp: is_punct_def is_letter_def is_digit_def)
    ultimately show ?thesis
      using p unfolding y Tok_char by (simp add: scan.simps(2) [of L tokbuf c] Let_def starts_number_def tcons_def tok_is_def)
  next
    case e_TokQuoted
    have "list_all (\<lambda>d. d \<noteq> 34) v" using ok e_TokQuoted by (auto simp: list_all_iff)
    from span_line [OF this, of 34 "[10]"] show ?thesis
      using lib unfolding y e_TokQuoted
      by (simp add: scan.simps(2) [of L tokbuf 34] Let_def starts_number_def is_digit_def is_blank_def is_letter_def is_punct_def tcons_def tok_is_def)
  next
    case e_TokTypename
    then have "list_all in_typename v" using ok by simp
    from span_line [OF this newline_ends(2), of "[]"] show ?thesis
      using lib unfolding y e_TokTypename
      by (simp add: scan.simps(2) [of L tokbuf 36] Let_def starts_number_def is_digit_def is_blank_def is_letter_def tcons_def tok_is_def)
  next
    case e_TokNumeric
    then obtain c cs where v: "v = c # cs" "starts_number c cs" "list_all in_number cs" using ok by (cases v) auto
    have "c \<noteq> 35 \<and> \<not> is_blank c" using v(2) by (auto simp: starts_number_def is_digit_def is_blank_def)
    then show ?thesis
      using lib v span_line [OF v(3) newline_ends(3), of "[]"] unfolding y e_TokNumeric
      by (simp add: scan.simps(2) [of L tokbuf c] Let_def starts_number_line tcons_def tok_is_def)
  qed (use ok word y in simp_all)
qed

lemma text_bytes:
  assumes "sym_ok L y"
  shows "10 \<notin> set (sym_text y)" and "0 \<notin> set (sym_text y)" and "length (sym_text y) < 4010"
proof -
  obtain t v where y: "y = (t, v)" by (cases y)
  have name: "in_name c \<Longrightarrow> c \<noteq> 10 \<and> c \<noteq> 0" "in_typename c \<Longrightarrow> c \<noteq> 10 \<and> c \<noteq> 0" "in_number c \<Longrightarrow> c \<noteq> 10 \<and> c \<noteq> 0"
    "is_digit c \<Longrightarrow> c \<noteq> 10 \<and> c \<noteq> 0" "is_letter c \<Longrightarrow> c \<noteq> 10 \<and> c \<noteq> 0" "is_punct c \<Longrightarrow> c \<noteq> 10 \<and> c \<noteq> 0" for c
    by (auto simp: in_name_def in_typename_def in_number_def is_letter_def is_digit_def is_punct_def)
  have word: "10 \<notin> set v \<and> 0 \<notin> set v" if "word_ok t v"
    using that name(1,5) by (cases v) (fastforce simp: word_ok_def list_all_iff)+
  have number: "10 \<notin> set v \<and> 0 \<notin> set v" if "shape_ok (e_TokNumeric, v)"
    using that name(3,4) by (cases v) (fastforce simp: starts_number_def list_all_iff)+
  have "10 \<notin> set (sym_text y) \<and> 0 \<notin> set (sym_text y)"
    using assms word number name(2,6) unfolding sym_ok_def y by (cases t) (fastforce simp: list_all_iff)+
  then show "10 \<notin> set (sym_text y)" "0 \<notin> set (sym_text y)" by simp_all
  show "length (sym_text y) < 4010" using assms unfolding sym_ok_def y by (cases t) auto
qed

lemma readLine_line:
  "10 \<notin> set xs \<Longrightarrow> length xs < n \<Longrightarrow> readLine_loop n (xs @ 10 # rest) = (xs @ [10], rest)"
proof (induction xs arbitrary: n)
  case Nil
  then show ?case by (cases n) auto
next
  case (Cons x xs)
  then show ?case by (cases n) auto
qed

lemma next_symbol:
  assumes "sym_ok L y"
  shows "\<exists>tok. Parser_next L \<lparr>p_file = sym_text y @ 10 # rest, p_lineno = n, p_buffer = []\<rparr>
    = Inr (tok, \<lparr>p_file = rest, p_lineno = n + 1, p_buffer = []\<rparr>) \<and> tok_is y tok"
proof -
  obtain tok where tok: "scan L (new_token (n + 1)) (sym_text y @ [10]) = Inr [tok]" "tok_is y tok"
    using scan_symbol [OF assms] by blast
  have "Stream_readLine 4096 (sym_text y @ 10 # rest) = Inr ((True, sym_text y @ [10]), rest)"
    using readLine_line text_bytes [OF assms] by (simp add: Stream_readLine_def)
  moreover have "c_line (sym_text y @ [10]) = sym_text y @ [10]"
    using text_bytes(2) [OF assms] by (auto simp: c_line_def takeWhile_eq_all_conv)
  ultimately show ?thesis
    using tok by (intro exI [of _ tok]) (simp add: Parser_next.simps)
qed

definition symbols_text :: "symbol list \<Rightarrow> bytes" where
  "symbols_text ys = concat (map (\<lambda>y. sym_text y @ [10]) ys)"

lemma feeds_text:
  "list_all (sym_ok L) ys \<Longrightarrow> feeds L \<lparr>p_file = symbols_text ys, p_lineno = n, p_buffer = []\<rparr> ys"
proof (induction ys arbitrary: n)
  case Nil
  then show ?case by (simp add: symbols_text_def Parser_next.simps Stream_readLine_def final_token_def new_token_def eval_nat_numeral)
next
  case (Cons y ys)
  then show ?case using next_symbol [of L y "symbols_text ys" n] by (auto simp: symbols_text_def)
qed

text \<open>
  C10: the parser implements the grammar. For every file of state descriptors that the grammar
  derives, written one symbol a line, whose symbols have the form the scanner expects and whose defaults fit
  the types of their variables, the parser returns exactly the descriptors that the file means: names,
  versions, variables with their types, sizes, defaults and options in order, indexed by name.
\<close>

theorem parser_implements_grammar:
  assumes "file_sem file = Some ds" and "list_all (sym_ok L) (concat (map desc_syms file))"
  shows "Parser_parse L \<lparr>p_file = symbols_text (concat (map desc_syms file)), p_lineno = 0, p_buffer = []\<rparr> = Inr ds"
  using file_moves [OF assms(1) feeds_text [OF assms(2)]] .

definition sample_file :: "desc_syntax list" where
  "sample_file =
     [(ascii ''Age'', [Version (ascii ''3''),
        Var \<lparr>x_type = keyword ''INT'', x_name = ascii ''a'', x_size = Some (ascii ''1''),
             x_attrs = [Default (e_TokNumeric, ascii ''-5''), DefaultOption (ascii ''VAULT'')]\<rparr>,
        Var \<lparr>x_type = keyword ''RGB8'', x_name = ascii ''p'', x_size = Some (ascii ''2''),
             x_attrs = [DefaultList [ascii ''1'', ascii ''010'', ascii ''255'']]\<rparr>,
        Var \<lparr>x_type = (e_TokTypename, ascii ''Sub''), x_name = ascii ''kids'', x_size = None, x_attrs = []\<rparr>]),
      (ascii ''Sub'', [Version (ascii ''1'')])]"

theorem parser_implements_grammar_witness:
  "\<exists>ds. file_sem sample_file = Some ds
    \<and> Parser_parse ascii_lib \<lparr>p_file = symbols_text (concat (map desc_syms sample_file)), p_lineno = 0, p_buffer = []\<rparr> = Inr ds"
proof -
  have "file_sem sample_file \<noteq> None" by code_simp
  then obtain ds where "file_sem sample_file = Some ds" by blast
  moreover have "list_all (sym_ok ascii_lib) (concat (map desc_syms sample_file))" by code_simp
  ultimately show ?thesis using parser_implements_grammar [of sample_file ds ascii_lib] by blast
qed

end
