(* ===== verification/Actions.thy ===== *)
theory Actions
  imports Prelude
begin

text \<open>
  The servers are threads that change shared objects, wait for each other and throw. An action maps the
  shared state to a result and the changed state; what it changed before it threw stays changed. A
  \<open>frame\<close> is a relation between the state before and after that every action of some set respects: its
  rules follow the combinators, and each component interprets it for what its handlers leave alone.
\<close>

section \<open>Actions\<close>

text \<open>
  An action ends in a value or in an error: what was thrown, \<open>std::length_error\<close> of \<open>vector::reserve\<close>, or a
  wait for a mutex that is never released.
\<close>

datatype act_error = Thrown ds_error | Length_error | Blocked

text \<open>What a \<open>catch (const std::exception&)\<close> catches.\<close>

fun ds_exception :: "ds_error \<Rightarrow> bool" where
  "ds_exception AssertionFailure = False"
| "ds_exception UndefinedBehaviour = False"
| "ds_exception NoFuel = False"
| "ds_exception _ = True"

fun std_exception :: "act_error \<Rightarrow> bool" where
  "std_exception (Thrown e) = ds_exception e"
| "std_exception Length_error = True"
| "std_exception Blocked = False"

type_synonym ('s, 'a) act = "'s \<Rightarrow> (act_error + 'a) \<times> 's"

definition aret :: "'a \<Rightarrow> ('s, 'a) act" where
  "aret x s = (Inr x, s)"

definition afail :: "act_error \<Rightarrow> ('s, 'a) act" where
  "afail e s = (Inl e, s)"

definition abind :: "('s, 'a) act \<Rightarrow> ('a \<Rightarrow> ('s, 'b) act) \<Rightarrow> ('s, 'b) act" where
  "abind a f s = (case a s of (Inl e, s') \<Rightarrow> (Inl e, s') | (Inr x, s') \<Rightarrow> f x s')"

definition athen :: "('s, unit) act \<Rightarrow> ('s, 'b) act \<Rightarrow> ('s, 'b) act" where
  "athen a b = abind a (\<lambda>_. b)"

definition alift :: "ds_error + 'a \<Rightarrow> ('s, 'a) act" where
  "alift r = (case r of Inl e \<Rightarrow> afail (Thrown e) | Inr x \<Rightarrow> aret x)"

definition aget :: "('s \<Rightarrow> 'a) \<Rightarrow> ('s, 'a) act" where
  "aget f s = (Inr (f s), s)"

definition amod :: "('s \<Rightarrow> 's) \<Rightarrow> ('s, unit) act" where
  "amod f s = (Inr (), f s)"

fun aseq :: "('s, unit) act list \<Rightarrow> ('s, unit) act" where
  "aseq [] = aret ()"
| "aseq (a # as) = athen a (aseq as)"

definition awhen :: "bool \<Rightarrow> ('s, unit) act \<Rightarrow> ('s, unit) act" where
  "awhen b a = (if b then a else aret ())"

text \<open>\<open>try { a } catch (...) { b }\<close> for the exceptions that satisfy \<open>P\<close>; \<open>a\<close> may be left in the middle.\<close>

definition acatch_if :: "(act_error \<Rightarrow> bool) \<Rightarrow> ('s, 'a) act \<Rightarrow> ('s, 'a) act \<Rightarrow> ('s, 'a) act" where
  "acatch_if P a b s =
     (case a s of
        (Inl e, s') \<Rightarrow> if P e then b s' else (Inl e, s')
      | (Inr x, s') \<Rightarrow> (Inr x, s'))"

definition acatch :: "('s, 'a) act \<Rightarrow> ('s, 'a) act \<Rightarrow> ('s, 'a) act" where
  "acatch = acatch_if std_exception"

named_theorems act_simps

lemma act_steps [act_simps]:
  "aret x s = (Inr x, s)" "afail e s = (Inl e, s)" "aget f s = (Inr (f s), s)" "amod g s = (Inr (), g s)"
  by (simp_all add: aret_def afail_def aget_def amod_def)

lemma abind_return [act_simps]: "a s = (Inr x, s') \<Longrightarrow> abind a f s = f x s'"
  by (simp add: abind_def)

lemma abind_throw [act_simps]: "a s = (Inl e, s') \<Longrightarrow> abind a f s = (Inl e, s')"
  by (simp add: abind_def)

lemma athen_return [act_simps]: "a s = (Inr x, s') \<Longrightarrow> athen a b s = b s'"
  by (simp add: athen_def abind_def)

lemma athen_throw [act_simps]: "a s = (Inl e, s') \<Longrightarrow> athen a b s = (Inl e, s')"
  by (simp add: athen_def abind_def)

lemma alift_cases [act_simps]: "alift (Inr x) = aret x" "alift (Inl e) = afail (Thrown e)"
  by (simp_all add: alift_def)

lemma awhen_cases [act_simps]: "awhen True a = a" "awhen False a = aret ()"
  by (simp_all add: awhen_def)

lemma aseq_append: "aseq (as @ bs) = athen (aseq as) (aseq bs)"
proof (induction as)
  case (Cons a as)
  show ?case
    by (rule ext) (simp add: Cons.IH athen_def abind_def split: prod.split sum.split)
qed (simp add: fun_eq_iff athen_def abind_def aret_def)

lemma abind_assoc: "abind (abind a f) g = abind a (\<lambda>x. abind (f x) g)"
  by (rule ext) (simp add: abind_def split: prod.split sum.split)

lemma abind_aret: "abind (aret x) f = f x"
  by (rule ext) (simp add: act_simps)

section \<open>Frames\<close>

locale frame =
  fixes R :: "'s \<Rightarrow> 's \<Rightarrow> bool"
  assumes R_refl: "R s s" and R_trans: "R s s' \<Longrightarrow> R s' s'' \<Longrightarrow> R s s''"
begin

definition keeps :: "('s, 'a) act \<Rightarrow> bool" where
  "keeps a \<longleftrightarrow> (\<forall>s. R s (snd (a s)))"

lemma keepsD: "keeps a \<Longrightarrow> R s (snd (a s))"
  by (simp add: keeps_def)

lemma keeps_aret: "keeps (aret x)"
  by (simp add: keeps_def aret_def R_refl)

lemma keeps_afail: "keeps (afail e)"
  by (simp add: keeps_def afail_def R_refl)

lemma keeps_aget: "keeps (aget f)"
  by (simp add: keeps_def aget_def R_refl)

lemma keeps_alift: "keeps (alift r)"
  by (cases r) (simp_all add: alift_def keeps_aret keeps_afail)

lemma keeps_amod: "(\<And>s. R s (f s)) \<Longrightarrow> keeps (amod f)"
  by (simp add: keeps_def amod_def)

lemma keeps_abind: "keeps a \<Longrightarrow> (\<And>x. keeps (f x)) \<Longrightarrow> keeps (abind a f)"
  unfolding keeps_def abind_def by (auto split: prod.split sum.split) (metis R_trans snd_conv)+

lemma keeps_athen: "keeps a \<Longrightarrow> keeps b \<Longrightarrow> keeps (athen a b)"
  unfolding athen_def by (rule keeps_abind)

lemma keeps_awhen: "(b \<Longrightarrow> keeps a) \<Longrightarrow> keeps (awhen b a)"
  by (simp add: awhen_def keeps_aret)

lemma keeps_if: "(b \<Longrightarrow> keeps a) \<Longrightarrow> (\<not> b \<Longrightarrow> keeps a') \<Longrightarrow> keeps (if b then a else a')"
  by simp

lemma keeps_option: "keeps a \<Longrightarrow> (\<And>x. keeps (f x)) \<Longrightarrow> keeps (case v of None \<Rightarrow> a | Some x \<Rightarrow> f x)"
  by (simp split: option.split)

lemma keeps_sum: "(\<And>x. keeps (f x)) \<Longrightarrow> (\<And>x. keeps (g x)) \<Longrightarrow> keeps (case v of Inl x \<Rightarrow> f x | Inr x \<Rightarrow> g x)"
  by (simp split: sum.split)

lemma keeps_prod: "(\<And>x y. keeps (f x y)) \<Longrightarrow> keeps (case v of (x, y) \<Rightarrow> f x y)"
  by (simp split: prod.split)

lemma keeps_let: "keeps (f v) \<Longrightarrow> keeps (let x = v in f x)"
  by simp

lemma keeps_aseq: "(\<And>a. a \<in> set as \<Longrightarrow> keeps a) \<Longrightarrow> keeps (aseq as)"
  by (induction as) (simp_all add: keeps_aret keeps_athen)

lemma keeps_aseq_map: "(\<And>x. x \<in> set xs \<Longrightarrow> keeps (f x)) \<Longrightarrow> keeps (aseq (map f xs))"
  by (rule keeps_aseq) auto

lemma keeps_acatch_if: "keeps a \<Longrightarrow> keeps b \<Longrightarrow> keeps (acatch_if P a b)"
  unfolding keeps_def acatch_if_def by (auto split: prod.split sum.split) (metis R_trans snd_conv)+

lemma keeps_acatch: "keeps a \<Longrightarrow> keeps b \<Longrightarrow> keeps (acatch a b)"
  unfolding acatch_def by (rule keeps_acatch_if)

lemmas keeps_intros = keeps_aret keeps_afail keeps_aget keeps_alift keeps_abind keeps_athen keeps_awhen keeps_if
  keeps_option keeps_sum keeps_prod keeps_let keeps_aseq_map keeps_acatch_if keeps_acatch

end

text \<open>
  A frame that promises something only of states that satisfy an invariant: what is read from the state may
  then be assumed to satisfy it too.
\<close>

locale guarded_frame = frame +
  fixes I :: "'a \<Rightarrow> bool"
  assumes unguarded: "\<not> I s \<Longrightarrow> R s s'"
begin

lemma keeps_get:
  assumes "\<And>s. I s \<Longrightarrow> keeps (g (f s))"
  shows "keeps (abind (aget f) g)"
proof -
  have "R s (snd (abind (aget f) g s))" for s
    using assms [of s] unguarded [of s] by (cases "I s") (simp_all add: keeps_def abind_def aget_def)
  then show ?thesis by (simp add: keeps_def)
qed

end

end
