(* ===== verification/Game_Host.thy ===== *)
theory Game_Host
  imports Net_Safety Sdl_State Actions "HOL-Library.AList"
begin

unbundle bit_operations_syntax

text \<open>
  The game host of an age, \<open>GameServ/GameHost.cpp\<close>: one thread that takes the messages of its clients and
  of the vault from a channel and answers them. Clients and hosts are objects that several threads
  point to, so they live in a heap; the channels are queues. What the handlers throw is a value, and what
  they changed before throwing stays changed.
\<close>

section \<open>Parts of messages\<close>

text \<open>The \<open>Message\<close> part of a message of any class.\<close>

fun plain_message :: "(Message \<Rightarrow> Message) \<Rightarrow> plain \<Rightarrow> plain" where
  "plain_message f (C_InputEventMsg m) = C_InputEventMsg (m\<lparr>ie_base := f (ie_base m)\<rparr>)"
| "plain_message f (C_ControlEventMsg m) =
     C_ControlEventMsg (m\<lparr>ce_base := (ce_base m)\<lparr>ie_base := f (ie_base (ce_base m))\<rparr>\<rparr>)"
| "plain_message f (C_EnableMsg m) = C_EnableMsg (m\<lparr>en_base := f (en_base m)\<rparr>)"
| "plain_message f (C_WarpMsg m) = C_WarpMsg (m\<lparr>wm_base := f (wm_base m)\<rparr>)"
| "plain_message f (C_ServerReplyMsg m) = C_ServerReplyMsg (m\<lparr>sr_base := f (sr_base m)\<rparr>)"
| "plain_message f (C_AvTaskSeekDoneMsg m) = C_AvTaskSeekDoneMsg (m\<lparr>atsd_base := f (atsd_base m)\<rparr>)"
| "plain_message f (C_LinkToAgeMsg m) = C_LinkToAgeMsg (m\<lparr>lta_base := f (lta_base m)\<rparr>)"
| "plain_message f (C_NotifyMsg m) = C_NotifyMsg (m\<lparr>nm_base := f (nm_base m)\<rparr>)"
| "plain_message f (C_LinkEffectsTriggerMsg m) = C_LinkEffectsTriggerMsg (m\<lparr>let_base := f (let_base m)\<rparr>)"
| "plain_message f (C_ParticleTransferMsg m) = C_ParticleTransferMsg (m\<lparr>pt_base := f (pt_base m)\<rparr>)"
| "plain_message f (C_ParticleKillMsg m) = C_ParticleKillMsg (m\<lparr>pk_base := f (pk_base m)\<rparr>)"
| "plain_message f (C_AvatarInputStateMsg m) = C_AvatarInputStateMsg (m\<lparr>ais_base := f (ais_base m)\<rparr>)"
| "plain_message f (C_ClothingMsg m) = C_ClothingMsg (m\<lparr>clo_base := f (clo_base m)\<rparr>)"
| "plain_message f (C_InputIfaceMgrMsg m) = C_InputIfaceMgrMsg (m\<lparr>iim_base := f (iim_base m)\<rparr>)"
| "plain_message f (C_KIMessage m) = C_KIMessage (m\<lparr>ki_base := f (ki_base m)\<rparr>)"
| "plain_message f (C_AvBrainGenericMsg m) = C_AvBrainGenericMsg (m\<lparr>abg_base := f (abg_base m)\<rparr>)"
| "plain_message f (C_MultistageModMsg m) = C_MultistageModMsg (m\<lparr>mm_base := f (mm_base m)\<rparr>)"
| "plain_message f (C_BulletMsg m) = C_BulletMsg (m\<lparr>bul_base := f (bul_base m)\<rparr>)"
| "plain_message f (C_SubWorldMsg m) = C_SubWorldMsg (m\<lparr>sw_base := f (sw_base m)\<rparr>)"
| "plain_message f (C_ClimbMsg m) = C_ClimbMsg (m\<lparr>cli_base := f (cli_base m)\<rparr>)"
| "plain_message f (C_SetNetGroupIdMsg m) = C_SetNetGroupIdMsg (m\<lparr>sng_base := f (sng_base m)\<rparr>)"
| "plain_message f (C_BackdoorMsg m) = C_BackdoorMsg (m\<lparr>bd_base := f (bd_base m)\<rparr>)"
| "plain_message f (C_PseudoLinkEffectMsg m) = C_PseudoLinkEffectMsg (m\<lparr>ple_base := f (ple_base m)\<rparr>)"
| "plain_message f x = x"

fun task_message :: "(Message \<Rightarrow> Message) \<Rightarrow> 'c AvTaskMsg \<Rightarrow> 'c AvTaskMsg" where
  "task_message f (AvTaskMsg base task) = AvTaskMsg (f base) task"

fun seek_message :: "(Message \<Rightarrow> Message) \<Rightarrow> 'c AvSeekMsg \<Rightarrow> 'c AvSeekMsg" where
  "seek_message f (AvSeekMsg base members) = AvSeekMsg (task_message f base) members"

fun clone_message :: "(Message \<Rightarrow> Message) \<Rightarrow> 'c LoadCloneMsg \<Rightarrow> 'c LoadCloneMsg" where
  "clone_message f (LoadCloneMsg base members trigger) = LoadCloneMsg (f base) members trigger"

fun callbacks_message :: "(Message \<Rightarrow> Message) \<Rightarrow> 'c MessageWithCallbacks \<Rightarrow> 'c MessageWithCallbacks" where
  "callbacks_message f (MessageWithCallbacks base callbacks) = MessageWithCallbacks (f base) callbacks"

fun node_message :: "(Message \<Rightarrow> Message) \<Rightarrow> 'c node \<Rightarrow> 'c node" where
  "node_message f (N_plain x) = N_plain (plain_message f x)"
| "node_message f (N_AnimCmdMsg (AnimCmdMsg base members)) = N_AnimCmdMsg (AnimCmdMsg (callbacks_message f base) members)"
| "node_message f (N_LoadCloneMsg m) = N_LoadCloneMsg (clone_message f m)"
| "node_message f (N_MessageWithCallbacks m) = N_MessageWithCallbacks (callbacks_message f m)"
| "node_message f (N_AvTaskMsg m) = N_AvTaskMsg (task_message f m)"
| "node_message f (N_AvSeekMsg m) = N_AvSeekMsg (seek_message f m)"
| "node_message f (N_AvOneShotMsg (AvOneShotMsg base members)) = N_AvOneShotMsg (AvOneShotMsg (seek_message f base) members)"
| "node_message f (N_LinkingMgrMsg (LinkingMgrMsg base flags cmd args)) = N_LinkingMgrMsg (LinkingMgrMsg (f base) flags cmd args)"
| "node_message f (N_AvPushBrainMsg (AvPushBrainMsg base brain)) = N_AvPushBrainMsg (AvPushBrainMsg (task_message f base) brain)"
| "node_message f (N_AvPopBrainMsg m) = N_AvPopBrainMsg (task_message f m)"
| "node_message f (N_LoadAvatarMsg (LoadAvatarMsg base isPlayer spawn task str)) =
     N_LoadAvatarMsg (LoadAvatarMsg (clone_message f base) isPlayer spawn task str)"
| "node_message f (N_AvCoopMsg (AvCoopMsg base coordinator members)) = N_AvCoopMsg (AvCoopMsg (f base) coordinator members)"
| "node_message f n = n"

text \<open>\<open>m_bcastFlags |= flags\<close>.\<close>

definition add_bcastFlags :: "u32 \<Rightarrow> creatable \<Rightarrow> creatable" where
  "add_bcastFlags flags c = Creatable (node_message (\<lambda>m. m\<lparr>ms_bcastFlags := ms_bcastFlags m OR flags\<rparr>) (node_of c))"

text \<open>The \<open>NetMessage\<close> part of a network message; \<open>None\<close> for an object of another class.\<close>

fun plain_net :: "plain \<Rightarrow> NetMessage option" where
  "plain_net (C_NetMsgPagingRoom m) = Some (rl_base (pr_base m))"
| "plain_net (C_NetMsgGroupOwner m) = Some (go_base m)"
| "plain_net (C_NetMsgGameStateRequest m) = Some (rl_base m)"
| "plain_net (C_NetMsgVoice m) = Some (vo_base m)"
| "plain_net (C_NetMsgTestAndSet m) = Some (no_base (sh_base m))"
| "plain_net (C_NetMsgMembersListReq m) = Some m"
| "plain_net (C_NetMsgMembersList m) = Some (ml_base m)"
| "plain_net (C_NetMsgMemberUpdate m) = Some (mu_base m)"
| "plain_net (C_NetMsgInitialAgeStateSent m) = Some (ias_base m)"
| "plain_net (C_NetMsgSDLState m) = Some (no_base (ss_base m))"
| "plain_net (C_NetMsgSDLStateBCast m) = Some (no_base (ss_base m))"
| "plain_net (C_NetMsgRelevanceRegions m) = Some (rr_base m)"
| "plain_net (C_NetMsgPlayerPage m) = Some (pp_base m)"
| "plain_net x = None"

fun node_net :: "'c node \<Rightarrow> NetMessage option" where
  "node_net (N_plain x) = plain_net x"
| "node_net (N_NetMsgGameMessage m) = Some (ngm_base m)"
| "node_net (N_NetMsgGameMessageDirected m) = Some (ngm_base (ngd_base m))"
| "node_net (N_NetMsgLoadClone m) = Some (ngm_base (nlc_base m))"
| "node_net n = None"

definition contentFlags :: "creatable \<Rightarrow> u32" where
  "contentFlags c = (case node_net (node_of c) of Some m \<Rightarrow> nt_contentFlags m | None \<Rightarrow> 0)"

definition is_NetMessage :: "creatable \<Rightarrow> bool" where
  "is_NetMessage c \<longleftrightarrow> node_class (node_of c) = B_NetMessage"

section \<open>State\<close>

record GameState =
  gs_persist :: bool
  gs_isAvatar :: bool
  gs_state :: State

text \<open>
  A client: \<open>m_channel\<close> holds the results its worker waits for, \<open>m_broadcast\<close> the buffers to send to it;
  \<open>gc_closed\<close> tells that the host has closed its socket.
\<close>

record GameClient =
  gc_info :: ClientGuid
  gc_key :: Uoid
  gc_isLoaded :: bool
  gc_isAdmin :: bool
  gc_channel :: "u32 list"
  gc_broadcast :: "bytes list"
  gc_closed :: bool

type_synonym client = nat
type_synonym host = nat

text \<open>The messages of the host's channel, with what their payload points to.\<close>

datatype host_msg =
    e_GameShutdown
  | e_GameDisconnect client
  | e_GameJoinAge client
  | e_GamePropagate client u32 bytes
  | e_GameLocalSdlUpdate client u32 bytes
  | e_GameGlobalSdlUpdate

text \<open>
  The hash maps are association lists in the order of their iteration; those keyed by object
  identifiers compare them by \<open>Uoid_eq\<close>. \<open>gh_clientMutex\<close> is the mutex of the client table, held or free, and
  \<open>gh_alive\<close> turns false when the host is deleted.
\<close>

record GameHost =
  gh_ageFilename :: st_string
  gh_ageIdx :: u32
  gh_serverIdx :: u32
  gh_clients :: "(u32 \<times> client) list"
  gh_clones :: "(Uoid \<times> creatable NetMsgLoadClone) list"
  gh_locks :: "(Uoid \<times> u32) list"
  gh_gameMaster :: u32
  gh_clientMutex :: bool
  gh_channel :: "host_msg list"
  gh_states :: "(Uoid \<times> (st_string \<times> GameState) list) list"
  gh_sdlIdx :: u32
  gh_globalState :: State
  gh_localState :: State
  gh_ageSdlHook :: State
  gh_temp :: bool
  gh_alive :: bool

definition ufind :: "Uoid \<Rightarrow> (Uoid \<times> 'a) list \<Rightarrow> 'a option" where
  "ufind k m = map_option snd (find (\<lambda>e. Uoid_eq (fst e) k) m)"

fun uput :: "Uoid \<Rightarrow> 'a \<Rightarrow> (Uoid \<times> 'a) list \<Rightarrow> (Uoid \<times> 'a) list" where
  "uput k v [] = [(k, v)]"
| "uput k v (e # m) = (if Uoid_eq (fst e) k then (fst e, v) # m else e # uput k v m)"

definition uerase :: "Uoid \<Rightarrow> (Uoid \<times> 'a) list \<Rightarrow> (Uoid \<times> 'a) list" where
  "uerase k m = filter (\<lambda>e. \<not> Uoid_eq (fst e) k) m"

text \<open>The statements sent to the database.\<close>

datatype sql =
    Insert_AgeState u32 st_string st_string st_string
  | Update_AgeState st_string st_string
  | Delete_Server u32

text \<open>
  The objects, the table of hosts, the hosts whose thread was started, the requests put on the channel of the authentication
  daemon (the vault node and its new blob), the statements sent to the database and the number of outside calls so far.
\<close>

record world =
  w_client :: "client \<Rightarrow> GameClient"
  w_host :: "host \<Rightarrow> GameHost"
  w_gameHosts :: "(u32 \<times> host) list"
  w_threads :: "host list"
  w_vault :: "(u32 \<times> bytes) list"
  w_sql :: "sql list"
  w_calls :: nat

text \<open>
  What comes from outside, as a function of the number of the call: the clock, the clock during the
  reading of a state, the reply of the authentication daemon to a join (the result and whether the player
  is an administrator), the rows the database holds of a state (\<open>None\<close>: the query failed), the Base64
  encoder, and the sequence prefix of an age. The fuel bounds the nesting of the objects and states read.
\<close>

record game_env =
  ge_sdl :: sdl_env
  ge_fuel :: nat
  ge_clock :: "nat \<Rightarrow> UnifiedTime"
  ge_readClock :: "nat \<Rightarrow> nat \<Rightarrow> UnifiedTime"
  ge_join :: "nat \<Rightarrow> u32 \<Rightarrow> u32 \<Rightarrow> u32 \<times> bool"
  ge_rows :: "nat \<Rightarrow> u32 \<Rightarrow> st_string \<Rightarrow> st_string \<Rightarrow> st_string list option"
  ge_base64 :: "bytes \<Rightarrow> st_string"
  ge_seqPrefix :: "st_string \<Rightarrow> int"

abbreviation game_lib :: "game_env \<Rightarrow> ext_lib" where
  "game_lib E \<equiv> se_lib (ge_sdl E)"

definition sdl_at :: "game_env \<Rightarrow> nat \<Rightarrow> sdl_env" where
  "sdl_at E n = (ge_sdl E)\<lparr>se_clock := ge_readClock E n\<rparr>"

section \<open>Actions of the host\<close>

type_synonym 'a gact = "(world, 'a) act"

definition acall :: "(nat \<Rightarrow> 'a) \<Rightarrow> 'a gact" where
  "acall f w = (Inr (f (w_calls w)), w\<lparr>w_calls := Suc (w_calls w)\<rparr>)"

definition ahost :: "host \<Rightarrow> GameHost gact" where
  "ahost h = aget (\<lambda>w. w_host w h)"

definition aclient :: "client \<Rightarrow> GameClient gact" where
  "aclient c = aget (\<lambda>w. w_client w c)"

definition mod_host :: "host \<Rightarrow> (GameHost \<Rightarrow> GameHost) \<Rightarrow> unit gact" where
  "mod_host h f = amod (\<lambda>w. w\<lparr>w_host := (w_host w)(h := f (w_host w h))\<rparr>)"

definition mod_client :: "client \<Rightarrow> (GameClient \<Rightarrow> GameClient) \<Rightarrow> unit gact" where
  "mod_client c f = amod (\<lambda>w. w\<lparr>w_client := (w_client w)(c := f (w_client w c))\<rparr>)"

text \<open>
  \<open>m_clientMutex.lock()\<close> and \<open>unlock()\<close>, and a block under a \<open>lock_guard\<close>, which unlocks however it is left.
\<close>

definition lock_clients :: "host \<Rightarrow> unit gact" where
  "lock_clients h w =
     (if gh_clientMutex (w_host w h) then (Inl Blocked, w)
      else mod_host h (\<lambda>g. g\<lparr>gh_clientMutex := True\<rparr>) w)"

definition unlock_clients :: "host \<Rightarrow> unit gact" where
  "unlock_clients h = mod_host h (\<lambda>g. g\<lparr>gh_clientMutex := False\<rparr>)"

definition lock_guard :: "host \<Rightarrow> 'a gact \<Rightarrow> 'a gact" where
  "lock_guard h a w =
     (case lock_clients h w of
        (Inl e, w') \<Rightarrow> (Inl e, w')
      | (Inr _, w') \<Rightarrow> (case a w' of (r, w'') \<Rightarrow> (r, snd (unlock_clients h w''))))"

text \<open>\<open>SEND_REPLY\<close> and \<open>DM_SENDBUF\<close>.\<close>

definition send_reply :: "client \<Rightarrow> u32 \<Rightarrow> unit gact" where
  "send_reply c result = mod_client c (\<lambda>k. k\<lparr>gc_channel := gc_channel k @ [result]\<rparr>)"

definition send_buf :: "client \<Rightarrow> bytes \<Rightarrow> unit gact" where
  "send_buf c buf = mod_client c (\<lambda>k. k\<lparr>gc_broadcast := gc_broadcast k @ [buf]\<rparr>)"

text \<open>\<open>DM_WRITEBUF\<close>: the type, the size of the rest and the object.\<close>

definition writebuf :: "ext_lib \<Rightarrow> creatable \<Rightarrow> wres" where
  "writebuf L c =
     (case creatable_image L c of
        Inl e \<Rightarrow> Inl e
      | Inr b \<Rightarrow> Inr (write_u32 (ucast (node_type (node_of c))) @ write_u32 (of_nat (length b)) @ b))"

text \<open>\<open>DM_SENDMSG\<close>.\<close>

definition send_msg :: "game_env \<Rightarrow> creatable \<Rightarrow> client \<Rightarrow> unit gact" where
  "send_msg E msg c = abind (alift (writebuf (game_lib E) msg)) (send_buf c)"

section \<open>Sending to the clients\<close>

definition playerId :: "GameClient \<Rightarrow> u32" where
  "playerId k = cg_PlayerId (gc_info k)"

text \<open>The body of the loops over \<open>m_clients\<close>: bit 2 of the flags is \<open>e_EchoBackToSender\<close>.\<close>

definition send_unless_sender :: "creatable \<Rightarrow> u32 \<Rightarrow> bytes \<Rightarrow> client \<Rightarrow> unit gact" where
  "send_unless_sender msg sender buf c =
     abind (aclient c) (\<lambda>k. awhen (\<not> (playerId k = sender \<and> \<not> bit (contentFlags msg) 2)) (send_buf c buf))"

definition send_to_host :: "creatable \<Rightarrow> u32 \<Rightarrow> bytes \<Rightarrow> host \<Rightarrow> unit gact" where
  "send_to_host msg sender buf h =
     lock_guard h (abind (ahost h) (\<lambda>g. aseq (map (send_unless_sender msg sender buf \<circ> snd) (gh_clients g))))"

definition dm_broadcast :: "game_env \<Rightarrow> creatable \<Rightarrow> u32 \<Rightarrow> unit gact" where
  "dm_broadcast E msg sender =
     abind (alift (writebuf (game_lib E) msg)) (\<lambda>buf.
     abind (aget w_gameHosts) (\<lambda>hosts.
     aseq (map (send_to_host msg sender buf \<circ> snd) hosts)))"

definition dm_propagate :: "game_env \<Rightarrow> host \<Rightarrow> creatable \<Rightarrow> u32 \<Rightarrow> unit gact" where
  "dm_propagate E h msg sender =
     abind (alift (writebuf (game_lib E) msg)) (\<lambda>buf. send_to_host msg sender buf h)"

fun send_to_receiver :: "bytes \<Rightarrow> u32 \<Rightarrow> host list \<Rightarrow> unit gact" where
  "send_to_receiver buf rcvr [] = aret ()"
| "send_to_receiver buf rcvr (h # hs) =
     abind
       (lock_guard h (abind (ahost h) (\<lambda>g.
          case map_of (gh_clients g) rcvr of
            Some c \<Rightarrow> athen (send_buf c buf) (aret True)
          | None \<Rightarrow> aret False)))
       (\<lambda>found. if found then aret () else send_to_receiver buf rcvr hs)"

definition dm_propagate_to :: "game_env \<Rightarrow> creatable \<Rightarrow> u32 list \<Rightarrow> unit gact" where
  "dm_propagate_to E msg receivers =
     abind (alift (writebuf (game_lib E) msg)) (\<lambda>buf.
     abind (aget w_gameHosts) (\<lambda>hosts.
     aseq (map (\<lambda>rcvr. send_to_receiver buf rcvr (map snd hosts)) receivers)))"


section \<open>Messages the host makes\<close>

text \<open>
  Flags of a network message: 1 \<open>e_HasTimeSent\<close>, \<open>0x1000\<close> \<open>e_HasPlayerID\<close>, \<open>0x20000\<close> \<open>e_IsSystemMessage\<close>,
  \<open>0x40000\<close> \<open>e_NeedsReliableSend\<close>. Broadcast flags of a message: \<open>0x40\<close> \<open>e_NetPropagate\<close>, \<open>0x400\<close> \<open>e_NetNonLocal\<close>,
  \<open>0x800\<close> \<open>e_LocalPropagate\<close>.
\<close>

definition net_header :: "u32 \<Rightarrow> UnifiedTime \<Rightarrow> u32 \<Rightarrow> NetMessage" where
  "net_header flags now player =
     \<lparr>nt_contentFlags = flags, nt_protocolVerMaj = 12, nt_protocolVerMin = 6, nt_timestamp = now, nt_context = 0,
      nt_transId = 0, nt_playerId = player, nt_acctId = Uuid_null\<rparr>"

definition AvatarMgrKey :: Key where
  "AvatarMgrKey = Some (Uoid_new\<lparr>m_location := Location_Virtual, u_type := 0x00F4,
     u_name := map of_char ''kAvatarMgr_KEY''\<rparr>)"

definition NetClientMgrKey :: Key where
  "NetClientMgrKey = Some (Uoid_new\<lparr>m_location := Location_Virtual, u_type := 0x0052,
     u_name := map of_char ''kNetClientMgr_KEY''\<rparr>)"

definition group_message :: "bool \<Rightarrow> UnifiedTime \<Rightarrow> creatable" where
  "group_message own now = Creatable (N_plain (C_NetMsgGroupOwner
     \<lparr>go_base = net_header 0x60001 now 0,
      go_groups = [\<lparr>gi_location = \<lparr>m_sequence = 0xFF000001, l_flags = 4\<rparr>, gi_flags = 0, gi_own = own\<rparr>]\<rparr>))"

definition member_info :: "GameClient \<Rightarrow> NetMsgMemberInfo" where
  "member_info k = \<lparr>mi_flags = 0, mi_client = gc_info k, mi_avatarKey = gc_key k\<rparr>"

definition member_message :: "bool \<Rightarrow> GameClient \<Rightarrow> UnifiedTime \<Rightarrow> creatable" where
  "member_message add k now = Creatable (N_plain (C_NetMsgMemberUpdate
     \<lparr>mu_base = net_header 0x60001 now 0, mu_member = member_info k, mu_addMember = add\<rparr>))"

definition clone_fields :: "GameClient \<Rightarrow> bool \<Rightarrow> LoadCloneFields" where
  "clone_fields k loading =
     \<lparr>lc_cloneKey = Some (gc_key k), lc_requestorKey = AvatarMgrKey, lc_originPlayerId = playerId k, lc_userData = 0,
      lc_validMsg = True, lc_isLoading = loading\<rparr>"

definition avatar_base :: Message where
  "avatar_base = \<lparr>ms_sender = None, ms_receivers = [NetClientMgrKey], ms_timestamp = 0, ms_bcastFlags = 0x840\<rparr>"

definition unload_message :: "GameClient \<Rightarrow> UnifiedTime \<Rightarrow> creatable" where
  "unload_message k now = Creatable (N_NetMsgLoadClone (NetMsgLoadClone
     (NetMsgGameMessage (net_header 0x40001 now 0) 0
        (Some (Creatable (N_LoadCloneMsg (LoadCloneMsg avatar_base (clone_fields k False) None)))) UnifiedTime_null)
     (gc_key k) True False False))"

definition avatar_message :: "GameClient \<Rightarrow> UnifiedTime \<Rightarrow> creatable" where
  "avatar_message k now = Creatable (N_NetMsgLoadClone (NetMsgLoadClone
     (NetMsgGameMessage (net_header 0x40001 now 0) 0
        (Some (Creatable (N_LoadAvatarMsg (LoadAvatarMsg (LoadCloneMsg avatar_base (clone_fields k True) None)
           True None None [])))) UnifiedTime_null)
     Uoid_new True True True))"

definition sdl_message :: "NetMessage \<Rightarrow> Uoid \<Rightarrow> bytes \<Rightarrow> bool \<Rightarrow> bool \<Rightarrow> bool \<Rightarrow> NetMsgSDLState" where
  "sdl_message base obj blob initial persist avatar =
     \<lparr>ss_base = \<lparr>no_base = base, no_object = obj, no_compression = 0\<rparr>, ss_sdlBlob = blob, ss_isInitial = initial,
      ss_persistOnServer = persist, ss_isAvatar = avatar\<rparr>"

definition lock_reply :: "Uoid \<Rightarrow> bool \<Rightarrow> UnifiedTime \<Rightarrow> creatable" where
  "lock_reply obj affirm now = Creatable (N_NetMsgGameMessage
     (NetMsgGameMessage (net_header 0x40001 now 0) 0
        (Some (Creatable (N_plain (C_ServerReplyMsg
           \<lparr>sr_base = \<lparr>ms_sender = None, ms_receivers = [Some obj], ms_timestamp = 0, ms_bcastFlags = 0x800\<rparr>,
            sr_reply = (if affirm then 1 else 0)\<rparr>)))) UnifiedTime_null))"

text \<open>The object that stands for the state of the age.\<close>

definition hook_name :: st_string where
  "hook_name = map of_char ''AgeSDLHook''"

definition hook_object :: "int \<Rightarrow> Uoid" where
  "hook_object seqPrefix = Uoid_new\<lparr>m_location := Location_new seqPrefix (- 2) 8, u_name := hook_name, u_type := 1, u_id := 1\<rparr>"

section \<open>Players come and go\<close>

definition now :: "game_env \<Rightarrow> UnifiedTime gact" where
  "now E = acall (ge_clock E)"

text \<open>\<open>dm_local_sdl_update\<close> on a blob: the daemon gets the node, whatever it answers is only printed.\<close>

definition dm_local_sdl_update :: "host \<Rightarrow> bytes \<Rightarrow> unit gact" where
  "dm_local_sdl_update h blob =
     abind (ahost h) (\<lambda>g. amod (\<lambda>w. w\<lparr>w_vault := w_vault w @ [(gh_sdlIdx g, blob)]\<rparr>))"

definition save_local_state :: "game_env \<Rightarrow> host \<Rightarrow> unit gact" where
  "save_local_state E h =
     abind (ahost h) (\<lambda>g. abind (alift (State_toBlob (game_lib E) (gh_localState g))) (dm_local_sdl_update h))"

definition unload_avatar :: "game_env \<Rightarrow> host \<Rightarrow> GameClient \<Rightarrow> unit gact" where
  "unload_avatar E h k =
     awhen (gc_isLoaded k \<and> \<not> Uoid_isNull (gc_key k))
       (abind (now E) (\<lambda>t.
        athen (dm_propagate E h (unload_message k t) (playerId k))
          (mod_host h (\<lambda>g. g\<lparr>gh_states := uerase (gc_key k) (gh_states g)\<rparr>))))"

definition reassign_master :: "game_env \<Rightarrow> host \<Rightarrow> GameClient \<Rightarrow> unit gact" where
  "reassign_master E h k =
     abind (ahost h) (\<lambda>g.
     awhen (gh_gameMaster g = playerId k)
       (abind (now E) (\<lambda>t.
        abind (alift (writebuf (game_lib E) (group_message True t))) (\<lambda>buf.
        lock_guard h
          (case gh_clients g of
             (_, owner) # _ \<Rightarrow>
               abind (aclient owner) (\<lambda>k'.
               athen (mod_host h (\<lambda>g. g\<lparr>gh_gameMaster := playerId k'\<rparr>)) (send_buf owner buf))
           | [] \<Rightarrow> mod_host h (\<lambda>g. g\<lparr>gh_gameMaster := 0\<rparr>))))))"

definition dm_game_disconnect :: "game_env \<Rightarrow> host \<Rightarrow> client \<Rightarrow> unit gact" where
  "dm_game_disconnect E h c =
     abind (aclient c) (\<lambda>k.
     aseq [unload_avatar E h k,
           abind (now E) (\<lambda>t. dm_propagate E h (member_message False k t) (playerId k)),
           mod_host h (\<lambda>g. g\<lparr>gh_locks := filter (\<lambda>e. snd e \<noteq> playerId k) (gh_locks g)\<rparr>),
           reassign_master E h k,
           save_local_state E h,
           abind (ahost h) (\<lambda>g. awhen (gh_clients g = [])
             (mod_host h (\<lambda>g. g\<lparr>gh_channel := gh_channel g @ [e_GameShutdown]\<rparr>))),
           send_reply c 0])"

definition dm_game_join :: "game_env \<Rightarrow> host \<Rightarrow> client \<Rightarrow> unit gact" where
  "dm_game_join E h c =
     abind (ahost h) (\<lambda>g.
     abind (aclient c) (\<lambda>k.
     abind (acall (\<lambda>n. ge_join E n (gh_ageIdx g) (playerId k))) (\<lambda>(result, admin).
     athen (mod_client c (\<lambda>k. k\<lparr>gc_isAdmin := admin\<rparr>))
       (if result \<noteq> 0 then send_reply c result
        else
          abind (now E) (\<lambda>t.
          aseq [awhen (gh_gameMaster g = 0) (mod_host h (\<lambda>g. g\<lparr>gh_gameMaster := playerId k\<rparr>)),
                send_msg E (group_message (gh_gameMaster g = 0) t) c,
                abind (now E) (\<lambda>t. dm_propagate E h (member_message True k t) (playerId k)),
                send_reply c 0])))))"

section \<open>State of the age\<close>

text \<open>The entries of \<open>m_states\<close> in the order of the two nested loops.\<close>

definition all_states :: "GameHost \<Rightarrow> (Uoid \<times> GameState) list" where
  "all_states g = concat (map (\<lambda>(obj, byName). map (\<lambda>(name, gs). (obj, gs)) byName) (gh_states g))"

definition send_sdl :: "game_env \<Rightarrow> NetMsgSDLState \<Rightarrow> client \<Rightarrow> unit gact" where
  "send_sdl E m c = send_msg E (Creatable (N_plain (C_NetMsgSDLState m))) c"

definition dm_send_state :: "game_env \<Rightarrow> host \<Rightarrow> client \<Rightarrow> unit gact" where
  "dm_send_state E h c =
     abind (now E) (\<lambda>t.
     abind (ahost h) (\<lambda>g.
     abind (alift (State_toBlob (game_lib E) (gh_ageSdlHook g))) (\<lambda>hookBlob.
     aseq
       [awhen (hookBlob \<noteq> [])
          (send_sdl E (sdl_message (net_header 0x40001 t 0) (hook_object (ge_seqPrefix E (gh_ageFilename g))) hookBlob
             True True False) c),
        aseq (map (\<lambda>(obj, gs).
          abind (alift (State_toBlob (game_lib E) (gs_state gs))) (\<lambda>blob.
          send_sdl E (sdl_message (net_header 0x40001 t 0) obj blob True (gs_persist gs) (gs_isAvatar gs)) c))
          (all_states g)),
        abind (now E) (\<lambda>t.
          send_msg E (Creatable (N_plain (C_NetMsgInitialAgeStateSent
            \<lparr>ias_base = net_header 0x60001 t 0,
             ias_numStates = of_nat ((if hookBlob \<noteq> [] then 1 else 0) + length (all_states g))\<rparr>))) c)])))"

text \<open>\<open>dm_save_sdl_state\<close>: the first row of the query is updated, or a new one inserted.\<close>

definition dm_save_sdl_state :: "game_env \<Rightarrow> host \<Rightarrow> st_string \<Rightarrow> Uoid \<Rightarrow> State \<Rightarrow> unit gact" where
  "dm_save_sdl_state E h descriptor obj state =
     abind (ahost h) (\<lambda>g.
     abind (alift (State_toBlob (game_lib E) state)) (\<lambda>blob.
     let object_b64 = ge_base64 E (Uoid_write (game_lib E) obj);
         blob_b64 = ge_base64 E blob
     in abind (acall (\<lambda>n. ge_rows E n (gh_serverIdx g) descriptor object_b64)) (\<lambda>rows.
        case rows of
          None \<Rightarrow> aret ()
        | Some [] \<Rightarrow>
            amod (\<lambda>w. w\<lparr>w_sql := w_sql w @ [Insert_AgeState (gh_serverIdx g) descriptor object_b64 blob_b64]\<rparr>)
        | Some (idx # _) \<Rightarrow> amod (\<lambda>w. w\<lparr>w_sql := w_sql w @ [Update_AgeState idx blob_b64]\<rparr>))))"

definition dm_bcast_sdl_state :: "game_env \<Rightarrow> host \<Rightarrow> client \<Rightarrow> NetMsgSDLState \<Rightarrow> State \<Rightarrow> unit gact" where
  "dm_bcast_sdl_state E h c update state =
     abind (now E) (\<lambda>_.
     abind (aclient c) (\<lambda>k.
     abind (alift (State_toBlob (game_lib E) state)) (\<lambda>blob.
     abind (now E) (\<lambda>t.
     dm_propagate E h
       (Creatable (N_plain (C_NetMsgSDLStateBCast
          (sdl_message (net_header 0x61001 t (playerId k)) (no_object (ss_base update)) blob (ss_isInitial update)
             (ss_persistOnServer update) (ss_isAvatar update)))))
       (playerId k)))))"

fun state_name :: "State \<Rightarrow> st_string option" where
  "state_name NullState = None"
| "state_name (State d vars obj f) = Some (sd_name (snd d))"

definition find_state :: "Uoid \<Rightarrow> st_string \<Rightarrow> GameHost \<Rightarrow> GameState option" where
  "find_state obj name g = Option.bind (ufind obj (gh_states g)) (\<lambda>byName. map_of byName name)"

text \<open>\<open>m_states[obj][name] = gs\<close>.\<close>

definition put_state :: "Uoid \<Rightarrow> st_string \<Rightarrow> GameState \<Rightarrow> GameHost \<Rightarrow> GameHost" where
  "put_state obj name gs g =
     g\<lparr>gh_states := uput obj (AList.update name gs (case ufind obj (gh_states g) of Some m \<Rightarrow> m | None \<Rightarrow> [])) (gh_states g)\<rparr>"

definition store_state :: "game_env \<Rightarrow> host \<Rightarrow> client \<Rightarrow> NetMsgSDLState \<Rightarrow> bool \<Rightarrow> st_string \<Rightarrow> State \<Rightarrow> unit gact" where
  "store_state E h c m bcast name state =
     aseq [mod_host h (put_state (no_object (ss_base m)) name
             \<lparr>gs_persist = ss_persistOnServer m, gs_isAvatar = ss_isAvatar m, gs_state = state\<rparr>),
           awhen (ss_persistOnServer m) (dm_save_sdl_state E h name (no_object (ss_base m)) state),
           awhen bcast (dm_bcast_sdl_state E h c m state)]"

definition read_hook :: "game_env \<Rightarrow> host \<Rightarrow> client \<Rightarrow> NetMsgSDLState \<Rightarrow> bool \<Rightarrow> State \<Rightarrow> unit gact" where
  "read_hook E h c m bcast update =
     abind (ahost h) (\<lambda>g.
     abind (alift (State_add (gh_localState g) update)) (\<lambda>local.
     athen (mod_host h (\<lambda>g. g\<lparr>gh_localState := local\<rparr>))
       (abind (alift (State_add (gh_ageSdlHook g) update)) (\<lambda>hook.
        aseq [mod_host h (\<lambda>g. g\<lparr>gh_ageSdlHook := hook\<rparr>),
              save_local_state E h,
              awhen bcast (dm_bcast_sdl_state E h c m hook)]))))"

text \<open>
  In the last branch the flags are stored before \<open>add\<close> is called: they stay when it throws.
\<close>

definition dm_read_sdl :: "game_env \<Rightarrow> host \<Rightarrow> client \<Rightarrow> NetMsgSDLState \<Rightarrow> bool \<Rightarrow> unit gact" where
  "dm_read_sdl E h c m bcast =
     (if ss_sdlBlob m = [] then aret ()
      else
        abind (acall (\<lambda>n. State_FromBlob (sdl_at E n) (ge_fuel E) (ss_sdlBlob m))) (\<lambda>r.
        case r of
          Inl e \<Rightarrow> if ds_exception e then aret () else afail (Thrown e)
        | Inr update \<Rightarrow>
            (case state_name update of
               None \<Rightarrow> aret ()
             | Some name \<Rightarrow>
                 let obj = no_object (ss_base m)
                 in if u_name obj = hook_name then read_hook E h c m bcast update
                    else
                      abind (ahost h) (\<lambda>g.
                      case find_state obj name g of
                        None \<Rightarrow> store_state E h c m bcast name update
                      | Some gs \<Rightarrow>
                          athen (mod_host h (put_state obj name
                                   (gs\<lparr>gs_isAvatar := ss_isAvatar m, gs_persist := ss_persistOnServer m\<rparr>)))
                            (abind (alift (State_add (gs_state gs) update))
                               (store_state E h c m bcast name))))))"

section \<open>Locks, members and clones\<close>

definition dm_test_and_set :: "game_env \<Rightarrow> host \<Rightarrow> client \<Rightarrow> NetMsgSharedState \<Rightarrow> unit gact" where
  "dm_test_and_set E h c m =
     (let obj = no_object (sh_base m)
      in abind (ahost h) (\<lambda>g.
         abind (aclient c) (\<lambda>k.
         if sh_lockRequest m \<noteq> 0
         then
           (let free = (ufind obj (gh_locks g) = None)
            in athen (awhen free (mod_host h (\<lambda>g. g\<lparr>gh_locks := uput obj (playerId k) (gh_locks g)\<rparr>)))
                 (abind (now E) (\<lambda>t. send_msg E (lock_reply obj free t) c)))
         else
           awhen (ufind obj (gh_locks g) = Some (playerId k))
             (mod_host h (\<lambda>g. g\<lparr>gh_locks := uerase obj (gh_locks g)\<rparr>)))))"

text \<open>The members a client is told of: nobody, as long as its own avatar has no key.\<close>

definition other_members :: "GameHost \<Rightarrow> GameClient \<Rightarrow> (client \<Rightarrow> GameClient) \<Rightarrow> GameClient list" where
  "other_members g k heap =
     filter (\<lambda>k'. playerId k' \<noteq> playerId k \<and> \<not> Uoid_isNull (gc_key k)) (map (heap \<circ> snd) (gh_clients g))"

text \<open>
  \<open>reserve(m_clients.size() - 1)\<close> throws when there is no client, and the mutex stays locked.
\<close>

definition collect_members :: "host \<Rightarrow> client \<Rightarrow> GameClient list gact" where
  "collect_members h c =
     athen (lock_clients h)
       (abind (ahost h) (\<lambda>g.
        if gh_clients g = [] then afail Length_error
        else
          abind (aget (\<lambda>w. other_members g (w_client w c) (w_client w))) (\<lambda>members.
          athen (unlock_clients h) (aret members))))"

definition send_clones :: "game_env \<Rightarrow> host \<Rightarrow> client \<Rightarrow> unit gact" where
  "send_clones E h c =
     abind (ahost h) (\<lambda>g. aseq (map (\<lambda>(_, m). send_msg E (Creatable (N_NetMsgLoadClone m)) c) (gh_clones g)))"

definition dm_send_members :: "game_env \<Rightarrow> host \<Rightarrow> client \<Rightarrow> unit gact" where
  "dm_send_members E h c =
     abind (now E) (\<lambda>t.
     abind (aclient c) (\<lambda>k.
     abind (collect_members h c) (\<lambda>members.
     aseq
       [send_msg E (Creatable (N_plain (C_NetMsgMembersList
          \<lparr>ml_base = net_header 0x61001 t (playerId k), ml_members = map member_info members\<rparr>))) c,
        send_clones E h c,
        abind (now E) (\<lambda>t. lock_guard h
          (abind (ahost h) (\<lambda>g. abind (aget (\<lambda>w. other_members g (w_client w c) (w_client w)))
            (\<lambda>members. aseq (map (\<lambda>k'. send_msg E (avatar_message k' t) c) members)))))])))"

fun is_LoadCloneMsg :: "'c node \<Rightarrow> bool" where
  "is_LoadCloneMsg (N_LoadCloneMsg _) = True"
| "is_LoadCloneMsg (N_LoadAvatarMsg _) = True"
| "is_LoadCloneMsg _ = False"

definition null_pointer :: "'a gact" where
  "null_pointer = afail (Thrown UndefinedBehaviour)"

text \<open>\<open>netmsg->m_message = msg\<close>, for the message after \<open>makeSafeForNet\<close> changed it in place.\<close>

fun replace_message :: "'c \<Rightarrow> 'c NetMsgGameMessage \<Rightarrow> 'c NetMsgGameMessage" where
  "replace_message msg (NetMsgGameMessage base compression _ time) = NetMsgGameMessage base compression (Some msg) time"

fun clone_with :: "'c \<Rightarrow> 'c NetMsgLoadClone \<Rightarrow> 'c NetMsgLoadClone" where
  "clone_with msg (NetMsgLoadClone base obj isPlayer isLoading isInitialState) =
     NetMsgLoadClone (replace_message msg base) obj isPlayer isLoading isInitialState"

fun clone_initial :: "'c NetMsgLoadClone \<Rightarrow> 'c NetMsgLoadClone" where
  "clone_initial (NetMsgLoadClone base obj isPlayer isLoading isInitialState) =
     NetMsgLoadClone base obj isPlayer isLoading True"

definition keep_clone :: "host \<Rightarrow> client \<Rightarrow> creatable NetMsgLoadClone \<Rightarrow> unit gact" where
  "keep_clone h c m =
     (if nlc_isPlayer m
      then aseq [lock_clients h,
                 mod_client c (\<lambda>k. k\<lparr>gc_key := nlc_object m, gc_isLoaded := nlc_isLoading m\<rparr>),
                 unlock_clients h]
      else mod_host h (\<lambda>g. g\<lparr>gh_clones :=
             (if nlc_isLoading m then uput (nlc_object m) m (gh_clones g) else uerase (nlc_object m) (gh_clones g))\<rparr>))"

text \<open>
  \<open>m_clones\<close> points to the message, so setting \<open>m_isInitialState\<close> after it was sent changes the entry.
\<close>

definition dm_load_clone :: "game_env \<Rightarrow> host \<Rightarrow> client \<Rightarrow> creatable NetMsgLoadClone \<Rightarrow> unit gact" where
  "dm_load_clone E h c m =
     (case ngm_message (nlc_base m) of
        None \<Rightarrow> null_pointer
      | Some msg \<Rightarrow>
          if \<not> is_LoadCloneMsg (node_of msg) then null_pointer
          else
            abind (alift (makeSafeForNet msg)) (\<lambda>(safe, msg').
            awhen safe
              (abind (aclient c) (\<lambda>k.
               let m' = clone_with msg' m
               in aseq [keep_clone h c m',
                        dm_propagate E h (Creatable (N_NetMsgLoadClone m')) (playerId k),
                        awhen (nlc_isLoading m' \<and> \<not> nlc_isPlayer m') (keep_clone h c (clone_initial m'))]))))"

section \<open>Messages of the clients\<close>

text \<open>\<open>Cast\<close> to the classes the handlers expect.\<close>

fun cast_GameMessage :: "creatable node \<Rightarrow> creatable NetMsgGameMessage option" where
  "cast_GameMessage (N_NetMsgGameMessage m) = Some m"
| "cast_GameMessage (N_NetMsgGameMessageDirected m) = Some (ngd_base m)"
| "cast_GameMessage (N_NetMsgLoadClone m) = Some (nlc_base m)"
| "cast_GameMessage _ = None"

fun cast_GameMessageDirected :: "creatable node \<Rightarrow> creatable NetMsgGameMessageDirected option" where
  "cast_GameMessageDirected (N_NetMsgGameMessageDirected m) = Some m"
| "cast_GameMessageDirected _ = None"

fun cast_LoadClone :: "creatable node \<Rightarrow> creatable NetMsgLoadClone option" where
  "cast_LoadClone (N_NetMsgLoadClone m) = Some m"
| "cast_LoadClone _ = None"

fun cast_SDLState :: "creatable node \<Rightarrow> NetMsgSDLState option" where
  "cast_SDLState (N_plain (C_NetMsgSDLState m)) = Some m"
| "cast_SDLState (N_plain (C_NetMsgSDLStateBCast m)) = Some m"
| "cast_SDLState _ = None"

fun cast_Voice :: "creatable node \<Rightarrow> NetMsgVoice option" where
  "cast_Voice (N_plain (C_NetMsgVoice m)) = Some m"
| "cast_Voice _ = None"

fun cast_TestAndSet :: "creatable node \<Rightarrow> NetMsgSharedState option" where
  "cast_TestAndSet (N_plain (C_NetMsgTestAndSet m)) = Some m"
| "cast_TestAndSet _ = None"

text \<open>The use of a pointer: one that is null, or the result of a cast that failed, is dereferenced.\<close>

definition deref :: "'a option \<Rightarrow> ('a \<Rightarrow> 'b gact) \<Rightarrow> 'b gact" where
  "deref p f = (case p of None \<Rightarrow> null_pointer | Some x \<Rightarrow> f x)"

fun with_message :: "creatable \<Rightarrow> creatable node \<Rightarrow> creatable node" where
  "with_message msg (N_NetMsgGameMessage m) = N_NetMsgGameMessage (replace_message msg m)"
| "with_message msg (N_NetMsgGameMessageDirected (NetMsgGameMessageDirected m receivers)) =
     N_NetMsgGameMessageDirected (NetMsgGameMessageDirected (replace_message msg m) receivers)"
| "with_message msg (N_NetMsgLoadClone m) = N_NetMsgLoadClone (clone_with msg m)"
| "with_message msg n = n"

text \<open>Bit 19 of the flags is \<open>e_RouteToAllPlayers\<close>.\<close>

definition on_game_message :: "game_env \<Rightarrow> host \<Rightarrow> client \<Rightarrow> creatable node option \<Rightarrow> unit gact" where
  "on_game_message E h c netmsg =
     deref netmsg (\<lambda>n.
     deref (cast_GameMessage n) (\<lambda>m.
     deref (ngm_message m) (\<lambda>msg.
     let msg = add_bcastFlags 0x400 msg
     in abind (aclient c) (\<lambda>k.
        if gc_isAdmin k
        then (let netmsg = Creatable (with_message msg n)
              in if bit (nt_contentFlags (ngm_base m)) 19 then dm_broadcast E netmsg (playerId k)
                 else dm_propagate E h netmsg (playerId k))
        else
          abind (alift (makeSafeForNet msg)) (\<lambda>(safe, msg').
          awhen safe (dm_propagate E h (Creatable (with_message msg' n)) (playerId k)))))))"

definition on_directed_message :: "game_env \<Rightarrow> client \<Rightarrow> creatable node option \<Rightarrow> unit gact" where
  "on_directed_message E c netmsg =
     deref netmsg (\<lambda>n.
     deref (cast_GameMessageDirected n) (\<lambda>m.
     deref (ngm_message (ngd_base m)) (\<lambda>msg.
     let msg = add_bcastFlags 0x400 msg
     in abind (aclient c) (\<lambda>k.
        abind (if gc_isAdmin k then aret (True, msg) else alift (makeSafeForNet msg)) (\<lambda>(pass, msg').
        awhen pass (dm_propagate_to E (Creatable (with_message msg' n)) (ngd_receivers m)))))))"

text \<open>The \<open>switch\<close> on the type of the message that the client announced.\<close>

definition dispatch :: "game_env \<Rightarrow> host \<Rightarrow> client \<Rightarrow> u32 \<Rightarrow> creatable node option \<Rightarrow> unit gact" where
  "dispatch E h c type netmsg =
     (if type = 0x0265 then dm_send_state E h c
      else if type = 0x026B then on_game_message E h c netmsg
      else if type = 0x032E then on_directed_message E c netmsg
      else if type = 0x0279 then
        deref netmsg (\<lambda>n. deref (cast_Voice n) (\<lambda>m. dm_propagate_to E (Creatable n) (vo_receivers m)))
      else if type = 0x027D then deref netmsg (\<lambda>n. deref (cast_TestAndSet n) (dm_test_and_set E h c))
      else if type = 0x02AD then dm_send_members E h c
      else if type = 0x02CD then deref netmsg (\<lambda>n. deref (cast_SDLState n) (\<lambda>m. dm_read_sdl E h c m False))
      else if type = 0x0329 then deref netmsg (\<lambda>n. deref (cast_SDLState n) (\<lambda>m. dm_read_sdl E h c m True))
      else if type = 0x03B3 then deref netmsg (\<lambda>n. deref (cast_LoadClone n) (dm_load_clone E h c))
      else aret ())"

text \<open>
  \<open>dm_game_message\<close>. When reading throws anything but a \<open>FactoryException\<close>, the handler calls \<open>Cast\<close> on the
  pointer that is still null; an image that is no network message leaves it null too, and \<open>type()\<close> or
  \<open>unref()\<close> is called on it.
\<close>

definition dm_game_message :: "game_env \<Rightarrow> host \<Rightarrow> client \<Rightarrow> u32 \<Rightarrow> bytes \<Rightarrow> unit gact" where
  "dm_game_message E h c type message =
     (case Factory_Read (Factory_read (game_lib E) (ge_fuel E)) is_NetMessage message of
        Inl FactoryException \<Rightarrow> send_reply c 1
      | Inl e \<Rightarrow> if ds_exception e then null_pointer else afail (Thrown e)
      | Inr (netmsg, rest) \<Rightarrow>
          if rest \<noteq> [] then deref netmsg (\<lambda>_. send_reply c 1)
          else
            athen (acatch_if (\<lambda>e. e = Thrown SockHup) (dispatch E h c type (map_option node_of netmsg)) (aret ()))
              (deref netmsg (\<lambda>_. send_reply c 0)))"

section \<open>Updates of the state of the age\<close>

definition dm_bcast_agesdl_hook :: "game_env \<Rightarrow> host \<Rightarrow> unit gact" where
  "dm_bcast_agesdl_hook E h =
     abind (ahost h) (\<lambda>g.
     abind (now E) (\<lambda>t.
     abind (alift (State_toBlob (game_lib E) (gh_ageSdlHook g))) (\<lambda>blob.
     dm_propagate E h
       (Creatable (N_plain (C_NetMsgSDLStateBCast
          (sdl_message (net_header 0x40001 t 0) (hook_object (ge_seqPrefix E (gh_ageFilename g))) blob True True False))))
       0)))"

definition merge_hook :: "host \<Rightarrow> State \<Rightarrow> unit gact" where
  "merge_hook h state =
     abind (ahost h) (\<lambda>g.
     abind (alift (State_merge (gh_ageSdlHook g) state)) (\<lambda>hook.
     mod_host h (\<lambda>g. g\<lparr>gh_ageSdlHook := hook\<rparr>)))"

definition merge_local :: "host \<Rightarrow> State \<Rightarrow> unit gact" where
  "merge_local h state =
     abind (ahost h) (\<lambda>g.
     abind (alift (State_merge (gh_localState g) state)) (\<lambda>local.
     mod_host h (\<lambda>g. g\<lparr>gh_localState := local\<rparr>)))"

text \<open>The daemon is answered before its node is written back and the clients are told.\<close>

definition dm_vault_sdl_update :: "game_env \<Rightarrow> host \<Rightarrow> client \<Rightarrow> u32 \<Rightarrow> bytes \<Rightarrow> unit gact" where
  "dm_vault_sdl_update E h c node blob =
     abind (acall (\<lambda>n. State_FromBlob (sdl_at E n) (ge_fuel E) blob)) (\<lambda>r.
     case r of
       Inl e \<Rightarrow> if ds_exception e then send_reply c 1 else afail (Thrown e)
     | Inr NullState \<Rightarrow> send_reply c 1
     | Inr vaultState \<Rightarrow>
         abind (ahost h) (\<lambda>g.
         aseq
           [merge_hook h vaultState,
            merge_hook h (gh_globalState g),
            merge_local h vaultState,
            abind (ahost h) (\<lambda>g.
            abind (alift (State_toBlob (game_lib E) (gh_localState g))) (\<lambda>blob.
            athen (send_reply c 0)
              (amod (\<lambda>w. w\<lparr>w_vault := w_vault w @ [(node, blob)]\<rparr>)))),
            dm_bcast_agesdl_hook E h]))"

definition dm_global_sdl_update :: "game_env \<Rightarrow> host \<Rightarrow> unit gact" where
  "dm_global_sdl_update E h =
     abind (ahost h) (\<lambda>g. athen (merge_hook h (gh_globalState g)) (dm_bcast_agesdl_hook E h))"

section \<open>The loop of the host\<close>

text \<open>
  \<open>dm_game_shutdown\<close>. The wait for the clients to leave is a number of steps of other threads; after it
  the host leaves the table and is deleted, whether they have left or not.
\<close>

definition close_clients :: "host \<Rightarrow> unit gact" where
  "close_clients h =
     lock_guard h (abind (ahost h) (\<lambda>g. aseq (map (\<lambda>(_, c). mod_client c (\<lambda>k. k\<lparr>gc_closed := True\<rparr>)) (gh_clients g))))"

definition dm_game_shutdown :: "host \<Rightarrow> unit gact" where
  "dm_game_shutdown h =
     aseq
       [close_clients h,
        mod_host h (\<lambda>g. g\<lparr>gh_clones := []\<rparr>),
        amod (\<lambda>w. w\<lparr>w_gameHosts := filter (\<lambda>e. snd e \<noteq> h) (w_gameHosts w)\<rparr>),
        abind (ahost h) (\<lambda>g. awhen (gh_temp g) (amod (\<lambda>w. w\<lparr>w_sql := w_sql w @ [Delete_Server (gh_serverIdx g)]\<rparr>))),
        mod_host h (\<lambda>g. g\<lparr>gh_alive := False\<rparr>)]"

fun handle :: "game_env \<Rightarrow> host \<Rightarrow> host_msg \<Rightarrow> unit gact" where
  "handle E h e_GameShutdown = dm_game_shutdown h"
| "handle E h (e_GameDisconnect c) = dm_game_disconnect E h c"
| "handle E h (e_GameJoinAge c) = dm_game_join E h c"
| "handle E h (e_GamePropagate c type message) = dm_game_message E h c type message"
| "handle E h (e_GameLocalSdlUpdate c node blob) = dm_vault_sdl_update E h c node blob"
| "handle E h e_GameGlobalSdlUpdate = dm_global_sdl_update E h"

fun payload :: "host_msg \<Rightarrow> client option" where
  "payload (e_GameDisconnect c) = Some c"
| "payload (e_GameJoinAge c) = Some c"
| "payload (e_GamePropagate c _ _) = Some c"
| "payload (e_GameLocalSdlUpdate c _ _) = Some c"
| "payload _ = None"

text \<open>One round of the loop of \<open>dm_gameHost\<close>; an empty channel is waited on.\<close>

definition dm_gameHost :: "game_env \<Rightarrow> host \<Rightarrow> unit gact" where
  "dm_gameHost E h =
     abind (ahost h) (\<lambda>g.
     case gh_channel g of
       [] \<Rightarrow> aret ()
     | msg # rest \<Rightarrow>
         athen (mod_host h (\<lambda>g. g\<lparr>gh_channel := rest\<rparr>))
           (acatch (handle E h msg)
              (case payload msg of Some c \<Rightarrow> send_reply c 1 | None \<Rightarrow> aret ())))"

end
