(* ===== verification/Game_Frames.thy ===== *)
theory Game_Frames
  imports Game_Host
begin

text \<open>
  What the handlers of the game host leave alone, as interpretations of \<open>frame\<close>: the results sent to the
  workers, the table of clients, the locks. From them: every request of a client is answered once.
\<close>

section \<open>Elementary actions\<close>

text \<open>
  The frames of the host have two more parameters: the messages that may be sent, and the environment.
  Whatever is sent besides the messages of the host itself is a condition of the lemmas.
\<close>

locale game_frame = frame R for R :: "world \<Rightarrow> world \<Rightarrow> bool" +
  fixes sendable :: "creatable \<Rightarrow> bool" and E :: game_env
  assumes R_calls: "R w (w\<lparr>w_calls := n\<rparr>)"
    and R_vault: "R w (w\<lparr>w_vault := v\<rparr>)"
    and R_sql: "R w (w\<lparr>w_sql := q\<rparr>)"
    and R_mutex: "R w (w\<lparr>w_host := (w_host w)(h := (w_host w h)\<lparr>gh_clientMutex := b\<rparr>)\<rparr>)"
    and R_broadcast: "sendable msg \<Longrightarrow> writebuf (game_lib E) msg = Inr buf \<Longrightarrow>
      R w (w\<lparr>w_client := (w_client w)(c := (w_client w c)\<lparr>gc_broadcast := gc_broadcast (w_client w c) @ [buf]\<rparr>)\<rparr>)"
    and sendable_plain: "sendable (Creatable (N_plain x))"
    and sendable_host: "sendable (unload_message k t)" "sendable (avatar_message k t)" "sendable (lock_reply obj affirm t)"
begin

lemma keeps_acall: "keeps (acall f)"
  by (simp add: keeps_def acall_def R_calls)

lemma keeps_ahost: "keeps (ahost h)"
  unfolding ahost_def by (rule keeps_aget)

lemma keeps_aclient: "keeps (aclient c)"
  unfolding aclient_def by (rule keeps_aget)

lemma keeps_lock: "keeps (lock_clients h)"
  by (auto simp: keeps_def lock_clients_def mod_host_def amod_def R_mutex R_refl)

lemma keeps_unlock: "keeps (unlock_clients h)"
  by (auto simp: keeps_def unlock_clients_def mod_host_def amod_def R_mutex)

lemma keeps_lock_guard:
  assumes "keeps a" shows "keeps (lock_guard h a)"
proof -
  have "R s (snd (lock_guard h a s))" for s
    using keepsD [OF keeps_lock, of s h] keepsD [OF assms] keepsD [OF keeps_unlock, of _ h]
    by (auto simp: lock_guard_def split: prod.split sum.split) (metis R_trans snd_conv)+
  then show ?thesis by (simp add: keeps_def)
qed

lemma keeps_vault: "keeps (amod (\<lambda>w. w\<lparr>w_vault := f w\<rparr>))"
  by (rule keeps_amod) (rule R_vault)

lemma keeps_sql: "keeps (amod (\<lambda>w. w\<lparr>w_sql := f w\<rparr>))"
  by (rule keeps_amod) (rule R_sql)

lemma keeps_now: "keeps (now E)"
  unfolding now_def by (rule keeps_acall)

lemma keeps_send_buf: "sendable msg \<Longrightarrow> writebuf (game_lib E) msg = Inr buf \<Longrightarrow> keeps (send_buf c buf)"
  unfolding send_buf_def mod_client_def by (rule keeps_amod) (rule R_broadcast)

lemma keeps_writebuf:
  assumes "sendable msg" and "\<And>buf. writebuf (game_lib E) msg = Inr buf \<Longrightarrow> keeps (f buf)"
  shows "keeps (abind (alift (writebuf (game_lib E) msg)) f)"
proof (cases "writebuf (game_lib E) msg")
  case (Inl e)
  then show ?thesis by (simp add: keeps_def abind_def alift_def afail_def R_refl)
next
  case (Inr buf)
  with assms(2) have "keeps (f buf)" by simp
  then show ?thesis using Inr by (simp add: keeps_def abind_def alift_def aret_def)
qed

lemma keeps_send_msg: "sendable msg \<Longrightarrow> keeps (send_msg E msg c)"
  unfolding send_msg_def by (intro keeps_writebuf keeps_send_buf)

lemma keeps_deref: "(\<And>x. p = Some x \<Longrightarrow> keeps (f x)) \<Longrightarrow> keeps (deref p f)"
  by (cases p) (simp_all add: deref_def null_pointer_def keeps_afail)

lemmas game_intros = keeps_aret keeps_afail keeps_aget keeps_writebuf keeps_alift keeps_abind keeps_athen keeps_awhen
  keeps_if keeps_option keeps_sum keeps_prod keeps_let keeps_aseq_map keeps_acatch_if keeps_acatch keeps_acall keeps_ahost keeps_aclient
  keeps_lock keeps_unlock keeps_lock_guard keeps_vault keeps_sql keeps_now keeps_send_msg keeps_deref

lemma group_sendable: "sendable (group_message own t)" "sendable (member_message add k t)"
  unfolding group_message_def member_message_def by (rule sendable_plain)+

lemma keeps_send_to_host:
  "sendable msg \<Longrightarrow> writebuf (game_lib E) msg = Inr buf \<Longrightarrow> keeps (send_to_host m sender buf h)"
  unfolding send_to_host_def send_unless_sender_def comp_def by (intro game_intros keeps_send_buf)

lemma keeps_propagate: "sendable msg \<Longrightarrow> keeps (dm_propagate E h msg sender)"
  unfolding dm_propagate_def by (intro game_intros keeps_send_to_host)

lemma keeps_broadcast: "sendable msg \<Longrightarrow> keeps (dm_broadcast E msg sender)"
  unfolding dm_broadcast_def comp_def by (intro game_intros keeps_send_to_host)

lemma keeps_send_to_receiver:
  "sendable msg \<Longrightarrow> writebuf (game_lib E) msg = Inr buf \<Longrightarrow> keeps (send_to_receiver buf rcvr hs)"
  by (induction hs) (auto intro!: game_intros keeps_send_buf)

lemma keeps_propagate_to: "sendable msg \<Longrightarrow> keeps (dm_propagate_to E msg receivers)"
  unfolding dm_propagate_to_def by (intro game_intros keeps_send_to_receiver)

lemma keeps_save_local: "keeps (save_local_state E h)"
  unfolding save_local_state_def dm_local_sdl_update_def by (intro game_intros)

lemma keeps_save_sdl: "keeps (dm_save_sdl_state E h name obj state)"
  unfolding dm_save_sdl_state_def Let_def by (intro game_intros) (auto intro!: game_intros split: list.split)

lemmas sending_intros = game_intros keeps_propagate keeps_propagate_to keeps_save_local keeps_save_sdl
  sendable_plain sendable_host group_sendable

lemma keeps_bcast_sdl: "keeps (dm_bcast_sdl_state E h c update state)"
  unfolding dm_bcast_sdl_state_def by (intro sending_intros)

lemma keeps_send_state: "keeps (dm_send_state E h c)"
  unfolding dm_send_state_def send_sdl_def aseq.simps by (intro sending_intros)

lemma keeps_collect_members: "keeps (collect_members h c)"
  unfolding collect_members_def by (intro game_intros)

lemma keeps_send_members: "keeps (send_clones E h c) \<Longrightarrow> keeps (dm_send_members E h c)"
  unfolding dm_send_members_def aseq.simps by (intro sending_intros keeps_collect_members)

lemma keeps_bcast_hook: "keeps (dm_bcast_agesdl_hook E h)"
  unfolding dm_bcast_agesdl_hook_def by (intro sending_intros)

end

text \<open>A frame that also allows changes of the states of the age.\<close>

locale state_frame = game_frame +
  assumes R_states: "R w (w\<lparr>w_host := (w_host w)(h := (w_host w h)\<lparr>gh_states := x\<rparr>)\<rparr>)"
    and R_local: "R w (w\<lparr>w_host := (w_host w)(h := (w_host w h)\<lparr>gh_localState := s\<rparr>)\<rparr>)"
    and R_hook: "R w (w\<lparr>w_host := (w_host w)(h := (w_host w h)\<lparr>gh_ageSdlHook := s\<rparr>)\<rparr>)"
    and R_avatar: "R w (w\<lparr>w_client := (w_client w)(c := (w_client w c)\<lparr>gc_key := key, gc_isLoaded := b\<rparr>)\<rparr>)"
begin

lemma keeps_states: "keeps (mod_host h (\<lambda>g. g\<lparr>gh_states := f g\<rparr>))"
  unfolding mod_host_def by (rule keeps_amod) (rule R_states)

lemma keeps_local: "keeps (mod_host h (\<lambda>g. g\<lparr>gh_localState := s\<rparr>))"
  unfolding mod_host_def by (rule keeps_amod) (rule R_local)

lemma keeps_hook: "keeps (mod_host h (\<lambda>g. g\<lparr>gh_ageSdlHook := s\<rparr>))"
  unfolding mod_host_def by (rule keeps_amod) (rule R_hook)

lemma keeps_avatar: "keeps (mod_client c (\<lambda>k. k\<lparr>gc_key := key, gc_isLoaded := b\<rparr>))"
  unfolding mod_client_def by (rule keeps_amod) (rule R_avatar)

lemma keeps_put_state: "keeps (mod_host h (put_state obj name gs))"
  unfolding put_state_def [abs_def] by (rule keeps_states)

lemma keeps_unload: "keeps (unload_avatar E h k)"
  unfolding unload_avatar_def by (intro sending_intros keeps_states)

lemma keeps_store_state: "keeps (store_state E h c m bcast name state)"
  unfolding store_state_def aseq.simps by (intro sending_intros keeps_bcast_sdl keeps_put_state)

lemma keeps_read_hook: "keeps (read_hook E h c m bcast update)"
  unfolding read_hook_def aseq.simps by (intro sending_intros keeps_bcast_sdl keeps_local keeps_hook)

lemma keeps_read_sdl: "keeps (dm_read_sdl E h c m bcast)"
  unfolding dm_read_sdl_def Let_def by (intro sending_intros keeps_store_state keeps_read_hook keeps_put_state)

lemma keeps_merge: "keeps (merge_hook h s)" "keeps (merge_local h s)"
  unfolding merge_hook_def merge_local_def by (intro sending_intros keeps_local keeps_hook)+

lemma keeps_global_update: "keeps (dm_global_sdl_update E h)"
  unfolding dm_global_sdl_update_def by (intro sending_intros keeps_bcast_hook keeps_merge)

lemma keeps_vault_update:
  "(\<And>r. keeps (send_reply c r)) \<Longrightarrow> keeps (dm_vault_sdl_update E h c node blob)"
  unfolding dm_vault_sdl_update_def
  by (auto intro!: sending_intros keeps_bcast_hook keeps_merge split: sum.split State.split)

text \<open>The messages of the clients, given the handlers that relay objects of the clients or change locks.\<close>

lemma keeps_dispatch:
  assumes "\<And>m. keeps (dm_test_and_set E h c m)" and "keeps (on_game_message E h c n)"
    and "keeps (on_directed_message E c n)" and "\<And>m. Option.bind n cast_LoadClone = Some m \<Longrightarrow> keeps (dm_load_clone E h c m)"
    and "\<And>m. Option.bind n cast_Voice = Some m \<Longrightarrow> sendable (Creatable (the n))" and "keeps (send_clones E h c)"
  shows "keeps (dispatch E h c type n)"
  unfolding dispatch_def
  using assms(1) assms(2,3,6) assms(4) assms(5)
  by (intro sending_intros keeps_send_state keeps_send_members keeps_read_sdl) auto

lemma keeps_message:
  assumes "\<And>r. keeps (send_reply c r)"
    and "\<And>n rest. Factory_Read (Factory_read (game_lib E) (ge_fuel E)) is_NetMessage message = Inr (n, rest) \<Longrightarrow>
      keeps (dispatch E h c type (map_option node_of n))"
  shows "keeps (dm_game_message E h c type message)"
  using assms unfolding dm_game_message_def
  by (auto simp: null_pointer_def intro!: sending_intros split: sum.split ds_error.split)

end

text \<open>A frame that does not look at what is sent, at the clones or at the tables of the daemon.\<close>

locale open_frame = state_frame R "\<lambda>_. True" E for R :: "world \<Rightarrow> world \<Rightarrow> bool" and E :: game_env +
  assumes R_clones: "R w (w\<lparr>w_host := (w_host w)(h := (w_host w h)\<lparr>gh_clones := y\<rparr>)\<rparr>)"
begin

lemma keeps_clones: "keeps (mod_host h (\<lambda>g. g\<lparr>gh_clones := f g\<rparr>))"
  unfolding mod_host_def by (rule keeps_amod) (rule R_clones)

lemma keeps_keep_clone: "keeps (keep_clone h c m)"
  unfolding keep_clone_def aseq.simps by (intro sending_intros keeps_avatar keeps_clones)

lemma keeps_load_clone: "keeps (dm_load_clone E h c m)"
  unfolding dm_load_clone_def Let_def null_pointer_def aseq.simps by (intro sending_intros keeps_keep_clone)

lemma keeps_send_clones: "keeps (send_clones E h c)"
  unfolding send_clones_def by (intro sending_intros)

lemma keeps_on_game_message: "keeps (on_game_message E h c n)"
  unfolding on_game_message_def Let_def by (intro sending_intros keeps_broadcast)

lemma keeps_on_directed_message: "keeps (on_directed_message E c n)"
  unfolding on_directed_message_def Let_def by (intro sending_intros)

lemma keeps_dispatch_open: "(\<And>m. keeps (dm_test_and_set E h c m)) \<Longrightarrow> keeps (dispatch E h c type n)"
  by (rule keeps_dispatch) (simp_all add: keeps_on_game_message keeps_on_directed_message keeps_load_clone keeps_send_clones)

lemma keeps_message_open:
  "(\<And>m. keeps (dm_test_and_set E h c m)) \<Longrightarrow> (\<And>r. keeps (send_reply c r)) \<Longrightarrow> keeps (dm_game_message E h c type message)"
  by (rule keeps_message) (simp_all add: keeps_dispatch_open)

end

text \<open>A frame that allows changes of the locks.\<close>

locale lock_frame = open_frame +
  assumes R_locks: "R w (w\<lparr>w_host := (w_host w)(h := (w_host w h)\<lparr>gh_locks := x\<rparr>)\<rparr>)"
begin

lemma keeps_locks: "keeps (mod_host h (\<lambda>g. g\<lparr>gh_locks := f g\<rparr>))"
  unfolding mod_host_def by (rule keeps_amod) (rule R_locks)

lemma keeps_test_and_set: "keeps (dm_test_and_set E h c m)"
  unfolding dm_test_and_set_def Let_def by (intro sending_intros keeps_locks)

lemma keeps_dispatch_all: "keeps (dispatch E h c type n)"
  by (intro keeps_dispatch_open keeps_test_and_set)

end

end
