(* ===== verification/Game_Session.thy ===== *)
theory Game_Session
  imports Game_Frames Sdl_Typing
begin

text \<open>
  Properties of the game host: every request is answered once, who receives what, locks, the game
  master, and what other players can be sent by a player who is not an administrator.
\<close>

section \<open>Answers\<close>

definition channels :: "world \<Rightarrow> client \<Rightarrow> u32 list" where
  "channels w c = gc_channel (w_client w c)"

interpretation quiet: lock_frame "\<lambda>w w'. channels w' = channels w" E for E
  by unfold_locales (auto simp: channels_def fun_eq_iff)

text \<open>An action that answers \<open>c\<close> once when it returns, and nobody when it throws.\<close>

fun answered :: "client \<Rightarrow> world \<Rightarrow> (act_error + unit) \<times> world \<Rightarrow> bool" where
  "answered c w (Inr _, w') \<longleftrightarrow> (\<exists>r. channels w' = (channels w)(c := channels w c @ [r]))"
| "answered c w (Inl e, w') \<longleftrightarrow> channels w' = channels w"

definition answers :: "client \<Rightarrow> unit gact \<Rightarrow> bool" where
  "answers c a \<longleftrightarrow> (\<forall>w. answered c w (a w))"

lemma answersD: "answers c a \<Longrightarrow> answered c w (a w)"
  by (simp add: answers_def)

lemma answered_cong: "channels w = channels w' \<Longrightarrow> answered c w p = answered c w' p"
  by (cases "(c, w, p)" rule: answered.cases) simp_all

lemma answers_send_reply: "answers c (send_reply c r)"
  by (auto simp: answers_def send_reply_def mod_client_def amod_def channels_def fun_eq_iff)

lemma answers_afail: "answers c (afail e)"
  by (simp add: answers_def afail_def)

lemma answers_abind:
  assumes "quiet.keeps a" and "\<And>x. answers c (f x)"
  shows "answers c (abind a f)"
proof -
  have "answered c w (abind a f w)" for w
  proof (cases "a w")
    case (Pair r w')
    then have "channels w' = channels w" using quiet.keepsD [OF assms(1), of w] by simp
    then show ?thesis
      using answersD [OF assms(2), of w'] Pair by (cases r) (simp_all add: abind_def answered_cong [of w' w])
  qed
  then show ?thesis by (simp add: answers_def)
qed

lemma answers_athen: "quiet.keeps a \<Longrightarrow> answers c b \<Longrightarrow> answers c (athen a b)"
  unfolding athen_def by (rule answers_abind)

lemma aseq_single [simp]: "aseq [a] = a"
  by (rule ext) (simp add: athen_def abind_def aret_def split: prod.split sum.split)

lemma answers_aseq: "quiet.keeps a \<Longrightarrow> answers c (aseq (b # bs)) \<Longrightarrow> answers c (aseq (a # b # bs))"
  by (simp del: aseq.simps add: aseq.simps(2) [of a] answers_athen)

lemma answers_last: "answers c a \<Longrightarrow> answers c (aseq [a])"
  by (simp only: aseq_single)

lemma answers_if: "answers c a \<Longrightarrow> answers c b \<Longrightarrow> answers c (if P then a else b)"
  by simp

lemma answers_deref: "(\<And>x. answers c (f x)) \<Longrightarrow> answers c (deref p f)"
  by (simp add: deref_def null_pointer_def answers_afail split: option.split)

lemma answers_prod: "(\<And>x y. answers c (f x y)) \<Longrightarrow> answers c (case p of (x, y) \<Rightarrow> f x y)"
  by (simp split: prod.split)

lemmas answers_intros = answers_send_reply answers_afail answers_abind answers_athen answers_aseq answers_last
  answers_if answers_deref answers_prod

lemma quiet_master: "quiet.keeps (mod_host h (\<lambda>g. g\<lparr>gh_gameMaster := m\<rparr>))"
  unfolding mod_host_def by (rule quiet.keeps_amod) (simp add: channels_def fun_eq_iff)

lemma quiet_admin: "quiet.keeps (mod_client c (\<lambda>k. k\<lparr>gc_isAdmin := b\<rparr>))"
  unfolding mod_client_def by (rule quiet.keeps_amod) (simp add: channels_def fun_eq_iff)

lemma quiet_channel: "quiet.keeps (mod_host h (\<lambda>g. g\<lparr>gh_channel := f g\<rparr>))"
  unfolding mod_host_def by (rule quiet.keeps_amod) (simp add: channels_def fun_eq_iff)

lemma quiet_reassign: "quiet.keeps (reassign_master E h k)"
  unfolding reassign_master_def
  by (intro quiet.sending_intros) (auto intro!: quiet.sending_intros quiet.keeps_send_buf quiet_master split: list.split)

lemma answers_disconnect: "answers c (dm_game_disconnect E h c)"
  unfolding dm_game_disconnect_def
  by (intro answers_intros quiet.sending_intros quiet.keeps_unload quiet.keeps_locks quiet_reassign quiet_channel)

lemma answers_join: "answers c (dm_game_join E h c)"
  unfolding dm_game_join_def
  by (intro answers_intros quiet.sending_intros quiet_master quiet_admin)

lemma answers_message: "answers c (dm_game_message E h c type message)"
  unfolding dm_game_message_def
  by (auto simp: null_pointer_def intro!: answers_intros quiet.keeps_acatch_if quiet.keeps_aret quiet.keeps_dispatch_all split: sum.split ds_error.split)


section \<open>Handlers that return\<close>

text \<open>
  A host is ready when the mutex of its client table is free and the local state is one that can be
  written. \<open>calm\<close>: the action throws nothing and leaves the local state as it is. \<open>clean\<close>: started on a ready
  host it throws nothing and leaves the host ready.
\<close>

definition state_ok :: "State \<Rightarrow> bool" where
  "state_ok s \<longleftrightarrow> s = NullState \<or> State_typed s \<and> State_writable s"

definition ready :: "host \<Rightarrow> world \<Rightarrow> bool" where
  "ready h w \<longleftrightarrow> \<not> gh_clientMutex (w_host w h) \<and> state_ok (gh_localState (w_host w h))"

definition calm :: "host \<Rightarrow> 'a gact \<Rightarrow> bool" where
  "calm h a \<longleftrightarrow>
     (\<forall>w. gh_localState (w_host (snd (a w)) h) = gh_localState (w_host w h)
        \<and> (\<exists>x. fst (a w) = Inr x))"

definition clean :: "host \<Rightarrow> 'a gact \<Rightarrow> bool" where
  "clean h a \<longleftrightarrow> (\<forall>w. ready h w \<longrightarrow> ready h (snd (a w)) \<and> (\<exists>x. fst (a w) = Inr x))"

lemma cleanD:
  assumes "clean h a" and "ready h w"
  shows "ready h (snd (a w))" and "\<exists>x. fst (a w) = Inr x"
  using assms by (auto simp: clean_def)

lemma clean_basic:
  "clean h (aret x)" "clean h (aget f)" "clean h (acall g)" "clean h (send_reply c r)" "clean h (send_buf c b)"
  by (simp_all add: clean_def ready_def act_simps acall_def send_reply_def send_buf_def mod_client_def)

lemma clean_alift: "\<exists>x. r = Inr x \<Longrightarrow> clean h (alift r)"
  by (auto simp: clean_def act_simps)

lemma clean_abind: "clean h a \<Longrightarrow> (\<And>x. clean h (f x)) \<Longrightarrow> clean h (abind a f)"
  unfolding clean_def abind_def by (auto split: prod.split sum.split)

lemma clean_athen: "clean h a \<Longrightarrow> clean h b \<Longrightarrow> clean h (athen a b)"
  unfolding athen_def by (rule clean_abind)

lemma clean_awhen: "clean h a \<Longrightarrow> clean h (awhen b a)"
  by (simp add: awhen_def clean_basic)

lemma clean_aseq_map: "(\<And>x. x \<in> set xs \<Longrightarrow> clean h (f x)) \<Longrightarrow> clean h (aseq (map f xs))"
  by (induction xs) (simp_all add: clean_basic clean_athen)

lemma clean_if: "clean h a \<Longrightarrow> clean h b \<Longrightarrow> clean h (if P then a else b)"
  by simp

lemma clean_prod: "(\<And>x y. clean h (f x y)) \<Longrightarrow> clean h (case p of (x, y) \<Rightarrow> f x y)"
  by (simp split: prod.split)

lemma clean_mod_client: "clean h (mod_client c f)"
  by (simp add: clean_def ready_def mod_client_def amod_def)

lemma clean_mod_host:
  "(\<And>g. gh_clientMutex (f g) = gh_clientMutex g \<and> gh_localState (f g) = gh_localState g) \<Longrightarrow> clean h (mod_host h' f)"
  by (simp add: clean_def ready_def mod_host_def amod_def)

lemma clean_reads: "clean h (ahost h')" "clean h (aclient c)" "clean h (now E)"
  unfolding ahost_def aclient_def now_def by (rule clean_basic)+

lemma clean_lock_guard:
  assumes "calm h a" shows "clean h (lock_guard h a)"
  unfolding clean_def
proof (intro allI impI)
  fix w assume ready: "ready h w"
  define w1 where "w1 = w\<lparr>w_host := (w_host w)(h := (w_host w h)\<lparr>gh_clientMutex := True\<rparr>)\<rparr>"
  have "lock_guard h a w = (fst (a w1), snd (unlock_clients h (snd (a w1))))"
    using ready
    by (simp add: lock_guard_def lock_clients_def ready_def mod_host_def act_simps w1_def split: prod.split)
  moreover have "gh_localState (w_host (snd (a w1)) h) = gh_localState (w_host w h)"
    using assms by (simp add: calm_def w1_def)
  ultimately show "ready h (snd (lock_guard h a w)) \<and> (\<exists>x. fst (lock_guard h a w) = Inr x)"
    using ready assms by (simp add: ready_def calm_def unlock_clients_def mod_host_def act_simps)
qed

lemma calm_basic: "calm h (aret x)" "calm h (aget f)" "calm h (mod_client c m)" "calm h (send_buf c b)"
  by (simp_all add: calm_def act_simps mod_client_def send_buf_def)

lemma calm_mod_host: "(\<And>g. gh_localState (f g) = gh_localState g) \<Longrightarrow> calm h (mod_host h' f)"
  by (simp add: calm_def act_simps mod_host_def)

lemma calm_abind: "calm h a \<Longrightarrow> (\<And>x. calm h (f x)) \<Longrightarrow> calm h (abind a f)"
  unfolding calm_def abind_def by (simp add: split_beta split: sum.split) (metis Inl_Inr_False)

lemma calm_athen: "calm h a \<Longrightarrow> calm h b \<Longrightarrow> calm h (athen a b)"
  unfolding athen_def by (rule calm_abind)

lemma calm_awhen: "calm h a \<Longrightarrow> calm h (awhen b a)"
  by (simp add: awhen_def calm_basic)

lemma calm_aseq_map: "(\<And>x. x \<in> set xs \<Longrightarrow> calm h (f x)) \<Longrightarrow> calm h (aseq (map f xs))"
  by (induction xs) (simp_all add: calm_basic calm_athen)

lemma calm_reads: "calm h (ahost h')" "calm h (aclient c)"
  unfolding ahost_def aclient_def by (rule calm_basic)+

lemmas clean_intros = clean_basic clean_reads clean_abind clean_athen clean_awhen clean_aseq_map
  clean_if clean_prod clean_mod_client clean_mod_host clean_lock_guard clean_alift
  calm_basic calm_reads calm_abind calm_athen calm_awhen calm_aseq_map calm_mod_host

lemma host_messages_written:
  "\<exists>b. writebuf L (group_message own t) = Inr b" "\<exists>b. writebuf L (member_message add k t) = Inr b"
  "\<exists>b. writebuf L (unload_message k t) = Inr b" "\<exists>b. writebuf L (lock_reply obj affirm t) = Inr b"
  by (simp_all add: writebuf_def group_message_def member_message_def unload_message_def lock_reply_def WriteCreatable_def
      NetMsgStream_write_def split: sum.splits)

lemma clean_send_to_host: "clean h (send_to_host msg sender buf h)"
  unfolding send_to_host_def send_unless_sender_def comp_def by (intro clean_intros)

lemma clean_propagate: "\<exists>b. writebuf (game_lib E) msg = Inr b \<Longrightarrow> clean h (dm_propagate E h msg sender)"
  unfolding dm_propagate_def by (intro clean_intros clean_send_to_host) auto

lemma clean_send_msg: "\<exists>b. writebuf (game_lib E) msg = Inr b \<Longrightarrow> clean h (send_msg E msg c)"
  unfolding send_msg_def by (intro clean_intros) auto

lemma clean_join: "clean h (dm_game_join E h c)"
  unfolding dm_game_join_def aseq.simps
  by (intro clean_intros clean_propagate clean_send_msg host_messages_written) simp_all

lemma clean_reassign: "clean h (reassign_master E h k)"
proof -
  have "calm h (case cs of (_, owner) # _ \<Rightarrow>
          abind (aclient owner) (\<lambda>k'. athen (mod_host h (\<lambda>g. g\<lparr>gh_gameMaster := playerId k'\<rparr>)) (send_buf owner buf))
        | [] \<Rightarrow> mod_host h (\<lambda>g. g\<lparr>gh_gameMaster := 0\<rparr>))" for cs buf
    by (auto intro!: clean_intros split: list.split prod.split)
  then show ?thesis
    unfolding reassign_master_def using host_messages_written(1) [of "game_lib E"]
    by (intro clean_intros) auto
qed

lemma clean_unload: "clean h (unload_avatar E h k)"
  unfolding unload_avatar_def by (intro clean_intros clean_propagate host_messages_written) simp

lemma typed_toBlob:
  assumes "state_ok s"
  shows "\<exists>b. State_toBlob L s = Inr b"
proof (cases s)
  case (State d vars obj f)
  then obtain b where "State_write L s = Inr b"
    using assms write_ok(3) unfolding no_error_def state_ok_def by blast
  then show ?thesis using State by (simp add: State_toBlob_def)
qed (simp add: State_toBlob_def)

lemma clean_save_local: "clean h (save_local_state E h)"
  unfolding clean_def
proof (intro allI impI)
  fix w assume ready: "ready h w"
  then obtain b where "State_toBlob (game_lib E) (gh_localState (w_host w h)) = Inr b"
    using typed_toBlob unfolding ready_def by blast
  then show "ready h (snd (save_local_state E h w)) \<and> (\<exists>x. fst (save_local_state E h w) = Inr x)"
    using ready by (simp add: save_local_state_def dm_local_sdl_update_def ahost_def act_simps ready_def)
qed

lemma clean_disconnect: "clean h (dm_game_disconnect E h c)"
  unfolding dm_game_disconnect_def aseq.simps
  by (intro clean_intros clean_unload clean_propagate clean_reassign clean_save_local host_messages_written) simp_all

section \<open>Properties: answers\<close>

text \<open>The requests whose worker waits for one result.\<close>

fun request :: "client \<Rightarrow> host_msg \<Rightarrow> bool" where
  "request c (e_GameDisconnect c') = (c' = c)"
| "request c (e_GameJoinAge c') = (c' = c)"
| "request c (e_GamePropagate c' _ _) = (c' = c)"
| "request c _ = False"

lemma request_answers: "request c msg \<Longrightarrow> answers c (handle E h msg)"
  by (cases msg) (simp_all add: answers_disconnect answers_join answers_message)

lemma request_payload: "request c msg \<Longrightarrow> payload msg = Some c"
  by (cases msg) simp_all

lemma answered_catch:
  assumes "answers c a"
  shows "answered c w (acatch a (send_reply c r) w)"
proof -
  obtain x w' where "a w = (x, w')" by fastforce
  moreover have "answered c w (a w)" by (rule answersD [OF assms])
  moreover have "answered c w' (send_reply c r w')" by (rule answersD [OF answers_send_reply])
  ultimately show ?thesis
    by (cases x) (auto simp: acatch_def acatch_if_def answered_cong [of w' w] simp del: answered.simps(1))
qed

lemma dm_gameHost_head:
  assumes "gh_channel (w_host w h) = msg # rest"
  shows "dm_gameHost E h w =
    acatch (handle E h msg) (case payload msg of Some c \<Rightarrow> send_reply c 1 | None \<Rightarrow> aret ())
      (w\<lparr>w_host := (w_host w)(h := (w_host w h)\<lparr>gh_channel := rest\<rparr>)\<rparr>)"
  using assms by (simp add: dm_gameHost_def ahost_def mod_host_def act_simps)

lemma answered_or_stuck:
  assumes "gh_channel (w_host w h) = msg # rest" and "request c msg" and "dm_gameHost E h w = (r, w')"
  shows "(r = Inr () \<and> (\<exists>result. channels w' = (channels w)(c := channels w c @ [result])))
     \<or> (\<exists>e. r = Inl e \<and> \<not> std_exception e \<and> channels w' = channels w)"
proof -
  define w1 where "w1 = w\<lparr>w_host := (w_host w)(h := (w_host w h)\<lparr>gh_channel := rest\<rparr>)\<rparr>"
  have w1: "channels w1 = channels w" by (simp add: w1_def channels_def fun_eq_iff)
  have "(r, w') = acatch (handle E h msg) (send_reply c 1) w1"
    using assms dm_gameHost_head [OF assms(1), of E] by (simp add: request_payload w1_def)
  then have "answered c w (r, w')"
    and "r = Inl e \<Longrightarrow> \<not> std_exception e" for e
    using answered_catch [OF request_answers [OF assms(2)], where w = w1] answered_cong [OF w1]
    by (auto simp: acatch_def acatch_if_def send_reply_def mod_client_def amod_def split: prod.splits sum.splits if_splits)
  then show ?thesis by (cases r) auto
qed

text \<open>
  C7: every request a worker puts on the channel of the host and waits for (join, disconnect, a message to
  propagate) is answered exactly once when the host is done with it, whether its handler returned or
  threw, and no other worker gets a result; if the host is not done with it, then not because of an
  exception.
\<close>

theorem request_answered_once:
  assumes "gh_channel (w_host w h) = msg # rest" and "request c msg" and "dm_gameHost E h w = (r, w')"
  shows "(r = Inr () \<and> (\<exists>result. channels w' = (channels w)(c := channels w c @ [result])))
     \<or> (\<exists>e. r = Inl e \<and> \<not> std_exception e \<and> channels w' = channels w)"
  using assms by (rule answered_or_stuck)

lemma handled_cleanly:
  assumes "gh_channel (w_host w h) = msg # rest" and "clean h (handle E h msg)" and "ready h w"
  shows "\<exists>w'. dm_gameHost E h w = (Inr (), w') \<and> ready h w'
     \<and> handle E h msg (w\<lparr>w_host := (w_host w)(h := (w_host w h)\<lparr>gh_channel := rest\<rparr>)\<rparr>) = (Inr (), w')"
proof -
  define w1 where "w1 = w\<lparr>w_host := (w_host w)(h := (w_host w h)\<lparr>gh_channel := rest\<rparr>)\<rparr>"
  have ready: "ready h w1" using assms(3) by (simp add: ready_def w1_def)
  obtain x w' where rw: "handle E h msg w1 = (x, w')" by fastforce
  with cleanD [OF assms(2) ready] have "ready h w'" "x = Inr ()" by auto
  then show ?thesis
    using rw dm_gameHost_head [OF assms(1), of E] by (simp add: acatch_def acatch_if_def w1_def)
qed

text \<open>
  A worker that joins or leaves is not kept waiting. When the mutex of the client table is free and the
  local state of the age is well typed, one round of the host answers it, and leaves the mutex free and the state
  well typed for the next message.
\<close>

theorem arrivals_and_departures_answered:
  assumes "gh_channel (w_host w h) = msg # rest" and "msg = e_GameJoinAge c \<or> msg = e_GameDisconnect c"
    and "ready h w"
  shows "\<exists>w' result. dm_gameHost E h w = (Inr (), w') \<and> ready h w'
     \<and> channels w' = (channels w)(c := channels w c @ [result])"
proof -
  have "clean h (handle E h msg)" using assms(2) clean_join clean_disconnect by auto
  then obtain w' where "dm_gameHost E h w = (Inr (), w')" "ready h w'"
    using handled_cleanly [OF assms(1) _ assms(3)] by blast
  moreover have "request c msg" using assms(2) by auto
  ultimately show ?thesis using answered_or_stuck [OF assms(1)] by blast
qed

section \<open>Two players in an age\<close>

definition sample_genv :: game_env where
  "sample_genv = \<lparr>ge_sdl = sample_env, ge_fuel = 3, ge_clock = (\<lambda>_. UnifiedTime 9 0),
     ge_readClock = (\<lambda>_ _. UnifiedTime 9 0), ge_join = (\<lambda>_ _ _. (0, False)), ge_rows = (\<lambda>_ _ _ _. Some []),
     ge_base64 = (\<lambda>b. b), ge_seqPrefix = (\<lambda>_. 0)\<rparr>"

definition sample_guid :: "u32 \<Rightarrow> ClientGuid" where
  "sample_guid player = \<lparr>cg_flags = 2, cg_AcctUuid = Uuid_null, cg_PlayerId = player, cg_PlayerName = [], cg_CCRLevel = 0,
     cg_ProtectedLogin = False, cg_BuildType = 0, cg_SrcAddr = 0, cg_SrcPort = 0, cg_Reserved = 0, cg_ClientKey = []\<rparr>"

definition sample_player :: "u32 \<Rightarrow> GameClient" where
  "sample_player player = \<lparr>gc_info = sample_guid player, gc_key = Uoid_new, gc_isLoaded = False, gc_isAdmin = False,
     gc_channel = [], gc_broadcast = [], gc_closed = False\<rparr>"

definition sample_age :: "(u32 \<times> client) list \<Rightarrow> host_msg list \<Rightarrow> GameHost" where
  "sample_age clients msgs = \<lparr>gh_ageFilename = [65], gh_ageIdx = 5, gh_serverIdx = 1, gh_clients = clients, gh_clones = [],
     gh_locks = [], gh_gameMaster = 100, gh_clientMutex = False, gh_channel = msgs, gh_states = [], gh_sdlIdx = 6,
     gh_globalState = NullState, gh_localState = NullState, gh_ageSdlHook = NullState, gh_temp = False,
     gh_alive = True\<rparr>"

definition sample_game_world :: "(u32 \<times> client) list \<Rightarrow> host_msg list \<Rightarrow> world" where
  "sample_game_world clients msgs = \<lparr>w_client = (\<lambda>c. sample_player (100 + of_nat c)),
     w_host = (\<lambda>h. sample_age clients msgs), w_gameHosts = [(1, 0)], w_threads = [0], w_vault = [], w_sql = [], w_calls = 0\<rparr>"

lemma sample_game_channel: "gh_channel (w_host (sample_game_world clients msgs) h) = msgs"
  by (simp add: sample_game_world_def sample_age_def)

lemma sample_game_ready: "ready h (sample_game_world clients msgs)"
  by (simp add: sample_game_world_def sample_age_def ready_def state_ok_def)

theorem request_answered_once_witness:
  "\<exists>r w'. dm_gameHost sample_genv 0 (sample_game_world [(100, 0)] [e_GameJoinAge 1]) = (r, w')
     \<and> ((r = Inr () \<and> (\<exists>result. channels w' = (channels (sample_game_world [(100, 0)] [e_GameJoinAge 1]))
            (1 := channels (sample_game_world [(100, 0)] [e_GameJoinAge 1]) 1 @ [result])))
        \<or> (\<exists>e. r = Inl e \<and> \<not> std_exception e
             \<and> channels w' = channels (sample_game_world [(100, 0)] [e_GameJoinAge 1])))"
proof -
  obtain r w' where "dm_gameHost sample_genv 0 (sample_game_world [(100, 0)] [e_GameJoinAge 1]) = (r, w')"
    by fastforce
  then show ?thesis using request_answered_once [OF sample_game_channel, where c = 1] by auto
qed

theorem arrivals_and_departures_answered_witness:
  "\<exists>w' result. dm_gameHost sample_genv 0 (sample_game_world [(100, 0)] [e_GameDisconnect 1]) = (Inr (), w') \<and> ready 0 w'
     \<and> channels w' = (channels (sample_game_world [(100, 0)] [e_GameDisconnect 1]))
         (1 := channels (sample_game_world [(100, 0)] [e_GameDisconnect 1]) 1 @ [result])"
  by (rule arrivals_and_departures_answered [OF sample_game_channel _ sample_game_ready]) simp

end
