(* ===== verification/Game_Locks.thy ===== *)
theory Game_Locks
  imports Game_Session
begin

text \<open>
  The locks of the game host and its game master. The tables keyed by object identifiers satisfy the
  laws of a map up to the equality of identifiers; with them, a lock stays with its holder until the
  holder releases it or leaves.
\<close>

section \<open>Tables keyed by object identifiers\<close>

lemma Uoid_eq_key:
  "Uoid_eq a b \<longleftrightarrow> (m_sequence (m_location a), u_type a, u_name a, u_id a, m_cloneId a, m_clonePlayerId a)
     = (m_sequence (m_location b), u_type b, u_name b, u_id b, m_cloneId b, m_clonePlayerId b)"
  by (simp add: Uoid_eq_def Location_eq_def)

locale keyed_map =
  fixes eq :: "'k \<Rightarrow> 'k \<Rightarrow> bool" and find' :: "'k \<Rightarrow> 'm \<Rightarrow> 'v option"
    and put :: "'k \<Rightarrow> 'v \<Rightarrow> 'm \<Rightarrow> 'm" and erase :: "'k \<Rightarrow> 'm \<Rightarrow> 'm"
  assumes eq_refl: "eq k k"
    and find_cong: "eq k k' \<Longrightarrow> find' k m = find' k' m"
    and find_put: "find' k (put k' v m) = (if eq k' k then Some v else find' k m)"
    and find_erase: "find' k (erase k' m) = (if eq k' k then None else find' k m)"
begin

text \<open>Test and set, and the release by the holder.\<close>

definition acquire :: "'k \<Rightarrow> 'v \<Rightarrow> 'm \<Rightarrow> 'm" where
  "acquire k v m = (if find' k m = None then put k v m else m)"

definition release :: "'k \<Rightarrow> 'v \<Rightarrow> 'm \<Rightarrow> 'm" where
  "release k v m = (if find' k m = Some v then erase k m else m)"

lemma acquire_free: "find' k m = None \<Longrightarrow> find' k (acquire k v m) = Some v"
  by (simp add: acquire_def find_put eq_refl)

lemma acquire_other: "\<not> eq k' k \<Longrightarrow> find' k (acquire k' v m) = find' k m"
  by (simp add: acquire_def find_put)

lemma acquire_held: "find' k m = Some v \<Longrightarrow> find' k (acquire k' v' m) = Some v"
  using find_cong [of k' k m] by (auto simp: acquire_def find_put)

lemma release_other: "find' k m = Some v \<Longrightarrow> v \<noteq> v' \<Longrightarrow> find' k (release k' v' m) = Some v"
  using find_cong [of k' k m] by (auto simp: release_def find_erase)

lemma release_own: "find' k m = Some v \<Longrightarrow> find' k (release k v m) = None"
  by (simp add: release_def find_erase eq_refl)

end

lemma ufind_cong: "Uoid_eq k k' \<Longrightarrow> ufind k m = ufind k' m"
  by (simp add: ufind_def Uoid_eq_key)

lemma ufind_uput: "ufind k (uput k' v m) = (if Uoid_eq k' k then Some v else ufind k m)"
  by (induction m) (auto simp: ufind_def Uoid_eq_key)

lemma ufind_uerase: "ufind k (uerase k' m) = (if Uoid_eq k' k then None else ufind k m)"
  by (induction m) (auto simp: ufind_def uerase_def Uoid_eq_key)

interpretation uoids: keyed_map Uoid_eq ufind uput uerase
  by unfold_locales (simp_all add: ufind_uput ufind_uerase ufind_cong, simp add: Uoid_eq_key)

lemma ufind_filter:
  assumes "ufind k m = Some v" and "\<And>k. P (k, v)" shows "ufind k (filter P m) = Some v"
  using assms by (induction m) (auto simp: ufind_def split: if_splits)

section \<open>Lock requests\<close>

lemma send_lock_reply:
  "\<exists>buf. writebuf (game_lib E) (lock_reply obj affirm (ge_clock E (w_calls w))) = Inr buf
     \<and> abind (now E) (\<lambda>t. send_msg E (lock_reply obj affirm t) c) w =
       (Inr (), w\<lparr>w_calls := Suc (w_calls w),
          w_client := (w_client w)(c := (w_client w c)\<lparr>gc_broadcast := gc_broadcast (w_client w c) @ [buf]\<rparr>)\<rparr>)"
proof -
  obtain buf where "writebuf (game_lib E) (lock_reply obj affirm (ge_clock E (w_calls w))) = Inr buf"
    using host_messages_written(4) by blast
  then show ?thesis
    by (simp add: now_def acall_def send_msg_def send_buf_def mod_client_def abind_def alift_def act_simps)
qed

lemma lock_request_spec:
  fixes m E h c w
  defines "obj \<equiv> no_object (sh_base m)" and "locks \<equiv> gh_locks (w_host w h)"
  assumes "sh_lockRequest m \<noteq> 0"
  shows "\<exists>w' buf. dm_test_and_set E h c m w = (Inr (), w')
     \<and> writebuf (game_lib E) (lock_reply obj (ufind obj locks = None) (ge_clock E (w_calls w))) = Inr buf
     \<and> gh_locks (w_host w' h) = uoids.acquire obj (playerId (w_client w c)) locks
     \<and> gc_broadcast (w_client w' c) = gc_broadcast (w_client w c) @ [buf]
     \<and> (\<forall>c. gc_info (w_client w' c) = gc_info (w_client w c))"
proof -
  define w1 where "w1 = (if ufind obj locks = None
    then w\<lparr>w_host := (w_host w)(h := (w_host w h)\<lparr>gh_locks := uput obj (playerId (w_client w c)) locks\<rparr>)\<rparr> else w)"
  obtain buf where "writebuf (game_lib E) (lock_reply obj (ufind obj locks = None) (ge_clock E (w_calls w))) = Inr buf"
    "abind (now E) (\<lambda>t. send_msg E (lock_reply obj (ufind obj locks = None) t) c) w1 =
       (Inr (), w1\<lparr>w_calls := Suc (w_calls w),
          w_client := (w_client w)(c := (w_client w c)\<lparr>gc_broadcast := gc_broadcast (w_client w c) @ [buf]\<rparr>)\<rparr>)"
    using send_lock_reply [of E obj "ufind obj locks = None" w1 c] by (auto simp: w1_def split: if_splits)
  moreover have "dm_test_and_set E h c m w =
      abind (now E) (\<lambda>t. send_msg E (lock_reply obj (ufind obj locks = None) t) c) w1"
    using assms(3)
    by (simp add: dm_test_and_set_def Let_def ahost_def aclient_def mod_host_def awhen_def act_simps
        w1_def obj_def locks_def)
  ultimately show ?thesis by (simp add: uoids.acquire_def w1_def locks_def)
qed

lemma lock_release_spec:
  assumes "sh_lockRequest m = 0"
  shows "dm_test_and_set E h c m w =
     (Inr (), w\<lparr>w_host := (w_host w)(h := (w_host w h)\<lparr>gh_locks :=
        uoids.release (no_object (sh_base m)) (playerId (w_client w c)) (gh_locks (w_host w h))\<rparr>)\<rparr>)"
  using assms
  by (simp add: dm_test_and_set_def Let_def ahost_def aclient_def mod_host_def awhen_def athen_def abind_def act_simps
      uoids.release_def)

section \<open>A lock stays with its holder\<close>

definition held :: "host \<Rightarrow> Uoid \<Rightarrow> u32 \<Rightarrow> (client \<Rightarrow> bool) \<Rightarrow> world \<Rightarrow> bool" where
  "held h obj p by' w \<longleftrightarrow>
     ufind obj (gh_locks (w_host w h)) = Some p \<and> (\<forall>c. by' c \<longrightarrow> playerId (w_client w c) \<noteq> p)"

interpretation hold: open_frame "\<lambda>w w'. held h obj p by' w \<longrightarrow> held h obj p by' w'" E for h obj p by' E
  by unfold_locales (auto simp: held_def playerId_def)

interpretation hold_inv: guarded_frame "\<lambda>w w'. held h obj p by' w \<longrightarrow> held h obj p by' w'" "held h obj p by'"
  for h obj p by'
  by unfold_locales simp

lemma held_mod:
  "hold.keeps h obj p by' (send_reply c' r)" "hold.keeps h obj p by' (mod_host h' (\<lambda>g. g\<lparr>gh_gameMaster := m\<rparr>))"
  "hold.keeps h obj p by' (mod_client c' (\<lambda>k. k\<lparr>gc_isAdmin := b\<rparr>))"
  "hold.keeps h obj p by' (mod_host h' (\<lambda>g. g\<lparr>gh_channel := f g\<rparr>))"
  unfolding send_reply_def mod_host_def mod_client_def
  by (rule hold.keeps_amod, simp add: held_def playerId_def)+

lemma held_test_and_set:
  assumes "by' c"
  shows "hold.keeps h obj p by' (dm_test_and_set E h c m)"
proof -
  have "held h obj p by' (snd (dm_test_and_set E h c m w))" if "held h obj p by' w" for w
  proof (cases "sh_lockRequest m = 0")
    case True
    then show ?thesis
      using that assms by (auto simp: lock_release_spec held_def uoids.release_other)
  next
    case False
    then show ?thesis
      using that assms lock_request_spec [of m E h c w] by (auto simp: held_def uoids.acquire_held playerId_def)
  qed
  then show ?thesis by (simp add: hold.keeps_def)
qed

lemma held_reassign: "hold.keeps h obj p by' (reassign_master E h' k)"
  unfolding reassign_master_def
  by (intro hold.sending_intros) (auto intro!: hold.sending_intros hold.keeps_send_buf held_mod split: list.split)

lemma held_join: "hold.keeps h obj p by' (dm_game_join E h' c')"
  unfolding dm_game_join_def aseq.simps by (intro hold.sending_intros held_mod)

lemma held_unlock_stale:
  assumes "playerId k \<noteq> p"
  shows "hold.keeps h obj p by' (mod_host h' (\<lambda>g. g\<lparr>gh_locks := filter (\<lambda>e. snd e \<noteq> playerId k) (gh_locks g)\<rparr>))"
  using assms unfolding mod_host_def
  by (intro hold.keeps_amod) (auto simp: held_def ufind_filter)

lemma held_disconnect:
  assumes "by' c"
  shows "hold.keeps h obj p by' (dm_game_disconnect E h c)"
  unfolding dm_game_disconnect_def aclient_def
proof (rule hold_inv.keeps_get)
  fix w assume "held h obj p by' w"
  then have "playerId (w_client w c) \<noteq> p" using assms by (simp add: held_def)
  then show "hold.keeps h obj p by'
    (aseq [unload_avatar E h (w_client w c),
           abind (now E) (\<lambda>t. dm_propagate E h (member_message False (w_client w c) t) (playerId (w_client w c))),
           mod_host h (\<lambda>g. g\<lparr>gh_locks := filter (\<lambda>e. snd e \<noteq> playerId (w_client w c)) (gh_locks g)\<rparr>),
           reassign_master E h (w_client w c), save_local_state E h,
           abind (ahost h) (\<lambda>g. awhen (gh_clients g = [])
             (mod_host h (\<lambda>g. g\<lparr>gh_channel := gh_channel g @ [e_GameShutdown]\<rparr>))),
           send_reply c 0])"
    unfolding aseq.simps
    by (intro hold.sending_intros hold.keeps_unload held_unlock_stale held_reassign held_mod)
qed

lemma held_shutdown: "hold.keeps h obj p by' (dm_game_shutdown h')"
proof -
  have "hold.keeps h obj p by' (mod_client c' (\<lambda>k. k\<lparr>gc_closed := True\<rparr>))"
    "hold.keeps h obj p by' (amod (\<lambda>w. w\<lparr>w_gameHosts := f w\<rparr>))"
    "hold.keeps h obj p by' (mod_host h' (\<lambda>g. g\<lparr>gh_alive := False\<rparr>))" for c' f
    unfolding mod_client_def mod_host_def by (rule hold.keeps_amod, simp add: held_def playerId_def)+
  then show ?thesis
    unfolding dm_game_shutdown_def close_clients_def aseq.simps by (intro hold.sending_intros hold.keeps_clones)
qed

lemma held_handle:
  assumes "\<And>c. request c msg \<Longrightarrow> by' c"
  shows "hold.keeps h obj p by' (handle E h msg)"
  using assms
  by (cases msg) (auto intro: held_shutdown held_disconnect held_join held_test_and_set held_mod
      hold.keeps_message_open hold.keeps_vault_update hold.keeps_global_update)

text \<open>
  C31: mutual exclusion. While a player holds the lock of an object, nothing another client sends takes the lock
  away: after any round of the host in which the message is not a request of a client of that player, the
  player still holds it.
\<close>

theorem lock_stays_with_holder:
  assumes "ufind obj (gh_locks (w_host w h)) = Some p" and "gh_channel (w_host w h) = msg # rest"
    and "\<And>c. request c msg \<Longrightarrow> playerId (w_client w c) \<noteq> p"
    and "dm_gameHost E h w = (r, w')"
  shows "ufind obj (gh_locks (w_host w' h)) = Some p"
proof -
  define w1 where "w1 = w\<lparr>w_host := (w_host w)(h := (w_host w h)\<lparr>gh_channel := rest\<rparr>)\<rparr>"
  define by' where "by' c \<longleftrightarrow> request c msg" for c
  have "hold.keeps h obj p by' (acatch (handle E h msg) (case payload msg of Some c \<Rightarrow> send_reply c 1 | None \<Rightarrow> aret ()))"
    by (intro hold.sending_intros held_handle held_mod) (simp add: by'_def)
  moreover have "held h obj p by' w1" using assms(1,3) by (simp add: held_def w1_def by'_def)
  ultimately have "held h obj p by' w'"
    using hold.keepsD dm_gameHost_head [OF assms(2), of E] assms(4) by (metis snd_conv w1_def)
  then show ?thesis by (simp add: held_def)
qed

section \<open>After a player has left\<close>

lemma aseq_returns:
  assumes "aseq (as @ bs) w = (Inr (), w')"
  obtains w1 where "aseq as w = (Inr (), w1)" and "aseq bs w1 = (Inr (), w')"
  using assms by (auto simp: aseq_append athen_def abind_def split: prod.splits sum.splits)

lemma disconnect_split:
  assumes "dm_game_disconnect E h c w = (Inr (), w')"
  obtains w1 where
    "aseq [unload_avatar E h (w_client w c),
       abind (now E) (\<lambda>t. dm_propagate E h (member_message False (w_client w c) t) (playerId (w_client w c))),
       mod_host h (\<lambda>g. g\<lparr>gh_locks := filter (\<lambda>e. snd e \<noteq> playerId (w_client w c)) (gh_locks g)\<rparr>)] w = (Inr (), w1)"
    and "aseq [reassign_master E h (w_client w c), save_local_state E h,
       abind (ahost h) (\<lambda>g. awhen (gh_clients g = []) (mod_host h (\<lambda>g. g\<lparr>gh_channel := gh_channel g @ [e_GameShutdown]\<rparr>))),
       send_reply c 0] w1 = (Inr (), w')"
proof (rule aseq_returns)
  show "aseq ([unload_avatar E h (w_client w c),
       abind (now E) (\<lambda>t. dm_propagate E h (member_message False (w_client w c) t) (playerId (w_client w c))),
       mod_host h (\<lambda>g. g\<lparr>gh_locks := filter (\<lambda>e. snd e \<noteq> playerId (w_client w c)) (gh_locks g)\<rparr>)] @
     [reassign_master E h (w_client w c), save_local_state E h,
       abind (ahost h) (\<lambda>g. awhen (gh_clients g = []) (mod_host h (\<lambda>g. g\<lparr>gh_channel := gh_channel g @ [e_GameShutdown]\<rparr>))),
       send_reply c 0]) w = (Inr (), w')"
    using assms by (simp del: aseq.simps add: dm_game_disconnect_def aclient_def act_simps)
qed

interpretation freed: open_frame "\<lambda>w w'. P (gh_locks (w_host w h)) \<longrightarrow> P (gh_locks (w_host w' h))" E for P h E
  by unfold_locales auto

lemma freed_mod:
  "freed.keeps P h (send_reply c r)" "freed.keeps P h (mod_host h' (\<lambda>g. g\<lparr>gh_gameMaster := m\<rparr>))"
  "freed.keeps P h (mod_host h' (\<lambda>g. g\<lparr>gh_channel := f g\<rparr>))"
  unfolding send_reply_def mod_host_def mod_client_def
  by (rule freed.keeps_amod, simp)+

lemma freed_reassign: "freed.keeps P h (reassign_master E h' k)"
  unfolding reassign_master_def
  by (intro freed.sending_intros) (auto intro!: freed.sending_intros freed.keeps_send_buf freed_mod split: list.split)

lemma disconnect_unlocks:
  assumes "dm_game_disconnect E h c w = (Inr (), w')"
  shows "\<forall>e \<in> set (gh_locks (w_host w' h)). snd e \<noteq> playerId (w_client w c)"
proof -
  let ?p = "playerId (w_client w c)"
  from assms obtain w1 where w1: "aseq ([unload_avatar E h (w_client w c),
      abind (now E) (\<lambda>t. dm_propagate E h (member_message False (w_client w c) t) ?p)] @
      [mod_host h (\<lambda>g. g\<lparr>gh_locks := filter (\<lambda>e. snd e \<noteq> ?p) (gh_locks g)\<rparr>)]) w = (Inr (), w1)"
    and rest: "aseq [reassign_master E h (w_client w c), save_local_state E h,
      abind (ahost h) (\<lambda>g. awhen (gh_clients g = []) (mod_host h (\<lambda>g. g\<lparr>gh_channel := gh_channel g @ [e_GameShutdown]\<rparr>))),
      send_reply c 0] w1 = (Inr (), w')" (is "?rest w1 = _")
    by (rule disconnect_split) (simp only: append_Cons append_Nil)
  from w1 have free: "\<forall>e \<in> set (gh_locks (w_host w1 h)). snd e \<noteq> ?p"
    by (rule aseq_returns) (unfold aseq_single, unfold mod_host_def amod_def, force)
  have "freed.keeps (\<lambda>locks. \<forall>e \<in> set locks. snd e \<noteq> ?p) h ?rest"
    unfolding aseq.simps by (intro freed.sending_intros freed_reassign freed_mod)
  from freed.keepsD [OF this, of w1] free show ?thesis unfolding rest snd_conv by blast
qed

definition same_roster :: "world \<Rightarrow> world \<Rightarrow> bool" where
  "same_roster w w' \<longleftrightarrow>
     (\<forall>h. gh_gameMaster (w_host w' h) = gh_gameMaster (w_host w h) \<and> gh_clients (w_host w' h) = gh_clients (w_host w h))
     \<and> (\<forall>c. gc_info (w_client w' c) = gc_info (w_client w c))"

interpretation roster: lock_frame same_roster E for E
  by unfold_locales (auto simp: same_roster_def)

lemma roster_mod:
  "roster.keeps (send_reply c r)" "roster.keeps (mod_client c (\<lambda>k. k\<lparr>gc_isAdmin := b\<rparr>))"
  "roster.keeps (mod_host h' (\<lambda>g. g\<lparr>gh_channel := f g\<rparr>))"
  unfolding send_reply_def mod_host_def mod_client_def
  by (rule roster.keeps_amod, simp add: same_roster_def)+

lemma same_rosterD:
  assumes "same_roster w w'"
  shows "gh_gameMaster (w_host w' h) = gh_gameMaster (w_host w h)" "gh_clients (w_host w' h) = gh_clients (w_host w h)"
    "playerId (w_client w' c) = playerId (w_client w c)"
  using assms by (simp_all add: same_roster_def playerId_def)

text \<open>The game master after \<open>k\<close> has left the host.\<close>

definition next_master :: "GameHost \<Rightarrow> (client \<Rightarrow> GameClient) \<Rightarrow> GameClient \<Rightarrow> u32" where
  "next_master g heap k =
     (if gh_gameMaster g = playerId k
      then (case gh_clients g of [] \<Rightarrow> 0 | (_, owner) # _ \<Rightarrow> playerId (heap owner))
      else gh_gameMaster g)"

lemma reassign_master_spec:
  assumes "reassign_master E h k w = (Inr (), w')"
  shows "gh_gameMaster (w_host w' h) = next_master (w_host w h) (w_client w) k"
  using assms
  by (auto simp: reassign_master_def next_master_def ahost_def aclient_def now_def acall_def awhen_def lock_guard_def
      lock_clients_def unlock_clients_def mod_host_def mod_client_def send_buf_def abind_def athen_def alift_def act_simps
      split: if_splits sum.splits list.splits prod.splits)

lemma disconnect_master:
  assumes "dm_game_disconnect E h c w = (Inr (), w')"
  shows "gh_gameMaster (w_host w' h) = next_master (w_host w h) (w_client w) (w_client w c)"
proof -
  define k where "k = w_client w c"
  from assms obtain w1 where w1: "aseq [unload_avatar E h k,
      abind (now E) (\<lambda>t. dm_propagate E h (member_message False k t) (playerId k)),
      mod_host h (\<lambda>g. g\<lparr>gh_locks := filter (\<lambda>e. snd e \<noteq> playerId k) (gh_locks g)\<rparr>)] w = (Inr (), w1)" (is "?before w = _")
    and rest: "aseq ([reassign_master E h k] @ [save_local_state E h,
      abind (ahost h) (\<lambda>g. awhen (gh_clients g = []) (mod_host h (\<lambda>g. g\<lparr>gh_channel := gh_channel g @ [e_GameShutdown]\<rparr>))),
      send_reply c 0]) w1 = (Inr (), w')"
    by (rule disconnect_split) (simp only: append_Cons append_Nil k_def)
  from rest obtain w2 where w2: "reassign_master E h k w1 = (Inr (), w2)"
    and w3: "aseq [save_local_state E h,
      abind (ahost h) (\<lambda>g. awhen (gh_clients g = []) (mod_host h (\<lambda>g. g\<lparr>gh_channel := gh_channel g @ [e_GameShutdown]\<rparr>))),
      send_reply c 0] w2 = (Inr (), w')" (is "?after w2 = _")
    by (rule aseq_returns) (simp only: aseq_single)
  have "roster.keeps ?before" "roster.keeps ?after"
    unfolding aseq.simps by (intro roster.sending_intros roster.keeps_unload roster.keeps_locks roster_mod)+
  then have "same_roster w w1" "same_roster w2 w'"
    using roster.keepsD [of ?before w] roster.keepsD [of ?after w2] w1 w3 by simp_all
  then show ?thesis
    using reassign_master_spec [OF w2] by (simp add: same_rosterD next_master_def k_def split: list.split)
qed

section \<open>Properties\<close>

text \<open>
  A request for the lock of an object is always answered, and it is granted exactly when nobody holds the
  lock: the reply sent to the client says so, the lock is then the player's, and no other lock has changed.
\<close>

theorem lock_granted_if_free:
  assumes "sh_lockRequest m \<noteq> 0"
  shows "\<exists>w' buf. dm_test_and_set E h c m w = (Inr (), w')
     \<and> writebuf (game_lib E) (lock_reply (no_object (sh_base m))
          (ufind (no_object (sh_base m)) (gh_locks (w_host w h)) = None) (ge_clock E (w_calls w))) = Inr buf
     \<and> gc_broadcast (w_client w' c) = gc_broadcast (w_client w c) @ [buf]
     \<and> (\<forall>obj. ufind obj (gh_locks (w_host w' h)) =
          (if ufind obj (gh_locks (w_host w h)) = None \<and> Uoid_eq (no_object (sh_base m)) obj
           then Some (playerId (w_client w c)) else ufind obj (gh_locks (w_host w h))))"
proof -
  have "ufind obj (uoids.acquire (no_object (sh_base m)) p locks) =
      (if ufind obj locks = None \<and> Uoid_eq (no_object (sh_base m)) obj then Some p else ufind obj locks)"
    for obj and p :: u32 and locks
    using ufind_cong [of "no_object (sh_base m)" obj locks] by (auto simp: uoids.acquire_def ufind_uput)
  then show ?thesis using lock_request_spec [OF assms, of E h c w] by auto
qed

text \<open>
  C32: when a player has left, the host holds no lock for that player any more; and if the player was the
  game master, the first of the remaining clients is, or nobody when none is left.
\<close>

theorem departure_cleans_up:
  assumes "gh_channel (w_host w h) = e_GameDisconnect c # rest" and "ready h w"
  shows "\<exists>w'. dm_gameHost E h w = (Inr (), w')
     \<and> (\<forall>e \<in> set (gh_locks (w_host w' h)). snd e \<noteq> playerId (w_client w c))
     \<and> gh_gameMaster (w_host w' h) =
         (if gh_gameMaster (w_host w h) = playerId (w_client w c)
          then (case gh_clients (w_host w h) of [] \<Rightarrow> 0 | (_, owner) # _ \<Rightarrow> playerId (w_client w owner))
          else gh_gameMaster (w_host w h))"
proof -
  have "clean h (handle E h (e_GameDisconnect c))" by (simp add: clean_disconnect)
  then obtain w' where "dm_gameHost E h w = (Inr (), w')"
    and left: "dm_game_disconnect E h c (w\<lparr>w_host := (w_host w)(h := (w_host w h)\<lparr>gh_channel := rest\<rparr>)\<rparr>) = (Inr (), w')"
    using handled_cleanly [OF assms(1) _ assms(2)] by auto
  then show ?thesis
    using disconnect_unlocks [OF left] disconnect_master [OF left] by (simp add: next_master_def)
qed

definition sample_lock :: "byte \<Rightarrow> NetMsgSharedState" where
  "sample_lock req = \<lparr>sh_base = \<lparr>no_base = net_header 0 UnifiedTime_null 0, no_object = Uoid_new\<lparr>u_type := 1\<rparr>,
      no_compression = 0\<rparr>, sh_lockRequest = req, sh_serverMayDelete = False, sh_stateName = [], sh_vars = []\<rparr>"

theorem lock_granted_if_free_witness:
  "\<exists>w'. dm_test_and_set sample_genv 0 1 (sample_lock 1) (sample_game_world [] []) = (Inr (), w')
     \<and> ufind (Uoid_new\<lparr>u_type := 1\<rparr>) (gh_locks (w_host w' 0)) = Some 101"
proof -
  have req: "sh_lockRequest (sample_lock 1) \<noteq> 0" by (simp add: sample_lock_def)
  have "ufind obj (gh_locks (w_host (sample_game_world [] []) 0)) = None"
    and "playerId (w_client (sample_game_world [] []) 1) = 101" for obj
    by (simp_all add: sample_game_world_def sample_age_def sample_player_def sample_guid_def playerId_def ufind_def)
  then show ?thesis
    using lock_granted_if_free [OF req, of sample_genv 0 1 "sample_game_world [] []"]
    by (auto simp: sample_lock_def Uoid_eq_key)
qed

theorem departure_cleans_up_witness:
  "\<exists>w'. dm_gameHost sample_genv 0 (sample_game_world [(101, 1)] [e_GameDisconnect 0]) = (Inr (), w')
     \<and> gh_gameMaster (w_host w' 0) = 101"
  using departure_cleans_up [of "sample_game_world [(101, 1)] [e_GameDisconnect 0]" 0 0 "[]" sample_genv,
      OF sample_game_channel sample_game_ready]
  by (auto simp: sample_game_world_def sample_age_def sample_player_def sample_guid_def playerId_def)

definition locked_world :: world where
  "locked_world = (sample_game_world [(100, 0)] [e_GameDisconnect 1])\<lparr>w_host := (\<lambda>h.
     (sample_age [(100, 0)] [e_GameDisconnect 1])\<lparr>gh_locks := [(Uoid_new, 100)]\<rparr>)\<rparr>"

theorem lock_stays_with_holder_witness:
  "\<exists>r w'. dm_gameHost sample_genv 0 locked_world = (r, w') \<and> ufind Uoid_new (gh_locks (w_host w' 0)) = Some 100"
proof -
  obtain r w' where "dm_gameHost sample_genv 0 locked_world = (r, w')" by fastforce
  moreover have "ufind Uoid_new (gh_locks (w_host locked_world 0)) = Some 100"
    "gh_channel (w_host locked_world 0) = e_GameDisconnect 1 # []"
    "request c (e_GameDisconnect 1) \<Longrightarrow> playerId (w_client locked_world c) \<noteq> 100" for c
    by (auto simp: locked_world_def sample_game_world_def sample_age_def sample_player_def sample_guid_def playerId_def
        ufind_def Uoid_eq_key)
  ultimately show ?thesis using lock_stays_with_holder by blast
qed

end
