(* ===== verification/Sockets.thy ===== *)
theory Sockets
  imports Streams Actions
begin

unbundle bit_operations_syntax

text \<open>
  \<open>NetIO/SockIO.cpp\<close> and \<open>NetIO/CryptIO.cpp\<close>: sending and receiving on a connection, in the clear or through a
  stream cipher. The kernel may take and give the octets in any pieces, interrupt a call or end the connection; the
  calls below loop until they have sent or received what they were asked for, or throw.
\<close>

section \<open>A connection\<close>

text \<open>
  What the calls of \<open>recv\<close> on the socket will see, in turn: octets that arrived, an interrupted call
  (\<open>EINTR\<close>), another error; no octets, or the end of the list, is the end of the connection. What the calls of \<open>send\<close> will do: take at
  most so many octets, or fail (\<open>Send_again\<close>: with \<open>EAGAIN\<close>); beyond the end of the list they take everything. \<open>c_out\<close> is what was sent, and
  \<open>c_crypt\<close> the read key and the write key of \<open>CryptState_Private\<close>, or \<open>None\<close> for a null \<open>CryptState\<close>.
\<close>

datatype arrival = Arrived bytes | Interrupted | Broken

datatype acceptance = Takes nat | Send_again | Send_error

record 'k conn =
  c_in :: "arrival list"
  c_accept :: "acceptance list"
  c_out :: bytes
  c_crypt :: "('k \<times> 'k) option"

datatype recv_result = Got bytes | Recv_EINTR | Recv_error

definition recv :: "nat \<Rightarrow> 'k conn \<Rightarrow> recv_result \<times> 'k conn" where
  "recv sz c =
     (case c_in c of
        [] \<Rightarrow> (Got [], c)
      | Interrupted # as \<Rightarrow> (Recv_EINTR, c\<lparr>c_in := as\<rparr>)
      | Broken # as \<Rightarrow> (Recv_error, c\<lparr>c_in := as\<rparr>)
      | Arrived bs # as \<Rightarrow>
          if length bs \<le> sz then (Got bs, c\<lparr>c_in := as\<rparr>)
          else (Got (take sz bs), c\<lparr>c_in := Arrived (drop sz bs) # as\<rparr>))"

definition send :: "bytes \<Rightarrow> 'k conn \<Rightarrow> nat option \<times> 'k conn" where
  "send buffer c =
     (case c_accept c of
        [] \<Rightarrow> (Some (length buffer), c\<lparr>c_out := c_out c @ buffer\<rparr>)
      | Send_again # as \<Rightarrow> (None, c\<lparr>c_accept := as\<rparr>)
      | Send_error # as \<Rightarrow> (None, c\<lparr>c_accept := as\<rparr>)
      | Takes n # as \<Rightarrow>
          (Some (min n (length buffer)), c\<lparr>c_accept := as, c_out := c_out c @ take n buffer\<rparr>))"

lemma send_le: "send buffer c = (Some n, c') \<Longrightarrow> n \<le> length buffer"
  by (auto simp: send_def split: list.splits acceptance.splits)

lemma recv_length: "recv sz c = (r, c') \<Longrightarrow> length (c_in c') \<le> length (c_in c)"
  by (auto simp: recv_def split: list.splits arrival.splits if_splits)

lemma recv_EINTR: "recv sz c = (Recv_EINTR, c') \<Longrightarrow> length (c_in c') < length (c_in c)"
  by (auto simp: recv_def split: list.splits arrival.splits if_splits)

lemma recv_Got:
  assumes "recv sz c = (Got bs, c')" and "bs \<noteq> []" and "0 < sz"
  shows "sz - length bs + length (c_in c') < sz + length (c_in c)"
  using recv_length [OF assms(1)] assms(2,3) by (cases bs) auto

section \<open>Sending and receiving buffers\<close>

function SendBuffer :: "bytes \<Rightarrow> ('k conn, unit) act" where
  "SendBuffer buffer c =
     (case send buffer c of
        (None, c') \<Rightarrow> (Inl (Thrown SockHup), c')
      | (Some bytes, c') \<Rightarrow>
          if bytes = 0 then (Inl (Thrown SockHup), c')
          else if bytes < length buffer then SendBuffer (drop bytes buffer) c'
          else (Inr (), c'))"
  by pat_completeness auto
termination
  by (relation "measure (length \<circ> fst)") auto

function RecvBuffer :: "nat \<Rightarrow> ('k conn, bytes) act" where
  "RecvBuffer sz c =
     (if sz = 0 then (Inr [], c)
      else case recv sz c of
        (Recv_EINTR, c') \<Rightarrow> RecvBuffer sz c'
      | (Recv_error, c') \<Rightarrow> (Inl (Thrown SockHup), c')
      | (Got bs, c') \<Rightarrow>
          if bs = [] then (Inl (Thrown SockHup), c')
          else (case RecvBuffer (sz - length bs) c' of
                  (Inl e, c'') \<Rightarrow> (Inl e, c'')
                | (Inr x, c'') \<Rightarrow> (Inr (bs @ x), c'')))"
  by pat_completeness auto
termination
  by (relation "measure (\<lambda>(sz, c). sz + length (c_in c))") (auto dest!: sym [of _ "recv _ _"] simp: recv_EINTR recv_Got)

declare SendBuffer.simps [simp del] RecvBuffer.simps [simp del]

lemma RecvBuffer_0 [simp]: "RecvBuffer 0 c = (Inr [], c)"
  by (simp add: RecvBuffer.simps)

text \<open>
  A buffer on the stack or the heap of \<open>cap\<close> octets that is asked to receive \<open>sz\<close> of them: the first octet stored
  past its end is undefined behaviour.
\<close>

definition recv_array :: "nat \<Rightarrow> nat \<Rightarrow> ('k conn, bytes) act" where
  "recv_array cap sz =
     (if sz \<le> cap then RecvBuffer sz
      else abind (RecvBuffer (Suc cap)) (\<lambda>_. afail (Thrown UndefinedBehaviour)))"

text \<open>
  \<open>SendFile\<close>: the buffer, then \<open>fdsz\<close> octets of the file from the offset on with \<open>sendfile\<close>, which advances the
  offset; \<open>EAGAIN\<close> is tried again, and the end of the file is taken for the end of the connection. The loop is cut
  off after \<open>fuel\<close> calls.
\<close>

fun sendfile_loop :: "nat \<Rightarrow> bytes \<Rightarrow> nat \<Rightarrow> nat \<Rightarrow> ('k conn, nat) act" where
  "sendfile_loop fuel file offset 0 c = (Inr offset, c)"
| "sendfile_loop 0 file offset (Suc fdsz) c = (Inl (Thrown NoFuel), c)"
| "sendfile_loop (Suc fuel) file offset (Suc fdsz) c =
     (case c_accept c of
        Send_again # as \<Rightarrow> sendfile_loop fuel file offset (Suc fdsz) (c\<lparr>c_accept := as\<rparr>)
      | _ \<Rightarrow>
        (case send (take (Suc fdsz) (drop offset file)) c of
           (None, c') \<Rightarrow> (Inl (Thrown SockHup), c')
         | (Some bytes, c') \<Rightarrow>
             if bytes = 0 then (Inl (Thrown SockHup), c')
             else sendfile_loop fuel file (offset + bytes) (Suc fdsz - bytes) c'))"

definition SendFile :: "nat \<Rightarrow> bytes \<Rightarrow> bytes \<Rightarrow> nat \<Rightarrow> nat \<Rightarrow> ('k conn, nat) act" where
  "SendFile fuel buffer file offset fdsz =
     athen (if buffer = [] then aret () else SendBuffer buffer) (sendfile_loop fuel file offset fdsz)"

text \<open>\<open>CloseSock\<close>: nothing more is received, and nothing more can be sent.\<close>

definition CloseSock :: "('k conn, unit) act" where
  "CloseSock = amod (\<lambda>c. c\<lparr>c_in := [Broken], c_accept := [Send_error]\<rparr>)"

section \<open>The cipher\<close>

text \<open>
  What the sources take from OpenSSL: big-endian conversions between octets and numbers, modular exponentiation,
  and RC4 with its two entry points.
\<close>

record 'k ssl =
  BN_bin2bn :: "bytes \<Rightarrow> nat"
  BN_bn2bin :: "nat \<Rightarrow> bytes"
  BN_mod_exp :: "nat \<Rightarrow> nat \<Rightarrow> nat \<Rightarrow> nat"
  RC4_set_key :: "bytes \<Rightarrow> 'k"
  RC4 :: "'k \<Rightarrow> bytes \<Rightarrow> bytes \<times> 'k"

definition CryptStateInit :: "'k ssl \<Rightarrow> bytes \<Rightarrow> ('k \<times> 'k) option" where
  "CryptStateInit S key = Some (RC4_set_key S key, RC4_set_key S key)"

text \<open>
  \<open>CryptSendBuffer\<close> and \<open>CryptRecvBuffer\<close>; whether the ciphered octets are staged in a buffer of 4096 on the stack
  or on the heap makes no difference to what is sent.
\<close>

definition CryptSendBuffer :: "'k ssl \<Rightarrow> bytes \<Rightarrow> ('k conn, unit) act" where
  "CryptSendBuffer S buffer =
     abind (aget c_crypt) (\<lambda>crypt.
     case crypt of
       None \<Rightarrow> SendBuffer buffer
     | Some (readKey, writeKey) \<Rightarrow>
         (case RC4 S writeKey buffer of (cryptbuf, writeKey') \<Rightarrow>
            athen (amod (\<lambda>c. c\<lparr>c_crypt := Some (readKey, writeKey')\<rparr>)) (SendBuffer cryptbuf)))"

definition CryptRecvBuffer :: "'k ssl \<Rightarrow> nat \<Rightarrow> ('k conn, bytes) act" where
  "CryptRecvBuffer S sz =
     abind (aget c_crypt) (\<lambda>crypt.
     case crypt of
       None \<Rightarrow> RecvBuffer sz
     | Some (readKey, writeKey) \<Rightarrow>
         abind (RecvBuffer sz) (\<lambda>cryptbuf.
         case RC4 S readKey cryptbuf of (buffer, readKey') \<Rightarrow>
           athen (amod (\<lambda>c. c\<lparr>c_crypt := Some (readKey', writeKey)\<rparr>)) (aret buffer)))"

text \<open>\<open>RecvValue<uintN_t>\<close> and \<open>CryptRecvValue<uintN_t>\<close> for \<open>n\<close> octets, \<open>CryptRecvSize\<close> and \<open>CryptRecvString\<close>.\<close>

definition RecvValue :: "nat \<Rightarrow> ('k conn, 'a::len word) act" where
  "RecvValue n = abind (RecvBuffer n) (\<lambda>b. aret (le_word b))"

definition CryptRecvValue :: "'k ssl \<Rightarrow> nat \<Rightarrow> ('k conn, 'a::len word) act" where
  "CryptRecvValue S n = abind (CryptRecvBuffer S n) (\<lambda>b. aret (le_word b))"

definition MAX_PAYLOAD_SIZE :: u32 where
  "MAX_PAYLOAD_SIZE = 128 * 1024"

lemma payload_size:
  assumes "n \<le> 131072"
  shows "unat (of_nat n :: u32) = n" and "\<not> of_nat n > MAX_PAYLOAD_SIZE"
proof -
  show n: "unat (of_nat n :: u32) = n"
    using assms by (simp add: unsigned_of_nat take_bit_nat_eq_self_iff)
  show "\<not> of_nat n > MAX_PAYLOAD_SIZE"
    using assms n by (simp add: MAX_PAYLOAD_SIZE_def word_le_nat_alt not_less)
qed

definition CryptRecvSize :: "'k ssl \<Rightarrow> u32 \<Rightarrow> ('k conn, u32) act" where
  "CryptRecvSize S maxSize =
     abind (CryptRecvValue S 4) (\<lambda>sz.
     if sz > maxSize then afail (Thrown PacketSizeOutOfBounds) else aret sz)"

definition CryptRecvString :: "'k ssl \<Rightarrow> ext_lib \<Rightarrow> ('k conn, st_string) act" where
  "CryptRecvString S L =
     abind (CryptRecvValue S 2) (\<lambda>length' :: u16.
     abind (CryptRecvBuffer S (unat length' * 2)) (\<lambda>result. aret (from_utf16 L (u16s result))))"

section \<open>Receiving at once\<close>

text \<open>The same calls on the octets that will arrive, as if they were all there.\<close>

definition recv_bytes :: "nat \<Rightarrow> bytes rd" where
  "recv_bytes n bs = (if n \<le> length bs then Inr (take n bs, drop n bs) else Inl SockHup)"

definition recv_value :: "nat \<Rightarrow> 'a::len word rd" where
  "recv_value n = rbind (recv_bytes n) (\<lambda>b. rret (le_word b))"

definition recv_size :: "u32 \<Rightarrow> u32 rd" where
  "recv_size maxSize =
     rbind (recv_value 4) (\<lambda>sz. if sz > maxSize then rfail PacketSizeOutOfBounds else rret sz)"

lemma recv_bytes_append [rd_simps]: "length b = n \<Longrightarrow> recv_bytes n (b @ bs) = Inr (b, bs)"
  by (simp add: recv_bytes_def)

lemma recv_value_append [rd_simps]:
  "LENGTH('a) = 8 * n \<Longrightarrow> recv_value n (le_bytes n w @ bs) = Inr (w :: 'a::len word, bs)"
  by (simp add: recv_value_def rd_simps le_word_le_bytes)

text \<open>
  What the loops rely on: octets come in their order, and when there are too few the call throws. An action on the
  connection that receives what a reader reads of the octets to come, and leaves the rest of the connection alone,
  is composed along the calls.
\<close>

locale receiver =
  fixes get :: "nat \<Rightarrow> ('s, bytes) act"
    and unread :: "'s \<Rightarrow> bytes"
    and other :: "'s \<Rightarrow> 'r"
    and ok :: "'s \<Rightarrow> bool"
  assumes get_enough: "ok s \<Longrightarrow> n \<le> length (unread s) \<Longrightarrow>
      \<exists>s'. get n s = (Inr (take n (unread s)), s') \<and> ok s' \<and> unread s' = drop n (unread s) \<and> other s' = other s"
    and get_short: "ok s \<Longrightarrow> length (unread s) < n \<Longrightarrow>
      \<exists>s'. get n s = (Inl (Thrown SockHup), s') \<and> other s' = other s"
begin

definition reads :: "('s, 'a) act \<Rightarrow> 'a rd \<Rightarrow> bool" where
  "reads a p \<longleftrightarrow> (\<forall>s. ok s \<longrightarrow>
     (case p (unread s) of
        Inl e \<Rightarrow> (\<exists>s'. a s = (Inl (Thrown e), s') \<and> other s' = other s)
      | Inr (x, bs) \<Rightarrow> (\<exists>s'. a s = (Inr x, s') \<and> ok s' \<and> unread s' = bs \<and> other s' = other s)))"

lemma reads_get: "reads (get n) (recv_bytes n)"
  using get_enough [of _ n] get_short [of _ n] unfolding reads_def recv_bytes_def by force

lemma reads_ret: "reads (aret x) (rret x)"
  by (simp add: reads_def aret_def)

lemma reads_fail: "reads (afail (Thrown e)) (rfail e)"
  by (simp add: reads_def afail_def)

lemma reads_bind:
  assumes "reads a p" and "\<And>x. reads (f x) (g x)"
  shows "reads (abind a f) (rbind p g)"
  unfolding reads_def
proof (intro allI impI)
  fix s assume s: "ok s"
  show "case rbind p g (unread s) of
      Inl e \<Rightarrow> (\<exists>s'. abind a f s = (Inl (Thrown e), s') \<and> other s' = other s)
    | Inr (x, bs) \<Rightarrow> (\<exists>s'. abind a f s = (Inr x, s') \<and> ok s' \<and> unread s' = bs \<and> other s' = other s)"
  proof (cases "p (unread s)")
    case (Inl e)
    with assms(1) s obtain s' where "a s = (Inl (Thrown e), s')" "other s' = other s"
      unfolding reads_def by fastforce
    with Inl show ?thesis by (simp add: rbind_def abind_def)
  next
    case (Inr r)
    obtain x bs where r: "r = (x, bs)" by (cases r)
    with assms(1) s Inr obtain s' where s': "a s = (Inr x, s')" "ok s'" "unread s' = bs" "other s' = other s"
      unfolding reads_def by fastforce
    have "case g x bs of
        Inl e \<Rightarrow> (\<exists>s''. f x s' = (Inl (Thrown e), s'') \<and> other s'' = other s')
      | Inr (y, cs) \<Rightarrow> (\<exists>s''. f x s' = (Inr y, s'') \<and> ok s'' \<and> unread s'' = cs \<and> other s'' = other s')"
      using assms(2) [of x] s'(2,3) unfolding reads_def by blast
    moreover have "abind a f s = f x s'" using s'(1) by (simp add: abind_def)
    ultimately show ?thesis using Inr r s'(4) by (simp add: rbind_def split: sum.splits prod.splits)
  qed
qed

lemma reads_if: "reads a p \<Longrightarrow> reads b q \<Longrightarrow> reads (if c then a else b) (if c then p else q)"
  by simp

lemma reads_value: "reads (abind (get n) (\<lambda>b. aret (le_word b))) (recv_value n)"
  unfolding recv_value_def by (intro reads_bind reads_get reads_ret)

lemma reads_Inr:
  assumes "reads a p" and "ok s" and "p (unread s) = Inr (x, bs)"
  obtains s' where "a s = (Inr x, s')" and "ok s'" and "unread s' = bs" and "other s' = other s"
  using assms unfolding reads_def by fastforce

lemma reads_Inl:
  assumes "reads a p" and "ok s" and "p (unread s) = Inl e"
  obtains s' where "a s = (Inl (Thrown e), s')" and "other s' = other s"
  using assms unfolding reads_def by fastforce

end

section \<open>Both kinds of connection are receivers\<close>

fun arrived :: "arrival list \<Rightarrow> bytes" where
  "arrived [] = []"
| "arrived (Arrived bs # as) = bs @ arrived as"
| "arrived (_ # as) = arrived as"

text \<open>Octets may come in any pieces and calls may be interrupted, but the connection is not broken.\<close>

fun calm_line :: "arrival list \<Rightarrow> bool" where
  "calm_line [] = True"
| "calm_line (Arrived bs # as) = (bs \<noteq> [] \<and> calm_line as)"
| "calm_line (Interrupted # as) = calm_line as"
| "calm_line (Broken # as) = False"

lemma RecvBuffer_line:
  assumes "calm_line (c_in c)"
  shows "if sz \<le> length (arrived (c_in c))
     then \<exists>as. RecvBuffer sz c = (Inr (take sz (arrived (c_in c))), c\<lparr>c_in := as\<rparr>) \<and> calm_line as
            \<and> arrived as = drop sz (arrived (c_in c))
     else \<exists>as. RecvBuffer sz c = (Inl (Thrown SockHup), c\<lparr>c_in := as\<rparr>)"
  using assms
proof (induction sz c rule: RecvBuffer.induct)
  case (1 sz c)
  show ?case
  proof (cases "sz = 0")
    case True
    then show ?thesis using "1.prems" by (auto intro: exI [of _ "c_in c"])
  next
    case False
    note sz = False
    show ?thesis
    proof (cases "c_in c")
      case Nil
      then show ?thesis using sz by (auto simp: RecvBuffer.simps [of sz c] recv_def intro: exI [of _ "[]"])
    next
      case (Cons a as)
      show ?thesis
      proof (cases a)
        case (Arrived bs)
        have bs: "bs \<noteq> []" "calm_line as" using "1.prems" Cons Arrived by auto
        show ?thesis
        proof (cases "length bs \<le> sz")
          case True
          have r: "recv sz c = (Got bs, c\<lparr>c_in := as\<rparr>)" using Cons Arrived True by (simp add: recv_def)
          have rb: "RecvBuffer sz c = (case RecvBuffer (sz - length bs) (c\<lparr>c_in := as\<rparr>) of
              (Inl e, c'') \<Rightarrow> (Inl e, c'') | (Inr x, c'') \<Rightarrow> (Inr (bs @ x), c''))"
            using sz bs r by (simp add: RecvBuffer.simps [of sz c])
          have "if sz - length bs \<le> length (arrived as)
             then \<exists>as'. RecvBuffer (sz - length bs) (c\<lparr>c_in := as\<rparr>) = (Inr (take (sz - length bs) (arrived as)), c\<lparr>c_in := as'\<rparr>)
                \<and> calm_line as' \<and> arrived as' = drop (sz - length bs) (arrived as)
             else \<exists>as'. RecvBuffer (sz - length bs) (c\<lparr>c_in := as\<rparr>) = (Inl (Thrown SockHup), c\<lparr>c_in := as'\<rparr>)"
            using "1.IH"(1) [OF sz r [symmetric] refl bs(1)] bs(2) by (simp split: if_splits)
          then show ?thesis using rb Cons Arrived True by (auto split: if_splits)
        next
          case False
          have r: "recv sz c = (Got (take sz bs), c\<lparr>c_in := Arrived (drop sz bs) # as\<rparr>)"
            using Cons Arrived False by (simp add: recv_def)
          then have "RecvBuffer sz c = (Inr (take sz bs), c\<lparr>c_in := Arrived (drop sz bs) # as\<rparr>)"
            using sz bs False by (simp add: RecvBuffer.simps [of sz c])
          then show ?thesis using Cons Arrived False bs by auto
        qed
      next
        case Interrupted
        have r: "recv sz c = (Recv_EINTR, c\<lparr>c_in := as\<rparr>)" using Cons Interrupted by (simp add: recv_def)
        have "RecvBuffer sz c = RecvBuffer sz (c\<lparr>c_in := as\<rparr>)"
          using sz r by (simp add: RecvBuffer.simps [of sz c])
        then show ?thesis
          using "1.IH"(2) [OF sz r [symmetric] refl] "1.prems" Cons Interrupted by (simp split: if_splits)
      next
        case Broken
        then show ?thesis using "1.prems" Cons by simp
      qed
    qed
  qed
qed

interpretation plain: receiver RecvBuffer "arrived \<circ> c_in" "\<lambda>c. (c_accept c, c_out c, c_crypt c)" "calm_line \<circ> c_in"
proof (unfold_locales, goal_cases)
  case (1 s n)
  then show ?case using RecvBuffer_line [of s n] by auto
next
  case (2 s n)
  then show ?case using RecvBuffer_line [of s n] by auto
qed

text \<open>
  RC4 is a stream cipher: it combines each octet with the next of a key stream, so pieces can be processed one
  after the other, and the same key stream undoes it.
\<close>

definition stream_cipher :: "'k ssl \<Rightarrow> bool" where
  "stream_cipher S \<longleftrightarrow>
     (\<forall>k xs. length (fst (RC4 S k xs)) = length xs)
     \<and> (\<forall>k xs ys. RC4 S k (xs @ ys) =
          (fst (RC4 S k xs) @ fst (RC4 S (snd (RC4 S k xs)) ys), snd (RC4 S (snd (RC4 S k xs)) ys)))
     \<and> (\<forall>k xs. fst (RC4 S k (fst (RC4 S k xs))) = xs)"

lemma stream_cipherD:
  assumes "stream_cipher S"
  shows "length (fst (RC4 S k xs)) = length xs"
    and "RC4 S k (xs @ ys) = (fst (RC4 S k xs) @ fst (RC4 S (snd (RC4 S k xs)) ys), snd (RC4 S (snd (RC4 S k xs)) ys))"
    and "fst (RC4 S k (fst (RC4 S k xs))) = xs"
  using assms unfolding stream_cipher_def by blast+

lemma stream_cipher_pieces:
  assumes "stream_cipher S"
  shows "fst (RC4 S k (take n xs)) = take n (fst (RC4 S k xs))"
    and "fst (RC4 S (snd (RC4 S k (take n xs))) (drop n xs)) = drop n (fst (RC4 S k xs))"
proof -
  have "fst (RC4 S k xs) = fst (RC4 S k (take n xs)) @ fst (RC4 S (snd (RC4 S k (take n xs))) (drop n xs))"
    using stream_cipherD(2) [OF assms, of k "take n xs" "drop n xs"] by simp
  moreover have "length (fst (RC4 S k (take n xs))) = min (length xs) n"
    by (simp add: stream_cipherD(1) [OF assms])
  moreover have "length (fst (RC4 S (snd (RC4 S k (take n xs))) (drop n xs))) = length xs - n"
    by (simp add: stream_cipherD(1) [OF assms])
  ultimately show "fst (RC4 S k (take n xs)) = take n (fst (RC4 S k xs))"
    and "fst (RC4 S (snd (RC4 S k (take n xs))) (drop n xs)) = drop n (fst (RC4 S k xs))"
    by (auto simp: min_def stream_cipherD(1) [OF assms])
qed

text \<open>The octets still to be received, deciphered.\<close>

definition unread_plain :: "'k ssl \<Rightarrow> 'k conn \<Rightarrow> bytes" where
  "unread_plain S c =
     (case c_crypt c of
        None \<Rightarrow> arrived (c_in c)
      | Some (readKey, _) \<Rightarrow> fst (RC4 S readKey (arrived (c_in c))))"

lemma length_unread_plain: "stream_cipher S \<Longrightarrow> length (unread_plain S c) = length (arrived (c_in c))"
  by (simp add: unread_plain_def stream_cipherD(1) split: option.split prod.split)

interpretation crypt: receiver "CryptRecvBuffer S" "unread_plain S"
  "\<lambda>c. (c_accept c, c_out c, map_option snd (c_crypt c))" "\<lambda>c. stream_cipher S \<and> calm_line (c_in c)"
proof (unfold_locales, goal_cases)
  case (1 s n)
  then obtain as where as: "RecvBuffer n s = (Inr (take n (arrived (c_in s))), s\<lparr>c_in := as\<rparr>)" "calm_line as"
    "arrived as = drop n (arrived (c_in s))"
    using RecvBuffer_line [of s n] length_unread_plain [of S s] by auto
  show ?case
  proof (cases "c_crypt s")
    case None
    with as 1 show ?thesis by (simp add: CryptRecvBuffer_def act_simps unread_plain_def)
  next
    case (Some keys)
    with as 1 show ?thesis
      by (cases keys, cases "RC4 S (fst keys) (take n (arrived (c_in s)))")
         (auto simp: CryptRecvBuffer_def act_simps unread_plain_def
            dest: stream_cipher_pieces [where n = n and xs = "arrived (c_in s)" and k = "fst keys"])
  qed
next
  case (2 s n)
  then obtain as where "RecvBuffer n s = (Inl (Thrown SockHup), s\<lparr>c_in := as\<rparr>)"
    using RecvBuffer_line [of s n] length_unread_plain [of S s] by auto
  then show ?case by (auto simp: CryptRecvBuffer_def act_simps split: option.split)
qed

lemmas crypt_reads = crypt.reads_get crypt.reads_ret crypt.reads_fail crypt.reads_bind crypt.reads_if

lemma reads_CryptRecvValue: "crypt.reads S (CryptRecvValue S n) (recv_value n)"
  unfolding CryptRecvValue_def by (rule crypt.reads_value)

lemma reads_RecvValue: "plain.reads (RecvValue n) (recv_value n)"
  unfolding RecvValue_def by (rule plain.reads_value)

lemma reads_CryptRecvSize: "crypt.reads S (CryptRecvSize S m) (recv_size m)"
  unfolding CryptRecvSize_def recv_size_def by (intro crypt_reads reads_CryptRecvValue)

section \<open>Sending\<close>

text \<open>A peer that takes octets, however few at a time.\<close>

fun willing :: "acceptance list \<Rightarrow> bool" where
  "willing [] = True"
| "willing (Takes n # as) = (0 < n \<and> willing as)"
| "willing (Send_again # as) = False"
| "willing (Send_error # as) = False"

lemma SendBuffer_line:
  assumes "willing (c_accept c)" and "buffer \<noteq> []"
  shows "\<exists>as. SendBuffer buffer c = (Inr (), c\<lparr>c_accept := as, c_out := c_out c @ buffer\<rparr>) \<and> willing as"
  using assms
proof (induction buffer c rule: SendBuffer.induct)
  case (1 buffer c)
  show ?case
  proof (cases "c_accept c")
    case Nil
    then show ?thesis using "1.prems"
      by (auto simp: SendBuffer.simps [of buffer c] send_def intro: exI [of _ "[]"])
  next
    case (Cons a as)
    then obtain n where n: "a = Takes n" "0 < n" "willing as" using "1.prems" by (cases a) auto
    show ?thesis
    proof (cases "n < length buffer")
      case True
      have s: "send buffer c = (Some n, c\<lparr>c_accept := as, c_out := c_out c @ take n buffer\<rparr>)"
        using Cons n True by (simp add: send_def)
      have "SendBuffer buffer c = SendBuffer (drop n buffer) (c\<lparr>c_accept := as, c_out := c_out c @ take n buffer\<rparr>)"
        using s n True by (simp add: SendBuffer.simps [of buffer c])
      then show ?thesis
        using "1.IH" [OF s [symmetric] refl] n True by simp
    next
      case False
      then show ?thesis using Cons n "1.prems" by (auto simp: SendBuffer.simps [of buffer c] send_def)
    qed
  qed
qed

lemma sendfile_line:
  assumes "willing (c_accept c)" and "offset + fdsz \<le> length file" and "fdsz \<le> fuel"
  shows "\<exists>as. sendfile_loop fuel file offset fdsz c =
     (Inr (offset + fdsz), c\<lparr>c_accept := as, c_out := c_out c @ take fdsz (drop offset file)\<rparr>) \<and> willing as"
  using assms
proof (induction fuel arbitrary: c offset fdsz)
  case 0
  then show ?case by (auto intro: exI [of _ "c_accept c"])
next
  case (Suc fuel)
  show ?case
  proof (cases fdsz)
    case 0
    then show ?thesis using Suc.prems by (auto intro: exI [of _ "c_accept c"])
  next
    case (Suc m)
    let ?b = "take fdsz (drop offset file)"
    have b: "length ?b = fdsz" using Suc.prems(2) by simp
    obtain n as where n: "send ?b c = (Some n, c\<lparr>c_accept := as, c_out := c_out c @ take n ?b\<rparr>)" "0 < n" "n \<le> fdsz" "willing as"
      and loop: "sendfile_loop (Suc fuel) file offset fdsz c =
        sendfile_loop fuel file (offset + n) (fdsz - n) (c\<lparr>c_accept := as, c_out := c_out c @ take n ?b\<rparr>)"
    proof (cases "c_accept c")
      case Nil
      have s: "send ?b c = (Some fdsz, c\<lparr>c_accept := [], c_out := c_out c @ take fdsz ?b\<rparr>)"
        using Nil b by (simp add: send_def)
      show ?thesis by (rule that [OF s]) (use Nil s Suc in \<open>simp_all\<close>)
    next
      case (Cons a as)
      then obtain k where k: "a = Takes k" "0 < k" "willing as" using Suc.prems(1) by (cases a) auto
      have s: "send ?b c = (Some (min k fdsz), c\<lparr>c_accept := as, c_out := c_out c @ take (min k fdsz) ?b\<rparr>)"
        using Cons k b by (simp add: send_def min_def)
      obtain k' where z: "k = Suc k'" using k(2) by (cases k) auto
      show ?thesis by (rule that [OF s]) (use Cons k s Suc z in \<open>simp_all\<close>)
    qed
    have all: "take n (drop offset file) @ take (fdsz - n) (drop (offset + n) file) = ?b"
      using n(3) by (simp add: take_add [symmetric] add.commute flip: drop_drop)
    have "fdsz - n \<le> fuel" using n Suc.prems(3) by simp
    then show ?thesis
      using Suc.IH [of "c\<lparr>c_accept := as, c_out := c_out c @ take n ?b\<rparr>" "offset + n" "fdsz - n"] n loop Suc.prems all
      by (simp add: min_absorb1)
  qed
qed

text \<open>What the peer will make of a buffer, and the key it leaves behind.\<close>

definition cipher_out :: "'k ssl \<Rightarrow> 'k conn \<Rightarrow> bytes \<Rightarrow> bytes" where
  "cipher_out S c buffer =
     (case c_crypt c of None \<Rightarrow> buffer | Some (_, writeKey) \<Rightarrow> fst (RC4 S writeKey buffer))"

definition cipher_key :: "'k ssl \<Rightarrow> ('k \<times> 'k) option \<Rightarrow> bytes \<Rightarrow> ('k \<times> 'k) option" where
  "cipher_key S crypt buffer =
     map_option (\<lambda>(readKey, writeKey). (readKey, snd (RC4 S writeKey buffer))) crypt"

lemma CryptSendBuffer_line:
  assumes "stream_cipher S" and "willing (c_accept c)" and "buffer \<noteq> []"
  shows "\<exists>as. CryptSendBuffer S buffer c =
     (Inr (), c\<lparr>c_accept := as, c_out := c_out c @ cipher_out S c buffer, c_crypt := cipher_key S (c_crypt c) buffer\<rparr>)
     \<and> willing as"
proof (cases "c_crypt c")
  case None
  then show ?thesis
    using SendBuffer_line [OF assms(2,3)]
    by (cases c) (force simp: CryptSendBuffer_def act_simps cipher_out_def cipher_key_def)
next
  case (Some keys)
  obtain rk wk where keys: "keys = (rk, wk)" by (cases keys)
  obtain out wk' where out: "RC4 S wk buffer = (out, wk')" by (cases "RC4 S wk buffer")
  have "out \<noteq> []" using stream_cipherD(1) [OF assms(1), of wk buffer] assms(3) out by auto
  then show ?thesis
    using SendBuffer_line [of "c\<lparr>c_crypt := Some (rk, wk')\<rparr>" out] assms(2) Some keys out
    by (cases c) (force simp: CryptSendBuffer_def act_simps cipher_out_def cipher_key_def)
qed


lemma cipher_out_append:
  "stream_cipher S \<Longrightarrow> cipher_out S c (xs @ ys) = cipher_out S c xs @ cipher_out S (c'\<lparr>c_crypt := cipher_key S (c_crypt c) xs\<rparr>) ys"
  by (auto simp: cipher_out_def cipher_key_def stream_cipherD(2) split: option.split)

lemma CryptSendBuffers_line:
  assumes "stream_cipher S" and "willing (c_accept c)" and "\<forall>b \<in> set bufs. b \<noteq> []"
  shows "\<exists>c'. aseq (map (CryptSendBuffer S) bufs) c = (Inr (), c') \<and> c_out c' = c_out c @ cipher_out S c (concat bufs)
     \<and> c_in c' = c_in c \<and> willing (c_accept c') \<and> map_option fst (c_crypt c') = map_option fst (c_crypt c)"
  using assms(2,3)
proof (induction bufs arbitrary: c)
  case Nil
  have "cipher_out S c [] = []"
    using stream_cipherD(1) [OF assms(1), of _ "[]"] by (simp add: cipher_out_def split: option.split prod.split)
  with Nil show ?case by (simp add: act_simps)
next
  case (Cons b bufs)
  then obtain as where as: "CryptSendBuffer S b c =
     (Inr (), c\<lparr>c_accept := as, c_out := c_out c @ cipher_out S c b, c_crypt := cipher_key S (c_crypt c) b\<rparr>)" "willing as"
    using CryptSendBuffer_line [OF assms(1), of c b] by auto
  define c1 where "c1 = c\<lparr>c_accept := as, c_out := c_out c @ cipher_out S c b, c_crypt := cipher_key S (c_crypt c) b\<rparr>"
  have "map_option fst (c_crypt c1) = map_option fst (c_crypt c)"
    by (simp add: c1_def cipher_key_def option.map_comp comp_def case_prod_beta)
  moreover have "willing (c_accept c1)" "c_in c1 = c_in c" using as(2) by (simp_all add: c1_def)
  moreover have "c_out c1 @ cipher_out S c1 (concat bufs) = c_out c @ cipher_out S c (concat (b # bufs))"
    using cipher_out_append [OF assms(1), of c b "concat bufs" "c1"] by (simp add: c1_def cipher_out_def)
  moreover have "aseq (map (CryptSendBuffer S) (b # bufs)) c = aseq (map (CryptSendBuffer S) bufs) c1"
    using as(1) by (simp add: act_simps c1_def)
  ultimately show ?case using Cons.IH [of c1] Cons.prems(2) by fastforce
qed

text \<open>
  A handler that receives a request and sends one buffer in reply: what has been said to the peer so far is the
  clear text that its key makes of \<open>c_out\<close>.
\<close>

definition sent_key :: "'k ssl \<Rightarrow> 'k conn \<Rightarrow> bytes \<Rightarrow> 'k option" where
  "sent_key S c said = map_option (\<lambda>(_, writeKey). snd (RC4 S writeKey said)) (c_crypt c)"

definition says :: "'k ssl \<Rightarrow> 'k conn \<Rightarrow> bytes \<Rightarrow> 'k conn \<Rightarrow> bool" where
  "says S c said c' \<longleftrightarrow> c_out c' = c_out c @ cipher_out S c said
     \<and> (said \<noteq> [] \<longrightarrow> map_option snd (c_crypt c') = sent_key S c said)
     \<and> (said = [] \<longrightarrow> map_option snd (c_crypt c') = map_option snd (c_crypt c))"

lemma RC4_Nil: "stream_cipher S \<Longrightarrow> fst (RC4 S k []) = []"
  using stream_cipherD(1) [of S k "[]"] by simp

lemma cipher_out_Nil: "stream_cipher S \<Longrightarrow> cipher_out S c [] = []"
  by (simp add: cipher_out_def RC4_Nil split: option.split prod.split)

lemma says_append:
  assumes "stream_cipher S" and "says S c a c1" and "says S c1 b c2"
  shows "says S c (a @ b) c2"
proof (cases "c_crypt c")
  case None
  with assms show ?thesis by (auto simp: says_def cipher_out_def sent_key_def split: option.splits)
next
  case (Some k)
  obtain rk wk where k: "k = (rk, wk)" by (cases k)
  show ?thesis
  proof (cases "a = []")
    case True
    with assms Some k show ?thesis
      by (auto simp: says_def RC4_Nil cipher_out_def sent_key_def split: option.splits)
  next
    case False
    then obtain rk' where c1: "c_crypt c1 = Some (rk', snd (RC4 S wk a))"
      using assms(2) Some k by (auto simp: says_def sent_key_def)
    show ?thesis
      using assms Some k c1 False
      by (cases "b = []") (auto simp: says_def cipher_out_def sent_key_def stream_cipherD(2) RC4_Nil)
  qed
qed

lemma says_other:
  "(c_accept c1, c_out c1, map_option snd (c_crypt c1)) = (c_accept c, c_out c, map_option snd (c_crypt c)) \<Longrightarrow>
   says S c1 b c' = says S c b c'"
  by (cases "c_crypt c"; cases "c_crypt c1") (auto simp: says_def cipher_out_def sent_key_def)

lemma answer_line:
  assumes S: "stream_cipher S" and a: "crypt.reads S a p" and c: "calm_line (c_in c)" "willing (c_accept c)"
    and p: "p (unread_plain S c) = Inr (x, rest)" and f: "f x \<noteq> []"
  shows "\<exists>c'. abind a (\<lambda>x. CryptSendBuffer S (f x)) c = (Inr (), c') \<and> calm_line (c_in c') \<and> willing (c_accept c')
     \<and> unread_plain S c' = rest \<and> says S c (f x) c'"
proof -
  obtain c1 where c1: "a c = (Inr x, c1)" "calm_line (c_in c1)" "unread_plain S c1 = rest"
      "(c_accept c1, c_out c1, map_option snd (c_crypt c1)) = (c_accept c, c_out c, map_option snd (c_crypt c))"
    using crypt.reads_Inr [OF a _ p] S c(1) by metis
  obtain as where as: "CryptSendBuffer S (f x) c1 =
     (Inr (), c1\<lparr>c_accept := as, c_out := c_out c1 @ cipher_out S c1 (f x), c_crypt := cipher_key S (c_crypt c1) (f x)\<rparr>)"
     "willing as"
    using CryptSendBuffer_line [OF S, of c1 "f x"] c(2) c1(4) f by auto
  let ?c' = "c1\<lparr>c_accept := as, c_out := c_out c1 @ cipher_out S c1 (f x), c_crypt := cipher_key S (c_crypt c1) (f x)\<rparr>"
  have "says S c1 (f x) ?c'"
    using f by (cases "c_crypt c1") (auto simp: says_def sent_key_def cipher_key_def)
  moreover have "unread_plain S ?c' = unread_plain S c1"
    by (auto simp: unread_plain_def cipher_key_def split: option.split)
  ultimately show ?thesis using c1 as says_other [OF c1(4)] by (auto simp: act_simps)
qed

fun recv_each :: "'k ssl \<Rightarrow> nat list \<Rightarrow> ('k conn, bytes list) act" where
  "recv_each S [] = aret []"
| "recv_each S (n # ns) = abind (CryptRecvBuffer S n) (\<lambda>b. abind (recv_each S ns) (\<lambda>bs. aret (b # bs)))"

lemma recv_each_line:
  assumes "stream_cipher S" and "calm_line (c_in d)" and "sum_list ns = length (unread_plain S d)"
  shows "\<exists>xs d'. recv_each S ns d = (Inr xs, d') \<and> map length xs = ns \<and> concat xs = unread_plain S d"
  using assms(2,3)
proof (induction ns arbitrary: d)
  case (Cons n ns)
  then obtain d' where d': "CryptRecvBuffer S n d = (Inr (take n (unread_plain S d)), d')" "calm_line (c_in d')"
    "unread_plain S d' = drop n (unread_plain S d)"
    using crypt.get_enough [of S d n] assms(1) by auto
  moreover from d' Cons.prems have "sum_list ns = length (unread_plain S d')" by simp
  ultimately obtain xs d'' where "recv_each S ns d' = (Inr xs, d'')" "map length xs = ns" "concat xs = unread_plain S d'"
    using Cons.IH [of d'] by blast
  with d' Cons.prems show ?case by (auto simp: act_simps)
qed (simp add: act_simps)

section \<open>Properties\<close>

text \<open>
  RC4 itself, with its permutation as a function on octets: an instance on which the hypothesis on the cipher holds.
\<close>

type_synonym rc4_key = "(byte \<Rightarrow> byte) \<times> byte \<times> byte"

definition rc4_swap :: "byte \<Rightarrow> byte \<Rightarrow> (byte \<Rightarrow> byte) \<Rightarrow> byte \<Rightarrow> byte" where
  "rc4_swap i j P = P(i := P j, j := P i)"

definition rc4_setup :: "bytes \<Rightarrow> rc4_key" where
  "rc4_setup key =
     (fst (fold (\<lambda>n (P, j). let j = j + P (of_nat n) + key ! (n mod length key) in (rc4_swap (of_nat n) j P, j))
        [0..<256] (id, 0)), 0, 0)"

fun rc4_crypt :: "rc4_key \<Rightarrow> bytes \<Rightarrow> bytes \<times> rc4_key" where
  "rc4_crypt k [] = ([], k)"
| "rc4_crypt (P, i, j) (b # bs) =
     (let i = i + 1; j = j + P i; P = rc4_swap i j P
      in case rc4_crypt (P, i, j) bs of (out, k) \<Rightarrow> ((b XOR P (P i + P j)) # out, k))"

lemma rc4_crypt_length: "length (fst (rc4_crypt k bs)) = length bs"
  by (induction k bs rule: rc4_crypt.induct) (simp_all add: Let_def case_prod_beta)

lemma rc4_crypt_append:
  "rc4_crypt k (xs @ ys) =
     (fst (rc4_crypt k xs) @ fst (rc4_crypt (snd (rc4_crypt k xs)) ys), snd (rc4_crypt (snd (rc4_crypt k xs)) ys))"
  by (induction k xs rule: rc4_crypt.induct) (simp_all add: Let_def case_prod_beta)

lemma rc4_crypt_twice: "fst (rc4_crypt k (fst (rc4_crypt k bs))) = bs"
  by (induction k bs rule: rc4_crypt.induct) (simp_all add: Let_def xor.assoc case_prod_beta)

text \<open>The value of octets, least significant first, and back.\<close>

fun le_nat :: "bytes \<Rightarrow> nat" where
  "le_nat [] = 0"
| "le_nat (b # bs) = unat b + 256 * le_nat bs"

fun nat_le :: "nat \<Rightarrow> bytes" where
  "nat_le n = (if n = 0 then [] else of_nat n # nat_le (n div 256))"

declare nat_le.simps [simp del]

definition openssl :: "rc4_key ssl" where
  "openssl =
     \<lparr>BN_bin2bn = \<lambda>bs. le_nat (rev bs), BN_bn2bin = \<lambda>n. rev (nat_le n), BN_mod_exp = \<lambda>a p m. a ^ p mod m,
      RC4_set_key = rc4_setup, RC4 = rc4_crypt\<rparr>"

lemma openssl_stream_cipher: "stream_cipher openssl"
  by (simp add: stream_cipher_def openssl_def rc4_crypt_length rc4_crypt_append [symmetric] rc4_crypt_twice)

text \<open>
  C21: whatever buffers a server sends on a connection, encrypted or not, and in whatever pieces the kernel takes
  and delivers them, a peer that holds the same key reads the same octets, whatever sizes it asks for.
\<close>

theorem transfer_in_pieces:
  assumes "stream_cipher S" and "willing (c_accept c)" and "\<forall>b \<in> set bufs. b \<noteq> []"
  shows "\<exists>c' sent. aseq (map (CryptSendBuffer S) bufs) c = (Inr (), c') \<and> c_out c' = c_out c @ sent
     \<and> (\<forall>d ns. calm_line (c_in d) \<and> arrived (c_in d) = sent \<and> map_option fst (c_crypt d) = map_option snd (c_crypt c)
          \<and> sum_list ns = length (concat bufs) \<longrightarrow>
        (\<exists>xs d'. recv_each S ns d = (Inr xs, d') \<and> map length xs = ns \<and> concat xs = concat bufs))"
proof -
  obtain c' where c': "aseq (map (CryptSendBuffer S) bufs) c = (Inr (), c')"
    "c_out c' = c_out c @ cipher_out S c (concat bufs)"
    using CryptSendBuffers_line [OF assms] by blast
  have plain: "unread_plain S d = concat bufs"
    if "arrived (c_in d) = cipher_out S c (concat bufs)" "map_option fst (c_crypt d) = map_option snd (c_crypt c)" for d
    using that stream_cipherD(3) [OF assms(1)]
    by (auto simp: unread_plain_def cipher_out_def split: option.splits)
  show ?thesis using c' plain recv_each_line [OF assms(1)] by (metis (no_types, lifting))
qed

theorem transfer_in_pieces_witness:
  "let c = \<lparr>c_in = [], c_accept = [Takes 1, Takes 3], c_out = [], c_crypt = CryptStateInit openssl [1, 2, 3, 4, 5, 6, 7]\<rparr>;
       bufs = [[1, 2, 3], [4, 5, 6, 7, 8]]
   in \<exists>c' sent. aseq (map (CryptSendBuffer openssl) bufs) c = (Inr (), c') \<and> c_out c' = sent
     \<and> (\<forall>d ns. calm_line (c_in d) \<and> arrived (c_in d) = sent \<and> map_option fst (c_crypt d) = map_option snd (c_crypt c)
          \<and> sum_list ns = 8 \<longrightarrow>
        (\<exists>xs d'. recv_each openssl ns d = (Inr xs, d') \<and> map length xs = ns \<and> concat xs = [1, 2, 3, 4, 5, 6, 7, 8]))"
  using transfer_in_pieces [OF openssl_stream_cipher, of
    "\<lparr>c_in = [], c_accept = [Takes 1, Takes 3], c_out = [], c_crypt = CryptStateInit openssl [1, 2, 3, 4, 5, 6, 7]\<rparr>"
    "[[1, 2, 3], [4, 5, 6, 7, 8]]"]
  by (simp add: Let_def eval_nat_numeral)

end
