(* ===== verification/Game_Routing.thy ===== *)
theory Game_Routing
  imports Game_Locks Sockets
begin

text \<open>
  Who receives a message that is relayed, in which form, and what a player who is not an administrator can
  make the host send to others.
\<close>

section \<open>Recipients\<close>

definition receives :: "world \<Rightarrow> creatable \<Rightarrow> u32 \<Rightarrow> client \<Rightarrow> bool" where
  "receives w msg sender c \<longleftrightarrow> \<not> (playerId (w_client w c) = sender \<and> \<not> bit (contentFlags msg) 2)"

definition deliver :: "(client \<Rightarrow> nat) \<Rightarrow> bytes \<Rightarrow> world \<Rightarrow> world" where
  "deliver copies buf w =
     w\<lparr>w_client := (\<lambda>c. (w_client w c)\<lparr>gc_broadcast := gc_broadcast (w_client w c) @ replicate (copies c) buf\<rparr>)\<rparr>"

lemma deliver_none: "deliver (\<lambda>_. 0) buf w = w"
  by (simp add: deliver_def)

lemma receives_deliver [simp]: "receives (deliver copies buf w) msg sender c = receives w msg sender c"
  by (simp add: receives_def deliver_def playerId_def)

lemma send_unless_sender_spec:
  "send_unless_sender msg sender buf c w =
     (Inr (), deliver (\<lambda>c'. if c' = c \<and> receives w msg sender c then 1 else 0) buf w)"
  by (auto simp: send_unless_sender_def receives_def deliver_def aclient_def send_buf_def mod_client_def awhen_def
      abind_def act_simps fun_eq_iff intro!: world.equality)

lemma send_loop:
  "aseq (map (send_unless_sender msg sender buf \<circ> snd) cs) w =
     (Inr (), deliver (\<lambda>c. length (filter (\<lambda>e. snd e = c \<and> receives w msg sender c) cs)) buf w)"
proof (induction cs arbitrary: w)
  case Nil
  show ?case by (simp add: deliver_none act_simps)
next
  case (Cons e cs)
  let ?w = "deliver (\<lambda>c. if c = snd e \<and> receives w msg sender (snd e) then 1 else 0) buf w"
  have "aseq (map (send_unless_sender msg sender buf \<circ> snd) (e # cs)) w =
      aseq (map (send_unless_sender msg sender buf \<circ> snd) cs) ?w"
    by (simp add: athen_def abind_def send_unless_sender_spec)
  also have "\<dots> = (Inr (), deliver (\<lambda>c. length (filter (\<lambda>e. snd e = c \<and> receives w msg sender c) cs)) buf ?w)"
    by (simp add: Cons.IH)
  also have "deliver (\<lambda>c. length (filter (\<lambda>e. snd e = c \<and> receives w msg sender c) cs)) buf ?w =
      deliver (\<lambda>c. length (filter (\<lambda>e. snd e = c \<and> receives w msg sender c) (e # cs))) buf w"
    by (auto simp: deliver_def fun_eq_iff replicate_add [symmetric] intro!: world.equality)
  finally show ?case .
qed

lemma deliver_host: "w_host (deliver copies buf w) = w_host w"
  by (simp add: deliver_def)

lemma propagate_spec:
  assumes "writebuf (game_lib E) msg = Inr buf" and "\<not> gh_clientMutex (w_host w h)"
  shows "dm_propagate E h msg sender w =
     (Inr (), deliver (\<lambda>c. length (filter (\<lambda>e. snd e = c \<and> receives w msg sender c) (gh_clients (w_host w h)))) buf w)"
proof -
  define w1 where "w1 = w\<lparr>w_host := (w_host w)(h := (w_host w h)\<lparr>gh_clientMutex := True\<rparr>)\<rparr>"
  have "receives w1 msg sender c = receives w msg sender c" for c by (simp add: receives_def w1_def)
  moreover have "lock_clients h w = (Inr (), w1)"
    using assms(2) by (simp add: lock_clients_def mod_host_def act_simps w1_def)
  moreover have "abind (ahost h) (\<lambda>g. aseq (map (send_unless_sender msg sender buf \<circ> snd) (gh_clients g))) w1 =
      aseq (map (send_unless_sender msg sender buf \<circ> snd) (gh_clients (w_host w h))) w1"
    by (simp add: ahost_def act_simps w1_def)
  ultimately show ?thesis
    using assms
    by (simp add: dm_propagate_def send_to_host_def lock_guard_def act_simps send_loop unlock_clients_def mod_host_def
        deliver_host) (simp add: deliver_def w1_def fun_upd_idem)
qed

section \<open>The form of a relayed message\<close>

text \<open>What \<open>cb_netmsg\<close> takes from the stream of a client: the type, the size and the octets of the message.\<close>

definition netmsg_read :: "(u32 \<times> bytes) rd" where
  "netmsg_read =
     rbind (recv_value 4) (\<lambda>type.
     rbind (recv_size MAX_PAYLOAD_SIZE) (\<lambda>sz.
     rbind (recv_bytes (unat sz)) (\<lambda>buffer. rret (type, buffer))))"

lemma netmsg_framing:
  assumes "creatable_wf L msg" and "depth msg < fuel" and "is_NetMessage msg"
    and "\<And>b. creatable_image L msg = Inr b \<Longrightarrow> length b \<le> 131072"
  shows "\<exists>buf b. writebuf L msg = Inr buf
     \<and> (\<forall>rest. netmsg_read (buf @ rest) = Inr ((ucast (node_type (node_of msg)), b), rest))
     \<and> Factory_Read (Factory_read L fuel) is_NetMessage b = Inr (Some msg, [])"
proof -
  obtain n where n: "fuel = Suc n" "depth msg \<le> n" using assms(2) by (cases fuel) auto
  have "reads_back (creatable_image L msg) (ReadCreatable (Factory_read L fuel)) (Some msg)"
    unfolding n(1) using assms(1) n(2) by (intro moul.known_read [of _ _ n]) simp
  then obtain b where b: "creatable_image L msg = Inr b" "ReadCreatable (Factory_read L fuel) b = Inr (Some msg, [])"
    by (auto simp: reads_back_def) (metis append_Nil2)
  have len: "unat (of_nat (length b) :: u32) = length b" "\<not> of_nat (length b) > MAX_PAYLOAD_SIZE"
    using payload_size [OF assms(4) [OF b(1)]] by simp_all
  then have "netmsg_read (write_u32 t @ write_u32 (of_nat (length b)) @ b @ rest) = Inr ((t, b), rest)" for t rest
    by (simp add: netmsg_read_def recv_size_def write_u32_def Stream_write_def rd_simps)
  then show ?thesis
    using b assms(3) by (auto simp: writebuf_def Factory_Read_def rbind_def rret_def)
qed

section \<open>What may be relayed\<close>

text \<open>The object inside a game message, if it has one, is safe.\<close>

definition relay_safe :: "creatable \<Rightarrow> bool" where
  "relay_safe c \<longleftrightarrow> (\<forall>m msg. cast_GameMessage (node_of c) = Some m \<longrightarrow> ngm_message m = Some msg \<longrightarrow> net_safe msg)"

lemma relay_safe_plain: "relay_safe (Creatable (N_plain x))"
  by (simp add: relay_safe_def)

lemma relay_safe_host: "relay_safe (unload_message k t)" "relay_safe (avatar_message k t)" "relay_safe (lock_reply obj b t)"
  by (simp_all add: relay_safe_def unload_message_def avatar_message_def lock_reply_def net_safe_children somes.simps)

lemma relay_safe_with: "net_safe msg \<Longrightarrow> relay_safe (Creatable (with_message msg n))"
proof (cases n)
  case (N_NetMsgGameMessage m)
  then show "net_safe msg \<Longrightarrow> ?thesis" by (cases m) (simp add: relay_safe_def)
next
  case (N_NetMsgGameMessageDirected m)
  then show "net_safe msg \<Longrightarrow> ?thesis" by (cases m; cases "ngd_base m") (simp add: relay_safe_def)
next
  case (N_NetMsgLoadClone m)
  then show "net_safe msg \<Longrightarrow> ?thesis" by (cases m; cases "nlc_base m") (simp add: relay_safe_def)
qed (simp_all add: relay_safe_def)

lemma task_parts [simp]: "atm_task (task_message f m) = atm_task m"
  by (cases m) simp

lemma seek_parts [simp]: "as_base (seek_message f m) = task_message f (as_base m)"
  by (cases m) simp

lemma clone_parts [simp]: "lcm_triggerMsg (clone_message f m) = lcm_triggerMsg m"
  by (cases m) simp

lemma callbacks_parts [simp]: "mwc_callbacks (callbacks_message f m) = mwc_callbacks m"
  by (cases m) simp

lemma plain_message_class [simp]: "plain_class (plain_message f x) = plain_class x"
  by (cases x) simp_all

lemma node_message_children: "node_children (node_message f n) = node_children n"
  by (cases "(f, n)" rule: node_message.cases) simp_all

lemma node_message_class: "node_class (node_message f n) = node_class n"
  by (cases "(f, n)" rule: node_message.cases) simp_all

lemma node_message_cast: "node_cast (node_message f n) = node_cast n"
  by (cases "(f, n)" rule: node_message.cases) (simp_all add: node_message_children)

lemma flags_cast: "well_cast (add_bcastFlags flags c) = well_cast c" "checkable (add_bcastFlags flags c) = checkable c"
  by (cases c; simp add: add_bcastFlags_def well_cast_children checkable_def node_message_children node_message_class
      node_message_cast)+

section \<open>Handlers of a player who is not an administrator\<close>

definition safe_clones :: "(Uoid \<times> creatable NetMsgLoadClone) list \<Rightarrow> bool" where
  "safe_clones cs \<longleftrightarrow> (\<forall>m \<in> snd ` set cs. relay_safe (Creatable (N_NetMsgLoadClone m)))"

definition clones_safe :: "world \<Rightarrow> bool" where
  "clones_safe w \<longleftrightarrow> (\<forall>h. safe_clones (gh_clones (w_host w h)))"

definition sends_safe :: "game_env \<Rightarrow> world \<Rightarrow> world \<Rightarrow> bool" where
  "sends_safe E w w' \<longleftrightarrow>
     (\<forall>c. \<exists>bs. gc_broadcast (w_client w' c) = gc_broadcast (w_client w c) @ bs
        \<and> (\<forall>b \<in> set bs. \<exists>m. relay_safe m \<and> writebuf (game_lib E) m = Inr b))"

definition restricted :: "client \<Rightarrow> world \<Rightarrow> bool" where
  "restricted c w \<longleftrightarrow> clones_safe w \<and> \<not> gc_isAdmin (w_client w c)"

lemma sends_safe_refl: "(\<And>c. gc_broadcast (w_client w' c) = gc_broadcast (w_client w c)) \<Longrightarrow> sends_safe E w w'"
  by (simp add: sends_safe_def)

lemma sends_safe_trans:
  assumes "sends_safe E w w'" and "sends_safe E w' w''" shows "sends_safe E w w''"
  unfolding sends_safe_def
proof
  fix c
  obtain bs bs' where "gc_broadcast (w_client w' c) = gc_broadcast (w_client w c) @ bs"
    "gc_broadcast (w_client w'' c) = gc_broadcast (w_client w' c) @ bs'"
    "\<forall>b \<in> set bs \<union> set bs'. \<exists>m. relay_safe m \<and> writebuf (game_lib E) m = Inr b"
    using assms unfolding sends_safe_def by (metis Un_iff)
  then show "\<exists>bs. gc_broadcast (w_client w'' c) = gc_broadcast (w_client w c) @ bs
      \<and> (\<forall>b \<in> set bs. \<exists>m. relay_safe m \<and> writebuf (game_lib E) m = Inr b)"
    by (intro exI [of _ "bs @ bs'"]) simp
qed

lemma sends_safe_one:
  "relay_safe m \<Longrightarrow> writebuf (game_lib E) m = Inr b \<Longrightarrow>
   sends_safe E w (w\<lparr>w_client := (w_client w)(c := (w_client w c)\<lparr>gc_broadcast := gc_broadcast (w_client w c) @ [b]\<rparr>)\<rparr>)"
  by (auto simp: sends_safe_def)

definition relays :: "client \<Rightarrow> game_env \<Rightarrow> world \<Rightarrow> world \<Rightarrow> bool" where
  "relays c E w w' \<longleftrightarrow> (restricted c w \<longrightarrow> restricted c w' \<and> sends_safe E w w')"

lemma relays_same:
  assumes "\<And>h. gh_clones (w_host w' h) = gh_clones (w_host w h)"
    and "\<And>c. gc_isAdmin (w_client w' c) = gc_isAdmin (w_client w c)"
    and "\<And>c. gc_broadcast (w_client w' c) = gc_broadcast (w_client w c)"
  shows "relays c E w w'"
  using assms by (simp add: relays_def restricted_def clones_safe_def sends_safe_refl)

interpretation relay: state_frame "relays c E" relay_safe E for c E
proof unfold_locales
  fix s s' s'' assume "relays c E s s'" and "relays c E s' s''"
  then show "relays c E s s''" unfolding relays_def using sends_safe_trans by blast
next
  fix msg buf w c'
  assume "relay_safe msg" and "writebuf (game_lib E) msg = Inr buf"
  then have "sends_safe E w
      (w\<lparr>w_client := (w_client w)(c' := (w_client w c')\<lparr>gc_broadcast := gc_broadcast (w_client w c') @ [buf]\<rparr>)\<rparr>)"
    by (rule sends_safe_one)
  then show "relays c E w
      (w\<lparr>w_client := (w_client w)(c' := (w_client w c')\<lparr>gc_broadcast := gc_broadcast (w_client w c') @ [buf]\<rparr>)\<rparr>)"
    by (simp add: relays_def restricted_def clones_safe_def)
qed (auto intro!: relays_same relay_safe_plain relay_safe_host split: if_splits)

interpretation relay_inv: guarded_frame "relays c E" "restricted c" for c E
  by unfold_locales (simp add: relays_def)

lemma relay_mod:
  "relay.keeps c E (send_reply c' r)" "relay.keeps c E (mod_host h (\<lambda>g. g\<lparr>gh_locks := f g\<rparr>))"
  "relay.keeps c E (mod_host h (\<lambda>g. g\<lparr>gh_channel := p g\<rparr>))"
  unfolding send_reply_def mod_host_def mod_client_def
  by (rule relay.keeps_amod, rule relays_same; simp)+

lemma relay_test_and_set: "relay.keeps c E (dm_test_and_set E h c' m)"
  unfolding dm_test_and_set_def Let_def by (intro relay.sending_intros relay_mod)

lemma relay_send_clones: "relay.keeps c E (send_clones E h c')"
  unfolding send_clones_def ahost_def
proof (rule relay_inv.keeps_get)
  fix w assume "restricted c w"
  then have "relay_safe (Creatable (N_NetMsgLoadClone m))" if "(obj, m) \<in> set (gh_clones (w_host w h))" for obj m
    using that unfolding restricted_def clones_safe_def safe_clones_def by force
  then show "relay.keeps c E
      (aseq (map (\<lambda>(_, m). send_msg E (Creatable (N_NetMsgLoadClone m)) c') (gh_clones (w_host w h))))"
    by (intro relay.keeps_aseq_map) (auto intro!: relay.keeps_send_msg)
qed

lemma uput_values: "snd ` set (uput k v m) \<subseteq> insert v (snd ` set m)"
  by (induction m) auto

lemma safe_clones_change:
  "relay_safe (Creatable (N_NetMsgLoadClone m)) \<Longrightarrow> safe_clones cs \<Longrightarrow> safe_clones (uput k m cs)"
  "safe_clones cs \<Longrightarrow> safe_clones (uerase k cs)"
  unfolding safe_clones_def using uput_values [of k m cs] by (blast, simp add: uerase_def)

lemma relay_keep_clone:
  assumes "relay_safe (Creatable (N_NetMsgLoadClone m))"
  shows "relay.keeps c E (keep_clone h c' m)"
proof -
  have "relay.keeps c E (mod_host h (\<lambda>g. g\<lparr>gh_clones :=
      (if nlc_isLoading m then uput (nlc_object m) m (gh_clones g) else uerase (nlc_object m) (gh_clones g))\<rparr>))"
    unfolding mod_host_def
    by (rule relay.keeps_amod) (auto simp: relays_def restricted_def clones_safe_def assms safe_clones_change
        intro!: sends_safe_refl)
  then show ?thesis
    unfolding keep_clone_def aseq.simps by (intro relay.sending_intros relay.keeps_avatar)
qed

text \<open>What the factory can have read: the object inside a game message is one the filter covers.\<close>

definition covered :: "creatable node \<Rightarrow> bool" where
  "covered n \<longleftrightarrow> (\<forall>m msg. cast_GameMessage n = Some m \<longrightarrow> ngm_message m = Some msg \<longrightarrow> well_cast msg \<and> checkable msg)"

lemma read_covered:
  assumes "Factory_Read (Factory_read L fuel) is_T bytes = Inr (Some c, rest)"
  shows "covered (node_of c)"
proof -
  have "ReadCreatable (Factory_read L fuel) bytes = Inr (Some c, rest)"
    using assms by (auto simp: Factory_Read_def rbind_def rret_def split: sum.splits prod.splits option.splits if_splits)
  then have "well_cast c"
    using yieldsD [OF moul_cast.ReadCreatable_yields] by fastforce
  then show ?thesis
    unfolding covered_def
    by (cases c; cases "node_of c") (auto simp: well_cast_children somes.simps list_all_iff elim!: cast_GameMessage.elims)
qed

lemma covered_safe:
  assumes "covered n" and "cast_GameMessage n = Some m" and "ngm_message m = Some msg"
    and "makeSafeForNet (add_bcastFlags flags msg) = Inr (True, msg') \<or> makeSafeForNet msg = Inr (True, msg')"
  shows "net_safe msg'"
  using assms made_safe flags_cast unfolding covered_def by blast

lemma relay_checked:
  assumes "\<And>msg'. makeSafeForNet msg = Inr (True, msg') \<Longrightarrow> relay.keeps c E (f msg')"
  shows "relay.keeps c E (abind (alift (makeSafeForNet msg)) (\<lambda>(safe, msg'). awhen safe (f msg')))"
  using assms
  by (cases "makeSafeForNet msg")
    (auto simp: relay.keeps_def abind_def alift_def act_simps awhen_def relay.R_refl split: prod.split bool.split)

lemma relay_load_clone:
  assumes "covered n" and "cast_LoadClone n = Some m"
  shows "relay.keeps c E (dm_load_clone E h c' m)"
proof (cases "ngm_message (nlc_base m)")
  case None
  then show ?thesis by (simp add: dm_load_clone_def null_pointer_def relay.keeps_afail)
next
  case (Some msg)
  have n: "n = N_NetMsgLoadClone m" using assms(2) by (cases n) auto
  have "relay.keeps c E (abind (aclient c') (\<lambda>k. let m' = clone_with msg' m in
      aseq [keep_clone h c' m', dm_propagate E h (Creatable (N_NetMsgLoadClone m')) (playerId k),
            awhen (nlc_isLoading m' \<and> \<not> nlc_isPlayer m') (keep_clone h c' (clone_initial m'))]))"
    if "makeSafeForNet msg = Inr (True, msg')" for msg'
  proof -
    have "net_safe msg'" using covered_safe [OF assms(1) _ Some] that by (simp add: n)
    then have safe: "relay_safe (Creatable (N_NetMsgLoadClone (clone_with msg' m)))"
      using relay_safe_with [of msg' n] by (simp add: n)
    then have "relay_safe (Creatable (N_NetMsgLoadClone (clone_initial (clone_with msg' m))))"
      by (cases m) (simp add: relay_safe_def)
    then show ?thesis
      unfolding Let_def aseq.simps by (intro relay.sending_intros relay_keep_clone safe)
  qed
  then show ?thesis
    unfolding dm_load_clone_def Some option.case null_pointer_def
    by (intro relay.keeps_if relay.keeps_afail relay_checked)
qed

lemma relay_game_message:
  assumes "\<And>n. netmsg = Some n \<Longrightarrow> covered n"
  shows "relay.keeps c E (on_game_message E h c netmsg)"
  unfolding on_game_message_def Let_def aclient_def
proof (intro relay.keeps_deref relay_inv.keeps_get)
  fix n m msg w
  assume n: "netmsg = Some n" "cast_GameMessage n = Some m" "ngm_message m = Some msg" and "restricted c w"
  then have "\<not> gc_isAdmin (w_client w c)" by (simp add: restricted_def)
  moreover have "relay_safe (Creatable (with_message msg' n))"
    if "makeSafeForNet (add_bcastFlags 1024 msg) = Inr (True, msg')" for msg'
    using assms n that by (intro relay_safe_with covered_safe [of n m msg]) auto
  ultimately show "relay.keeps c E
    (if gc_isAdmin (w_client w c)
     then if bit (nt_contentFlags (ngm_base m)) 19
          then dm_broadcast E (Creatable (with_message (add_bcastFlags 1024 msg) n)) (playerId (w_client w c))
          else dm_propagate E h (Creatable (with_message (add_bcastFlags 1024 msg) n)) (playerId (w_client w c))
     else abind (alift (makeSafeForNet (add_bcastFlags 1024 msg)))
           (\<lambda>(safe, msg'). awhen safe (dm_propagate E h (Creatable (with_message msg' n)) (playerId (w_client w c)))))"
    by (auto intro!: relay_checked relay.keeps_propagate)
qed

lemma relay_directed_message:
  assumes "\<And>n. netmsg = Some n \<Longrightarrow> covered n"
  shows "relay.keeps c E (on_directed_message E c netmsg)"
  unfolding on_directed_message_def Let_def aclient_def
proof (intro relay.keeps_deref relay_inv.keeps_get)
  fix n m msg w
  assume n: "netmsg = Some n" "cast_GameMessageDirected n = Some m" "ngm_message (ngd_base m) = Some msg"
    and "restricted c w"
  then have "\<not> gc_isAdmin (w_client w c)" by (simp add: restricted_def)
  moreover have "cast_GameMessage n = Some (ngd_base m)" using n(2) by (cases n) auto
  then have "relay_safe (Creatable (with_message msg' n))"
    if "makeSafeForNet (add_bcastFlags 1024 msg) = Inr (True, msg')" for msg'
    using assms n that by (intro relay_safe_with covered_safe [of n "ngd_base m" msg]) auto
  ultimately show "relay.keeps c E
    (abind (if gc_isAdmin (w_client w c) then aret (True, add_bcastFlags 1024 msg)
            else alift (makeSafeForNet (add_bcastFlags 1024 msg)))
      (\<lambda>(pass, msg'). awhen pass (dm_propagate_to E (Creatable (with_message msg' n)) (ngd_receivers m))))"
    by (auto intro!: relay_checked relay.keeps_propagate_to)
qed

lemma relay_message: "relay.keeps c E (dm_game_message E h c type message)"
proof (rule relay.keeps_message)
  fix n rest
  assume "Factory_Read (Factory_read (game_lib E) (ge_fuel E)) is_NetMessage message = Inr (n, rest)"
  then have "covered k" if "map_option node_of n = Some k" for k
    using that by (cases n) (auto dest: read_covered)
  then show "relay.keeps c E (dispatch E h c type (map_option node_of n))"
    by (intro relay.keeps_dispatch relay_test_and_set relay_game_message relay_directed_message relay_send_clones)
      (auto simp: bind_eq_Some_conv relay_safe_def intro: relay_load_clone elim!: cast_Voice.elims)
qed (rule relay_mod)

section \<open>Properties\<close>

text \<open>
  C8: whatever octets a player who is not an administrator sends, everything the host puts on the broadcast
  queue of any client in return is the image of a network message whose game message, if it carries one, is safe
  at every depth; and the clones the host remembers for players who come later stay safe.
\<close>

theorem relayed_messages_are_safe:
  assumes "gh_channel (w_host w h) = e_GamePropagate c type message # rest" and "\<not> gc_isAdmin (w_client w c)"
    and "clones_safe w" and "dm_gameHost E h w = (r, w')"
  shows "clones_safe w' \<and> (\<forall>c'. \<exists>bs. gc_broadcast (w_client w' c') = gc_broadcast (w_client w c') @ bs
     \<and> (\<forall>b \<in> set bs. \<exists>m. relay_safe m \<and> writebuf (game_lib E) m = Inr b))"
proof -
  define w1 where "w1 = w\<lparr>w_host := (w_host w)(h := (w_host w h)\<lparr>gh_channel := rest\<rparr>)\<rparr>"
  have "relay.keeps c E (acatch (dm_game_message E h c type message) (send_reply c 1))"
    by (intro relay.keeps_acatch relay_message relay_mod)
  moreover have "acatch (dm_game_message E h c type message) (send_reply c 1) w1 = (r, w')"
    using dm_gameHost_head [OF assms(1), of E] assms(4) by (simp add: w1_def)
  ultimately have "relays c E w1 w'" using relay.keepsD [where s = w1] by (metis snd_conv)
  moreover have "restricted c w1" using assms(2,3) by (simp add: restricted_def clones_safe_def w1_def)
  ultimately show ?thesis by (simp add: relays_def restricted_def sends_safe_def w1_def)
qed

text \<open>
  C33: a message the host propagates reaches every client of the age except its sender, and the sender too when
  the message asks for it, once each and nobody else; and what they receive has the form in which the server itself
  takes messages and is read back as the same object.
\<close>

theorem propagate_reaches_the_others:
  assumes "creatable_wf (game_lib E) msg" and "depth msg < fuel" and "is_NetMessage msg"
    and "\<And>b. creatable_image (game_lib E) msg = Inr b \<Longrightarrow> length b \<le> 131072"
    and "\<not> gh_clientMutex (w_host w h)" and "distinct (map snd (gh_clients (w_host w h)))"
  shows "\<exists>w' buf b. dm_propagate E h msg sender w = (Inr (), w')
     \<and> (\<forall>c. gc_broadcast (w_client w' c) = gc_broadcast (w_client w c) @
          (if c \<in> snd ` set (gh_clients (w_host w h))
              \<and> (playerId (w_client w c) \<noteq> sender \<or> bit (contentFlags msg) 2) then [buf] else []))
     \<and> (\<forall>rest. netmsg_read (buf @ rest) = Inr ((ucast (node_type (node_of msg)), b), rest))
     \<and> Factory_Read (Factory_read (game_lib E) fuel) is_NetMessage b = Inr (Some msg, [])"
proof -
  obtain buf b where buf: "writebuf (game_lib E) msg = Inr buf"
    "\<forall>rest. netmsg_read (buf @ rest) = Inr ((ucast (node_type (node_of msg)), b), rest)"
    "Factory_Read (Factory_read (game_lib E) fuel) is_NetMessage b = Inr (Some msg, [])"
    using netmsg_framing [OF assms(1-4)] by blast
  have once: "length (filter (\<lambda>e. snd e = c \<and> P) cs) = (if c \<in> snd ` set cs \<and> P then 1 else 0)"
    if "distinct (map snd cs)" for c P and cs :: "(u32 \<times> client) list"
    using that by (induction cs) (auto simp: filter_empty_conv, force+)
  show ?thesis
    using buf propagate_spec [OF buf(1) assms(5), of sender]
    by (auto simp: deliver_def once [OF assms(6)] receives_def)
qed

text \<open>
  A client that asks for the members of an age whose client table is empty makes the handler throw with the
  mutex of the table locked: the host answers, but from then on every propagation waits for ever.
\<close>

theorem members_request_locks_table:
  assumes "gh_clients (w_host w h) = []" and "\<not> gh_clientMutex (w_host w h)"
    and "writebuf (game_lib E) msg = Inr buf"
  shows "\<exists>w'. dm_send_members E h c w = (Inl Length_error, w') \<and> gh_clientMutex (w_host w' h)
     \<and> dm_propagate E h msg sender w' = (Inl Blocked, w')"
  using assms
  by (simp add: dm_send_members_def now_def acall_def aclient_def collect_members_def lock_clients_def mod_host_def
      ahost_def act_simps athen_def abind_def dm_propagate_def send_to_host_def lock_guard_def)

text \<open>
  A client message that is cut off within its first two octets, or that is the image of a null object, is not
  refused: the handler calls a method through a null pointer.
\<close>

theorem malformed_message_undefined:
  assumes "length message < 2 \<or> message = [0x00, 0x80] @ rest \<and> rest \<noteq> []" and "0 < ge_fuel E"
  shows "dm_game_message E h c type message w = (Inl (Thrown UndefinedBehaviour), w)"
proof (cases "length message < 2")
  case True
  have "Factory_Read (Factory_read (game_lib E) (ge_fuel E)) is_NetMessage message = Inl EofException"
    using True by (simp add: Factory_Read_def ReadCreatable_def read_u16_def Stream_read_def Stream_readBytes_def rbind_def
        rret_def rfail_def)
  then show ?thesis using True by (simp add: dm_game_message_def null_pointer_def act_simps)
next
  case False
  then have message: "message = [0x00, 0x80] @ rest" "rest \<noteq> []" using assms by auto
  obtain fuel where fuel: "ge_fuel E = Suc fuel" using assms(2) by (cases "ge_fuel E") auto
  have "read_u16 message = Inr (0x8000, rest)"
    unfolding message(1) by (simp add: read_u16_def Stream_read_def Stream_readBytes_def rbind_def rret_def le_word_def)
  then have "Factory_Read (Factory_read (game_lib E) (ge_fuel E)) is_NetMessage message = Inr (None, rest)"
    unfolding fuel by (simp add: Factory_Read_def ReadCreatable_def rbind_def rret_def Create_null)
  then show ?thesis using message by (simp add: dm_game_message_def deref_def null_pointer_def act_simps)
qed

section \<open>Witnesses\<close>

theorem relayed_messages_are_safe_witness:
  "\<exists>r w'. dm_gameHost sample_genv 0 (sample_game_world [(100, 0)] [e_GamePropagate 1 0x026B [1, 2]]) = (r, w')
     \<and> clones_safe w'"
proof -
  let ?w = "sample_game_world [(100, 0)] [e_GamePropagate 1 0x026B [1, 2]]"
  obtain r w' where run: "dm_gameHost sample_genv 0 ?w = (r, w')" by fastforce
  have "\<not> gc_isAdmin (w_client ?w 1)" "clones_safe ?w"
    by (simp_all add: sample_game_world_def sample_age_def sample_player_def clones_safe_def safe_clones_def)
  from relayed_messages_are_safe [OF sample_game_channel this run] run show ?thesis by blast
qed

theorem propagate_reaches_the_others_witness:
  "\<exists>w' buf b. dm_propagate sample_genv 0 (group_message True UnifiedTime_null) 100 (sample_game_world [(100, 0), (101, 1)] [])
      = (Inr (), w')
     \<and> gc_broadcast (w_client w' 0) = [] \<and> gc_broadcast (w_client w' 1) = [buf]
     \<and> Factory_Read (Factory_read ascii_lib 2) is_NetMessage b = Inr (Some (group_message True UnifiedTime_null), [])"
proof -
  let ?m = "group_message True UnifiedTime_null" and ?w = "sample_game_world [(100, 0), (101, 1)] []"
  have lib: "game_lib sample_genv = ascii_lib" by (simp add: sample_genv_def sample_env_def)
  have "creatable_wf (game_lib sample_genv) ?m" "depth ?m < 2" "is_NetMessage ?m"
    by (simp_all add: group_message_def creatable_wf_children depth.simps is_NetMessage_def NetMsgGroupOwner_wf_def
        NetMessage_wf_def net_header_def list_wf_def GroupInfo_wf_def)
  moreover have "length b \<le> 131072" if "creatable_image (game_lib sample_genv) ?m = Inr b" for b
    using that by (auto simp: group_message_def NetMsgGroupOwner_write_def NetMessage_write_def net_header_def write_list_def
        GroupInfo_write_def Location_write_def UnifiedTime_write_def Let_def)
  moreover have "\<not> gh_clientMutex (w_host ?w 0)" "distinct (map snd (gh_clients (w_host ?w 0)))"
    by (simp_all add: sample_game_world_def sample_age_def)
  ultimately obtain w' buf b where "dm_propagate sample_genv 0 ?m 100 ?w = (Inr (), w')"
    "\<forall>c. gc_broadcast (w_client w' c) = gc_broadcast (w_client ?w c) @
        (if c \<in> snd ` set (gh_clients (w_host ?w 0)) \<and> (playerId (w_client ?w c) \<noteq> 100 \<or> bit (contentFlags ?m) 2)
         then [buf] else [])"
    "Factory_Read (Factory_read (game_lib sample_genv) 2) is_NetMessage b = Inr (Some ?m, [])"
    using propagate_reaches_the_others [of sample_genv ?m 2 ?w 0 100] by blast
  moreover have "gc_broadcast (w_client ?w c) = []" "playerId (w_client ?w c) = 100 + of_nat c"
    "snd ` set (gh_clients (w_host ?w 0)) = {0, 1}" "\<not> bit (contentFlags ?m) 2" for c
    by (auto simp: sample_game_world_def sample_age_def sample_player_def sample_guid_def playerId_def contentFlags_def
        group_message_def net_header_def)
  ultimately show ?thesis unfolding lib by (intro exI [of _ w'] exI [of _ buf] exI [of _ b]) simp
qed

theorem members_request_locks_table_witness:
  "\<exists>w'. dm_send_members sample_genv 0 1 (sample_game_world [] []) = (Inl Length_error, w') \<and> gh_clientMutex (w_host w' 0)
     \<and> dm_propagate sample_genv 0 (group_message True UnifiedTime_null) 0 w' = (Inl Blocked, w')"
proof -
  obtain buf where "writebuf (game_lib sample_genv) (group_message True UnifiedTime_null) = Inr buf"
    using host_messages_written(1) by blast
  then show ?thesis
    by (intro members_request_locks_table) (simp_all add: sample_game_world_def sample_age_def)
qed

theorem malformed_message_undefined_witness:
  "dm_game_message sample_genv 0 1 0x026B [0x6B] (sample_game_world [] []) =
     (Inl (Thrown UndefinedBehaviour), sample_game_world [] [])"
  by (rule malformed_message_undefined [where rest = "[]"]) (simp_all add: sample_genv_def)

end
