(* ===== verification/Game_State.thy ===== *)
theory Game_State
  imports Game_Routing
begin

text \<open>
  The state of the age in the host: updates sent by clients are added to the stored state of their object
  and descriptor, and a client that asks for the state is sent all of it and told how much that is.
\<close>

section \<open>Storing\<close>

interpretation stored: game_frame "\<lambda>w w'. \<forall>h. gh_states (w_host w' h) = gh_states (w_host w h)" "\<lambda>_. True" E for E
  by unfold_locales auto

lemma find_put_state:
  "find_state obj name (put_state obj' name' gs g) =
     (if Uoid_eq obj' obj \<and> name' = name then Some gs else find_state obj name g)"
  using ufind_cong [of obj' obj "gh_states g"]
  by (cases "ufind obj (gh_states g)")
    (auto simp: find_state_def put_state_def ufind_uput AList.update_conv split: option.splits)

lemma store_state_spec:
  assumes "store_state E h c m bcast name state w = (Inr (), w')"
  shows "gh_states (w_host w' h) = gh_states (put_state (no_object (ss_base m)) name
     \<lparr>gs_persist = ss_persistOnServer m, gs_isAvatar = ss_isAvatar m, gs_state = state\<rparr> (w_host w h))"
proof -
  let ?gs = "\<lparr>gs_persist = ss_persistOnServer m, gs_isAvatar = ss_isAvatar m, gs_state = state\<rparr>"
  define rest where "rest = aseq [awhen (ss_persistOnServer m) (dm_save_sdl_state E h name (no_object (ss_base m)) state),
    awhen bcast (dm_bcast_sdl_state E h c m state)]"
  define w1 where "w1 = w\<lparr>w_host := (w_host w)(h := put_state (no_object (ss_base m)) name ?gs (w_host w h))\<rparr>"
  have "store_state E h c m bcast name state = athen (mod_host h (put_state (no_object (ss_base m)) name ?gs)) rest"
    by (simp add: store_state_def rest_def)
  then have "rest w1 = (Inr (), w')"
    using assms by (simp add: mod_host_def act_simps w1_def)
  moreover have "stored.keeps rest"
    unfolding rest_def aseq.simps by (intro stored.sending_intros stored.keeps_bcast_sdl)
  ultimately have "gh_states (w_host w' h) = gh_states (w_host w1 h)"
    using stored.keepsD [of rest w1] by simp
  then show ?thesis by (simp add: w1_def)
qed

lemma find_state_cong: "gh_states g = gh_states g' \<Longrightarrow> find_state obj name g = find_state obj name g'"
  by (simp add: find_state_def)

text \<open>
  C34: an update a client sends for an object of the age, once handled, has been added to the state the host holds
  for this object and descriptor (it is that state, when there was none), and the flags are those of the message;
  the states of other objects and other descriptors are as before.
\<close>

theorem sdl_update_is_added:
  assumes "dm_read_sdl E h c m bcast w = (Inr (), w')" and "ss_sdlBlob m \<noteq> []"
    and "State_FromBlob (sdl_at E (w_calls w)) (ge_fuel E) (ss_sdlBlob m) = Inr update" and "state_name update = Some name"
    and "u_name (no_object (ss_base m)) \<noteq> hook_name"
  shows "\<exists>new. (case find_state (no_object (ss_base m)) name (w_host w h) of
        None \<Rightarrow> new = update
      | Some gs \<Rightarrow> State_add (gs_state gs) update = Inr new)
     \<and> (\<forall>obj name'. find_state obj name' (w_host w' h) =
          (if Uoid_eq (no_object (ss_base m)) obj \<and> name = name'
           then Some \<lparr>gs_persist = ss_persistOnServer m, gs_isAvatar = ss_isAvatar m, gs_state = new\<rparr>
           else find_state obj name' (w_host w h)))"
proof -
  let ?obj = "no_object (ss_base m)"
  define w0 where "w0 = w\<lparr>w_calls := Suc (w_calls w)\<rparr>"
  have host: "w_host w0 = w_host w" by (simp add: w0_def)
  show ?thesis
  proof (cases "find_state ?obj name (w_host w h)")
    case None
    then have "store_state E h c m bcast name update w0 = (Inr (), w')"
      using assms by (simp add: dm_read_sdl_def Let_def acall_def ahost_def abind_def act_simps w0_def)
    from find_state_cong [OF store_state_spec [OF this]] show ?thesis
      using None by (simp add: find_put_state host)
  next
    case (Some gs)
    define w1 where "w1 = w0\<lparr>w_host := (w_host w)(h := put_state ?obj name
      (gs\<lparr>gs_isAvatar := ss_isAvatar m, gs_persist := ss_persistOnServer m\<rparr>) (w_host w h))\<rparr>"
    have "abind (alift (State_add (gs_state gs) update)) (store_state E h c m bcast name) w1 = (Inr (), w')"
      using assms Some
      by (simp add: dm_read_sdl_def Let_def acall_def ahost_def abind_def athen_def mod_host_def act_simps w0_def w1_def)
    then obtain new where new: "State_add (gs_state gs) update = Inr new"
      and "store_state E h c m bcast name new w1 = (Inr (), w')"
      by (auto simp: abind_def alift_def act_simps split: sum.splits)
    from find_state_cong [OF store_state_spec [OF this(2)]] show ?thesis
      using Some new by (simp add: find_put_state w1_def)
  qed
qed

section \<open>Sending\<close>

text \<open>The image of one stored state as it is sent.\<close>

definition state_buf :: "game_env \<Rightarrow> UnifiedTime \<Rightarrow> Uoid \<times> GameState \<Rightarrow> wres" where
  "state_buf E t e =
     (case State_toBlob (game_lib E) (gs_state (snd e)) of
        Inl x \<Rightarrow> Inl x
      | Inr blob \<Rightarrow> writebuf (game_lib E) (Creatable (N_plain (C_NetMsgSDLState
          (sdl_message (net_header 0x40001 t 0) (fst e) blob True (gs_persist (snd e)) (gs_isAvatar (snd e)))))))"

definition give :: "client \<Rightarrow> bytes list \<Rightarrow> world \<Rightarrow> world" where
  "give c bufs w = w\<lparr>w_client := (w_client w)(c := (w_client w c)\<lparr>gc_broadcast := gc_broadcast (w_client w c) @ bufs\<rparr>)\<rparr>"

lemma give_give: "give c bs (give c as w) = give c (as @ bs) w"
  by (simp add: give_def)

lemma give_none: "give c [] w = w"
  by (simp add: give_def)

lemma send_msg_spec: "writebuf (game_lib E) m = Inr b \<Longrightarrow> send_msg E m c w = (Inr (), give c [b] w)"
  by (simp add: send_msg_def send_buf_def mod_client_def act_simps give_def)

lemma send_states_loop:
  assumes "list_all2 (\<lambda>e b. state_buf E t e = Inr b) es bufs"
  shows "aseq (map (\<lambda>(obj, gs). abind (alift (State_toBlob (game_lib E) (gs_state gs))) (\<lambda>blob.
      send_sdl E (sdl_message (net_header 0x40001 t 0) obj blob True (gs_persist gs) (gs_isAvatar gs)) c)) es) w
    = (Inr (), give c bufs w)"
  using assms
proof (induction es bufs arbitrary: w rule: list_all2_induct)
  case (Cons e es b bufs)
  then obtain obj gs blob where e: "e = (obj, gs)" "State_toBlob (game_lib E) (gs_state gs) = Inr blob"
    "writebuf (game_lib E) (Creatable (N_plain (C_NetMsgSDLState
       (sdl_message (net_header 0x40001 t 0) obj blob True (gs_persist gs) (gs_isAvatar gs))))) = Inr b"
    by (cases e) (auto simp: state_buf_def split: sum.splits)
  then show ?case
    using Cons.IH by (simp add: athen_def abind_def act_simps send_sdl_def send_msg_spec give_give)
qed (simp add: act_simps give_none)

text \<open>
  A client that asks for the state of the age is sent one message for every state the host holds, after the
  state of the age itself when there is one, and a last message that announces exactly the number sent.
\<close>

theorem whole_state_is_sent:
  assumes "State_toBlob (game_lib E) (gh_ageSdlHook (w_host w h)) = Inr hookBlob"
    and "hookBlob \<noteq> [] \<Longrightarrow> writebuf (game_lib E) (Creatable (N_plain (C_NetMsgSDLState
      (sdl_message (net_header 0x40001 (ge_clock E (w_calls w)) 0) (hook_object (ge_seqPrefix E (gh_ageFilename (w_host w h))))
         hookBlob True True False)))) = Inr hookBuf"
    and "list_all2 (\<lambda>e b. state_buf E (ge_clock E (w_calls w)) e = Inr b) (all_states (w_host w h)) bufs"
  defines "sent \<equiv> (if hookBlob \<noteq> [] then [hookBuf] else []) @ bufs"
  shows "\<exists>w' last. dm_send_state E h c w = (Inr (), w')
     \<and> gc_broadcast (w_client w' c) = gc_broadcast (w_client w c) @ sent @ [last]
     \<and> writebuf (game_lib E) (Creatable (N_plain (C_NetMsgInitialAgeStateSent
         \<lparr>ias_base = net_header 0x60001 (ge_clock E (Suc (w_calls w))) 0, ias_numStates = of_nat (length sent)\<rparr>))) = Inr last"
proof -
  let ?num = "(if hookBlob \<noteq> [] then 1 else 0) + length (all_states (w_host w h))"
  let ?final = "\<lambda>t. Creatable (N_plain (C_NetMsgInitialAgeStateSent
    \<lparr>ias_base = net_header 0x60001 t 0, ias_numStates = of_nat ?num\<rparr>))"
  define w0 where "w0 = w\<lparr>w_calls := Suc (w_calls w)\<rparr>"
  obtain last where last: "writebuf (game_lib E) (?final (ge_clock E (Suc (w_calls w)))) = Inr last"
    by (simp add: writebuf_def)
  have len: "length sent = ?num" using list_all2_lengthD [OF assms(3)] by (simp add: sent_def)
  have host: "w_host w0 = w_host w" by (simp add: w0_def)
  have calls: "w_calls (give c bs w0) = Suc (w_calls w)" for bs by (simp add: give_def w0_def)
  have "dm_send_state E h c w = (Inr (), give c [last] ((give c sent w0)\<lparr>w_calls := Suc (Suc (w_calls w))\<rparr>))"
  proof (cases "hookBlob = []")
    case True
    then show ?thesis
      using assms(1) send_states_loop [OF assms(3)] last
      by (simp add: dm_send_state_def now_def acall_def ahost_def act_simps send_msg_spec calls host sent_def
          flip: w0_def)
  next
    case False
    then show ?thesis
      using assms(1) assms(2) [OF False] send_states_loop [OF assms(3)] last
      by (simp add: dm_send_state_def now_def acall_def ahost_def act_simps send_msg_spec calls host sent_def
          send_sdl_def give_give flip: w0_def)
  qed
  then show ?thesis using last len by (simp add: give_def w0_def)
qed

section \<open>Witnesses\<close>

definition sample_sdl_msg :: NetMsgSDLState where
  "sample_sdl_msg = sdl_message (net_header 0 UnifiedTime_null 0) (Uoid_new\<lparr>u_type := 1, u_name := [66]\<rparr>) sample_blob
     False False False"

theorem sdl_update_is_added_witness:
  "\<exists>w'. dm_read_sdl sample_genv 0 1 sample_sdl_msg False (sample_game_world [] []) = (Inr (), w')
     \<and> find_state (Uoid_new\<lparr>u_type := 1, u_name := [66]\<rparr>) [84] (w_host w' 0) =
         Some \<lparr>gs_persist = False, gs_isAvatar = False, gs_state = sample_state\<rparr>"
proof -
  let ?w = "sample_game_world [] []"
  have env: "sdl_at sample_genv n = sample_env" "ge_fuel sample_genv = 3" for n
    by (simp_all add: sdl_at_def sample_genv_def sample_env_def)
  have read: "State_FromBlob (sdl_at sample_genv (w_calls ?w)) (ge_fuel sample_genv) (ss_sdlBlob sample_sdl_msg)
      = Inr sample_state"
    unfolding env by (simp add: sample_sdl_msg_def sdl_message_def) code_simp
  have parts: "ss_sdlBlob sample_sdl_msg \<noteq> []" "state_name sample_state = Some [84]"
    "u_name (no_object (ss_base sample_sdl_msg)) \<noteq> hook_name" "\<not> ss_persistOnServer sample_sdl_msg"
    by (simp_all add: sample_sdl_msg_def sdl_message_def sample_blob_def sample_state_def sample_desc_def hook_name_def)
  have none: "find_state (no_object (ss_base sample_sdl_msg)) [84] (w_host ?w 0) = None"
    by (simp add: find_state_def sample_game_world_def sample_age_def ufind_def)
  obtain w' where run: "dm_read_sdl sample_genv 0 1 sample_sdl_msg False ?w = (Inr (), w')"
    using parts read none
    by (auto simp: dm_read_sdl_def Let_def acall_def ahost_def abind_def athen_def act_simps store_state_def mod_host_def
        awhen_def sample_game_world_def)
  have "no_object (ss_base sample_sdl_msg) = Uoid_new\<lparr>u_type := 1, u_name := [66]\<rparr>"
    "ss_persistOnServer sample_sdl_msg = False" "ss_isAvatar sample_sdl_msg = False"
    by (simp_all add: sample_sdl_msg_def sdl_message_def)
  then show ?thesis
    using sdl_update_is_added [OF run parts(1) read parts(2,3)] none run by (simp add: Uoid_eq_key)
qed

theorem whole_state_is_sent_witness:
  "\<exists>w' last. dm_send_state sample_genv 0 1 (sample_game_world [] []) = (Inr (), w')
     \<and> gc_broadcast (w_client w' 1) = [last]
     \<and> writebuf ascii_lib (Creatable (N_plain (C_NetMsgInitialAgeStateSent
         \<lparr>ias_base = net_header 0x60001 (UnifiedTime 9 0) 0, ias_numStates = 0\<rparr>))) = Inr last"
proof -
  let ?w = "sample_game_world [] []"
  have "State_toBlob (game_lib sample_genv) (gh_ageSdlHook (w_host ?w 0)) = Inr []"
    "list_all2 (\<lambda>e b. state_buf sample_genv (ge_clock sample_genv (w_calls ?w)) e = Inr b) (all_states (w_host ?w 0)) []"
    by (simp_all add: sample_game_world_def sample_age_def State_toBlob_def all_states_def)
  from whole_state_is_sent [OF this(1) _ this(2), where c = 1] show ?thesis
    by (simp add: sample_genv_def sample_env_def sample_game_world_def sample_player_def)
qed

end
