(* ===== verification/Msg_Channel.thy ===== *)
theory Msg_Channel
  imports Main
begin

text \<open>
  \<open>NetIO/MsgChannel.cpp\<close>: the queue through which threads send each other messages, with an event semaphore
  that a receiver waits on or polls. The mutex covers the queue only, so a sender is between pushing its
  message and raising the semaphore, and a receiver between lowering it and popping, while others run.
\<close>

section \<open>Operations\<close>

record 'm MsgChannel =
  m_queue :: "'m list"
  m_semaphore :: "nat option"

definition MsgChannel_new :: "'m MsgChannel" where
  "MsgChannel_new = \<lparr>m_queue = [], m_semaphore = None\<rparr>"

text \<open>\<open>fd()\<close>: the semaphore is made when it is first asked for, with the value 0.\<close>

definition MsgChannel_fd :: "'m MsgChannel \<Rightarrow> 'm MsgChannel" where
  "MsgChannel_fd c = (case m_semaphore c of None \<Rightarrow> c\<lparr>m_semaphore := Some 0\<rparr> | Some _ \<Rightarrow> c)"

text \<open>The two halves of \<open>putMessage\<close>: under the mutex, and \<open>eventfd_write\<close>.\<close>

definition put_push :: "'m \<Rightarrow> 'm MsgChannel \<Rightarrow> 'm MsgChannel" where
  "put_push m c = c\<lparr>m_queue := m_queue c @ [m]\<rparr>"

definition put_write :: "'m MsgChannel \<Rightarrow> 'm MsgChannel" where
  "put_write c = (let c = MsgChannel_fd c in c\<lparr>m_semaphore := map_option Suc (m_semaphore c)\<rparr>)"

definition MsgChannel_putMessage :: "'m \<Rightarrow> 'm MsgChannel \<Rightarrow> 'm MsgChannel" where
  "MsgChannel_putMessage m c = put_write (put_push m c)"

text \<open>
  The two halves of \<open>getMessage\<close>: \<open>eventfd_read\<close> waits (\<open>None\<close>) while the semaphore is 0; popping an empty queue
  is undefined (\<open>None\<close>).
\<close>

definition get_read :: "'m MsgChannel \<Rightarrow> 'm MsgChannel option" where
  "get_read c =
     (let c = MsgChannel_fd c
      in case m_semaphore c of Some (Suc n) \<Rightarrow> Some (c\<lparr>m_semaphore := Some n\<rparr>) | _ \<Rightarrow> None)"

definition get_pop :: "'m MsgChannel \<Rightarrow> ('m \<times> 'm MsgChannel) option" where
  "get_pop c = (case m_queue c of [] \<Rightarrow> None | m # ms \<Rightarrow> Some (m, c\<lparr>m_queue := ms\<rparr>))"

definition MsgChannel_getMessage :: "'m MsgChannel \<Rightarrow> ('m \<times> 'm MsgChannel) option" where
  "MsgChannel_getMessage c = Option.bind (get_read c) get_pop"

definition MsgChannel_hasMessage :: "'m MsgChannel \<Rightarrow> bool" where
  "MsgChannel_hasMessage c \<longleftrightarrow> m_queue c \<noteq> []"

section \<open>Threads on a channel\<close>

text \<open>
  Any number of senders and receivers: how many stand between the halves of an operation, how many calls of
  \<open>eventfd_write\<close> failed (\<open>putMessage\<close> throws then, with its message in the queue), and what was sent and received.
\<close>

record 'm traffic =
  t_chan :: "'m MsgChannel"
  t_putting :: nat
  t_getting :: nat
  t_failed :: nat
  t_put :: "'m list"
  t_got :: "'m list"

definition traffic_init :: "'m traffic" where
  "traffic_init = \<lparr>t_chan = MsgChannel_new, t_putting = 0, t_getting = 0, t_failed = 0, t_put = [], t_got = []\<rparr>"

inductive chan_step :: "'m traffic \<Rightarrow> 'm traffic \<Rightarrow> bool" where
  put_1: "chan_step s (s\<lparr>t_chan := put_push m (t_chan s), t_putting := Suc (t_putting s), t_put := t_put s @ [m]\<rparr>)"
| put_2: "t_putting s = Suc n \<Longrightarrow> chan_step s (s\<lparr>t_chan := put_write (t_chan s), t_putting := n\<rparr>)"
| put_2_fails: "t_putting s = Suc n \<Longrightarrow>
    chan_step s (s\<lparr>t_chan := MsgChannel_fd (t_chan s), t_putting := n, t_failed := Suc (t_failed s)\<rparr>)"
| get_1: "get_read (t_chan s) = Some c \<Longrightarrow> chan_step s (s\<lparr>t_chan := c, t_getting := Suc (t_getting s)\<rparr>)"
| get_2: "t_getting s = Suc n \<Longrightarrow> get_pop (t_chan s) = Some (m, c) \<Longrightarrow>
    chan_step s (s\<lparr>t_chan := c, t_getting := n, t_got := t_got s @ [m]\<rparr>)"

inductive_cases chan_stepE: "chan_step s s'"

abbreviation chan_reachable :: "'m traffic \<Rightarrow> bool" where
  "chan_reachable s \<equiv> chan_step\<^sup>*\<^sup>* traffic_init s"

definition signalled :: "'m MsgChannel \<Rightarrow> nat" where
  "signalled c = (case m_semaphore c of None \<Rightarrow> 0 | Some n \<Rightarrow> n)"

definition chan_inv :: "'m traffic \<Rightarrow> bool" where
  "chan_inv s \<longleftrightarrow>
     length (m_queue (t_chan s)) = t_putting s + signalled (t_chan s) + t_getting s + t_failed s
     \<and> t_put s = t_got s @ m_queue (t_chan s)"

lemma fd_simps [simp]: "m_queue (MsgChannel_fd c) = m_queue c" "signalled (MsgChannel_fd c) = signalled c"
  by (simp_all add: MsgChannel_fd_def signalled_def split: option.split)

lemma put_simps [simp]:
  "m_queue (put_push m c) = m_queue c @ [m]" "signalled (put_push m c) = signalled c"
  "m_queue (put_write c) = m_queue c" "signalled (put_write c) = Suc (signalled c)"
  by (simp_all add: put_push_def put_write_def MsgChannel_fd_def signalled_def Let_def split: option.split)

lemma get_read_SomeD: "get_read c = Some c' \<Longrightarrow> m_queue c' = m_queue c \<and> signalled c = Suc (signalled c')"
  by (auto simp: get_read_def MsgChannel_fd_def signalled_def Let_def split: option.splits nat.splits)

lemma get_read_iff: "get_read c = None \<longleftrightarrow> signalled c = 0"
  by (auto simp: get_read_def MsgChannel_fd_def signalled_def Let_def split: option.splits nat.splits)

lemma get_pop_SomeD: "get_pop c = Some (m, c') \<Longrightarrow> m_queue c = m # m_queue c' \<and> signalled c' = signalled c"
  by (auto simp: get_pop_def signalled_def split: list.splits)

lemma chan_inv_step: "chan_step s s' \<Longrightarrow> chan_inv s \<Longrightarrow> chan_inv s'"
  by (erule chan_stepE) (auto simp: chan_inv_def dest!: get_read_SomeD get_pop_SomeD)

lemma chan_inv_init: "chan_inv traffic_init"
  by (simp add: chan_inv_def traffic_init_def MsgChannel_new_def signalled_def)

lemma chan_inv_reachable: "chan_reachable s \<Longrightarrow> chan_inv s"
  by (induction rule: rtranclp_induct) (auto intro: chan_inv_init chan_inv_step)

text \<open>
  C22: whatever the interleaving of the threads on a channel, a receiver that got past the semaphore finds a message
  in the queue, messages are received in the order in which they were put, none twice and none lost; and when no
  sender is in the middle of \<open>putMessage\<close> and no semaphore call has failed, a channel with a message lets a receiver
  through.
\<close>

theorem channel_is_fifo:
  assumes "chan_reachable s"
  shows "(0 < t_getting s \<longrightarrow> get_pop (t_chan s) \<noteq> None) \<and> t_put s = t_got s @ m_queue (t_chan s)
     \<and> (t_putting s = 0 \<and> t_failed s = 0 \<and> t_getting s = 0 \<and> MsgChannel_hasMessage (t_chan s) \<longrightarrow>
        (\<exists>m c. MsgChannel_getMessage (t_chan s) = Some (m, c)))"
proof -
  have inv: "chan_inv s" using assms by (rule chan_inv_reachable)
  have "\<exists>m c. MsgChannel_getMessage (t_chan s) = Some (m, c)"
    if "t_putting s = 0" "t_failed s = 0" "t_getting s = 0" "MsgChannel_hasMessage (t_chan s)"
  proof -
    from that inv have "get_read (t_chan s) \<noteq> None"
      unfolding chan_inv_def MsgChannel_hasMessage_def get_read_iff by (metis add_0 add_0_right length_0_conv)
    then obtain c where c: "get_read (t_chan s) = Some c" by blast
    with that get_read_SomeD [OF c] show ?thesis
      by (auto simp: MsgChannel_getMessage_def get_pop_def MsgChannel_hasMessage_def split: list.split)
  qed
  moreover have "0 < t_getting s \<longrightarrow> get_pop (t_chan s) \<noteq> None"
    using inv by (auto simp: chan_inv_def get_pop_def split: list.split)
  ultimately show ?thesis using inv by (simp add: chan_inv_def)
qed

definition sample_traffic :: "nat traffic" where
  "sample_traffic = traffic_init\<lparr>t_chan := put_write (put_push 7 MsgChannel_new), t_put := [7]\<rparr>"

theorem channel_is_fifo_witness:
  "chan_reachable sample_traffic \<and> t_put sample_traffic = t_got sample_traffic @ m_queue (t_chan sample_traffic)
     \<and> (\<exists>m c. MsgChannel_getMessage (t_chan sample_traffic) = Some (m, c))"
proof -
  let ?s = "traffic_init\<lparr>t_chan := put_push 7 MsgChannel_new, t_putting := 1, t_put := [7]\<rparr>"
  have "chan_step traffic_init ?s"
    using chan_step.put_1 [of traffic_init 7] by (simp add: traffic_init_def)
  moreover have "chan_step ?s sample_traffic"
    using chan_step.put_2 [of ?s 0] by (simp add: traffic_init_def sample_traffic_def)
  ultimately have reach: "chan_reachable sample_traffic"
    by (blast intro: rtranclp.rtrancl_into_rtrancl rtranclp.rtrancl_refl)
  moreover have "t_putting sample_traffic = 0" "t_failed sample_traffic = 0" "t_getting sample_traffic = 0"
    "MsgChannel_hasMessage (t_chan sample_traffic)"
    by (simp_all add: sample_traffic_def traffic_init_def MsgChannel_hasMessage_def)
  ultimately show ?thesis using channel_is_fifo [OF reach] by blast
qed

end
