(* ===== verification/Handshake.thy ===== *)
theory Handshake
  imports Sockets Wire_Types
begin

unbundle bit_operations_syntax

text \<open>
  How a server and a client come to share a key: \<open>CryptCalcX\<close> and \<open>CryptEstablish\<close> of \<open>NetIO/CryptIO.cpp\<close>, the
  connection header that every encrypted server reads (the identical middle part of \<open>auth_init\<close>, \<open>gate_init\<close> and
  \<open>game_client_init\<close>), and the hashes with which a client proves its password.
\<close>

section \<open>Key exchange\<close>

text \<open>\<open>BYTE_SWAP_BUFFER\<close>.\<close>

definition swap_at :: "nat \<Rightarrow> nat \<Rightarrow> 'a list \<Rightarrow> 'a list" where
  "swap_at i j xs = xs[i := xs ! j, j := xs ! i]"

definition BYTE_SWAP_BUFFER :: "nat \<Rightarrow> 'a list \<Rightarrow> 'a list" where
  "BYTE_SWAP_BUFFER n buffer = fold (\<lambda>i. swap_at i (n - 1 - i)) [0..<n div 2] buffer"

text \<open>\<open>CryptCalcX\<close> stores the octets of the number at the start of \<open>X\<close>, whose other octets stay as they were.\<close>

definition CryptCalcX :: "'k ssl \<Rightarrow> bytes \<Rightarrow> bytes \<Rightarrow> bytes \<Rightarrow> u32 \<Rightarrow> bytes" where
  "CryptCalcX S X N K base =
     (let out = BN_bn2bin S (BN_mod_exp S (unat base) (BN_bin2bn S K) (BN_bin2bn S N))
      in out @ drop (length out) X)"

text \<open>
  \<open>CryptEstablish\<close>: \<open>seed\<close> are the octets that \<open>RAND_bytes\<close> gave, \<open>junk\<close> what the uninitialised \<open>keybuf\<close> holds.
\<close>

definition CryptEstablish :: "'k ssl \<Rightarrow> (nat \<Rightarrow> byte) \<Rightarrow> bytes \<Rightarrow> bytes \<Rightarrow> bytes \<Rightarrow> bytes \<Rightarrow> ds_error + bytes" where
  "CryptEstablish S junk seed N K Y =
     (if BN_bin2bn S N = 0 then Inl AssertionFailure
      else let out = BN_bn2bin S (BN_mod_exp S (BN_bin2bn S Y) (BN_bin2bn S K) (BN_bin2bn S N))
           in if length out > 64 then Inl InvalidConnectionHeader
              else let keybuf = BYTE_SWAP_BUFFER (length out) (out @ map junk [length out..<64])
                   in Inr (map (\<lambda>i. keybuf ! i XOR seed ! i) [0..<7]))"

section \<open>The connection header\<close>

text \<open>What a server has of its own: the library, its key pair, and the sources of chance.\<close>

record 'k server_keys =
  sk_ssl :: "'k ssl"
  sk_N :: bytes
  sk_K :: bytes
  sk_seed :: bytes
  sk_junk :: "nat \<Rightarrow> byte"

text \<open>
  From \<open>msgId\<close> to the end of the branches: the rest of the reply, with the cipher set up. The size of the client's
  number is \<open>64 - (66 - msgSize)\<close> in the arithmetic of \<open>size_t\<close>.
\<close>

definition establish :: "'k server_keys \<Rightarrow> ('k conn, bytes) act" where
  "establish V =
     abind (RecvValue 1) (\<lambda>msgId :: byte.
     if msgId \<noteq> 0 then afail (Thrown InvalidConnectionHeader)
     else abind (RecvValue 1) (\<lambda>msgSize :: byte.
     if msgSize = 2 then aret [2]
     else if msgSize > 66 then afail (Thrown InvalidConnectionHeader)
     else abind (recv_array 64 (unat (64 - (66 - ucast msgSize) :: u64))) (\<lambda>y.
          let Y = BYTE_SWAP_BUFFER 64 (y @ replicate (64 - length y) 0) in
          abind (alift (CryptEstablish (sk_ssl V) (sk_junk V) (sk_seed V) (sk_N V) (sk_K V) Y)) (\<lambda>sharedKey.
          athen (amod (\<lambda>c. c\<lparr>c_crypt := CryptStateInit (sk_ssl V) sharedKey\<rparr>))
            (aret (9 # sk_seed V))))))"

text \<open>
  \<open>game_client_init\<close> (size 36: two UUIDs), \<open>gate_init\<close> (size 20: one UUID), with \<open>e_ServToCliEncrypt = 1\<close>.
\<close>

definition game_client_init :: "'k server_keys \<Rightarrow> ('k conn, unit) act" where
  "game_client_init V =
     abind (RecvValue 4) (\<lambda>sz :: u32.
     if sz \<noteq> 36 then afail (Thrown InvalidConnectionHeader)
     else abind (RecvBuffer 16) (\<lambda>clientUuid. abind (RecvBuffer 16) (\<lambda>connUuid.
          abind (establish V) (\<lambda>reply. SendBuffer (write_u8 1 @ reply)))))"

definition gate_init :: "'k server_keys \<Rightarrow> ('k conn, unit) act" where
  "gate_init V =
     abind (RecvValue 4) (\<lambda>sz :: u32.
     if sz \<noteq> 20 then afail (Thrown InvalidConnectionHeader)
     else abind (RecvBuffer 16) (\<lambda>uuid.
          abind (establish V) (\<lambda>reply. SendBuffer (write_u8 1 @ reply))))"

section \<open>Password hashes\<close>

definition BuggyHashPassword :: "ext_lib \<Rightarrow> st_string \<Rightarrow> st_string \<Rightarrow> ShaHash" where
  "BuggyHashPassword L username password =
     (let wuser = to_utf16 L username; wpass = to_utf16 L password;
          buffer = wpass @ wuser;
          buffer = (if length wpass > 0 then buffer[length wpass - 1 := 0] else buffer);
          buffer = (if length wuser > 0 then buffer[length wpass + length wuser - 1 := 0] else buffer)
      in ds_internal_sha0 (u16s_bytes buffer))"

definition BuggyHashLogin :: "ShaHash \<Rightarrow> u32 \<Rightarrow> u32 \<Rightarrow> ShaHash" where
  "BuggyHashLogin passwordHash serverChallenge clientChallenge =
     ds_internal_sha0 (le_bytes 4 clientChallenge @ le_bytes 4 serverChallenge @ concat (map (le_bytes 4) passwordHash))"

section \<open>Numbers and their octets\<close>

lemma swap_at_simps [simp]:
  "length (swap_at i j xs) = length xs"
  "i < length xs \<Longrightarrow> j < length xs \<Longrightarrow> m < length xs \<Longrightarrow>
     swap_at i j xs ! m = (if m = i then xs ! j else if m = j then xs ! i else xs ! m)"
  by (auto simp: swap_at_def nth_list_update)

lemma swap_loop_nth:
  assumes "k \<le> n div 2" and "n \<le> length xs"
  shows "length (fold (\<lambda>i. swap_at i (n - 1 - i)) [0..<k] xs) = length xs
     \<and> (\<forall>i < length xs. fold (\<lambda>i. swap_at i (n - 1 - i)) [0..<k] xs ! i =
          (if i < k \<or> i < n \<and> n - k \<le> i then xs ! (n - 1 - i) else xs ! i))"
  using assms
proof (induction k)
  case (Suc k)
  define ys where "ys = fold (\<lambda>i. swap_at i (n - 1 - i)) [0..<k] xs"
  have ys: "ys ! i = (if i < k \<or> i < n \<and> n - k \<le> i then xs ! (n - 1 - i) else xs ! i)" if "i < length xs" for i
    using that Suc by (simp add: ys_def)
  have len: "length ys = length xs" using Suc by (simp add: ys_def)
  have k: "k < n - 1 - k" "n - 1 - k < length xs" "n - 1 - (n - 1 - k) = k" using Suc.prems by auto
  have "swap_at k (n - 1 - k) ys ! i = (if i < Suc k \<or> i < n \<and> n - Suc k \<le> i then xs ! (n - 1 - i) else xs ! i)"
    if "i < length xs" for i
    using that k len ys [of i] ys [of k] ys [of "n - 1 - k"] by (auto split: if_splits)
  moreover have "fold (\<lambda>i. swap_at i (n - 1 - i)) [0..<Suc k] xs = swap_at k (n - 1 - k) ys" by (simp add: ys_def)
  ultimately show ?case using len by (simp only: swap_at_simps(1)) simp
qed auto

lemma BYTE_SWAP_BUFFER_eq:
  assumes "n \<le> length xs"
  shows "BYTE_SWAP_BUFFER n xs = rev (take n xs) @ drop n xs"
proof (rule nth_equalityI)
  have len: "length (BYTE_SWAP_BUFFER n xs) = length xs"
    using swap_loop_nth [of "n div 2" n xs] assms by (simp add: BYTE_SWAP_BUFFER_def)
  then show "length (BYTE_SWAP_BUFFER n xs) = length (rev (take n xs) @ drop n xs)" using assms by simp
  fix i assume "i < length (BYTE_SWAP_BUFFER n xs)"
  then have i: "i < length xs" using len by simp
  have "n - 1 - i = i" if "\<not> i < n div 2" "\<not> n - n div 2 \<le> i" "i < n" using that by linarith
  then show "BYTE_SWAP_BUFFER n xs ! i = (rev (take n xs) @ drop n xs) ! i"
    using swap_loop_nth [of "n div 2" n xs] i assms
    by (auto simp: BYTE_SWAP_BUFFER_def nth_append rev_nth not_less)
qed

text \<open>What OpenSSL documents of the functions used here.\<close>

definition bn_documented :: "'k ssl \<Rightarrow> bool" where
  "bn_documented S \<longleftrightarrow>
     (\<forall>bs. BN_bin2bn S bs = le_nat (rev bs))
     \<and> (\<forall>n. le_nat (rev (BN_bn2bin S n)) = n \<and> (BN_bn2bin S n \<noteq> [] \<longrightarrow> hd (BN_bn2bin S n) \<noteq> 0))
     \<and> (\<forall>a p m. 0 < m \<longrightarrow> BN_mod_exp S a p m = a ^ p mod m)"

lemma bn_documentedD:
  assumes "bn_documented S"
  shows "BN_bin2bn S bs = le_nat (rev bs)" and "le_nat (rev (BN_bn2bin S n)) = n"
    and "BN_bn2bin S n \<noteq> [] \<Longrightarrow> hd (BN_bn2bin S n) \<noteq> 0" and "0 < m \<Longrightarrow> BN_mod_exp S a p m = a ^ p mod m"
  using assms unfolding bn_documented_def by blast+

lemma unat_byte: "unat (b :: byte) < 256"
proof -
  have "unat b < 2 ^ LENGTH(8)" by (rule unsigned_less)
  then show ?thesis by simp
qed

lemma small_byte: "n < 256 \<Longrightarrow> unat (of_nat n :: byte) = n"
  by (simp add: unsigned_of_nat take_bit_nat_eq_self_iff)

lemma le_nat_append: "le_nat (xs @ ys) = le_nat xs + 256 ^ length xs * le_nat ys"
  by (induction xs) (simp_all add: algebra_simps)

lemma le_nat_replicate [simp]: "le_nat (replicate n 0) = 0"
  by (induction n) simp_all

lemma le_nat_bound: "le_nat bs < 256 ^ length bs"
proof (induction bs)
  case (Cons b bs)
  then have "le_nat bs + 1 \<le> 256 ^ length bs" by simp
  then have "256 * (le_nat bs + 1) \<le> 256 * 256 ^ length bs" by (rule mult_left_mono) simp
  then show ?case using unat_byte [of b] by simp
qed simp

lemma le_nat_nth: "i < length bs \<Longrightarrow> of_nat (le_nat bs div 256 ^ i) = bs ! i"
proof (induction bs arbitrary: i)
  case (Cons b bs)
  have b: "unat b < 256" using unat_byte [of b] by simp
  show ?case
  proof (cases i)
    case 0
    have "(of_nat 256 :: byte) = 0" by simp
    then show ?thesis using 0 by (simp del: of_nat_numeral)
  next
    case (Suc j)
    have "le_nat (b # bs) div 256 ^ i = (unat b + 256 * le_nat bs) div 256 div 256 ^ j"
      using Suc by (simp add: div_mult2_eq)
    also have "\<dots> = le_nat bs div 256 ^ j" using b by simp
    finally show ?thesis using Cons Suc by simp
  qed
qed simp

text \<open>The number has no leading zero octet, so its size gives the number of octets.\<close>

lemma bn2bin_length:
  assumes "bn_documented S"
  shows "v < 256 ^ m \<Longrightarrow> length (BN_bn2bin S v) \<le> m" and "256 ^ m \<le> v \<Longrightarrow> m < length (BN_bn2bin S v)"
proof -
  let ?b = "BN_bn2bin S v"
  have v: "le_nat (rev ?b) = v" by (rule bn_documentedD(2) [OF assms])
  show "length ?b \<le> m" if "v < 256 ^ m"
  proof (rule ccontr)
    assume "\<not> length ?b \<le> m"
    then obtain a as where b: "?b = a # as" "m \<le> length as" by (cases ?b) auto
    then have "a \<noteq> 0" using bn_documentedD(3) [OF assms, of v] by simp
    then have "1 \<le> unat a" by (simp add: unat_gt_0 Suc_le_eq)
    then have "256 ^ length as \<le> v"
      using v unfolding b(1) by (auto simp: le_nat_append intro: trans_le_add2)
    moreover have "(256 :: nat) ^ m \<le> 256 ^ length as" using b(2) by (rule power_increasing) simp
    ultimately show False using that by simp
  qed
  show "m < length ?b" if "256 ^ m \<le> v"
  proof (rule ccontr)
    assume "\<not> m < length ?b"
    then have "(256 :: nat) ^ length ?b \<le> 256 ^ m" by (intro power_increasing) auto
    moreover have "v < 256 ^ length ?b" using le_nat_bound [of "rev ?b"] v by simp
    ultimately show False using that by linarith
  qed
qed

text \<open>The seven low octets of the shared number, combined with the seed of the server.\<close>

definition session_key :: "nat \<Rightarrow> bytes \<Rightarrow> bytes" where
  "session_key v seed = map (\<lambda>i. of_nat (v div 256 ^ i) XOR seed ! i) [0..<7]"

lemma CryptEstablish_key:
  assumes S: "bn_documented S" and N: "length N = 64" "0 < le_nat (rev N)"
    and v: "v = le_nat (rev Y) ^ le_nat (rev K) mod le_nat (rev N)" "256 ^ 6 \<le> v"
  shows "CryptEstablish S junk seed N K Y = Inr (session_key v seed)"
proof -
  let ?b = "BN_bn2bin S v"
  have "v < 256 ^ 64" using N v(1) le_nat_bound [of "rev N"] mod_less_divisor [OF N(2)] by (metis length_rev less_trans)
  then have len: "length ?b \<le> 64" "6 < length ?b" using bn2bin_length [OF S] v(2) by blast+
  have "BYTE_SWAP_BUFFER (length ?b) (?b @ js) ! i = of_nat (v div 256 ^ i)" if "i < 7" for i js
    using that len le_nat_nth [of i "rev ?b"] bn_documentedD(2) [OF S, of v]
    by (simp add: BYTE_SWAP_BUFFER_eq nth_append)
  then have "map (\<lambda>i. BYTE_SWAP_BUFFER (length ?b) (?b @ js) ! i XOR seed ! i) [0..<7] = session_key v seed" for js
    unfolding session_key_def by simp
  then show ?thesis
    using len N v by (simp add: CryptEstablish_def bn_documentedD [OF S] Let_def del: upt_Suc)
qed

section \<open>Reading the header\<close>

lemma RecvBuffer_step:
  assumes "calm_line (c_in c)" and "arrived (c_in c) = b @ rest" and "length b = n"
  shows "\<exists>as. RecvBuffer n c = (Inr b, c\<lparr>c_in := as\<rparr>) \<and> calm_line as \<and> arrived as = rest"
  using RecvBuffer_line [OF assms(1), of n] assms(2,3) by auto

lemma RecvValue_u8:
  assumes "calm_line (c_in c)" and "arrived (c_in c) = [w] @ rest"
  shows "\<exists>as. RecvValue 1 c = (Inr w, c\<lparr>c_in := as\<rparr>) \<and> calm_line as \<and> arrived as = rest"
  using RecvBuffer_step [OF assms, of 1] by (auto simp: RecvValue_def act_simps)

lemma RecvValue_u32:
  assumes "calm_line (c_in c)" and "arrived (c_in c) = write_u32 w @ rest"
  shows "\<exists>as. RecvValue 4 c = (Inr w, c\<lparr>c_in := as\<rparr>) \<and> calm_line as \<and> arrived as = rest"
  using RecvBuffer_step [OF assms, of 4]
  by (auto simp: RecvValue_def act_simps write_u32_def Stream_write_def le_word_le_bytes)

lemma header_size: "msgSize \<le> 66 \<Longrightarrow> 2 \<le> msgSize \<Longrightarrow> unat (64 - (66 - ucast (msgSize :: byte)) :: u64) = unat msgSize - 2"
proof -
  assume a: "msgSize \<le> 66" "2 \<le> msgSize"
  then have "(64 - (66 - ucast msgSize) :: u64) = ucast msgSize - 2" by simp
  moreover have u: "unat (ucast msgSize :: u64) = unat msgSize"
    using unat_byte [of msgSize] by (simp add: unsigned_ucast_eq take_bit_nat_eq_self_iff)
  moreover have "(2 :: u64) \<le> ucast msgSize" using a u by (simp add: word_le_nat_alt)
  ultimately show ?thesis using a by (simp add: unat_sub)
qed

lemma establish_line:
  assumes S: "bn_documented (sk_ssl V)" and N: "length (sk_N V) = 64" "0 < le_nat (rev (sk_N V))"
    and y: "y \<noteq> []" "length y \<le> 64"
    and v: "v = le_nat y ^ le_nat (rev (sk_K V)) mod le_nat (rev (sk_N V))" "256 ^ 6 \<le> v"
    and c: "calm_line (c_in c)" "arrived (c_in c) = [0, of_nat (length y + 2)] @ y @ rest"
  shows "\<exists>as. establish V c = (Inr (9 # sk_seed V),
      c\<lparr>c_in := as, c_crypt := CryptStateInit (sk_ssl V) (session_key v (sk_seed V))\<rparr>)
     \<and> calm_line as \<and> arrived as = rest"
proof -
  define s :: byte where "s = of_nat (length y + 2)"
  have s: "unat s = length y + 2" unfolding s_def using y(2) by (intro small_byte) simp
  then have s': "s \<noteq> 2" "2 \<le> s" "s \<le> 66" using y by (auto simp: word_le_nat_alt)
  obtain as1 where as1: "RecvValue 1 c = (Inr (0 :: byte), c\<lparr>c_in := as1\<rparr>)" "calm_line as1" "arrived as1 = [s] @ y @ rest"
    using RecvValue_u8 [OF c(1), of 0 "[s] @ y @ rest"] c(2) by (auto simp: s_def)
  obtain as2 where as2: "RecvValue 1 (c\<lparr>c_in := as1\<rparr>) = (Inr s, c\<lparr>c_in := as2\<rparr>)" "calm_line as2" "arrived as2 = y @ rest"
    using RecvValue_u8 [of "c\<lparr>c_in := as1\<rparr>" s "y @ rest"] as1 by auto
  obtain as3 where as3: "RecvBuffer (length y) (c\<lparr>c_in := as2\<rparr>) = (Inr y, c\<lparr>c_in := as3\<rparr>)" "calm_line as3" "arrived as3 = rest"
    using RecvBuffer_step [of "c\<lparr>c_in := as2\<rparr>" y rest "length y"] as2 by auto
  have "recv_array 64 (unat (64 - (66 - ucast s) :: u64)) (c\<lparr>c_in := as2\<rparr>) = (Inr y, c\<lparr>c_in := as3\<rparr>)"
    using header_size [OF s'(3,2)] s y as3 by (simp add: recv_array_def)
  moreover have "le_nat (rev (BYTE_SWAP_BUFFER 64 (y @ replicate (64 - length y) 0))) = le_nat y"
    using y by (simp add: BYTE_SWAP_BUFFER_eq le_nat_append)
  moreover from this have "CryptEstablish (sk_ssl V) (sk_junk V) (sk_seed V) (sk_N V) (sk_K V)
      (BYTE_SWAP_BUFFER 64 (y @ replicate (64 - length y) 0)) = Inr (session_key v (sk_seed V))"
    using v by (intro CryptEstablish_key S N) simp_all
  ultimately show ?thesis
    using as1 as2 as3 s' by (auto simp: establish_def act_simps Let_def not_less)
qed

section \<open>Properties\<close>

text \<open>
  C17: the key exchange of a game connection. A client that knows the server's number \<open>X\<close> (as \<open>CryptCalcX\<close> wrote
  it), chooses \<open>b\<close> and sends its own number \<open>base ^ b mod N\<close> in as many octets as it has, in whatever pieces it
  arrives, is answered with the seed, and the key under which the server then sends and receives is the one the client computes
  from \<open>X ^ b mod N\<close> and the seed; the octets after the header stay unread. (The number \<open>X\<close> has to fill its 64
  octets, and the shared number the seven octets of a key.)
\<close>

theorem handshake_agrees:
  assumes "bn_documented (sk_ssl V)" and "length (sk_N V) = 64" and "0 < le_nat (rev (sk_N V))"
    and "length X0 = 64" and "x = le_nat (rev (CryptCalcX (sk_ssl V) X0 (sk_N V) (sk_K V) base))"
    and "256 ^ 63 \<le> unat base ^ le_nat (rev (sk_K V)) mod le_nat (rev (sk_N V))"
    and "y \<noteq> []" and "length y \<le> 64" and "le_nat y = unat base ^ b mod le_nat (rev (sk_N V))"
    and "256 ^ 6 \<le> x ^ b mod le_nat (rev (sk_N V))"
    and "calm_line (c_in c)" and "willing (c_accept c)" and "length uuids = 32"
    and "arrived (c_in c) = write_u32 36 @ uuids @ [0, of_nat (length y + 2)] @ y @ later"
  shows "\<exists>c'. game_client_init V c = (Inr (), c') \<and> c_out c' = c_out c @ [1, 9] @ sk_seed V
     \<and> c_crypt c' = CryptStateInit (sk_ssl V) (session_key (x ^ b mod le_nat (rev (sk_N V))) (sk_seed V))
     \<and> calm_line (c_in c') \<and> arrived (c_in c') = later"
proof -
  let ?n = "le_nat (rev (sk_N V))" and ?k = "le_nat (rev (sk_K V))"
  let ?X = "BN_bn2bin (sk_ssl V) (unat base ^ ?k mod ?n)"
  have "unat base ^ ?k mod ?n < 256 ^ 64"
    using assms(2) le_nat_bound [of "rev (sk_N V)"] mod_less_divisor [OF assms(3)] by (metis length_rev less_trans)
  then have "length ?X = 64"
    using bn2bin_length(1) [OF assms(1), of "unat base ^ ?k mod ?n" 64]
      bn2bin_length(2) [OF assms(1,6)] by simp
  then have x: "x = unat base ^ ?k mod ?n"
    using assms(1,3,4,5) by (simp add: CryptCalcX_def bn_documentedD Let_def)
  have "le_nat y ^ ?k mod ?n = (unat base ^ ?k mod ?n) ^ b mod ?n"
    by (simp add: assms(9) power_mod power_mult [symmetric] mult.commute)
  then have v: "x ^ b mod ?n = le_nat y ^ ?k mod ?n" using x by simp
  obtain as1 where as1: "RecvValue 4 c = (Inr (36 :: u32), c\<lparr>c_in := as1\<rparr>)" "calm_line as1"
    "arrived as1 = uuids @ [0, of_nat (length y + 2)] @ y @ later"
    using RecvValue_u32 [OF assms(11,14)] by blast
  obtain as2 where as2: "RecvBuffer 16 (c\<lparr>c_in := as1\<rparr>) = (Inr (take 16 uuids), c\<lparr>c_in := as2\<rparr>)" "calm_line as2"
    "arrived as2 = drop 16 uuids @ [0, of_nat (length y + 2)] @ y @ later"
    using RecvBuffer_step [of "c\<lparr>c_in := as1\<rparr>" "take 16 uuids" "drop 16 uuids @ [0, of_nat (length y + 2)] @ y @ later" 16]
      as1 assms(13) by auto
  obtain as3 where as3: "RecvBuffer 16 (c\<lparr>c_in := as2\<rparr>) = (Inr (drop 16 uuids), c\<lparr>c_in := as3\<rparr>)" "calm_line as3"
    "arrived as3 = [0, of_nat (length y + 2)] @ y @ later"
    using RecvBuffer_step [of "c\<lparr>c_in := as2\<rparr>" "drop 16 uuids" _ 16] as2 assms(13) by auto
  obtain as4 where as4: "establish V (c\<lparr>c_in := as3\<rparr>) = (Inr (9 # sk_seed V), c\<lparr>c_in := as4,
      c_crypt := CryptStateInit (sk_ssl V) (session_key (x ^ b mod ?n) (sk_seed V))\<rparr>)" "calm_line as4" "arrived as4 = later"
    using establish_line [OF assms(1-3,7,8) v assms(10), of "c\<lparr>c_in := as3\<rparr>" later] as3 by auto
  have "write_u8 1 @ 9 # sk_seed V = [1, 9] @ sk_seed V" by (simp add: write_u8_def Stream_write_def le_bytes_def)
  then show ?thesis
    using as1 as2 as3 as4 assms(12)
      SendBuffer_line [of "c\<lparr>c_in := as4, c_crypt := CryptStateInit (sk_ssl V) (session_key (x ^ b mod ?n) (sk_seed V))\<rparr>"
        "[1, 9] @ sk_seed V"]
    by (auto simp: game_client_init_def act_simps)
qed

text \<open>
  The size of the client's number is not checked from below. A client that announces 0 or 1 octets for the whole
  message, and then sends more than 64, makes the gate keeper store them past the end of its 64-octet buffer.
\<close>

theorem header_size_underflow:
  assumes "calm_line (c_in c)" and "length uuid = 16" and "msgSize < 2" and "64 < length body"
    and "arrived (c_in c) = write_u32 20 @ uuid @ [0, msgSize] @ body"
  shows "fst (gate_init V c) = Inl (Thrown UndefinedBehaviour)"
proof -
  obtain as1 where as1: "RecvValue 4 c = (Inr (20 :: u32), c\<lparr>c_in := as1\<rparr>)" "calm_line as1"
    "arrived as1 = uuid @ [0, msgSize] @ body"
    using RecvValue_u32 [OF assms(1,5)] by blast
  obtain as2 where as2: "RecvBuffer 16 (c\<lparr>c_in := as1\<rparr>) = (Inr uuid, c\<lparr>c_in := as2\<rparr>)" "calm_line as2"
    "arrived as2 = [0] @ [msgSize] @ body"
    using RecvBuffer_step [of "c\<lparr>c_in := as1\<rparr>" uuid _ 16] as1 assms(2) by auto
  obtain as3 where as3: "RecvValue 1 (c\<lparr>c_in := as2\<rparr>) = (Inr (0 :: byte), c\<lparr>c_in := as3\<rparr>)" "calm_line as3"
    "arrived as3 = [msgSize] @ body"
    using RecvValue_u8 [of "c\<lparr>c_in := as2\<rparr>" 0 _] as2 by auto
  obtain as4 where as4: "RecvValue 1 (c\<lparr>c_in := as3\<rparr>) = (Inr msgSize, c\<lparr>c_in := as4\<rparr>)" "calm_line as4" "arrived as4 = body"
    using RecvValue_u8 [of "c\<lparr>c_in := as3\<rparr>" msgSize _] as3 by auto
  obtain as5 where as5: "RecvBuffer 65 (c\<lparr>c_in := as4\<rparr>) = (Inr (take 65 body), c\<lparr>c_in := as5\<rparr>)"
    using RecvBuffer_step [of "c\<lparr>c_in := as4\<rparr>" "take 65 body" "drop 65 body" 65] as4 assms(4) by auto
  have "unat msgSize < 2" using assms(3) by (simp add: word_less_nat_alt)
  then have "unat msgSize = 0 \<or> unat msgSize = 1" by linarith
  then have "msgSize = 0 \<or> msgSize = 1" by (metis unat_0 unat_1 unsigned_word_eqI)
  then have "msgSize \<noteq> 2" "\<not> msgSize > 66" "\<not> unat (64 - (66 - ucast msgSize) :: u64) \<le> 64"
    by (auto simp: unsigned_minus_1_eq_mask mask_eq_exp_minus_1)
  then show ?thesis
    using as1 as2 as3 as4 as5
    by (simp add: gate_init_def establish_def recv_array_def act_simps)
qed

lemma le_nat_nat_le: "le_nat (nat_le n) = n"
proof (induction n rule: nat_le.induct)
  case (1 n)
  have "unat (of_nat n :: byte) = n mod 256" by (simp add: unsigned_of_nat take_bit_eq_mod)
  with 1 show ?case by (simp add: nat_le.simps [of n])
qed

lemma last_nat_le: "n \<noteq> 0 \<Longrightarrow> last (nat_le n) \<noteq> 0"
proof (induction n rule: nat_le.induct)
  case (1 n)
  show ?case
  proof (cases "n div 256 = 0")
    case True
    then have "unat (of_nat n :: byte) = n" by (intro small_byte) (simp add: div_eq_0_iff)
    then have "(of_nat n :: byte) \<noteq> 0" using "1.prems" by (metis unat_0)
    then show ?thesis using True "1.prems" by (simp add: nat_le.simps [of n] nat_le.simps [of 0])
  next
    case False
    then have "nat_le (n div 256) \<noteq> []" by (simp add: nat_le.simps [of "n div 256"])
    then show ?thesis using 1 False by (simp add: nat_le.simps [of n])
  qed
qed

lemma openssl_documented: "bn_documented openssl"
proof -
  have "rev (nat_le n) \<noteq> [] \<longrightarrow> hd (rev (nat_le n)) \<noteq> 0" for n
    using last_nat_le [of n] by (cases "n = 0") (simp_all add: hd_rev nat_le.simps [of 0])
  then show ?thesis by (simp add: bn_documented_def openssl_def le_nat_nat_le)
qed

definition sample_keys :: "rc4_key server_keys" where
  "sample_keys =
     \<lparr>sk_ssl = openssl, sk_N = 0x80 # replicate 63 0, sk_K = replicate 62 0 @ [0x01, 0xFC],
      sk_seed = [1, 2, 3, 4, 5, 6, 7], sk_junk = (\<lambda>_. 0xCD)\<rparr>"

definition sample_conn :: "arrival list \<Rightarrow> rc4_key conn" where
  "sample_conn as = \<lparr>c_in = as, c_accept = [Takes 2], c_out = [], c_crypt = None\<rparr>"

lemma sample_numbers:
  "le_nat (rev (sk_N sample_keys)) = 2 ^ 511" "le_nat (rev (sk_K sample_keys)) = 508"
  "le_nat (rev (CryptCalcX openssl (replicate 64 0) (sk_N sample_keys) (sk_K sample_keys) 2)) = 2 ^ 508"
proof -
  show N: "le_nat (rev (sk_N sample_keys)) = 2 ^ 511" and K: "le_nat (rev (sk_K sample_keys)) = 508"
    by (simp_all add: sample_keys_def le_nat_append)
  have "length (nat_le (2 ^ 508)) = 64"
    using bn2bin_length(1) [OF openssl_documented, of "2 ^ 508" 64] bn2bin_length(2) [OF openssl_documented, of 63 "2 ^ 508"]
    by (simp add: openssl_def)
  then show "le_nat (rev (CryptCalcX openssl (replicate 64 0) (sk_N sample_keys) (sk_K sample_keys) 2)) = 2 ^ 508"
    using N K by (simp add: CryptCalcX_def openssl_def Let_def le_nat_nat_le)
qed

theorem handshake_agrees_witness:
  "let c = sample_conn [Arrived (write_u32 36), Interrupted, Arrived (replicate 20 7), Arrived (replicate 12 8 @ [0, 3]), Arrived [2, 55]]
   in \<exists>c'. game_client_init sample_keys c = (Inr (), c') \<and> c_out c' = [1, 9] @ sk_seed sample_keys
     \<and> c_crypt c' = CryptStateInit openssl (session_key ((2 ^ 508) ^ 1 mod 2 ^ 511) (sk_seed sample_keys))
     \<and> calm_line (c_in c') \<and> arrived (c_in c') = [55]"
proof -
  let ?c = "sample_conn [Arrived (write_u32 36), Interrupted, Arrived (replicate 20 7), Arrived (replicate 12 8 @ [0, 3]), Arrived [2, 55]]"
  have ssl: "sk_ssl sample_keys = openssl" by (simp add: sample_keys_def)
  have "write_u32 36 \<noteq> []" by (simp add: write_u32_def Stream_write_def le_bytes_def)
  then have "calm_line (c_in ?c)" "willing (c_accept ?c)" by (simp_all add: sample_conn_def)
  moreover have "arrived (c_in ?c) = write_u32 36 @ (replicate 20 7 @ replicate 12 8) @ [0, of_nat (length [2 :: byte] + 2)] @ [2] @ [55]"
    by (simp add: sample_conn_def)
  ultimately show ?thesis
    using handshake_agrees [of sample_keys "replicate 64 0" "2 ^ 508" 2 "[2]" 1 ?c "replicate 20 7 @ replicate 12 8" "[55]"]
      openssl_documented sample_numbers ssl
    by (simp add: sample_keys_def sample_conn_def)
qed

theorem header_size_underflow_witness:
  "fst (gate_init sample_keys (sample_conn [Arrived (write_u32 20 @ replicate 16 7), Arrived [0, 0], Arrived (replicate 70 1)]))
     = Inl (Thrown UndefinedBehaviour)"
  by (rule header_size_underflow [of _ "replicate 16 7" 0 "replicate 70 1"])
     (simp_all add: sample_conn_def write_u32_def Stream_write_def le_bytes_def)

end
