(* ===== verification/Gate_Keeper.thy ===== *)
theory Gate_Keeper
  imports Handshake
begin

unbundle bit_operations_syntax

text \<open>
  The gate keeper, \<open>GateKeeper/GateServ.cpp\<close>: the server that tells a client where the file server and the
  authentication server are. \<open>m_buffer\<close> is truncated at the start of every reply, so it is a value of the handler.
\<close>

section \<open>Handlers\<close>

record gate_settings =
  gs_FileServerAddress :: "u16 list"
  gs_AuthServerAddress :: "u16 list"

definition gate_ping :: "'k ssl \<Rightarrow> ('k conn, unit) act" where
  "gate_ping S =
     abind (CryptRecvValue S 4) (\<lambda>transId :: u32.
     abind (CryptRecvValue S 4) (\<lambda>pingTime :: u32.
     abind (CryptRecvSize S MAX_PAYLOAD_SIZE) (\<lambda>payloadSize.
     abind (if payloadSize \<noteq> 0 then CryptRecvBuffer S (unat payloadSize) else aret []) (\<lambda>payload.
     CryptSendBuffer S
       (write_u16 0 @ write_u32 transId @ write_u32 pingTime @ write_u32 payloadSize @ payload)))))"

definition address_reply :: "u16 list \<Rightarrow> bytes" where
  "address_reply address = write_u16 (of_nat (length address)) @ u16s_bytes address"

definition cb_fileServIpAddress :: "'k ssl \<Rightarrow> gate_settings \<Rightarrow> ('k conn, unit) act" where
  "cb_fileServIpAddress S A =
     abind (CryptRecvValue S 4) (\<lambda>transId :: u32.
     abind (CryptRecvValue S 1) (\<lambda>fromPatcher :: byte.
     CryptSendBuffer S (write_u16 1 @ write_u32 transId @ address_reply (gs_FileServerAddress A))))"

definition cb_authServIpAddress :: "'k ssl \<Rightarrow> gate_settings \<Rightarrow> ('k conn, unit) act" where
  "cb_authServIpAddress S A =
     abind (CryptRecvValue S 4) (\<lambda>transId :: u32.
     CryptSendBuffer S (write_u16 2 @ write_u32 transId @ address_reply (gs_AuthServerAddress A)))"

definition gate_message :: "'k ssl \<Rightarrow> gate_settings \<Rightarrow> ('k conn, unit) act" where
  "gate_message S A =
     abind (CryptRecvValue S 2) (\<lambda>msgId :: u16.
     if msgId = 0 then gate_ping S
     else if msgId = 1 then cb_fileServIpAddress S A
     else if msgId = 2 then cb_authServIpAddress S A
     else athen CloseSock (afail (Thrown SockHup)))"

text \<open>The endless loop over the messages, cut off after \<open>fuel\<close> rounds.\<close>

fun gate_loop :: "nat \<Rightarrow> 'k ssl \<Rightarrow> gate_settings \<Rightarrow> ('k conn, unit) act" where
  "gate_loop 0 S A = afail (Thrown NoFuel)"
| "gate_loop (Suc fuel) S A = athen (gate_message S A) (gate_loop fuel S A)"

text \<open>
  \<open>wk_gateKeeper\<close>: the list \<open>s_clients\<close> of the clients that are being served, and the body of the thread; a
  \<open>SockHup\<close> or another exception ends it.
\<close>

definition add_client :: "'c \<Rightarrow> 'c list \<Rightarrow> 'c list" where
  "add_client client s_clients = s_clients @ [client]"

fun remove_client :: "'c \<Rightarrow> 'c list \<Rightarrow> 'c list" where
  "remove_client client [] = []"
| "remove_client client (c # cs) = (if c = client then remove_client client cs else c # remove_client client cs)"

definition wk_gateKeeper :: "nat \<Rightarrow> 'k server_keys \<Rightarrow> gate_settings \<Rightarrow> ('k conn, unit) act" where
  "wk_gateKeeper fuel V A =
     athen (acatch (athen (gate_init V) (gate_loop fuel (sk_ssl V) A)) (aret ())) CloseSock"

section \<open>What a client asks and is told\<close>

datatype gate_request =
    Gate_ping u32 u32 bytes
  | Gate_file_server u32 byte
  | Gate_auth_server u32

fun gate_image :: "gate_request \<Rightarrow> bytes" where
  "gate_image (Gate_ping transId time payload) =
     write_u16 0 @ write_u32 transId @ write_u32 time @ write_u32 (of_nat (length payload)) @ payload"
| "gate_image (Gate_file_server transId fromPatcher) = write_u16 1 @ write_u32 transId @ write_u8 fromPatcher"
| "gate_image (Gate_auth_server transId) = write_u16 2 @ write_u32 transId"

fun gate_reply :: "gate_settings \<Rightarrow> gate_request \<Rightarrow> bytes" where
  "gate_reply A (Gate_ping transId time payload) =
     write_u16 0 @ write_u32 transId @ write_u32 time @ write_u32 (of_nat (length payload)) @ payload"
| "gate_reply A (Gate_file_server transId _) = write_u16 1 @ write_u32 transId @ address_reply (gs_FileServerAddress A)"
| "gate_reply A (Gate_auth_server transId) = write_u16 2 @ write_u32 transId @ address_reply (gs_AuthServerAddress A)"

fun gate_request_ok :: "gate_request \<Rightarrow> bool" where
  "gate_request_ok (Gate_ping _ _ payload) = (length payload \<le> 131072)"
| "gate_request_ok _ = True"

section \<open>The handlers answer\<close>

lemma le_images:
  "write_u8 b = le_bytes 1 b" "write_u16 h = le_bytes 2 h" "write_u32 w = le_bytes 4 w"
  by (simp_all add: write_u8_def write_u16_def write_u32_def Stream_write_def)

lemma write_u16_nonempty [simp]: "write_u16 w \<noteq> []"
  by (simp add: le_images le_bytes_def)

lemma gate_ping_line:
  assumes "stream_cipher S" and "calm_line (c_in c)" and "willing (c_accept c)" and "length payload \<le> 131072"
    and "unread_plain S c =
      write_u32 transId @ write_u32 time @ write_u32 (of_nat (length payload)) @ payload @ rest"
  shows "\<exists>c'. gate_ping S c = (Inr (), c') \<and> calm_line (c_in c') \<and> willing (c_accept c')
     \<and> unread_plain S c' = rest
     \<and> says S c (write_u16 0 @ write_u32 transId @ write_u32 time @ write_u32 (of_nat (length payload)) @ payload) c'"
proof -
  let ?a = "abind (CryptRecvValue S 4) (\<lambda>transId :: u32.
     abind (CryptRecvValue S 4) (\<lambda>pingTime :: u32.
     abind (CryptRecvSize S MAX_PAYLOAD_SIZE) (\<lambda>payloadSize.
     abind (if payloadSize \<noteq> 0 then CryptRecvBuffer S (unat payloadSize) else aret []) (\<lambda>payload.
     aret (transId, pingTime, payloadSize, payload)))))"
  let ?p = "rbind (recv_value 4) (\<lambda>transId :: u32.
     rbind (recv_value 4) (\<lambda>pingTime :: u32.
     rbind (recv_size MAX_PAYLOAD_SIZE) (\<lambda>payloadSize.
     rbind (if payloadSize \<noteq> 0 then recv_bytes (unat payloadSize) else rret []) (\<lambda>payload.
     rret (transId, pingTime, payloadSize, payload)))))"
  let ?f = "\<lambda>(transId, pingTime, payloadSize, payload).
     write_u16 0 @ write_u32 transId @ write_u32 pingTime @ write_u32 payloadSize @ payload"
  have len: "unat (of_nat (length payload) :: u32) = length payload" "\<not> of_nat (length payload) > MAX_PAYLOAD_SIZE"
    using payload_size [OF assms(4)] by simp_all
  then have "(of_nat (length payload) :: u32) = 0 \<Longrightarrow> payload = []" by (metis length_0_conv unat_0)
  then have p: "?p (unread_plain S c) = Inr ((transId, time, of_nat (length payload), payload), rest)"
    using len by (auto simp: assms(5) le_images recv_size_def rd_simps)
  have "gate_ping S = abind ?a (\<lambda>x. CryptSendBuffer S (?f x))"
    by (simp add: gate_ping_def abind_assoc abind_aret)
  moreover have r: "crypt.reads S ?a ?p" by (intro crypt_reads reads_CryptRecvValue reads_CryptRecvSize)
  ultimately show ?thesis using answer_line [OF assms(1) r assms(2,3) p, of ?f] by simp
qed

lemma gate_file_line:
  assumes "stream_cipher S" and "calm_line (c_in c)" and "willing (c_accept c)"
    and "unread_plain S c = write_u32 transId @ write_u8 fromPatcher @ rest"
  shows "\<exists>c'. cb_fileServIpAddress S A c = (Inr (), c') \<and> calm_line (c_in c') \<and> willing (c_accept c')
     \<and> unread_plain S c' = rest \<and> says S c (write_u16 1 @ write_u32 transId @ address_reply (gs_FileServerAddress A)) c'"
proof -
  let ?a = "abind (CryptRecvValue S 4) (\<lambda>transId :: u32. abind (CryptRecvValue S 1) (\<lambda>_ :: byte. aret transId))"
  let ?p = "rbind (recv_value 4) (\<lambda>transId :: u32. rbind (recv_value 1) (\<lambda>_ :: byte. rret transId))"
  let ?f = "\<lambda>transId. write_u16 1 @ write_u32 transId @ address_reply (gs_FileServerAddress A)"
  have p: "?p (unread_plain S c) = Inr (transId, rest)" by (simp add: assms(4) le_images rd_simps)
  have "cb_fileServIpAddress S A = abind ?a (\<lambda>x. CryptSendBuffer S (?f x))"
    by (simp add: cb_fileServIpAddress_def abind_assoc abind_aret)
  moreover have r: "crypt.reads S ?a ?p" by (intro crypt_reads reads_CryptRecvValue)
  ultimately show ?thesis using answer_line [OF assms(1) r assms(2,3) p, of ?f] by simp
qed

lemma gate_auth_line:
  assumes "stream_cipher S" and "calm_line (c_in c)" and "willing (c_accept c)"
    and "unread_plain S c = write_u32 transId @ rest"
  shows "\<exists>c'. cb_authServIpAddress S A c = (Inr (), c') \<and> calm_line (c_in c') \<and> willing (c_accept c')
     \<and> unread_plain S c' = rest \<and> says S c (write_u16 2 @ write_u32 transId @ address_reply (gs_AuthServerAddress A)) c'"
proof -
  have p: "recv_value 4 (unread_plain S c) = Inr (transId, rest)" by (simp add: assms(4) le_images rd_simps)
  show ?thesis
    using answer_line [OF assms(1) reads_CryptRecvValue assms(2,3) p,
      of "\<lambda>transId. write_u16 2 @ write_u32 transId @ address_reply (gs_AuthServerAddress A)"]
    by (simp add: cb_authServIpAddress_def)
qed

lemma gate_message_line:
  assumes "stream_cipher S" and "calm_line (c_in c)" and "willing (c_accept c)" and "gate_request_ok r"
    and "unread_plain S c = gate_image r @ rest"
  shows "\<exists>c'. gate_message S A c = (Inr (), c') \<and> calm_line (c_in c') \<and> willing (c_accept c')
     \<and> unread_plain S c' = rest \<and> says S c (gate_reply A r) c'"
proof -
  define msgId :: u16 where "msgId = (case r of Gate_ping _ _ _ \<Rightarrow> 0 | Gate_file_server _ _ \<Rightarrow> 1 | Gate_auth_server _ \<Rightarrow> 2)"
  obtain body where body: "gate_image r = write_u16 msgId @ body" by (cases r) (simp_all add: msgId_def)
  have "recv_value 2 (unread_plain S c) = Inr (msgId, body @ rest)" by (simp add: assms(5) body le_images rd_simps)
  then obtain c1 where c1: "CryptRecvValue S 2 c = (Inr msgId, c1)" "calm_line (c_in c1)" "unread_plain S c1 = body @ rest"
      "(c_accept c1, c_out c1, map_option snd (c_crypt c1)) = (c_accept c, c_out c, map_option snd (c_crypt c))"
    using crypt.reads_Inr [OF reads_CryptRecvValue [of S 2], of c] assms(1,2) by metis
  then have w: "willing (c_accept c1)" using assms(3) by simp
  show ?thesis
  proof (cases r)
    case (Gate_ping transId time payload)
    then show ?thesis
      using gate_ping_line [OF assms(1) c1(2) w, of payload transId time rest] c1 body assms(4)
      by (simp add: gate_message_def act_simps msgId_def says_other [OF c1(4)])
  next
    case (Gate_file_server transId fromPatcher)
    then show ?thesis
      using gate_file_line [OF assms(1) c1(2) w, of transId fromPatcher rest A] c1 body
      by (simp add: gate_message_def act_simps msgId_def says_other [OF c1(4)])
  next
    case (Gate_auth_server transId)
    then show ?thesis
      using gate_auth_line [OF assms(1) c1(2) w, of transId rest A] c1 body
      by (simp add: gate_message_def act_simps msgId_def says_other [OF c1(4)])
  qed
qed

lemma gate_loop_line:
  assumes "stream_cipher S"
  shows "calm_line (c_in c) \<Longrightarrow> willing (c_accept c) \<Longrightarrow> list_all gate_request_ok rs \<Longrightarrow>
     unread_plain S c = concat (map gate_image rs) \<Longrightarrow> length rs < fuel \<Longrightarrow>
     \<exists>c'. gate_loop fuel S A c = (Inl (Thrown SockHup), c') \<and> says S c (concat (map (gate_reply A) rs)) c'"
proof (induction rs arbitrary: c fuel)
  case Nil
  then obtain n where n: "fuel = Suc n" by (cases fuel) auto
  have "(recv_value 2 :: u16 rd) (unread_plain S c) = Inl SockHup"
    using Nil by (simp add: recv_value_def recv_bytes_def rbind_def)
  then obtain c' where "CryptRecvValue S 2 c = (Inl (Thrown SockHup) :: act_error + u16, c')"
      "(c_accept c', c_out c', map_option snd (c_crypt c')) = (c_accept c, c_out c, map_option snd (c_crypt c))"
    using crypt.reads_Inl [OF reads_CryptRecvValue [of S 2], of c] Nil.prems(1) assms by metis
  then show ?case
    using n by (auto simp: gate_message_def act_simps says_def cipher_out_Nil [OF assms])
next
  case (Cons r rs)
  then obtain n where n: "fuel = Suc n" by (cases fuel) auto
  obtain c1 where c1: "gate_message S A c = (Inr (), c1)" "calm_line (c_in c1)" "willing (c_accept c1)"
      "unread_plain S c1 = concat (map gate_image rs)" "says S c (gate_reply A r) c1"
    using gate_message_line [OF assms Cons.prems(1,2), of r] Cons.prems by auto
  obtain c' where "gate_loop n S A c1 = (Inl (Thrown SockHup), c')" "says S c1 (concat (map (gate_reply A) rs)) c'"
    using Cons.IH [OF c1(2,3) _ c1(4), of n] Cons.prems n by auto
  with c1 n show ?case using says_append [OF assms c1(5)] by (auto simp: act_simps)
qed

lemma gate_init_line:
  assumes "bn_documented (sk_ssl V)" and "length (sk_N V) = 64" and "0 < le_nat (rev (sk_N V))"
    and "y \<noteq> []" and "length y \<le> 64"
    and "v = le_nat y ^ le_nat (rev (sk_K V)) mod le_nat (rev (sk_N V))" and "256 ^ 6 \<le> v"
    and "calm_line (c_in c)" and "willing (c_accept c)" and "length uuid = 16"
    and "arrived (c_in c) = write_u32 20 @ uuid @ [0, of_nat (length y + 2)] @ y @ later"
  shows "\<exists>c'. gate_init V c = (Inr (), c') \<and> c_out c' = c_out c @ [1, 9] @ sk_seed V
     \<and> c_crypt c' = CryptStateInit (sk_ssl V) (session_key v (sk_seed V))
     \<and> calm_line (c_in c') \<and> willing (c_accept c') \<and> arrived (c_in c') = later"
proof -
  obtain as1 where as1: "RecvValue 4 c = (Inr (20 :: u32), c\<lparr>c_in := as1\<rparr>)" "calm_line as1"
    "arrived as1 = uuid @ [0, of_nat (length y + 2)] @ y @ later"
    using RecvValue_u32 [OF assms(8,11)] by blast
  obtain as2 where as2: "RecvBuffer 16 (c\<lparr>c_in := as1\<rparr>) = (Inr uuid, c\<lparr>c_in := as2\<rparr>)" "calm_line as2"
    "arrived as2 = [0, of_nat (length y + 2)] @ y @ later"
    using RecvBuffer_step [of "c\<lparr>c_in := as1\<rparr>" uuid _ 16] as1 assms(10) by auto
  let ?key = "CryptStateInit (sk_ssl V) (session_key v (sk_seed V))"
  obtain as3 where as3: "establish V (c\<lparr>c_in := as2\<rparr>) = (Inr (9 # sk_seed V), c\<lparr>c_in := as3, c_crypt := ?key\<rparr>)"
    "calm_line as3" "arrived as3 = later"
    using establish_line [OF assms(1-7), of "c\<lparr>c_in := as2\<rparr>" later] as2 by auto
  have "write_u8 1 @ 9 # sk_seed V = [1, 9] @ sk_seed V" by (simp add: le_images le_bytes_def)
  then show ?thesis
    using as1 as2 as3 assms(9) SendBuffer_line [of "c\<lparr>c_in := as3, c_crypt := ?key\<rparr>" "[1, 9] @ sk_seed V"]
    by (auto simp: gate_init_def act_simps)
qed

section \<open>Properties\<close>

text \<open>
  C14: a whole session of the gate keeper. A client that sends its number and then, under the key it shares with the
  server, any number of requests, in whatever pieces they arrive, is sent the seed and then the reply to every
  request, in their order, each once and under the same key, and the thread ends when the client has closed the
  connection.
\<close>

theorem gate_session:
  assumes "bn_documented (sk_ssl V)" and "stream_cipher (sk_ssl V)" and "length (sk_N V) = 64" and "0 < le_nat (rev (sk_N V))"
    and "y \<noteq> []" and "length y \<le> 64"
    and "v = le_nat y ^ le_nat (rev (sk_K V)) mod le_nat (rev (sk_N V))" and "256 ^ 6 \<le> v"
    and "key = RC4_set_key (sk_ssl V) (session_key v (sk_seed V))"
    and "calm_line (c_in c)" and "willing (c_accept c)" and "length uuid = 16" and "list_all gate_request_ok rs" and "length rs < fuel"
    and "arrived (c_in c) = write_u32 20 @ uuid @ [0, of_nat (length y + 2)] @ y
       @ fst (RC4 (sk_ssl V) key (concat (map gate_image rs)))"
  shows "\<exists>c'. wk_gateKeeper fuel V A c = (Inr (), c')
     \<and> c_out c' = c_out c @ [1, 9] @ sk_seed V @ fst (RC4 (sk_ssl V) key (concat (map (gate_reply A) rs)))"
proof -
  obtain c1 where c1: "gate_init V c = (Inr (), c1)" "c_out c1 = c_out c @ [1, 9] @ sk_seed V"
      "c_crypt c1 = Some (key, key)" "calm_line (c_in c1)" "willing (c_accept c1)"
      "arrived (c_in c1) = fst (RC4 (sk_ssl V) key (concat (map gate_image rs)))"
    using gate_init_line [OF assms(1,3-8,10-12,15)] by (auto simp: CryptStateInit_def assms(9))
  have "unread_plain (sk_ssl V) c1 = concat (map gate_image rs)"
    using c1(3,6) stream_cipherD(3) [OF assms(2)] by (simp add: unread_plain_def)
  then obtain c2 where "gate_loop fuel (sk_ssl V) A c1 = (Inl (Thrown SockHup), c2)"
      "says (sk_ssl V) c1 (concat (map (gate_reply A) rs)) c2"
    using gate_loop_line [OF assms(2) c1(4,5) assms(13) _ assms(14)] by blast
  then show ?thesis
    using c1(1-3)
    by (simp add: wk_gateKeeper_def acatch_def acatch_if_def act_simps CloseSock_def says_def cipher_out_def)
qed

definition sample_gate :: gate_settings where
  "sample_gate = \<lparr>gs_FileServerAddress = [0x31, 0x30], gs_AuthServerAddress = [0x31, 0x31]\<rparr>"

definition sample_requests :: "gate_request list" where
  "sample_requests = [Gate_auth_server 5, Gate_ping 1 2 [3, 4], Gate_file_server 6 0]"

theorem gate_session_witness:
  "let key = rc4_setup (session_key (2 ^ 508) (sk_seed sample_keys));
       c = sample_conn [Arrived (write_u32 20 @ replicate 16 7), Interrupted, Arrived [0, 3, 2],
         Arrived (fst (rc4_crypt key (concat (map gate_image sample_requests))))]
   in \<exists>c'. wk_gateKeeper 4 sample_keys sample_gate c = (Inr (), c')
     \<and> c_out c' = [1, 9] @ sk_seed sample_keys @ fst (rc4_crypt key (concat (map (gate_reply sample_gate) sample_requests)))"
proof -
  let ?key = "rc4_setup (session_key (2 ^ 508) (sk_seed sample_keys))"
  let ?out = "fst (rc4_crypt ?key (concat (map gate_image sample_requests)))"
  let ?c = "sample_conn [Arrived (write_u32 20 @ replicate 16 7), Interrupted, Arrived [0, 3, 2], Arrived ?out]"
  have ssl: "sk_ssl sample_keys = openssl" "RC4 openssl = rc4_crypt" "RC4_set_key openssl = rc4_setup"
    "length (sk_N sample_keys) = 64"
    by (simp_all add: sample_keys_def openssl_def)
  have "length ?out \<noteq> 0" by (simp add: rc4_crypt_length sample_requests_def)
  then have calm: "calm_line (c_in ?c)" "willing (c_accept ?c)" by (simp_all add: sample_conn_def)
  have "arrived (c_in ?c) = write_u32 20 @ replicate 16 7 @ [0, of_nat (length [2 :: byte] + 2)] @ [2] @ ?out"
    by (simp add: sample_conn_def)
  then show ?thesis
    using gate_session [of sample_keys "[2]" "2 ^ 508" ?key ?c "replicate 16 7" sample_requests 4 sample_gate]
      openssl_documented openssl_stream_cipher sample_numbers(1,2) ssl calm
    by (simp add: Let_def sample_requests_def sample_conn_def)
qed

end
