(* ===== verification/Game_Server.thy ===== *)
theory Game_Server
  imports Handshake Game_State
begin

unbundle bit_operations_syntax

text \<open>
  The game server, \<open>GameServ/GameServer.cpp\<close> and \<open>start_game_host\<close> of \<open>GameServ/GameHost.cpp\<close>: the thread that serves
  the connection of one client. It takes requests from the socket, puts them on the channel of the host of its age and
  waits for the answer, and sends what the host puts on its broadcast channel. While it waits the host runs.
\<close>

section \<open>State\<close>

text \<open>
  The world of the hosts, the connection, \<open>m_host\<close> and the first unused address of a host.
\<close>

record 'k worker =
  wk_world :: world
  wk_conn :: "'k conn"
  wk_host :: "host option"
  wk_fresh :: host

type_synonym ('k, 'a) wact = "('k worker, 'a) act"

definition on_world :: "'a gact \<Rightarrow> ('k, 'a) wact" where
  "on_world a s = (case a (wk_world s) of (r, w) \<Rightarrow> (r, s\<lparr>wk_world := w\<rparr>))"

definition on_conn :: "('k conn, 'a) act \<Rightarrow> ('k, 'a) wact" where
  "on_conn a s = (case a (wk_conn s) of (r, c) \<Rightarrow> (r, s\<lparr>wk_conn := c\<rparr>))"

text \<open>
  What comes from outside besides what the hosts use: whether the database can be reached, the rows of
  \<open>game."Servers"\<close> for an age (name of the age, \<open>AgeIdx\<close>, \<open>SdlIdx\<close>, \<open>Temporary\<close>; \<open>None\<close>: the query failed), the
  daemon's answer to \<open>e_AuthFetchSDL\<close> (result, node, global state, local blob), the rows of \<open>game."AgeStates"\<close>
  (descriptor, object key, blob), the Base64 decoder, and the daemon's answer to \<open>e_VaultFetchNode\<close> for a
  player (result and name).
\<close>

record 'k server_env =
  sv_game :: game_env
  sv_keys :: "'k server_keys"
  sv_connect :: "nat \<Rightarrow> bool"
  sv_servers :: "nat \<Rightarrow> u32 \<Rightarrow> (st_string \<times> u32 \<times> u32 \<times> bool) list option"
  sv_fetchSdl :: "nat \<Rightarrow> st_string \<Rightarrow> u32 \<Rightarrow> u32 \<times> u32 \<times> State \<times> bytes"
  sv_ageStates :: "nat \<Rightarrow> u32 \<Rightarrow> (st_string \<times> st_string \<times> st_string) list option"
  sv_unbase64 :: "st_string \<Rightarrow> ds_error + bytes"
  sv_player :: "nat \<Rightarrow> u32 \<Rightarrow> u32 \<times> st_string"

abbreviation sv_ssl :: "'k server_env \<Rightarrow> 'k ssl" where
  "sv_ssl V \<equiv> sk_ssl (sv_keys V)"

section \<open>Starting a host\<close>

definition new_host :: "u32 \<Rightarrow> st_string \<Rightarrow> u32 \<Rightarrow> bool \<Rightarrow> GameHost" where
  "new_host ageMcpId ageFilename ageIdx temp =
     \<lparr>gh_ageFilename = ageFilename, gh_ageIdx = ageIdx, gh_serverIdx = ageMcpId, gh_clients = [], gh_clones = [],
      gh_locks = [], gh_gameMaster = 0, gh_clientMutex = False, gh_channel = [], gh_states = [], gh_sdlIdx = 0,
      gh_globalState = NullState, gh_localState = NullState, gh_ageSdlHook = NullState, gh_temp = temp, gh_alive = True\<rparr>"

definition from_blob :: "game_env \<Rightarrow> bytes \<Rightarrow> State gact" where
  "from_blob E blob = abind (acall (\<lambda>n. State_FromBlob (sdl_at E n) (ge_fuel E) blob)) alift"

text \<open>\<open>toBlob\<close>, the hook made of the blob, and the blob sent to the vault.\<close>

definition publish_local :: "game_env \<Rightarrow> host \<Rightarrow> State \<Rightarrow> unit gact" where
  "publish_local E h state =
     athen (mod_host h (\<lambda>g. g\<lparr>gh_localState := state\<rparr>))
     (abind (alift (State_toBlob (game_lib E) state)) (\<lambda>local.
      abind (from_blob E local) (\<lambda>hook.
      athen (mod_host h (\<lambda>g. g\<lparr>gh_ageSdlHook := hook\<rparr>)) (dm_local_sdl_update h local))))"

text \<open>The three branches after the local state was read: none yet, an old descriptor, an up-to-date state.\<close>

definition load_local :: "game_env \<Rightarrow> host \<Rightarrow> State \<Rightarrow> bytes \<Rightarrow> unit gact" where
  "load_local E h state blob =
     abind (ahost h) (\<lambda>g.
     case state of
       NullState \<Rightarrow>
         (case FindLatestDescriptor (se_fold (ge_sdl E)) (se_db (ge_sdl E)) (gh_ageFilename g) of
            None \<Rightarrow> aret ()
          | Some desc \<Rightarrow> abind (alift (State_new (ge_sdl E) (ge_fuel E) (Some desc))) (publish_local E h))
     | State _ _ _ _ \<Rightarrow>
         abind (alift (State_update (ge_sdl E) (ge_fuel E) state)) (\<lambda>(changed, state').
         if changed then publish_local E h state'
         else abind (from_blob E blob) (\<lambda>hook. mod_host h (\<lambda>g. g\<lparr>gh_ageSdlHook := hook\<rparr>))))"

text \<open>One row of \<open>AgeStates\<close>; the blobs are decoded and the key is read outside of the \<open>try\<close> block.\<close>

definition load_state :: "'k server_env \<Rightarrow> host \<Rightarrow> st_string \<times> st_string \<times> st_string \<Rightarrow> unit gact" where
  "load_state V h = (\<lambda>(descriptor, objectKey, sdlBlob).
     let E = sv_game V in
     abind (alift (sv_unbase64 V objectKey)) (\<lambda>objblob.
     abind (alift (sv_unbase64 V sdlBlob)) (\<lambda>sdlblob.
     abind (alift (Uoid_read (game_lib E) objblob)) (\<lambda>(key, _).
     acatch
       (abind (from_blob E sdlblob) (\<lambda>state.
        abind (alift (State_update (ge_sdl E) (ge_fuel E) state)) (\<lambda>(_, state').
        mod_host h (put_state key descriptor \<lparr>gs_persist = True, gs_isAvatar = False, gs_state = state'\<rparr>))))
       (aret ())))))"

definition register_host :: "u32 \<Rightarrow> host \<Rightarrow> unit gact" where
  "register_host ageMcpId h = amod (\<lambda>w. w\<lparr>w_gameHosts := AList.update ageMcpId h (w_gameHosts w)\<rparr>)"

definition fetch_states :: "'k server_env \<Rightarrow> host \<Rightarrow> u32 \<Rightarrow> unit gact" where
  "fetch_states V h ageMcpId =
     abind (acall (\<lambda>n. sv_ageStates V n ageMcpId)) (\<lambda>rows.
     case rows of None \<Rightarrow> aret () | Some rows \<Rightarrow> aseq (map (load_state V h) rows))"

definition start_thread :: "host \<Rightarrow> unit gact" where
  "start_thread h = amod (\<lambda>w. w\<lparr>w_threads := w_threads w @ [h]\<rparr>)"

definition run_host :: "'k server_env \<Rightarrow> host \<Rightarrow> u32 \<Rightarrow> State \<Rightarrow> State \<Rightarrow> bytes \<Rightarrow> ('k, host option) wact" where
  "run_host V h ageMcpId global local blob =
     athen (on_world (aseq
       [load_local (sv_game V) h local blob,
        merge_hook h global,
        register_host ageMcpId h,
        fetch_states V h ageMcpId,
        start_thread h]))
     (aret (Some h))"

definition start_game_host :: "'k server_env \<Rightarrow> u32 \<Rightarrow> ('k, host option) wact" where
  "start_game_host V ageMcpId =
     abind (on_world (acall (sv_connect V))) (\<lambda>connected.
     if \<not> connected then aret None
     else abind (on_world (acall (\<lambda>n. sv_servers V n ageMcpId))) (\<lambda>result.
     case result of
       None \<Rightarrow> aret None
     | Some [] \<Rightarrow> aret None
     | Some ((ageFilename, ageIdx, sdlIdx, temp) # _) \<Rightarrow>
         abind (aget wk_fresh) (\<lambda>h.
         athen (amod (\<lambda>s. s\<lparr>wk_fresh := Suc h\<rparr>))
         (athen (on_world (mod_host h (\<lambda>_. new_host ageMcpId ageFilename ageIdx temp)))
         (abind (on_world (acall (\<lambda>n. sv_fetchSdl V n ageFilename sdlIdx))) (\<lambda>(reply, node, global, blob).
          if reply \<noteq> 0 then aret None
          else
            athen (on_world (mod_host h (\<lambda>g. g\<lparr>gh_sdlIdx := node, gh_globalState := global\<rparr>)))
            (abind (acatch (abind (on_world (from_blob (sv_game V) blob)) (\<lambda>s. aret (Some s))) (aret None)) (\<lambda>local.
             case local of
               None \<Rightarrow> aret None
             | Some local \<Rightarrow>
                 athen (on_world (mod_host h (\<lambda>g. g\<lparr>gh_localState := local\<rparr>)))
                   (run_host V h ageMcpId global local blob)))))))))"

definition find_game_host :: "'k server_env \<Rightarrow> u32 \<Rightarrow> ('k, host option) wact" where
  "find_game_host V ageMcpId =
     abind (aget (w_gameHosts \<circ> wk_world)) (\<lambda>hosts.
     case map_of hosts ageMcpId of
       Some h \<Rightarrow> aret (Some h)
     | None \<Rightarrow> acatch (start_game_host V ageMcpId) (aret None))"

section \<open>Requests to the host\<close>

text \<open>
  \<open>putMessage\<close> on the channel of a host, which is gone when the host was deleted, and \<open>getMessage\<close> on the channel of the client:
  the thread of the host takes its messages in turn until there is a result. A host whose thread was never
  started, or whose thread has ended, takes none: the client waits for ever.
\<close>

definition put_message :: "host \<Rightarrow> host_msg \<Rightarrow> unit gact" where
  "put_message h msg =
     abind (ahost h) (\<lambda>g.
     if \<not> gh_alive g then afail (Thrown UndefinedBehaviour)
     else mod_host h (\<lambda>g. g\<lparr>gh_channel := gh_channel g @ [msg]\<rparr>))"

definition running :: "host \<Rightarrow> world \<Rightarrow> bool" where
  "running h w \<longleftrightarrow> h \<in> set (w_threads w) \<and> gh_alive (w_host w h)"

fun await :: "nat \<Rightarrow> game_env \<Rightarrow> host \<Rightarrow> client \<Rightarrow> u32 gact" where
  "await n E h c =
     abind (aclient c) (\<lambda>k.
     case gc_channel k of
       result # rest \<Rightarrow> athen (mod_client c (\<lambda>k. k\<lparr>gc_channel := rest\<rparr>)) (aret result)
     | [] \<Rightarrow>
         abind (aget (running h)) (\<lambda>runs.
         if \<not> runs then afail Blocked
         else case n of 0 \<Rightarrow> afail Blocked | Suc n \<Rightarrow> athen (dm_gameHost E h) (await n E h c)))"

declare await.simps [simp del]

definition request_host :: "game_env \<Rightarrow> host \<Rightarrow> client \<Rightarrow> host_msg \<Rightarrow> u32 gact" where
  "request_host E h c msg =
     athen (put_message h msg) (abind (ahost h) (\<lambda>g. await (length (gh_channel g)) E h c))"

section \<open>Handlers\<close>

definition game_send :: "'k server_env \<Rightarrow> bytes \<Rightarrow> ('k, unit) wact" where
  "game_send V buf = on_conn (CryptSendBuffer (sv_ssl V) buf)"

definition game_ping :: "'k server_env \<Rightarrow> ('k, unit) wact" where
  "game_ping V =
     abind (on_conn (CryptRecvValue (sv_ssl V) 4)) (\<lambda>time :: u32. game_send V (write_u16 0 @ write_u32 time))"

definition set_PlayerId :: "u32 \<Rightarrow> ClientGuid \<Rightarrow> ClientGuid" where
  "set_PlayerId v g = g\<lparr>cg_PlayerId := v, cg_flags := cg_flags g OR 2\<rparr>"

definition set_PlayerName :: "st_string \<Rightarrow> ClientGuid \<Rightarrow> ClientGuid" where
  "set_PlayerName v g = g\<lparr>cg_PlayerName := v, cg_flags := cg_flags g OR 64\<rparr>"

definition set_CCRLevel :: "byte \<Rightarrow> ClientGuid \<Rightarrow> ClientGuid" where
  "set_CCRLevel v g = g\<lparr>cg_CCRLevel := v, cg_flags := cg_flags g OR 8\<rparr>"

definition mod_info :: "client \<Rightarrow> (ClientGuid \<Rightarrow> ClientGuid) \<Rightarrow> unit gact" where
  "mod_info c f = mod_client c (\<lambda>k. k\<lparr>gc_info := f (gc_info k)\<rparr>)"

definition join_reply :: "u32 \<Rightarrow> u32 \<Rightarrow> bytes" where
  "join_reply transId result = write_u16 1 @ write_u32 transId @ write_u32 result"

text \<open>\<open>cb_join\<close>, in three parts: what is received, the player and the host, and the request to the host.\<close>

definition join_receive :: "'k ssl \<Rightarrow> ('k conn, u32 \<times> u32 \<times> u32) act" where
  "join_receive S =
     abind (CryptRecvValue S 4) (\<lambda>transId.
     abind (CryptRecvValue S 4) (\<lambda>mcpId.
     abind (CryptRecvBuffer S 16) (\<lambda>clientId.
     abind (CryptRecvValue S 4) (\<lambda>playerId. aret (transId, mcpId, playerId)))))"

definition enter_table :: "host \<Rightarrow> client \<Rightarrow> unit gact" where
  "enter_table h c =
     aseq
       [lock_clients h,
        abind (aclient c) (\<lambda>k. mod_host h (\<lambda>g. g\<lparr>gh_clients := AList.update (playerId k) c (gh_clients g)\<rparr>)),
        unlock_clients h]"

definition join_host :: "'k server_env \<Rightarrow> client \<Rightarrow> u32 \<Rightarrow> host \<Rightarrow> ('k, unit) wact" where
  "join_host V c transId h =
     abind (on_world (abind (aclient c) (\<lambda>k. acall (\<lambda>n. sv_player V n (playerId k))))) (\<lambda>(reply, name).
     if reply \<noteq> 0 then game_send V (join_reply transId reply)
     else
       athen (on_world (mod_info c (set_CCRLevel 0 \<circ> set_PlayerName name)))
       (abind (on_world (request_host (sv_game V) h c (e_GameJoinAge c))) (\<lambda>result.
        athen (game_send V (join_reply transId result)) (on_world (enter_table h c)))))"

definition cb_join :: "'k server_env \<Rightarrow> client \<Rightarrow> ('k, unit) wact" where
  "cb_join V c =
     abind (on_conn (join_receive (sv_ssl V))) (\<lambda>(transId, mcpId, player).
     athen (on_world (mod_info c (set_PlayerId player)))
     (if player = 0 then game_send V (join_reply transId 15)
      else abind (find_game_host V mcpId) (\<lambda>host.
           athen (amod (\<lambda>s. s\<lparr>wk_host := host\<rparr>))
           (case host of
              None \<Rightarrow> game_send V (join_reply transId 1)
            | Some h \<Rightarrow> join_host V c transId h))))"

definition cb_netmsg :: "'k server_env \<Rightarrow> client \<Rightarrow> ('k, unit) wact" where
  "cb_netmsg V c =
     abind (on_conn (CryptRecvValue (sv_ssl V) 4)) (\<lambda>type.
     abind (on_conn (CryptRecvSize (sv_ssl V) MAX_PAYLOAD_SIZE)) (\<lambda>sz.
     abind (on_conn (CryptRecvBuffer (sv_ssl V) (unat sz))) (\<lambda>message.
     abind (aget wk_host) (\<lambda>host.
     case host of
       None \<Rightarrow> afail (Thrown SockHup)
     | Some h \<Rightarrow> abind (on_world (request_host (sv_game V) h c (e_GamePropagate c type message))) (\<lambda>_. aret ())))))"

definition cb_gameMgrMsg :: "'k server_env \<Rightarrow> ('k, unit) wact" where
  "cb_gameMgrMsg V =
     abind (on_conn (CryptRecvSize (sv_ssl V) MAX_PAYLOAD_SIZE)) (\<lambda>sz.
     abind (on_conn (CryptRecvBuffer (sv_ssl V) (unat sz))) (\<lambda>_. aret ()))"

definition cb_sockRead :: "'k server_env \<Rightarrow> client \<Rightarrow> ('k, unit) wact" where
  "cb_sockRead V c =
     abind (on_conn (CryptRecvValue (sv_ssl V) 2)) (\<lambda>msgId :: u16.
     if msgId = 0 then game_ping V
     else if msgId = 1 then cb_join V c
     else if msgId = 2 then cb_netmsg V c
     else if msgId = 3 then cb_gameMgrMsg V
     else afail (Thrown SockHup))"

definition cb_broadcast :: "'k server_env \<Rightarrow> client \<Rightarrow> ('k, unit) wact" where
  "cb_broadcast V c =
     abind (on_world (aclient c)) (\<lambda>k.
     case gc_broadcast k of
       [] \<Rightarrow> afail Blocked
     | msg # rest \<Rightarrow>
         athen (on_world (mod_client c (\<lambda>k. k\<lparr>gc_broadcast := rest\<rparr>))) (game_send V (write_u16 2 @ msg)))"

text \<open>
  The results of \<open>poll\<close>: an error, nothing for the length of the timeout, an error on one of the descriptors, or which of the two
  can be read. When there are no more of them the client has hung up.
\<close>

datatype poll_result = Poll_failed | Poll_timeout | Poll_hup | Poll_ready bool bool

fun worker_loop :: "'k server_env \<Rightarrow> client \<Rightarrow> poll_result list \<Rightarrow> ('k, unit) wact" where
  "worker_loop V c (Poll_ready sock bcast # polls) =
     athen (awhen sock (cb_sockRead V c)) (athen (awhen bcast (cb_broadcast V c)) (worker_loop V c polls))"
| "worker_loop V c _ = afail (Thrown SockHup)"

definition leave_table :: "host \<Rightarrow> client \<Rightarrow> unit gact" where
  "leave_table h c =
     aseq
       [lock_clients h,
        abind (aclient c) (\<lambda>k. mod_host h (\<lambda>g. g\<lparr>gh_clients := AList.delete (playerId k) (gh_clients g)\<rparr>)),
        unlock_clients h]"

definition worker_exit :: "'k server_env \<Rightarrow> client \<Rightarrow> ('k, unit) wact" where
  "worker_exit V c =
     abind (aget wk_host) (\<lambda>host.
     case host of
       None \<Rightarrow> aret ()
     | Some h \<Rightarrow>
         athen (on_world (leave_table h c))
           (acatch (abind (on_world (request_host (sv_game V) h c (e_GameDisconnect c))) (\<lambda>_. aret ())) (aret ())))"

definition wk_gameWorker :: "'k server_env \<Rightarrow> client \<Rightarrow> poll_result list \<Rightarrow> ('k, unit) wact" where
  "wk_gameWorker V c polls =
     abind (acatch_if (\<lambda>e. e = Thrown InvalidConnectionHeader \<or> e = Thrown SockHup)
       (athen (on_conn (game_client_init (sv_keys V))) (aret True)) (aret False)) (\<lambda>established.
     if \<not> established then aret ()
     else aseq
       [acatch (worker_loop V c polls) (aret ()),
        worker_exit V c,
        on_world (mod_client c (\<lambda>k. k\<lparr>gc_broadcast := []\<rparr>)),
        on_conn CloseSock])"

section \<open>Requests from the other servers\<close>

text \<open>
  \<open>GameServer_UpdateVaultSDL\<close>: the daemon hands a node of the vault to the host of the age, with a client object of
  its own for the answer; 4 is \<open>e_NetAgeNotFound\<close>. \<open>GameServer_UpdateGlobalSDL\<close> and \<open>GameServer_Shutdown\<close> only put a
  message on the channels.
\<close>

definition GameServer_UpdateVaultSDL :: "game_env \<Rightarrow> client \<Rightarrow> u32 \<Rightarrow> bytes \<Rightarrow> u32 \<Rightarrow> u32 gact" where
  "GameServer_UpdateVaultSDL E c node blob ageMcpId =
     abind (aget w_gameHosts) (\<lambda>hosts.
     case map_of hosts ageMcpId of
       None \<Rightarrow> aret 4
     | Some h \<Rightarrow> acatch (request_host E h c (e_GameLocalSdlUpdate c node blob)) (aret 4))"

definition GameServer_UpdateGlobalSDL :: "st_string \<Rightarrow> unit gact" where
  "GameServer_UpdateGlobalSDL age =
     abind (aget w_gameHosts) (\<lambda>hosts.
     aseq (map (\<lambda>(_, h). abind (ahost h) (\<lambda>g. awhen (gh_ageFilename g = age) (put_message h e_GameGlobalSdlUpdate))) hosts))"

definition shutdown_hosts :: "unit gact" where
  "shutdown_hosts =
     abind (aget w_gameHosts) (\<lambda>hosts. aseq (map (\<lambda>(_, h). put_message h e_GameShutdown) hosts))"

section \<open>The queue of the host\<close>

text \<open>
  What the handlers of a join and of a departure leave alone; a departure from an age with an empty client table puts
  \<open>e_GameShutdown\<close> at the end of the queue.
\<close>

definition undisturbed :: "world \<Rightarrow> world \<Rightarrow> bool" where
  "undisturbed w w' \<longleftrightarrow>
     (\<forall>h. gh_channel (w_host w' h) = gh_channel (w_host w h) \<and> gh_clients (w_host w' h) = gh_clients (w_host w h)
        \<and> gh_ageIdx (w_host w' h) = gh_ageIdx (w_host w h) \<and> gh_alive (w_host w' h) = gh_alive (w_host w h))
     \<and> (\<forall>c. gc_info (w_client w' c) = gc_info (w_client w c)) \<and> w_threads w' = w_threads w"

interpretation queue: lock_frame undisturbed E for E
  by unfold_locales (auto simp: undisturbed_def)

lemma queue_mod:
  "queue.keeps (send_reply c r)" "queue.keeps (send_buf c buf)" "queue.keeps (mod_client c (\<lambda>k. k\<lparr>gc_isAdmin := b\<rparr>))"
  "queue.keeps (mod_host h (\<lambda>g. g\<lparr>gh_gameMaster := p\<rparr>))"
  unfolding send_reply_def send_buf_def mod_host_def mod_client_def
  by (rule queue.keeps_amod, simp add: undisturbed_def)+

lemma queue_join: "queue.keeps (dm_game_join E h c)"
  unfolding dm_game_join_def aseq.simps
  by (intro queue.sending_intros queue_mod queue.keeps_prod queue.group_sendable)

lemma queue_reassign: "queue.keeps (reassign_master E h k)"
  unfolding reassign_master_def
  by (intro queue.sending_intros) (auto intro!: queue.sending_intros queue_mod split: list.split)

definition shutdown_if_empty :: "(u32 \<times> client) list \<Rightarrow> host_msg list" where
  "shutdown_if_empty clients = (if clients = [] then [e_GameShutdown] else [])"

lemma disconnect_queue:
  assumes "dm_game_disconnect E h c w = (Inr (), w')"
  shows "undisturbed (w\<lparr>w_host := (w_host w)(h := (w_host w h)
     \<lparr>gh_channel := gh_channel (w_host w h) @ shutdown_if_empty (gh_clients (w_host w h))\<rparr>)\<rparr>) w'"
proof -
  let ?k = "w_client w c"
  let ?as = "[unload_avatar E h ?k,
     abind (now E) (\<lambda>t. dm_propagate E h (member_message False ?k t) (playerId ?k)),
     mod_host h (\<lambda>g. g\<lparr>gh_locks := filter (\<lambda>e. snd e \<noteq> playerId ?k) (gh_locks g)\<rparr>),
     reassign_master E h ?k, save_local_state E h]"
  let ?bs = "[abind (ahost h) (\<lambda>g. awhen (gh_clients g = []) (mod_host h (\<lambda>g. g\<lparr>gh_channel := gh_channel g @ [e_GameShutdown]\<rparr>))),
     send_reply c 0]"
  have "aseq (?as @ ?bs) w = (Inr (), w')"
    using assms by (simp del: aseq.simps add: dm_game_disconnect_def aclient_def act_simps)
  then obtain w1 where w1: "aseq ?as w = (Inr (), w1)" "aseq ?bs w1 = (Inr (), w')" by (rule aseq_returns)
  have "queue.keeps (aseq ?as)"
    unfolding aseq.simps
    by (intro queue.sending_intros queue_mod queue.keeps_unload queue.keeps_locks queue_reassign queue.group_sendable)
  then have "undisturbed w w1" using queue.keepsD [of "aseq ?as" w] w1(1) by simp
  moreover have "undisturbed (w1\<lparr>w_host := (w_host w1)(h := (w_host w1 h)
     \<lparr>gh_channel := gh_channel (w_host w1 h) @ shutdown_if_empty (gh_clients (w_host w1 h))\<rparr>)\<rparr>) w'"
    using w1(2)
    by (cases "gh_clients (w_host w1 h) = []")
       (auto simp: undisturbed_def shutdown_if_empty_def ahost_def mod_host_def send_reply_def mod_client_def act_simps)
  ultimately show ?thesis by (auto simp: undisturbed_def)
qed

text \<open>The result a join is answered with is the one of the authentication daemon.\<close>

definition gives :: "client \<Rightarrow> u32 \<Rightarrow> unit gact \<Rightarrow> bool" where
  "gives c r a \<longleftrightarrow> (\<forall>w w'. a w = (Inr (), w') \<longrightarrow> channels w' = (channels w)(c := channels w c @ [r]))"

lemma gives_send_reply: "gives c r (send_reply c r)"
  by (auto simp: gives_def send_reply_def mod_client_def amod_def channels_def fun_eq_iff)

lemma gives_abind:
  assumes "quiet.keeps a" and "\<And>x. gives c r (f x)"
  shows "gives c r (abind a f)"
  unfolding gives_def
proof (intro allI impI)
  fix w w' assume "abind a f w = (Inr (), w')"
  then obtain x w1 where w1: "a w = (Inr x, w1)" "f x w1 = (Inr (), w')"
    by (auto simp: abind_def split: prod.splits sum.splits)
  with quiet.keepsD [OF assms(1), of w] assms(2) [of x] show "channels w' = (channels w)(c := channels w c @ [r])"
    by (auto simp: gives_def)
qed

lemma gives_athen: "quiet.keeps a \<Longrightarrow> gives c r b \<Longrightarrow> gives c r (athen a b)"
  unfolding athen_def by (rule gives_abind)

lemma join_result:
  assumes "dm_game_join E h c w = (Inr (), w')"
  shows "channels w' = (channels w)(c := channels w c
     @ [fst (ge_join E (w_calls w) (gh_ageIdx (w_host w h)) (playerId (w_client w c)))])"
proof -
  obtain result admin where r: "ge_join E (w_calls w) (gh_ageIdx (w_host w h)) (playerId (w_client w c)) = (result, admin)"
    by fastforce
  let ?k = "w_client w c" and ?g = "w_host w h"
  let ?rest = "athen (mod_client c (\<lambda>k. k\<lparr>gc_isAdmin := admin\<rparr>))
       (if result \<noteq> 0 then send_reply c result
        else
          abind (now E) (\<lambda>t.
          aseq [awhen (gh_gameMaster ?g = 0) (mod_host h (\<lambda>g. g\<lparr>gh_gameMaster := playerId ?k\<rparr>)),
                send_msg E (group_message (gh_gameMaster ?g = 0) t) c,
                abind (now E) (\<lambda>t. dm_propagate E h (member_message True ?k t) (playerId ?k)),
                send_reply c 0]))"
  have "gives c result (aseq [send_reply c 0])" if "result = 0" using that gives_send_reply by (simp only: aseq_single)
  then have "gives c result ?rest"
    unfolding aseq.simps(2) [of "awhen _ _"] aseq.simps(2) [of "send_msg _ _ _"] aseq.simps(2) [of "abind _ _"]
    by (cases "result = 0")
       (auto intro!: gives_athen gives_abind gives_send_reply quiet.sending_intros quiet_master quiet_admin quiet.group_sendable)
  moreover have "?rest (w\<lparr>w_calls := Suc (w_calls w)\<rparr>) = (Inr (), w')"
    using assms r by (simp add: dm_game_join_def ahost_def aclient_def acall_def act_simps)
  ultimately show ?thesis using r by (auto simp: gives_def channels_def fun_eq_iff)
qed

text \<open>A join or a departure of a client in the queue.\<close>

fun comes_or_goes :: "host_msg \<Rightarrow> client option" where
  "comes_or_goes (e_GameJoinAge c) = Some c"
| "comes_or_goes (e_GameDisconnect c) = Some c"
| "comes_or_goes _ = None"

lemma comes_or_goes_iff: "comes_or_goes m = Some c \<longleftrightarrow> m = e_GameJoinAge c \<or> m = e_GameDisconnect c"
  by (cases m) auto

text \<open>The results a client may get for its message.\<close>

definition result_of :: "game_env \<Rightarrow> host \<Rightarrow> client \<Rightarrow> host_msg \<Rightarrow> world \<Rightarrow> u32 set" where
  "result_of E h c msg w =
     (if msg = e_GameJoinAge c
      then range (\<lambda>n. fst (ge_join E n (gh_ageIdx (w_host w h)) (playerId (w_client w c)))) else UNIV)"

lemma result_of_cong:
  "gh_ageIdx (w_host w' h) = gh_ageIdx (w_host w h) \<Longrightarrow> gc_info (w_client w' c) = gc_info (w_client w c) \<Longrightarrow>
   result_of E h c msg w' = result_of E h c msg w"
  by (simp add: result_of_def playerId_def)

text \<open>What a message adds to the queue of a host with the given client table.\<close>

fun adds :: "(u32 \<times> client) list \<Rightarrow> host_msg \<Rightarrow> host_msg list" where
  "adds clients (e_GameDisconnect c) = shutdown_if_empty clients"
| "adds clients _ = []"

lemma host_round:
  assumes "gh_channel (w_host w h) = msg # rest" and "comes_or_goes msg = Some c" and "ready h w"
  shows "\<exists>w' result. dm_gameHost E h w = (Inr (), w') \<and> ready h w'
     \<and> channels w' = (channels w)(c := channels w c @ [result]) \<and> result \<in> result_of E h c msg w
     \<and> undisturbed (w\<lparr>w_host := (w_host w)(h := (w_host w h)\<lparr>gh_channel := rest @ adds (gh_clients (w_host w h)) msg\<rparr>)\<rparr>) w'"
proof -
  define w1 where "w1 = w\<lparr>w_host := (w_host w)(h := (w_host w h)\<lparr>gh_channel := rest\<rparr>)\<rparr>"
  have clean: "clean h (handle E h msg)"
    using assms(2) clean_join clean_disconnect by (auto simp: comes_or_goes_iff)
  obtain w' where w': "dm_gameHost E h w = (Inr (), w')" "ready h w'" "handle E h msg w1 = (Inr (), w')"
    using handled_cleanly [OF assms(1) clean assms(3)] by (auto simp: w1_def)
  have "undisturbed (w\<lparr>w_host := (w_host w)(h := (w_host w h)\<lparr>gh_channel := rest @ adds (gh_clients (w_host w h)) msg\<rparr>)\<rparr>) w'"
  proof (cases "msg = e_GameJoinAge c")
    case True
    then show ?thesis using queue.keepsD [OF queue_join, of w1 E h c] w'(3) by (simp add: w1_def)
  next
    case False
    then have "msg = e_GameDisconnect c" using assms(2) by (simp add: comes_or_goes_iff)
    then show ?thesis using disconnect_queue [of E h c w1 w'] w'(3) by (simp add: w1_def)
  qed
  moreover have "\<exists>result. channels w' = (channels w)(c := channels w c @ [result]) \<and> result \<in> result_of E h c msg w"
  proof (cases "msg = e_GameJoinAge c")
    case True
    then show ?thesis using join_result [of E h c w1 w'] w'(3) by (auto simp: result_of_def w1_def channels_def fun_eq_iff)
  next
    case False
    have "request c msg" using assms(2) by (auto simp: comes_or_goes_iff)
    then show ?thesis using answered_or_stuck [OF assms(1) _ w'(1), of c] False by (auto simp: result_of_def)
  qed
  ultimately show ?thesis using w' by blast
qed

lemma undisturbed_with_queue:
  assumes "undisturbed (w\<lparr>w_host := (w_host w)(h := (w_host w h)\<lparr>gh_channel := q\<rparr>)\<rparr>) w'"
  shows "gh_channel (w_host w' h) = q" "gh_clients (w_host w' h) = gh_clients (w_host w h)"
    "gh_ageIdx (w_host w' h) = gh_ageIdx (w_host w h)" "\<forall>c. gc_info (w_client w' c) = gc_info (w_client w c)"
    "running h w' = running h w"
proof -
  have "gh_channel (w_host w' h) = q \<and> gh_clients (w_host w' h) = gh_clients (w_host w h)
      \<and> gh_ageIdx (w_host w' h) = gh_ageIdx (w_host w h) \<and> running h w' = running h w"
    using assms unfolding undisturbed_def running_def by (elim conjE allE [of _ h]) simp
  then show "gh_channel (w_host w' h) = q" "gh_clients (w_host w' h) = gh_clients (w_host w h)"
    "gh_ageIdx (w_host w' h) = gh_ageIdx (w_host w h)" "running h w' = running h w" by blast+
  show "\<forall>c. gc_info (w_client w' c) = gc_info (w_client w c)" using assms by (simp add: undisturbed_def)
qed

lemma await_line:
  assumes "gh_channel (w_host w h) = ms @ msg # tail" and "\<forall>m \<in> set ms. \<exists>c'. c' \<noteq> c \<and> comes_or_goes m = Some c'"
    and "comes_or_goes msg = Some c" and "ready h w" and "gc_channel (w_client w c) = []" and "length ms < n" and "running h w"
  shows "\<exists>w' result. await n E h c w = (Inr result, w') \<and> result \<in> result_of E h c msg w \<and> ready h w'
     \<and> gc_channel (w_client w' c) = [] \<and> running h w'
     \<and> gh_channel (w_host w' h) = tail @ concat (map (adds (gh_clients (w_host w h))) (ms @ [msg]))
     \<and> gh_clients (w_host w' h) = gh_clients (w_host w h) \<and> (\<forall>c. gc_info (w_client w' c) = gc_info (w_client w c))"
  using assms
proof (induction ms arbitrary: w tail n)
  case Nil
  then obtain m where n: "n = Suc m" by (cases n) auto
  obtain w1 result where w1: "dm_gameHost E h w = (Inr (), w1)" "ready h w1"
      "channels w1 = (channels w)(c := channels w c @ [result])" "result \<in> result_of E h c msg w"
      "undisturbed (w\<lparr>w_host := (w_host w)(h := (w_host w h)\<lparr>gh_channel := tail @ adds (gh_clients (w_host w h)) msg\<rparr>)\<rparr>) w1"
    using host_round [of w h msg tail c E] Nil.prems by auto
  have "gc_channel (w_client w1 c) = [result]"
    using w1(3) Nil.prems(5) by (simp add: channels_def fun_eq_iff)
  then show ?case
    using w1(1,2,4) undisturbed_with_queue [OF w1(5)] Nil.prems(5,7) n
    by (simp add: await.simps [of "Suc m" E h c] await.simps [of m E h c] aclient_def act_simps mod_client_def ready_def running_def)
next
  case (Cons m0 ms)
  then obtain m where n: "n = Suc m" by (cases n) auto
  obtain c' where c': "c' \<noteq> c" "comes_or_goes m0 = Some c'" using Cons.prems(2) by auto
  let ?q = "(ms @ msg # tail) @ adds (gh_clients (w_host w h)) m0"
  obtain w1 result where w1: "dm_gameHost E h w = (Inr (), w1)" "ready h w1"
      "channels w1 = (channels w)(c' := channels w c' @ [result])"
      "undisturbed (w\<lparr>w_host := (w_host w)(h := (w_host w h)\<lparr>gh_channel := ?q\<rparr>)\<rparr>) w1"
    using host_round [of w h m0 "ms @ msg # tail" c' E] Cons.prems c' by auto
  note q = undisturbed_with_queue [OF w1(4)]
  have c: "gc_channel (w_client w1 c) = []"
    using w1(3) c'(1) Cons.prems(5) by (simp add: channels_def fun_eq_iff)
  obtain w2 result where w2: "await m E h c w1 = (Inr result, w2)" "result \<in> result_of E h c msg w1" "ready h w2"
      "gc_channel (w_client w2 c) = []" "running h w2"
      "gh_channel (w_host w2 h) = (tail @ adds (gh_clients (w_host w h)) m0)
         @ concat (map (adds (gh_clients (w_host w1 h))) (ms @ [msg]))"
      "gh_clients (w_host w2 h) = gh_clients (w_host w1 h)" "\<forall>c. gc_info (w_client w2 c) = gc_info (w_client w1 c)"
    using Cons.IH [OF _ _ Cons.prems(3) w1(2) c, of "tail @ adds (gh_clients (w_host w h)) m0" m] q(1,5) Cons.prems(2,6,7) n
    by auto
  have "await n E h c w = await m E h c w1"
    using w1(1) Cons.prems(5,7) n by (simp add: await.simps [of "Suc m" E h c] aclient_def act_simps)
  moreover have "result_of E h c msg w1 = result_of E h c msg w" using q(3,4) by (intro result_of_cong) simp_all
  ultimately show ?case using q w2 by auto
qed

lemma request_line:
  assumes "\<forall>m \<in> set (gh_channel (w_host w h)). \<exists>c'. c' \<noteq> c \<and> comes_or_goes m = Some c'"
    and "comes_or_goes msg = Some c" and "ready h w" and "gc_channel (w_client w c) = []" and "running h w"
  shows "\<exists>w' result. request_host E h c msg w = (Inr result, w') \<and> result \<in> result_of E h c msg w
     \<and> ready h w' \<and> gc_channel (w_client w' c) = [] \<and> running h w'
     \<and> gh_channel (w_host w' h) = concat (map (adds (gh_clients (w_host w h))) (gh_channel (w_host w h) @ [msg]))
     \<and> gh_clients (w_host w' h) = gh_clients (w_host w h) \<and> (\<forall>c. gc_info (w_client w' c) = gc_info (w_client w c))"
proof -
  let ?w = "w\<lparr>w_host := (w_host w)(h := (w_host w h)\<lparr>gh_channel := gh_channel (w_host w h) @ [msg]\<rparr>)\<rparr>"
  have "request_host E h c msg w = await (Suc (length (gh_channel (w_host w h)))) E h c ?w"
    using assms(5) by (simp add: request_host_def put_message_def mod_host_def ahost_def act_simps running_def)
  then show ?thesis
    using await_line [of ?w h "gh_channel (w_host w h)" msg "[]" c "Suc (length (gh_channel (w_host w h)))" E] assms
    by (auto simp: ready_def result_of_def running_def)
qed

section \<open>Joining\<close>

lemma on_world_run: "a (wk_world s) = (r, w) \<Longrightarrow> on_world a s = (r, s\<lparr>wk_world := w\<rparr>)"
  by (simp add: on_world_def)

lemma on_conn_run: "a (wk_conn s) = (r, c) \<Longrightarrow> on_conn a s = (r, s\<lparr>wk_conn := c\<rparr>)"
  by (simp add: on_conn_def)

lemma send_line:
  assumes "stream_cipher S" and "calm_line (c_in c)" and "willing (c_accept c)" and "b \<noteq> []"
  shows "\<exists>c'. CryptSendBuffer S b c = (Inr (), c') \<and> calm_line (c_in c') \<and> willing (c_accept c')
     \<and> unread_plain S c' = unread_plain S c \<and> says S c b c'"
  using answer_line [OF assms(1) crypt.reads_ret [of S "()"] assms(2,3), of "()" "unread_plain S c" "\<lambda>_. b"] assms(4)
  by (simp add: abind_aret)

definition join_read :: "(u32 \<times> u32 \<times> u32) rd" where
  "join_read =
     rbind (recv_value 4) (\<lambda>transId.
     rbind (recv_value 4) (\<lambda>mcpId.
     rbind (recv_bytes 16) (\<lambda>clientId.
     rbind (recv_value 4) (\<lambda>playerId. rret (transId, mcpId, playerId)))))"

lemma join_receive_reads: "crypt.reads S (join_receive S) join_read"
  unfolding join_receive_def join_read_def by (intro crypt_reads reads_CryptRecvValue)

lemma join_read_image:
  "length uuid = 16 \<Longrightarrow>
   join_read (write_u32 transId @ write_u32 mcpId @ uuid @ write_u32 player @ rest) = Inr ((transId, mcpId, player), rest)"
  by (simp add: join_read_def write_u32_def Stream_write_def rd_simps)

lemma enter_table_line:
  assumes "ready h w"
  shows "enter_table h c w = (Inr (), w\<lparr>w_host := (w_host w)(h := (w_host w h)
     \<lparr>gh_clients := AList.update (playerId (w_client w c)) c (gh_clients (w_host w h))\<rparr>)\<rparr>)"
proof -
  have "\<not> gh_clientMutex (w_host w h)" using assms by (simp add: ready_def)
  then show ?thesis
    by (cases "w_host w h") (simp add: enter_table_def lock_clients_def unlock_clients_def mod_host_def aclient_def act_simps)
qed

lemma mod_info_line:
  "mod_info c f w = (Inr (), w\<lparr>w_client := (w_client w)(c := (w_client w c)\<lparr>gc_info := f (gc_info (w_client w c))\<rparr>)\<rparr>)"
  by (simp add: mod_info_def mod_client_def act_simps)

text \<open>
  Everything in \<open>cb_join\<close> after the request was received: the player is known to the vault, the host of the age runs, and the
  messages in its queue are arrivals and departures of other clients.
\<close>

lemma join_host_line:
  assumes S: "stream_cipher (sv_ssl V)" and conn: "calm_line (c_in (wk_conn s))" "willing (c_accept (wk_conn s))"
    and player: "sv_player V (w_calls (wk_world s)) (playerId (w_client (wk_world s) c)) = (0, name)"
    and ready: "ready h (wk_world s)" "running h (wk_world s)" and idle: "gc_channel (w_client (wk_world s) c) = []"
    and queue: "\<forall>m \<in> set (gh_channel (w_host (wk_world s) h)). \<exists>c'. c' \<noteq> c \<and> comes_or_goes m = Some c'"
  shows "\<exists>s' result. join_host V c transId h s = (Inr (), s') \<and> wk_host s' = wk_host s
     \<and> result \<in> result_of (sv_game V) h c (e_GameJoinAge c) (wk_world s)
     \<and> says (sv_ssl V) (wk_conn s) (join_reply transId result) (wk_conn s')
     \<and> unread_plain (sv_ssl V) (wk_conn s') = unread_plain (sv_ssl V) (wk_conn s)
     \<and> ready h (wk_world s') \<and> running h (wk_world s') \<and> gc_channel (w_client (wk_world s') c) = []
     \<and> gh_clients (w_host (wk_world s') h) =
          AList.update (playerId (w_client (wk_world s) c)) c (gh_clients (w_host (wk_world s) h))
     \<and> gh_channel (w_host (wk_world s') h) =
          concat (map (adds (gh_clients (w_host (wk_world s) h))) (gh_channel (w_host (wk_world s) h)))
     \<and> playerId (w_client (wk_world s') c) = playerId (w_client (wk_world s) c)
     \<and> cg_PlayerName (gc_info (w_client (wk_world s') c)) = name"
proof -
  let ?w = "wk_world s" and ?S = "sv_ssl V"
  define w1 where "w1 = ?w\<lparr>w_calls := Suc (w_calls ?w)\<rparr>"
  define w2 where "w2 = snd (mod_info c (set_CCRLevel 0 \<circ> set_PlayerName name) w1)"
  have w2: "ready h w2" "running h w2" "gc_channel (w_client w2 c) = []" "gh_channel (w_host w2 h) = gh_channel (w_host ?w h)"
      "gh_clients (w_host w2 h) = gh_clients (w_host ?w h)"
      "playerId (w_client w2 c) = playerId (w_client ?w c)" "cg_PlayerName (gc_info (w_client w2 c)) = name"
    using ready idle
    by (simp_all add: w2_def w1_def mod_info_line ready_def running_def playerId_def set_CCRLevel_def set_PlayerName_def)
  obtain w3 result where w3: "request_host (sv_game V) h c (e_GameJoinAge c) w2 = (Inr result, w3)" "ready h w3" "running h w3"
      "result \<in> result_of (sv_game V) h c (e_GameJoinAge c) w2"
      "gc_channel (w_client w3 c) = []" "\<forall>c. gc_info (w_client w3 c) = gc_info (w_client w2 c)"
      "gh_channel (w_host w3 h) = concat (map (adds (gh_clients (w_host ?w h))) (gh_channel (w_host ?w h)))"
      "gh_clients (w_host w3 h) = gh_clients (w_host ?w h)"
    using request_line [of w2 h c "e_GameJoinAge c" "sv_game V"] w2 queue by auto
  obtain c1 where c1: "CryptSendBuffer ?S (join_reply transId result) (wk_conn s) = (Inr (), c1)"
      "unread_plain ?S c1 = unread_plain ?S (wk_conn s)" "says ?S (wk_conn s) (join_reply transId result) c1"
    using send_line [OF S conn, of "join_reply transId result"]
    by (auto simp: join_reply_def write_u16_def Stream_write_def le_bytes_def)
  have "playerId (w_client w3 c) = playerId (w_client ?w c)" "cg_PlayerName (gc_info (w_client w3 c)) = name"
    using w2(6,7) w3(6) by (simp_all add: playerId_def)
  moreover have "result \<in> result_of (sv_game V) h c (e_GameJoinAge c) ?w"
    using w3(4) w2(6) by (simp add: result_of_def w2_def w1_def mod_info_line)
  moreover have "abind (aclient c) (\<lambda>k. acall (\<lambda>n. sv_player V n (playerId k))) ?w = (Inr (0, name), w1)"
    using player by (simp add: aclient_def acall_def act_simps w1_def)
  moreover have "mod_info c (set_CCRLevel 0 \<circ> set_PlayerName name) w1 = (Inr (), w2)" by (simp add: w2_def mod_info_line)
  ultimately show ?thesis
    using w3 c1 enter_table_line [OF w3(2), of c]
    by (auto simp: join_host_def game_send_def on_world_run on_conn_run act_simps ready_def running_def)
qed

lemma cb_join_line:
  assumes "stream_cipher (sv_ssl V)" and "calm_line (c_in (wk_conn s))" and "willing (c_accept (wk_conn s))"
    and "unread_plain (sv_ssl V) (wk_conn s) = write_u32 transId @ write_u32 mcpId @ uuid @ write_u32 player @ rest"
    and "length uuid = 16" and "player \<noteq> 0" and "map_of (w_gameHosts (wk_world s)) mcpId = Some h"
    and "sv_player V (w_calls (wk_world s)) player = (0, name)"
    and "ready h (wk_world s)" and "running h (wk_world s)" and "gc_channel (w_client (wk_world s) c) = []"
    and "\<forall>m \<in> set (gh_channel (w_host (wk_world s) h)). \<exists>c'. c' \<noteq> c \<and> comes_or_goes m = Some c'"
  shows "\<exists>s' result. cb_join V c s = (Inr (), s') \<and> wk_host s' = Some h
     \<and> (\<exists>n. result = fst (ge_join (sv_game V) n (gh_ageIdx (w_host (wk_world s) h)) player))
     \<and> says (sv_ssl V) (wk_conn s) (join_reply transId result) (wk_conn s')
     \<and> unread_plain (sv_ssl V) (wk_conn s') = rest \<and> ready h (wk_world s') \<and> running h (wk_world s')
     \<and> gc_channel (w_client (wk_world s') c) = []
     \<and> gh_clients (w_host (wk_world s') h) = AList.update player c (gh_clients (w_host (wk_world s) h))
     \<and> gh_channel (w_host (wk_world s') h) =
          concat (map (adds (gh_clients (w_host (wk_world s) h))) (gh_channel (w_host (wk_world s) h)))
     \<and> playerId (w_client (wk_world s') c) = player \<and> cg_PlayerName (gc_info (w_client (wk_world s') c)) = name"
proof -
  let ?S = "sv_ssl V"
  obtain c1 where c1: "join_receive ?S (wk_conn s) = (Inr (transId, mcpId, player), c1)" "calm_line (c_in c1)"
      "unread_plain ?S c1 = rest"
      "(c_accept c1, c_out c1, map_option snd (c_crypt c1))
         = (c_accept (wk_conn s), c_out (wk_conn s), map_option snd (c_crypt (wk_conn s)))"
    using crypt.reads_Inr [OF join_receive_reads, of ?S "wk_conn s" "(transId, mcpId, player)" rest]
      assms(1,2,4) join_read_image [OF assms(5)] by metis
  define w1 where "w1 = snd (mod_info c (set_PlayerId player) (wk_world s))"
  define s1 where "s1 = s\<lparr>wk_conn := c1, wk_world := w1, wk_host := Some h\<rparr>"
  have w1: "playerId (w_client w1 c) = player" "w_calls w1 = w_calls (wk_world s)" "ready h w1" "running h w1" "gc_channel (w_client w1 c) = []"
      "w_host w1 = w_host (wk_world s)" "w_gameHosts w1 = w_gameHosts (wk_world s)"
    using assms(9-11) by (simp_all add: w1_def mod_info_line playerId_def set_PlayerId_def ready_def running_def)
  have "cb_join V c s = join_host V c transId h s1"
    using c1(1) assms(6,7) w1(7)
    by (simp add: cb_join_def on_conn_run on_world_run mod_info_line [of c] act_simps find_game_host_def w1_def s1_def)
  moreover have "\<exists>s' result. join_host V c transId h s1 = (Inr (), s') \<and> wk_host s' = wk_host s1
     \<and> result \<in> result_of (sv_game V) h c (e_GameJoinAge c) (wk_world s1)
     \<and> says ?S (wk_conn s1) (join_reply transId result) (wk_conn s')
     \<and> unread_plain ?S (wk_conn s') = unread_plain ?S (wk_conn s1)
     \<and> ready h (wk_world s') \<and> running h (wk_world s') \<and> gc_channel (w_client (wk_world s') c) = []
     \<and> gh_clients (w_host (wk_world s') h) =
          AList.update (playerId (w_client (wk_world s1) c)) c (gh_clients (w_host (wk_world s1) h))
     \<and> gh_channel (w_host (wk_world s') h) =
          concat (map (adds (gh_clients (w_host (wk_world s1) h))) (gh_channel (w_host (wk_world s1) h)))
     \<and> playerId (w_client (wk_world s') c) = playerId (w_client (wk_world s1) c)
     \<and> cg_PlayerName (gc_info (w_client (wk_world s') c)) = name"
    by (rule join_host_line [OF assms(1)]) (use c1(2,4) w1 assms(3,8,12) in \<open>simp_all add: s1_def\<close>)
  ultimately show ?thesis using c1(3) w1(1,6) says_other [OF c1(4)] by (auto simp: s1_def result_of_def)
qed

section \<open>Properties\<close>

lemma adds_nothing:
  assumes "\<And>c. clients = [] \<Longrightarrow> e_GameDisconnect c \<notin> set ms"
  shows "concat (map (adds clients) ms) = []"
proof -
  have "adds clients m = []" if "m \<in> set ms" for m using assms that by (cases m) (auto simp: shutdown_if_empty_def)
  then show ?thesis by simp
qed

text \<open>
  C13: a player joins an age. Whatever the pieces in which the request arrives, if the thread of the host of the age runs, the
  vault knows the player, the messages waiting for the host are arrivals and departures of other clients, and no departure
  leaves the age empty, then the request returns: the client is sent one reply with the result of the authentication
  daemon, its name is the one in the vault, its entry is in the table of the host, the thread of the host still runs, and nothing
  is left in the channels of the host and of the client.
\<close>

theorem join_completes:
  assumes "stream_cipher (sv_ssl V)" and "calm_line (c_in (wk_conn s))" and "willing (c_accept (wk_conn s))"
    and "unread_plain (sv_ssl V) (wk_conn s) = write_u32 transId @ write_u32 mcpId @ uuid @ write_u32 player @ rest"
    and "length uuid = 16" and "player \<noteq> 0" and "map_of (w_gameHosts (wk_world s)) mcpId = Some h"
    and "sv_player V (w_calls (wk_world s)) player = (0, name)"
    and "ready h (wk_world s)" and "running h (wk_world s)" and "gc_channel (w_client (wk_world s) c) = []"
    and "\<forall>m \<in> set (gh_channel (w_host (wk_world s) h)). \<exists>c'. c' \<noteq> c \<and> comes_or_goes m = Some c'"
    and "gh_clients (w_host (wk_world s) h) = [] \<longrightarrow> (\<forall>c'. e_GameDisconnect c' \<notin> set (gh_channel (w_host (wk_world s) h)))"
  shows "\<exists>s' result. cb_join V c s = (Inr (), s') \<and> wk_host s' = Some h
     \<and> (\<exists>n. result = fst (ge_join (sv_game V) n (gh_ageIdx (w_host (wk_world s) h)) player))
     \<and> says (sv_ssl V) (wk_conn s) (join_reply transId result) (wk_conn s')
     \<and> unread_plain (sv_ssl V) (wk_conn s') = rest \<and> ready h (wk_world s') \<and> running h (wk_world s')
     \<and> gh_channel (w_host (wk_world s') h) = [] \<and> gc_channel (w_client (wk_world s') c) = []
     \<and> map_of (gh_clients (w_host (wk_world s') h)) player = Some c
     \<and> playerId (w_client (wk_world s') c) = player \<and> cg_PlayerName (gc_info (w_client (wk_world s') c)) = name"
proof -
  have "map_of (AList.update player c (gh_clients (w_host (wk_world s) h))) player = Some c"
    by (simp add: AList.update_conv')
  moreover have "concat (map (adds (gh_clients (w_host (wk_world s) h))) (gh_channel (w_host (wk_world s) h))) = []"
    using assms(13) by (intro adds_nothing) auto
  ultimately show ?thesis using cb_join_line [OF assms(1-12)] by metis
qed

text \<open>
  C35: a player who joins while the last one leaves. The thread of the host runs, and the departure of the
  last player is still in the queue when the request to join is put behind it; the host then queues its own shutdown, since the newcomer is not in the
  table yet, and answers the newcomer, who is told the result of the daemon and entered in the table: with the
  next message the host closes the connection of the newcomer and deletes itself, while the table still has the
  newcomer and the worker of the newcomer still points to it.
\<close>

theorem join_races_shutdown:
  assumes "stream_cipher (sv_ssl V)" and "calm_line (c_in (wk_conn s))" and "willing (c_accept (wk_conn s))"
    and "unread_plain (sv_ssl V) (wk_conn s) = write_u32 transId @ write_u32 mcpId @ uuid @ write_u32 player @ rest"
    and "length uuid = 16" and "player \<noteq> 0" and "map_of (w_gameHosts (wk_world s)) mcpId = Some h"
    and "sv_player V (w_calls (wk_world s)) player = (0, name)"
    and "ready h (wk_world s)" and "running h (wk_world s)" and "gc_channel (w_client (wk_world s) c) = []"
    and "gh_channel (w_host (wk_world s) h) = [e_GameDisconnect c']" and "c' \<noteq> c"
    and "gh_clients (w_host (wk_world s) h) = []"
  shows "\<exists>s' result w. cb_join V c s = (Inr (), s') \<and> wk_host s' = Some h
     \<and> says (sv_ssl V) (wk_conn s) (join_reply transId result) (wk_conn s')
     \<and> dm_gameHost (sv_game V) h (wk_world s') = (Inr (), w)
     \<and> \<not> gh_alive (w_host w h) \<and> gh_clients (w_host w h) = [(player, c)] \<and> gc_closed (w_client w c)"
proof -
  have "\<forall>m \<in> set (gh_channel (w_host (wk_world s) h)). \<exists>c'. c' \<noteq> c \<and> comes_or_goes m = Some c'"
    using assms(12,13) by simp
  then obtain s' result where s': "cb_join V c s = (Inr (), s')" "wk_host s' = Some h"
      "says (sv_ssl V) (wk_conn s) (join_reply transId result) (wk_conn s')" "ready h (wk_world s')"
      "gh_clients (w_host (wk_world s') h) = [(player, c)]" "gh_channel (w_host (wk_world s') h) = [e_GameShutdown]"
    using cb_join_line [OF assms(1-11)] assms(12,14) by (auto simp: shutdown_if_empty_def)
  have "\<exists>w. dm_gameHost (sv_game V) h (wk_world s') = (Inr (), w)
     \<and> \<not> gh_alive (w_host w h) \<and> gh_clients (w_host w h) = [(player, c)] \<and> gc_closed (w_client w c)"
    using s'(4-6)
    by (cases "gh_temp (w_host (wk_world s') h)")
       (simp_all add: dm_gameHost_def dm_game_shutdown_def close_clients_def ready_def ahost_def mod_host_def mod_client_def
        lock_guard_def lock_clients_def unlock_clients_def act_simps acatch_def acatch_if_def awhen_def)
  then show ?thesis using s'(1-3) by blast
qed

text \<open>
  An age that cannot be started. When the key of a stored state of the age cannot be decoded, the new host is
  already in the table of hosts: the player is refused, but the host stays in the table without a thread, every later
  player of the age is sent to it, and a client that sends it a request waits for ever.
\<close>

theorem failed_start_leaves_host:
  assumes "map_of (w_gameHosts (wk_world s)) mcpId = None" and "\<And>n. sv_connect V n"
    and "\<And>n. sv_servers V n mcpId = Some ((name, ageIdx, sdlIdx, temp) # rows)"
    and "\<And>n. sv_fetchSdl V n name sdlIdx = (0, node, global, [])"
    and "FindLatestDescriptor (se_fold (ge_sdl (sv_game V))) (se_db (ge_sdl (sv_game V))) name = None"
    and "\<And>n. sv_ageStates V n mcpId = Some ((descriptor, objectKey, sdlBlob) # states)"
    and "sv_unbase64 V objectKey = Inr key" and "sv_unbase64 V sdlBlob = Inr blob"
    and "Uoid_read (game_lib (sv_game V)) key = Inl e" and "ds_exception e" and "wk_fresh s \<notin> set (w_threads (wk_world s))"
  shows "\<exists>s'. find_game_host V mcpId s = (Inr None, s')
     \<and> \<not> running (wk_fresh s) (wk_world s') \<and> gh_alive (w_host (wk_world s') (wk_fresh s))
     \<and> find_game_host V mcpId s' = (Inr (Some (wk_fresh s)), s')"
  using assms
  by (simp add: find_game_host_def start_game_host_def run_host_def load_local_def merge_hook_def register_host_def
      fetch_states_def load_state_def from_blob_def State_FromBlob_def new_host_def on_world_def acall_def ahost_def
      mod_host_def act_simps acatch_def acatch_if_def AList.update_conv' comp_def Let_def running_def)

lemma waits_for_ever:
  assumes "\<not> running h w" and "gh_alive (w_host w h)" and "gc_channel (w_client w c) = []"
  shows "fst (request_host E h c msg w) = Inl Blocked"
  using assms
  by (simp add: request_host_def put_message_def mod_host_def ahost_def aclient_def act_simps running_def
      await.simps [of "Suc n" for n])

section \<open>A player and an age\<close>

definition sample_server :: "rc4_key server_env" where
  "sample_server =
     \<lparr>sv_game = sample_genv, sv_keys = sample_keys, sv_connect = (\<lambda>_. True),
      sv_servers = (\<lambda>_ _. Some [([66], 5, 6, False)]), sv_fetchSdl = (\<lambda>_ _ _. (0, 6, NullState, [])),
      sv_ageStates = (\<lambda>_ _. Some [([67], [], [])]), sv_unbase64 = Inr, sv_player = (\<lambda>_ _. (0, [80, 49]))\<rparr>"

text \<open>An unencrypted connection on which a request to join age 1 as player 101 has arrived.\<close>

definition sample_worker :: "(u32 \<times> client) list \<Rightarrow> host_msg list \<Rightarrow> rc4_key worker" where
  "sample_worker clients msgs =
     \<lparr>wk_world = sample_game_world clients msgs,
      wk_conn = sample_conn [Arrived (write_u32 7 @ write_u32 1), Interrupted, Arrived (replicate 16 3 @ write_u32 101)],
      wk_host = None, wk_fresh = 1\<rparr>"

lemma sample_worker_simps:
  "stream_cipher (sv_ssl sample_server)"
  "calm_line (c_in (wk_conn (sample_worker clients msgs)))"
  "willing (c_accept (wk_conn (sample_worker clients msgs)))"
  "unread_plain (sv_ssl sample_server) (wk_conn (sample_worker clients msgs)) =
     write_u32 7 @ write_u32 1 @ replicate 16 3 @ write_u32 101 @ []"
  "map_of (w_gameHosts (wk_world (sample_worker clients msgs))) 1 = Some 0"
  "sv_player sample_server (w_calls (wk_world (sample_worker clients msgs))) 101 = (0, [80, 49])"
  "ready 0 (wk_world (sample_worker clients msgs))"
  "running 0 (wk_world (sample_worker clients msgs))"
  "gc_channel (w_client (wk_world (sample_worker clients msgs)) 1) = []"
  "gh_channel (w_host (wk_world (sample_worker clients msgs)) 0) = msgs"
  "gh_clients (w_host (wk_world (sample_worker clients msgs)) 0) = clients"
  using openssl_stream_cipher sample_game_ready [of 0 clients msgs]
  by (simp_all add: sample_server_def sample_keys_def sample_worker_def sample_conn_def unread_plain_def
      sample_game_world_def sample_age_def sample_player_def running_def write_u32_def Stream_write_def le_bytes_def)

theorem join_completes_witness:
  "let s = sample_worker [(100, 0)] [e_GameDisconnect 2]
   in \<exists>s' result. cb_join sample_server 1 s = (Inr (), s') \<and> wk_host s' = Some 0
     \<and> says (sv_ssl sample_server) (wk_conn s) (join_reply 7 result) (wk_conn s')
     \<and> running 0 (wk_world s') \<and> gh_channel (w_host (wk_world s') 0) = []
     \<and> map_of (gh_clients (w_host (wk_world s') 0)) 101 = Some 1"
proof -
  let ?s = "sample_worker [(100, 0)] [e_GameDisconnect 2]"
  have "\<exists>s' result. cb_join sample_server 1 ?s = (Inr (), s') \<and> wk_host s' = Some 0
     \<and> (\<exists>n. result = fst (ge_join (sv_game sample_server) n (gh_ageIdx (w_host (wk_world ?s) 0)) 101))
     \<and> says (sv_ssl sample_server) (wk_conn ?s) (join_reply 7 result) (wk_conn s')
     \<and> unread_plain (sv_ssl sample_server) (wk_conn s') = [] \<and> ready 0 (wk_world s') \<and> running 0 (wk_world s')
     \<and> gh_channel (w_host (wk_world s') 0) = [] \<and> gc_channel (w_client (wk_world s') 1) = []
     \<and> map_of (gh_clients (w_host (wk_world s') 0)) 101 = Some 1
     \<and> playerId (w_client (wk_world s') 1) = 101 \<and> cg_PlayerName (gc_info (w_client (wk_world s') 1)) = [80, 49]"
    by (rule join_completes [OF sample_worker_simps(1-4) _ _ sample_worker_simps(5-9)])
       (simp_all add: sample_worker_simps(10,11))
  then show ?thesis unfolding Let_def by blast
qed

theorem join_races_shutdown_witness:
  "let s = sample_worker [] [e_GameDisconnect 2]
   in \<exists>s' result w. cb_join sample_server 1 s = (Inr (), s') \<and> wk_host s' = Some 0
     \<and> says (sv_ssl sample_server) (wk_conn s) (join_reply 7 result) (wk_conn s')
     \<and> dm_gameHost (sv_game sample_server) 0 (wk_world s') = (Inr (), w)
     \<and> \<not> gh_alive (w_host w 0) \<and> gh_clients (w_host w 0) = [(101, 1)] \<and> gc_closed (w_client w 1)"
  unfolding Let_def
  by (rule join_races_shutdown [OF sample_worker_simps(1-4) _ _ sample_worker_simps(5-10) _ sample_worker_simps(11)]) simp_all

theorem failed_start_leaves_host_witness:
  "\<exists>s'. find_game_host sample_server 2 (sample_worker [] []) = (Inr None, s')
     \<and> \<not> running 1 (wk_world s') \<and> gh_alive (w_host (wk_world s') 1) \<and> find_game_host sample_server 2 s' = (Inr (Some 1), s')"
proof -
  have fresh: "wk_fresh (sample_worker [] []) = 1" by (simp add: sample_worker_def)
  have e: "Uoid_read (game_lib (sv_game sample_server)) [] = Inl EofException"
    by (simp add: Uoid_read_def read_u8_def Stream_read_def Stream_readBytes_def rbind_def rret_def rfail_def)
  have none: "FindLatestDescriptor (se_fold (ge_sdl (sv_game sample_server))) (se_db (ge_sdl (sv_game sample_server))) [66] = None"
    by code_simp
  show ?thesis
    unfolding fresh [symmetric]
    by (rule failed_start_leaves_host [OF _ _ _ _ none _ _ _ e, where ageIdx = 5 and sdlIdx = 6 and temp = False and rows = "[]"])
       (simp_all add: sample_worker_def sample_game_world_def sample_server_def)
qed

end
