(* ===== verification/Vault_Nodes.thy ===== *)
theory Vault_Nodes
  imports Wire_Types
begin

unbundle bit_operations_syntax

text \<open>
  The nodes of the vault, \<open>AuthServ/VaultTypes.cpp\<close>: a record of optional fields with a bit for each, and its image on
  the wire. A field whose bit is not set is neither written nor read; in a node that is read into, it stays as it was.
\<close>

section \<open>Strings and blobs\<close>

text \<open>
  \<open>READ_VAULT_STRING\<close> and \<open>WRITE_VAULT_STRING\<close>: the length counts octets and includes a terminator, which the
  reader does not take off.
\<close>

definition vault_read_string :: "ext_lib \<Rightarrow> st_string rd" where
  "vault_read_string L =
     rbind read_u32 (\<lambda>length'.
     if length' mod 2 \<noteq> 0 then rfail MalformedData
     else rbind (read_array (map (uninit L) [0..<unat length'])) (\<lambda>buffer. rret (from_utf16 L (u16s buffer))))"

definition vault_write_string :: "ext_lib \<Rightarrow> st_string \<Rightarrow> bytes" where
  "vault_write_string L value =
     (let wbuf = to_utf16 L value
      in write_u32 (of_nat ((length wbuf + 1) * 2)) @ u16s_bytes wbuf @ write_u16 0)"

definition vault_read_blob :: "ext_lib \<Rightarrow> bytes rd" where
  "vault_read_blob L = rbind read_u32 (\<lambda>sz. read_array (map (uninit L) [0..<unat sz]))"

definition vault_write_blob :: "bytes \<Rightarrow> bytes" where
  "vault_write_blob blob = write_u32 (of_nat (length blob)) @ blob"

section \<open>Nodes\<close>

record Node =
  vn_fields :: u64
  vn_NodeIdx :: u32
  vn_CreateTime :: u32
  vn_ModifyTime :: u32
  vn_CreateAgeName :: st_string
  vn_CreateAgeUuid :: Uuid
  vn_CreatorUuid :: Uuid
  vn_CreatorIdx :: u32
  vn_NodeType :: u32
  vn_Int32_1 :: u32
  vn_Int32_2 :: u32
  vn_Int32_3 :: u32
  vn_Int32_4 :: u32
  vn_Uint32_1 :: u32
  vn_Uint32_2 :: u32
  vn_Uint32_3 :: u32
  vn_Uint32_4 :: u32
  vn_Uuid_1 :: Uuid
  vn_Uuid_2 :: Uuid
  vn_Uuid_3 :: Uuid
  vn_Uuid_4 :: Uuid
  vn_String64_1 :: st_string
  vn_String64_2 :: st_string
  vn_String64_3 :: st_string
  vn_String64_4 :: st_string
  vn_String64_5 :: st_string
  vn_String64_6 :: st_string
  vn_IString64_1 :: st_string
  vn_IString64_2 :: st_string
  vn_Text_1 :: st_string
  vn_Text_2 :: st_string
  vn_Blob_1 :: bytes
  vn_Blob_2 :: bytes

definition Node_read :: "ext_lib \<Rightarrow> Node \<Rightarrow> Node rd" where
  "Node_read L old =
     rbind read_u64 (\<lambda>fields.
     rbind (if bit fields 0 then read_u32 else rret (vn_NodeIdx old)) (\<lambda>NodeIdx.
     rbind (if bit fields 1 then read_u32 else rret (vn_CreateTime old)) (\<lambda>CreateTime.
     rbind (if bit fields 2 then read_u32 else rret (vn_ModifyTime old)) (\<lambda>ModifyTime.
     rbind (if bit fields 3 then vault_read_string L else rret (vn_CreateAgeName old)) (\<lambda>CreateAgeName.
     rbind (if bit fields 4 then Uuid_read (vn_CreateAgeUuid old) else rret (vn_CreateAgeUuid old)) (\<lambda>CreateAgeUuid.
     rbind (if bit fields 5 then Uuid_read (vn_CreatorUuid old) else rret (vn_CreatorUuid old)) (\<lambda>CreatorUuid.
     rbind (if bit fields 6 then read_u32 else rret (vn_CreatorIdx old)) (\<lambda>CreatorIdx.
     rbind (if bit fields 7 then read_u32 else rret (vn_NodeType old)) (\<lambda>NodeType.
     rbind (if bit fields 8 then read_u32 else rret (vn_Int32_1 old)) (\<lambda>Int32_1.
     rbind (if bit fields 9 then read_u32 else rret (vn_Int32_2 old)) (\<lambda>Int32_2.
     rbind (if bit fields 10 then read_u32 else rret (vn_Int32_3 old)) (\<lambda>Int32_3.
     rbind (if bit fields 11 then read_u32 else rret (vn_Int32_4 old)) (\<lambda>Int32_4.
     rbind (if bit fields 12 then read_u32 else rret (vn_Uint32_1 old)) (\<lambda>Uint32_1.
     rbind (if bit fields 13 then read_u32 else rret (vn_Uint32_2 old)) (\<lambda>Uint32_2.
     rbind (if bit fields 14 then read_u32 else rret (vn_Uint32_3 old)) (\<lambda>Uint32_3.
     rbind (if bit fields 15 then read_u32 else rret (vn_Uint32_4 old)) (\<lambda>Uint32_4.
     rbind (if bit fields 16 then Uuid_read (vn_Uuid_1 old) else rret (vn_Uuid_1 old)) (\<lambda>Uuid_1.
     rbind (if bit fields 17 then Uuid_read (vn_Uuid_2 old) else rret (vn_Uuid_2 old)) (\<lambda>Uuid_2.
     rbind (if bit fields 18 then Uuid_read (vn_Uuid_3 old) else rret (vn_Uuid_3 old)) (\<lambda>Uuid_3.
     rbind (if bit fields 19 then Uuid_read (vn_Uuid_4 old) else rret (vn_Uuid_4 old)) (\<lambda>Uuid_4.
     rbind (if bit fields 20 then vault_read_string L else rret (vn_String64_1 old)) (\<lambda>String64_1.
     rbind (if bit fields 21 then vault_read_string L else rret (vn_String64_2 old)) (\<lambda>String64_2.
     rbind (if bit fields 22 then vault_read_string L else rret (vn_String64_3 old)) (\<lambda>String64_3.
     rbind (if bit fields 23 then vault_read_string L else rret (vn_String64_4 old)) (\<lambda>String64_4.
     rbind (if bit fields 24 then vault_read_string L else rret (vn_String64_5 old)) (\<lambda>String64_5.
     rbind (if bit fields 25 then vault_read_string L else rret (vn_String64_6 old)) (\<lambda>String64_6.
     rbind (if bit fields 26 then vault_read_string L else rret (vn_IString64_1 old)) (\<lambda>IString64_1.
     rbind (if bit fields 27 then vault_read_string L else rret (vn_IString64_2 old)) (\<lambda>IString64_2.
     rbind (if bit fields 28 then vault_read_string L else rret (vn_Text_1 old)) (\<lambda>Text_1.
     rbind (if bit fields 29 then vault_read_string L else rret (vn_Text_2 old)) (\<lambda>Text_2.
     rbind (if bit fields 30 then vault_read_blob L else rret (vn_Blob_1 old)) (\<lambda>Blob_1.
     rbind (if bit fields 31 then vault_read_blob L else rret (vn_Blob_2 old)) (\<lambda>Blob_2.
     rret \<lparr>vn_fields = fields, vn_NodeIdx = NodeIdx, vn_CreateTime = CreateTime, vn_ModifyTime = ModifyTime,
       vn_CreateAgeName = CreateAgeName, vn_CreateAgeUuid = CreateAgeUuid, vn_CreatorUuid = CreatorUuid,
       vn_CreatorIdx = CreatorIdx, vn_NodeType = NodeType, vn_Int32_1 = Int32_1, vn_Int32_2 = Int32_2,
       vn_Int32_3 = Int32_3, vn_Int32_4 = Int32_4, vn_Uint32_1 = Uint32_1, vn_Uint32_2 = Uint32_2,
       vn_Uint32_3 = Uint32_3, vn_Uint32_4 = Uint32_4, vn_Uuid_1 = Uuid_1, vn_Uuid_2 = Uuid_2, vn_Uuid_3 = Uuid_3,
       vn_Uuid_4 = Uuid_4, vn_String64_1 = String64_1, vn_String64_2 = String64_2, vn_String64_3 = String64_3,
       vn_String64_4 = String64_4, vn_String64_5 = String64_5, vn_String64_6 = String64_6,
       vn_IString64_1 = IString64_1, vn_IString64_2 = IString64_2, vn_Text_1 = Text_1, vn_Text_2 = Text_2,
       vn_Blob_1 = Blob_1, vn_Blob_2 = Blob_2\<rparr>)))))))))))))))))))))))))))))))))"

definition Node_write :: "ext_lib \<Rightarrow> Node \<Rightarrow> bytes" where
  "Node_write L n =
     write_u64 (vn_fields n)
     @ (if bit (vn_fields n) 0 then write_u32 (vn_NodeIdx n) else [])
     @ (if bit (vn_fields n) 1 then write_u32 (vn_CreateTime n) else [])
     @ (if bit (vn_fields n) 2 then write_u32 (vn_ModifyTime n) else [])
     @ (if bit (vn_fields n) 3 then vault_write_string L (vn_CreateAgeName n) else [])
     @ (if bit (vn_fields n) 4 then Uuid_write (vn_CreateAgeUuid n) else [])
     @ (if bit (vn_fields n) 5 then Uuid_write (vn_CreatorUuid n) else [])
     @ (if bit (vn_fields n) 6 then write_u32 (vn_CreatorIdx n) else [])
     @ (if bit (vn_fields n) 7 then write_u32 (vn_NodeType n) else [])
     @ (if bit (vn_fields n) 8 then write_u32 (vn_Int32_1 n) else [])
     @ (if bit (vn_fields n) 9 then write_u32 (vn_Int32_2 n) else [])
     @ (if bit (vn_fields n) 10 then write_u32 (vn_Int32_3 n) else [])
     @ (if bit (vn_fields n) 11 then write_u32 (vn_Int32_4 n) else [])
     @ (if bit (vn_fields n) 12 then write_u32 (vn_Uint32_1 n) else [])
     @ (if bit (vn_fields n) 13 then write_u32 (vn_Uint32_2 n) else [])
     @ (if bit (vn_fields n) 14 then write_u32 (vn_Uint32_3 n) else [])
     @ (if bit (vn_fields n) 15 then write_u32 (vn_Uint32_4 n) else [])
     @ (if bit (vn_fields n) 16 then Uuid_write (vn_Uuid_1 n) else [])
     @ (if bit (vn_fields n) 17 then Uuid_write (vn_Uuid_2 n) else [])
     @ (if bit (vn_fields n) 18 then Uuid_write (vn_Uuid_3 n) else [])
     @ (if bit (vn_fields n) 19 then Uuid_write (vn_Uuid_4 n) else [])
     @ (if bit (vn_fields n) 20 then vault_write_string L (vn_String64_1 n) else [])
     @ (if bit (vn_fields n) 21 then vault_write_string L (vn_String64_2 n) else [])
     @ (if bit (vn_fields n) 22 then vault_write_string L (vn_String64_3 n) else [])
     @ (if bit (vn_fields n) 23 then vault_write_string L (vn_String64_4 n) else [])
     @ (if bit (vn_fields n) 24 then vault_write_string L (vn_String64_5 n) else [])
     @ (if bit (vn_fields n) 25 then vault_write_string L (vn_String64_6 n) else [])
     @ (if bit (vn_fields n) 26 then vault_write_string L (vn_IString64_1 n) else [])
     @ (if bit (vn_fields n) 27 then vault_write_string L (vn_IString64_2 n) else [])
     @ (if bit (vn_fields n) 28 then vault_write_string L (vn_Text_1 n) else [])
     @ (if bit (vn_fields n) 29 then vault_write_string L (vn_Text_2 n) else [])
     @ (if bit (vn_fields n) 30 then vault_write_blob (vn_Blob_1 n) else [])
     @ (if bit (vn_fields n) 31 then vault_write_blob (vn_Blob_2 n) else [])"

definition Node_copy :: "Node \<Rightarrow> Node \<Rightarrow> Node" where
  "Node_copy fresh n =
     \<lparr>vn_fields = vn_fields n,
      vn_NodeIdx = (if bit (vn_fields n) 0 then vn_NodeIdx n else vn_NodeIdx fresh),
      vn_CreateTime = (if bit (vn_fields n) 1 then vn_CreateTime n else vn_CreateTime fresh),
      vn_ModifyTime = (if bit (vn_fields n) 2 then vn_ModifyTime n else vn_ModifyTime fresh),
      vn_CreateAgeName = (if bit (vn_fields n) 3 then vn_CreateAgeName n else vn_CreateAgeName fresh),
      vn_CreateAgeUuid = (if bit (vn_fields n) 4 then vn_CreateAgeUuid n else vn_CreateAgeUuid fresh),
      vn_CreatorUuid = (if bit (vn_fields n) 5 then vn_CreatorUuid n else vn_CreatorUuid fresh),
      vn_CreatorIdx = (if bit (vn_fields n) 6 then vn_CreatorIdx n else vn_CreatorIdx fresh),
      vn_NodeType = (if bit (vn_fields n) 7 then vn_NodeType n else vn_NodeType fresh),
      vn_Int32_1 = (if bit (vn_fields n) 8 then vn_Int32_1 n else vn_Int32_1 fresh),
      vn_Int32_2 = (if bit (vn_fields n) 9 then vn_Int32_2 n else vn_Int32_2 fresh),
      vn_Int32_3 = (if bit (vn_fields n) 10 then vn_Int32_3 n else vn_Int32_3 fresh),
      vn_Int32_4 = (if bit (vn_fields n) 11 then vn_Int32_4 n else vn_Int32_4 fresh),
      vn_Uint32_1 = (if bit (vn_fields n) 12 then vn_Uint32_1 n else vn_Uint32_1 fresh),
      vn_Uint32_2 = (if bit (vn_fields n) 13 then vn_Uint32_2 n else vn_Uint32_2 fresh),
      vn_Uint32_3 = (if bit (vn_fields n) 14 then vn_Uint32_3 n else vn_Uint32_3 fresh),
      vn_Uint32_4 = (if bit (vn_fields n) 15 then vn_Uint32_4 n else vn_Uint32_4 fresh),
      vn_Uuid_1 = (if bit (vn_fields n) 16 then vn_Uuid_1 n else vn_Uuid_1 fresh),
      vn_Uuid_2 = (if bit (vn_fields n) 17 then vn_Uuid_2 n else vn_Uuid_2 fresh),
      vn_Uuid_3 = (if bit (vn_fields n) 18 then vn_Uuid_3 n else vn_Uuid_3 fresh),
      vn_Uuid_4 = (if bit (vn_fields n) 19 then vn_Uuid_4 n else vn_Uuid_4 fresh),
      vn_String64_1 = (if bit (vn_fields n) 20 then vn_String64_1 n else vn_String64_1 fresh),
      vn_String64_2 = (if bit (vn_fields n) 21 then vn_String64_2 n else vn_String64_2 fresh),
      vn_String64_3 = (if bit (vn_fields n) 22 then vn_String64_3 n else vn_String64_3 fresh),
      vn_String64_4 = (if bit (vn_fields n) 23 then vn_String64_4 n else vn_String64_4 fresh),
      vn_String64_5 = (if bit (vn_fields n) 24 then vn_String64_5 n else vn_String64_5 fresh),
      vn_String64_6 = (if bit (vn_fields n) 25 then vn_String64_6 n else vn_String64_6 fresh),
      vn_IString64_1 = (if bit (vn_fields n) 26 then vn_IString64_1 n else vn_IString64_1 fresh),
      vn_IString64_2 = (if bit (vn_fields n) 27 then vn_IString64_2 n else vn_IString64_2 fresh),
      vn_Text_1 = (if bit (vn_fields n) 28 then vn_Text_1 n else vn_Text_1 fresh),
      vn_Text_2 = (if bit (vn_fields n) 29 then vn_Text_2 n else vn_Text_2 fresh),
      vn_Blob_1 = (if bit (vn_fields n) 30 then vn_Blob_1 n else vn_Blob_1 fresh),
      vn_Blob_2 = (if bit (vn_fields n) 31 then vn_Blob_2 n else vn_Blob_2 fresh)\<rparr>"

definition Node_new :: Node where
  "Node_new = \<lparr>vn_fields = 0, vn_NodeIdx = 0, vn_CreateTime = 0, vn_ModifyTime = 0, vn_CreateAgeName = [],
       vn_CreateAgeUuid = Uuid_null, vn_CreatorUuid = Uuid_null, vn_CreatorIdx = 0, vn_NodeType = 0, vn_Int32_1 = 0,
       vn_Int32_2 = 0, vn_Int32_3 = 0, vn_Int32_4 = 0, vn_Uint32_1 = 0, vn_Uint32_2 = 0, vn_Uint32_3 = 0,
       vn_Uint32_4 = 0, vn_Uuid_1 = Uuid_null, vn_Uuid_2 = Uuid_null, vn_Uuid_3 = Uuid_null, vn_Uuid_4 = Uuid_null,
       vn_String64_1 = [], vn_String64_2 = [], vn_String64_3 = [], vn_String64_4 = [], vn_String64_5 = [],
       vn_String64_6 = [], vn_IString64_1 = [], vn_IString64_2 = [], vn_Text_1 = [], vn_Text_2 = [], vn_Blob_1 = [],
       vn_Blob_2 = []\<rparr>"

section \<open>What a reader makes of a node\<close>

definition with_terminator :: "ext_lib \<Rightarrow> st_string \<Rightarrow> st_string" where
  "with_terminator L s = from_utf16 L (to_utf16 L s @ [0])"

definition vault_string_ok :: "ext_lib \<Rightarrow> st_string \<Rightarrow> bool" where
  "vault_string_ok L s \<longleftrightarrow> (length (to_utf16 L s) + 1) * 2 < 2 ^ 32"

definition vault_blob_ok :: "bytes \<Rightarrow> bool" where
  "vault_blob_ok b \<longleftrightarrow> length b < 2 ^ 32"

text \<open>The fields that are sent come from the sender, strings with a terminator; the others are those the reader had.\<close>

definition Node_received :: "ext_lib \<Rightarrow> Node \<Rightarrow> Node \<Rightarrow> Node" where
  "Node_received L old n = (let copy = Node_copy old n; got = (\<lambda>i s. if bit (vn_fields n) i then with_terminator L s else s)
     in copy\<lparr>vn_CreateAgeName := got 3 (vn_CreateAgeName copy), vn_String64_1 := got 20 (vn_String64_1 copy),
       vn_String64_2 := got 21 (vn_String64_2 copy), vn_String64_3 := got 22 (vn_String64_3 copy),
       vn_String64_4 := got 23 (vn_String64_4 copy), vn_String64_5 := got 24 (vn_String64_5 copy),
       vn_String64_6 := got 25 (vn_String64_6 copy), vn_IString64_1 := got 26 (vn_IString64_1 copy),
       vn_IString64_2 := got 27 (vn_IString64_2 copy), vn_Text_1 := got 28 (vn_Text_1 copy),
       vn_Text_2 := got 29 (vn_Text_2 copy)\<rparr>)"

definition Node_ok :: "ext_lib \<Rightarrow> Node \<Rightarrow> bool" where
  "Node_ok L n \<longleftrightarrow>
     (bit (vn_fields n) 3 \<longrightarrow> vault_string_ok L (vn_CreateAgeName n))
     \<and> (bit (vn_fields n) 4 \<longrightarrow> Uuid_wf (vn_CreateAgeUuid n))
     \<and> (bit (vn_fields n) 5 \<longrightarrow> Uuid_wf (vn_CreatorUuid n))
     \<and> (bit (vn_fields n) 16 \<longrightarrow> Uuid_wf (vn_Uuid_1 n))
     \<and> (bit (vn_fields n) 17 \<longrightarrow> Uuid_wf (vn_Uuid_2 n))
     \<and> (bit (vn_fields n) 18 \<longrightarrow> Uuid_wf (vn_Uuid_3 n))
     \<and> (bit (vn_fields n) 19 \<longrightarrow> Uuid_wf (vn_Uuid_4 n))
     \<and> (bit (vn_fields n) 20 \<longrightarrow> vault_string_ok L (vn_String64_1 n))
     \<and> (bit (vn_fields n) 21 \<longrightarrow> vault_string_ok L (vn_String64_2 n))
     \<and> (bit (vn_fields n) 22 \<longrightarrow> vault_string_ok L (vn_String64_3 n))
     \<and> (bit (vn_fields n) 23 \<longrightarrow> vault_string_ok L (vn_String64_4 n))
     \<and> (bit (vn_fields n) 24 \<longrightarrow> vault_string_ok L (vn_String64_5 n))
     \<and> (bit (vn_fields n) 25 \<longrightarrow> vault_string_ok L (vn_String64_6 n))
     \<and> (bit (vn_fields n) 26 \<longrightarrow> vault_string_ok L (vn_IString64_1 n))
     \<and> (bit (vn_fields n) 27 \<longrightarrow> vault_string_ok L (vn_IString64_2 n))
     \<and> (bit (vn_fields n) 28 \<longrightarrow> vault_string_ok L (vn_Text_1 n))
     \<and> (bit (vn_fields n) 29 \<longrightarrow> vault_string_ok L (vn_Text_2 n))
     \<and> (bit (vn_fields n) 30 \<longrightarrow> vault_blob_ok (vn_Blob_1 n))
     \<and> (bit (vn_fields n) 31 \<longrightarrow> vault_blob_ok (vn_Blob_2 n))"

definition Node_uuids_wf :: "Node \<Rightarrow> bool" where
  "Node_uuids_wf n \<longleftrightarrow> Uuid_wf (vn_CreateAgeUuid n) \<and> Uuid_wf (vn_CreatorUuid n) \<and> Uuid_wf (vn_Uuid_1 n) \<and> Uuid_wf (vn_Uuid_2 n) \<and> Uuid_wf (vn_Uuid_3 n) \<and> Uuid_wf (vn_Uuid_4 n)"

section \<open>Reading back\<close>

lemma unat_of_nat_u32: "n < 2 ^ 32 \<Longrightarrow> unat (of_nat n :: u32) = n"
  by (simp add: unsigned_of_nat take_bit_nat_eq_self_iff)

lemma vault_string_back:
  assumes "vault_string_ok L s"
  shows "vault_read_string L (vault_write_string L s @ rest) = Inr (with_terminator L s, rest)"
proof -
  let ?n = "(length (to_utf16 L s) + 1) * 2"
  have n: "unat (of_nat ?n :: u32) = ?n" using assms unfolding vault_string_ok_def by (rule unat_of_nat_u32)
  then have "unat ((of_nat ?n :: u32) mod 2) = 0" by (simp only: unat_mod) simp
  then have even: "(of_nat ?n :: u32) mod 2 = 0" by (simp only: unat_eq_zero)
  have u: "u16s_bytes (to_utf16 L s) @ write_u16 0 = u16s_bytes (to_utf16 L s @ [0])"
    by (simp add: u16s_bytes_def write_u16_def Stream_write_def)
  have len: "length (map (uninit L) [0..<unat (of_nat ?n :: u32)]) = length (u16s_bytes (to_utf16 L s @ [0]))"
    unfolding length_map length_upt n by simp
  have "vault_write_string L s @ rest = write_u32 (of_nat ?n) @ u16s_bytes (to_utf16 L s @ [0]) @ rest"
    unfolding vault_write_string_def Let_def u [symmetric] by (simp only: append_assoc)
  then show ?thesis
    unfolding vault_read_string_def using even len read_array_append [OF len [symmetric]]
    by (simp only: u32.bind_enc if_False rbind_Inr simp_thms u16s_u16s_bytes rret_app with_terminator_def)
qed

lemma vault_blob_back: "vault_blob_ok b \<Longrightarrow> vault_read_blob L (vault_write_blob b @ rest) = Inr (b, rest)"
  by (simp add: vault_read_blob_def vault_write_blob_def vault_blob_ok_def unat_of_nat_u32 rd_simps)

text \<open>One optional field.\<close>

lemma optional_field:
  assumes "c \<Longrightarrow> p (a @ rest) = Inr (x, rest)"
  shows "rbind (if c then p else rret d) f ((if c then a else []) @ rest) = f (if c then x else d) rest"
  using assms by simp

lemma optional_u32:
  "rbind (if c then read_u32 else rret d) f ((if c then write_u32 v else []) @ rest) = f (if c then v else d) rest"
  by (rule optional_field) (rule u32.dec_enc, simp)

lemma optional_uuid:
  assumes "c \<longrightarrow> Uuid_wf v" and "Uuid_wf old"
  shows "rbind (if c then Uuid_read old else rret d) f ((if c then Uuid_write v else []) @ rest) = f (if c then v else d) rest"
  using assms by (intro optional_field uuid.dec_enc) simp

lemma optional_string:
  assumes "c \<longrightarrow> vault_string_ok L v"
  shows "rbind (if c then vault_read_string L else rret d) f ((if c then vault_write_string L v else []) @ rest)
    = f (if c then with_terminator L v else d) rest"
  using assms by (intro optional_field vault_string_back) simp

lemma optional_blob:
  assumes "c \<longrightarrow> vault_blob_ok v"
  shows "rbind (if c then vault_read_blob L else rret d) f ((if c then vault_write_blob v else []) @ rest)
    = f (if c then v else d) rest"
  using assms by (intro optional_field vault_blob_back) simp

lemmas optional_fields = optional_u32 optional_uuid optional_string optional_blob

lemma node_back:
  assumes "Node_ok L n" and "Node_uuids_wf old"
  shows "Node_read L old (Node_write L n @ rest) = Inr (Node_received L old n, rest)"
proof -
  note ok = assms(1) [unfolded Node_ok_def]
  note old = assms(2) [unfolded Node_uuids_wf_def]
  show ?thesis
    using ok old unfolding Node_read_def Node_write_def append_assoc u64.bind_enc [OF TrueI]
    by (elim conjE) (simp only: optional_fields rret_app, simp add: Node_received_def Node_copy_def Let_def)
qed

lemma copied_field:
  "(if c then write_u32 (if c then v else d) else []) = (if c then write_u32 v else [])"
  "(if c then Uuid_write (if c then u else d') else []) = (if c then Uuid_write u else [])"
  "(if c then vault_write_string L (if c then b else d'') else []) = (if c then vault_write_string L b else [])"
  "(if c then vault_write_blob (if c then b else d'') else []) = (if c then vault_write_blob b else [])"
  by simp_all

lemma node_copy_image: "Node_write L (Node_copy fresh n) = Node_write L n"
  unfolding Node_write_def by (simp only: Node_copy_def Node.select_convs copied_field)

section \<open>Properties\<close>

text \<open>
  C36: a node is read back from its image, whatever node it is read into and whatever follows: exactly the fields whose bits are
  set are taken over, and every string among them comes back with the terminator of its image as its last
  character; a copy of a node has the same image.
\<close>

theorem vault_node_roundtrip:
  assumes "Node_ok L n" and "Node_uuids_wf old"
  shows "Node_read L old (Node_write L n @ rest) = Inr (Node_received L old n, rest)
     \<and> Node_write L (Node_copy fresh n) = Node_write L n"
  using node_back [OF assms] node_copy_image by blast

definition sample_node :: Node where
  "sample_node = Node_new\<lparr>vn_fields := 0xC4100081, vn_NodeIdx := 7, vn_NodeType := 2, vn_IString64_1 := [65, 66],
     vn_String64_1 := [67], vn_Blob_1 := [1, 2, 3]\<rparr>"

theorem vault_node_roundtrip_witness:
  "Node_read ascii_lib Node_new (Node_write ascii_lib sample_node @ [9]) = Inr (Node_received ascii_lib Node_new sample_node, [9])
     \<and> vn_IString64_1 (Node_received ascii_lib Node_new sample_node) = [65, 66, 0]
     \<and> Node_write ascii_lib (Node_copy Node_new sample_node) = Node_write ascii_lib sample_node"
proof -
  have "Node_ok ascii_lib sample_node" "Node_uuids_wf Node_new"
    by (simp_all add: Node_ok_def sample_node_def Node_new_def vault_string_ok_def vault_blob_ok_def ascii_lib_def
        Node_uuids_wf_def)
  moreover have "vn_IString64_1 (Node_received ascii_lib Node_new sample_node) = [65, 66, 0]" by code_simp
  ultimately show ?thesis using vault_node_roundtrip [of ascii_lib sample_node Node_new "[9]" Node_new] by blast
qed

end
