(* ===== verification/Manifests.thy ===== *)
theory Manifests
  imports Streams
begin

unbundle bit_operations_syntax

text \<open>
  The manifests of the file server and of the authentication server, \<open>FileServ/FileManifest.cpp\<close> and
  \<open>AuthServ/AuthManifest.cpp\<close>: text files with one line per file, sent to the client as a sequence of UTF-16 units.
\<close>

section \<open>Strings and files\<close>

text \<open>
  What the sources take from \<open>string_theory\<close>: the constructor from a C string (\<open>None\<close>: the octets are not UTF-8, and
  it throws), searching, replacing, splitting and numbers. A file of the file system has a size that \<open>fstat\<close> reports (or
  not) and octets.
\<close>

record st_lib =
  st_string_of :: "bytes \<Rightarrow> st_string option"
  st_before_first :: "byte \<Rightarrow> st_string \<Rightarrow> st_string"
  st_trim :: "st_string \<Rightarrow> st_string"
  st_split :: "byte \<Rightarrow> st_string \<Rightarrow> st_string list"
  st_to_uint :: "st_string \<Rightarrow> u32"
  st_find :: "st_string \<Rightarrow> st_string \<Rightarrow> int"
  st_replace :: "st_string \<Rightarrow> st_string \<Rightarrow> st_string \<Rightarrow> st_string"

record data_file =
  f_stat_size :: "nat option"
  f_data :: bytes

type_synonym file_system = "st_string \<Rightarrow> data_file option"

definition e_NetSuccess :: u32 where "e_NetSuccess = 0"
definition e_NetFileNotFound :: u32 where "e_NetFileNotFound = 7"

text \<open>The strings that \<open>while (fgets(lnbuf, 4096, mfs))\<close> finds in \<open>lnbuf\<close>.\<close>

lemma readLine_loop_shrinks: "readLine_loop (Suc n) (b # bs) = (line, rest) \<Longrightarrow> length rest < Suc (length bs)"
  using readLine_loop_append [of "Suc n" "b # bs" line rest]
  by (cases line) (auto split: prod.splits if_splits dest: arg_cong [of _ _ length])

function fgets_lines :: "bytes \<Rightarrow> bytes list" where
  "fgets_lines [] = []"
| "fgets_lines (b # bs) =
     (case readLine_loop 4095 (b # bs) of (line, rest) \<Rightarrow> takeWhile (\<lambda>c. c \<noteq> 0) line # fgets_lines rest)"
  by pat_completeness auto
termination
  by (relation "measure length")
     (simp_all del: readLine_loop.simps add: readLine_loop_shrinks [of 4094, simplified numeral_eq_Suc, OF sym])

section \<open>The manifest of the file server\<close>

record FileInfo =
  fi_filename :: st_string
  fi_downloadName :: st_string
  fi_fileHash :: "u16 list"
  fi_downloadHash :: "u16 list"
  fi_fileSize :: u32
  fi_downloadSize :: u32
  fi_flags :: u32

text \<open>
  \<open>memcpy\<close> of 32 units out of the buffer that \<open>to_utf16\<close> returned, which ends in a terminator: its size was checked on the
  UTF-8 octets, and a buffer with fewer units is read beyond its end.
\<close>

definition copy_hash :: "ext_lib \<Rightarrow> st_string \<Rightarrow> ds_error + u16 list" where
  "copy_hash L hash =
     (let buffer = to_utf16 L hash @ [0]
      in if length buffer < 32 then Inl UndefinedBehaviour else Inr (take 32 buffer))"

definition FileInfo_parse :: "ext_lib \<Rightarrow> st_lib \<Rightarrow> st_string list \<Rightarrow> ds_error + FileInfo" where
  "FileInfo_parse L T parts =
     (case copy_hash L (parts ! 2) of Inl e \<Rightarrow> Inl e
      | Inr fileHash \<Rightarrow>
     (case copy_hash L (parts ! 3) of Inl e \<Rightarrow> Inl e
      | Inr downloadHash \<Rightarrow>
          Inr \<lparr>fi_filename = parts ! 0, fi_downloadName = parts ! 1, fi_fileHash = fileHash,
               fi_downloadHash = downloadHash, fi_fileSize = st_to_uint T (parts ! 4),
               fi_downloadSize = st_to_uint T (parts ! 5), fi_flags = st_to_uint T (parts ! 6)\<rparr>))"

fun FileManifest_lines :: "ext_lib \<Rightarrow> st_lib \<Rightarrow> bytes list \<Rightarrow> FileInfo list \<Rightarrow> ds_error + FileInfo list" where
  "FileManifest_lines L T [] m_files = Inr m_files"
| "FileManifest_lines L T (lnbuf # lines) m_files =
     (case st_string_of T lnbuf of
        None \<Rightarrow> Inl UnicodeError
      | Some s \<Rightarrow>
          let line = st_trim T (st_before_first T 35 s) in
          if line = [] then FileManifest_lines L T lines m_files
          else let parts = st_split T 44 line in
          if length parts \<noteq> 7 then FileManifest_lines L T lines m_files
          else if length (parts ! 2) \<noteq> 32 \<or> length (parts ! 3) \<noteq> 32 then FileManifest_lines L T lines m_files
          else (case FileInfo_parse L T parts of
                  Inl e \<Rightarrow> Inl e
                | Inr info \<Rightarrow> FileManifest_lines L T lines (m_files @ [info])))"

definition FileManifest_loadManifest ::
    "ext_lib \<Rightarrow> st_lib \<Rightarrow> file_system \<Rightarrow> st_string \<Rightarrow> ds_error + (u32 \<times> FileInfo list)" where
  "FileManifest_loadManifest L T fs filename =
     (case fs filename of
        None \<Rightarrow> Inr (e_NetFileNotFound, [])
      | Some mfs \<Rightarrow>
          map_sum id (\<lambda>m_files. (e_NetSuccess, m_files)) (FileManifest_lines L T (fgets_lines (f_data mfs)) []))"

text \<open>A 32-bit number is written as its high and its low half.\<close>

definition write_halves :: "u32 \<Rightarrow> bytes" where
  "write_halves w = write_u16 (ucast (drop_bit 16 w)) @ write_u16 (ucast (w AND 0xFFFF)) @ write_u16 0"

definition FileInfo_encode :: "ext_lib \<Rightarrow> FileInfo \<Rightarrow> bytes" where
  "FileInfo_encode L info =
     Stream_writeString L (fi_filename info) e_StringUTF16 @ write_u16 0
     @ Stream_writeString L (fi_downloadName info) e_StringUTF16 @ write_u16 0
     @ u16s_bytes (fi_fileHash info) @ write_u16 0
     @ u16s_bytes (fi_downloadHash info) @ write_u16 0
     @ write_halves (fi_fileSize info) @ write_halves (fi_downloadSize info) @ write_halves (fi_flags info)"

text \<open>What is appended to the stream, and the number of units that is returned.\<close>

definition FileManifest_encodeToStream :: "ext_lib \<Rightarrow> FileInfo list \<Rightarrow> bytes \<times> u32" where
  "FileManifest_encodeToStream L m_files =
     (let out = concat (map (FileInfo_encode L) m_files) @ write_u16 0
      in (out, of_nat (length out) div 2))"

section \<open>The manifest of the authentication server\<close>

record AuthFileInfo =
  ai_filename :: st_string
  ai_fileSize :: u32

fun AuthManifest_lines :: "st_lib \<Rightarrow> bytes list \<Rightarrow> AuthFileInfo list \<Rightarrow> ds_error + AuthFileInfo list" where
  "AuthManifest_lines T [] m_files = Inr m_files"
| "AuthManifest_lines T (lnbuf # lines) m_files =
     (case st_string_of T lnbuf of
        None \<Rightarrow> Inl UnicodeError
      | Some s \<Rightarrow>
          let line = st_trim T (st_before_first T 35 s) in
          if line = [] then AuthManifest_lines T lines m_files
          else let parts = st_split T 44 line in
          if length parts \<noteq> 2 then AuthManifest_lines T lines m_files
          else AuthManifest_lines T lines
            (m_files @ [\<lparr>ai_filename = parts ! 0, ai_fileSize = st_to_uint T (parts ! 1)\<rparr>]))"

definition AuthManifest_loadManifest ::
    "st_lib \<Rightarrow> file_system \<Rightarrow> st_string \<Rightarrow> ds_error + (u32 \<times> AuthFileInfo list)" where
  "AuthManifest_loadManifest T fs filename =
     (case fs filename of
        None \<Rightarrow> Inr (e_NetFileNotFound, [])
      | Some mfs \<Rightarrow>
          map_sum id (\<lambda>m_files. (e_NetSuccess, m_files)) (AuthManifest_lines T (fgets_lines (f_data mfs)) []))"

definition AuthManifest_addFile :: "st_string \<Rightarrow> u32 \<Rightarrow> AuthFileInfo list \<Rightarrow> AuthFileInfo list" where
  "AuthManifest_addFile filename fileSize m_files = m_files @ [\<lparr>ai_filename = filename, ai_fileSize = fileSize\<rparr>]"

definition AuthFileInfo_encode :: "ext_lib \<Rightarrow> AuthFileInfo \<Rightarrow> bytes" where
  "AuthFileInfo_encode L info =
     Stream_writeString L (ai_filename info) e_StringUTF16 @ write_u16 0 @ write_halves (ai_fileSize info)"

definition AuthManifest_encodeToStream :: "ext_lib \<Rightarrow> AuthFileInfo list \<Rightarrow> bytes \<times> u32" where
  "AuthManifest_encodeToStream L m_files =
     (let out = concat (map (AuthFileInfo_encode L) m_files) @ write_u16 0
      in (out, of_nat (length out) div 2))"

section \<open>What an image determines\<close>

text \<open>An encoding of entries none of which is the beginning of another, so that a sequence of them can be told apart.\<close>

locale prefix_code =
  fixes enc :: "'a \<Rightarrow> bytes" and ok :: "'a \<Rightarrow> bool"
  assumes enc_nonempty: "enc a \<noteq> []"
    and enc_prefix: "ok a \<Longrightarrow> ok b \<Longrightarrow> enc a @ x = enc b @ y \<Longrightarrow> a = b \<and> x = y"
begin

lemma concat_inj: "list_all ok as \<Longrightarrow> list_all ok bs \<Longrightarrow> concat (map enc as) = concat (map enc bs) \<Longrightarrow> as = bs"
proof (induction as arbitrary: bs)
  case Nil
  then show ?case by (cases bs) (simp_all add: enc_nonempty)
next
  case (Cons a as)
  obtain b bs' where bs: "bs = b # bs'" using Cons.prems(3) by (cases bs) (auto simp: enc_nonempty)
  then show ?case using Cons enc_prefix [of a b] by simp
qed

end

lemma write_u16_prefix: "write_u16 a @ x = write_u16 b @ y \<longleftrightarrow> a = b \<and> x = y"
proof
  assume eq: "write_u16 a @ x = write_u16 b @ y"
  then have "read_u16 (write_u16 a @ x) = read_u16 (write_u16 b @ y)" by simp
  then show "a = b \<and> x = y" by simp
qed simp

lemma u16s_bytes_Cons: "u16s_bytes (c # cs) = write_u16 c @ u16s_bytes cs"
  by (simp add: u16s_bytes_def write_u16_def Stream_write_def)

lemma u16s_bytes_Nil [simp]: "u16s_bytes [] = []"
  by (simp add: u16s_bytes_def)

lemma units_prefix:
  "0 \<notin> set a \<Longrightarrow> 0 \<notin> set b \<Longrightarrow> u16s_bytes a @ write_u16 0 @ x = u16s_bytes b @ write_u16 0 @ y \<Longrightarrow> a = b \<and> x = y"
proof (induction a arbitrary: b)
  case Nil
  then show ?case by (cases b) (auto simp: u16s_bytes_Cons write_u16_prefix)
next
  case (Cons c cs)
  then show ?case by (cases b) (auto simp: u16s_bytes_Cons write_u16_prefix)
qed

lemma u16s_bytes_inj [simp]: "u16s_bytes a = u16s_bytes b \<longleftrightarrow> a = b"
  by (metis u16s_u16s_bytes)

lemma units_same_length: "length a = length b \<Longrightarrow> u16s_bytes a @ x = u16s_bytes b @ y \<Longrightarrow> a = b \<and> x = y"
proof (induction a arbitrary: b)
  case Nil
  then show ?case by simp
next
  case (Cons c cs)
  then show ?case by (cases b) (auto simp: u16s_bytes_Cons write_u16_prefix)
qed

lemma halves_inj:
  assumes "(ucast (drop_bit 16 v) :: u16) = ucast (drop_bit 16 (w :: u32))"
    and "(ucast (v AND 0xFFFF) :: u16) = ucast (w AND 0xFFFF)"
  shows "v = w"
proof (rule bit_word_eqI)
  fix n assume n: "n < LENGTH(32)"
  have m: "(0xFFFF :: u32) = mask 16" by (simp add: mask_eq_exp_minus_1)
  show "bit v n = bit w n"
  proof (cases "n < 16")
    case True
    then show ?thesis using arg_cong [OF assms(2), of "\<lambda>u. bit u n"] by (simp add: m bit_simps)
  next
    case False
    then have "n - 16 < 16" using n by simp
    then show ?thesis using False arg_cong [OF assms(1), of "\<lambda>u. bit u (n - 16)"] by (simp add: bit_simps)
  qed
qed

lemma halves_prefix: "write_halves v @ x = write_halves w @ y \<Longrightarrow> v = w \<and> x = y"
  using halves_inj by (auto simp: write_halves_def write_u16_prefix)

definition name_ok :: "ext_lib \<Rightarrow> st_string \<Rightarrow> bool" where
  "name_ok L s \<longleftrightarrow> from_utf16 L (to_utf16 L s) = s \<and> 0 \<notin> set (to_utf16 L s)"

lemma name_prefix:
  assumes "name_ok L s" and "name_ok L t"
    and "Stream_writeString L s e_StringUTF16 @ write_u16 0 @ x = Stream_writeString L t e_StringUTF16 @ write_u16 0 @ y"
  shows "s = t \<and> x = y"
proof -
  have "to_utf16 L s = to_utf16 L t \<and> x = y"
    by (rule units_prefix) (use assms in \<open>simp_all add: name_ok_def Stream_writeString_def\<close>)
  then show ?thesis using assms(1,2) unfolding name_ok_def by metis
qed

definition FileInfo_ok :: "ext_lib \<Rightarrow> FileInfo \<Rightarrow> bool" where
  "FileInfo_ok L info \<longleftrightarrow> name_ok L (fi_filename info) \<and> name_ok L (fi_downloadName info)
     \<and> length (fi_fileHash info) = 32 \<and> length (fi_downloadHash info) = 32"

interpretation file_entry: prefix_code "FileInfo_encode L" "FileInfo_ok L"
proof (unfold_locales, goal_cases)
  case (1 a)
  then show ?case by (simp add: FileInfo_encode_def write_halves_def flip: length_greater_0_conv)
next
  case (2 a b x y)
  note ok = 2(1,2) [unfolded FileInfo_ok_def]
  have "fi_filename a = fi_filename b" and r1: "Stream_writeString L (fi_downloadName a) e_StringUTF16 @ write_u16 0
     @ u16s_bytes (fi_fileHash a) @ write_u16 0 @ u16s_bytes (fi_downloadHash a) @ write_u16 0
     @ write_halves (fi_fileSize a) @ write_halves (fi_downloadSize a) @ write_halves (fi_flags a) @ x =
     Stream_writeString L (fi_downloadName b) e_StringUTF16 @ write_u16 0
     @ u16s_bytes (fi_fileHash b) @ write_u16 0 @ u16s_bytes (fi_downloadHash b) @ write_u16 0
     @ write_halves (fi_fileSize b) @ write_halves (fi_downloadSize b) @ write_halves (fi_flags b) @ y"
    using name_prefix [of L "fi_filename a" "fi_filename b"] ok 2(3) by (simp_all add: FileInfo_encode_def)
  moreover note name_prefix [OF _ _ r1]
  ultimately show ?case
    using ok by (cases a, cases b)
      (auto dest!: units_same_length [rotated] halves_prefix simp: write_u16_prefix)
qed

interpretation auth_entry: prefix_code "AuthFileInfo_encode L" "\<lambda>info. name_ok L (ai_filename info)"
proof (unfold_locales, goal_cases)
  case (1 a)
  then show ?case by (simp add: AuthFileInfo_encode_def write_halves_def flip: length_greater_0_conv)
next
  case (2 a b x y)
  have "ai_filename a = ai_filename b \<and> write_halves (ai_fileSize a) @ x = write_halves (ai_fileSize b) @ y"
    by (rule name_prefix [OF 2(1,2)]) (use 2(3) in \<open>simp add: AuthFileInfo_encode_def\<close>)
  then show ?case using halves_prefix [of "ai_fileSize a" x "ai_fileSize b" y] by simp
qed

section \<open>Loading\<close>

lemma copy_hash_length: "copy_hash L h = Inr units \<Longrightarrow> length units = 32"
  by (auto simp: copy_hash_def Let_def split: if_splits)

definition hashes_ok :: "FileInfo \<Rightarrow> bool" where
  "hashes_ok info \<longleftrightarrow> length (fi_fileHash info) = 32 \<and> length (fi_downloadHash info) = 32"

lemma FileInfo_parse_hashes: "FileInfo_parse L T parts = Inr info \<Longrightarrow> hashes_ok info"
  by (auto simp: FileInfo_parse_def hashes_ok_def dest!: copy_hash_length split: sum.splits)

lemma FileManifest_lines_hashes:
  "FileManifest_lines L T lines m_files = Inr infos \<Longrightarrow> list_all hashes_ok m_files \<Longrightarrow> list_all hashes_ok infos"
proof (induction lines arbitrary: m_files)
  case (Cons lnbuf lines)
  then show ?case
    by (auto simp: Let_def split: option.splits sum.splits if_splits dest: FileInfo_parse_hashes)
qed simp

lemma loadManifest_hashes:
  assumes "FileManifest_loadManifest L T fs filename = Inr (result, infos)"
  shows "list_all hashes_ok infos"
proof (cases "fs filename")
  case (Some mfs)
  then show ?thesis
    using assms FileManifest_lines_hashes [of L T "fgets_lines (f_data mfs)" "[]" infos]
    by (cases "FileManifest_lines L T (fgets_lines (f_data mfs)) []") (simp_all add: FileManifest_loadManifest_def)
qed (use assms in \<open>simp add: FileManifest_loadManifest_def\<close>)

lemma even_units: "even (length (FileInfo_encode L info))" "even (length (AuthFileInfo_encode L a))"
  by (simp_all add: FileInfo_encode_def AuthFileInfo_encode_def write_halves_def Stream_writeString_def)

lemma even_length_concat: "(\<And>x. even (length (f x))) \<Longrightarrow> even (length (concat (map f xs)))"
  by (induction xs) simp_all

lemma units_counted:
  assumes "even n" and "n < 2 ^ 32"
  shows "2 * unat (of_nat n div 2 :: u32) = n"
proof -
  have "unat (of_nat n :: u32) = n" using assms(2) by (simp add: unsigned_of_nat take_bit_nat_eq_self_iff)
  then have "unat (of_nat n div 2 :: u32) = n div 2" by (simp add: unat_div)
  then show ?thesis using assms(1) by simp
qed

section \<open>Properties\<close>

text \<open>
  C37: what a client is sent determines the manifest. When two manifests were loaded and their names can be told by
  their UTF-16 units, of which none is zero, then equal images come from equal manifests; and the size sent along is the number
  of units of the image.
\<close>

theorem manifest_image_determines:
  assumes "FileManifest_loadManifest L T fs f = Inr (result, infos)"
    and "FileManifest_loadManifest L T' fs' f' = Inr (result', infos')"
    and "list_all (\<lambda>i. name_ok L (fi_filename i) \<and> name_ok L (fi_downloadName i)) (infos @ infos')"
    and "FileManifest_encodeToStream L infos = (sent, units)"
    and "FileManifest_encodeToStream L infos' = (sent, units')"
    and "length sent < 2 ^ 32"
  shows "infos = infos' \<and> 2 * unat units = length sent"
proof
  have "list_all (FileInfo_ok L) infos" "list_all (FileInfo_ok L) infos'"
    using assms(3) loadManifest_hashes [OF assms(1)] loadManifest_hashes [OF assms(2)]
    by (auto simp: list_all_iff FileInfo_ok_def hashes_ok_def)
  then show "infos = infos'"
    by (rule file_entry.concat_inj) (use assms(4,5) in \<open>auto simp: FileManifest_encodeToStream_def Let_def\<close>)
  have out: "sent = concat (map (FileInfo_encode L) infos) @ write_u16 0" "units = of_nat (length sent) div 2"
    using assms(4) by (auto simp: FileManifest_encodeToStream_def Let_def)
  have "even (length sent)" using even_length_concat [of "FileInfo_encode L" infos] even_units(1) by (simp add: out(1))
  then show "2 * unat units = length sent" using units_counted assms(6) out(2) by simp
qed

text \<open>The functions of the string library on ASCII strings.\<close>

fun ascii_split :: "byte \<Rightarrow> bytes \<Rightarrow> bytes list" where
  "ascii_split c [] = [[]]"
| "ascii_split c (x # xs) =
     (if x = c then [] # ascii_split c xs
      else case ascii_split c xs of [] \<Rightarrow> [[x]] | s # ss \<Rightarrow> (x # s) # ss)"

fun ascii_find :: "bytes \<Rightarrow> bytes \<Rightarrow> int" where
  "ascii_find s [] = (if s = [] then 0 else -1)"
| "ascii_find s (x # xs) =
     (if take (length s) (x # xs) = s then 0
      else let i = ascii_find s xs in if i = -1 then -1 else i + 1)"

definition blank :: "byte \<Rightarrow> bool" where
  "blank c \<longleftrightarrow> c = 32 \<or> c = 9 \<or> c = 10 \<or> c = 13"

definition ascii_strings :: st_lib where
  "ascii_strings =
     \<lparr>st_string_of = (\<lambda>s. if list_all (\<lambda>c. c < 128) s then Some s else None),
      st_before_first = (\<lambda>c s. takeWhile (\<lambda>x. x \<noteq> c) s),
      st_trim = (\<lambda>s. rev (dropWhile blank (rev (dropWhile blank s)))),
      st_split = ascii_split,
      st_to_uint = foldl (\<lambda>n c. 10 * n + ucast (c - 48)) 0,
      st_find = (\<lambda>sub s. ascii_find sub s),
      st_replace = (\<lambda>from to s. if length from = 1 then concat (map (\<lambda>c. if [c] = from then to else [c]) s) else s)\<rparr>"

text \<open>A manifest with a comment, a line with too few fields, a line with a short hash and one file.\<close>

definition sample_manifest :: bytes where
  "sample_manifest =
     [35, 33, 10, 97, 44, 98, 10, 97, 44, 98, 44, 99, 44, 100, 44, 49, 44, 49, 44, 49, 10, 97, 44, 98, 44]
     @ replicate 32 48 @ [44] @ replicate 32 49 @ [44, 49, 50, 44, 57, 44, 48, 32, 10]"

definition sample_disk :: file_system where
  "sample_disk f = (if f = [109] then Some \<lparr>f_stat_size = Some (length sample_manifest), f_data = sample_manifest\<rparr> else None)"

definition sample_info :: FileInfo where
  "sample_info = \<lparr>fi_filename = [97], fi_downloadName = [98], fi_fileHash = replicate 32 48,
     fi_downloadHash = replicate 32 49, fi_fileSize = 12, fi_downloadSize = 9, fi_flags = 0\<rparr>"

lemma sample_lines:
  "fgets_lines sample_manifest = [[35, 33, 10], [97, 44, 98, 10], [97, 44, 98, 44, 99, 44, 100, 44, 49, 44, 49, 44, 49, 10],
     [97, 44, 98, 44] @ replicate 32 48 @ [44] @ replicate 32 49 @ [44, 49, 50, 44, 57, 44, 48, 32, 10]]"
  by code_simp

lemma FileManifest_lines_entry:
  assumes "st_string_of T lnbuf = Some s" and "st_trim T (st_before_first T 35 s) = line" and "line \<noteq> []"
    and "st_split T 44 line = parts" and "length parts = 7" and "length (parts ! 2) = 32" and "length (parts ! 3) = 32"
    and "FileInfo_parse L T parts = Inr info"
  shows "FileManifest_lines L T (lnbuf # lines) m_files = FileManifest_lines L T lines (m_files @ [info])"
  using assms by simp

lemma sample_line:
  "FileManifest_lines ascii_lib ascii_strings
     [[97, 44, 98, 44] @ replicate 32 48 @ [44] @ replicate 32 49 @ [44, 49, 50, 44, 57, 44, 48, 32, 10]] [] = Inr [sample_info]"
proof -
  let ?hash = "replicate 32 48 :: bytes" and ?hash' = "replicate 32 49 :: bytes"
  let ?text = "[97, 44, 98, 44] @ ?hash @ [44] @ ?hash' @ [44, 49, 50, 44, 57, 44, 48, 32, 10]"
  let ?line = "[97, 44, 98, 44] @ ?hash @ [44] @ ?hash' @ [44, 49, 50, 44, 57, 44, 48]"
  let ?parts = "[[97], [98], ?hash, ?hash', [49, 50], [57], [48]]"
  have "st_string_of ascii_strings ?text = Some ?text" by code_simp
  moreover have "st_trim ascii_strings (st_before_first ascii_strings 35 ?text) = ?line" by code_simp
  moreover have "st_split ascii_strings 44 ?line = ?parts" by code_simp
  moreover have "FileInfo_parse ascii_lib ascii_strings ?parts = Inr sample_info" by code_simp
  ultimately show ?thesis
    by (subst FileManifest_lines_entry [of ascii_strings ?text ?text ?line ?parts]) simp_all
qed

lemma sample_load: "FileManifest_loadManifest ascii_lib ascii_strings sample_disk [109] = Inr (e_NetSuccess, [sample_info])"
proof -
  have "FileManifest_lines ascii_lib ascii_strings ([35, 33, 10] # [97, 44, 98, 10]
      # [97, 44, 98, 44, 99, 44, 100, 44, 49, 44, 49, 44, 49, 10] # lines) [] =
    FileManifest_lines ascii_lib ascii_strings lines []" for lines
    by (simp add: ascii_strings_def blank_def)
  then show ?thesis
    by (simp only: FileManifest_loadManifest_def sample_disk_def sample_lines sample_line if_True option.case data_file.select_convs
        map_sum.simps refl)
qed

theorem manifest_image_determines_witness:
  "FileManifest_loadManifest ascii_lib ascii_strings sample_disk [109] = Inr (e_NetSuccess, [sample_info])
   \<and> 2 * unat (snd (FileManifest_encodeToStream ascii_lib [sample_info])) =
       length (fst (FileManifest_encodeToStream ascii_lib [sample_info]))"
proof -
  have "list_all (\<lambda>i. name_ok ascii_lib (fi_filename i) \<and> name_ok ascii_lib (fi_downloadName i)) ([sample_info] @ [sample_info])"
    by code_simp
  moreover have "length (fst (FileManifest_encodeToStream ascii_lib [sample_info])) = 160" by code_simp
  ultimately show ?thesis
    using manifest_image_determines [OF sample_load sample_load, of
      "fst (FileManifest_encodeToStream ascii_lib [sample_info])" "snd (FileManifest_encodeToStream ascii_lib [sample_info])"
      "snd (FileManifest_encodeToStream ascii_lib [sample_info])"] sample_load
    by simp
qed

end
