(* ===== verification/Auth_State.thy ===== *)
theory Auth_State
  imports Sdl_Parser Game_Server Vault_Nodes Manifests
begin

unbundle bit_operations_syntax

text \<open>
  The authentication server, \<open>src/AuthServ\<close>: what its threads share. One daemon takes the requests of the
  workers from a channel, asks the database and answers; the requests are objects of the workers which the daemon
  fills in. This theory holds the objects (\<open>AuthClient.h\<close>, \<open>AuthServer_Private.h\<close>), the access to the database
  (\<open>db/pqaccess.h\<close>) and the statements that are sent to it.
\<close>

section \<open>The database\<close>

text \<open>
  What \<open>PQexecParams\<close> returns: a failure, the end of a command, or rows of columns in text format, where \<open>None\<close> is
  an SQL null.
\<close>

datatype pg_result = PG_error | PG_command | PG_tuples "bytes option list list"

text \<open>\<open>PQresultStatus(r) == PGRES_TUPLES_OK\<close>, \<open>== PGRES_COMMAND_OK\<close>, and the number of rows, 0 unless there are any.\<close>

fun tuples_ok :: "pg_result \<Rightarrow> bool" where
  "tuples_ok (PG_tuples rows) = True"
| "tuples_ok _ = False"

fun command_ok :: "pg_result \<Rightarrow> bool" where
  "command_ok PG_command = True"
| "command_ok _ = False"

fun PQntuples :: "pg_result \<Rightarrow> nat" where
  "PQntuples (PG_tuples rows) = length rows"
| "PQntuples _ = 0"

text \<open>
  \<open>PQgetvalue\<close> gives the text of a column, the empty string for a null, and a null pointer outside the rows and
  columns; every caller dereferences what it gets.
\<close>

fun PQgetvalue :: "pg_result \<Rightarrow> nat \<Rightarrow> nat \<Rightarrow> ds_error + bytes" where
  "PQgetvalue (PG_tuples rows) i j =
     (if i < length rows \<and> j < length (rows ! i)
      then Inr (case rows ! i ! j of None \<Rightarrow> [] | Some text \<Rightarrow> text)
      else Inl UndefinedBehaviour)"
| "PQgetvalue _ i j = Inl UndefinedBehaviour"

text \<open>\<open>PQgetisnull\<close>, 1 also outside the rows and columns.\<close>

fun PQgetisnull :: "pg_result \<Rightarrow> nat \<Rightarrow> nat \<Rightarrow> bool" where
  "PQgetisnull (PG_tuples rows) i j = (if i < length rows \<and> j < length (rows ! i) then rows ! i ! j = None else True)"
| "PQgetisnull _ i j = True"

text \<open>\<open>strtoul(s, nullptr, 10)\<close> and \<open>strtol(s, nullptr, 10)\<close>.\<close>

definition decimal_text :: "bytes \<Rightarrow> bool \<times> int" where
  "decimal_text s =
     (case dropWhile is_space s of
        [] \<Rightarrow> (False, 0)
      | c # cs \<Rightarrow> (c = 45, digits_value 10 (takeWhile is_digit (if c = 43 \<or> c = 45 then cs else c # cs))))"

definition strtoul10 :: "bytes \<Rightarrow> u64" where
  "strtoul10 s =
     (case decimal_text s of (neg, n) \<Rightarrow>
        if n \<ge> 2 ^ 64 then - 1 else if neg then - of_int n else of_int n)"

definition strtol10 :: "bytes \<Rightarrow> int" where
  "strtol10 s =
     (case decimal_text s of (neg, n) \<Rightarrow> max (- (2 ^ 63)) (min (2 ^ 63 - 1) (if neg then - n else n)))"

section \<open>Statements\<close>

text \<open>The statements with a fixed text.\<close>

definition sql_Uuid_generate :: string where
  \<open>sql_Uuid_generate = ''SELECT uuid_generate_v4()''\<close>

definition sql_Age_sequence :: string where
  \<open>sql_Age_sequence = ''SELECT nextval('game."AgeSeqNumber"'::regclass)''\<close>

definition sql_Find_folder :: string where
  \<open>sql_Find_folder = ''SELECT idx FROM vault.find_folder($1, $2);''\<close>

definition sql_Find_folder_bare :: string where
  \<open>sql_Find_folder_bare = ''SELECT idx FROM vault.find_folder($1, $2)''\<close>

definition sql_Hoods :: string where
  \<open>sql_Hoods = ''SELECT idx FROM vault."Nodes" WHERE "String64_2"=    'Neighborhood' AND "String64_4" = $1    ORDER BY "Int32_1"''\<close>

definition sql_Public_age :: string where
  \<open>sql_Public_age = ''SELECT idx FROM vault."Nodes"    WHERE "NodeType"=$1 AND "Int32_2"=1 AND          "String64_2"=$2''\<close>

definition sql_Public_age_uuid :: string where
  \<open>sql_Public_age_uuid = ''SELECT idx FROM vault."Nodes"    WHERE "NodeType"=$1 AND "Int32_2"=1 AND          "String64_2"=$2 AND "Uuid_1"=$3''\<close>

definition sql_System_nodes :: string where
  \<open>sql_System_nodes = ''SELECT "idx" FROM vault."Nodes"    WHERE "NodeType"=$1''\<close>

definition sql_All_players :: string where
  \<open>sql_All_players = ''SELECT idx FROM vault."Nodes"    WHERE "NodeType"=$1 AND "Int32_1"=$2''\<close>

definition sql_New_all_players :: string where
  \<open>sql_New_all_players = ''INSERT INTO vault."Nodes" ("NodeType", "Int32_1")    VALUES ($1, $2) RETURNING idx''\<close>

definition sql_Player_infos :: string where
  \<open>sql_Player_infos = ''SELECT idx FROM vault."Nodes" WHERE "NodeType"=$1''\<close>

definition sql_Global_state :: string where
  \<open>sql_Global_state = ''SELECT idx,"SdlBlob" FROM vault."GlobalStates"    WHERE "Descriptor"=$1 LIMIT 1''\<close>

definition sql_New_global_state :: string where
  \<open>sql_New_global_state = ''INSERT INTO vault."GlobalStates"    ("Descriptor", "SdlBlob") VALUES ($1, $2)''\<close>

definition sql_Update_global_state :: string where
  \<open>sql_Update_global_state = ''UPDATE vault."GlobalStates"    SET "SdlBlob"=$1 WHERE idx=$2''\<close>

definition sql_Global_blob :: string where
  \<open>sql_Global_blob = ''SELECT "SdlBlob" FROM vault."GlobalStates"    WHERE "Descriptor"=$1 LIMIT 1''\<close>

definition sql_New_server :: string where
  \<open>sql_New_server = ''INSERT INTO game."Servers"    ("AgeUuid", "AgeFilename", "DisplayName", "AgeIdx", "SdlIdx")    VALUES ($1, $2, $3, $4, $5)''\<close>

definition sql_Has_node :: string where
  \<open>sql_Has_node = ''SELECT vault.has_node($1, $2)''\<close>

definition sql_Fetch_node :: string where
  \<open>sql_Fetch_node = ''SELECT idx, "CreateTime", "ModifyTime", "CreateAgeName",    "CreateAgeUuid", "CreatorUuid", "CreatorIdx", "NodeType",    "Int32_1", "Int32_2", "Int32_3", "Int32_4",    "Uint32_1", "Uint32_2", "Uint32_3", "Uint32_4",    "Uuid_1", "Uuid_2", "Uuid_3", "Uuid_4",    "String64_1", "String64_2", "String64_3", "String64_4",    "String64_5", "String64_6", "IString64_1", "IString64_2",    "Text_1", "Text_2", "Blob_1", "Blob_2"    FROM vault."Nodes" WHERE idx=$1''\<close>

definition sql_Add_ref :: string where
  \<open>sql_Add_ref = ''INSERT INTO vault."NodeRefs"    ("ParentIdx", "ChildIdx", "OwnerIdx")    VALUES ($1, $2, $3)''\<close>

definition sql_Remove_ref :: string where
  \<open>sql_Remove_ref = ''DELETE FROM vault."NodeRefs"    WHERE "ParentIdx"=$1 AND "ChildIdx"=$2''\<close>

definition sql_Fetch_tree :: string where
  \<open>sql_Fetch_tree = ''SELECT "ParentIdx", "ChildIdx", "OwnerIdx"    FROM vault.fetch_tree($1);''\<close>

definition sql_Count_refs :: string where
  \<open>sql_Count_refs = ''SELECT COUNT(*) FROM vault."NodeRefs" WHERE "ParentIdx"=$1''\<close>

definition sql_Public_ages :: string where
  \<open>sql_Public_ages = ''\<newline>        SELECT\<newline>            pubage."Uuid_1",\<newline>            pubage."String64_3",\<newline>            pubage."String64_4",\<newline>            pubage."Text_1",\<newline>            pubage."Int32_1",\<newline>            pubage."Int32_3",\<newline>            (\<newline>                SELECT COUNT(*)\<newline>                FROM vault."Nodes" AS curpop\<newline>                WHERE curpop."NodeType" = $1 AND curpop."Int32_1" = 1 AND curpop."Uuid_1" = pubage."Uuid_1"\<newline>            ) AS "AgePopulation",\<newline>            (\<newline>                SELECT COUNT(*)\<newline>                FROM vault."NodeRefs" AS owners\<newline>                WHERE owners."ParentIdx" = (SELECT idx FROM vault.find_folder(pubage.idx, $2))\<newline>            ) AS "NumOwners"\<newline>        FROM vault."Nodes" AS pubage\<newline>        WHERE pubage."NodeType" = $3 AND pubage."Int32_2" = 1 AND pubage."String64_2" = $4\<newline>        ORDER BY "ModifyTime" DESC\<newline>        LIMIT 50;\<newline>    ''\<close>

definition sql_Account_exists :: string where
  \<open>sql_Account_exists = ''SELECT idx, "AcctUuid" FROM auth."Accounts"    WHERE LOWER("Login")=LOWER($1)''\<close>

definition sql_New_account :: string where
  \<open>sql_New_account = ''INSERT INTO auth."Accounts"    ("AcctUuid", "PassHash", "Login", "AcctFlags", "BillingType")    VALUES ($1, $2, $3, 0, 1)''\<close>

definition sql_Account_login :: string where
  \<open>sql_Account_login = ''SELECT "PassHash", "AcctUuid", "AcctFlags", "BillingType"    FROM auth."Accounts"    WHERE LOWER("Login")=LOWER($1)''\<close>

definition sql_Account_players :: string where
  \<open>sql_Account_players = ''SELECT "PlayerIdx", "PlayerName", "AvatarShape", "Explorer"    FROM auth."Players"    WHERE "AcctUuid"=$1''\<close>

definition sql_Player_offline :: string where
  \<open>sql_Player_offline = ''UPDATE vault."Nodes" SET    "Int32_1"=0, "String64_1"='' @ [CHR 0x27, CHR 0x27] @ '',    "Uuid_1"='00000000-0000-0000-0000-000000000000'    WHERE "NodeType"=$1 AND "Uint32_1"=$2    RETURNING idx''\<close>

definition sql_Player_of_account :: string where
  \<open>sql_Player_of_account = ''SELECT "PlayerName", "AvatarShape", "Explorer"    FROM auth."Players"    WHERE "AcctUuid"=$1 AND "PlayerIdx"=$2''\<close>

definition sql_Player_online :: string where
  \<open>sql_Player_online = ''UPDATE vault."Nodes" SET    "Int32_1"=1, "String64_1"='Lobby',    "Uuid_1"='00000000-0000-0000-0000-000000000000'    WHERE "NodeType"=$1 AND "Uint32_1"=$2    RETURNING idx''\<close>

definition sql_Player_named :: string where
  \<open>sql_Player_named = ''SELECT idx FROM auth."Players"    WHERE "PlayerName"=$1''\<close>

definition sql_New_player :: string where
  \<open>sql_New_player = ''INSERT INTO auth."Players"    ("AcctUuid", "PlayerIdx", "PlayerName", "AvatarShape", "Explorer")    VALUES ($1, $2, $3, $4, $5)''\<close>

definition sql_Player_idx :: string where
  \<open>sql_Player_idx = ''SELECT idx FROM auth."Players"    WHERE "AcctUuid"=$1 AND "PlayerIdx"=$2''\<close>

definition sql_Delete_player :: string where
  \<open>sql_Delete_player = ''DELETE FROM auth."Players"    WHERE "PlayerIdx"=$1''\<close>

definition sql_Player_info :: string where
  \<open>sql_Player_info = ''SELECT idx FROM vault."Nodes"    WHERE "Uint32_1" = $1    AND "NodeType" = $2''\<close>

definition sql_Delete_refs :: string where
  \<open>sql_Delete_refs = ''DELETE FROM vault."NodeRefs"    WHERE "ChildIdx" = $1''\<close>

definition sql_Nodes_uuid :: string where
  \<open>sql_Nodes_uuid = ''SELECT idx FROM vault."Nodes"   WHERE "Uuid_1"=$1 AND "NodeType"=$2''\<close>

definition sql_Age_server :: string where
  \<open>sql_Age_server = ''SELECT idx, "AgeIdx", "DisplayName" FROM game."Servers"    WHERE "AgeUuid"=$1''\<close>

definition sql_New_temp_server :: string where
  \<open>sql_New_temp_server = ''INSERT INTO game."Servers"    ("AgeUuid", "AgeFilename", "DisplayName", "AgeIdx", "SdlIdx", "Temporary")    VALUES ($1, $2, $2, 0, 0, 't')    RETURNING idx, "AgeIdx", "DisplayName"''\<close>

definition sql_Player_in_age :: string where
  \<open>sql_Player_in_age = ''UPDATE vault."Nodes" SET    "String64_1"=$1, "Uuid_1"=$2    WHERE "NodeType"=$3 AND "Uint32_1"=$4    RETURNING idx''\<close>

definition sql_Set_public :: string where
  \<open>sql_Set_public = ''UPDATE vault."Nodes" SET    "ModifyTime"=$1, "Int32_2"=1 WHERE idx=$2     AND "NodeType"=$3''\<close>

definition sql_Set_private :: string where
  \<open>sql_Set_private = ''UPDATE vault."Nodes" SET    "Int32_2"=0, "ModifyTime"=$1    WHERE "NodeType"=$2 AND idx=$3''\<close>

definition sql_Create_score :: string where
  \<open>sql_Create_score = ''SELECT auth.create_score($1, $2, $3, $4);''\<close>

definition sql_Get_scores :: string where
  \<open>sql_Get_scores = ''SELECT idx, "CreateTime", "Type", "Points"    FROM auth."Scores" WHERE "OwnerIdx"=$1 AND    "Name"=$2''\<close>

definition sql_Score_type :: string where
  \<open>sql_Score_type = ''SELECT "Type" FROM auth."Scores" WHERE idx=$1''\<close>

definition sql_Add_points :: string where
  \<open>sql_Add_points = ''SELECT auth.add_score_points($1, $2, $3);''\<close>

definition sql_Score_types :: string where
  \<open>sql_Score_types = ''SELECT "Type" FROM auth."Scores"    WHERE idx=$1 OR idx=$2''\<close>

definition sql_Transfer_points :: string where
  \<open>sql_Transfer_points = ''SELECT auth.transfer_score_points($1, $2, $3, $4)''\<close>

definition sql_Set_points :: string where
  \<open>sql_Set_points = ''UPDATE auth."Scores" SET "Points"=$2 WHERE idx=$1''\<close>

definition sql_High_scores :: string where
  \<open>sql_High_scores = ''SELECT idx, "CreateTime", "Type", "Points"    FROM auth."Scores" WHERE "Name"=$1    LIMIT $2''\<close>

definition sql_Owner_high_scores :: string where
  \<open>sql_Owner_high_scores = ''SELECT idx, "OwnerIdx", "CreateTime", "Type", "Points"    FROM auth."Scores" WHERE "Name"=$1    AND "OwnerIdx" IN (SELECT "ChildIdx"    FROM vault."NodeRefs" WHERE "ParentIdx"=$2)    LIMIT $3''\<close>

definition sql_Account_flags :: string where
  \<open>sql_Account_flags = ''SELECT "AcctFlags" FROM auth."Accounts"    WHERE LOWER("Login")=LOWER($1)''\<close>

definition sql_Update_flags :: string where
  \<open>sql_Update_flags = ''UPDATE auth."Accounts" SET "AcctFlags"=$2    WHERE LOWER("Login")=LOWER($1)''\<close>

definition sql_Save_global_state :: string where
  \<open>sql_Save_global_state = ''UPDATE vault."GlobalStates"    SET "SdlBlob" = $2    WHERE "Descriptor" = $1''\<close>

definition sql_All_offline :: string where
  \<open>sql_All_offline = ''UPDATE vault."Nodes" SET    "Int32_1" = 0    WHERE "NodeType" = $1''\<close>

definition sql_Sdl_server :: string where
  \<open>sql_Sdl_server = ''SELECT "idx" FROM game."Servers" WHERE "SdlIdx"=$1''\<close>

section \<open>Objects\<close>

record AuthServer_PlayerInfo =
  pi_playerId :: u32
  pi_playerName :: st_string
  pi_avatarModel :: st_string
  pi_explorer :: u32

definition PlayerInfo_new :: AuthServer_PlayerInfo where
  "PlayerInfo_new = \<lparr>pi_playerId = 0, pi_playerName = [], pi_avatarModel = [], pi_explorer = 1\<rparr>"

record AuthServer_AgeInfo =
  ag_ageId :: Uuid
  ag_parentId :: Uuid
  ag_filename :: st_string
  ag_instName :: st_string
  ag_userName :: st_string
  ag_description :: st_string
  ag_seqNumber :: u32
  ag_language :: u32

definition AgeInfo_new :: AuthServer_AgeInfo where
  "AgeInfo_new = \<lparr>ag_ageId = Uuid_null, ag_parentId = Uuid_null, ag_filename = [], ag_instName = [], ag_userName = [],
     ag_description = [], ag_seqNumber = 0, ag_language = - 1\<rparr>"

record NodeRef =
  nr_parent :: u32
  nr_child :: u32
  nr_owner :: u32

record NetAgeInfo =
  na_instance :: Uuid
  na_instancename :: st_string
  na_username :: st_string
  na_description :: st_string
  na_sequence :: u32
  na_language :: u32
  na_curPopulation :: u32
  na_population :: u32

record GameScore =
  sc_scoreId :: u32
  sc_owner :: u32
  sc_createTime :: u32
  sc_type :: u32
  sc_points :: u32

record Auth_LoginInfo =
  li_clientChallenge :: u32
  li_acctName :: st_string
  li_passHash :: ShaHash
  li_token :: st_string
  li_os :: st_string
  li_billingType :: u32
  li_players :: "AuthServer_PlayerInfo list"

record Auth_AgeCreate =
  cr_age :: AuthServer_AgeInfo
  cr_ageIdx :: u32
  cr_infoIdx :: u32

record Auth_NodeInfo =
  ni_node :: Node
  ni_revision :: Uuid
  ni_internal :: bool

record Auth_NodeSend =
  nd_nodeIdx :: u32
  nd_playerIdx :: u32
  nd_senderIdx :: u32

record Auth_NodeRefList =
  rl_nodeId :: u32
  rl_refs :: "NodeRef list"

record Auth_NodeFindList =
  fl_template :: Node
  fl_nodes :: "u32 list"

record Auth_GameAge =
  gg_name :: st_string
  gg_instanceId :: Uuid
  gg_mcpId :: u32
  gg_ageNodeIdx :: u32
  gg_serverAddress :: u32

record Auth_PubAgeRequest =
  pa_agename :: st_string
  pa_ages :: "NetAgeInfo list"

record Auth_CreateScore =
  cs_scoreId :: u32
  cs_owner :: u32
  cs_name :: st_string
  cs_type :: u32
  cs_points :: u32

record Auth_GetScores =
  gt_owner :: u32
  gt_name :: st_string
  gt_scores :: "GameScore list"

record Auth_UpdateScore =
  us_scoreId :: u32
  us_points :: u32

record Auth_TransferScore =
  ts_srcScoreId :: u32
  ts_dstScoreId :: u32
  ts_points :: u32

record Auth_UpdateAgeSrv =
  ua_playerId :: u32
  ua_ageNodeId :: u32
  ua_isAdmin :: bool

record Auth_AccountFlags =
  af_acctName :: st_string
  af_flags :: u32

record Auth_FetchSDL =
  fs_ageFilename :: st_string
  fs_sdlNodeId :: u32
  fs_localState :: bytes
  fs_globalState :: State

record Auth_UpdateGlobalSDL =
  ug_ageFilename :: st_string
  ug_variable :: st_string
  ug_value :: st_string

text \<open>The messages of the daemon's channel with what their payload holds besides the client.\<close>

datatype auth_request =
    e_AuthShutdown
  | e_AuthClientLogin Auth_LoginInfo
  | e_AuthSetPlayer
  | e_AuthCreatePlayer AuthServer_PlayerInfo
  | e_AuthDeletePlayer u32
  | e_VaultCreateNode Auth_NodeInfo
  | e_VaultFetchNode Auth_NodeInfo
  | e_VaultUpdateNode Auth_NodeInfo
  | e_VaultRefNode NodeRef
  | e_VaultUnrefNode NodeRef
  | e_VaultFetchNodeTree Auth_NodeRefList
  | e_VaultFindNode Auth_NodeFindList
  | e_VaultSendNode Auth_NodeSend
  | e_VaultInitAge Auth_AgeCreate
  | e_AuthFindGameServer Auth_GameAge
  | e_AuthDisconnect
  | e_AuthAddAcct st_string st_string
  | e_AuthGetPublic Auth_PubAgeRequest
  | e_AuthSetPublic u32 byte
  | e_AuthCreateScore Auth_CreateScore
  | e_AuthGetScores Auth_GetScores
  | e_AuthAddScorePoints Auth_UpdateScore
  | e_AuthTransferScorePoints Auth_TransferScore
  | e_AuthSetScorePoints Auth_UpdateScore
  | e_AuthGetHighScores Auth_GetScores u32
  | e_AuthUpdateAgeSrv Auth_UpdateAgeSrv
  | e_AuthAcctFlags Auth_AccountFlags
  | e_AuthRestrictLogins bool
  | e_AuthAddAllPlayers u32
  | e_AuthFetchSDL Auth_FetchSDL
  | e_AuthUpdateGlobalSDL Auth_UpdateGlobalSDL

text \<open>
  A payload is an object of the thread that waits for the answer; the daemon changes it in place. \<open>None\<close>: the
  message has no payload, so nobody waits.
\<close>

record message =
  am_client :: "nat option"
  am_body :: auth_request

text \<open>
  An open stream that is sent in chunks: the size that \<open>fstat\<close> reports, if it does (of a RAM stream, its size), the octets that can be
  read, and the position.
\<close>

record download =
  dl_stat :: "nat option"
  dl_data :: bytes
  dl_pos :: nat

text \<open>
  \<open>AuthServer_Private\<close>: the channel of the results the worker waits for, the channel of the buffers to send to the
  player (message type and contents), whether the daemon has closed the socket, and the downloads. A client object of the
  console or of a game server has only the channels.
\<close>

record AuthClient =
  ac_channel :: "u32 list"
  ac_broadcast :: "(u32 \<times> bytes) list"
  ac_closed :: bool
  ac_serverChallenge :: u32
  ac_acctUuid :: Uuid
  ac_acctFlags :: u32
  ac_player :: AuthServer_PlayerInfo
  ac_ageNodeId :: u32
  ac_downloads :: "(u32 \<times> download) list"

text \<open>
  The globals of the authentication server, the database behind \<open>s_postgres\<close>, the objects of the game server in the same
  process, and the number of calls to the clock and to the generator of random numbers. The sections under \<open>s_authClientMutex\<close> never wait for anything, so each of
  them is one step and the mutex is not part of the state. \<open>s_globalStates\<close> compares its keys without regard to case.
\<close>

record 'd auth_world =
  aw_client :: "nat \<Rightarrow> AuthClient"
  aw_msg :: "nat \<Rightarrow> message"
  aw_clients :: "nat list"
  aw_channel :: "nat list"
  aw_db :: 'd
  aw_restrictLogins :: bool
  aw_globalStates :: "(st_string \<times> State) list"
  aw_systemNode :: u32
  aw_allPlayers :: u32
  aw_game :: world
  aw_calls :: nat

text \<open>
  What comes from outside: the database (a statement and its parameters, in text format, give a result and the
  database afterwards; \<open>ae_check\<close> is \<open>check_postgres\<close>, which may open the connection again), the clock, the formats and
  conversions of \<open>string_theory\<close>, \<open>EVP\<close>'s SHA-1, the resolver, the settings, and which age files can be opened.
\<close>

record 'd auth_env =
  ae_game :: game_env
  ae_st :: st_lib
  ae_exec :: "string \<Rightarrow> bytes list \<Rightarrow> 'd \<Rightarrow> pg_result \<times> 'd"
  ae_check :: "'d \<Rightarrow> 'd"
  ae_time :: "nat \<Rightarrow> int"
  ae_from_uint :: "nat \<Rightarrow> st_string"
  ae_from_int :: "int \<Rightarrow> st_string"
  ae_hex :: "nat \<Rightarrow> nat \<Rightarrow> bytes"
  ae_unbase64 :: "st_string \<Rightarrow> bytes option"
  ae_fold :: "st_string \<Rightarrow> st_string"
  ae_split1 :: "byte \<Rightarrow> st_string \<Rightarrow> st_string list"
  ae_to_bool :: "st_string \<Rightarrow> bool"
  ae_to_int :: "st_string \<Rightarrow> u32"
  ae_sha1 :: "bytes \<Rightarrow> ShaHash"
  ae_getAddress4 :: "st_string \<Rightarrow> u32"
  ae_gameServerAddress :: st_string
  ae_hoodUserName :: st_string
  ae_hoodInstanceName :: st_string
  ae_hoodPopThreshold :: u32
  ae_staticAges :: "bytes option"
  ae_isAge :: "st_string \<Rightarrow> bool"

abbreviation ae_lib :: "'d auth_env \<Rightarrow> ext_lib" where
  "ae_lib E \<equiv> game_lib (ae_game E)"

section \<open>Actions\<close>

type_synonym ('d, 'a) aact = "('d auth_world, 'a) act"

text \<open>\<open>PostgresStrings::set\<close>: a string, an unsigned or a signed number; what is passed on is the C string.\<close>

datatype sql_arg = Arg_string st_string | Arg_uint u32 | Arg_int u32

fun PostgresStrings_set :: "'d auth_env \<Rightarrow> sql_arg \<Rightarrow> bytes" where
  "PostgresStrings_set E (Arg_string str) = c_str str"
| "PostgresStrings_set E (Arg_uint value) = c_str (ae_from_uint E (unat value))"
| "PostgresStrings_set E (Arg_int value) = c_str (ae_from_int E (sint value))"

definition PQexecVA :: "'d auth_env \<Rightarrow> string \<Rightarrow> sql_arg list \<Rightarrow> ('d, pg_result) aact" where
  "PQexecVA E command args w =
     (case ae_exec E command (map (PostgresStrings_set E) args) (aw_db w) of
        (r, db) \<Rightarrow> (Inr r, w\<lparr>aw_db := db\<rparr>))"

definition check_postgres :: "'d auth_env \<Rightarrow> ('d, unit) aact" where
  "check_postgres E = amod (\<lambda>w. w\<lparr>aw_db := ae_check E (aw_db w)\<rparr>)"

text \<open>\<open>time(nullptr)\<close> in an \<open>int\<close> or \<open>uint32_t\<close>.\<close>

definition time_now :: "'d auth_env \<Rightarrow> ('d, u32) aact" where
  "time_now E w = (Inr (of_int (ae_time E (aw_calls w))), w\<lparr>aw_calls := Suc (aw_calls w)\<rparr>)"

text \<open>A column as a number, a string, a \<open>Uuid\<close> and a hash; the hash takes 40 characters without looking for the end.\<close>

definition get_text :: "pg_result \<Rightarrow> nat \<Rightarrow> nat \<Rightarrow> ('d, bytes) aact" where
  "get_text r i j = alift (PQgetvalue r i j)"

definition get_uint :: "pg_result \<Rightarrow> nat \<Rightarrow> nat \<Rightarrow> ('d, u32) aact" where
  "get_uint r i j = abind (get_text r i j) (\<lambda>s. aret (ucast (strtoul10 s)))"

definition get_int :: "pg_result \<Rightarrow> nat \<Rightarrow> nat \<Rightarrow> ('d, u32) aact" where
  "get_int r i j = abind (get_text r i j) (\<lambda>s. aret (of_int (strtol10 s)))"

definition get_string :: "'d auth_env \<Rightarrow> pg_result \<Rightarrow> nat \<Rightarrow> nat \<Rightarrow> ('d, st_string) aact" where
  "get_string E r i j =
     abind (get_text r i j) (\<lambda>s. case st_string_of (ae_st E) s of Some t \<Rightarrow> aret t | None \<Rightarrow> afail (Thrown UnicodeError))"

definition get_uuid :: "pg_result \<Rightarrow> nat \<Rightarrow> nat \<Rightarrow> ('d, Uuid) aact" where
  "get_uuid r i j = abind (get_text r i j) (\<lambda>s. alift (Uuid_parse s))"

definition get_hash :: "pg_result \<Rightarrow> nat \<Rightarrow> nat \<Rightarrow> ('d, ShaHash) aact" where
  "get_hash r i j =
     abind (get_text r i j) (\<lambda>s. if length s < 40 then afail (Thrown UndefinedBehaviour) else aret (ShaHash_parse s))"

definition Base64Decode :: "'d auth_env \<Rightarrow> st_string \<Rightarrow> ds_error + bytes" where
  "Base64Decode E value = (case ae_unbase64 E value of None \<Rightarrow> Inl MalformedData | Some b \<Rightarrow> Inr b)"

definition get_blob :: "'d auth_env \<Rightarrow> pg_result \<Rightarrow> nat \<Rightarrow> nat \<Rightarrow> ('d, bytes) aact" where
  "get_blob E r i j = abind (get_string E r i j) (\<lambda>s. alift (Base64Decode E s))"

definition uuid_arg :: "'d auth_env \<Rightarrow> Uuid \<Rightarrow> sql_arg" where
  "uuid_arg E u = Arg_string (Uuid_toString (ae_hex E) u False)"

definition blob_arg :: "'d auth_env \<Rightarrow> bytes \<Rightarrow> sql_arg" where
  "blob_arg E b = Arg_string (ge_base64 (ae_game E) b)"

text \<open>Objects, replies (\<open>SEND_REPLY\<close>) and the objects of the game server.\<close>

definition the_client :: "nat \<Rightarrow> ('d, AuthClient) aact" where
  "the_client c = aget (\<lambda>w. aw_client w c)"

definition set_client :: "nat \<Rightarrow> (AuthClient \<Rightarrow> AuthClient) \<Rightarrow> ('d, unit) aact" where
  "set_client c f = amod (\<lambda>w. w\<lparr>aw_client := (aw_client w)(c := f (aw_client w c))\<rparr>)"

definition store :: "nat \<Rightarrow> auth_request \<Rightarrow> ('d, unit) aact" where
  "store p body = amod (\<lambda>w. w\<lparr>aw_msg := (aw_msg w)(p := (aw_msg w p)\<lparr>am_body := body\<rparr>)\<rparr>)"

definition answer :: "nat \<Rightarrow> u32 \<Rightarrow> ('d, unit) aact" where
  "answer c result = set_client c (\<lambda>k. k\<lparr>ac_channel := ac_channel k @ [result]\<rparr>)"

definition on_game :: "'a gact \<Rightarrow> ('d, 'a) aact" where
  "on_game a w = (case a (aw_game w) of (r, g) \<Rightarrow> (r, w\<lparr>aw_game := g\<rparr>))"

text \<open>A loop that stops at the first failure, collecting values.\<close>

fun acollect :: "('s, 'a) act list \<Rightarrow> ('s, 'a list) act" where
  "acollect [] = aret []"
| "acollect (a # as) = abind a (\<lambda>x. abind (acollect as) (\<lambda>xs. aret (x # xs)))"

end
