(* ===== verification/Vault_Store.thy ===== *)
theory Vault_Store
  imports Auth_State
begin

unbundle bit_operations_syntax

text \<open>
  The vault as it is kept in the database, \<open>AuthServ/AuthVault.cpp\<close>: nodes are written as statements whose text
  is put together in a buffer on the stack, and read from the rows of a query; ages and players are trees of such nodes.
  The statements always fit the buffer, and a node is read back from the row its statement makes.
\<close>

section \<open>Fields of a node\<close>

text \<open>\<open>NODE_FIELD\<close>: the setters note in \<open>m_fields\<close> that a field is there.\<close>

definition node_set :: "nat \<Rightarrow> (Node \<Rightarrow> Node) \<Rightarrow> Node \<Rightarrow> Node" where
  "node_set k f n = (f n)\<lparr>vn_fields := vn_fields n OR push_bit k 1\<rparr>"

definition set_NodeIdx :: "u32 \<Rightarrow> Node \<Rightarrow> Node" where
  "set_NodeIdx v = node_set 0 (\<lambda>n. n\<lparr>vn_NodeIdx := v\<rparr>)"

definition set_CreateTime :: "u32 \<Rightarrow> Node \<Rightarrow> Node" where
  "set_CreateTime v = node_set 1 (\<lambda>n. n\<lparr>vn_CreateTime := v\<rparr>)"

definition set_ModifyTime :: "u32 \<Rightarrow> Node \<Rightarrow> Node" where
  "set_ModifyTime v = node_set 2 (\<lambda>n. n\<lparr>vn_ModifyTime := v\<rparr>)"

definition set_CreateAgeName :: "st_string \<Rightarrow> Node \<Rightarrow> Node" where
  "set_CreateAgeName v = node_set 3 (\<lambda>n. n\<lparr>vn_CreateAgeName := v\<rparr>)"

definition set_CreateAgeUuid :: "Uuid \<Rightarrow> Node \<Rightarrow> Node" where
  "set_CreateAgeUuid v = node_set 4 (\<lambda>n. n\<lparr>vn_CreateAgeUuid := v\<rparr>)"

definition set_CreatorUuid :: "Uuid \<Rightarrow> Node \<Rightarrow> Node" where
  "set_CreatorUuid v = node_set 5 (\<lambda>n. n\<lparr>vn_CreatorUuid := v\<rparr>)"

definition set_CreatorIdx :: "u32 \<Rightarrow> Node \<Rightarrow> Node" where
  "set_CreatorIdx v = node_set 6 (\<lambda>n. n\<lparr>vn_CreatorIdx := v\<rparr>)"

definition set_NodeType :: "u32 \<Rightarrow> Node \<Rightarrow> Node" where
  "set_NodeType v = node_set 7 (\<lambda>n. n\<lparr>vn_NodeType := v\<rparr>)"

definition set_Int32_1 :: "u32 \<Rightarrow> Node \<Rightarrow> Node" where
  "set_Int32_1 v = node_set 8 (\<lambda>n. n\<lparr>vn_Int32_1 := v\<rparr>)"

definition set_Int32_2 :: "u32 \<Rightarrow> Node \<Rightarrow> Node" where
  "set_Int32_2 v = node_set 9 (\<lambda>n. n\<lparr>vn_Int32_2 := v\<rparr>)"

definition set_Int32_3 :: "u32 \<Rightarrow> Node \<Rightarrow> Node" where
  "set_Int32_3 v = node_set 10 (\<lambda>n. n\<lparr>vn_Int32_3 := v\<rparr>)"

definition set_Int32_4 :: "u32 \<Rightarrow> Node \<Rightarrow> Node" where
  "set_Int32_4 v = node_set 11 (\<lambda>n. n\<lparr>vn_Int32_4 := v\<rparr>)"

definition set_Uint32_1 :: "u32 \<Rightarrow> Node \<Rightarrow> Node" where
  "set_Uint32_1 v = node_set 12 (\<lambda>n. n\<lparr>vn_Uint32_1 := v\<rparr>)"

definition set_Uint32_2 :: "u32 \<Rightarrow> Node \<Rightarrow> Node" where
  "set_Uint32_2 v = node_set 13 (\<lambda>n. n\<lparr>vn_Uint32_2 := v\<rparr>)"

definition set_Uint32_3 :: "u32 \<Rightarrow> Node \<Rightarrow> Node" where
  "set_Uint32_3 v = node_set 14 (\<lambda>n. n\<lparr>vn_Uint32_3 := v\<rparr>)"

definition set_Uint32_4 :: "u32 \<Rightarrow> Node \<Rightarrow> Node" where
  "set_Uint32_4 v = node_set 15 (\<lambda>n. n\<lparr>vn_Uint32_4 := v\<rparr>)"

definition set_Uuid_1 :: "Uuid \<Rightarrow> Node \<Rightarrow> Node" where
  "set_Uuid_1 v = node_set 16 (\<lambda>n. n\<lparr>vn_Uuid_1 := v\<rparr>)"

definition set_Uuid_2 :: "Uuid \<Rightarrow> Node \<Rightarrow> Node" where
  "set_Uuid_2 v = node_set 17 (\<lambda>n. n\<lparr>vn_Uuid_2 := v\<rparr>)"

definition set_Uuid_3 :: "Uuid \<Rightarrow> Node \<Rightarrow> Node" where
  "set_Uuid_3 v = node_set 18 (\<lambda>n. n\<lparr>vn_Uuid_3 := v\<rparr>)"

definition set_Uuid_4 :: "Uuid \<Rightarrow> Node \<Rightarrow> Node" where
  "set_Uuid_4 v = node_set 19 (\<lambda>n. n\<lparr>vn_Uuid_4 := v\<rparr>)"

definition set_String64_1 :: "st_string \<Rightarrow> Node \<Rightarrow> Node" where
  "set_String64_1 v = node_set 20 (\<lambda>n. n\<lparr>vn_String64_1 := v\<rparr>)"

definition set_String64_2 :: "st_string \<Rightarrow> Node \<Rightarrow> Node" where
  "set_String64_2 v = node_set 21 (\<lambda>n. n\<lparr>vn_String64_2 := v\<rparr>)"

definition set_String64_3 :: "st_string \<Rightarrow> Node \<Rightarrow> Node" where
  "set_String64_3 v = node_set 22 (\<lambda>n. n\<lparr>vn_String64_3 := v\<rparr>)"

definition set_String64_4 :: "st_string \<Rightarrow> Node \<Rightarrow> Node" where
  "set_String64_4 v = node_set 23 (\<lambda>n. n\<lparr>vn_String64_4 := v\<rparr>)"

definition set_String64_5 :: "st_string \<Rightarrow> Node \<Rightarrow> Node" where
  "set_String64_5 v = node_set 24 (\<lambda>n. n\<lparr>vn_String64_5 := v\<rparr>)"

definition set_String64_6 :: "st_string \<Rightarrow> Node \<Rightarrow> Node" where
  "set_String64_6 v = node_set 25 (\<lambda>n. n\<lparr>vn_String64_6 := v\<rparr>)"

definition set_IString64_1 :: "st_string \<Rightarrow> Node \<Rightarrow> Node" where
  "set_IString64_1 v = node_set 26 (\<lambda>n. n\<lparr>vn_IString64_1 := v\<rparr>)"

definition set_IString64_2 :: "st_string \<Rightarrow> Node \<Rightarrow> Node" where
  "set_IString64_2 v = node_set 27 (\<lambda>n. n\<lparr>vn_IString64_2 := v\<rparr>)"

definition set_Text_1 :: "st_string \<Rightarrow> Node \<Rightarrow> Node" where
  "set_Text_1 v = node_set 28 (\<lambda>n. n\<lparr>vn_Text_1 := v\<rparr>)"

definition set_Text_2 :: "st_string \<Rightarrow> Node \<Rightarrow> Node" where
  "set_Text_2 v = node_set 29 (\<lambda>n. n\<lparr>vn_Text_2 := v\<rparr>)"

definition set_Blob_1 :: "bytes \<Rightarrow> Node \<Rightarrow> Node" where
  "set_Blob_1 v = node_set 30 (\<lambda>n. n\<lparr>vn_Blob_1 := v\<rparr>)"

definition set_Blob_2 :: "bytes \<Rightarrow> Node \<Rightarrow> Node" where
  "set_Blob_2 v = node_set 31 (\<lambda>n. n\<lparr>vn_Blob_2 := v\<rparr>)"

definition Node_clear :: "Node \<Rightarrow> Node" where
  "Node_clear n = n\<lparr>vn_fields := 0\<rparr>"

definition Node_isNull :: "Node \<Rightarrow> bool" where
  "Node_isNull n \<longleftrightarrow> vn_fields n = 0"

text \<open>A new node: the numbers hold what the memory held.\<close>

definition junk_u32 :: "ext_lib \<Rightarrow> nat \<Rightarrow> u32" where
  "junk_u32 L i = le_word (map (uninit L) [4 * i..<4 * i + 4])"

definition fresh_node :: "ext_lib \<Rightarrow> Node" where
  "fresh_node L = Node_new\<lparr>vn_NodeIdx := junk_u32 L 0, vn_CreateTime := junk_u32 L 1, vn_ModifyTime := junk_u32 L 2,
     vn_CreatorIdx := junk_u32 L 3, vn_NodeType := junk_u32 L 4, vn_Int32_1 := junk_u32 L 5, vn_Int32_2 := junk_u32 L 6,
     vn_Int32_3 := junk_u32 L 7, vn_Int32_4 := junk_u32 L 8, vn_Uint32_1 := junk_u32 L 9, vn_Uint32_2 := junk_u32 L 10,
     vn_Uint32_3 := junk_u32 L 11, vn_Uint32_4 := junk_u32 L 12\<rparr>"

section \<open>Statements for nodes\<close>

text \<open>\<open>sprintf\<close>'s \<open>%zu\<close>.\<close>

fun decimal_digits :: "nat \<Rightarrow> string" where
  "decimal_digits n = (if n < 10 then [char_of (48 + n)] else decimal_digits (n div 10) @ [char_of (48 + n mod 10)])"

declare decimal_digits.simps [simp del]

text \<open>
  The columns in the order of the \<open>SET_FIELD\<close> lines, with the bit that says whether the field is there. The columns a
  statement has are those whose bit is set.
\<close>

definition node_columns :: "'d auth_env \<Rightarrow> Node \<Rightarrow> (nat \<times> string \<times> sql_arg) list" where
  "node_columns E n =
     [(3, ''CreateAgeName'', Arg_string (vn_CreateAgeName n)),
      (4, ''CreateAgeUuid'', uuid_arg E (vn_CreateAgeUuid n)),
      (5, ''CreatorUuid'', uuid_arg E (vn_CreatorUuid n)), (6, ''CreatorIdx'', Arg_uint (vn_CreatorIdx n)),
      (7, ''NodeType'', Arg_int (vn_NodeType n)), (8, ''Int32_1'', Arg_int (vn_Int32_1 n)),
      (9, ''Int32_2'', Arg_int (vn_Int32_2 n)), (10, ''Int32_3'', Arg_int (vn_Int32_3 n)),
      (11, ''Int32_4'', Arg_int (vn_Int32_4 n)), (12, ''Uint32_1'', Arg_uint (vn_Uint32_1 n)),
      (13, ''Uint32_2'', Arg_uint (vn_Uint32_2 n)), (14, ''Uint32_3'', Arg_uint (vn_Uint32_3 n)),
      (15, ''Uint32_4'', Arg_uint (vn_Uint32_4 n)), (16, ''Uuid_1'', uuid_arg E (vn_Uuid_1 n)),
      (17, ''Uuid_2'', uuid_arg E (vn_Uuid_2 n)), (18, ''Uuid_3'', uuid_arg E (vn_Uuid_3 n)),
      (19, ''Uuid_4'', uuid_arg E (vn_Uuid_4 n)), (20, ''String64_1'', Arg_string (vn_String64_1 n)),
      (21, ''String64_2'', Arg_string (vn_String64_2 n)), (22, ''String64_3'', Arg_string (vn_String64_3 n)),
      (23, ''String64_4'', Arg_string (vn_String64_4 n)), (24, ''String64_5'', Arg_string (vn_String64_5 n)),
      (25, ''String64_6'', Arg_string (vn_String64_6 n)), (26, ''IString64_1'', Arg_string (vn_IString64_1 n)),
      (27, ''IString64_2'', Arg_string (vn_IString64_2 n)), (28, ''Text_1'', Arg_string (vn_Text_1 n)),
      (29, ''Text_2'', Arg_string (vn_Text_2 n)), (30, ''Blob_1'', blob_arg E (vn_Blob_1 n)),
      (31, ''Blob_2'', blob_arg E (vn_Blob_2 n))]"

definition fields_set :: "Node \<Rightarrow> (nat \<times> string \<times> sql_arg) list \<Rightarrow> (string \<times> sql_arg) list" where
  "fields_set n cols = map snd (filter (\<lambda>(k, _). bit (vn_fields n) k) cols)"

text \<open>
  A run of \<open>SET_FIELD\<close> lines: a parameter is stored in an array of \<open>cap\<close> strings and \<open>sprintf\<close> appends to
  \<open>char fieldbuf[1024]\<close>; \<open>fmt\<close> gets the number of the parameter, counted from 1.
\<close>

fun SET_FIELDS :: "nat \<Rightarrow> (nat \<Rightarrow> string \<Rightarrow> string) \<Rightarrow> (string \<times> sql_arg) list \<Rightarrow> string \<times> sql_arg list
    \<Rightarrow> ds_error + string \<times> sql_arg list" where
  "SET_FIELDS cap fmt [] (buf, parms) = Inr (buf, parms)"
| "SET_FIELDS cap fmt ((name, v) # cols) (buf, parms) =
     (let text = fmt (Suc (length parms)) name
      in if length parms < cap \<and> length buf + length text < 1024
         then SET_FIELDS cap fmt cols (buf @ text, parms @ [v])
         else Inl UndefinedBehaviour)"

fun sprintf_params :: "nat \<Rightarrow> nat \<Rightarrow> string \<Rightarrow> ds_error + string" where
  "sprintf_params 0 i buf = Inr buf"
| "sprintf_params (Suc k) i buf =
     (let text = ''$'' @ decimal_digits (Suc i) @ '',''
      in if length buf + length text < 1024 then sprintf_params k (Suc i) (buf @ text) else Inl UndefinedBehaviour)"

definition create_field :: "nat \<Rightarrow> string \<Rightarrow> string" where
  "create_field i name = [CHR 0x22] @ name @ [CHR 0x22] @ '',''"

definition update_field :: "nat \<Rightarrow> string \<Rightarrow> string" where
  "update_field i name = [CHR 0x22] @ name @ [CHR 0x22] @ ''=$'' @ decimal_digits i @ '',''"

text \<open>\<open>SET_FIELD_I\<close> is used for the two columns that compare without regard to case.\<close>

definition find_field :: "nat \<Rightarrow> string \<Rightarrow> string" where
  "find_field i name =
     (if name = ''IString64_1'' \<or> name = ''IString64_2''
      then ''LOWER('' @ [CHR 0x22] @ name @ [CHR 0x22] @ '')=LOWER($'' @ decimal_digits i @ '') AND ''
      else [CHR 0x22] @ name @ [CHR 0x22] @ ''=$'' @ decimal_digits i @ '' AND '')"

definition insert_text :: "string \<Rightarrow> string \<Rightarrow> string" where
  "insert_text columns params =
     ''INSERT INTO vault.'' @ [CHR 0x22] @ ''Nodes'' @ [CHR 0x22] @ '' ('' @ butlast columns @ '')'' @
     ''\<newline>    VALUES ('' @ butlast params @ '')'' @ ''\<newline>    RETURNING idx''"

definition update_text :: "string \<Rightarrow> string" where
  "update_text columns =
     ''UPDATE vault.'' @ [CHR 0x22] @ ''Nodes'' @ [CHR 0x22] @ ''\<newline>    SET '' @ butlast columns @ ''\<newline>    WHERE idx=$1''"

definition find_text :: "string \<Rightarrow> string" where
  "find_text columns =
     ''SELECT idx FROM vault.'' @ [CHR 0x22] @ ''Nodes'' @ [CHR 0x22] @ ''\<newline>    WHERE '' @ take (length columns - 5) columns"

definition DS_ASSERT :: "bool \<Rightarrow> ('s, unit) act" where
  "DS_ASSERT cond = (if cond then aret () else afail (Thrown AssertionFailure))"

definition v_create_node :: "'d auth_env \<Rightarrow> Node \<Rightarrow> ('d, u32) aact" where
  "v_create_node E node =
     abind (time_now E) (\<lambda>now.
     abind (alift (SET_FIELDS 31 create_field
        ([(''CreateTime'', Arg_int now), (''ModifyTime'', Arg_int now)] @ fields_set node (node_columns E node)) ([], [])))
       (\<lambda>(columns, parms).
     athen (DS_ASSERT (columns \<noteq> [] \<and> length columns < 1024))
     (abind (alift (sprintf_params (length parms) 0 [])) (\<lambda>params.
     athen (DS_ASSERT (params \<noteq> [] \<and> length params < 1024))
     (athen (check_postgres E)
     (abind (PQexecVA E (insert_text columns params) parms) (\<lambda>result.
        if \<not> tuples_ok result then aret 0
        else athen (DS_ASSERT (PQntuples result = 1)) (get_uint result 0 0))))))))"

definition v_update_node :: "'d auth_env \<Rightarrow> Node \<Rightarrow> ('d, bool) aact" where
  "v_update_node E node =
     abind (time_now E) (\<lambda>now.
     abind (alift (SET_FIELDS 32 update_field
        ((''ModifyTime'', Arg_int now) # fields_set node (node_columns E node)) ([], [Arg_uint (vn_NodeIdx node)])))
       (\<lambda>(columns, parms).
     athen (DS_ASSERT (columns \<noteq> [] \<and> length columns < 1024))
     (athen (check_postgres E)
     (abind (PQexecVA E (update_text columns) parms) (\<lambda>result. aret (command_ok result))))))"

definition v_find_nodes :: "'d auth_env \<Rightarrow> Node \<Rightarrow> ('d, u32 list option) aact" where
  "v_find_nodes E nodeTemplate =
     (if Node_isNull nodeTemplate then aret None
      else
        abind (alift (SET_FIELDS 31 find_field
          (fields_set nodeTemplate ((1, ''CreateTime'', Arg_uint (vn_CreateTime nodeTemplate))
             # (2, ''ModifyTime'', Arg_uint (vn_ModifyTime nodeTemplate)) # node_columns E nodeTemplate)) ([], [])))
          (\<lambda>(columns, parms).
        if parms = [] then aret None
        else
          athen (DS_ASSERT (5 \<le> length columns \<and> length columns < 1024))
          (athen (check_postgres E)
          (abind (PQexecVA E (find_text columns) parms) (\<lambda>result.
             if \<not> tuples_ok result then aret None
             else abind (acollect (map (\<lambda>i. get_uint result i 0) [0..<PQntuples result])) (\<lambda>nodes. aret (Some nodes)))))))"

section \<open>Reading a node\<close>

definition always :: "(pg_result \<Rightarrow> nat \<Rightarrow> nat \<Rightarrow> ('d, 'v) aact) \<Rightarrow> ('v \<Rightarrow> Node \<Rightarrow> Node) \<Rightarrow> pg_result \<Rightarrow> nat \<Rightarrow> Node
    \<Rightarrow> ('d, Node) aact" where
  "always get put r j n = abind (get r 0 j) (\<lambda>v. aret (put v n))"

definition unless_null :: "(pg_result \<Rightarrow> nat \<Rightarrow> nat \<Rightarrow> ('d, 'v) aact) \<Rightarrow> ('v \<Rightarrow> Node \<Rightarrow> Node) \<Rightarrow> pg_result \<Rightarrow> nat \<Rightarrow> Node
    \<Rightarrow> ('d, Node) aact" where
  "unless_null get put r j n = (if PQgetisnull r 0 j then aret n else always get put r j n)"

fun apipe :: "('a \<Rightarrow> ('s, 'a) act) list \<Rightarrow> 'a \<Rightarrow> ('s, 'a) act" where
  "apipe [] x = aret x"
| "apipe (f # fs) x = abind (f x) (apipe fs)"

definition read_row :: "'d auth_env \<Rightarrow> pg_result \<Rightarrow> (Node \<Rightarrow> ('d, Node) aact) list" where
  "read_row E r =
        [always get_uint set_NodeIdx r 0, always get_uint set_CreateTime r 1, always get_uint set_ModifyTime r 2,
         unless_null (get_string E) set_CreateAgeName r 3, unless_null get_uuid set_CreateAgeUuid r 4,
         unless_null get_uuid set_CreatorUuid r 5, unless_null get_uint set_CreatorIdx r 6,
         always get_uint set_NodeType r 7, unless_null get_int set_Int32_1 r 8,
         unless_null get_int set_Int32_2 r 9, unless_null get_int set_Int32_3 r 10,
         unless_null get_int set_Int32_4 r 11, unless_null get_uint set_Uint32_1 r 12,
         unless_null get_uint set_Uint32_2 r 13, unless_null get_uint set_Uint32_3 r 14,
         unless_null get_uint set_Uint32_4 r 15, unless_null get_uuid set_Uuid_1 r 16,
         unless_null get_uuid set_Uuid_2 r 17, unless_null get_uuid set_Uuid_3 r 18,
         unless_null get_uuid set_Uuid_4 r 19, unless_null (get_string E) set_String64_1 r 20,
         unless_null (get_string E) set_String64_2 r 21, unless_null (get_string E) set_String64_3 r 22,
         unless_null (get_string E) set_String64_4 r 23, unless_null (get_string E) set_String64_5 r 24,
         unless_null (get_string E) set_String64_6 r 25, unless_null (get_string E) set_IString64_1 r 26,
         unless_null (get_string E) set_IString64_2 r 27, unless_null (get_string E) set_Text_1 r 28,
         unless_null (get_string E) set_Text_2 r 29, unless_null (get_blob E) set_Blob_1 r 30,
         unless_null (get_blob E) set_Blob_2 r 31]"

definition v_fetch_node :: "'d auth_env \<Rightarrow> u32 \<Rightarrow> ('d, Node) aact" where
  "v_fetch_node E nodeIdx =
     abind (PQexecVA E sql_Fetch_node [Arg_uint nodeIdx]) (\<lambda>result.
       if \<not> tuples_ok result \<or> PQntuples result = 0 then aret (fresh_node (ae_lib E))
       else apipe (read_row E result) (fresh_node (ae_lib E)))"

section \<open>References\<close>

definition v_has_node :: "'d auth_env \<Rightarrow> u32 \<Rightarrow> u32 \<Rightarrow> ('d, bool) aact" where
  "v_has_node E parentId childId =
     (if parentId = 0 then aret False
      else if parentId = childId then aret True
      else athen (check_postgres E)
        (abind (PQexecVA E sql_Has_node [Arg_uint parentId, Arg_uint childId]) (\<lambda>result.
           if \<not> tuples_ok result then aret False
           else athen (DS_ASSERT (PQntuples result = 1))
             (abind (get_text result 0 0) (\<lambda>s. aret (take 1 s = [116]))))))"

definition v_ref_node :: "'d auth_env \<Rightarrow> u32 \<Rightarrow> u32 \<Rightarrow> u32 \<Rightarrow> ('d, bool) aact" where
  "v_ref_node E parentIdx childIdx ownerIdx =
     abind (PQexecVA E sql_Add_ref [Arg_uint parentIdx, Arg_uint childIdx, Arg_uint ownerIdx]) (\<lambda>result.
       aret (command_ok result))"

definition v_unref_node :: "'d auth_env \<Rightarrow> u32 \<Rightarrow> u32 \<Rightarrow> ('d, bool) aact" where
  "v_unref_node E parentIdx childIdx =
     abind (PQexecVA E sql_Remove_ref [Arg_uint parentIdx, Arg_uint childIdx]) (\<lambda>result. aret (command_ok result))"

definition get_ref :: "pg_result \<Rightarrow> nat \<Rightarrow> ('d, NodeRef) aact" where
  "get_ref r i =
     abind (get_uint r i 0) (\<lambda>parent. abind (get_uint r i 1) (\<lambda>child. abind (get_uint r i 2) (\<lambda>owner.
       aret \<lparr>nr_parent = parent, nr_child = child, nr_owner = owner\<rparr>)))"

definition v_fetch_tree :: "'d auth_env \<Rightarrow> u32 \<Rightarrow> ('d, NodeRef list option) aact" where
  "v_fetch_tree E nodeId =
     abind (PQexecVA E sql_Fetch_tree [Arg_uint nodeId]) (\<lambda>result.
       if \<not> tuples_ok result then aret None
       else abind (acollect (map (get_ref result) [0..<PQntuples result])) (\<lambda>refs. aret (Some refs)))"

text \<open>1 is \<open>e_InboxFolder\<close>, 19 \<open>e_AgeOwnersFolder\<close>.\<close>

definition v_send_node :: "'d auth_env \<Rightarrow> u32 \<Rightarrow> u32 \<Rightarrow> u32 \<Rightarrow> ('d, NodeRef) aact" where
  "v_send_node E nodeId player senderId =
     (let none = \<lparr>nr_parent = 0, nr_child = 0, nr_owner = 0\<rparr>
      in abind (PQexecVA E sql_Find_folder [Arg_uint player, Arg_int 1]) (\<lambda>result.
           if \<not> tuples_ok result \<or> PQntuples result = 0 then aret none
           else abind (get_uint result 0 0) (\<lambda>inbox.
             abind (v_ref_node E inbox nodeId senderId) (\<lambda>ok.
               aret (if ok then \<lparr>nr_parent = inbox, nr_child = nodeId, nr_owner = senderId\<rparr> else none)))))"

definition v_count_age_owners :: "'d auth_env \<Rightarrow> u32 \<Rightarrow> ('d, u32) aact" where
  "v_count_age_owners E ageInfoId =
     abind (PQexecVA E sql_Find_folder [Arg_uint ageInfoId, Arg_int 19]) (\<lambda>result.
       if \<not> tuples_ok result then aret 0
       else abind (get_string E result 0 0) (\<lambda>parentIdx.
         abind (PQexecVA E sql_Count_refs [Arg_string parentIdx]) (\<lambda>result.
           if tuples_ok result then get_uint result 0 0 else aret 0)))"

definition get_age :: "'d auth_env \<Rightarrow> pg_result \<Rightarrow> nat \<Rightarrow> ('d, NetAgeInfo) aact" where
  "get_age E r i =
     abind (get_uuid r i 0) (\<lambda>inst.
     abind (get_string E r i 1) (\<lambda>instancename.
     abind (get_string E r i 2) (\<lambda>username.
     abind (get_string E r i 3) (\<lambda>description.
     abind (get_uint r i 4) (\<lambda>seqn.
     abind (get_uint r i 5) (\<lambda>lang.
     abind (get_uint r i 6) (\<lambda>curPopulation.
     abind (get_uint r i 7) (\<lambda>population.
       aret \<lparr>na_instance = inst, na_instancename = instancename, na_username = username, na_description = description,
         na_sequence = seqn, na_language = lang, na_curPopulation = curPopulation, na_population = population\<rparr>))))))))"

text \<open>23 is \<open>e_NodePlayerInfo\<close>, 33 \<open>e_NodeAgeInfo\<close>.\<close>

definition v_find_public_ages :: "'d auth_env \<Rightarrow> st_string \<Rightarrow> ('d, NetAgeInfo list option) aact" where
  "v_find_public_ages E ageFilename =
     abind (PQexecVA E sql_Public_ages [Arg_int 23, Arg_int 19, Arg_int 33, Arg_string ageFilename]) (\<lambda>result.
       if \<not> tuples_ok result then aret None
       else abind (acollect (map (get_age E result) [0..<PQntuples result])) (\<lambda>ages. aret (Some ages)))"

section \<open>The statements fit\<close>

text \<open>The names of the fields that a mask says are there, and a text put together for names numbered from \<open>i\<close>.\<close>

definition column_names :: "(nat \<times> string) list" where
  "column_names =
     [(3, ''CreateAgeName''), (4, ''CreateAgeUuid''), (5, ''CreatorUuid''), (6, ''CreatorIdx''), (7, ''NodeType''),
      (8, ''Int32_1''), (9, ''Int32_2''), (10, ''Int32_3''), (11, ''Int32_4''), (12, ''Uint32_1''), (13, ''Uint32_2''),
      (14, ''Uint32_3''), (15, ''Uint32_4''), (16, ''Uuid_1''), (17, ''Uuid_2''), (18, ''Uuid_3''), (19, ''Uuid_4''),
      (20, ''String64_1''), (21, ''String64_2''), (22, ''String64_3''), (23, ''String64_4''), (24, ''String64_5''),
      (25, ''String64_6''), (26, ''IString64_1''), (27, ''IString64_2''), (28, ''Text_1''), (29, ''Text_2''),
      (30, ''Blob_1''), (31, ''Blob_2'')]"

definition names_set :: "u64 \<Rightarrow> (nat \<times> string) list \<Rightarrow> string list" where
  "names_set fs names = map snd (filter (\<lambda>(k, _). bit fs k) names)"

definition numbered :: "(nat \<Rightarrow> string \<Rightarrow> string) \<Rightarrow> nat \<Rightarrow> string list \<Rightarrow> string" where
  "numbered fmt i names = concat (map (\<lambda>(j, name). fmt j name) (enumerate i names))"

definition placeholder :: "nat \<Rightarrow> string \<Rightarrow> string" where
  "placeholder i name = ''$'' @ decimal_digits i @ '',''"

lemma numbered_Cons: "numbered fmt i (name # names) = fmt i name @ numbered fmt (Suc i) names"
  by (simp add: numbered_def)

lemma length_decimal_digits: "n < 100 \<Longrightarrow> length (decimal_digits n) \<le> 2"
  by (simp add: decimal_digits.simps [of n] decimal_digits.simps [of "n div 10"])

lemma SET_FIELDS_fit:
  assumes "\<And>i name. i < 100 \<Longrightarrow> length (fmt i name) \<le> len name" and "cap < 99"
    and "length parms + length cols \<le> cap" and "length buf + sum_list (map (len \<circ> fst) cols) < 1024"
  shows "SET_FIELDS cap fmt cols (buf, parms) =
    Inr (buf @ numbered fmt (Suc (length parms)) (map fst cols), parms @ map snd cols)"
  using assms(3,4)
proof (induction cols arbitrary: buf parms)
  case (Cons c cols)
  obtain name v where c: "c = (name, v)" by (cases c)
  have "length (fmt (Suc (length parms)) name) \<le> len name" using Cons.prems(1) assms(2) by (intro assms(1)) simp
  then show ?case using Cons.prems Cons.IH [of "parms @ [v]" "buf @ fmt (Suc (length parms)) name"]
    by (simp add: c numbered_Cons Let_def)
qed (simp add: numbered_def)

lemma numbered_bounds:
  assumes "\<And>i name. i < 100 \<Longrightarrow> length (fmt i name) \<le> len name" and "i + length names \<le> 100"
  shows "length (numbered fmt i names) \<le> sum_list (map len names)"
  using assms(2)
proof (induction names arbitrary: i)
  case (Cons name names)
  then have "length (numbered fmt (Suc i) names) \<le> sum_list (map len names)" and "length (fmt i name) \<le> len name"
    using assms(1) [of i name] by simp_all
  then show ?case by (simp add: numbered_Cons)
qed (simp add: numbered_def)

lemma sprintf_params_fit:
  "i + length names < 99 \<Longrightarrow> length buf + 4 * length names < 1024
    \<Longrightarrow> sprintf_params (length names) i buf = Inr (buf @ numbered placeholder (Suc i) names)"
proof (induction names arbitrary: i buf)
  case (Cons name names)
  have "length (decimal_digits (Suc i)) \<le> 2" using Cons.prems(1) by (intro length_decimal_digits) simp
  then show ?case using Cons.prems Cons.IH [of "Suc i" "buf @ placeholder (Suc i) name"]
    by (simp add: numbered_Cons Let_def placeholder_def)
qed (simp add: numbered_def)

text \<open>The columns of a node are the names of its mask.\<close>

lemma column_names_of: "map (\<lambda>(k, name, v). (k, name)) (node_columns E n) = column_names"
  by (simp add: node_columns_def column_names_def)

lemma fields_set_names:
  "map fst (fields_set n cols) = names_set (vn_fields n) (map (\<lambda>(k, name, v). (k, name)) cols)"
  by (induction cols) (auto simp: fields_set_def names_set_def)

lemma sum_names_le: "sum_list (map len (names_set fs names)) \<le> sum_list (map (len \<circ> snd) names)" for len :: "string \<Rightarrow> nat"
  by (induction names) (auto simp: names_set_def)

lemma length_names_le: "length (names_set fs names) \<le> length names"
  by (simp add: names_set_def)

text \<open>How long the text for a column can be in each of the three statements.\<close>

definition find_length :: "string \<Rightarrow> nat" where
  "find_length name = length name + (if name = ''IString64_1'' \<or> name = ''IString64_2'' then 25 else 11)"

lemma field_lengths:
  "length (create_field i name) \<le> length name + 3"
  "i < 100 \<Longrightarrow> length (update_field i name) \<le> length name + 7"
  "i < 100 \<Longrightarrow> length (find_field i name) \<le> find_length name"
  using length_decimal_digits [of i]
  by (auto simp: create_field_def update_field_def find_field_def find_length_def)

lemma column_lengths:
  "length column_names = 29"
  "sum_list (map ((\<lambda>name. length name + 3) \<circ> snd) column_names) = 332"
  "sum_list (map ((\<lambda>name. length name + 7) \<circ> snd) column_names) = 448"
  "sum_list (map (find_length \<circ> snd) column_names) = 592"
  by (simp_all add: column_names_def find_length_def)

text \<open>The statements as they would be put together without a buffer.\<close>

definition insert_sql :: "u64 \<Rightarrow> string" where
  "insert_sql fs =
     (let names = [''CreateTime'', ''ModifyTime''] @ names_set fs column_names
      in insert_text (numbered create_field 1 names) (numbered placeholder 1 names))"

definition insert_args :: "'d auth_env \<Rightarrow> u32 \<Rightarrow> Node \<Rightarrow> sql_arg list" where
  "insert_args E t node = [Arg_int t, Arg_int t] @ map snd (fields_set node (node_columns E node))"

definition update_sql :: "u64 \<Rightarrow> string" where
  "update_sql fs = update_text (numbered update_field 2 (''ModifyTime'' # names_set fs column_names))"

definition update_args :: "'d auth_env \<Rightarrow> u32 \<Rightarrow> Node \<Rightarrow> sql_arg list" where
  "update_args E t node = [Arg_uint (vn_NodeIdx node), Arg_int t] @ map snd (fields_set node (node_columns E node))"

definition find_names :: "u64 \<Rightarrow> string list" where
  "find_names fs = names_set fs ((1, ''CreateTime'') # (2, ''ModifyTime'') # column_names)"

definition find_args :: "'d auth_env \<Rightarrow> Node \<Rightarrow> sql_arg list" where
  "find_args E node = map snd (fields_set node ((1, ''CreateTime'', Arg_uint (vn_CreateTime node))
     # (2, ''ModifyTime'', Arg_uint (vn_ModifyTime node)) # node_columns E node))"

lemma names_of_node: "map fst (fields_set node (node_columns E node)) = names_set (vn_fields node) column_names"
  by (simp add: fields_set_names column_names_of)

lemma SET_FIELDS_create:
  "SET_FIELDS 31 create_field
     ([(''CreateTime'', Arg_int t), (''ModifyTime'', Arg_int t)] @ fields_set node (node_columns E node)) ([], [])
   = Inr (numbered create_field 1 ([''CreateTime'', ''ModifyTime''] @ names_set (vn_fields node) column_names),
       insert_args E t node)"
proof -
  let ?cols = "[(''CreateTime'', Arg_int t), (''ModifyTime'', Arg_int t)] @ fields_set node (node_columns E node)"
  let ?len = "\<lambda>name :: string. length name + 3"
  have names: "map fst ?cols = [''CreateTime'', ''ModifyTime''] @ names_set (vn_fields node) column_names"
    by (simp add: names_of_node)
  have "length ?cols = length (map fst ?cols)" by simp
  then have len: "length ?cols \<le> 31" unfolding names using length_names_le [of "vn_fields node" column_names] column_lengths(1) by simp
  have "sum_list (map (?len \<circ> fst) ?cols) = sum_list (map ?len (map fst ?cols))" by (simp add: o_def)
  then have sum: "sum_list (map (?len \<circ> fst) ?cols) < 1024"
    unfolding names using sum_names_le [of ?len "vn_fields node" column_names] column_lengths(2) by simp
  have "SET_FIELDS 31 create_field ?cols ([], []) = Inr ([] @ numbered create_field (Suc (length ([] :: sql_arg list))) (map fst ?cols), [] @ map snd ?cols)"
    by (rule SET_FIELDS_fit [where len = ?len]) (use len sum field_lengths(1) in simp_all)
  then show ?thesis by (simp only: names insert_args_def) simp
qed

lemma SET_FIELDS_update:
  "SET_FIELDS 32 update_field ((''ModifyTime'', Arg_int t) # fields_set node (node_columns E node)) ([], [Arg_uint (vn_NodeIdx node)])
   = Inr (numbered update_field 2 (''ModifyTime'' # names_set (vn_fields node) column_names), update_args E t node)"
proof -
  let ?cols = "(''ModifyTime'', Arg_int t) # fields_set node (node_columns E node)"
  let ?len = "\<lambda>name :: string. length name + 7"
  have names: "map fst ?cols = ''ModifyTime'' # names_set (vn_fields node) column_names" by (simp add: names_of_node)
  have "length ?cols = length (map fst ?cols)" by simp
  then have len: "length ?cols \<le> 30" unfolding names using length_names_le [of "vn_fields node" column_names] column_lengths(1) by simp
  have "sum_list (map (?len \<circ> fst) ?cols) = sum_list (map ?len (map fst ?cols))" by (simp add: o_def)
  then have sum: "sum_list (map (?len \<circ> fst) ?cols) < 1024"
    unfolding names using sum_names_le [of ?len "vn_fields node" column_names] column_lengths(3) by simp
  have "SET_FIELDS 32 update_field ?cols ([], [Arg_uint (vn_NodeIdx node)])
      = Inr ([] @ numbered update_field (Suc (length [Arg_uint (vn_NodeIdx node)])) (map fst ?cols), [Arg_uint (vn_NodeIdx node)] @ map snd ?cols)"
    by (rule SET_FIELDS_fit [where len = ?len]) (use len sum field_lengths(2) in simp_all)
  then show ?thesis by (simp only: names update_args_def) (simp add: numeral_2_eq_2)
qed

lemma SET_FIELDS_find:
  "SET_FIELDS 31 find_field
     (fields_set node ((1, ''CreateTime'', Arg_uint (vn_CreateTime node))
        # (2, ''ModifyTime'', Arg_uint (vn_ModifyTime node)) # node_columns E node)) ([], [])
   = Inr (numbered find_field 1 (find_names (vn_fields node)), find_args E node)"
proof -
  let ?all = "(1, ''CreateTime'', Arg_uint (vn_CreateTime node)) # (2, ''ModifyTime'', Arg_uint (vn_ModifyTime node)) # node_columns E node"
  let ?cols = "fields_set node ?all"
  have names: "map fst ?cols = find_names (vn_fields node)"
    by (simp only: fields_set_names find_names_def list.map column_names_of prod.case)
  have "length ?cols = length (map fst ?cols)" by simp
  then have len: "length ?cols \<le> 31" unfolding names find_names_def
    using length_names_le [of "vn_fields node" "(1, ''CreateTime'') # (2, ''ModifyTime'') # column_names"] column_lengths(1) by simp
  have "sum_list (map (find_length \<circ> fst) ?cols) = sum_list (map find_length (map fst ?cols))" by (simp add: o_def)
  also have "\<dots> \<le> sum_list (map (find_length \<circ> snd) ((1, ''CreateTime'') # (2, ''ModifyTime'') # column_names))"
    unfolding names find_names_def by (rule sum_names_le)
  also have "\<dots> < 1024" by (simp add: column_lengths(4) [unfolded o_def] o_def) (simp add: find_length_def)
  finally have sum: "sum_list (map (find_length \<circ> fst) ?cols) < 1024" .
  have "SET_FIELDS 31 find_field ?cols ([], []) = Inr ([] @ numbered find_field (Suc (length ([] :: sql_arg list))) (map fst ?cols), [] @ map snd ?cols)"
    by (rule SET_FIELDS_fit [where len = find_length]) (use len sum field_lengths(3) in simp_all)
  then show ?thesis by (simp only: names find_args_def) simp
qed

lemma numbered_not_Nil: "(\<And>i name. fmt i name \<noteq> []) \<Longrightarrow> names \<noteq> [] \<Longrightarrow> numbered fmt i names \<noteq> []"
  by (cases names) (simp_all add: numbered_Cons)

lemma texts_not_Nil: "create_field i name \<noteq> []" "update_field i name \<noteq> []" "find_field i name \<noteq> []" "placeholder i name \<noteq> []"
  by (simp_all add: create_field_def update_field_def find_field_def placeholder_def)

lemma assert_True: "athen (DS_ASSERT True) a = a"
  by (rule ext) (simp add: DS_ASSERT_def act_simps)

lemma create_lengths:
  assumes "names = [''CreateTime'', ''ModifyTime''] @ names_set fs column_names"
  shows "length names \<le> 31" "length (numbered create_field 1 names) < 1024" "length (numbered placeholder 1 names) < 1024"
proof -
  show names: "length names \<le> 31" using length_names_le [of fs column_names] column_lengths(1) assms by simp
  have "length (numbered create_field 1 names) \<le> sum_list (map (\<lambda>name. length name + 3) names)"
    using names by (intro numbered_bounds) (simp_all add: field_lengths(1))
  also have "\<dots> < 1024"
    using sum_names_le [of "\<lambda>name. length name + 3" fs column_names] column_lengths(2) assms by simp
  finally show "length (numbered create_field 1 names) < 1024" .
  have "length (numbered placeholder 1 names) \<le> sum_list (map (\<lambda>_. 4) names)"
  proof (rule numbered_bounds)
    show "length (placeholder i name) \<le> 4" if "i < 100" for i name
      using length_decimal_digits [OF that] by (simp add: placeholder_def)
  qed (use names in simp)
  also have "\<dots> < 1024" using names by (simp add: sum_list_triv)
  finally show "length (numbered placeholder 1 names) < 1024" .
qed

lemma v_create_node_sql:
  "v_create_node E node =
     abind (time_now E) (\<lambda>t. athen (check_postgres E)
       (abind (PQexecVA E (insert_sql (vn_fields node)) (insert_args E t node)) (\<lambda>result.
          if \<not> tuples_ok result then aret 0
          else athen (DS_ASSERT (PQntuples result = 1)) (get_uint result 0 0))))"
proof -
  define names where "names = [''CreateTime'', ''ModifyTime''] @ names_set (vn_fields node) column_names"
  note lens = create_lengths [OF names_def]
  have args: "length (insert_args E t node) = length names" for t
    using arg_cong [OF names_of_node, of length node E] by (simp add: insert_args_def names_def)
  have params: "sprintf_params (length names) 0 [] = Inr (numbered placeholder 1 names)"
    using sprintf_params_fit [of 0 names "[]"] lens(1) by simp
  have "numbered create_field 1 names \<noteq> []" "numbered placeholder 1 names \<noteq> []"
    by (simp_all add: names_def texts_not_Nil numbered_not_Nil)
  then show ?thesis
    unfolding v_create_node_def SET_FIELDS_create insert_sql_def names_def [symmetric]
    by (simp add: alift_cases abind_aret args params lens assert_True del: sprintf_params.simps One_nat_def)
qed

lemma v_update_node_sql:
  "v_update_node E node =
     abind (time_now E) (\<lambda>t. athen (check_postgres E)
       (abind (PQexecVA E (update_sql (vn_fields node)) (update_args E t node)) (\<lambda>result. aret (command_ok result))))"
proof -
  define names where "names = ''ModifyTime'' # names_set (vn_fields node) column_names"
  have "length names \<le> 30" using length_names_le [of "vn_fields node" column_names] column_lengths(1) by (simp add: names_def)
  then have "length (numbered update_field 2 names) \<le> sum_list (map (\<lambda>name. length name + 7) names)"
    by (intro numbered_bounds) (simp_all add: field_lengths(2))
  also have "\<dots> < 1024"
    using sum_names_le [of "\<lambda>name. length name + 7" "vn_fields node" column_names] column_lengths(3) by (simp add: names_def)
  finally have "length (numbered update_field 2 names) < 1024" .
  moreover have "numbered update_field 2 names \<noteq> []" by (simp add: names_def texts_not_Nil numbered_not_Nil)
  ultimately show ?thesis
    unfolding v_update_node_def SET_FIELDS_update update_sql_def names_def [symmetric]
    by (simp add: alift_cases abind_aret assert_True)
qed

lemma find_lengths:
  assumes "names = find_names fs" and "names \<noteq> []"
  shows "5 \<le> length (numbered find_field 1 names)" "length (numbered find_field 1 names) < 1024"
proof -
  obtain name names' where "names = name # names'" using assms(2) by (cases names) auto
  then show "5 \<le> length (numbered find_field 1 names)" by (simp add: numbered_Cons find_field_def)
  have "length names \<le> 31"
    using length_names_le [of fs "(1, ''CreateTime'') # (2, ''ModifyTime'') # column_names"] column_lengths(1) assms(1)
    by (simp add: find_names_def)
  then have "length (numbered find_field 1 names) \<le> sum_list (map find_length names)"
    by (intro numbered_bounds) (simp_all add: field_lengths(3))
  also have "\<dots> \<le> sum_list (map (find_length \<circ> snd) ((1, ''CreateTime'') # (2, ''ModifyTime'') # column_names))"
    unfolding assms(1) find_names_def by (rule sum_names_le)
  also have "\<dots> < 1024" by (simp add: column_lengths(4) [unfolded o_def] o_def) (simp add: find_length_def)
  finally show "length (numbered find_field 1 names) < 1024" .
qed

definition find_sql :: "u64 \<Rightarrow> string" where
  "find_sql fs = find_text (numbered find_field 1 (find_names fs))"

lemma v_find_nodes_sql:
  "v_find_nodes E node =
     (if find_names (vn_fields node) = [] then aret None
      else athen (check_postgres E)
        (abind (PQexecVA E (find_sql (vn_fields node)) (find_args E node)) (\<lambda>result.
           if \<not> tuples_ok result then aret None
           else abind (acollect (map (\<lambda>i. get_uint result i 0) [0..<PQntuples result])) (\<lambda>nodes. aret (Some nodes)))))"
proof -
  let ?all = "(1, ''CreateTime'', Arg_uint (vn_CreateTime node)) # (2, ''ModifyTime'', Arg_uint (vn_ModifyTime node)) # node_columns E node"
  have names: "map fst (fields_set node ?all) = find_names (vn_fields node)"
    by (simp only: fields_set_names find_names_def list.map column_names_of prod.case)
  then have args: "find_args E node = [] \<longleftrightarrow> find_names (vn_fields node) = []"
    using map_is_Nil_conv [of fst "fields_set node ?all"] map_is_Nil_conv [of snd "fields_set node ?all"] by (simp add: find_args_def)
  have null: "\<not> Node_isNull node" if "find_names (vn_fields node) \<noteq> []"
    using that by (auto simp: Node_isNull_def find_names_def names_set_def)
  show ?thesis
    unfolding v_find_nodes_def SET_FIELDS_find find_sql_def
    by (cases "find_names (vn_fields node) = []")
      (simp_all add: alift_cases abind_aret args null find_lengths [OF refl] assert_True del: One_nat_def)
qed

end
