(* ===== verification/Vault_Trees.thy ===== *)
theory Vault_Trees
  imports Vault_Store
begin

unbundle bit_operations_syntax

text \<open>
  Ages and players in the vault, \<open>AuthServ/AuthVault.cpp\<close>: an age is a tree of ten nodes and an entry among the
  servers, a player one of sixteen with an age of its own, and each creation stops at the first statement that fails.
  When the daemon starts it looks for the system node, the global states, the configured ages and the list of all players.
\<close>

section \<open>Small pieces\<close>

definition gen_uuid :: "'d auth_env \<Rightarrow> ('d, Uuid) aact" where
  "gen_uuid E =
     athen (check_postgres E)
     (abind (PQexecVA E sql_Uuid_generate []) (\<lambda>result.
        if \<not> tuples_ok result then aret Uuid_null
        else athen (DS_ASSERT (PQntuples result = 1)) (get_uuid result 0 0)))"

definition gen_default_sdl :: "'d auth_env \<Rightarrow> st_string \<Rightarrow> ('d, bytes) aact" where
  "gen_default_sdl E filename =
     (let S = ge_sdl (ae_game E)
      in case FindDescriptor (se_fold S) (se_db S) filename (- 1) of
           None \<Rightarrow> aret []
         | Some desc \<Rightarrow>
             abind (alift (State_new S (ge_fuel (ae_game E)) (Some desc))) (\<lambda>state.
             alift (State_toBlob (ae_lib E) state)))"

text \<open>\<open>v_create_node\<close> with a return of \<open>none\<close> when there is no node, and a row of \<open>v_ref_node\<close> that returns it likewise.\<close>

definition create_or :: "'d auth_env \<Rightarrow> 'a \<Rightarrow> Node \<Rightarrow> (u32 \<Rightarrow> ('d, 'a) aact) \<Rightarrow> ('d, 'a) aact" where
  "create_or E none node k = abind (v_create_node E node) (\<lambda>idx. if idx = 0 then aret none else k idx)"

fun refs_or :: "'d auth_env \<Rightarrow> 'a \<Rightarrow> (u32 \<times> u32) list \<Rightarrow> ('d, 'a) aact \<Rightarrow> ('d, 'a) aact" where
  "refs_or E none [] k = k"
| "refs_or E none ((parent, child) # refs) k =
     abind (v_ref_node E parent child 0) (\<lambda>ok. if ok then refs_or E none refs k else aret none)"

text \<open>A node of the tree of \<open>owner\<close>: the type, the creator and, in \<open>Int32_1\<close>, which of the standard nodes it is.\<close>

definition standard_node :: "Node \<Rightarrow> u32 \<Rightarrow> Uuid \<Rightarrow> u32 \<Rightarrow> u32 \<Rightarrow> Node" where
  "standard_node node type creator owner kind =
     set_Int32_1 kind (set_CreatorIdx owner (set_CreatorUuid creator (set_NodeType type (Node_clear node))))"

text \<open>
  Node types: 2 \<open>e_NodePlayer\<close>, 3 \<open>e_NodeAge\<close>, 22 \<open>e_NodeFolder\<close>, 23 \<open>e_NodePlayerInfo\<close>, 24 \<open>e_NodeSystem\<close>, 27 \<open>e_NodeSDL\<close>,
  28 \<open>e_NodeAgeLink\<close>, 30 \<open>e_NodePlayerInfoList\<close>, 33 \<open>e_NodeAgeInfo\<close>, 34 \<open>e_NodeAgeInfoList\<close>. Standard nodes: 1 inbox,
  2 buddies, 3 ignored, 4 people known about, 6 chronicle, 7 outfit, 9 sub-ages, 12 all players, 14 journals, 15 devices,
  18 can visit, 19 age owners, 23 ages owned, 24 ages to visit, 25 closet, 28 invites, 30 global inbox, 31 child ages.
\<close>

section \<open>Ages\<close>

definition age_node :: "AuthServer_AgeInfo \<Rightarrow> Node \<Rightarrow> Node" where
  "age_node age node =
     set_String64_1 (ag_filename age)
       ((if Uuid_isNull (ag_parentId age) then id else set_Uuid_2 (ag_parentId age))
          (set_Uuid_1 (ag_ageId age) (set_CreatorUuid (ag_ageId age) (set_NodeType 3 node))))"

definition age_info_node :: "AuthServer_AgeInfo \<Rightarrow> u32 \<Rightarrow> u32 \<Rightarrow> u32 \<Rightarrow> Node \<Rightarrow> Node" where
  "age_info_node age flags seqNumber ageNode node =
     ((if ag_description age = [] then id else set_Text_1 (ag_description age))
      ((if ag_userName age = [] then id else set_String64_4 (ag_userName age))
      ((if ag_instName age = [] then id else set_String64_3 (ag_instName age))
      (set_String64_2 (ag_filename age)
      ((if Uuid_isNull (ag_parentId age) then id else set_Uuid_2 (ag_parentId age))
      (set_Uuid_1 (ag_ageId age)
      (set_Uint32_3 0 (set_Uint32_2 0 (set_Uint32_1 ageNode
      (set_Int32_3 (ag_language age)
      (set_Int32_2 (if bit flags 0 then 1 else 0)
      (standard_node node 33 (ag_ageId age) ageNode seqNumber))))))))))))"

definition age_sdl_node :: "AuthServer_AgeInfo \<Rightarrow> u32 \<Rightarrow> bytes \<Rightarrow> Node \<Rightarrow> Node" where
  "age_sdl_node age ageNode blob node =
     set_Blob_1 blob (set_String64_1 (ag_filename age) (standard_node node 27 (ag_ageId age) ageNode 0))"

definition age_seqNumber :: "'d auth_env \<Rightarrow> u32 \<Rightarrow> ('d, u32 option) aact" where
  "age_seqNumber E seqNumber =
     (if sint seqNumber < 0
      then athen (check_postgres E)
        (abind (PQexecVA E sql_Age_sequence []) (\<lambda>result.
           if \<not> tuples_ok result then aret None
           else athen (DS_ASSERT (PQntuples result = 1)) (abind (get_int result 0 0) (\<lambda>n. aret (Some n)))))
      else aret (Some seqNumber))"

definition age_displayName :: "AuthServer_AgeInfo \<Rightarrow> st_string" where
  "age_displayName age =
     (if ag_description age \<noteq> [] then ag_description age
      else if ag_instName age \<noteq> [] then ag_instName age
      else ag_filename age)"

definition register_server :: "'d auth_env \<Rightarrow> AuthServer_AgeInfo \<Rightarrow> u32 \<Rightarrow> u32 \<Rightarrow> ('d, bool) aact" where
  "register_server E age ageNode ageSdlNode =
     abind (PQexecVA E sql_New_server [uuid_arg E (ag_ageId age), Arg_string (ag_filename age),
              Arg_string (age_displayName age), Arg_uint ageNode, Arg_uint ageSdlNode])
       (\<lambda>result. aret (command_ok result))"

definition v_create_age :: "'d auth_env \<Rightarrow> AuthServer_AgeInfo \<Rightarrow> u32 \<Rightarrow> ('d, u32 \<times> u32) aact" where
  "v_create_age E age0 flags =
     abind (if Uuid_isNull (ag_ageId age0) then gen_uuid E else aret (ag_ageId age0)) (\<lambda>ageId.
     let age = age0\<lparr>ag_ageId := ageId\<rparr>; node = fresh_node (ae_lib E); create = create_or E (0, 0);
         folder = (\<lambda>ageNode type kind. standard_node node type ageId ageNode kind)
     in abind (age_seqNumber E (ag_seqNumber age)) (\<lambda>seqn.
        case seqn of
          None \<Rightarrow> aret (0, 0)
        | Some seqNumber \<Rightarrow>
            create (age_node age node) (\<lambda>ageNode.
            create (folder ageNode 22 6) (\<lambda>chronFolder.
            create (folder ageNode 30 4) (\<lambda>knownFolder.
            create (folder ageNode 34 9) (\<lambda>subAgesFolder.
            create (age_info_node age flags seqNumber ageNode node) (\<lambda>ageInfoNode.
            create (folder ageNode 22 15) (\<lambda>devsFolder.
            create (folder ageNode 30 18) (\<lambda>canVisitList.
            abind (gen_default_sdl E (ag_filename age)) (\<lambda>blob.
            create (age_sdl_node age ageNode blob node) (\<lambda>ageSdlNode.
            create (folder ageNode 30 19) (\<lambda>ageOwners.
            create (folder ageNode 34 31) (\<lambda>childAges.
            abind (aget aw_systemNode) (\<lambda>systemNode.
            refs_or E (0, 0)
              [(ageNode, systemNode), (ageNode, chronFolder), (ageNode, knownFolder), (ageNode, subAgesFolder),
               (ageNode, ageInfoNode), (ageNode, devsFolder), (ageInfoNode, canVisitList), (ageInfoNode, ageSdlNode),
               (ageInfoNode, ageOwners), (ageInfoNode, childAges)]
              (abind (register_server E age ageNode ageSdlNode) (\<lambda>ok.
                 aret (if ok then (ageNode, ageInfoNode) else (0, 0))))))))))))))))))"

section \<open>Where a new player lives\<close>

fun find_hood :: "'d auth_env \<Rightarrow> pg_result \<Rightarrow> nat list \<Rightarrow> ('d, u32) aact" where
  "find_hood E r [] = aret 0"
| "find_hood E r (i # is) =
     abind (get_uint r i 0) (\<lambda>ageInfoId.
     abind (v_count_age_owners E ageInfoId) (\<lambda>owners.
       if owners < ae_hoodPopThreshold E then aret ageInfoId else find_hood E r is))"

definition new_hood :: "'d auth_env \<Rightarrow> ('d, u32) aact" where
  "new_hood E =
     abind (gen_uuid E) (\<lambda>ageId.
     abind (v_create_age E (AgeInfo_new\<lparr>ag_ageId := ageId, ag_filename := ascii ''Neighborhood'',
        ag_instName := ae_hoodInstanceName E, ag_userName := ae_hoodUserName E,
        ag_description := ae_hoodUserName E @ [32] @ ae_hoodInstanceName E, ag_seqNumber := - 1\<rparr>) 1)
       (\<lambda>(ageNode, ageInfoNode). aret ageInfoNode))"

definition find_a_friendly_neighborhood_for_our_new_visitor :: "'d auth_env \<Rightarrow> ('d, u32 \<times> u32) aact" where
  "find_a_friendly_neighborhood_for_our_new_visitor E =
     abind (PQexecVA E sql_Hoods [Arg_string (ae_hoodUserName E)]) (\<lambda>result.
       if \<not> tuples_ok result then aret (0, 0)
       else
         abind (find_hood E result [0..<PQntuples result]) (\<lambda>found.
         abind (if found = 0 then new_hood E else aret found) (\<lambda>theHoodInfo.
         abind (PQexecVA E sql_Find_folder [Arg_uint theHoodInfo, Arg_int 19]) (\<lambda>result.
           if tuples_ok result
           then abind (get_uint result 0 0) (\<lambda>ownersFolder. aret (theHoodInfo, ownersFolder))
           else aret (0, 0)))))"

definition find_public_age_1 :: "'d auth_env \<Rightarrow> st_string \<Rightarrow> Uuid \<Rightarrow> ('d, u32) aact" where
  "find_public_age_1 E filename uuid =
     abind (if Uuid_isNull uuid then PQexecVA E sql_Public_age [Arg_int 33, Arg_string filename]
            else PQexecVA E sql_Public_age_uuid [Arg_int 33, Arg_string filename, uuid_arg E uuid])
       (\<lambda>result. if tuples_ok result \<and> PQntuples result > 0 then get_uint result 0 0 else aret 0)"

section \<open>Players\<close>

definition player_node :: "Uuid \<Rightarrow> AuthServer_PlayerInfo \<Rightarrow> Node \<Rightarrow> Node" where
  "player_node acctId player node =
     set_IString64_1 (pi_playerName player) (set_String64_1 (pi_avatarModel player) (set_Uuid_1 acctId
       (set_Int32_2 (pi_explorer player) (set_CreatorUuid acctId (set_NodeType 2 node)))))"

definition player_info_node :: "Uuid \<Rightarrow> AuthServer_PlayerInfo \<Rightarrow> u32 \<Rightarrow> Node \<Rightarrow> Node" where
  "player_info_node acctId player playerIdx node =
     set_IString64_1 (pi_playerName player) (set_Uint32_1 playerIdx (set_CreatorIdx playerIdx
       (set_CreatorUuid acctId (set_NodeType 23 (Node_clear node)))))"

definition link_node :: "Uuid \<Rightarrow> u32 \<Rightarrow> string \<Rightarrow> Node \<Rightarrow> Node" where
  "link_node acctId playerIdx spawn node =
     set_Blob_1 (ascii spawn) (set_CreatorIdx playerIdx (set_CreatorUuid acctId (set_NodeType 28 (Node_clear node))))"

definition relto_of :: "AuthServer_PlayerInfo \<Rightarrow> Uuid \<Rightarrow> AuthServer_AgeInfo" where
  "relto_of player uuid =
     (let userName = pi_playerName player @ [39, 115]
      in AgeInfo_new\<lparr>ag_ageId := uuid, ag_filename := ascii ''Personal'', ag_instName := ascii ''Relto'',
           ag_userName := userName, ag_description := userName @ [32] @ ascii ''Relto''\<rparr>)"

text \<open>The owner of a new age: its list of owners gets the player.\<close>

definition own_age :: "'d auth_env \<Rightarrow> u32 \<Rightarrow> u32 \<Rightarrow> ('d, bool) aact" where
  "own_age E ageInfo playerInfoNode =
     abind (PQexecVA E sql_Find_folder [Arg_uint ageInfo, Arg_int 19]) (\<lambda>result.
       if \<not> tuples_ok result \<or> PQntuples result = 0 then aret False
       else abind (get_uint result 0 0) (\<lambda>ownerFolder. v_ref_node E ownerFolder playerInfoNode 0))"

definition v_create_player :: "'d auth_env \<Rightarrow> Uuid \<Rightarrow> AuthServer_PlayerInfo \<Rightarrow> ('d, u32 \<times> u32 \<times> u32) aact" where
  "v_create_player E acctId player =
     (let node = fresh_node (ae_lib E); create = create_or E (0, 0, 0);
          folder = (\<lambda>idx type kind. standard_node node type acctId idx kind)
      in create (player_node acctId player node) (\<lambda>playerIdx.
         create (player_info_node acctId player playerIdx node) (\<lambda>playerInfoNode.
         create (folder playerIdx 30 2) (\<lambda>buddyList.
         create (folder playerIdx 30 3) (\<lambda>ignoreList.
         create (folder playerIdx 22 28) (\<lambda>invites.
         create (folder playerIdx 34 23) (\<lambda>agesNode.
         create (folder playerIdx 22 14) (\<lambda>journals.
         create (folder playerIdx 22 6) (\<lambda>chronicles.
         create (folder playerIdx 34 24) (\<lambda>visitFolder.
         create (folder playerIdx 22 7) (\<lambda>outfit.
         create (folder playerIdx 22 25) (\<lambda>closet.
         create (folder playerIdx 22 1) (\<lambda>inbox.
         create (folder playerIdx 30 4) (\<lambda>peopleNode.
         create (link_node acctId playerIdx ''Default:LinkInPointDefault:;'' node) (\<lambda>reltoLink.
         create (link_node acctId playerIdx ''Default:LinkInPointDefault:;'' node) (\<lambda>hoodLink.
         create (link_node acctId playerIdx ''Ferry Terminal:LinkInPointFerry:;'' node) (\<lambda>cityLink.
         abind (gen_uuid E) (\<lambda>uuid.
         abind (v_create_age E (relto_of player uuid) 0) (\<lambda>reltoAge.
           if fst reltoAge = 0 then aret (0, 0, 0)
           else
             abind (own_age E (snd reltoAge) playerInfoNode) (\<lambda>owned.
             if \<not> owned then aret (0, 0, 0)
             else
               abind (find_a_friendly_neighborhood_for_our_new_visitor E) (\<lambda>hoodAge.
               if fst hoodAge = 0 then aret (0, 0, 0)
               else
                 abind (find_public_age_1 E (ascii ''city'') Uuid_null) (\<lambda>cityAge.
                 if cityAge = 0 then aret (0, 0, 0)
                 else
                   abind (aget aw_systemNode) (\<lambda>systemNode.
                   refs_or E (0, 0, 0)
                     [(playerIdx, systemNode), (playerIdx, playerInfoNode), (playerIdx, buddyList),
                      (playerIdx, ignoreList), (playerIdx, invites), (playerIdx, agesNode), (playerIdx, journals),
                      (playerIdx, chronicles), (playerIdx, visitFolder), (playerIdx, outfit), (playerIdx, closet),
                      (playerIdx, inbox), (playerIdx, peopleNode), (agesNode, reltoLink), (agesNode, hoodLink),
                      (agesNode, cityLink), (reltoLink, snd reltoAge), (hoodLink, fst hoodAge), (cityLink, cityAge),
                      (fst reltoAge, agesNode)]
                     (aret (playerIdx, playerInfoNode, snd hoodAge)))))))))))))))))))))))))"

section \<open>Start of the daemon\<close>

definition dm_vault_init :: "'d auth_env \<Rightarrow> ('d, bool) aact" where
  "dm_vault_init E =
     abind (PQexecVA E sql_System_nodes [Arg_int 24]) (\<lambda>result.
       if \<not> tuples_ok result then aret False
       else if PQntuples result = 0 then
         (let node = set_NodeType 24 (fresh_node (ae_lib E))
          in abind (v_create_node E node) (\<lambda>systemNode.
             athen (amod (\<lambda>w. w\<lparr>aw_systemNode := systemNode\<rparr>))
               (if systemNode = 0 then aret False
                else
                  abind (v_create_node E (set_Int32_1 30 (set_NodeType 22 node))) (\<lambda>globalInbox.
                    if globalInbox = 0 then aret False else v_ref_node E systemNode globalInbox 0))))
       else
         abind (get_uint result 0 0) (\<lambda>systemNode.
         athen (amod (\<lambda>w. w\<lparr>aw_systemNode := systemNode\<rparr>)) (aret True)))"

definition dm_all_players_init :: "'d auth_env \<Rightarrow> ('d, bool) aact" where
  "dm_all_players_init E =
     abind (PQexecVA E sql_All_players [Arg_int 30, Arg_int 12]) (\<lambda>result.
       if \<not> tuples_ok result then aret False
       else if PQntuples result > 0 then
         abind (get_uint result 0 0) (\<lambda>allPlayers.
         athen (amod (\<lambda>w. w\<lparr>aw_allPlayers := allPlayers\<rparr>)) (aret True))
       else
         abind (PQexecVA E sql_New_all_players [Arg_int 30, Arg_int 12]) (\<lambda>result.
           if \<not> tuples_ok result then aret False
           else
             abind (get_uint result 0 0) (\<lambda>allPlayers.
             athen (amod (\<lambda>w. w\<lparr>aw_allPlayers := allPlayers\<rparr>))
             (abind (PQexecVA E sql_Player_infos [Arg_int 23]) (\<lambda>result.
                if \<not> tuples_ok result then aret False
                else
                  athen (aseq (map (\<lambda>i. abind (get_uint result i 0) (\<lambda>player.
                           abind (v_ref_node E allPlayers player 0) (\<lambda>_. aret ()))) [0..<PQntuples result]))
                    (aret True))))))"

text \<open>The lines of \<open>static_ages.ini\<close>: 35 is \<open>#\<close>, 91 and 93 are the brackets, 61 is \<open>=\<close>.\<close>

fun static_age_lines :: "'d auth_env \<Rightarrow> bytes list \<Rightarrow> AuthServer_AgeInfo \<Rightarrow> bool \<Rightarrow> AuthServer_AgeInfo list
    \<Rightarrow> ds_error + AuthServer_AgeInfo list" where
  "static_age_lines E [] age haveAge configs = Inr (if haveAge then configs @ [age] else configs)"
| "static_age_lines E (buffer # buffers) age haveAge configs =
     (case st_string_of (ae_st E) buffer of
        None \<Rightarrow> Inl UnicodeError
      | Some s \<Rightarrow>
          let T = ae_st E; line = st_trim T (st_before_first T 35 s)
          in if line = [] then static_age_lines E buffers age haveAge configs
             else if take 1 (st_trim T line) = [91] then
               (let header = st_replace T [93] [] (st_replace T [91] [] (st_trim T line));
                    next = (if header \<noteq> ascii ''auto''
                            then (case Uuid_parse (c_str header) of
                                    Inr uuid \<Rightarrow> AgeInfo_new\<lparr>ag_ageId := uuid\<rparr> | Inl _ \<Rightarrow> AgeInfo_new)
                            else AgeInfo_new)
                in static_age_lines E buffers next True (if haveAge then configs @ [age] else configs))
             else
               (case ae_split1 E 61 line of
                  [name, value] \<Rightarrow>
                    let name = st_trim T name; value = st_trim T value;
                        age = (if name = ascii ''Filename'' then age\<lparr>ag_filename := value\<rparr>
                               else if name = ascii ''Instance'' then age\<lparr>ag_instName := value\<rparr>
                               else if name = ascii ''UserName'' then age\<lparr>ag_userName := value\<rparr>
                               else age)
                    in static_age_lines E buffers age haveAge configs
                | _ \<Rightarrow> static_age_lines E buffers age haveAge configs))"

definition configure_static_ages :: "'d auth_env \<Rightarrow> ds_error + AuthServer_AgeInfo list" where
  "configure_static_ages E =
     (case ae_staticAges E of
        None \<Rightarrow> Inr []
      | Some text \<Rightarrow> static_age_lines E (fgets_lines text) AgeInfo_new False [])"

fun check_static_ages :: "'d auth_env \<Rightarrow> AuthServer_AgeInfo list \<Rightarrow> ('d, bool) aact" where
  "check_static_ages E [] = aret True"
| "check_static_ages E (age # ages) =
     abind (find_public_age_1 E (ag_filename age) (ag_ageId age)) (\<lambda>found.
       if found \<noteq> 0 then check_static_ages E ages
       else
         abind (if Uuid_isNull (ag_ageId age) then gen_uuid E else aret (ag_ageId age)) (\<lambda>ageId.
         abind (v_create_age E (age\<lparr>ag_ageId := ageId\<rparr>) 1) (\<lambda>(ageNode, _).
           if ageNode = 0 then aret False else check_static_ages E ages)))"

definition dm_check_static_ages :: "'d auth_env \<Rightarrow> ('d, bool) aact" where
  "dm_check_static_ages E = abind (alift (configure_static_ages E)) (check_static_ages E)"

text \<open>\<open>s_globalStates\<close>: keys are compared without regard to case, and the first spelling stays.\<close>

definition global_find :: "'d auth_env \<Rightarrow> st_string \<Rightarrow> (st_string \<times> State) list \<Rightarrow> State option" where
  "global_find E name m = map_option snd (find (\<lambda>e. ae_fold E (fst e) = ae_fold E name) m)"

fun global_put :: "'d auth_env \<Rightarrow> st_string \<Rightarrow> State \<Rightarrow> (st_string \<times> State) list \<Rightarrow> (st_string \<times> State) list" where
  "global_put E name s [] = [(name, s)]"
| "global_put E name s (e # m) = (if ae_fold E (fst e) = ae_fold E name then (fst e, s) # m else e # global_put E name s m)"

definition put_global :: "'d auth_env \<Rightarrow> st_string \<Rightarrow> State \<Rightarrow> ('d, unit) aact" where
  "put_global E name s = amod (\<lambda>w. w\<lparr>aw_globalStates := global_put E name s (aw_globalStates w)\<rparr>)"

definition auth_FromBlob :: "'d auth_env \<Rightarrow> bytes \<Rightarrow> ('d, State) aact" where
  "auth_FromBlob E blob w =
     (case State_FromBlob (sdl_at (ae_game E) (aw_calls w)) (ge_fuel (ae_game E)) blob of
        Inl e \<Rightarrow> (Inl (Thrown e), w\<lparr>aw_calls := Suc (aw_calls w)\<rparr>)
      | Inr s \<Rightarrow> (Inr s, w\<lparr>aw_calls := Suc (aw_calls w)\<rparr>))"

fun state_desc :: "State \<Rightarrow> (st_string \<times> int) option" where
  "state_desc NullState = None"
| "state_desc (State d vars obj f) = Some (fst d)"

definition load_global :: "'d auth_env \<Rightarrow> desc_ptr \<Rightarrow> pg_result \<Rightarrow> ('d, State) aact" where
  "load_global E desc result =
     abind (get_uint result 0 0) (\<lambda>idx.
     abind (get_blob E result 0 1) (\<lambda>blob.
     abind (auth_FromBlob E blob) (\<lambda>state.
       if state_desc state = Some (fst desc) then aret state
       else
         abind (alift (State_update (ge_sdl (ae_game E)) (ge_fuel (ae_game E)) state)) (\<lambda>(_, state).
         abind (alift (State_toBlob (ae_lib E) state)) (\<lambda>blob.
         abind (PQexecVA E sql_Update_global_state [blob_arg E blob, Arg_uint idx]) (\<lambda>_. aret state))))))"

definition v_check_global_sdl :: "'d auth_env \<Rightarrow> st_string \<Rightarrow> desc_ptr \<Rightarrow> ('d, bool) aact" where
  "v_check_global_sdl E name desc =
     (if \<not> ae_isAge E name then aret True
      else
        abind (PQexecVA E sql_Global_state [Arg_string name]) (\<lambda>result.
          if \<not> tuples_ok result then aret False
          else if PQntuples result = 0 then
            abind (alift (State_new (ge_sdl (ae_game E)) (ge_fuel (ae_game E)) (Some desc))) (\<lambda>state.
            athen (put_global E name state)
            (abind (alift (State_toBlob (ae_lib E) state)) (\<lambda>blob.
             abind (PQexecVA E sql_New_global_state [Arg_string name, blob_arg E blob]) (\<lambda>result.
               aret (command_ok result)))))
          else abind (load_global E desc result) (\<lambda>state. athen (put_global E name state) (aret True))))"

text \<open>The loop of \<open>ForLatestDescriptors\<close> with a function that may throw: the exception ends it.\<close>

definition catching :: "('s, bool) act \<Rightarrow> act_error option \<times> 's \<Rightarrow> bool \<times> act_error option \<times> 's" where
  "catching a s = (case a (snd s) of (Inl e, w) \<Rightarrow> (False, Some e, w) | (Inr b, w) \<Rightarrow> (b, None, w))"

definition dm_global_sdl_init :: "'d auth_env \<Rightarrow> ('d, bool) aact" where
  "dm_global_sdl_init E w =
     (case ForLatestDescriptors (\<lambda>name desc. catching (v_check_global_sdl E name desc)) (se_db (ge_sdl (ae_game E))) (None, w) of
        (b, Some e, w') \<Rightarrow> (Inl e, w')
      | (b, None, w') \<Rightarrow> (Inr b, w'))"

definition v_find_global_sdl :: "'d auth_env \<Rightarrow> st_string \<Rightarrow> ('d, State) aact" where
  "v_find_global_sdl E ageName =
     (let S = ge_sdl (ae_game E)
      in case FindLatestDescriptor (se_fold S) (se_db S) ageName of
           None \<Rightarrow> aret NullState
         | Some desc \<Rightarrow>
             athen (check_postgres E)
             (abind (PQexecVA E sql_Global_blob [Arg_string ageName]) (\<lambda>result.
                if \<not> tuples_ok result \<or> PQntuples result = 0 then aret NullState
                else abind (get_blob E result 0 0) (auth_FromBlob E))))"

end
