(* ===== verification/Auth_Daemon.thy ===== *)
theory Auth_Daemon
  imports Vault_Trees
begin

unbundle bit_operations_syntax

text \<open>
  The daemon of the authentication server, \<open>AuthServ/AuthDaemon.cpp\<close>: one thread that takes the messages of the
  workers, the game hosts and the console from \<open>s_authChannel\<close> and answers each on the channel of its client. A handler
  changes the message it was given; a vector in it is stored when it is complete.
\<close>

section \<open>Result codes\<close>

abbreviation e_NetInternalError :: u32 where "e_NetInternalError \<equiv> 1"
abbreviation e_NetAgeNotFound :: u32 where "e_NetAgeNotFound \<equiv> 4"
abbreviation e_NetAccountAlreadyExists :: u32 where "e_NetAccountAlreadyExists \<equiv> 11"
abbreviation e_NetPlayerAlreadyExists :: u32 where "e_NetPlayerAlreadyExists \<equiv> 12"
abbreviation e_NetPlayerNotFound :: u32 where "e_NetPlayerNotFound \<equiv> 14"
abbreviation e_NetInvalidParameter :: u32 where "e_NetInvalidParameter \<equiv> 15"
abbreviation e_NetLoggedInElsewhere :: u32 where "e_NetLoggedInElsewhere \<equiv> 17"
abbreviation e_NetVaultNodeNotFound :: u32 where "e_NetVaultNodeNotFound \<equiv> 18"
abbreviation e_NetAuthenticationFailed :: u32 where "e_NetAuthenticationFailed \<equiv> 20"
abbreviation e_NetStateObjectNotFound :: u32 where "e_NetStateObjectNotFound \<equiv> 21"
abbreviation e_NetLoginDenied :: u32 where "e_NetLoginDenied \<equiv> 22"
abbreviation e_NetNotSupported :: u32 where "e_NetNotSupported \<equiv> 29"
abbreviation e_NetAccountBanned :: u32 where "e_NetAccountBanned \<equiv> 38"
abbreviation e_NetScoreWrongType :: u32 where "e_NetScoreWrongType \<equiv> 40"
abbreviation e_NetScoreNotEnoughPoints :: u32 where "e_NetScoreNotEnoughPoints \<equiv> 41"
abbreviation e_NetScoreAlreadyExists :: u32 where "e_NetScoreAlreadyExists \<equiv> 42"
abbreviation e_NetScoreNoDataFound :: u32 where "e_NetScoreNoDataFound \<equiv> 43"

section \<open>Accounts\<close>

text \<open>
  \<open>UseEmailAuth\<close> searches for \<open>[^@]+@([^.]+\.)*([^.]+)\.[^.]+\<close>. From an \<open>@\<close> that follows another character, the
  labels between dots are taken as long as they are not empty; there must be two, and the second group of the leftmost match
  is the last but one of them.
\<close>

fun split_dots :: "bytes \<Rightarrow> bytes list" where
  "split_dots [] = [[]]"
| "split_dots (c # cs) =
     (if c = 46 then [] # split_dots cs
      else case split_dots cs of l # ls \<Rightarrow> (c # l) # ls | [] \<Rightarrow> [[c]])"

definition domain_match :: "bytes \<Rightarrow> bytes option" where
  "domain_match cs =
     (let ls = takeWhile (\<lambda>l. l \<noteq> []) (split_dots cs)
      in if 2 \<le> length ls then Some (ls ! (length ls - 2)) else None)"

fun email_domain :: "bool \<Rightarrow> bytes \<Rightarrow> bytes option" where
  "email_domain before [] = None"
| "email_domain before (c # cs) =
     (if c \<noteq> 64 then email_domain True cs
      else if before then (case domain_match cs of Some d \<Rightarrow> Some d | None \<Rightarrow> email_domain False cs)
      else email_domain False cs)"

definition UseEmailAuth :: "'d auth_env \<Rightarrow> st_string \<Rightarrow> bool" where
  "UseEmailAuth E username =
     (case email_domain False (c_str username) of
        None \<Rightarrow> False
      | Some d \<Rightarrow> ae_fold E d \<noteq> ae_fold E (ascii ''gametap''))"

definition dm_auth_addacct :: "'d auth_env \<Rightarrow> nat \<Rightarrow> st_string \<Rightarrow> st_string \<Rightarrow> ('d, unit) aact" where
  "dm_auth_addacct E c acctName password =
     athen (check_postgres E)
     (abind (PQexecVA E sql_Account_exists [Arg_string acctName]) (\<lambda>result.
        if \<not> tuples_ok result then answer c e_NetInternalError
        else if PQntuples result = 0 then
          (let pwHash = (if UseEmailAuth E acctName then BuggyHashPassword (ae_lib E) acctName password
                         else ae_sha1 E password)
           in abind (gen_uuid E) (\<lambda>uuid.
              abind (PQexecVA E sql_New_account
                       [uuid_arg E uuid, Arg_string (ShaHash_toString (ae_hex E) pwHash), Arg_string acctName])
                (\<lambda>result. answer c (if command_ok result then e_NetSuccess else e_NetInternalError))))
        else answer c e_NetAccountAlreadyExists))"

text \<open>The comparison of the two ways to log in; without a domain the hash of the client is big endian.\<close>

definition credentials :: "'d auth_env \<Rightarrow> u32 \<Rightarrow> Auth_LoginInfo \<Rightarrow> ShaHash \<Rightarrow> bool" where
  "credentials E serverChallenge info passhash =
     (if UseEmailAuth E (li_acctName info)
      then BuggyHashLogin passhash serverChallenge (li_clientChallenge info) = li_passHash info
      else passhash = ShaHash_swapBytes (li_passHash info))"

text \<open>Flags of an account: bit 0 administrator, bit 2 beta tester, bit 16 banned.\<close>

definition login_refused :: "bool \<Rightarrow> u32 \<Rightarrow> u32 option" where
  "login_refused restrictLogins flags =
     (if bit flags 16 then Some e_NetAccountBanned
      else if restrictLogins \<and> \<not> (bit flags 0 \<or> bit flags 2) then Some e_NetLoginDenied
      else None)"

definition get_player :: "'d auth_env \<Rightarrow> pg_result \<Rightarrow> nat \<Rightarrow> ('d, AuthServer_PlayerInfo) aact" where
  "get_player E r i =
     abind (get_uint r i 0) (\<lambda>player. abind (get_string E r i 1) (\<lambda>name.
     abind (get_string E r i 2) (\<lambda>model. abind (get_uint r i 3) (\<lambda>explorer.
       aret \<lparr>pi_playerId = player, pi_playerName = name, pi_avatarModel = model, pi_explorer = explorer\<rparr>))))"

definition login_players :: "'d auth_env \<Rightarrow> nat \<Rightarrow> nat \<Rightarrow> Auth_LoginInfo \<Rightarrow> ('d, unit) aact" where
  "login_players E p c info =
     abind (the_client c) (\<lambda>client.
     abind (PQexecVA E sql_Account_players [uuid_arg E (ac_acctUuid client)]) (\<lambda>result.
       if \<not> tuples_ok result then answer c e_NetInternalError
       else
         abind (acollect (map (get_player E result) [0..<PQntuples result])) (\<lambda>players.
         athen (store p (e_AuthClientLogin (info\<lparr>li_players := players\<rparr>))) (answer c e_NetSuccess))))"

definition login_accepted :: "'d auth_env \<Rightarrow> nat \<Rightarrow> nat \<Rightarrow> Auth_LoginInfo \<Rightarrow> pg_result \<Rightarrow> ('d, unit) aact" where
  "login_accepted E p c info result =
     abind (get_uuid result 0 1) (\<lambda>acctUuid.
     athen (set_client c (\<lambda>k. k\<lparr>ac_acctUuid := acctUuid\<rparr>))
     (abind (get_uint result 0 2) (\<lambda>acctFlags.
      athen (set_client c (\<lambda>k. k\<lparr>ac_acctFlags := acctFlags\<rparr>))
      (abind (get_uint result 0 3) (\<lambda>billingType.
       let info = info\<lparr>li_billingType := billingType\<rparr>
       in athen (store p (e_AuthClientLogin info))
          (abind (aget aw_restrictLogins) (\<lambda>restrictLogins.
             case login_refused restrictLogins acctFlags of
               Some code \<Rightarrow> answer c code
             | None \<Rightarrow> login_players E p c info)))))))"

definition dm_auth_login :: "'d auth_env \<Rightarrow> nat \<Rightarrow> nat \<Rightarrow> Auth_LoginInfo \<Rightarrow> ('d, unit) aact" where
  "dm_auth_login E p c info =
     athen (check_postgres E)
     (athen (set_client c (\<lambda>k. k\<lparr>ac_acctUuid := Uuid_null\<rparr>))
     (abind (PQexecVA E sql_Account_login [Arg_string (li_acctName info)]) (\<lambda>result.
        if \<not> tuples_ok result then answer c e_NetInternalError
        else if PQntuples result \<noteq> 1 then answer c e_NetAuthenticationFailed
        else
          abind (get_hash result 0 0) (\<lambda>passhash.
          abind (the_client c) (\<lambda>client.
            let swapped = (if UseEmailAuth E (li_acctName info) then info
                           else info\<lparr>li_passHash := ShaHash_swapBytes (li_passHash info)\<rparr>)
            in athen (store p (e_AuthClientLogin swapped))
               (if credentials E (ac_serverChallenge client) info passhash
                then login_accepted E p c swapped result
                else answer c e_NetAuthenticationFailed))))))"

section \<open>Broadcasts\<close>

text \<open>
  A client is told about a node of the age it is in or of its player. 25 is \<open>e_AuthToCli_VaultNodeChanged\<close>, 27
  \<open>e_AuthToCli_VaultNodeAdded\<close>, 28 \<open>e_AuthToCli_VaultNodeRemoved\<close>.
\<close>

definition bcast_to :: "'d auth_env \<Rightarrow> u32 \<Rightarrow> u32 \<Rightarrow> bytes \<Rightarrow> nat \<Rightarrow> ('d, unit) aact" where
  "bcast_to E node type contents c =
     abind (the_client c) (\<lambda>client.
     abind (v_has_node E (ac_ageNodeId client) node) (\<lambda>inAge.
     abind (if inAge then aret True else v_has_node E (pi_playerId (ac_player client)) node) (\<lambda>concerned.
       awhen concerned (set_client c (\<lambda>k. k\<lparr>ac_broadcast := ac_broadcast k @ [(type, contents)]\<rparr>)))))"

definition bcast :: "'d auth_env \<Rightarrow> u32 \<Rightarrow> u32 \<Rightarrow> bytes \<Rightarrow> ('d, unit) aact" where
  "bcast E node type contents = abind (aget aw_clients) (\<lambda>clients. aseq (map (bcast_to E node type contents) clients))"

definition dm_auth_bcast_node :: "'d auth_env \<Rightarrow> u32 \<Rightarrow> Uuid \<Rightarrow> ('d, unit) aact" where
  "dm_auth_bcast_node E nodeIdx revision = bcast E nodeIdx 25 (write_u32 nodeIdx @ Uuid_write revision)"

definition dm_auth_bcast_ref :: "'d auth_env \<Rightarrow> NodeRef \<Rightarrow> ('d, unit) aact" where
  "dm_auth_bcast_ref E ref =
     bcast E (nr_parent ref) 27 (write_u32 (nr_parent ref) @ write_u32 (nr_child ref) @ write_u32 (nr_owner ref))"

definition dm_auth_bcast_unref :: "'d auth_env \<Rightarrow> NodeRef \<Rightarrow> ('d, unit) aact" where
  "dm_auth_bcast_unref E ref = bcast E (nr_parent ref) 28 (write_u32 (nr_parent ref) @ write_u32 (nr_child ref))"

text \<open>The loops over the rows of an update of player nodes.\<close>

definition bcast_rows :: "'d auth_env \<Rightarrow> pg_result \<Rightarrow> ('d, unit) aact" where
  "bcast_rows E result =
     aseq (map (\<lambda>i. abind (get_uint result i 0) (\<lambda>nodeid. abind (gen_uuid E) (dm_auth_bcast_node E nodeid)))
       [0..<PQntuples result])"

section \<open>Players\<close>

definition dm_auth_disconnect :: "'d auth_env \<Rightarrow> nat \<Rightarrow> ('d, unit) aact" where
  "dm_auth_disconnect E c =
     abind (the_client c) (\<lambda>client.
     athen (awhen (pi_playerId (ac_player client) \<noteq> 0)
       (athen (check_postgres E)
       (abind (PQexecVA E sql_Player_offline [Arg_int 23, Arg_uint (pi_playerId (ac_player client))]) (bcast_rows E))))
     (answer c e_NetSuccess))"

definition no_player :: "nat \<Rightarrow> ('d, unit) aact" where
  "no_player c = set_client c (\<lambda>k. k\<lparr>ac_player := (ac_player k)\<lparr>pi_playerId := 0\<rparr>\<rparr>)"

definition refuse_player :: "nat \<Rightarrow> u32 \<Rightarrow> ('d, unit) aact" where
  "refuse_player c code = athen (no_player c) (answer c code)"

definition player_active :: "nat \<Rightarrow> ('d, bool) aact" where
  "player_active c = aget (\<lambda>w. \<exists>d \<in> set (aw_clients w).
     d \<noteq> c \<and> pi_playerId (ac_player (aw_client w d)) = pi_playerId (ac_player (aw_client w c)))"

definition enter_player :: "'d auth_env \<Rightarrow> nat \<Rightarrow> pg_result \<Rightarrow> ('d, unit) aact" where
  "enter_player E c result =
     abind (get_string E result 0 0) (\<lambda>name.
     athen (set_client c (\<lambda>k. k\<lparr>ac_player := (ac_player k)\<lparr>pi_playerName := name\<rparr>\<rparr>))
     (abind (get_string E result 0 1) (\<lambda>model.
      athen (set_client c (\<lambda>k. k\<lparr>ac_player := (ac_player k)\<lparr>pi_avatarModel := model\<rparr>\<rparr>))
      (abind (get_uint result 0 2) (\<lambda>explorer.
       athen (set_client c (\<lambda>k. k\<lparr>ac_player := (ac_player k)\<lparr>pi_explorer := explorer\<rparr>\<rparr>))
       (abind (the_client c) (\<lambda>client.
        abind (PQexecVA E sql_Player_online [Arg_int 23, Arg_uint (pi_playerId (ac_player client))]) (\<lambda>result.
        athen (bcast_rows E result) (answer c e_NetSuccess)))))))))"

definition dm_auth_setPlayer :: "'d auth_env \<Rightarrow> nat \<Rightarrow> ('d, unit) aact" where
  "dm_auth_setPlayer E c =
     athen (check_postgres E)
     (abind (the_client c) (\<lambda>client.
      abind (PQexecVA E sql_Player_of_account [uuid_arg E (ac_acctUuid client), Arg_uint (pi_playerId (ac_player client))])
        (\<lambda>result.
          if \<not> tuples_ok result then refuse_player c e_NetInternalError
          else if PQntuples result = 0 then refuse_player c e_NetPlayerNotFound
          else if PQntuples result \<noteq> 1 then refuse_player c e_NetInternalError
          else abind (player_active c) (\<lambda>active.
            if active then refuse_player c e_NetLoggedInElsewhere else enter_player E c result))))"

definition welcome_player :: "'d auth_env \<Rightarrow> u32 \<Rightarrow> u32 \<Rightarrow> u32 \<Rightarrow> ('d, unit) aact" where
  "welcome_player E parent child owner =
     abind (v_ref_node E parent child owner) (\<lambda>ok.
       awhen ok (dm_auth_bcast_ref E \<lparr>nr_parent = parent, nr_child = child, nr_owner = owner\<rparr>))"

definition add_player :: "'d auth_env \<Rightarrow> nat \<Rightarrow> nat \<Rightarrow> AuthServer_PlayerInfo \<Rightarrow> ('d, unit) aact" where
  "add_player E p c player =
     abind (the_client c) (\<lambda>client.
     abind (v_create_player E (ac_acctUuid client) player) (\<lambda>(playerIdx, infoIdx, hoodOwners).
     let player = player\<lparr>pi_playerId := playerIdx\<rparr>
     in aseq
       [store p (e_AuthCreatePlayer player),
        awhen (playerIdx = 0) (answer c e_NetInternalError),
        welcome_player E hoodOwners infoIdx playerIdx,
        abind (aget aw_allPlayers) (\<lambda>allPlayers. welcome_player E allPlayers infoIdx 0),
        abind (the_client c) (\<lambda>client.
        abind (PQexecVA E sql_New_player [uuid_arg E (ac_acctUuid client), Arg_uint playerIdx,
                 Arg_string (pi_playerName player), Arg_string (pi_avatarModel player), Arg_uint (pi_explorer player)])
          (\<lambda>result. answer c (if command_ok result then e_NetSuccess else e_NetInternalError)))]))"

definition dm_auth_createPlayer :: "'d auth_env \<Rightarrow> nat \<Rightarrow> nat \<Rightarrow> AuthServer_PlayerInfo \<Rightarrow> ('d, unit) aact" where
  "dm_auth_createPlayer E p c player0 =
     (let model = pi_avatarModel player0;
          player = (if model \<noteq> ascii ''male'' \<and> model \<noteq> ascii ''female''
                    then player0\<lparr>pi_avatarModel := ascii ''male''\<rparr> else player0)
      in athen (store p (e_AuthCreatePlayer player))
         (abind (PQexecVA E sql_Player_named [Arg_string (pi_playerName player)]) (\<lambda>result.
            if \<not> tuples_ok result then answer c e_NetInternalError
            else if PQntuples result \<noteq> 0 then answer c e_NetPlayerAlreadyExists
            else add_player E p c player)))"

definition remove_player :: "'d auth_env \<Rightarrow> nat \<Rightarrow> u32 \<Rightarrow> ('d, unit) aact" where
  "remove_player E c player =
     abind (PQexecVA E sql_Delete_player [Arg_uint player]) (\<lambda>result.
     if \<not> command_ok result then answer c e_NetInternalError
     else
       abind (PQexecVA E sql_Player_info [Arg_uint player, Arg_int 23]) (\<lambda>result.
       if \<not> tuples_ok result \<or> PQntuples result = 0 then answer c e_NetInternalError
       else
         abind (get_uint result 0 0) (\<lambda>playerInfo.
         abind (PQexecVA E sql_Delete_refs [Arg_uint playerInfo]) (\<lambda>result.
           answer c (if command_ok result then e_NetSuccess else e_NetInternalError)))))"

definition dm_auth_deletePlayer :: "'d auth_env \<Rightarrow> nat \<Rightarrow> u32 \<Rightarrow> ('d, unit) aact" where
  "dm_auth_deletePlayer E c player =
     abind (the_client c) (\<lambda>client.
     abind (PQexecVA E sql_Player_idx [uuid_arg E (ac_acctUuid client), Arg_uint player]) (\<lambda>result.
       if \<not> tuples_ok result then answer c e_NetInternalError
       else if PQntuples result = 0 then answer c e_NetPlayerNotFound
       else remove_player E c player))"

section \<open>Ages\<close>

definition find_age_nodes :: "'d auth_env \<Rightarrow> AuthServer_AgeInfo \<Rightarrow> ('d, (u32 \<times> u32) option) aact" where
  "find_age_nodes E age =
     abind (PQexecVA E sql_Nodes_uuid [uuid_arg E (ag_ageId age), Arg_int 3]) (\<lambda>result.
       if \<not> tuples_ok result then aret None
       else if PQntuples result = 0 then abind (v_create_age E age 0) (\<lambda>nodes. aret (Some nodes))
       else
         abind (get_uint result 0 0) (\<lambda>ageNode.
         abind (PQexecVA E sql_Nodes_uuid [uuid_arg E (ag_ageId age), Arg_int 33]) (\<lambda>result.
           if \<not> tuples_ok result \<or> PQntuples result = 0 then aret None
           else abind (get_uint result 0 0) (\<lambda>infoNode. aret (Some (ageNode, infoNode))))))"

definition dm_auth_createAge :: "'d auth_env \<Rightarrow> nat \<Rightarrow> nat \<Rightarrow> Auth_AgeCreate \<Rightarrow> ('d, unit) aact" where
  "dm_auth_createAge E p c msg =
     abind (find_age_nodes E (cr_age msg)) (\<lambda>nodes.
       case nodes of
         None \<Rightarrow> answer c e_NetInternalError
       | Some (ageNode, infoNode) \<Rightarrow>
           if ageNode = 0 \<or> infoNode = 0 then answer c e_NetInternalError
           else athen (store p (e_VaultInitAge (msg\<lparr>cr_ageIdx := ageNode, cr_infoIdx := infoNode\<rparr>))) (answer c e_NetSuccess))"

definition age_found :: "'d auth_env \<Rightarrow> nat \<Rightarrow> nat \<Rightarrow> Auth_GameAge \<Rightarrow> pg_result \<Rightarrow> ('d, unit) aact" where
  "age_found E p c msg result =
     abind (get_uint result 0 1) (\<lambda>ageNodeIdx.
     abind (get_uint result 0 0) (\<lambda>mcpId.
     let msg = msg\<lparr>gg_ageNodeIdx := ageNodeIdx, gg_mcpId := mcpId,
           gg_serverAddress := ae_getAddress4 E (c_str (ae_gameServerAddress E))\<rparr>
     in athen (store p (e_AuthFindGameServer msg))
        (abind (get_string E result 0 2) (\<lambda>ageDesc.
         abind (the_client c) (\<lambda>client.
         abind (PQexecVA E sql_Player_in_age [Arg_string ageDesc, uuid_arg E (gg_instanceId msg), Arg_int 23,
                  Arg_uint (pi_playerId (ac_player client))]) (\<lambda>result.
         athen (bcast_rows E result) (answer c e_NetSuccess)))))))"

definition dm_auth_findAge :: "'d auth_env \<Rightarrow> nat \<Rightarrow> nat \<Rightarrow> Auth_GameAge \<Rightarrow> ('d, unit) aact" where
  "dm_auth_findAge E p c msg =
     abind (PQexecVA E sql_Age_server [uuid_arg E (gg_instanceId msg)]) (\<lambda>result.
       if \<not> tuples_ok result then answer c e_NetInternalError
       else if PQntuples result = 0 then
         abind (PQexecVA E sql_New_temp_server [uuid_arg E (gg_instanceId msg), Arg_string (gg_name msg)]) (\<lambda>result.
           if \<not> tuples_ok result then aret () else age_found E p c msg result)
       else age_found E p c msg result)"

definition dm_auth_get_public :: "'d auth_env \<Rightarrow> nat \<Rightarrow> nat \<Rightarrow> Auth_PubAgeRequest \<Rightarrow> ('d, unit) aact" where
  "dm_auth_get_public E p c msg =
     abind (v_find_public_ages E (pa_agename msg)) (\<lambda>ages.
       case ages of
         None \<Rightarrow> answer c e_NetInternalError
       | Some ages \<Rightarrow> athen (store p (e_AuthGetPublic (msg\<lparr>pa_ages := pa_ages msg @ ages\<rparr>))) (answer c e_NetSuccess))"

definition publish :: "'d auth_env \<Rightarrow> u32 \<Rightarrow> pg_result \<Rightarrow> ('d, u32) aact" where
  "publish E nodeid result =
     (if \<not> command_ok result then aret e_NetInternalError
      else abind (gen_uuid E) (\<lambda>revision. athen (dm_auth_bcast_node E nodeid revision) (aret e_NetSuccess)))"

definition dm_auth_set_public :: "'d auth_env \<Rightarrow> u32 \<Rightarrow> ('d, u32) aact" where
  "dm_auth_set_public E nodeid =
     abind (time_now E) (\<lambda>t.
     abind (PQexecVA E sql_Set_public [Arg_uint t, Arg_uint nodeid, Arg_int 33]) (publish E nodeid))"

definition dm_auth_set_private :: "'d auth_env \<Rightarrow> u32 \<Rightarrow> ('d, u32) aact" where
  "dm_auth_set_private E nodeid =
     abind (time_now E) (\<lambda>t.
     abind (PQexecVA E sql_Set_private [Arg_uint t, Arg_int 33, Arg_uint nodeid]) (publish E nodeid))"

definition dm_auth_set_pub_priv :: "'d auth_env \<Rightarrow> nat \<Rightarrow> u32 \<Rightarrow> byte \<Rightarrow> ('d, unit) aact" where
  "dm_auth_set_pub_priv E c node public =
     abind (if public \<noteq> 0 then dm_auth_set_public E node else dm_auth_set_private E node) (answer c)"

section \<open>Scores\<close>

text \<open>Types of a score: 0 \<open>e_Fixed\<close>, 1 \<open>e_Football\<close>, 2 \<open>e_Golf\<close>.\<close>

definition dm_auth_createScore :: "'d auth_env \<Rightarrow> nat \<Rightarrow> nat \<Rightarrow> Auth_CreateScore \<Rightarrow> ('d, unit) aact" where
  "dm_auth_createScore E p c msg =
     abind (PQexecVA E sql_Create_score
              [Arg_uint (cs_owner msg), Arg_uint (cs_type msg), Arg_string (cs_name msg), Arg_int (cs_points msg)]) (\<lambda>result.
       if \<not> tuples_ok result then answer c e_NetInternalError
       else
         abind (get_uint result 0 0) (\<lambda>scoreId.
         athen (store p (e_AuthCreateScore (msg\<lparr>cs_scoreId := scoreId\<rparr>)))
           (answer c (if scoreId = - 1 then e_NetScoreAlreadyExists else e_NetSuccess))))"

definition get_score :: "u32 \<Rightarrow> pg_result \<Rightarrow> nat \<Rightarrow> ('d, GameScore) aact" where
  "get_score owner r i =
     abind (get_uint r i 0) (\<lambda>scoreId. abind (get_uint r i 1) (\<lambda>createTime.
     abind (get_uint r i 2) (\<lambda>type. abind (get_uint r i 3) (\<lambda>points.
       aret \<lparr>sc_scoreId = scoreId, sc_owner = owner, sc_createTime = createTime, sc_type = type, sc_points = points\<rparr>))))"

definition dm_auth_getScores :: "'d auth_env \<Rightarrow> nat \<Rightarrow> nat \<Rightarrow> Auth_GetScores \<Rightarrow> ('d, unit) aact" where
  "dm_auth_getScores E p c msg =
     abind (PQexecVA E sql_Get_scores [Arg_uint (gt_owner msg), Arg_string (gt_name msg)]) (\<lambda>result.
       if \<not> tuples_ok result then answer c e_NetInternalError
       else
         abind (acollect (map (get_score (gt_owner msg) result) [0..<PQntuples result])) (\<lambda>scores.
         athen (store p (e_AuthGetScores (msg\<lparr>gt_scores := gt_scores msg @ scores\<rparr>))) (answer c e_NetSuccess)))"

definition dm_auth_addScorePoints :: "'d auth_env \<Rightarrow> nat \<Rightarrow> Auth_UpdateScore \<Rightarrow> ('d, unit) aact" where
  "dm_auth_addScorePoints E c msg =
     abind (PQexecVA E sql_Score_type [Arg_uint (us_scoreId msg)]) (\<lambda>result.
       if \<not> tuples_ok result then answer c e_NetInternalError
       else if PQntuples result \<noteq> 1 then answer c e_NetScoreNoDataFound
       else
         abind (get_uint result 0 0) (\<lambda>scoreType.
         if scoreType = 0 then answer c e_NetScoreWrongType
         else
           abind (PQexecVA E sql_Add_points [Arg_uint (us_scoreId msg), Arg_int (us_points msg),
                    Arg_uint (if scoreType = 2 then 1 else 0)]) (\<lambda>result.
             answer c (if tuples_ok result then e_NetSuccess else e_NetInternalError))))"

definition dm_auth_transferScorePoints :: "'d auth_env \<Rightarrow> nat \<Rightarrow> Auth_TransferScore \<Rightarrow> ('d, unit) aact" where
  "dm_auth_transferScorePoints E c msg =
     abind (PQexecVA E sql_Score_types [Arg_uint (ts_srcScoreId msg), Arg_uint (ts_dstScoreId msg)]) (\<lambda>result.
       if \<not> tuples_ok result then answer c e_NetInternalError
       else if PQntuples result \<noteq> 2 then answer c e_NetScoreNoDataFound
       else
         abind (get_uint result 0 0) (\<lambda>srcType.
         abind (get_uint result 1 0) (\<lambda>dstType.
         if srcType = 0 \<or> dstType = 0 then answer c e_NetScoreWrongType
         else
           abind (PQexecVA E sql_Transfer_points [Arg_uint (ts_srcScoreId msg), Arg_uint (ts_dstScoreId msg),
                    Arg_uint (ts_points msg), Arg_uint (if srcType = 2 \<and> dstType = 2 then 1 else 0)]) (\<lambda>result.
             if \<not> tuples_ok result then answer c e_NetInternalError
             else abind (get_uint result 0 0) (\<lambda>status.
               answer c (if status \<noteq> 0 then e_NetSuccess else e_NetScoreNotEnoughPoints))))))"

definition dm_auth_setScorePoints :: "'d auth_env \<Rightarrow> nat \<Rightarrow> Auth_UpdateScore \<Rightarrow> ('d, unit) aact" where
  "dm_auth_setScorePoints E c msg =
     abind (PQexecVA E sql_Score_type [Arg_uint (us_scoreId msg)]) (\<lambda>result.
       if \<not> tuples_ok result then answer c e_NetInternalError
       else if PQntuples result \<noteq> 1 then answer c e_NetScoreNoDataFound
       else
         abind (get_uint result 0 0) (\<lambda>scoreType.
         if scoreType \<noteq> 0 then answer c e_NetScoreWrongType
         else
           abind (PQexecVA E sql_Set_points [Arg_uint (us_scoreId msg), Arg_int (us_points msg)]) (\<lambda>result.
             answer c (if command_ok result then e_NetSuccess else e_NetInternalError))))"

text \<open>The loop over the scores reads five columns whatever the query had.\<close>

definition get_high_score :: "pg_result \<Rightarrow> nat \<Rightarrow> ('d, GameScore) aact" where
  "get_high_score r i =
     abind (get_uint r i 0) (\<lambda>scoreId. abind (get_uint r i 1) (\<lambda>owner. abind (get_uint r i 2) (\<lambda>createTime.
     abind (get_uint r i 3) (\<lambda>type. abind (get_uint r i 4) (\<lambda>points.
       aret \<lparr>sc_scoreId = scoreId, sc_owner = owner, sc_createTime = createTime, sc_type = type, sc_points = points\<rparr>)))))"

definition send_high_scores :: "nat \<Rightarrow> nat \<Rightarrow> Auth_GetScores \<Rightarrow> u32 \<Rightarrow> pg_result \<Rightarrow> ('d, unit) aact" where
  "send_high_scores p c msg maxScores result =
     (if \<not> tuples_ok result then answer c e_NetInternalError
      else
        abind (acollect (map (get_high_score result) [0..<PQntuples result])) (\<lambda>scores.
        athen (store p (e_AuthGetHighScores (msg\<lparr>gt_scores := gt_scores msg @ scores\<rparr>) maxScores)) (answer c e_NetSuccess)))"

definition dm_auth_getHighScores :: "'d auth_env \<Rightarrow> nat \<Rightarrow> nat \<Rightarrow> Auth_GetScores \<Rightarrow> u32 \<Rightarrow> ('d, unit) aact" where
  "dm_auth_getHighScores E p c msg maxScores =
     (if gt_owner msg = 0
      then abind (PQexecVA E sql_High_scores [Arg_string (gt_name msg), Arg_uint maxScores]) (send_high_scores p c msg maxScores)
      else
        abind (PQexecVA E sql_Find_folder_bare [Arg_uint (gt_owner msg), Arg_int 19]) (\<lambda>result.
          if \<not> tuples_ok result then answer c e_NetInternalError
          else if PQntuples result = 0 then answer c e_NetInvalidParameter
          else
            abind (get_uint result 0 0) (\<lambda>ageOwnersFolder.
            abind (PQexecVA E sql_Owner_high_scores
                     [Arg_string (gt_name msg), Arg_uint ageOwnersFolder, Arg_uint maxScores])
              (send_high_scores p c msg maxScores))))"

section \<open>Requests of the game server and the console\<close>

definition dm_auth_updateAgeSrv :: "'d auth_env \<Rightarrow> nat \<Rightarrow> nat \<Rightarrow> Auth_UpdateAgeSrv \<Rightarrow> ('d, unit) aact" where
  "dm_auth_updateAgeSrv E p c msg =
     abind (aget (\<lambda>w. find (\<lambda>d. pi_playerId (ac_player (aw_client w d)) = ua_playerId msg) (aw_clients w))) (\<lambda>found.
       case found of
         None \<Rightarrow> answer c e_NetPlayerNotFound
       | Some d \<Rightarrow>
           athen (set_client d (\<lambda>k. k\<lparr>ac_ageNodeId := ua_ageNodeId msg\<rparr>))
           (abind (the_client d) (\<lambda>client.
            athen (store p (e_AuthUpdateAgeSrv (msg\<lparr>ua_isAdmin := bit (ac_acctFlags client) 0\<rparr>))) (answer c e_NetSuccess))))"

definition TOGGLE_FLAG :: "u32 \<Rightarrow> nat \<Rightarrow> u32 \<Rightarrow> u32" where
  "TOGGLE_FLAG flags k acctFlags =
     (if bit flags k then (if bit acctFlags k then acctFlags AND NOT (push_bit k 1) else acctFlags OR push_bit k 1)
      else acctFlags)"

definition dm_auth_acctFlags :: "'d auth_env \<Rightarrow> nat \<Rightarrow> nat \<Rightarrow> Auth_AccountFlags \<Rightarrow> ('d, unit) aact" where
  "dm_auth_acctFlags E p c msg =
     abind (PQexecVA E sql_Account_flags [Arg_string (af_acctName msg)]) (\<lambda>result.
       if \<not> tuples_ok result \<or> PQntuples result \<noteq> 1 then answer c e_NetInternalError
       else
         abind (get_uint result 0 0) (\<lambda>flags0.
         let acctFlags = TOGGLE_FLAG (af_flags msg) 2 (TOGGLE_FLAG (af_flags msg) 16 (TOGGLE_FLAG (af_flags msg) 0 flags0));
             finish = athen (store p (e_AuthAcctFlags (msg\<lparr>af_flags := acctFlags\<rparr>))) (answer c e_NetSuccess)
         in if af_flags msg = 0 then finish
            else abind (PQexecVA E sql_Update_flags [Arg_string (af_acctName msg), Arg_uint acctFlags]) (\<lambda>result.
              if command_ok result then finish else answer c e_NetInternalError)))"

definition dm_auth_addAllPlayers :: "'d auth_env \<Rightarrow> nat \<Rightarrow> u32 \<Rightarrow> ('d, unit) aact" where
  "dm_auth_addAllPlayers E c player =
     athen (check_postgres E)
     (abind (aget aw_allPlayers) (\<lambda>allPlayers.
      abind (v_has_node E player allPlayers) (\<lambda>has.
      abind (if has then v_unref_node E player allPlayers else v_ref_node E player allPlayers 0) (\<lambda>ok.
        if \<not> ok then answer c e_NetInternalError
        else athen
          (let ref = \<lparr>nr_parent = player, nr_child = allPlayers, nr_owner = 0\<rparr>
           in if has then dm_auth_bcast_unref E ref else dm_auth_bcast_ref E ref)
          (answer c e_NetSuccess)))))"

definition dm_auth_fetchSDL :: "'d auth_env \<Rightarrow> nat \<Rightarrow> nat \<Rightarrow> Auth_FetchSDL \<Rightarrow> ('d, unit) aact" where
  "dm_auth_fetchSDL E p c msg0 =
     abind (aget (\<lambda>w. global_find E (fs_ageFilename msg0) (aw_globalStates w))) (\<lambda>global.
     let msg = (case global of Some s \<Rightarrow> msg0\<lparr>fs_globalState := s\<rparr> | None \<Rightarrow> msg0)
     in athen (store p (e_AuthFetchSDL msg))
        (abind (if fs_sdlNodeId msg = 0 then gen_default_sdl E (fs_ageFilename msg)
                else abind (v_fetch_node E (fs_sdlNodeId msg)) (\<lambda>node. aret (vn_Blob_1 node))) (\<lambda>blob.
         athen (store p (e_AuthFetchSDL (msg\<lparr>fs_localState := blob\<rparr>))) (answer c e_NetSuccess))))"

text \<open>
  The global state of an age is one object that the map and the hosts of the age point to; a change of a variable is
  seen by all of them. Bits of a variable: 2 \<open>e_HasTimeStamp\<close>, 3 \<open>e_SameAsDefault\<close>, 8 \<open>e_XIsDirty\<close>.
\<close>

definition set_global :: "'d auth_env \<Rightarrow> st_string \<Rightarrow> State \<Rightarrow> ('d, unit) aact" where
  "set_global E name s =
     athen (put_global E name s)
       (on_game (amod (\<lambda>w. w\<lparr>w_host := (\<lambda>h.
          let g = w_host w h in if ae_fold E (gh_ageFilename g) = ae_fold E name then g\<lparr>gh_globalState := s\<rparr> else g)\<rparr>)))"

text \<open>What the text of a console command makes of the first element; \<open>None\<close> for the types that are not supported.\<close>

definition text_value :: "'d auth_env \<Rightarrow> VarType \<Rightarrow> st_string \<Rightarrow> sdl_value option" where
  "text_value E type value =
     (case type of
        e_VarBool \<Rightarrow> Some (V_Bool (ae_to_bool E value))
      | e_VarByte \<Rightarrow> Some (V_Byte (ucast (st_to_uint (ae_st E) value)))
      | e_VarInt \<Rightarrow> Some (V_Int (ae_to_int E value))
      | e_VarShort \<Rightarrow> Some (V_Short (ucast (ae_to_int E value)))
      | e_VarString \<Rightarrow> Some (V_String value)
      | _ \<Rightarrow> None)"

definition save_global :: "'d auth_env \<Rightarrow> nat \<Rightarrow> st_string \<Rightarrow> State \<Rightarrow> ('d, unit) aact" where
  "save_global E c name state =
     abind (alift (State_toBlob (ae_lib E) state)) (\<lambda>blob.
     abind (PQexecVA E sql_Save_global_state [Arg_string name, blob_arg E blob]) (\<lambda>_.
     athen (on_game (GameServer_UpdateGlobalSDL name)) (answer c e_NetSuccess)))"

definition change_variable :: "'d auth_env \<Rightarrow> nat \<Rightarrow> Auth_UpdateGlobalSDL \<Rightarrow> State \<Rightarrow> nat \<Rightarrow> ('d, unit) aact" where
  "change_variable E c msg state k =
     abind (on_game (now (ae_game E))) (\<lambda>t.
     let v = st_vars state ! k; name = ug_ageFilename msg;
         put = (\<lambda>v. case state of State d vars obj f \<Rightarrow> State d (vars[k := v]) obj f | NullState \<Rightarrow> NullState);
         v1 = Variable (v_desc v) (v_values v) t (v_hint v) (v_flags v OR 0x104)
     in if ug_value msg = [] then
          (let s = put (Variable_setDefault v1) in athen (set_global E name s) (save_global E c name s))
        else
          (let v2 = Variable (v_desc v1) (v_values v1) (v_timestamp v1) (v_hint v1) (v_flags v1 AND NOT 8)
           in case text_value E (vr_type (v_desc v)) (ug_value msg) of
                None \<Rightarrow> athen (set_global E name (put v2)) (answer c e_NetNotSupported)
              | Some x \<Rightarrow>
                  if v_values v2 = [] then athen (set_global E name (put v2)) (afail (Thrown UndefinedBehaviour))
                  else
                    (let s = put (Variable (v_desc v2) ((v_values v2)[0 := x]) (v_timestamp v2) (v_hint v2) (v_flags v2))
                     in athen (set_global E name s) (save_global E c name s))))"

definition dm_auth_update_globalSDL :: "'d auth_env \<Rightarrow> nat \<Rightarrow> Auth_UpdateGlobalSDL \<Rightarrow> ('d, unit) aact" where
  "dm_auth_update_globalSDL E c msg =
     abind (aget (\<lambda>w. global_find E (ug_ageFilename msg) (aw_globalStates w))) (\<lambda>global.
       case global of
         None \<Rightarrow> answer c e_NetStateObjectNotFound
       | Some NullState \<Rightarrow> afail (Thrown UndefinedBehaviour)
       | Some state \<Rightarrow>
           (case find (\<lambda>k. vr_name (v_desc (st_vars state ! k)) = ug_variable msg) (simpleVars (snd (st_desc state))) of
              None \<Rightarrow> answer c e_NetInvalidParameter
            | Some k \<Rightarrow> change_variable E c msg state k))"

section \<open>Nodes of the vault\<close>

definition dm_vault_create_node :: "'d auth_env \<Rightarrow> nat \<Rightarrow> nat \<Rightarrow> Auth_NodeInfo \<Rightarrow> ('d, unit) aact" where
  "dm_vault_create_node E p c info =
     abind (v_create_node E (ni_node info)) (\<lambda>nodeIdx.
       if nodeIdx \<noteq> 0
       then athen (store p (e_VaultCreateNode (info\<lparr>ni_node := set_NodeIdx nodeIdx (ni_node info)\<rparr>))) (answer c e_NetSuccess)
       else answer c e_NetInternalError)"

definition dm_vault_fetch_node :: "'d auth_env \<Rightarrow> nat \<Rightarrow> nat \<Rightarrow> Auth_NodeInfo \<Rightarrow> ('d, unit) aact" where
  "dm_vault_fetch_node E p c info =
     abind (v_fetch_node E (vn_NodeIdx (ni_node info))) (\<lambda>node.
     athen (store p (e_VaultFetchNode (info\<lparr>ni_node := node\<rparr>)))
       (answer c (if Node_isNull node then e_NetVaultNodeNotFound else e_NetSuccess)))"

text \<open>The update of an age's state goes through the host of the age; 0 stands for the client object of the daemon there.\<close>

definition save_node :: "'d auth_env \<Rightarrow> nat \<Rightarrow> nat \<Rightarrow> Auth_NodeInfo \<Rightarrow> ('d, unit) aact" where
  "save_node E p c info =
     abind (if Uuid_isNull (ni_revision info) then gen_uuid E else aret (ni_revision info)) (\<lambda>revision.
     athen (store p (e_VaultUpdateNode (info\<lparr>ni_revision := revision\<rparr>)))
     (abind (v_update_node E (ni_node info)) (\<lambda>ok.
        if ok then athen (dm_auth_bcast_node E (vn_NodeIdx (ni_node info)) revision) (answer c e_NetSuccess)
        else answer c e_NetInternalError)))"

definition dm_vault_update_node :: "'d auth_env \<Rightarrow> nat \<Rightarrow> nat \<Rightarrow> Auth_NodeInfo \<Rightarrow> ('d, unit) aact" where
  "dm_vault_update_node E p c info =
     (if \<not> ni_internal info \<and> vn_NodeType (ni_node info) = 27
      then
        abind (PQexecVA E sql_Sdl_server [Arg_uint (vn_NodeIdx (ni_node info))]) (\<lambda>result.
          if \<not> tuples_ok result then answer c e_NetInternalError
          else if PQntuples result = 0 then save_node E p c info
          else
            abind (get_uint result 0 0) (\<lambda>ageMcpId.
            abind (on_game (GameServer_UpdateVaultSDL (ae_game E) 0 (vn_NodeIdx (ni_node info)) (vn_Blob_1 (ni_node info)) ageMcpId))
              (\<lambda>code. if code \<noteq> e_NetAgeNotFound then answer c code else save_node E p c info)))
      else save_node E p c info)"

definition dm_vault_ref_node :: "'d auth_env \<Rightarrow> nat \<Rightarrow> NodeRef \<Rightarrow> ('d, unit) aact" where
  "dm_vault_ref_node E c ref =
     abind (v_ref_node E (nr_parent ref) (nr_child ref) (nr_owner ref)) (\<lambda>ok.
       if ok then athen (dm_auth_bcast_ref E ref) (answer c e_NetSuccess) else answer c e_NetInternalError)"

definition dm_vault_unref_node :: "'d auth_env \<Rightarrow> nat \<Rightarrow> NodeRef \<Rightarrow> ('d, unit) aact" where
  "dm_vault_unref_node E c ref =
     abind (v_unref_node E (nr_parent ref) (nr_child ref)) (\<lambda>ok.
       if ok then athen (dm_auth_bcast_unref E ref) (answer c e_NetSuccess) else answer c e_NetInternalError)"

definition dm_vault_send_node :: "'d auth_env \<Rightarrow> nat \<Rightarrow> Auth_NodeSend \<Rightarrow> ('d, unit) aact" where
  "dm_vault_send_node E c info =
     abind (v_send_node E (nd_nodeIdx info) (nd_playerIdx info) (nd_senderIdx info)) (\<lambda>ref.
     athen (awhen (nr_child ref \<noteq> 0 \<or> nr_owner ref \<noteq> 0 \<or> nr_parent ref \<noteq> 0) (dm_auth_bcast_ref E ref)) (answer c 0))"

definition dm_vault_fetch_tree :: "'d auth_env \<Rightarrow> nat \<Rightarrow> nat \<Rightarrow> Auth_NodeRefList \<Rightarrow> ('d, unit) aact" where
  "dm_vault_fetch_tree E p c info =
     abind (v_fetch_tree E (rl_nodeId info)) (\<lambda>refs.
       case refs of
         None \<Rightarrow> answer c e_NetInternalError
       | Some refs \<Rightarrow> athen (store p (e_VaultFetchNodeTree (info\<lparr>rl_refs := refs\<rparr>))) (answer c e_NetSuccess))"

definition dm_vault_find_node :: "'d auth_env \<Rightarrow> nat \<Rightarrow> nat \<Rightarrow> Auth_NodeFindList \<Rightarrow> ('d, unit) aact" where
  "dm_vault_find_node E p c info =
     abind (v_find_nodes E (fl_template info)) (\<lambda>nodes.
       case nodes of
         None \<Rightarrow> answer c e_NetInternalError
       | Some nodes \<Rightarrow> athen (store p (e_VaultFindNode (info\<lparr>fl_nodes := nodes\<rparr>))) (answer c e_NetSuccess))"

section \<open>The loop of the daemon\<close>

text \<open>\<open>e_AuthRestrictLogins\<close> is the only message that also comes without a payload.\<close>

definition dm_restrict_logins :: "nat \<Rightarrow> nat option \<Rightarrow> ('d, unit) aact" where
  "dm_restrict_logins p client =
     athen (amod (\<lambda>w. w\<lparr>aw_restrictLogins := \<not> aw_restrictLogins w\<rparr>))
       (case client of
          None \<Rightarrow> aret ()
        | Some c \<Rightarrow>
            abind (aget aw_restrictLogins) (\<lambda>status. athen (store p (e_AuthRestrictLogins status)) (answer c e_NetSuccess)))"

text \<open>
  The end of the daemon closes the sockets; the workers that die of it are other threads, and the daemon waits for them
  at most five seconds.
\<close>

definition dm_auth_shutdown :: "('d, unit) aact" where
  "dm_auth_shutdown =
     athen (abind (aget aw_clients) (\<lambda>clients. aseq (map (\<lambda>c. set_client c (\<lambda>k. k\<lparr>ac_closed := True\<rparr>)) clients)))
       (amod (\<lambda>w. w\<lparr>aw_globalStates := []\<rparr>))"

definition handle_request :: "'d auth_env \<Rightarrow> nat \<Rightarrow> nat \<Rightarrow> auth_request \<Rightarrow> ('d, unit) aact" where
  "handle_request E p c body =
     (case body of
        e_AuthShutdown \<Rightarrow> dm_auth_shutdown
      | e_AuthClientLogin info \<Rightarrow> dm_auth_login E p c info
      | e_AuthSetPlayer \<Rightarrow> dm_auth_setPlayer E c
      | e_AuthCreatePlayer player \<Rightarrow> dm_auth_createPlayer E p c player
      | e_AuthDeletePlayer player \<Rightarrow> dm_auth_deletePlayer E c player
      | e_VaultCreateNode info \<Rightarrow> dm_vault_create_node E p c info
      | e_VaultFetchNode info \<Rightarrow> dm_vault_fetch_node E p c info
      | e_VaultUpdateNode info \<Rightarrow> dm_vault_update_node E p c info
      | e_VaultRefNode ref \<Rightarrow> dm_vault_ref_node E c ref
      | e_VaultUnrefNode ref \<Rightarrow> dm_vault_unref_node E c ref
      | e_VaultFetchNodeTree info \<Rightarrow> dm_vault_fetch_tree E p c info
      | e_VaultFindNode info \<Rightarrow> dm_vault_find_node E p c info
      | e_VaultSendNode info \<Rightarrow> dm_vault_send_node E c info
      | e_VaultInitAge msg \<Rightarrow> dm_auth_createAge E p c msg
      | e_AuthFindGameServer msg \<Rightarrow> dm_auth_findAge E p c msg
      | e_AuthDisconnect \<Rightarrow> dm_auth_disconnect E c
      | e_AuthAddAcct name password \<Rightarrow> dm_auth_addacct E c name password
      | e_AuthGetPublic msg \<Rightarrow> dm_auth_get_public E p c msg
      | e_AuthSetPublic node public \<Rightarrow> dm_auth_set_pub_priv E c node public
      | e_AuthCreateScore msg \<Rightarrow> dm_auth_createScore E p c msg
      | e_AuthGetScores msg \<Rightarrow> dm_auth_getScores E p c msg
      | e_AuthAddScorePoints msg \<Rightarrow> dm_auth_addScorePoints E c msg
      | e_AuthTransferScorePoints msg \<Rightarrow> dm_auth_transferScorePoints E c msg
      | e_AuthSetScorePoints msg \<Rightarrow> dm_auth_setScorePoints E c msg
      | e_AuthGetHighScores msg maxScores \<Rightarrow> dm_auth_getHighScores E p c msg maxScores
      | e_AuthUpdateAgeSrv msg \<Rightarrow> dm_auth_updateAgeSrv E p c msg
      | e_AuthAcctFlags msg \<Rightarrow> dm_auth_acctFlags E p c msg
      | e_AuthRestrictLogins status \<Rightarrow> dm_restrict_logins p (Some c)
      | e_AuthAddAllPlayers player \<Rightarrow> dm_auth_addAllPlayers E c player
      | e_AuthFetchSDL msg \<Rightarrow> dm_auth_fetchSDL E p c msg
      | e_AuthUpdateGlobalSDL msg \<Rightarrow> dm_auth_update_globalSDL E c msg)"

text \<open>
  One round of the loop on the message at the head of the channel, if there is one; without a payload, the other
  messages would be read through a null pointer. \<open>True\<close>: the loop goes on.
\<close>

definition daemon_step :: "'d auth_env \<Rightarrow> ('d, bool) aact" where
  "daemon_step E =
     abind (aget aw_channel) (\<lambda>queue.
       case queue of
         [] \<Rightarrow> afail Blocked
       | p # rest \<Rightarrow>
           athen (amod (\<lambda>w. w\<lparr>aw_channel := rest\<rparr>))
           (abind (aget (\<lambda>w. aw_msg w p)) (\<lambda>msg.
              case (am_client msg, am_body msg) of
                (_, e_AuthShutdown) \<Rightarrow> athen dm_auth_shutdown (aret False)
              | (None, e_AuthRestrictLogins _) \<Rightarrow> athen (dm_restrict_logins p None) (aret True)
              | (None, _) \<Rightarrow> afail (Thrown UndefinedBehaviour)
              | (Some c, body) \<Rightarrow>
                  athen (acatch (handle_request E p c body) (answer c e_NetInternalError)) (aret True))))"

definition daemon_start :: "'d auth_env \<Rightarrow> ('d, bool) aact" where
  "daemon_start E =
     abind (dm_vault_init E) (\<lambda>ok. if \<not> ok then aret False else
     abind (dm_global_sdl_init E) (\<lambda>ok. if \<not> ok then aret False else
     abind (dm_check_static_ages E) (\<lambda>ok. if \<not> ok then aret False else
     abind (dm_all_players_init E) (\<lambda>ok. if \<not> ok then aret False else
     abind (PQexecVA E sql_All_offline [Arg_int 23]) (\<lambda>_. aret True)))))"

end
