(* ===== verification/Auth_Frames.thy ===== *)
theory Auth_Frames
  imports Auth_Daemon
begin

unbundle bit_operations_syntax

text \<open>
  What the operations of the vault and the handlers of the daemon leave alone. A \<open>vault_frame\<close> is a relation that allows
  changes of the database, of the messages at some addresses, of the game server and of the broadcasts; every operation of the vault respects it. A
  \<open>daemon_frame\<close> also allows replies and a change of the age of a client; every handler but the one for logins and the one
  that sets the player respects it. What a handler sends to its client is counted by \<open>replies\<close>.
\<close>

section \<open>Loops\<close>

context frame
begin

lemma keeps_acollect: "(\<And>a. a \<in> set as \<Longrightarrow> keeps a) \<Longrightarrow> keeps (acollect as)"
  by (induction as) (simp_all add: keeps_aret keeps_abind)

lemma keeps_acollect_map: "(\<And>x. keeps (f x)) \<Longrightarrow> keeps (acollect (map f xs))"
  by (rule keeps_acollect) auto

lemma keeps_apipe: "(\<And>f x. f \<in> set fs \<Longrightarrow> keeps (f x)) \<Longrightarrow> keeps (apipe fs x)"
  by (induction fs arbitrary: x) (simp_all add: keeps_aret keeps_abind)

lemma keeps_DS_ASSERT: "keeps (DS_ASSERT b)"
  by (simp add: DS_ASSERT_def keeps_aret keeps_afail)

end

section \<open>The vault\<close>

definition with_client :: "nat \<Rightarrow> (AuthClient \<Rightarrow> AuthClient) \<Rightarrow> 'd auth_world \<Rightarrow> 'd auth_world" where
  "with_client c f w = w\<lparr>aw_client := (aw_client w)(c := f (aw_client w c))\<rparr>"

lemma set_client_with: "set_client c f = amod (with_client c f)"
  by (simp add: set_client_def with_client_def [abs_def])

locale vault_frame = frame R for R :: "'d auth_world \<Rightarrow> 'd auth_world \<Rightarrow> bool" +
  fixes P :: "nat set"
  assumes R_db: "R w (w\<lparr>aw_db := d\<rparr>)"
    and R_calls: "R w (w\<lparr>aw_calls := n\<rparr>)"
    and R_store: "p \<in> P \<Longrightarrow> R w (w\<lparr>aw_msg := (aw_msg w)(p := (aw_msg w p)\<lparr>am_body := body\<rparr>)\<rparr>)"
    and R_game: "R w (w\<lparr>aw_game := g\<rparr>)"
    and R_global: "R w (w\<lparr>aw_globalStates := gs\<rparr>)"
    and R_broadcast: "R w (with_client c (\<lambda>k. k\<lparr>ac_broadcast := b k\<rparr>) w)"
begin

lemma keeps_PQexecVA: "keeps (PQexecVA E sql args)"
  by (simp add: keeps_def PQexecVA_def R_db split: prod.split)

lemma keeps_check_postgres: "keeps (check_postgres E)"
  unfolding check_postgres_def by (rule keeps_amod) (rule R_db)

lemma keeps_time_now: "keeps (time_now E)"
  by (simp add: keeps_def time_now_def R_calls)

lemma keeps_the_client: "keeps (the_client c)"
  unfolding the_client_def by (rule keeps_aget)

lemma keeps_store: "p \<in> P \<Longrightarrow> keeps (store p body)"
  unfolding store_def by (rule keeps_amod) (rule R_store)

lemma keeps_on_game: "keeps (on_game a)"
  by (simp add: keeps_def on_game_def R_game split: prod.split)

lemma keeps_columns:
  "keeps (get_text r i j)" "keeps (get_uint r i j)" "keeps (get_int r i j)" "keeps (get_string E r i j)"
  "keeps (get_uuid r i j)" "keeps (get_hash r i j)" "keeps (get_blob E r i j)"
  unfolding get_text_def get_uint_def get_int_def get_string_def get_uuid_def get_hash_def get_blob_def
  by (intro keeps_intros)+

lemmas db_intros = keeps_intros keeps_PQexecVA keeps_check_postgres keeps_time_now keeps_the_client keeps_store
  keeps_on_game keeps_columns keeps_acollect_map keeps_DS_ASSERT UNIV_I

lemma keeps_v_create_node: "keeps (v_create_node E node)"
  unfolding v_create_node_def by (intro db_intros)

lemma keeps_v_update_node: "keeps (v_update_node E node)"
  unfolding v_update_node_def by (intro db_intros)

lemma keeps_v_find_nodes: "keeps (v_find_nodes E node)"
  unfolding v_find_nodes_def by (intro db_intros)

lemma keeps_always: "(\<And>r i j. keeps (get r i j)) \<Longrightarrow> keeps (always get put r j n)"
  unfolding always_def by (intro db_intros)

lemma keeps_unless_null: "(\<And>r i j. keeps (get r i j)) \<Longrightarrow> keeps (unless_null get put r j n)"
  unfolding unless_null_def by (intro db_intros keeps_always)

lemma keeps_v_fetch_node: "keeps (v_fetch_node E idx)"
  unfolding v_fetch_node_def
  by (intro db_intros keeps_apipe)
    (auto simp: read_row_def intro: keeps_always keeps_unless_null keeps_columns)

lemma keeps_v_has_node: "keeps (v_has_node E parent child)"
  unfolding v_has_node_def by (intro db_intros)

lemma keeps_v_ref_node: "keeps (v_ref_node E parent child owner)"
  unfolding v_ref_node_def by (intro db_intros)

lemma keeps_v_unref_node: "keeps (v_unref_node E parent child)"
  unfolding v_unref_node_def by (intro db_intros)

lemma keeps_v_fetch_tree: "keeps (v_fetch_tree E idx)"
  unfolding v_fetch_tree_def get_ref_def by (intro db_intros)

lemma keeps_v_send_node: "keeps (v_send_node E idx player sender)"
  unfolding v_send_node_def by (intro db_intros keeps_v_ref_node)

lemma keeps_v_count_age_owners: "keeps (v_count_age_owners E idx)"
  unfolding v_count_age_owners_def by (intro db_intros)

lemma keeps_v_find_public_ages: "keeps (v_find_public_ages E name)"
  unfolding v_find_public_ages_def get_age_def by (intro db_intros)

lemma keeps_gen_uuid: "keeps (gen_uuid E)"
  unfolding gen_uuid_def by (intro db_intros)

lemma keeps_gen_default_sdl: "keeps (gen_default_sdl E name)"
  unfolding gen_default_sdl_def by (intro db_intros)

lemmas vault_intros = db_intros keeps_v_create_node keeps_v_update_node keeps_v_find_nodes keeps_v_fetch_node
  keeps_v_has_node keeps_v_ref_node keeps_v_unref_node keeps_v_fetch_tree keeps_v_send_node keeps_v_count_age_owners
  keeps_v_find_public_ages keeps_gen_uuid keeps_gen_default_sdl

lemma keeps_create_or: "(\<And>idx. keeps (k idx)) \<Longrightarrow> keeps (create_or E none node k)"
  unfolding create_or_def by (intro vault_intros)

lemma keeps_refs_or: "keeps k \<Longrightarrow> keeps (refs_or E none refs k)"
  by (induction E none refs k rule: refs_or.induct) (simp_all add: keeps_intros keeps_v_ref_node)

lemma keeps_v_create_age: "keeps (v_create_age E age flags)"
  unfolding v_create_age_def age_seqNumber_def register_server_def Let_def
  by (intro vault_intros keeps_create_or keeps_refs_or)

lemma keeps_find_hood: "keeps (find_hood E r is)"
  by (induction E r "is" rule: find_hood.induct) (simp_all add: keeps_intros keeps_columns keeps_v_count_age_owners)

lemma keeps_find_a_friendly_neighborhood: "keeps (find_a_friendly_neighborhood_for_our_new_visitor E)"
  unfolding find_a_friendly_neighborhood_for_our_new_visitor_def new_hood_def
  by (intro vault_intros keeps_v_create_age keeps_find_hood)

lemma keeps_v_create_player: "keeps (v_create_player E acct player)"
  unfolding v_create_player_def own_age_def find_public_age_1_def Let_def
  by (intro vault_intros keeps_create_or keeps_refs_or keeps_v_create_age keeps_find_a_friendly_neighborhood)

lemma keeps_bcast: "keeps (bcast E node type contents)"
  unfolding bcast_def bcast_to_def set_client_with by (intro vault_intros keeps_amod R_broadcast)

lemma keeps_dm_auth_bcast:
  "keeps (dm_auth_bcast_node E idx revision)" "keeps (dm_auth_bcast_ref E ref)" "keeps (dm_auth_bcast_unref E ref)"
  unfolding dm_auth_bcast_node_def dm_auth_bcast_ref_def dm_auth_bcast_unref_def by (rule keeps_bcast)+

lemma keeps_bcast_rows: "keeps (bcast_rows E result)"
  unfolding bcast_rows_def by (intro vault_intros keeps_dm_auth_bcast)

lemma keeps_put_global: "keeps (put_global E name s)"
  unfolding put_global_def by (intro keeps_amod R_global)

lemma keeps_set_global: "keeps (set_global E name s)"
  unfolding set_global_def by (intro vault_intros keeps_put_global)

lemmas quiet_intros = vault_intros keeps_v_create_age keeps_v_create_player keeps_dm_auth_bcast keeps_bcast_rows
  keeps_put_global keeps_set_global

end

section \<open>The daemon\<close>

locale daemon_frame = vault_frame +
  assumes R_answer: "R w (with_client c (\<lambda>k. k\<lparr>ac_channel := q k\<rparr>) w)"
    and R_ageNodeId: "R w (with_client c (\<lambda>k. k\<lparr>ac_ageNodeId := n\<rparr>) w)"
    and R_closed: "R w (with_client c (\<lambda>k. k\<lparr>ac_closed := True\<rparr>) w)"
    and R_restrictLogins: "R w (w\<lparr>aw_restrictLogins := b'\<rparr>)"
begin

lemma keeps_answer: "keeps (answer c code)"
  unfolding answer_def set_client_with by (intro keeps_amod R_answer)

lemmas dm_intros = quiet_intros keeps_answer

lemma keeps_players:
  "p \<in> P \<Longrightarrow> keeps (dm_auth_createPlayer E p c player)" "keeps (dm_auth_deletePlayer E c idx)" "keeps (dm_auth_disconnect E c)"
  unfolding dm_auth_createPlayer_def add_player_def welcome_player_def dm_auth_deletePlayer_def remove_player_def
    dm_auth_disconnect_def aseq.simps
  by (intro dm_intros | assumption)+

lemma keeps_accounts:
  "keeps (dm_auth_addacct E c name password)" "p \<in> P \<Longrightarrow> keeps (dm_auth_acctFlags E p c flags)"
  unfolding dm_auth_addacct_def dm_auth_acctFlags_def Let_def by (intro dm_intros | assumption)+

lemma keeps_ages:
  "p \<in> P \<Longrightarrow> keeps (dm_auth_createAge E p c create)" "p \<in> P \<Longrightarrow> keeps (dm_auth_findAge E p c age)" "p \<in> P \<Longrightarrow> keeps (dm_auth_get_public E p c public)"
  "keeps (dm_auth_set_pub_priv E c node b)"
  unfolding dm_auth_createAge_def find_age_nodes_def dm_auth_findAge_def age_found_def dm_auth_get_public_def
    dm_auth_set_pub_priv_def dm_auth_set_public_def dm_auth_set_private_def publish_def
  by (intro dm_intros | assumption)+

lemma keeps_scores:
  "p \<in> P \<Longrightarrow> keeps (dm_auth_createScore E p c score)" "p \<in> P \<Longrightarrow> keeps (dm_auth_getScores E p c scores)"
  "keeps (dm_auth_addScorePoints E c update)" "keeps (dm_auth_transferScorePoints E c transfer)"
  "keeps (dm_auth_setScorePoints E c update)" "p \<in> P \<Longrightarrow> keeps (dm_auth_getHighScores E p c scores n)"
  unfolding dm_auth_createScore_def dm_auth_getScores_def get_score_def dm_auth_addScorePoints_def
    dm_auth_transferScorePoints_def dm_auth_setScorePoints_def dm_auth_getHighScores_def send_high_scores_def get_high_score_def
  by (intro dm_intros | assumption)+

lemma keeps_nodes:
  "p \<in> P \<Longrightarrow> keeps (dm_vault_create_node E p c info)" "p \<in> P \<Longrightarrow> keeps (dm_vault_fetch_node E p c info)" "p \<in> P \<Longrightarrow> keeps (dm_vault_update_node E p c info)"
  "keeps (dm_vault_ref_node E c ref)" "keeps (dm_vault_unref_node E c ref)" "keeps (dm_vault_send_node E c sent)"
  "p \<in> P \<Longrightarrow> keeps (dm_vault_fetch_tree E p c tree)" "p \<in> P \<Longrightarrow> keeps (dm_vault_find_node E p c template)"
  unfolding dm_vault_create_node_def dm_vault_fetch_node_def dm_vault_update_node_def save_node_def dm_vault_ref_node_def
    dm_vault_unref_node_def dm_vault_send_node_def dm_vault_fetch_tree_def dm_vault_find_node_def
  by (intro dm_intros | assumption)+

lemma keeps_change_variable: "keeps (change_variable E c update state k)"
  unfolding change_variable_def save_global_def by (intro dm_intros)

lemma keeps_console:
  "p \<in> P \<Longrightarrow> keeps (dm_auth_updateAgeSrv E p c srv)" "keeps (dm_auth_addAllPlayers E c player)"
  "p \<in> P \<Longrightarrow> keeps (dm_auth_fetchSDL E p c fetch)" "p \<in> P \<Longrightarrow> keeps (dm_restrict_logins p client)" "keeps dm_auth_shutdown"
  unfolding dm_auth_updateAgeSrv_def dm_auth_addAllPlayers_def dm_auth_fetchSDL_def dm_restrict_logins_def dm_auth_shutdown_def
    set_client_with
  by (intro dm_intros keeps_amod R_ageNodeId R_restrictLogins R_closed R_global | assumption)+

lemma keeps_restrict_null: "keeps (dm_restrict_logins p None)"
  unfolding dm_restrict_logins_def option.case by (intro dm_intros keeps_amod R_restrictLogins)

lemma keeps_update_globalSDL: "keeps (dm_auth_update_globalSDL E c update)"
  unfolding dm_auth_update_globalSDL_def
  by (intro dm_intros) (simp split: State.split option.split add: dm_intros keeps_change_variable)

lemmas keeps_handlers = keeps_players keeps_accounts keeps_ages keeps_scores keeps_nodes keeps_console keeps_restrict_null
  keeps_update_globalSDL

lemma keeps_handle_request:
  assumes "p \<in> P" and "\<And>info. body = e_AuthClientLogin info \<Longrightarrow> keeps (dm_auth_login E p c info)"
    and "body = e_AuthSetPlayer \<Longrightarrow> keeps (dm_auth_setPlayer E c)"
  shows "keeps (handle_request E p c body)"
  unfolding handle_request_def using assms by (cases body) (simp_all add: keeps_handlers)

end

text \<open>A frame that also allows messages to be taken from the channel of the daemon.\<close>

locale loop_frame = daemon_frame +
  assumes R_channel: "R w (w\<lparr>aw_channel := ps\<rparr>)"

end
