(* ===== verification/Auth_Replies.thy ===== *)
theory Auth_Replies
  imports Auth_Frames
begin

unbundle bit_operations_syntax

text \<open>
  How many replies a message gets. A worker sends one message and takes one reply from the channel of its client
  before it goes on, so a handler that answers twice, or never, leaves the two out of step.
\<close>

section \<open>Counting replies\<close>

definition replied :: "'d auth_world \<Rightarrow> nat \<Rightarrow> u32 list" where
  "replied w c = ac_channel (aw_client w c)"

interpretation silent: vault_frame "\<lambda>w w' :: 'd auth_world. replied w' = replied w" UNIV
  by unfold_locales (auto simp: replied_def with_client_def fun_eq_iff)

text \<open>The replies to \<open>c\<close>: as many as \<open>A\<close> says when the action returns, as many as \<open>B\<close> says when it throws.\<close>

definition replies :: "nat \<Rightarrow> nat set \<Rightarrow> nat set \<Rightarrow> ('d, 'a) aact \<Rightarrow> bool" where
  "replies c A B a \<longleftrightarrow>
     (\<forall>w. \<exists>codes. replied (snd (a w)) = (replied w)(c := replied w c @ codes)
        \<and> length codes \<in> (case fst (a w) of Inl _ \<Rightarrow> B | Inr _ \<Rightarrow> A))"

lemma repliesI:
  "(\<And>w. \<exists>codes. replied (snd (a w)) = (replied w)(c := replied w c @ codes)
     \<and> length codes \<in> (case fst (a w) of Inl _ \<Rightarrow> B | Inr _ \<Rightarrow> A)) \<Longrightarrow> replies c A B a"
  by (simp add: replies_def)

lemma repliesE:
  assumes "replies c A B a" and "a w = (r, w')"
  obtains codes where "replied w' = (replied w)(c := replied w c @ codes)"
    and "length codes \<in> (case r of Inl _ \<Rightarrow> B | Inr _ \<Rightarrow> A)"
  using assms(1) [unfolded replies_def, rule_format, of w] assms(2) by auto

lemma replies_quiet:
  assumes "silent.keeps a"
  shows "replies c {0} {0} a"
proof (rule repliesI)
  fix w
  show "\<exists>codes. replied (snd (a w)) = (replied w)(c := replied w c @ codes)
      \<and> length codes \<in> (case fst (a w) of Inl _ \<Rightarrow> {0} | Inr _ \<Rightarrow> {0})"
    using silent.keepsD [OF assms, of w] by (intro exI [of _ "[]"]) (simp split: sum.split)
qed

lemma replies_mono: "replies c A B a \<Longrightarrow> A \<subseteq> A' \<Longrightarrow> B \<subseteq> B' \<Longrightarrow> replies c A' B' a"
  unfolding replies_def by (fastforce split: sum.splits)

text \<open>In sequence the replies add up; an action that throws is the last.\<close>

lemma replies_abind:
  assumes a: "replies c A B a" and f: "\<And>x. replies c A' B' (f x)"
  shows "replies c {m + n |m n. m \<in> A \<and> n \<in> A'} (B \<union> {m + n |m n. m \<in> A \<and> n \<in> B'}) (abind a f)"
proof (rule repliesI)
  fix w
  obtain r w1 where eq: "a w = (r, w1)" by (cases "a w")
  obtain codes where c1: "replied w1 = (replied w)(c := replied w c @ codes)"
    and l1: "length codes \<in> (case r of Inl _ \<Rightarrow> B | Inr _ \<Rightarrow> A)"
    by (rule repliesE [OF a eq])
  show "\<exists>codes. replied (snd (abind a f w)) = (replied w)(c := replied w c @ codes)
      \<and> length codes \<in> (case fst (abind a f w) of Inl _ \<Rightarrow> B \<union> {m + n |m n. m \<in> A \<and> n \<in> B'}
          | Inr _ \<Rightarrow> {m + n |m n. m \<in> A \<and> n \<in> A'})"
  proof (cases r)
    case (Inl e)
    then show ?thesis using eq c1 l1 by (auto simp: abind_def intro: exI [of _ codes])
  next
    case (Inr x)
    obtain r' w2 where eq': "f x w1 = (r', w2)" by (cases "f x w1")
    obtain codes' where c2: "replied w2 = (replied w1)(c := replied w1 c @ codes')"
      and l2: "length codes' \<in> (case r' of Inl _ \<Rightarrow> B' | Inr _ \<Rightarrow> A')"
      by (rule repliesE [OF f eq'])
    show ?thesis using eq Inr eq' c1 c2 l1 l2
      by (intro exI [of _ "codes @ codes'"]) (auto simp: abind_def split: sum.splits)
  qed
qed

lemma replies_then: "silent.keeps a \<Longrightarrow> (\<And>x. replies c A B (f x)) \<Longrightarrow> 0 \<in> B \<Longrightarrow> replies c A B (abind a f)"
  by (rule replies_mono [OF replies_abind [OF replies_quiet]]) auto

lemma replies_athen: "silent.keeps a \<Longrightarrow> replies c A B b \<Longrightarrow> 0 \<in> B \<Longrightarrow> replies c A B (athen a b)"
  unfolding athen_def by (rule replies_then)

lemma replies_answer: "1 \<in> A \<Longrightarrow> replies c A B (answer c code)"
proof (rule repliesI)
  fix w
  assume "1 \<in> A"
  then show "\<exists>codes. replied (snd (answer c code w)) = (replied w)(c := replied w c @ codes)
      \<and> length codes \<in> (case fst (answer c code w) of Inl _ \<Rightarrow> B | Inr _ \<Rightarrow> A)"
    by (intro exI [of _ "[code]"]) (auto simp: answer_def set_client_def amod_def replied_def fun_eq_iff)
qed

lemma replies_none: "silent.keeps a \<Longrightarrow> 0 \<in> A \<Longrightarrow> 0 \<in> B \<Longrightarrow> replies c A B a"
  by (rule replies_mono [OF replies_quiet]) auto

lemma replies_afail: "0 \<in> B \<Longrightarrow> replies c A B (afail e)"
  by (rule repliesI) (auto simp: afail_def intro: exI [of _ "[]"])

lemma replies_if: "(b \<Longrightarrow> replies c A B a) \<Longrightarrow> (\<not> b \<Longrightarrow> replies c A B a') \<Longrightarrow> replies c A B (if b then a else a')"
  by simp

lemma replies_option: "replies c A B a \<Longrightarrow> (\<And>x. replies c A B (f x)) \<Longrightarrow> replies c A B (case v of None \<Rightarrow> a | Some x \<Rightarrow> f x)"
  by (simp split: option.split)

lemma replies_prod: "(\<And>x y. replies c A B (f x y)) \<Longrightarrow> replies c A B (case v of (x, y) \<Rightarrow> f x y)"
  by (simp split: prod.split)

lemma replies_let: "replies c A B (f v) \<Longrightarrow> replies c A B (let x = v in f x)"
  by simp

text \<open>\<open>catch\<close> answers: a reply before the exception is then the first of two.\<close>

lemma replies_acatch:
  assumes "replies c A B a"
  shows "replies c (A \<union> Suc ` B) B (acatch a (answer c code))"
proof (rule repliesI)
  fix w
  obtain r w1 where eq: "a w = (r, w1)" by (cases "a w")
  obtain codes where c1: "replied w1 = (replied w)(c := replied w c @ codes)"
    and l1: "length codes \<in> (case r of Inl _ \<Rightarrow> B | Inr _ \<Rightarrow> A)"
    by (rule repliesE [OF assms eq])
  have a: "replied (snd (answer c code w1)) = (replied w1)(c := replied w1 c @ [code])"
    "fst (answer c code w1) = Inr ()"
    by (auto simp: answer_def set_client_def amod_def replied_def)
  let ?P = "\<lambda>codes. replied (snd (acatch a (answer c code) w)) = (replied w)(c := replied w c @ codes)
      \<and> length codes \<in> (case fst (acatch a (answer c code) w) of Inl _ \<Rightarrow> B | Inr _ \<Rightarrow> A \<union> Suc ` B)"
  have "?P codes" if "\<nexists>e. r = Inl e \<and> std_exception e"
    using that eq c1 l1 by (auto simp: acatch_def acatch_if_def split: sum.splits)
  moreover have "?P (codes @ [code])" if "r = Inl e" "std_exception e" for e
    using that eq c1 l1 a by (simp add: acatch_def acatch_if_def)
  ultimately show "\<exists>codes. ?P codes" by blast
qed

lemmas replies_intros = replies_then replies_athen replies_answer replies_afail replies_if replies_option replies_prod
  replies_let

section \<open>The handlers\<close>

lemma quiet_set_client:
  "(\<And>k. ac_channel (f k) = ac_channel k) \<Longrightarrow> silent.keeps (set_client c f)"
  unfolding set_client_def by (rule silent.keeps_amod) (simp add: replied_def fun_eq_iff)

lemmas once_intros = replies_intros silent.quiet_intros

abbreviation once :: "nat \<Rightarrow> ('d, 'a) aact \<Rightarrow> bool" where
  "once c a \<equiv> replies c {1} {0} a"

lemma once_accounts:
  "once c (dm_auth_addacct E c name password)" "once c (dm_auth_acctFlags E p c flags)" "once c (dm_auth_login E p c info)"
  unfolding dm_auth_addacct_def dm_auth_acctFlags_def dm_auth_login_def login_accepted_def login_players_def get_player_def Let_def
  by (intro once_intros quiet_set_client; simp)+

lemma once_players:
  "once c (dm_auth_deletePlayer E c idx)" "once c (dm_auth_disconnect E c)" "once c (dm_auth_setPlayer E c)"
  unfolding dm_auth_deletePlayer_def remove_player_def dm_auth_disconnect_def dm_auth_setPlayer_def refuse_player_def
    no_player_def player_active_def enter_player_def
  by (intro once_intros quiet_set_client; simp)+

lemma once_ages:
  "once c (dm_auth_createAge E p c create)" "once c (dm_auth_get_public E p c public)" "once c (dm_auth_set_pub_priv E c node b)"
  unfolding dm_auth_createAge_def find_age_nodes_def dm_auth_get_public_def
    dm_auth_set_pub_priv_def dm_auth_set_public_def dm_auth_set_private_def publish_def
  by (intro once_intros; simp)+

lemma once_scores:
  "once c (dm_auth_createScore E p c score)" "once c (dm_auth_getScores E p c scores)"
  "once c (dm_auth_addScorePoints E c update)" "once c (dm_auth_transferScorePoints E c transfer)"
  "once c (dm_auth_setScorePoints E c update)" "once c (dm_auth_getHighScores E p c scores n)"
  unfolding dm_auth_createScore_def dm_auth_getScores_def get_score_def dm_auth_addScorePoints_def
    dm_auth_transferScorePoints_def dm_auth_setScorePoints_def dm_auth_getHighScores_def send_high_scores_def get_high_score_def
  by (intro once_intros; simp)+

lemma once_nodes:
  "once c (dm_vault_create_node E p c info)" "once c (dm_vault_fetch_node E p c info)" "once c (dm_vault_update_node E p c info)"
  "once c (dm_vault_ref_node E c ref)" "once c (dm_vault_unref_node E c ref)" "once c (dm_vault_send_node E c sent)"
  "once c (dm_vault_fetch_tree E p c tree)" "once c (dm_vault_find_node E p c template)"
  unfolding dm_vault_create_node_def dm_vault_fetch_node_def dm_vault_update_node_def save_node_def dm_vault_ref_node_def
    dm_vault_unref_node_def dm_vault_send_node_def dm_vault_fetch_tree_def dm_vault_find_node_def
  by (intro once_intros; simp)+

lemma once_change_variable: "once c (change_variable E c update state k)"
  unfolding change_variable_def save_global_def by (intro once_intros; simp)

lemma once_console:
  "once c (dm_auth_updateAgeSrv E p c srv)" "once c (dm_auth_addAllPlayers E c player)" "once c (dm_auth_fetchSDL E p c fetch)"
  unfolding dm_auth_updateAgeSrv_def dm_auth_addAllPlayers_def dm_auth_fetchSDL_def
  by (intro once_intros quiet_set_client; simp)+

lemma once_restrict_logins: "once c (dm_restrict_logins p (Some c))"
  unfolding dm_restrict_logins_def option.case
  by (intro once_intros silent.keeps_amod; simp add: replied_def fun_eq_iff)

lemma once_update_globalSDL: "once c (dm_auth_update_globalSDL E c update)"
  unfolding dm_auth_update_globalSDL_def
  using once_change_variable [where E = E and c = c and update = update]
  by (intro once_intros) (simp_all split: State.split option.split add: once_intros)

lemmas once_handlers = once_accounts once_players once_ages once_scores once_nodes once_console once_restrict_logins
  once_update_globalSDL

text \<open>The exceptions: no age server, a player without nodes, and the end.\<close>

lemma replies_findAge: "replies c {0, 1} {0} (dm_auth_findAge E p c age)"
  unfolding dm_auth_findAge_def age_found_def by (intro once_intros replies_none [OF silent.keeps_aret]; simp)

lemma athen_done: "athen a (aret ()) = a"
  by (rule ext) (simp add: athen_def abind_def aret_def split: prod.split sum.split)

lemma replies_createPlayer: "replies c {1, 2} {0, 1} (dm_auth_createPlayer E p c player)"
proof -
  have first: "replies c {0, 1} {0} (awhen b (answer c code) :: ('d, unit) aact)" for b code
    unfolding awhen_def by (intro replies_if replies_answer replies_none [OF silent.keeps_aret]; simp)
  have rest: "replies c {1, 2} {0, 1} (athen (awhen b (answer c code)) (athen q (athen q' a)) :: ('d, unit) aact)"
    if "silent.keeps q" "silent.keeps q'" "once c a" for b code q q' a
    unfolding athen_def [of "awhen b (answer c code)"]
    by (rule replies_mono [OF replies_abind [OF first replies_athen [OF that(1) replies_athen [OF that(2) that(3)]]]]) auto
  show ?thesis
    unfolding dm_auth_createPlayer_def add_player_def welcome_player_def aseq.simps athen_done
    by (intro replies_answer replies_if replies_then replies_prod replies_let rest replies_athen silent.quiet_intros; simp)
qed

end
