(* ===== verification/Vault_Roundtrip.thy ===== *)
theory Vault_Roundtrip
  imports Vault_Store
begin

unbundle bit_operations_syntax

text \<open>
  What the database keeps of a node. \<open>v_create_node\<close> puts the fields of a node together to a statement with parameters, and
  \<open>v_fetch_node\<close> reads the columns of a row back: the statements fit their buffers for every node, and a row that holds what the
  statement stored gives the node again.
\<close>

section \<open>A node is read back\<close>

text \<open>
  What the libraries promise: a number is printed in decimal, and Base64 text decodes to what was encoded. A string
  survives when it holds no NUL and is UTF-8.
\<close>

definition decimal_format :: "'d auth_env \<Rightarrow> bool" where
  "decimal_format E \<longleftrightarrow>
     (\<forall>n. decimal_text (c_str (ae_from_uint E n)) = (False, int n))
     \<and> (\<forall>z. decimal_text (c_str (ae_from_int E z)) = (z < 0, \<bar>z\<bar>))"

definition text_ok :: "'d auth_env \<Rightarrow> st_string \<Rightarrow> bool" where
  "text_ok E s \<longleftrightarrow> st_string_of (ae_st E) (c_str s) = Some s"

definition base64_format :: "'d auth_env \<Rightarrow> bool" where
  "base64_format E \<longleftrightarrow>
     (\<forall>b. text_ok E (ge_base64 (ae_game E) b) \<and> ae_unbase64 E (ge_base64 (ae_game E) b) = Some b)"

definition formats_ok :: "'d auth_env \<Rightarrow> bool" where
  "formats_ok E \<longleftrightarrow> decimal_format E \<and> base64_format E \<and> hex_format (ae_hex E)"

definition storable :: "'d auth_env \<Rightarrow> Node \<Rightarrow> bool" where
  "storable E n \<longleftrightarrow>
     (bit (vn_fields n) 3 \<longrightarrow> text_ok E (vn_CreateAgeName n))
     \<and> (bit (vn_fields n) 4 \<longrightarrow> Uuid_wf (vn_CreateAgeUuid n))
     \<and> (bit (vn_fields n) 5 \<longrightarrow> Uuid_wf (vn_CreatorUuid n))
     \<and> (bit (vn_fields n) 16 \<longrightarrow> Uuid_wf (vn_Uuid_1 n))
     \<and> (bit (vn_fields n) 17 \<longrightarrow> Uuid_wf (vn_Uuid_2 n))
     \<and> (bit (vn_fields n) 18 \<longrightarrow> Uuid_wf (vn_Uuid_3 n))
     \<and> (bit (vn_fields n) 19 \<longrightarrow> Uuid_wf (vn_Uuid_4 n))
     \<and> (bit (vn_fields n) 20 \<longrightarrow> text_ok E (vn_String64_1 n))
     \<and> (bit (vn_fields n) 21 \<longrightarrow> text_ok E (vn_String64_2 n))
     \<and> (bit (vn_fields n) 22 \<longrightarrow> text_ok E (vn_String64_3 n))
     \<and> (bit (vn_fields n) 23 \<longrightarrow> text_ok E (vn_String64_4 n))
     \<and> (bit (vn_fields n) 24 \<longrightarrow> text_ok E (vn_String64_5 n))
     \<and> (bit (vn_fields n) 25 \<longrightarrow> text_ok E (vn_String64_6 n))
     \<and> (bit (vn_fields n) 26 \<longrightarrow> text_ok E (vn_IString64_1 n))
     \<and> (bit (vn_fields n) 27 \<longrightarrow> text_ok E (vn_IString64_2 n))
     \<and> (bit (vn_fields n) 28 \<longrightarrow> text_ok E (vn_Text_1 n))
     \<and> (bit (vn_fields n) 29 \<longrightarrow> text_ok E (vn_Text_2 n))"

text \<open>The row of the table, in the order of \<open>v_fetch_node\<close>'s columns, that the parameters of the insertion make.\<close>

definition stored_row :: "'d auth_env \<Rightarrow> Node \<Rightarrow> u32 \<Rightarrow> u32 \<Rightarrow> bytes option list" where
  "stored_row E node t idx =
     map (Some \<circ> PostgresStrings_set E) [Arg_uint idx, Arg_int t, Arg_int t]
     @ map (\<lambda>(k, name, v). if bit (vn_fields node) k then Some (PostgresStrings_set E v) else None) (node_columns E node)"

text \<open>What is read from it.\<close>

definition fetched :: "ext_lib \<Rightarrow> Node \<Rightarrow> u32 \<Rightarrow> u32 \<Rightarrow> Node" where
  "fetched L node t idx =
     (Node_copy (fresh_node L) node)\<lparr>vn_NodeIdx := idx, vn_CreateTime := t, vn_ModifyTime := t,
        vn_fields := take_bit 32 (vn_fields node) OR 7\<rparr>"

definition cond_set :: "bool \<Rightarrow> (Node \<Rightarrow> Node) \<Rightarrow> Node \<Rightarrow> Node" where
  "cond_set b f n = (if b then f n else n)"

definition put_if :: "Node \<Rightarrow> nat \<Rightarrow> (Node \<Rightarrow> Node) \<Rightarrow> Node \<Rightarrow> ('d, Node) aact" where
  "put_if node k f n = aret (cond_set (bit (vn_fields node) k) f n)"

lemma numbers_read:
  assumes "decimal_format E"
  shows "ucast (strtoul10 (PostgresStrings_set E (Arg_uint v))) = v" "of_int (strtol10 (PostgresStrings_set E (Arg_int v))) = v"
    "ucast (strtoul10 (PostgresStrings_set E (Arg_int v))) = v"
proof -
  have u: "decimal_text (PostgresStrings_set E (Arg_uint v)) = (False, uint v)"
    and i: "decimal_text (PostgresStrings_set E (Arg_int v)) = (sint v < 0, \<bar>sint v\<bar>)"
    using assms by (simp_all add: decimal_format_def)
  have "uint v < 2 ^ 64" using uint_lt2p [of v] by simp
  then show "ucast (strtoul10 (PostgresStrings_set E (Arg_uint v))) = v"
    unfolding strtoul10_def u by simp (simp add: ucast_u64)
  have b: "- (2 ^ 31) \<le> sint v" "sint v < 2 ^ 31" using sint_range_size [of v] by (simp_all add: word_size)
  show "of_int (strtol10 (PostgresStrings_set E (Arg_int v))) = v"
    unfolding strtol10_def i using b by (simp add: min_def max_def)
  have "\<bar>sint v\<bar> < 2 ^ 64" using b by simp
  then have "strtoul10 (PostgresStrings_set E (Arg_int v)) = (of_int (sint v) :: u64)"
    unfolding strtoul10_def i by simp
  then show "ucast (strtoul10 (PostgresStrings_set E (Arg_int v))) = v" 
    by (simp only:) (rule bit_word_eqI, auto simp: bit_simps)
qed

lemma length_node_columns: "length (node_columns E node) = 29"
  by (simp add: node_columns_def)

lemma column_bit: "i < 29 \<Longrightarrow> fst (node_columns E node ! i) = i + 3"
  by (simp add: node_columns_def numeral_eq_Suc less_Suc_eq) (elim disjE; simp)

lemma stored_cell:
  assumes "3 \<le> j" and "j < 32"
  shows "stored_row E node t idx ! j =
    (if bit (vn_fields node) j then Some (PostgresStrings_set E (snd (snd (node_columns E node ! (j - 3))))) else None)"
proof -
  have "stored_row E node t idx ! j = (case node_columns E node ! (j - 3) of (k, name, v) \<Rightarrow>
      if bit (vn_fields node) k then Some (PostgresStrings_set E v) else None)"
    using assms by (simp add: stored_row_def nth_append length_node_columns numeral_3_eq_3)
  moreover have "fst (node_columns E node ! (j - 3)) = j" using assms column_bit [of "j - 3" E node] by simp
  ultimately show ?thesis by (cases "node_columns E node ! (j - 3)") simp
qed

lemma length_stored_row: "length (stored_row E node t idx) = 32"
  by (simp add: stored_row_def length_node_columns)

lemma stored_null:
  "3 \<le> j \<Longrightarrow> j < 32 \<Longrightarrow> PQgetisnull (PG_tuples [stored_row E node t idx]) 0 j \<longleftrightarrow> \<not> bit (vn_fields node) j"
  by (simp add: stored_cell length_stored_row)

lemma stored_text:
  assumes "3 \<le> j" and "j < 32" and "bit (vn_fields node) j" and "snd (snd (node_columns E node ! (j - 3))) = arg"
  shows "get_text (PG_tuples [stored_row E node t idx]) 0 j = aret (PostgresStrings_set E arg)"
  using assms by (simp add: get_text_def stored_cell length_stored_row alift_cases)

lemma hex_c_str:
  assumes "hex_format hex" and "Uuid_wf u"
  shows "c_str (Uuid_toString hex u False) = Uuid_toString hex u False"
proof -
  have hex: "0 \<notin> set (hex w v)" if "v < 16 ^ w" for w v
  proof
    assume "0 \<in> set (hex w v)"
    then have "hex_digit 0 \<noteq> None" using assms(1) that unfolding hex_format_def by blast
    then show False by (simp add: hex_digit_def)
  qed
  have "0 \<notin> set (hex 8 (unat (x :: u32)))" "0 \<notin> set (hex 4 (unat (y :: u16)))" "0 \<notin> set (hex 2 (unat (z :: byte)))" for x y z
    by (rule hex, rule hex_bounds)+
  then have "0 \<notin> set (Uuid_toString hex u False)" by (simp add: Uuid_toString_def Let_def)
  then show ?thesis by (metis (mono_tags, lifting) c_str_def takeWhile_eq_all_conv)
qed

text \<open>A column that is not null gives back the field.\<close>

lemma stored_gets:
  assumes "formats_ok E" and "3 \<le> j" and "j < 32" and "bit (vn_fields node) j"
    and r: "r = PG_tuples [stored_row E node t idx]" and arg: "snd (snd (node_columns E node ! (j - 3))) = arg"
  shows "arg = Arg_uint n \<Longrightarrow> get_uint r 0 j = aret n" "arg = Arg_int n \<Longrightarrow> get_int r 0 j = aret n"
    "arg = Arg_int n \<Longrightarrow> get_uint r 0 j = aret n"
    "arg = Arg_string s \<Longrightarrow> text_ok E s \<Longrightarrow> get_string E r 0 j = aret s"
    "arg = uuid_arg E u \<Longrightarrow> Uuid_wf u \<Longrightarrow> get_uuid r 0 j = aret u"
    "arg = blob_arg E b \<Longrightarrow> get_blob E r 0 j = aret b"
proof -
  note cell = stored_text [OF assms(2-4) arg, of t idx]
  have fmt: "decimal_format E" "hex_format (ae_hex E)"
    and b64: "text_ok E (ge_base64 (ae_game E) b)" "ae_unbase64 E (ge_base64 (ae_game E) b) = Some b"
    using assms(1) by (simp_all add: formats_ok_def base64_format_def)
  show "get_uint r 0 j = aret n" if "arg = Arg_uint n"
    using numbers_read(1) [OF fmt(1), of n] by (simp add: get_uint_def r cell that abind_aret)
  show "get_int r 0 j = aret n" if "arg = Arg_int n"
    using numbers_read(2) [OF fmt(1), of n] by (simp add: get_int_def r cell that abind_aret)
  show "get_uint r 0 j = aret n" if "arg = Arg_int n"
    using numbers_read(3) [OF fmt(1), of n] by (simp add: get_uint_def r cell that abind_aret)
  show "get_string E r 0 j = aret s" if "arg = Arg_string s" "text_ok E s"
    using that by (simp add: get_string_def r cell abind_aret text_ok_def)
  show "get_uuid r 0 j = aret u" if "arg = uuid_arg E u" "Uuid_wf u"
    using that fmt by (simp add: get_uuid_def r cell abind_aret uuid_arg_def hex_c_str Uuid_parse_toString alift_cases)
  show "get_blob E r 0 j = aret b" if "arg = blob_arg E b"
    using that b64 by (simp add: get_blob_def get_string_def r cell abind_aret blob_arg_def text_ok_def Base64Decode_def alift_cases)
qed

lemma stored_step:
  assumes "3 \<le> j" and "j < 32" and "r = PG_tuples [stored_row E node t idx]" and "bit (vn_fields node) j \<Longrightarrow> get r 0 j = aret v"
  shows "unless_null get put r j = put_if node j (put v)"
  using assms
  by (intro ext, cases "bit (vn_fields node) j")
    (simp_all add: unless_null_def always_def put_if_def cond_set_def stored_null abind_aret del: PQgetisnull.simps)

lemma row_steps:
  assumes E: "formats_ok E" and r: "r = PG_tuples [stored_row E node t idx]" and node: "storable E node"
  shows "unless_null (get_string E) set_CreateAgeName r 3 = put_if node 3 (set_CreateAgeName (vn_CreateAgeName node))"
    "unless_null get_uuid set_CreateAgeUuid r 4 = put_if node 4 (set_CreateAgeUuid (vn_CreateAgeUuid node))"
    "unless_null get_uuid set_CreatorUuid r 5 = put_if node 5 (set_CreatorUuid (vn_CreatorUuid node))"
    "unless_null get_uint set_CreatorIdx r 6 = put_if node 6 (set_CreatorIdx (vn_CreatorIdx node))"
    "unless_null get_int set_Int32_1 r 8 = put_if node 8 (set_Int32_1 (vn_Int32_1 node))"
    "unless_null get_int set_Int32_2 r 9 = put_if node 9 (set_Int32_2 (vn_Int32_2 node))"
    "unless_null get_int set_Int32_3 r 10 = put_if node 10 (set_Int32_3 (vn_Int32_3 node))"
    "unless_null get_int set_Int32_4 r 11 = put_if node 11 (set_Int32_4 (vn_Int32_4 node))"
    "unless_null get_uint set_Uint32_1 r 12 = put_if node 12 (set_Uint32_1 (vn_Uint32_1 node))"
    "unless_null get_uint set_Uint32_2 r 13 = put_if node 13 (set_Uint32_2 (vn_Uint32_2 node))"
    "unless_null get_uint set_Uint32_3 r 14 = put_if node 14 (set_Uint32_3 (vn_Uint32_3 node))"
    "unless_null get_uint set_Uint32_4 r 15 = put_if node 15 (set_Uint32_4 (vn_Uint32_4 node))"
    "unless_null get_uuid set_Uuid_1 r 16 = put_if node 16 (set_Uuid_1 (vn_Uuid_1 node))"
    "unless_null get_uuid set_Uuid_2 r 17 = put_if node 17 (set_Uuid_2 (vn_Uuid_2 node))"
    "unless_null get_uuid set_Uuid_3 r 18 = put_if node 18 (set_Uuid_3 (vn_Uuid_3 node))"
    "unless_null get_uuid set_Uuid_4 r 19 = put_if node 19 (set_Uuid_4 (vn_Uuid_4 node))"
    "unless_null (get_string E) set_String64_1 r 20 = put_if node 20 (set_String64_1 (vn_String64_1 node))"
    "unless_null (get_string E) set_String64_2 r 21 = put_if node 21 (set_String64_2 (vn_String64_2 node))"
    "unless_null (get_string E) set_String64_3 r 22 = put_if node 22 (set_String64_3 (vn_String64_3 node))"
    "unless_null (get_string E) set_String64_4 r 23 = put_if node 23 (set_String64_4 (vn_String64_4 node))"
    "unless_null (get_string E) set_String64_5 r 24 = put_if node 24 (set_String64_5 (vn_String64_5 node))"
    "unless_null (get_string E) set_String64_6 r 25 = put_if node 25 (set_String64_6 (vn_String64_6 node))"
    "unless_null (get_string E) set_IString64_1 r 26 = put_if node 26 (set_IString64_1 (vn_IString64_1 node))"
    "unless_null (get_string E) set_IString64_2 r 27 = put_if node 27 (set_IString64_2 (vn_IString64_2 node))"
    "unless_null (get_string E) set_Text_1 r 28 = put_if node 28 (set_Text_1 (vn_Text_1 node))"
    "unless_null (get_string E) set_Text_2 r 29 = put_if node 29 (set_Text_2 (vn_Text_2 node))"
    "unless_null (get_blob E) set_Blob_1 r 30 = put_if node 30 (set_Blob_1 (vn_Blob_1 node))"
    "unless_null (get_blob E) set_Blob_2 r 31 = put_if node 31 (set_Blob_2 (vn_Blob_2 node))"
  by (rule stored_step [OF _ _ r], simp, simp, simp add: node [unfolded storable_def] stored_gets [OF E _ _ _ r refl] node_columns_def)+

text \<open>The mask of what is read, bit by bit.\<close>

definition bit_of :: "u64 \<Rightarrow> nat \<Rightarrow> u64" where
  "bit_of F k = (if bit F k then push_bit k 1 else 0)"

lemma take_bit_Suc_bit: "take_bit (Suc k) F = take_bit k F OR bit_of F k"
  by (rule bit_word_eqI) (auto simp: bit_of_def bit_simps less_Suc_eq)

lemma take_bit_bits: "take_bit (m + k) F = foldl (\<lambda>a j. a OR bit_of F j) (take_bit m F) [m..<m + k]"
  by (induction k) (simp_all add: take_bit_Suc_bit)

lemma foldl_OR: "foldl (\<lambda>a j. a OR g j) a js = a OR foldl (\<lambda>a j. a OR g j) 0 js" for a :: u64
proof (induction js arbitrary: a)
  case (Cons j js)
  have "foldl (\<lambda>a j. a OR g j) (a OR g j) js = (a OR g j) OR foldl (\<lambda>a j. a OR g j) 0 js" by (rule Cons.IH)
  moreover have "foldl (\<lambda>a j. a OR g j) (0 OR g j) js = (0 OR g j) OR foldl (\<lambda>a j. a OR g j) 0 js" by (rule Cons.IH)
  ultimately show ?case by (simp add: or.assoc)
qed simp

lemma mask_bits: "foldl (\<lambda>a j. a OR bit_of F j) 7 [3..<32] = take_bit 32 F OR 7"
proof -
  have "take_bit 3 F OR 7 = 7" by (rule bit_word_eqI) (auto simp: bit_simps numeral_eq_Suc less_Suc_eq bit_Suc)
  moreover have "(3 :: nat) + 29 = 32" by simp
  then have "take_bit 32 F = take_bit 3 F OR foldl (\<lambda>a j. a OR bit_of F j) 0 [3..<32]"
    using take_bit_bits [of 3 29 F] foldl_OR [of "bit_of F" "take_bit 3 F" "[3..<32]"] by (simp only:)
  then have "take_bit 32 F OR 7 = (take_bit 3 F OR 7) OR foldl (\<lambda>a j. a OR bit_of F j) 0 [3..<32]"
    by (simp only: or.assoc or.commute [of 7])
  moreover have "foldl (\<lambda>a j. a OR bit_of F j) 7 [3..<32] = 7 OR foldl (\<lambda>a j. a OR bit_of F j) 0 [3..<32]"
    by (rule foldl_OR)
  ultimately show ?thesis by (simp only:)
qed

lemma cond_keeps:
  "(\<And>m. vn_NodeIdx (f m) = vn_NodeIdx m) \<Longrightarrow> vn_NodeIdx (cond_set b f n) = vn_NodeIdx n"
  "(\<And>m. vn_CreateTime (f m) = vn_CreateTime m) \<Longrightarrow> vn_CreateTime (cond_set b f n) = vn_CreateTime n"
  "(\<And>m. vn_ModifyTime (f m) = vn_ModifyTime m) \<Longrightarrow> vn_ModifyTime (cond_set b f n) = vn_ModifyTime n"
  "(\<And>m. vn_CreateAgeName (f m) = vn_CreateAgeName m) \<Longrightarrow> vn_CreateAgeName (cond_set b f n) = vn_CreateAgeName n"
  "(\<And>m. vn_CreateAgeUuid (f m) = vn_CreateAgeUuid m) \<Longrightarrow> vn_CreateAgeUuid (cond_set b f n) = vn_CreateAgeUuid n"
  "(\<And>m. vn_CreatorUuid (f m) = vn_CreatorUuid m) \<Longrightarrow> vn_CreatorUuid (cond_set b f n) = vn_CreatorUuid n"
  "(\<And>m. vn_CreatorIdx (f m) = vn_CreatorIdx m) \<Longrightarrow> vn_CreatorIdx (cond_set b f n) = vn_CreatorIdx n"
  "(\<And>m. vn_NodeType (f m) = vn_NodeType m) \<Longrightarrow> vn_NodeType (cond_set b f n) = vn_NodeType n"
  "(\<And>m. vn_Int32_1 (f m) = vn_Int32_1 m) \<Longrightarrow> vn_Int32_1 (cond_set b f n) = vn_Int32_1 n"
  "(\<And>m. vn_Int32_2 (f m) = vn_Int32_2 m) \<Longrightarrow> vn_Int32_2 (cond_set b f n) = vn_Int32_2 n"
  "(\<And>m. vn_Int32_3 (f m) = vn_Int32_3 m) \<Longrightarrow> vn_Int32_3 (cond_set b f n) = vn_Int32_3 n"
  "(\<And>m. vn_Int32_4 (f m) = vn_Int32_4 m) \<Longrightarrow> vn_Int32_4 (cond_set b f n) = vn_Int32_4 n"
  "(\<And>m. vn_Uint32_1 (f m) = vn_Uint32_1 m) \<Longrightarrow> vn_Uint32_1 (cond_set b f n) = vn_Uint32_1 n"
  "(\<And>m. vn_Uint32_2 (f m) = vn_Uint32_2 m) \<Longrightarrow> vn_Uint32_2 (cond_set b f n) = vn_Uint32_2 n"
  "(\<And>m. vn_Uint32_3 (f m) = vn_Uint32_3 m) \<Longrightarrow> vn_Uint32_3 (cond_set b f n) = vn_Uint32_3 n"
  "(\<And>m. vn_Uint32_4 (f m) = vn_Uint32_4 m) \<Longrightarrow> vn_Uint32_4 (cond_set b f n) = vn_Uint32_4 n"
  "(\<And>m. vn_Uuid_1 (f m) = vn_Uuid_1 m) \<Longrightarrow> vn_Uuid_1 (cond_set b f n) = vn_Uuid_1 n"
  "(\<And>m. vn_Uuid_2 (f m) = vn_Uuid_2 m) \<Longrightarrow> vn_Uuid_2 (cond_set b f n) = vn_Uuid_2 n"
  "(\<And>m. vn_Uuid_3 (f m) = vn_Uuid_3 m) \<Longrightarrow> vn_Uuid_3 (cond_set b f n) = vn_Uuid_3 n"
  "(\<And>m. vn_Uuid_4 (f m) = vn_Uuid_4 m) \<Longrightarrow> vn_Uuid_4 (cond_set b f n) = vn_Uuid_4 n"
  "(\<And>m. vn_String64_1 (f m) = vn_String64_1 m) \<Longrightarrow> vn_String64_1 (cond_set b f n) = vn_String64_1 n"
  "(\<And>m. vn_String64_2 (f m) = vn_String64_2 m) \<Longrightarrow> vn_String64_2 (cond_set b f n) = vn_String64_2 n"
  "(\<And>m. vn_String64_3 (f m) = vn_String64_3 m) \<Longrightarrow> vn_String64_3 (cond_set b f n) = vn_String64_3 n"
  "(\<And>m. vn_String64_4 (f m) = vn_String64_4 m) \<Longrightarrow> vn_String64_4 (cond_set b f n) = vn_String64_4 n"
  "(\<And>m. vn_String64_5 (f m) = vn_String64_5 m) \<Longrightarrow> vn_String64_5 (cond_set b f n) = vn_String64_5 n"
  "(\<And>m. vn_String64_6 (f m) = vn_String64_6 m) \<Longrightarrow> vn_String64_6 (cond_set b f n) = vn_String64_6 n"
  "(\<And>m. vn_IString64_1 (f m) = vn_IString64_1 m) \<Longrightarrow> vn_IString64_1 (cond_set b f n) = vn_IString64_1 n"
  "(\<And>m. vn_IString64_2 (f m) = vn_IString64_2 m) \<Longrightarrow> vn_IString64_2 (cond_set b f n) = vn_IString64_2 n"
  "(\<And>m. vn_Text_1 (f m) = vn_Text_1 m) \<Longrightarrow> vn_Text_1 (cond_set b f n) = vn_Text_1 n"
  "(\<And>m. vn_Text_2 (f m) = vn_Text_2 m) \<Longrightarrow> vn_Text_2 (cond_set b f n) = vn_Text_2 n"
  "(\<And>m. vn_Blob_1 (f m) = vn_Blob_1 m) \<Longrightarrow> vn_Blob_1 (cond_set b f n) = vn_Blob_1 n"
  "(\<And>m. vn_Blob_2 (f m) = vn_Blob_2 m) \<Longrightarrow> vn_Blob_2 (cond_set b f n) = vn_Blob_2 n"
  by (simp_all add: cond_set_def)

lemma cond_hits:
  "vn_NodeIdx (cond_set b (node_set k (vn_NodeIdx_update (\<lambda>_. v))) n) = (if b then v else vn_NodeIdx n)"
  "vn_CreateTime (cond_set b (node_set k (vn_CreateTime_update (\<lambda>_. v))) n) = (if b then v else vn_CreateTime n)"
  "vn_ModifyTime (cond_set b (node_set k (vn_ModifyTime_update (\<lambda>_. v))) n) = (if b then v else vn_ModifyTime n)"
  "vn_CreateAgeName (cond_set b (node_set k (vn_CreateAgeName_update (\<lambda>_. s))) n) = (if b then s else vn_CreateAgeName n)"
  "vn_CreateAgeUuid (cond_set b (node_set k (vn_CreateAgeUuid_update (\<lambda>_. u))) n) = (if b then u else vn_CreateAgeUuid n)"
  "vn_CreatorUuid (cond_set b (node_set k (vn_CreatorUuid_update (\<lambda>_. u))) n) = (if b then u else vn_CreatorUuid n)"
  "vn_CreatorIdx (cond_set b (node_set k (vn_CreatorIdx_update (\<lambda>_. v))) n) = (if b then v else vn_CreatorIdx n)"
  "vn_NodeType (cond_set b (node_set k (vn_NodeType_update (\<lambda>_. v))) n) = (if b then v else vn_NodeType n)"
  "vn_Int32_1 (cond_set b (node_set k (vn_Int32_1_update (\<lambda>_. v))) n) = (if b then v else vn_Int32_1 n)"
  "vn_Int32_2 (cond_set b (node_set k (vn_Int32_2_update (\<lambda>_. v))) n) = (if b then v else vn_Int32_2 n)"
  "vn_Int32_3 (cond_set b (node_set k (vn_Int32_3_update (\<lambda>_. v))) n) = (if b then v else vn_Int32_3 n)"
  "vn_Int32_4 (cond_set b (node_set k (vn_Int32_4_update (\<lambda>_. v))) n) = (if b then v else vn_Int32_4 n)"
  "vn_Uint32_1 (cond_set b (node_set k (vn_Uint32_1_update (\<lambda>_. v))) n) = (if b then v else vn_Uint32_1 n)"
  "vn_Uint32_2 (cond_set b (node_set k (vn_Uint32_2_update (\<lambda>_. v))) n) = (if b then v else vn_Uint32_2 n)"
  "vn_Uint32_3 (cond_set b (node_set k (vn_Uint32_3_update (\<lambda>_. v))) n) = (if b then v else vn_Uint32_3 n)"
  "vn_Uint32_4 (cond_set b (node_set k (vn_Uint32_4_update (\<lambda>_. v))) n) = (if b then v else vn_Uint32_4 n)"
  "vn_Uuid_1 (cond_set b (node_set k (vn_Uuid_1_update (\<lambda>_. u))) n) = (if b then u else vn_Uuid_1 n)"
  "vn_Uuid_2 (cond_set b (node_set k (vn_Uuid_2_update (\<lambda>_. u))) n) = (if b then u else vn_Uuid_2 n)"
  "vn_Uuid_3 (cond_set b (node_set k (vn_Uuid_3_update (\<lambda>_. u))) n) = (if b then u else vn_Uuid_3 n)"
  "vn_Uuid_4 (cond_set b (node_set k (vn_Uuid_4_update (\<lambda>_. u))) n) = (if b then u else vn_Uuid_4 n)"
  "vn_String64_1 (cond_set b (node_set k (vn_String64_1_update (\<lambda>_. s))) n) = (if b then s else vn_String64_1 n)"
  "vn_String64_2 (cond_set b (node_set k (vn_String64_2_update (\<lambda>_. s))) n) = (if b then s else vn_String64_2 n)"
  "vn_String64_3 (cond_set b (node_set k (vn_String64_3_update (\<lambda>_. s))) n) = (if b then s else vn_String64_3 n)"
  "vn_String64_4 (cond_set b (node_set k (vn_String64_4_update (\<lambda>_. s))) n) = (if b then s else vn_String64_4 n)"
  "vn_String64_5 (cond_set b (node_set k (vn_String64_5_update (\<lambda>_. s))) n) = (if b then s else vn_String64_5 n)"
  "vn_String64_6 (cond_set b (node_set k (vn_String64_6_update (\<lambda>_. s))) n) = (if b then s else vn_String64_6 n)"
  "vn_IString64_1 (cond_set b (node_set k (vn_IString64_1_update (\<lambda>_. s))) n) = (if b then s else vn_IString64_1 n)"
  "vn_IString64_2 (cond_set b (node_set k (vn_IString64_2_update (\<lambda>_. s))) n) = (if b then s else vn_IString64_2 n)"
  "vn_Text_1 (cond_set b (node_set k (vn_Text_1_update (\<lambda>_. s))) n) = (if b then s else vn_Text_1 n)"
  "vn_Text_2 (cond_set b (node_set k (vn_Text_2_update (\<lambda>_. s))) n) = (if b then s else vn_Text_2 n)"
  "vn_Blob_1 (cond_set b (node_set k (vn_Blob_1_update (\<lambda>_. s))) n) = (if b then s else vn_Blob_1 n)"
  "vn_Blob_2 (cond_set b (node_set k (vn_Blob_2_update (\<lambda>_. s))) n) = (if b then s else vn_Blob_2 n)"
  by (simp_all add: cond_set_def node_set_def)

lemma cond_field: "vn_fields (cond_set (bit F k) (node_set k f) n) = vn_fields n OR bit_of F k"
  by (simp add: cond_set_def node_set_def bit_of_def)

lemma cond_first: "vn_fields (cond_set True (node_set k f) n) = vn_fields n OR push_bit k 1"
  by (simp add: cond_set_def node_set_def)

lemmas node_setters = set_NodeIdx_def set_CreateTime_def set_ModifyTime_def set_CreateAgeName_def set_CreateAgeUuid_def set_CreatorUuid_def set_CreatorIdx_def set_NodeType_def set_Int32_1_def set_Int32_2_def set_Int32_3_def set_Int32_4_def set_Uint32_1_def set_Uint32_2_def set_Uint32_3_def set_Uint32_4_def set_Uuid_1_def set_Uuid_2_def set_Uuid_3_def set_Uuid_4_def set_String64_1_def set_String64_2_def set_String64_3_def set_String64_4_def set_String64_5_def set_String64_6_def set_IString64_1_def set_IString64_2_def set_Text_1_def set_Text_2_def set_Blob_1_def set_Blob_2_def

lemma first_columns:
  assumes "formats_ok E" and "r = PG_tuples [stored_row E node t idx]" and "bit (vn_fields node) 7"
  shows "always get_uint set_NodeIdx r 0 = (\<lambda>n. aret (cond_set True (set_NodeIdx idx) n))"
    "always get_uint set_CreateTime r 1 = (\<lambda>n. aret (cond_set True (set_CreateTime t) n))"
    "always get_uint set_ModifyTime r 2 = (\<lambda>n. aret (cond_set True (set_ModifyTime t) n))"
    "always get_uint set_NodeType r 7 = put_if node 7 (set_NodeType (vn_NodeType node))"
proof -
  have E: "decimal_format E" using assms(1) by (simp add: formats_ok_def)
  have cells: "stored_row E node t idx ! 0 = Some (PostgresStrings_set E (Arg_uint idx))"
    "stored_row E node t idx ! 1 = Some (PostgresStrings_set E (Arg_int t))"
    "stored_row E node t idx ! 2 = Some (PostgresStrings_set E (Arg_int t))"
    by (simp_all add: stored_row_def nth_append)
  show "always get_uint set_NodeIdx r 0 = (\<lambda>n. aret (cond_set True (set_NodeIdx idx) n))"
    "always get_uint set_CreateTime r 1 = (\<lambda>n. aret (cond_set True (set_CreateTime t) n))"
    "always get_uint set_ModifyTime r 2 = (\<lambda>n. aret (cond_set True (set_ModifyTime t) n))"
    by (rule ext, simp add: always_def get_uint_def get_text_def assms(2) cells length_stored_row alift_cases abind_aret
        cond_set_def numbers_read [OF E] del: PostgresStrings_set.simps One_nat_def)+
  show "always get_uint set_NodeType r 7 = put_if node 7 (set_NodeType (vn_NodeType node))"
    by (intro ext) (simp add: always_def put_if_def cond_set_def stored_gets(3) [OF assms(1) _ _ assms(3) assms(2) refl]
        node_columns_def abind_aret assms(3))
qed

lemma read_stored_row:
  assumes "formats_ok E" and "storable E node" and "bit (vn_fields node) 7"
  shows "apipe (read_row E (PG_tuples [stored_row E node t idx])) (fresh_node (ae_lib E)) = aret (fetched (ae_lib E) node t idx)"
proof -
  let ?fresh = "fresh_node (ae_lib E)"
  have fresh: "vn_fields ?fresh = 0" by (simp add: fresh_node_def Node_new_def)
  show ?thesis
    unfolding read_row_def row_steps [OF assms(1) refl assms(2)] first_columns [OF assms(1) refl assms(3)]
    apply (simp only: apipe.simps put_if_def abind_aret)
    apply (rule arg_cong [where f = aret])
    apply (rule Node.equality)
    subgoal by (simp only: node_setters cond_field cond_first fetched_def Node.simps mask_bits [symmetric] fresh) (simp)
    by (simp_all add: node_setters cond_hits cond_keeps node_set_def fetched_def Node_copy_def del: One_nat_def)
qed

section \<open>Properties\<close>

lemma args_of_cells:
  "map (PostgresStrings_set E) (map snd (fields_set node cols)) =
     concat (map (\<lambda>cell. case cell of None \<Rightarrow> [] | Some text \<Rightarrow> [text])
       (map (\<lambda>(k, name, v). if bit (vn_fields node) k then Some (PostgresStrings_set E v) else None) cols))"
  by (induction cols) (auto simp: fields_set_def)

text \<open>
  C18: the statements for nodes are what they should be. The text is put together in a buffer of 1024 octets on the
  stack and the parameters in an array of 31 or 32 strings; for every node the code does what it would do without the
  buffer and the array: it never writes past their ends, the assertions on the buffer hold, and the text depends on nothing but
  which fields the node has, so that no value of a field becomes part of a statement.
\<close>

theorem vault_statements_fit:
  "v_create_node E node =
     abind (time_now E) (\<lambda>t. athen (check_postgres E)
       (abind (PQexecVA E (insert_sql (vn_fields node)) (insert_args E t node)) (\<lambda>result.
          if \<not> tuples_ok result then aret 0
          else athen (DS_ASSERT (PQntuples result = 1)) (get_uint result 0 0))))
   \<and> v_update_node E node =
     abind (time_now E) (\<lambda>t. athen (check_postgres E)
       (abind (PQexecVA E (update_sql (vn_fields node)) (update_args E t node)) (\<lambda>result. aret (command_ok result))))
   \<and> v_find_nodes E node =
     (if find_names (vn_fields node) = [] then aret None
      else athen (check_postgres E)
        (abind (PQexecVA E (find_sql (vn_fields node)) (find_args E node)) (\<lambda>result.
           if \<not> tuples_ok result then aret None
           else abind (acollect (map (\<lambda>i. get_uint result i 0) [0..<PQntuples result])) (\<lambda>nodes. aret (Some nodes)))))"
  by (intro conjI v_create_node_sql v_update_node_sql v_find_nodes_sql)

text \<open>
  C19: a node that was stored is read back. The parameters of the insertion are the columns of the row that are not null,
  in their order; and when the query for a node gives the row that these parameters made, \<open>v_fetch_node\<close> returns the
  node, with the index and the times that the database gave it and with exactly the fields it had. Numbers, hexadecimal digits and
  Base64 are printed and read as documented; strings without a NUL that are UTF-8 survive.
\<close>

theorem stored_node_fetched:
  assumes "formats_ok E" and "storable E node" and "bit (vn_fields node) 7"
    and "ae_exec E sql_Fetch_node [PostgresStrings_set E (Arg_uint idx)] (aw_db w) = (PG_tuples [stored_row E node t idx], db)"
  shows "v_fetch_node E idx w = (Inr (fetched (ae_lib E) node t idx), w\<lparr>aw_db := db\<rparr>)
    \<and> map (PostgresStrings_set E) (insert_args E t node) =
        concat (map (\<lambda>cell. case cell of None \<Rightarrow> [] | Some text \<Rightarrow> [text]) (tl (stored_row E node t idx)))"
proof
  have "PQexecVA E sql_Fetch_node [Arg_uint idx] w = (Inr (PG_tuples [stored_row E node t idx]), w\<lparr>aw_db := db\<rparr>)"
    using assms(4) by (simp add: PQexecVA_def)
  then show "v_fetch_node E idx w = (Inr (fetched (ae_lib E) node t idx), w\<lparr>aw_db := db\<rparr>)"
    by (simp add: v_fetch_node_def abind_return read_stored_row [OF assms(1-3)] aret_def)
  show "map (PostgresStrings_set E) (insert_args E t node) =
        concat (map (\<lambda>cell. case cell of None \<Rightarrow> [] | Some text \<Rightarrow> [text]) (tl (stored_row E node t idx)))"
    using args_of_cells [of E node "node_columns E node"] by (simp add: insert_args_def stored_row_def)
qed

section \<open>A database that answers from a list\<close>

text \<open>Decimal digits, and an encoding of octets as letters in the place of Base64.\<close>

definition decimal_bytes :: "nat \<Rightarrow> bytes" where
  "decimal_bytes n = map (\<lambda>c. of_nat (of_char c)) (decimal_digits n)"

definition decimal_int :: "int \<Rightarrow> bytes" where
  "decimal_int z = (if z < 0 then 45 # decimal_bytes (nat (- z)) else decimal_bytes (nat z))"

definition letters :: "bytes \<Rightarrow> bytes" where
  "letters bs = concat (map (\<lambda>b. [65 + b div 16, 65 + b mod 16]) bs)"

fun octets :: "bytes \<Rightarrow> bytes option" where
  "octets [] = Some []"
| "octets (a # b # cs) = map_option ((#) ((a - 65) * 16 + (b - 65))) (octets cs)"
| "octets [a] = None"

definition list_db :: "string \<Rightarrow> bytes list \<Rightarrow> pg_result list \<Rightarrow> pg_result \<times> pg_result list" where
  "list_db command args db = (case db of [] \<Rightarrow> (PG_error, []) | r # rs \<Rightarrow> (r, rs))"

definition sample_auth :: "pg_result list auth_env" where
  "sample_auth = \<lparr>ae_game = sample_genv\<lparr>ge_base64 := letters\<rparr>, ae_st = ascii_strings, ae_exec = list_db, ae_check = (\<lambda>db. db),
     ae_time = (\<lambda>_. 1000), ae_from_uint = decimal_bytes, ae_from_int = decimal_int, ae_hex = hex_pad, ae_unbase64 = octets,
     ae_fold = (\<lambda>s. s), ae_split1 = (\<lambda>c s. [takeWhile (\<lambda>x. x \<noteq> c) s, drop 1 (dropWhile (\<lambda>x. x \<noteq> c) s)]),
     ae_to_bool = (\<lambda>s. s = [49]), ae_to_int = (\<lambda>s. of_int (strtol10 s)), ae_sha1 = (\<lambda>_. [0, 0, 0, 0, 0]),
     ae_getAddress4 = (\<lambda>_. 0x7F000001), ae_gameServerAddress = [49], ae_hoodUserName = [72], ae_hoodInstanceName = [73],
     ae_hoodPopThreshold = 20, ae_staticAges = None, ae_isAge = (\<lambda>_. False)\<rparr>"

lemma below_ten: "n < 10 \<longleftrightarrow> n = 0 \<or> n = 1 \<or> n = 2 \<or> n = 3 \<or> n = 4 \<or> n = 5 \<or> n = 6 \<or> n = 7 \<or> n = 8 \<or> n = 9" for n :: nat
  by auto

lemma decimal_bytes_simps: "decimal_bytes n = (if n < 10 then [of_nat (48 + n)] else decimal_bytes (n div 10) @ [of_nat (48 + n mod 10)])"
proof -
  have "(of_nat (of_char (char_of (48 + d))) :: byte) = of_nat (48 + d)" if "d < 10" for d :: nat
    using that by simp
  from this [of n] this [of "n mod 10"] show ?thesis by (simp add: decimal_bytes_def decimal_digits.simps [of n])
qed

lemma digit_byte: "d < 10 \<Longrightarrow> is_digit (of_nat (48 + d)) \<and> uint (of_nat (48 + d) :: byte) = 48 + int d"
  unfolding below_ten by (elim disjE) (simp_all add: is_digit_def)

lemma decimal_bytes_value: "decimal_bytes n \<noteq> [] \<and> list_all is_digit (decimal_bytes n) \<and> digits_value 10 (decimal_bytes n) = int n"
proof (induction n rule: less_induct)
  case (less n)
  show ?case
  proof (cases "n < 10")
    case True
    then show ?thesis using digit_byte [of n] by (simp add: decimal_bytes_simps [of n] digits_value_def)
  next
    case False
    then have "decimal_bytes n = decimal_bytes (n div 10) @ [of_nat (48 + n mod 10)]" by (subst decimal_bytes_simps) simp
    moreover have "10 * int (n div 10) + int (n mod 10) = int n"
      by (metis mult_div_mod_eq of_nat_add of_nat_mult of_nat_numeral)
    ultimately show ?thesis using False less.IH [of "n div 10"] digit_byte [of "n mod 10"] by (simp add: digits_value_def)
  qed
qed

lemma digits_text:
  assumes "cs \<noteq> []" and "list_all is_digit cs"
  shows "c_str cs = cs" "decimal_text cs = (False, digits_value 10 cs)" "decimal_text (45 # cs) = (True, digits_value 10 cs)"
proof -
  have all: "is_digit c" if "c \<in> set cs" for c using assms(2) that by (simp add: list_all_iff)
  have "0 \<notin> set cs" using all [of 0] by (auto simp: is_digit_def)
  then show "c_str cs = cs" by (auto simp: c_str_def takeWhile_eq_all_conv)
  have tw: "takeWhile is_digit cs = cs" using all by (simp add: takeWhile_eq_all_conv)
  obtain c ds where cs: "cs = c # ds" using assms(1) by (cases cs) auto
  have "is_digit c" using all cs by simp
  then have "\<not> is_space c" "c \<noteq> 43" "c \<noteq> 45" by (auto simp: is_digit_def is_space_def word_le_nat_alt)
  then show "decimal_text cs = (False, digits_value 10 cs)" using tw by (simp add: decimal_text_def cs)
  show "decimal_text (45 # cs) = (True, digits_value 10 cs)" by (simp add: decimal_text_def is_space_def tw)
qed

lemma decimal_format_sample: "decimal_format sample_auth"
proof -
  have "decimal_text (c_str (decimal_bytes n)) = (False, int n)" for n
    using decimal_bytes_value [of n] digits_text(1,2) [of "decimal_bytes n"] by simp
  moreover have "decimal_text (c_str (decimal_int z)) = (z < 0, \<bar>z\<bar>)" for z
  proof -
    have "c_str (45 # decimal_bytes (nat (- z))) = 45 # decimal_bytes (nat (- z))"
      using decimal_bytes_value [of "nat (- z)"] digits_text(1) [of "decimal_bytes (nat (- z))"] by (simp add: c_str_def)
    then show ?thesis
      using decimal_bytes_value [of "nat (- z)"] digits_text(3) [of "decimal_bytes (nat (- z))"] calculation [of "nat z"]
      by (simp add: decimal_int_def)
  qed
  ultimately show ?thesis by (simp add: decimal_format_def sample_auth_def)
qed

lemma letters_octets: "octets (letters bs) = Some bs \<and> list_all (\<lambda>c. 64 < c \<and> c < 128) (letters bs)"
proof (induction bs)
  case (Cons b bs)
  have b: "b div 16 * 16 + b mod 16 = b" by (rule word_mod_div_equality)
  have "unat b < 2 ^ LENGTH(8)" by (rule unsigned_less)
  then have "unat (b div 16) < 16" by (simp add: unat_div)
  then have "b div 16 < 16" by (simp add: word_less_nat_alt)
  moreover have "b mod 16 < 16" by (simp add: word_mod_less_divisor)
  moreover have "64 < 65 + x \<and> 65 + x < (128 :: byte)" if "x < 16" for x :: byte
    using that by (simp add: word_less_nat_alt unat_word_ariths)
  ultimately show ?case using Cons.IH b by (simp add: letters_def)
qed (simp add: letters_def)

lemma formats_sample: "formats_ok sample_auth"
proof -
  have "text_ok sample_auth (letters b)" for b
  proof -
    have "list_all (\<lambda>c. 64 < c \<and> c < 128) (letters b)" using letters_octets by blast
    then have "c_str (letters b) = letters b" "list_all (\<lambda>c. c < 128) (letters b)"
      by (auto simp: c_str_def takeWhile_eq_all_conv list_all_iff)
    then show ?thesis by (simp add: text_ok_def sample_auth_def ascii_strings_def)
  qed
  then show ?thesis
    using letters_octets decimal_format_sample hex_format_hex_pad by (simp add: formats_ok_def base64_format_def sample_auth_def)
qed

definition sample_stored :: Node where
  "sample_stored = Node_new\<lparr>vn_fields := 0x40100281, vn_NodeIdx := 7, vn_NodeType := 27, vn_Int32_2 := - 1,
     vn_String64_1 := [65, 66], vn_Blob_1 := [0, 255]\<rparr>"

definition empty_auth :: "pg_result list \<Rightarrow> pg_result list auth_world" where
  "empty_auth db = \<lparr>aw_client = (\<lambda>_. \<lparr>ac_channel = [], ac_broadcast = [], ac_closed = False, ac_serverChallenge = 0,
       ac_acctUuid = Uuid_null, ac_acctFlags = 0, ac_player = PlayerInfo_new, ac_ageNodeId = 0, ac_downloads = []\<rparr>),
     aw_msg = (\<lambda>_. \<lparr>am_client = None, am_body = e_AuthShutdown\<rparr>), aw_clients = [], aw_channel = [], aw_db = db,
     aw_restrictLogins = False, aw_globalStates = [], aw_systemNode = 1, aw_allPlayers = 2,
     aw_game = \<lparr>w_client = (\<lambda>_. sample_player 0), w_host = (\<lambda>_. new_host 0 [] 0 False), w_gameHosts = [], w_threads = [],
       w_vault = [], w_sql = [], w_calls = 0\<rparr>, aw_calls = 0\<rparr>"

theorem stored_node_fetched_witness:
  "v_fetch_node sample_auth 7 (empty_auth [PG_tuples [stored_row sample_auth sample_stored 1000 7]]) =
     (Inr (fetched (ae_lib sample_auth) sample_stored 1000 7), empty_auth [])
   \<and> vn_Blob_1 (fetched (ae_lib sample_auth) sample_stored 1000 7) = [0, 255]"
proof -
  have "storable sample_auth sample_stored" "bit (vn_fields sample_stored) 7"
    by (simp_all add: storable_def sample_stored_def text_ok_def sample_auth_def ascii_strings_def c_str_def bit_numeral_word_iff)
  moreover have "vn_Blob_1 (fetched (ae_lib sample_auth) sample_stored 1000 7) = [0, 255]"
    by (simp add: fetched_def Node_copy_def sample_stored_def)
  ultimately show ?thesis
    using stored_node_fetched [OF formats_sample, of sample_stored 7 "empty_auth [PG_tuples [stored_row sample_auth sample_stored 1000 7]]" 1000 "[]"]
    by (simp add: empty_auth_def) (simp add: sample_auth_def list_db_def)
qed

end
