(* ===== verification/Auth_Access.thy ===== *)
theory Auth_Access
  imports Auth_Replies Vault_Roundtrip
begin

unbundle bit_operations_syntax

text \<open>
  What the daemon guarantees to those who send it messages: how many replies each message gets, when a login succeeds and
  what it then leaves in the client, who may change the account of a client, and when two clients can play the same player.
\<close>

section \<open>Replies of the loop\<close>

fun replies_of :: "auth_request \<Rightarrow> nat set" where
  "replies_of e_AuthShutdown = {0}"
| "replies_of (e_AuthCreatePlayer player) = {1, 2}"
| "replies_of (e_AuthFindGameServer age) = {0, 1}"
| "replies_of _ = {1}"

lemma handled_replies:
  assumes "body \<noteq> e_AuthShutdown"
  shows "\<exists>B. replies c (replies_of body) B (acatch (handle_request E p c body) (answer c e_NetInternalError))"
proof -
  have one: "once c a \<Longrightarrow> N = {1} \<Longrightarrow> \<exists>A B. replies c A B a \<and> A \<union> Suc ` B = N" for a :: "('a, unit) aact" and N
    by (intro exI [of _ "{1}"] exI [of _ "{0}"] conjI) auto
  have "\<exists>A B. replies c A B (handle_request E p c body) \<and> A \<union> Suc ` B = replies_of body"
  proof (cases body)
    case (e_AuthCreatePlayer player)
    then have "replies c {1, 2} {0, 1} (handle_request E p c body)"
      by (simp add: handle_request_def replies_createPlayer del: One_nat_def)
    moreover have "{1, 2} \<union> Suc ` {0, 1} = {1, 2}" by auto
    ultimately show ?thesis using e_AuthCreatePlayer by (metis replies_of.simps(2))
  next
    case (e_AuthFindGameServer age)
    then have "replies c {0, 1} {0} (handle_request E p c body)"
      by (simp add: handle_request_def replies_findAge del: One_nat_def)
    moreover have "{0, 1} \<union> Suc ` {0} = {0, 1}" by auto
    ultimately show ?thesis using e_AuthFindGameServer by (metis replies_of.simps(3))
  qed (rule one; use assms in \<open>simp add: handle_request_def once_handlers del: One_nat_def\<close>)+
  then show ?thesis using replies_acatch by metis
qed

text \<open>A round of the loop on the message of a client.\<close>

lemma daemon_step_request:
  assumes "aw_channel w = p # rest" and "am_client (aw_msg w p) = Some c" and "am_body (aw_msg w p) \<noteq> e_AuthShutdown"
  shows "daemon_step E w =
    athen (acatch (handle_request E p c (am_body (aw_msg w p))) (answer c e_NetInternalError)) (aret True)
      (w\<lparr>aw_channel := rest\<rparr>)"
  using assms by (cases "am_body (aw_msg w p)") (simp_all add: daemon_step_def act_simps)

lemma daemon_step_handled:
  assumes "aw_channel w = p # rest" and "am_client (aw_msg w p) = Some c" and "am_body (aw_msg w p) \<noteq> e_AuthShutdown"
    and "daemon_step E w = (Inr b, w')"
  shows "acatch (handle_request E p c (am_body (aw_msg w p))) (answer c e_NetInternalError) (w\<lparr>aw_channel := rest\<rparr>) = (Inr (), w')"
  using assms(4) unfolding daemon_step_request [OF assms(1-3)]
  by (auto simp: athen_def abind_def aret_def split: prod.splits sum.splits)

lemma athen_aret_snd: "snd (athen a (aret x) w) = snd (a w)"
  by (simp add: athen_def abind_def aret_def split: prod.split sum.split)

lemma daemon_step_shutdown:
  assumes "aw_channel w = p # rest" and "am_body (aw_msg w p) = e_AuthShutdown"
  shows "daemon_step E w = athen dm_auth_shutdown (aret False) (w\<lparr>aw_channel := rest\<rparr>)"
  using assms by (cases "am_client (aw_msg w p)") (simp_all add: daemon_step_def act_simps)

lemma daemon_step_null:
  assumes "aw_channel w = p # rest" and "am_client (aw_msg w p) = None" and "am_body (aw_msg w p) \<noteq> e_AuthShutdown"
  shows "daemon_step E w =
    athen (if \<exists>b. am_body (aw_msg w p) = e_AuthRestrictLogins b then dm_restrict_logins p None
           else afail (Thrown UndefinedBehaviour)) (aret True) (w\<lparr>aw_channel := rest\<rparr>)"
  using assms by (cases "am_body (aw_msg w p)") (simp_all add: daemon_step_def act_simps)

lemma silent_shutdown: "silent.keeps dm_auth_shutdown"
  unfolding dm_auth_shutdown_def
  by (intro silent.quiet_intros silent.keeps_amod quiet_set_client) (simp_all add: replied_def fun_eq_iff)

lemma step_replies:
  assumes "aw_channel w = p # rest" and "am_client (aw_msg w p) = Some c" and "daemon_step E w = (Inr b, w')"
  shows "\<exists>codes. replied w' = (replied w)(c := replied w c @ codes) \<and> length codes \<in> replies_of (am_body (aw_msg w p))"
proof (cases "am_body (aw_msg w p) = e_AuthShutdown")
  case True
  from silent_shutdown have "replied (snd (dm_auth_shutdown (w\<lparr>aw_channel := rest\<rparr>))) = replied (w\<lparr>aw_channel := rest\<rparr>)"
    by (rule silent.keepsD)
  also have "\<dots> = replied w" by (simp add: replied_def fun_eq_iff)
  finally have "replied w' = replied w"
    using assms True
    by (metis athen_aret_snd daemon_step_shutdown snd_conv)
  then show ?thesis using True by simp
next
  case False
  let ?a = "acatch (handle_request E p c (am_body (aw_msg w p))) (answer c e_NetInternalError)"
  let ?w = "w\<lparr>aw_channel := rest\<rparr>"
  obtain B where B: "replies c (replies_of (am_body (aw_msg w p))) B ?a" using handled_replies [OF False] by blast
  have run: "?a ?w = (Inr (), w')" by (rule daemon_step_handled [OF assms(1,2) False assms(3)])
  have "replied ?w = replied w" by (simp add: replied_def fun_eq_iff)
  then show ?thesis using repliesE [OF B run] by auto
qed

text \<open>
  C5: every message but three gets exactly one reply, on the channel of its own client and no other. Making a player
  may answer twice, looking for an age may not answer, and the end of the daemon answers nobody.
\<close>

theorem daemon_answers:
  assumes "aw_channel w = p # rest" and "am_client (aw_msg w p) = Some c" and "daemon_step E w = (Inr b, w')"
  shows "\<exists>codes. replied w' = (replied w)(c := replied w c @ codes) \<and> length codes \<in> replies_of (am_body (aw_msg w p))"
  by (rule step_replies [OF assms])

text \<open>A round of the daemon respects a frame unless the handler of its message does not.\<close>

context loop_frame
begin

lemma daemon_round:
  assumes "daemon_step E w = (r, w')"
    and special: "\<And>p c body. \<not> special body \<Longrightarrow> keeps (handle_request E p c body)" "\<not> special e_AuthShutdown"
  shows "R w w' \<and> (\<forall>p rest. aw_channel w = p # rest \<longrightarrow> am_client (aw_msg w p) = None \<or> \<not> special (am_body (aw_msg w p)))
    \<or> (\<exists>p rest c r0 w0. aw_channel w = p # rest \<and> am_client (aw_msg w p) = Some c \<and> special (am_body (aw_msg w p))
        \<and> handle_request E p c (am_body (aw_msg w p)) (w\<lparr>aw_channel := rest\<rparr>) = (r0, w0) \<and> R w0 w')"
proof (cases "aw_channel w")
  case Nil
  then show ?thesis using assms(1) R_refl by (simp add: daemon_step_def act_simps)
next
  case queue: (Cons p rest)
  let ?w = "w\<lparr>aw_channel := rest\<rparr>" and ?body = "am_body (aw_msg w p)"
  have kept: "R w w'" if "keeps a" "daemon_step E w = athen a (aret x) ?w" for a x
  proof -
    have "w' = snd (a ?w)" using that(2) assms(1) by (metis athen_aret_snd snd_conv)
    then show ?thesis using R_trans [OF R_channel keepsD [OF that(1)]] by simp
  qed
  show ?thesis
  proof (cases "?body = e_AuthShutdown")
    case True
    then show ?thesis using kept [OF keeps_console(5) daemon_step_shutdown [OF queue]] queue special(2) by simp
  next
    case False
    show ?thesis
    proof (cases "am_client (aw_msg w p)")
      case None
      have "keeps (if \<exists>b. ?body = e_AuthRestrictLogins b then dm_restrict_logins p None
          else afail (Thrown UndefinedBehaviour))"
        by (simp add: keeps_restrict_null keeps_afail)
      then show ?thesis using kept daemon_step_null [OF queue None False] queue None by simp
    next
      case (Some c)
      let ?h = "handle_request E p c ?body"
      have step: "daemon_step E w = athen (acatch ?h (answer c e_NetInternalError)) (aret True) ?w"
        by (rule daemon_step_request [OF queue Some False])
      obtain r0 w0 where h: "?h ?w = (r0, w0)" by (cases "?h ?w")
      have "w' = snd (acatch ?h (answer c e_NetInternalError) ?w)" using assms(1) step by (metis athen_aret_snd snd_conv)
      then have "w' = w0 \<or> w' = snd (answer c e_NetInternalError w0)"
        using h by (auto simp: acatch_def acatch_if_def split: sum.splits if_splits)
      then have "R w0 w'" using R_refl keepsD [OF keeps_answer] by metis
      moreover have "R w w'" if "\<not> special ?body"
        by (rule kept [OF keeps_acatch [OF special(1) [OF that] keeps_answer] step])
      ultimately show ?thesis using queue Some h by (cases "special ?body") auto
    qed
  qed
qed

end

section \<open>Accounts\<close>

interpretation account: loop_frame "\<lambda>w w' :: 'd auth_world. \<forall>c. ac_acctUuid (aw_client w' c) = ac_acctUuid (aw_client w c)
    \<and> ac_acctFlags (aw_client w' c) = ac_acctFlags (aw_client w c)" UNIV
  by unfold_locales (auto simp: with_client_def)




text \<open>The rows found for the name of an account, and whether the password belongs to it.\<close>

definition login_query :: "'d auth_env \<Rightarrow> 'd auth_world \<Rightarrow> Auth_LoginInfo \<Rightarrow> pg_result" where
  "login_query E w info = fst (ae_exec E sql_Account_login [c_str (li_acctName info)] (ae_check E (aw_db w)))"

definition credentials_match :: "'d auth_env \<Rightarrow> 'd auth_world \<Rightarrow> nat \<Rightarrow> Auth_LoginInfo \<Rightarrow> bool" where
  "credentials_match E w c info \<longleftrightarrow>
     tuples_ok (login_query E w info) \<and> PQntuples (login_query E w info) = 1
     \<and> (case PQgetvalue (login_query E w info) 0 0 of
          Inl _ \<Rightarrow> False
        | Inr h \<Rightarrow> 40 \<le> length h \<and> credentials E (ac_serverChallenge (aw_client w c)) info (ShaHash_parse h))"

definition account_uuid :: "pg_result \<Rightarrow> ds_error + Uuid" where
  "account_uuid result = (case PQgetvalue result 0 1 of Inl e \<Rightarrow> Inl e | Inr s \<Rightarrow> Uuid_parse s)"

definition account_flags :: "pg_result \<Rightarrow> u32" where
  "account_flags result = (case PQgetvalue result 0 2 of Inl e \<Rightarrow> 0 | Inr s \<Rightarrow> ucast (strtoul10 s))"

text \<open>The state in which the outcome is decided: no account, and the query made.\<close>

definition login_state :: "'d auth_env \<Rightarrow> 'd auth_world \<Rightarrow> nat \<Rightarrow> Auth_LoginInfo \<Rightarrow> 'd auth_world" where
  "login_state E w c info =
     with_client c (\<lambda>k. k\<lparr>ac_acctUuid := Uuid_null\<rparr>)
       (w\<lparr>aw_db := snd (ae_exec E sql_Account_login [c_str (li_acctName info)] (ae_check E (aw_db w)))\<rparr>)"

lemma login_state_client [simp]:
  "aw_client (login_state E w c info) = (aw_client w)(c := (aw_client w c)\<lparr>ac_acctUuid := Uuid_null\<rparr>)"
  "aw_restrictLogins (login_state E w c info) = aw_restrictLogins w"
  by (simp_all add: login_state_def with_client_def)

definition swapped_login :: "'d auth_env \<Rightarrow> Auth_LoginInfo \<Rightarrow> Auth_LoginInfo" where
  "swapped_login E info =
     (if UseEmailAuth E (li_acctName info) then info else info\<lparr>li_passHash := ShaHash_swapBytes (li_passHash info)\<rparr>)"

lemma login_to_decision:
  "dm_auth_login E p c info w =
     (let result = login_query E w info
      in if \<not> tuples_ok result then answer c e_NetInternalError
         else if PQntuples result \<noteq> 1 then answer c e_NetAuthenticationFailed
         else
           abind (get_hash result 0 0) (\<lambda>passhash.
           athen (store p (e_AuthClientLogin (swapped_login E info)))
             (if credentials E (ac_serverChallenge (aw_client w c)) info passhash
              then login_accepted E p c (swapped_login E info) result
              else answer c e_NetAuthenticationFailed))) (login_state E w c info)"
proof -
  obtain result db where exec: "ae_exec E sql_Account_login [c_str (li_acctName info)] (ae_check E (aw_db w)) = (result, db)"
    by (cases "ae_exec E sql_Account_login [c_str (li_acctName info)] (ae_check E (aw_db w))")
  have state: "w\<lparr>aw_client := (aw_client w)(c := (aw_client w c)\<lparr>ac_acctUuid := Uuid_null\<rparr>), aw_db := db\<rparr> = login_state E w c info"
    by (simp add: login_state_def with_client_def exec)
  have challenge: "abind (get_hash result 0 0) (\<lambda>passhash. abind (the_client c) (f passhash)) (login_state E w c info) =
      abind (get_hash result 0 0) (\<lambda>passhash. f passhash (aw_client (login_state E w c info) c)) (login_state E w c info)"
    for f :: "ShaHash \<Rightarrow> AuthClient \<Rightarrow> ('a, unit) aact"
    by (simp add: get_hash_def get_text_def the_client_def abind_def aget_def alift_def aret_def afail_def split: sum.split)
  show ?thesis
    unfolding dm_auth_login_def swapped_login_def [symmetric]
    by (simp add: check_postgres_def set_client_def PQexecVA_def exec act_simps state login_query_def challenge Let_def)
qed

text \<open>What comes after the account is known: the flags, and nothing else of it.\<close>

definition login_decided :: "'d auth_env \<Rightarrow> nat \<Rightarrow> nat \<Rightarrow> Auth_LoginInfo \<Rightarrow> pg_result \<Rightarrow> u32 \<Rightarrow> ('d, unit) aact" where
  "login_decided E p c info result acctFlags =
     abind (get_uint result 0 3) (\<lambda>billingType.
     athen (store p (e_AuthClientLogin (info\<lparr>li_billingType := billingType\<rparr>)))
     (abind (aget aw_restrictLogins) (\<lambda>restrictLogins.
        case login_refused restrictLogins acctFlags of
          Some code \<Rightarrow> answer c code
        | None \<Rightarrow> login_players E p c (info\<lparr>li_billingType := billingType\<rparr>))))"

lemma account_login_decided: "account.keeps (login_decided E p c info result acctFlags)"
  unfolding login_decided_def login_players_def get_player_def by (intro account.dm_intros)

lemma login_accepted_run:
  "login_accepted E p c info result w =
     (case account_uuid result of
        Inl e \<Rightarrow> (Inl (Thrown e), w)
      | Inr acctUuid \<Rightarrow>
          (case PQgetvalue result 0 2 of
             Inl e \<Rightarrow> (Inl (Thrown e), with_client c (\<lambda>k. k\<lparr>ac_acctUuid := acctUuid\<rparr>) w)
           | Inr s \<Rightarrow> login_decided E p c info result (account_flags result)
               (with_client c (\<lambda>k. k\<lparr>ac_acctUuid := acctUuid, ac_acctFlags := account_flags result\<rparr>) w)))"
  by (simp add: login_accepted_def account_uuid_def account_flags_def get_uuid_def get_uint_def get_text_def set_client_def
      with_client_def login_decided_def act_simps abind_assoc abind_aret Let_def split: sum.split)

lemma abind_afail: "abind (afail e) f = afail e"
  by (rule ext) (simp add: act_simps)

lemma get_hash_abind:
  "abind (get_hash result 0 0) f =
     (case PQgetvalue result 0 0 of
        Inl e \<Rightarrow> afail (Thrown e)
      | Inr h \<Rightarrow> if length h < 40 then afail (Thrown UndefinedBehaviour) else f (ShaHash_parse h))"
  by (simp add: get_hash_def get_text_def alift_def abind_assoc abind_aret abind_afail split: sum.split)

text \<open>The state in which the last reply is given: the same clients and settings as in the state of the decision.\<close>

definition deciding :: "'d auth_env \<Rightarrow> 'd auth_world \<Rightarrow> nat \<Rightarrow> Auth_LoginInfo \<Rightarrow> 'd auth_world \<Rightarrow> bool" where
  "deciding E w c info v \<longleftrightarrow>
     aw_client v = aw_client (login_state E w c info) \<and> aw_restrictLogins v = aw_restrictLogins w
     \<and> aw_db v = aw_db (login_state E w c info)"

lemma login_rejects:
  assumes "\<not> credentials_match E w c info"
  shows "\<exists>v. deciding E w c info v \<and>
    (dm_auth_login E p c info w \<in> {answer c e_NetInternalError v, answer c e_NetAuthenticationFailed v}
     \<or> (\<exists>e. dm_auth_login E p c info w = (Inl e, v)))"
proof -
  let ?w = "login_state E w c info"
  let ?stored = "snd (store p (e_AuthClientLogin (swapped_login E info)) ?w)"
  have "dm_auth_login E p c info w \<in> {answer c e_NetInternalError ?w, answer c e_NetAuthenticationFailed ?w}
      \<or> dm_auth_login E p c info w = answer c e_NetAuthenticationFailed ?stored
      \<or> (\<exists>e. dm_auth_login E p c info w = (Inl e, ?w))"
    using assms
    by (auto simp: login_to_decision Let_def get_hash_abind credentials_match_def store_def act_simps split: sum.splits)
  moreover have "deciding E w c info ?w" "deciding E w c info ?stored"
    by (simp_all add: deciding_def store_def amod_def)
  ultimately show ?thesis by blast
qed

lemma login_accepts:
  assumes "credentials_match E w c info"
  shows "\<exists>v. deciding E w c info v
    \<and> dm_auth_login E p c info w = login_accepted E p c (swapped_login E info) (login_query E w info) v"
proof -
  let ?stored = "snd (store p (e_AuthClientLogin (swapped_login E info)) (login_state E w c info))"
  have "dm_auth_login E p c info w = login_accepted E p c (swapped_login E info) (login_query E w info) ?stored"
    using assms
    by (auto simp: login_to_decision Let_def get_hash_abind credentials_match_def store_def act_simps split: sum.splits)
  moreover have "deciding E w c info ?stored" by (simp add: deciding_def store_def amod_def)
  ultimately show ?thesis by blast
qed


lemma login_query_channel [simp]:
  "login_query E (w\<lparr>aw_channel := ps\<rparr>) info = login_query E w info"
  "credentials_match E (w\<lparr>aw_channel := ps\<rparr>) c info = credentials_match E w c info"
  by (simp_all add: credentials_match_def login_query_def split: sum.split)

text \<open>
  What a client has to send for the stored hash of a password, by the protocol: for a name with a domain the SHA-0 hash of both
  challenges, the one of the client first, and the stored hash; for any other name the stored hash with the octets of its words in
  the opposite order. A login is proved when the database has exactly one row for the name and the client sent this for
  the hash in the row.
\<close>

definition password_proof :: "bool \<Rightarrow> u32 \<Rightarrow> u32 \<Rightarrow> ShaHash \<Rightarrow> ShaHash \<Rightarrow> bool" where
  "password_proof domain serverChallenge clientChallenge stored sent \<longleftrightarrow>
     (if domain
      then sent = ds_internal_sha0 (le_bytes 4 clientChallenge @ le_bytes 4 serverChallenge @ concat (map (le_bytes 4) stored))
      else u32s_bytes sent = concat (map (\<lambda>w. rev (le_bytes 4 w)) stored))"

definition password_proved :: "'d auth_env \<Rightarrow> 'd auth_world \<Rightarrow> nat \<Rightarrow> Auth_LoginInfo \<Rightarrow> bool" where
  "password_proved E w c info \<longleftrightarrow>
     (\<exists>h row. login_query E w info = PG_tuples [Some h # row] \<and> 40 \<le> length h
        \<and> password_proof (UseEmailAuth E (li_acctName info)) (ac_serverChallenge (aw_client w c)) (li_clientChallenge info)
            (ShaHash_parse h) (li_passHash info))"

lemma swapped_octets: "h = ShaHash_swapBytes s \<Longrightarrow> u32s_bytes s = concat (map (\<lambda>w. rev (le_bytes 4 w)) h)"
  by (simp add: ShaHash_swapBytes_def u32s_bytes_def o_def SWAP_BYTES_def le_bytes_le_word)

lemma credentials_proof:
  "credentials E serverChallenge info h \<Longrightarrow>
   password_proof (UseEmailAuth E (li_acctName info)) serverChallenge (li_clientChallenge info) h (li_passHash info)"
  by (auto simp: credentials_def password_proof_def BuggyHashLogin_def swapped_octets split: if_splits)

lemma match_is_proved:
  assumes "credentials_match E w c info"
  shows "password_proved E w c info"
proof -
  from assms obtain cols where q: "login_query E w info = PG_tuples [cols]"
    unfolding credentials_match_def by (cases "login_query E w info") (auto simp: length_Suc_conv)
  with assms obtain h row where "cols = Some h # row"
    unfolding credentials_match_def by (cases cols) (auto split: option.splits)
  then show ?thesis
    using assms q credentials_proof unfolding password_proved_def credentials_match_def by auto
qed


lemma replied_answer: "replied (snd (answer c code w)) c = replied w c @ [code]"
  by (simp add: answer_def set_client_def amod_def replied_def)

lemma login_decided_success:
  assumes "login_decided E p c info result acctFlags w = (Inr (), w')" and "replied w' c = before @ [e_NetSuccess]"
  shows "login_refused (aw_restrictLogins w) acctFlags = None"
proof (cases "login_refused (aw_restrictLogins w) acctFlags")
  case (Some code)
  then have "code \<noteq> e_NetSuccess" by (auto simp: login_refused_def e_NetSuccess_def split: if_splits)
  moreover have "\<exists>v. w' = snd (answer c code v)"
    using assms(1) Some
    by (auto simp: login_decided_def get_uint_def get_text_def alift_def store_def act_simps abind_assoc abind_aret abind_afail
        split: sum.splits) (metis snd_conv)
  ultimately show ?thesis using assms(2) by (auto simp: replied_answer)
qed simp

lemma not_refused:
  "login_refused restrictLogins flags = None \<Longrightarrow> \<not> bit flags 16 \<and> (restrictLogins \<longrightarrow> bit flags 0 \<or> bit flags 2)"
  by (auto simp: login_refused_def split: if_splits)

lemma login_sound:
  assumes "dm_auth_login E p c info w = (Inr (), w')" and "replied w' c = before @ [e_NetSuccess]"
  shows "credentials_match E w c info
    \<and> login_refused (aw_restrictLogins w) (account_flags (login_query E w info)) = None
    \<and> account_uuid (login_query E w info) = Inr (ac_acctUuid (aw_client w' c))
    \<and> ac_acctFlags (aw_client w' c) = account_flags (login_query E w info)"
proof -
  have match: "credentials_match E w c info"
  proof (rule ccontr)
    assume "\<not> credentials_match E w c info"
    then obtain v where "dm_auth_login E p c info w \<in> {answer c e_NetInternalError v, answer c e_NetAuthenticationFailed v}
        \<or> (\<exists>e. dm_auth_login E p c info w = (Inl e, v))"
      using login_rejects by blast
    then have "w' = snd (answer c e_NetInternalError v) \<or> w' = snd (answer c e_NetAuthenticationFailed v)"
      using assms(1) by (metis Inl_Inr_False Pair_inject insertE singletonD snd_conv)
    then show False using assms(2) by (auto simp: replied_answer e_NetSuccess_def)
  qed
  then obtain v where v: "deciding E w c info v"
    and run: "login_accepted E p c (swapped_login E info) (login_query E w info) v = (Inr (), w')"
    using login_accepts assms(1) by metis
  let ?result = "login_query E w info"
  obtain u where u: "account_uuid ?result = Inr u" using run by (auto simp: login_accepted_run split: sum.splits)
  let ?v = "with_client c (\<lambda>k. k\<lparr>ac_acctUuid := u, ac_acctFlags := account_flags ?result\<rparr>) v"
  have decided: "login_decided E p c (swapped_login E info) ?result (account_flags ?result) ?v = (Inr (), w')"
    using run u by (auto simp: login_accepted_run split: sum.splits)
  have "ac_acctUuid (aw_client w' c) = u \<and> ac_acctFlags (aw_client w' c) = account_flags ?result"
    using account.keepsD [OF account_login_decided [of E p c "swapped_login E info" ?result "account_flags ?result"], of ?v]
    unfolding decided by (simp add: with_client_def)
  moreover have "login_refused (aw_restrictLogins ?v) (account_flags ?result) = None"
    by (rule login_decided_success [OF decided assms(2)])
  ultimately show ?thesis using match u v by (simp add: with_client_def deciding_def)
qed

text \<open>
  C4: a login is answered with success only when the password of the only account of that name was proved, the account is not
  banned (bit 16 of its flags) and, while logins are restricted, belongs to an administrator or a beta tester (bits 0 and 2). The client then has the
  account and its flags.
\<close>

theorem login_success:
  assumes "aw_channel w = p # rest" and "am_client (aw_msg w p) = Some c" and "am_body (aw_msg w p) = e_AuthClientLogin info"
    and "daemon_step E w = (Inr b, w')" and "replied w' c = replied w c @ [e_NetSuccess]"
  shows "password_proved E w c info \<and> \<not> bit (account_flags (login_query E w info)) 16
    \<and> (aw_restrictLogins w \<longrightarrow> bit (account_flags (login_query E w info)) 0 \<or> bit (account_flags (login_query E w info)) 2)
    \<and> account_uuid (login_query E w info) = Inr (ac_acctUuid (aw_client w' c))
    \<and> ac_acctFlags (aw_client w' c) = account_flags (login_query E w info)"
proof -
  let ?w = "w\<lparr>aw_channel := rest\<rparr>"
  have "acatch (dm_auth_login E p c info) (answer c e_NetInternalError) ?w = (Inr (), w')"
    using daemon_step_handled [OF assms(1,2) _ assms(4)] assms(3) by (simp add: handle_request_def)
  then have "dm_auth_login E p c info ?w = (Inr (), w') \<or> (\<exists>v. w' = snd (answer c e_NetInternalError v))"
    by (auto simp: acatch_def acatch_if_def split: prod.splits sum.splits if_splits) (metis snd_conv)
  then have "dm_auth_login E p c info ?w = (Inr (), w')"
    using assms(5) by (auto simp: replied_answer e_NetSuccess_def)
  from login_sound [OF this assms(5)] show ?thesis using match_is_proved by (auto dest: not_refused)
qed

text \<open>
  C40: a login that is refused because the account is banned or logins are restricted leaves the account in the client: the
  next message of the client, such as the choice of a player, is served for that account.
\<close>

theorem refused_login_keeps_account:
  assumes "aw_channel w = p # rest" and "am_client (aw_msg w p) = Some c" and "am_body (aw_msg w p) = e_AuthClientLogin info"
    and "credentials_match E w c info" and "account_uuid (login_query E w info) = Inr u"
    and "PQgetvalue (login_query E w info) 0 2 = Inr flags" and "PQgetvalue (login_query E w info) 0 3 = Inr billing"
    and "login_refused (aw_restrictLogins w) (account_flags (login_query E w info)) = Some code"
  shows "\<exists>w'. daemon_step E w = (Inr True, w') \<and> replied w' c = replied w c @ [code] \<and> ac_acctUuid (aw_client w' c) = u"
proof -
  let ?w = "w\<lparr>aw_channel := rest\<rparr>" and ?result = "login_query E w info"
  obtain v where v: "deciding E ?w c info v"
    and run: "dm_auth_login E p c info ?w = login_accepted E p c (swapped_login E info) ?result v"
    using login_accepts [of E ?w c info p] assms(4) by auto
  let ?v = "with_client c (\<lambda>k. k\<lparr>ac_acctUuid := u, ac_acctFlags := account_flags ?result\<rparr>) v"
  let ?stored = "snd (store p (e_AuthClientLogin ((swapped_login E info)\<lparr>li_billingType := ucast (strtoul10 billing)\<rparr>)) ?v)"
  have "login_refused (aw_restrictLogins ?v) (account_flags ?result) = Some code"
    using assms(8) v by (simp add: with_client_def deciding_def)
  then have "dm_auth_login E p c info ?w = answer c code ?stored"
    using run assms(5-7)
    by (simp add: login_accepted_run login_decided_def get_uint_def get_text_def act_simps abind_aret store_def with_client_def)
  then have "daemon_step E w = (Inr True, snd (answer c code ?stored))"
    using daemon_step_request [OF assms(1,2), of E] assms(3)
    by (simp add: handle_request_def acatch_def acatch_if_def athen_def abind_def aret_def answer_def set_client_def amod_def)
  moreover have "replied ?stored c = replied w c"
    using v by (simp add: replied_def store_def amod_def with_client_def deciding_def)
  moreover have "ac_acctUuid (aw_client (snd (answer c code ?stored)) c) = u"
    by (simp add: answer_def set_client_def amod_def store_def with_client_def)
  ultimately show ?thesis by (simp add: replied_answer)
qed

section \<open>Replies that are missing or too many\<close>

lemma acatch_after: "a w = (Inr x, w1) \<Longrightarrow> acatch (abind a f) b w = acatch (f x) b w1"
  by (simp add: acatch_def acatch_if_def abind_def)

lemma acatch_after_unit: "a w = (Inr x, w1) \<Longrightarrow> acatch (athen a f) b w = acatch f b w1"
  by (simp add: athen_def acatch_after)

text \<open>The player that is made, and the state in which \<open>v_create_player\<close> is called.\<close>

definition with_model :: "AuthServer_PlayerInfo \<Rightarrow> AuthServer_PlayerInfo" where
  "with_model player =
     (if pi_avatarModel player \<noteq> ascii ''male'' \<and> pi_avatarModel player \<noteq> ascii ''female''
      then player\<lparr>pi_avatarModel := ascii ''male''\<rparr> else player)"

definition naming_state :: "'d auth_env \<Rightarrow> nat \<Rightarrow> AuthServer_PlayerInfo \<Rightarrow> 'd auth_world \<Rightarrow> 'd auth_world" where
  "naming_state E p player w =
     snd (athen (store p (e_AuthCreatePlayer (with_model player)))
       (PQexecVA E sql_Player_named [Arg_string (pi_playerName player)]) w)"

lemma naming_state_simps:
  "aw_client (naming_state E p player w) = aw_client w" "replied (naming_state E p player w) = replied w"
  by (simp_all add: naming_state_def store_def PQexecVA_def act_simps replied_def fun_eq_iff split: prod.split)

text \<open>
  C39: when the name is free and the nodes of the player cannot be made, the client gets two replies to its one message, and
  the second is the answer to its next question.
\<close>

theorem create_player_answers_twice:
  assumes "aw_channel w = p # rest" and "am_client (aw_msg w p) = Some c" and "am_body (aw_msg w p) = e_AuthCreatePlayer player"
    and "fst (ae_exec E sql_Player_named [c_str (pi_playerName player)] (aw_db w)) = PG_tuples []"
    and "v_create_player E (ac_acctUuid (aw_client w c)) (with_model player) (naming_state E p player (w\<lparr>aw_channel := rest\<rparr>))
           = (Inr (0, info, owners), v)"
    and "daemon_step E w = (Inr b, w')"
  shows "\<exists>code. replied w' c = replied w c @ [e_NetInternalError, code]"
proof -
  let ?w = "w\<lparr>aw_channel := rest\<rparr>" and ?player = "with_model player"
  let ?named = "naming_state E p player ?w"
  let ?made = "?player\<lparr>pi_playerId := 0\<rparr>"
  let ?last = "abind (the_client c) (\<lambda>client.
    abind (PQexecVA E sql_New_player [uuid_arg E (ac_acctUuid client), Arg_uint 0,
             Arg_string (pi_playerName ?made), Arg_string (pi_avatarModel ?made), Arg_uint (pi_explorer ?made)])
      (\<lambda>result. answer c (if command_ok result then e_NetSuccess else e_NetInternalError)))"
  let ?rest = "athen (welcome_player E owners info 0)
    (athen (abind (aget aw_allPlayers) (\<lambda>allPlayers. welcome_player E allPlayers info 0)) ?last)"
  let ?v = "snd (answer c e_NetInternalError (snd (store p (e_AuthCreatePlayer ?made) v)))"
  have once: "once c ?rest" unfolding welcome_player_def by (intro once_intros; simp)
  have query: "abind (PQexecVA E sql_Player_named [Arg_string (pi_playerName player)]) f
      (snd (store p (e_AuthCreatePlayer ?player) ?w)) = f (PG_tuples []) ?named" for f :: "pg_result \<Rightarrow> ('a, unit) aact"
    using assms(4)
    by (cases "ae_exec E sql_Player_named [c_str (pi_playerName player)] (aw_db w)")
      (simp add: naming_state_def PQexecVA_def store_def act_simps)
  have create: "dm_auth_createPlayer E p c player ?w = add_player E p c ?player ?named"
  proof -
    have name: "pi_playerName ?player = pi_playerName player" by (simp add: with_model_def)
    have stored: "athen (store p body) b ?w = b (snd (store p body ?w))" for body and b :: "('a, unit) aact"
      by (simp add: store_def act_simps)
    show ?thesis
      unfolding dm_auth_createPlayer_def Let_def with_model_def [symmetric] stored name query by simp
  qed
  have add: "add_player E p c ?player ?named = ?rest ?v"
    using assms(5)
    by (simp add: add_player_def the_client_def naming_state_simps store_def answer_def set_client_def act_simps athen_done)
  have run: "acatch ?rest (answer c e_NetInternalError) ?v = (Inr (), w')"
  proof -
    have "acatch (dm_auth_createPlayer E p c player) (answer c e_NetInternalError) ?w = (Inr (), w')"
      using daemon_step_handled [OF assms(1,2) _ assms(6)] assms(3) by (simp add: handle_request_def)
    then show ?thesis unfolding acatch_def acatch_if_def create add .
  qed
  obtain codes where codes: "replied w' = (replied ?v)(c := replied ?v c @ codes)" "length codes \<in> {1} \<union> Suc ` {0}"
    using repliesE [OF replies_acatch [OF once] run] by (metis (no_types, lifting) sum.case(2))
  then have "replied w' c = replied ?v c @ codes" by (simp only: fun_upd_same)
  moreover obtain code where "codes = [code]" using codes(2) by (auto simp: length_Suc_conv)
  moreover have "replied ?v c = replied w c @ [e_NetInternalError]"
  proof -
    have "replied v = replied ?named"
      using silent.keepsD [OF silent.keeps_v_create_player, of E "ac_acctUuid (aw_client w c)" ?player ?named] assms(5) by simp
    also have "\<dots> = replied w" by (simp add: naming_state_simps) (simp add: replied_def fun_eq_iff)
    finally show ?thesis by (simp add: replied_answer) (simp add: store_def amod_def replied_def fun_eq_iff)
  qed
  ultimately show ?thesis by simp
qed

section \<open>Passwords\<close>

text \<open>The hash that a password becomes, and the one that the client sends for it.\<close>

definition password_hash :: "'d auth_env \<Rightarrow> st_string \<Rightarrow> st_string \<Rightarrow> ShaHash" where
  "password_hash E acctName password =
     (if UseEmailAuth E acctName then BuggyHashPassword (ae_lib E) acctName password else ae_sha1 E password)"

definition client_hash :: "'d auth_env \<Rightarrow> st_string \<Rightarrow> st_string \<Rightarrow> u32 \<Rightarrow> u32 \<Rightarrow> ShaHash" where
  "client_hash E acctName password serverChallenge clientChallenge =
     (if UseEmailAuth E acctName
      then BuggyHashLogin (password_hash E acctName password) serverChallenge clientChallenge
      else ShaHash_swapBytes (password_hash E acctName password))"

definition password_text :: "'d auth_env \<Rightarrow> st_string \<Rightarrow> st_string \<Rightarrow> bytes" where
  "password_text E acctName password = c_str (ShaHash_toString (ae_hex E) (password_hash E acctName password))"

lemma ShaHash_text:
  assumes hex: "hex_format hex" and h: "length h = 5"
  shows "length (ShaHash_toString hex h) = 40" and "c_str (ShaHash_toString hex h) = ShaHash_toString hex h"
proof -
  note len = hex_bounds(1) [THEN hex_format_length [OF hex]]
  have "length (ShaHash_toString hex h) = sum_list (map (\<lambda>_. 8) h)"
    by (simp add: ShaHash_toString_def length_concat o_def len)
  then show "length (ShaHash_toString hex h) = 40" using h by (simp add: sum_list_triv)
  have "hex_digit x \<noteq> None" if x: "x \<in> set (ShaHash_toString hex h)" for x
  proof -
    obtain a where "x \<in> set (hex 8 (unat (SWAP_BYTES a)))" using x by (auto simp: ShaHash_toString_def)
    then show ?thesis using hex hex_bounds(1) [of "SWAP_BYTES a"] unfolding hex_format_def by blast
  qed
  moreover have "hex_digit 0 = None" by code_simp
  ultimately have "\<forall>x \<in> set (ShaHash_toString hex h). x \<noteq> 0" by metis
  then show "c_str (ShaHash_toString hex h) = ShaHash_toString hex h"
    by (simp add: c_str_def takeWhile_eq_all_conv)
qed

text \<open>
  C20: an account is made with the hash that a later login with the same password is compared with: the row that is
  inserted is one that lets the login in, whichever of the two ways to hash a password the name selects.
\<close>

theorem registered_password:
  assumes "hex_format (ae_hex E)" and "length (password_hash E name password) = 5"
    and "ae_exec E sql_Account_exists [c_str name] (ae_check E (aw_db w)) = (PG_tuples [], db1)"
    and "gen_uuid E (w\<lparr>aw_db := db1\<rparr>) = (Inr uuid, w1)"
    and "ae_exec E sql_New_account [c_str (Uuid_toString (ae_hex E) uuid False), password_text E name password, c_str name] (aw_db w1)
           = (PG_command, db2)"
  shows "(\<exists>w'. dm_auth_addacct E c name password w = (Inr (), w') \<and> aw_db w' = db2 \<and> replied w' c = replied w c @ [e_NetSuccess])
    \<and> (\<forall>v k info row. li_acctName info = name
         \<longrightarrow> li_passHash info = client_hash E name password (ac_serverChallenge (aw_client v k)) (li_clientChallenge info)
         \<longrightarrow> login_query E v info = PG_tuples [Some (password_text E name password) # row]
         \<longrightarrow> credentials_match E v k info)"
proof (intro conjI allI impI)
  have w1: "replied w1 = replied w"
    using silent.keepsD [OF silent.keeps_gen_uuid, of E "w\<lparr>aw_db := db1\<rparr>"] assms(4) by (simp add: replied_def fun_eq_iff)
  have "dm_auth_addacct E c name password w = answer c e_NetSuccess (w1\<lparr>aw_db := db2\<rparr>)"
    using assms(3-5)
    by (simp add: dm_auth_addacct_def check_postgres_def PQexecVA_def act_simps uuid_arg_def password_hash_def [symmetric]
        password_text_def)
  then show "\<exists>w'. dm_auth_addacct E c name password w = (Inr (), w') \<and> aw_db w' = db2 \<and> replied w' c = replied w c @ [e_NetSuccess]"
    using fun_cong [OF w1, of c] by (simp add: answer_def set_client_def amod_def replied_def)
next
  fix v :: "'a auth_world" and k info row
  assume info: "li_acctName info = name"
    "li_passHash info = client_hash E name password (ac_serverChallenge (aw_client v k)) (li_clientChallenge info)"
    "login_query E v info = PG_tuples [Some (password_text E name password) # row]"
  note parsed = ShaHash_text [OF assms(1,2)] ShaHash_parse_toString [OF assms(1,2)]
  then show "credentials_match E v k info"
    using info by (simp add: credentials_match_def credentials_def password_text_def client_hash_def ShaHash_swap_swap)
qed

section \<open>Samples\<close>

definition asking :: "auth_request \<Rightarrow> pg_result list \<Rightarrow> pg_result list auth_world" where
  "asking body db = (empty_auth db)\<lparr>aw_clients := [5], aw_channel := [0], aw_msg := (\<lambda>_. \<lparr>am_client = Some 5, am_body = body\<rparr>)\<rparr>"

definition sample_login :: Auth_LoginInfo where
  "sample_login = \<lparr>li_clientChallenge = 0, li_acctName = [97], li_passHash = ShaHash_swapBytes [1, 2, 3, 4, 5], li_token = [], li_os = [],
     li_billingType = 0, li_players = []\<rparr>"

definition sample_uuid :: Uuid where
  "sample_uuid = Uuid_null\<lparr>m_data1 := 7\<rparr>"

definition sample_account :: "bytes \<Rightarrow> pg_result" where
  "sample_account flags = PG_tuples [[Some (ShaHash_toString hex_pad [1, 2, 3, 4, 5]), Some (Uuid_toString hex_pad sample_uuid False),
     Some flags, Some [49]]]"

lemma sample_asking:
  "aw_channel (asking body db) = [0]" "aw_msg (asking body db) p = \<lparr>am_client = Some 5, am_body = body\<rparr>" "aw_db (asking body db) = db"
  "replied (asking body db) = (\<lambda>_. [])" "aw_restrictLogins (asking body db) = False" "aw_clients (asking body db) = [5]"
  "ac_serverChallenge (aw_client (asking body db) c) = 0" "ac_acctUuid (aw_client (asking body db) c) = Uuid_null"
  by (simp_all add: asking_def empty_auth_def replied_def fun_eq_iff)

lemma sample_hash: "ShaHash_parse (ShaHash_toString hex_pad [1, 2, 3, 4, 5]) = [1, 2, 3, 4, 5]"
  "length (ShaHash_toString hex_pad [1, 2, 3, 4, 5]) = 40"
   apply (simp add: ShaHash_parse_toString hex_format_hex_pad)
  using hex_bounds(1) [THEN hex_format_length [OF hex_format_hex_pad]]
  apply (simp add: ShaHash_toString_def)
  done

lemma sample_uuid_parse: "Uuid_parse (Uuid_toString hex_pad sample_uuid False) = Inr sample_uuid"
  by (rule Uuid_parse_toString [OF hex_format_hex_pad]) (simp add: Uuid_wf_def sample_uuid_def Uuid_null_def)

lemma sample_auth_simps [simp]:
  "ae_exec sample_auth = list_db" "ae_check sample_auth = (\<lambda>db. db)" "ae_fold sample_auth = (\<lambda>s. s)" "ae_hex sample_auth = hex_pad"
  by (simp_all add: sample_auth_def)

lemma no_email: "UseEmailAuth E [97] = False"
  by (simp add: UseEmailAuth_def c_str_def)

lemma sample_match:
  "login_query sample_auth (asking body (sample_account flags # db)) sample_login = sample_account flags"
  "credentials_match sample_auth (asking body (sample_account flags # db)) 5 sample_login"
  by (simp_all add: login_query_def credentials_match_def sample_asking list_db_def)
    (simp add: sample_account_def sample_hash credentials_def sample_login_def no_email ShaHash_swap_swap)

lemma sample_account_simps:
  "account_uuid (sample_account flags) = Inr sample_uuid" "account_flags (sample_account flags) = ucast (strtoul10 flags)"
  "PQgetvalue (sample_account flags) 0 2 = Inr flags" "PQgetvalue (sample_account flags) 0 3 = Inr [49]"
  by (simp_all add: sample_account_def account_uuid_def account_flags_def sample_uuid_parse)

lemma sample_flags: "strtoul10 [48] = 0" "strtoul10 [54, 53, 53, 51, 54] = 65536"
  by code_simp+

theorem refused_login_keeps_account_witness:
  "\<exists>w'. daemon_step sample_auth (asking (e_AuthClientLogin sample_login) [sample_account [54, 53, 53, 51, 54]]) = (Inr True, w')
    \<and> replied w' 5 = [e_NetAccountBanned] \<and> ac_acctUuid (aw_client w' 5) = sample_uuid"
proof -
  have "login_refused False (65536 :: u32) = Some e_NetAccountBanned" by (simp add: login_refused_def bit_numeral_word_iff)
  then show ?thesis
  using refused_login_keeps_account [of "asking (e_AuthClientLogin sample_login) [sample_account [54, 53, 53, 51, 54]]" 0 "[]" 5
      sample_login sample_auth sample_uuid "[54, 53, 53, 51, 54]" "[49]" e_NetAccountBanned]
  by (simp add: sample_asking sample_match sample_account_simps sample_flags)
qed

lemma abind_aget: "abind (aget f) g s = g (f s) s"
  by (simp add: act_simps)

lemma sample_login_step:
  "\<exists>w'. daemon_step sample_auth (asking (e_AuthClientLogin sample_login) [sample_account [48], PG_tuples []]) = (Inr True, w')
    \<and> replied w' 5 = [e_NetSuccess] \<and> ac_acctUuid (aw_client w' 5) = sample_uuid"
proof -
  let ?w = "asking (e_AuthClientLogin sample_login) [sample_account [48], PG_tuples []]"
  obtain v where v: "deciding sample_auth (?w\<lparr>aw_channel := []\<rparr>) 5 sample_login v"
    and run: "dm_auth_login sample_auth 0 5 sample_login (?w\<lparr>aw_channel := []\<rparr>) =
      login_accepted sample_auth 0 5 (swapped_login sample_auth sample_login) (sample_account [48]) v"
    using login_accepts [of sample_auth "?w\<lparr>aw_channel := []\<rparr>" 5 sample_login 0] by (auto simp: sample_match)
  have v': "aw_db v = [PG_tuples []]" "aw_restrictLogins v = False" "ac_channel (aw_client v 5) = []"
    using v sample_asking(4) by (simp_all add: deciding_def login_state_def with_client_def list_db_def sample_asking asking_def empty_auth_def)
  have "\<exists>w'. dm_auth_login sample_auth 0 5 sample_login (?w\<lparr>aw_channel := []\<rparr>) = (Inr (), w')
      \<and> replied w' 5 = [e_NetSuccess] \<and> ac_acctUuid (aw_client w' 5) = sample_uuid"
    unfolding run
    by (simp add: v' store_def act_simps login_accepted_run sample_account_simps sample_flags login_decided_def get_uint_def get_text_def
        abind_aret abind_aget with_client_def login_players_def the_client_def PQexecVA_def list_db_def answer_def
        set_client_def replied_def login_refused_def)
  then show ?thesis
    using daemon_step_request [of ?w 0 "[]" 5 sample_auth]
    by (auto simp: sample_asking handle_request_def acatch_def acatch_if_def athen_def abind_def aret_def)
qed

theorem login_success_witness:
  "\<exists>w'. daemon_step sample_auth (asking (e_AuthClientLogin sample_login) [sample_account [48], PG_tuples []]) = (Inr True, w')
    \<and> replied w' 5 = [e_NetSuccess]
    \<and> password_proved sample_auth (asking (e_AuthClientLogin sample_login) [sample_account [48], PG_tuples []]) 5 sample_login
    \<and> \<not> bit (account_flags (sample_account [48])) 16 \<and> account_uuid (sample_account [48]) = Inr (ac_acctUuid (aw_client w' 5))"
proof -
  obtain w' where w': "daemon_step sample_auth (asking (e_AuthClientLogin sample_login) [sample_account [48], PG_tuples []]) = (Inr True, w')"
    "replied w' 5 = [e_NetSuccess]"
    using sample_login_step by blast
  have "aw_channel (asking (e_AuthClientLogin sample_login) [sample_account [48], PG_tuples []]) = [0]" by (rule sample_asking(1))
  from login_success [OF this _ _ w'(1), of 5 sample_login] w' show ?thesis by (auto simp: sample_asking sample_match)
qed


theorem daemon_answers_witness:
  "\<exists>w' codes. daemon_step sample_auth (asking (e_AuthClientLogin sample_login) [sample_account [48], PG_tuples []]) = (Inr True, w')
    \<and> replied w' = (\<lambda>_. [])(5 := codes) \<and> length codes = 1"
proof -
  obtain w' where "daemon_step sample_auth (asking (e_AuthClientLogin sample_login) [sample_account [48], PG_tuples []]) = (Inr True, w')"
    using sample_login_step by blast
  then show ?thesis
    using daemon_answers [of "asking (e_AuthClientLogin sample_login) [sample_account [48], PG_tuples []]" 0 "[]" 5 sample_auth True w']
    by (auto simp: sample_asking)
qed

definition sample_newcomer :: AuthServer_PlayerInfo where
  "sample_newcomer = PlayerInfo_new\<lparr>pi_playerName := [65]\<rparr>"

lemma no_database: "aw_db w = [] \<Longrightarrow> PQexecVA sample_auth sql args w = (Inr PG_error, w)"
  by (simp add: PQexecVA_def list_db_def)

lemma no_nodes:
  assumes "aw_db w = []"
  shows "v_create_player sample_auth acct player w = (Inr (0, 0, 0), w\<lparr>aw_calls := Suc (aw_calls w)\<rparr>)"
  using assms
  by (simp add: v_create_player_def Let_def create_or_def v_create_node_sql time_now_def check_postgres_def no_database act_simps)

theorem create_player_answers_twice_witness:
  "\<exists>w' code. daemon_step sample_auth (asking (e_AuthCreatePlayer sample_newcomer) [PG_tuples []]) = (Inr True, w')
    \<and> replied w' 5 = [e_NetInternalError, code]"
proof -
  let ?w = "asking (e_AuthCreatePlayer sample_newcomer) [PG_tuples []]"
  let ?named = "naming_state sample_auth 0 sample_newcomer (?w\<lparr>aw_channel := []\<rparr>)"
  have named: "aw_db ?named = []"
    by (simp add: naming_state_def store_def PQexecVA_def list_db_def act_simps sample_asking)
  have "\<exists>w'. dm_auth_createPlayer sample_auth 0 5 sample_newcomer (?w\<lparr>aw_channel := []\<rparr>) = (Inr (), w')"
    by (simp add: dm_auth_createPlayer_def Let_def sample_newcomer_def PlayerInfo_new_def store_def PQexecVA_def list_db_def act_simps sample_asking
      add_player_def the_client_def no_nodes welcome_player_def v_ref_node_def abind_assoc abind_aret abind_aget answer_def set_client_def)
  then obtain w' where step: "daemon_step sample_auth ?w = (Inr True, w')"
    using daemon_step_request [of ?w 0 "[]" 5 sample_auth]
    by (auto simp: sample_asking handle_request_def acatch_def acatch_if_def athen_def abind_def aret_def)
  have "\<exists>code. replied w' 5 = replied ?w 5 @ [e_NetInternalError, code]"
    by (rule create_player_answers_twice [OF _ _ _ _ no_nodes [OF named] step])
      (simp_all add: sample_asking list_db_def)
  then show ?thesis using step by (simp add: sample_asking)
qed

theorem registered_password_witness:
  "\<exists>w'. dm_auth_addacct sample_auth 5 [97] [98] (asking (e_AuthAddAcct [97] [98])
      [PG_tuples [], PG_tuples [[Some (Uuid_toString hex_pad sample_uuid False)]], PG_command]) = (Inr (), w')
    \<and> replied w' 5 = [e_NetSuccess]"
proof -
  let ?w = "asking (e_AuthAddAcct [97] [98]) [PG_tuples [], PG_tuples [[Some (Uuid_toString hex_pad sample_uuid False)]], PG_command]"
  have "length (password_hash sample_auth [97] [98]) = 5" by (simp add: password_hash_def no_email) (simp add: sample_auth_def)
  moreover have "gen_uuid sample_auth (?w\<lparr>aw_db := [PG_tuples [[Some (Uuid_toString hex_pad sample_uuid False)]], PG_command]\<rparr>)
      = (Inr sample_uuid, ?w\<lparr>aw_db := [PG_command]\<rparr>)"
    by (simp add: gen_uuid_def check_postgres_def PQexecVA_def list_db_def DS_ASSERT_def get_uuid_def get_text_def act_simps
        sample_uuid_parse abind_aret)
  ultimately show ?thesis
    using registered_password [of sample_auth "[97]" "[98]" ?w "[PG_tuples [[Some (Uuid_toString hex_pad sample_uuid False)]], PG_command]"
        sample_uuid "?w\<lparr>aw_db := [PG_command]\<rparr>" "[]" 5]
    by (auto simp: sample_asking list_db_def hex_format_hex_pad)
qed

end
