(* ===== verification/Auth_Players.thy ===== *)
theory Auth_Players
  imports Auth_Access
begin

unbundle bit_operations_syntax

text \<open>
  The players that clients have chosen. A worker writes the number of the player into its client before it asks the
  daemon, which looks at all clients and takes the number back when another one has it. The steps of the workers and the daemon are
  interleaved; a choice that the daemon has not decided yet is under way.
\<close>

section \<open>The choice of a player\<close>

abbreviation client_player :: "'d auth_world \<Rightarrow> nat \<Rightarrow> u32" where
  "client_player w c \<equiv> pi_playerId (ac_player (aw_client w c))"

interpretation player: loop_frame "\<lambda>w w' :: 'd auth_world.
    aw_clients w' = aw_clients w \<and> (\<forall>c. client_player w' c = client_player w c)" UNIV
  by unfold_locales (auto simp: with_client_def)

lemma player_set_client:
  "(\<And>k. pi_playerId (ac_player (f k)) = pi_playerId (ac_player k)) \<Longrightarrow> player.keeps (set_client c f)"
  unfolding set_client_def by (rule player.keeps_amod) simp

lemma player_login: "player.keeps (dm_auth_login E p c info)"
  unfolding dm_auth_login_def login_accepted_def login_players_def get_player_def Let_def
  by (intro player.dm_intros player_set_client; simp)

lemma player_others: "body \<noteq> e_AuthSetPlayer \<Longrightarrow> player.keeps (handle_request E p c body)"
  by (rule player.keeps_handle_request) (auto simp: player_login)

lemma player_enter: "player.keeps (enter_player E c result)"
  unfolding enter_player_def by (intro player.dm_intros player_set_client; simp)

definition only_player :: "'d auth_world \<Rightarrow> nat \<Rightarrow> bool" where
  "only_player w c \<longleftrightarrow> (\<forall>d \<in> set (aw_clients w). d \<noteq> c \<longrightarrow> client_player w d \<noteq> client_player w c)"

lemma setPlayer_outcome:
  assumes "dm_auth_setPlayer E c w = (r, w')"
  shows "aw_clients w' = aw_clients w \<and> (\<forall>d. d \<noteq> c \<longrightarrow> client_player w' d = client_player w d)
    \<and> (client_player w' c = 0 \<or> client_player w' c = client_player w c \<and> only_player w c)"
proof -
  obtain result db where exec: "ae_exec E sql_Player_of_account
      (map (PostgresStrings_set E) [uuid_arg E (ac_acctUuid (aw_client w c)), Arg_uint (client_player w c)])
      (ae_check E (aw_db w)) = (result, db)"
    by (meson surj_pair)
  let ?w = "w\<lparr>aw_db := db\<rparr>"
  have refused: "aw_clients w' = aw_clients w \<and> (\<forall>d. d \<noteq> c \<longrightarrow> client_player w' d = client_player w d) \<and> client_player w' c = 0"
    if "refuse_player c code ?w = (r, w')" for code
    using that by (auto simp: refuse_player_def no_player_def answer_def set_client_def act_simps)
  have entered: "aw_clients w' = aw_clients w \<and> (\<forall>d. client_player w' d = client_player w d)"
    if "enter_player E c result ?w = (r, w')"
    using player.keepsD [OF player_enter [of E c result], of ?w] that by simp
  have "(\<exists>code. refuse_player c code ?w = (r, w')) \<or> enter_player E c result ?w = (r, w') \<and> only_player w c"
    using assms exec
    by (auto simp: dm_auth_setPlayer_def check_postgres_def the_client_def PQexecVA_def player_active_def act_simps only_player_def
        split: if_splits)
  then show ?thesis using refused entered by metis
qed

section \<open>Interleaving\<close>

text \<open>The client whose choice is decided by a round of the daemon.\<close>

definition deciding_client :: "'d auth_world \<Rightarrow> nat set" where
  "deciding_client w =
     (case aw_channel w of
        p # rest \<Rightarrow> (case am_client (aw_msg w p) of
                      Some c \<Rightarrow> if am_body (aw_msg w p) = e_AuthSetPlayer then {c} else {}
                    | None \<Rightarrow> {})
      | [] \<Rightarrow> {})"

text \<open>
  The steps that touch what clients play: a round of the daemon; a worker writes the number of a player and, unless it is 0,
  asks the daemon later; a client comes or goes; and anything else, such as a message to the daemon, that leaves the players
  and the list of clients alone.
\<close>

inductive auth_step :: "'d auth_env \<Rightarrow> 'd auth_world \<times> nat set \<Rightarrow> 'd auth_world \<times> nat set \<Rightarrow> bool" for E where
  daemon: "daemon_step E w = (r, w') \<Longrightarrow> auth_step E (w, P) (w', P - deciding_client w)"
| choose: "auth_step E (w, P)
    (with_client c (\<lambda>k. k\<lparr>ac_player := (ac_player k)\<lparr>pi_playerId := idx\<rparr>\<rparr>) w, if idx = 0 then P else insert c P)"
| come: "c \<notin> set (aw_clients w) \<Longrightarrow> pi_playerId (ac_player k) = 0 \<Longrightarrow>
    auth_step E (w, P) (w\<lparr>aw_client := (aw_client w)(c := k), aw_clients := aw_clients w @ [c]\<rparr>, P)"
| go: "auth_step E (w, P) (w\<lparr>aw_clients := remove1 c (aw_clients w)\<rparr>, P)"
| other: "aw_clients w' = aw_clients w \<Longrightarrow> (\<And>c. client_player w' c = client_player w c) \<Longrightarrow> auth_step E (w, P) (w', P)"

definition exclusive :: "'d auth_world \<times> nat set \<Rightarrow> bool" where
  "exclusive s \<longleftrightarrow> (\<forall>c \<in> set (aw_clients (fst s)). \<forall>d \<in> set (aw_clients (fst s)).
     c \<noteq> d \<longrightarrow> client_player (fst s) c = client_player (fst s) d \<longrightarrow> client_player (fst s) c \<noteq> 0
       \<longrightarrow> c \<in> snd s \<or> d \<in> snd s)"

lemma daemon_players:
  assumes "daemon_step E w = (r, w')"
  shows "aw_clients w' = aw_clients w \<and>
    ((\<forall>d. client_player w' d = client_player w d) \<and> deciding_client w = {}
     \<or> (\<exists>c. deciding_client w = {c} \<and> (\<forall>d. d \<noteq> c \<longrightarrow> client_player w' d = client_player w d)
         \<and> (client_player w' c = 0 \<or> client_player w' c = client_player w c \<and> only_player w c)))"
proof -
  have none: "e_AuthShutdown \<noteq> e_AuthSetPlayer" by simp
  consider "aw_clients w' = aw_clients w" "\<And>d. client_player w' d = client_player w d"
      "\<And>p rest. aw_channel w = p # rest \<Longrightarrow> am_client (aw_msg w p) = None \<or> am_body (aw_msg w p) \<noteq> e_AuthSetPlayer"
    | p rest c r0 w0 where "aw_channel w = p # rest" "am_client (aw_msg w p) = Some c" "am_body (aw_msg w p) = e_AuthSetPlayer"
        "dm_auth_setPlayer E c (w\<lparr>aw_channel := rest\<rparr>) = (r0, w0)"
        "aw_clients w' = aw_clients w0" "\<And>d. client_player w' d = client_player w0 d"
    using player.daemon_round [of E w r w' "\<lambda>body. body = e_AuthSetPlayer", OF assms player_others none]
    by (auto simp: handle_request_def)
  then show ?thesis
  proof cases
    case 1
    then have "deciding_client w = {}" by (auto simp: deciding_client_def split: list.split option.split)
    then show ?thesis using 1 by simp
  next
    case 2
    from setPlayer_outcome [OF 2(4)] have "deciding_client w = {c} \<and> aw_clients w' = aw_clients w
        \<and> (\<forall>d. d \<noteq> c \<longrightarrow> client_player w' d = client_player w d)
        \<and> (client_player w' c = 0 \<or> client_player w' c = client_player w c \<and> only_player w c)"
      using 2 by (simp add: deciding_client_def only_player_def)
    then show ?thesis by blast
  qed
qed

lemma exclusive_step: "auth_step E s s' \<Longrightarrow> exclusive s \<Longrightarrow> exclusive s'"
proof (induction rule: auth_step.induct)
  case (daemon w r w' P)
  then show ?case using daemon_players [OF daemon(1)] unfolding exclusive_def only_player_def
    by (elim conjE disjE exE; simp; metis)
next
  case (go w P c)
  then show ?case by (auto simp: exclusive_def dest: notin_set_remove1)
qed (auto simp: exclusive_def with_client_def)

text \<open>
  C3: whatever the order in which workers and daemon run, two connected clients play the same player only while the choice
  of one of them is not decided yet.
\<close>

theorem players_exclusive:
  assumes "(auth_step E)\<^sup>*\<^sup>* (w, P) (w', P')" and "aw_clients w = []"
    and "c \<in> set (aw_clients w')" and "d \<in> set (aw_clients w')" and "c \<noteq> d" and "c \<notin> P'" and "d \<notin> P'"
    and "client_player w' c \<noteq> 0"
  shows "client_player w' d \<noteq> client_player w' c"
proof -
  have "exclusive (w, P)" using assms(2) by (simp add: exclusive_def)
  with assms(1) have "exclusive (w', P')"
    by (induction rule: rtranclp_induct) (auto intro: exclusive_step)
  then show ?thesis using assms(3-8) by (auto simp: exclusive_def)
qed

section \<open>Samples\<close>

definition two_clients :: "pg_result list auth_world" where
  "two_clients = (asking e_AuthSetPlayer [PG_tuples [[Some [65], Some [], Some [49]]]])\<lparr>aw_clients := [5, 6],
     aw_client := (aw_client (empty_auth []))(5 := (aw_client (empty_auth []) 5)\<lparr>ac_player := PlayerInfo_new\<lparr>pi_playerId := 9\<rparr>\<rparr>)\<rparr>"

lemma two_clients_reached: "(auth_step sample_auth)\<^sup>*\<^sup>* (empty_auth [], {}) (two_clients, {5})"
proof -
  let ?k = "aw_client (empty_auth []) 5"
  let ?one = "(empty_auth [])\<lparr>aw_client := (aw_client (empty_auth []))(5 := ?k), aw_clients := [] @ [5]\<rparr>"
  let ?two = "?one\<lparr>aw_client := (aw_client ?one)(6 := ?k), aw_clients := [5] @ [6]\<rparr>"
  let ?chosen = "with_client 5 (\<lambda>k. k\<lparr>ac_player := (ac_player k)\<lparr>pi_playerId := 9\<rparr>\<rparr>) ?two"
  have k: "pi_playerId (ac_player ?k) = 0" by (simp add: empty_auth_def PlayerInfo_new_def)
  have s1: "auth_step sample_auth (empty_auth [], {}) (?one, {})"
    using auth_step.come [of 5 "empty_auth []" ?k sample_auth "{}"] k by (simp add: empty_auth_def)
  have s2: "auth_step sample_auth (?one, {}) (?two, {})"
    using auth_step.come [of 6 ?one ?k sample_auth "{}"] k by simp
  have s3: "auth_step sample_auth (?two, {}) (?chosen, {5})"
    using auth_step.choose [of sample_auth ?two "{}" 5 9] by simp
  have s4: "auth_step sample_auth (?chosen, {5}) (two_clients, {5})"
    by (rule auth_step.other) (simp_all add: two_clients_def with_client_def asking_def empty_auth_def)
  note step = rtranclp.rtrancl_into_rtrancl [where r = "auth_step sample_auth" and a = "(empty_auth [], {})"]
  show ?thesis by (rule step [OF step [OF step [OF step [OF rtranclp.rtrancl_refl s1] s2] s3] s4])
qed

lemma two_clients_decided:
  "\<exists>w'. daemon_step sample_auth two_clients = (Inr True, w') \<and> aw_clients w' = [5, 6] \<and> client_player w' 5 = 9"
proof -
  let ?w = "two_clients\<lparr>aw_channel := []\<rparr>"
  have "\<exists>w'. dm_auth_setPlayer sample_auth 5 ?w = (Inr (), w') \<and> aw_clients w' = [5, 6] \<and> client_player w' 5 = 9"
    by (simp add: dm_auth_setPlayer_def two_clients_def asking_def empty_auth_def check_postgres_def the_client_def PQexecVA_def
        list_db_def player_active_def abind_aget act_simps enter_player_def get_string_def get_uint_def get_text_def abind_assoc abind_aret
        bcast_rows_def answer_def set_client_def PlayerInfo_new_def sample_auth_def ascii_strings_def)
  moreover have "daemon_step sample_auth two_clients =
      athen (acatch (handle_request sample_auth 0 5 e_AuthSetPlayer) (answer 5 e_NetInternalError)) (aret True) ?w"
    using daemon_step_request [of two_clients 0 "[]" 5 sample_auth] by (simp add: two_clients_def asking_def)
  ultimately show ?thesis
    by (auto simp: handle_request_def acatch_def acatch_if_def athen_def abind_def aret_def)
qed

theorem players_exclusive_witness:
  "\<exists>w'. (auth_step sample_auth)\<^sup>*\<^sup>* (empty_auth [], {}) (w', {}) \<and> client_player w' 5 = 9 \<and> client_player w' 6 \<noteq> client_player w' 5"
proof -
  obtain w' where step: "daemon_step sample_auth two_clients = (Inr True, w')"
    and w': "aw_clients w' = [5, 6]" "client_player w' 5 = 9"
    using two_clients_decided by blast
  have "deciding_client two_clients = {5}" by (simp add: deciding_client_def two_clients_def asking_def)
  then have run: "(auth_step sample_auth)\<^sup>*\<^sup>* (empty_auth [], {}) (w', {})"
    using two_clients_reached auth_step.daemon [OF step, of "{5}"] by (simp add: rtranclp.rtrancl_into_rtrancl)
  have "aw_clients (empty_auth []) = []" by (simp add: empty_auth_def)
  from players_exclusive [OF run this, of 5 6] show ?thesis using run w' by auto
qed

end
