(* ===== verification/File_Server.thy ===== *)
theory File_Server
  imports Sockets Manifests
begin

unbundle bit_operations_syntax

text \<open>
  The file server, \<open>FileServ/FileServer.cpp\<close>: it answers pings and requests for the build number, sends manifests and
  files. \<open>m_buffer\<close> is truncated at the start of every reply, so it is a value of the handler; \<open>m_readerId\<close> is handed from
  one handler to the next.
\<close>

section \<open>Handlers\<close>

record file_settings =
  fs_FileRoot :: st_string
  fs_BuildId :: u32

record file_env =
  fe_lib :: ext_lib
  fe_strings :: st_lib
  fe_settings :: file_settings
  fe_disk :: file_system

text \<open>
  \<open>START_REPLY\<close> and the writes after it put 0 and the number of the message before the contents; \<open>SEND_REPLY\<close> and
  \<open>SEND_FD_REPLY\<close> write the size over the 0.
\<close>

definition start_reply :: "u32 \<Rightarrow> bytes \<Rightarrow> bytes" where
  "start_reply msgId contents = write_u32 0 @ write_u32 msgId @ contents"

definition patch_u32 :: "nat \<Rightarrow> u32 \<Rightarrow> bytes \<Rightarrow> bytes" where
  "patch_u32 pos w buffer = take pos buffer @ write_u32 w @ drop (pos + 4) buffer"

definition send_buffered :: "bytes \<Rightarrow> ('k conn, unit) act" where
  "send_buffered buffer = SendBuffer (patch_u32 0 (of_nat (length buffer)) buffer)"

definition send_fd_reply :: "nat \<Rightarrow> bytes \<Rightarrow> bytes \<Rightarrow> nat \<Rightarrow> u32 \<Rightarrow> ('k conn, nat) act" where
  "send_fd_reply fuel buffer data off sz =
     SendFile fuel (patch_u32 0 (of_nat (length buffer) + sz) buffer) data off (unat sz)"

definition file_init :: "('k conn, unit) act" where
  "file_init =
     abind (RecvValue 4) (\<lambda>size' :: u32.
     if size' \<noteq> 12 then afail (Thrown InvalidConnectionHeader)
     else abind (RecvValue 4) (\<lambda>_ :: u32. abind (RecvValue 4) (\<lambda>_ :: u32. aret ())))"

definition file_ping :: "u32 \<Rightarrow> ('k conn, u32) act" where
  "file_ping m_readerId =
     abind (RecvValue 4) (\<lambda>pingTime :: u32.
     athen (send_buffered (start_reply 0 (write_u32 pingTime))) (aret m_readerId))"

definition cb_buildId :: "file_env \<Rightarrow> u32 \<Rightarrow> ('k conn, u32) act" where
  "cb_buildId E m_readerId =
     abind (RecvValue 4) (\<lambda>transId :: u32.
     athen (send_buffered (start_reply 10
              (write_u32 transId @ write_u32 e_NetSuccess @ write_u32 (fs_BuildId (fe_settings E)))))
           (aret m_readerId))"

text \<open>
  A name is an array of 260 units whose last one is overwritten by 0; the string ends at the first 0.
\<close>

definition c_name :: "ext_lib \<Rightarrow> bytes \<Rightarrow> st_string" where
  "c_name L buffer = from_utf16 L (takeWhile (\<lambda>u. u \<noteq> 0) ((u16s buffer)[259 := 0]))"

definition wrong_build :: "file_env \<Rightarrow> u32 \<Rightarrow> bool" where
  "wrong_build E buildId \<longleftrightarrow> buildId \<noteq> 0 \<and> buildId \<noteq> fs_BuildId (fe_settings E)"

text \<open>The path characters a manifest must not have: \<open>. / \ :\<close>.\<close>

definition path_characters :: "st_lib \<Rightarrow> st_string \<Rightarrow> bool" where
  "path_characters T mfsname \<longleftrightarrow>
     st_find T [46] mfsname \<noteq> -1 \<or> st_find T [47] mfsname \<noteq> -1 \<or> st_find T [92] mfsname \<noteq> -1 \<or> st_find T [58] mfsname \<noteq> -1"

definition manifest_path :: "file_env \<Rightarrow> st_string \<Rightarrow> st_string" where
  "manifest_path E mfsname = fs_FileRoot (fe_settings E) @ mfsname @ [46, 109, 102, 115]"

definition cb_manifest :: "file_env \<Rightarrow> u32 \<Rightarrow> ('k conn, u32) act" where
  "cb_manifest E m_readerId =
     abind (RecvValue 4) (\<lambda>transId :: u32.
     abind (RecvBuffer 520) (\<lambda>mfsbuf.
     abind (RecvValue 4) (\<lambda>buildId.
     let mfsname = c_name (fe_lib E) mfsbuf in
     if wrong_build E buildId then athen CloseSock (aret m_readerId)
     else if path_characters (fe_strings E) mfsname then
       athen (send_buffered (start_reply 20
                (write_u32 transId @ write_u32 e_NetFileNotFound @ write_u32 0 @ write_u32 0 @ write_u32 0)))
             (aret m_readerId)
     else
       abind (alift (FileManifest_loadManifest (fe_lib E) (fe_strings E) (fe_disk E) (manifest_path E mfsname)))
         (\<lambda>(result, manifest).
       if result \<noteq> e_NetSuccess then
         athen (send_buffered (start_reply 20
                  (write_u32 transId @ write_u32 result @ write_u32 0 @ write_u32 0 @ write_u32 0)))
               (aret m_readerId)
       else
         case FileManifest_encodeToStream (fe_lib E) manifest of (encoded, dataSize) \<Rightarrow>
         let m_readerId = m_readerId + 1;
             head = start_reply 20 (write_u32 transId @ write_u32 result @ write_u32 m_readerId
                      @ write_u32 (of_nat (length manifest)));
             sizeLocation = length head;
             buffer = head @ write_u32 0 @ encoded
         in athen (send_buffered (patch_u32 sizeLocation dataSize buffer)) (aret m_readerId)))))"

definition cb_manifestAck :: "u32 \<Rightarrow> ('k conn, u32) act" where
  "cb_manifestAck m_readerId =
     abind (RecvValue 4) (\<lambda>transId :: u32. abind (RecvValue 4) (\<lambda>readerId :: u32. aret m_readerId))"

definition CHUNK_SIZE :: nat where
  "CHUNK_SIZE = 0x8000"

definition not_found_reply :: "u32 \<Rightarrow> bytes" where
  "not_found_reply transId =
     start_reply 21 (write_u32 transId @ write_u32 e_NetFileNotFound @ write_u32 0 @ write_u32 0 @ write_u32 0)"

text \<open>
  The loop that sends the file in chunks; every chunk calls \<open>sendfile\<close> at most \<open>fuel\<close> times, and there are at most
  \<open>rounds\<close> chunks.
\<close>

fun download_loop :: "nat \<Rightarrow> nat \<Rightarrow> u32 \<Rightarrow> u32 \<Rightarrow> bytes \<Rightarrow> nat \<Rightarrow> nat \<Rightarrow> ('k conn, unit) act" where
  "download_loop fuel rounds transId m_readerId data st_size filepos =
     (if \<not> filepos < st_size then aret ()
      else case rounds of
        0 \<Rightarrow> afail (Thrown NoFuel)
      | Suc rounds' \<Rightarrow>
          let remsz = st_size - filepos;
              chunksz = (if remsz > CHUNK_SIZE then of_nat CHUNK_SIZE else of_nat remsz)
          in abind (send_fd_reply fuel
               (start_reply 21 (write_u32 transId @ write_u32 e_NetSuccess @ write_u32 m_readerId
                  @ write_u32 (of_nat st_size) @ write_u32 chunksz)) data filepos chunksz)
             (download_loop fuel rounds' transId m_readerId data st_size))"

declare download_loop.simps [simp del]

definition download_path :: "file_env \<Rightarrow> st_string \<Rightarrow> st_string" where
  "download_path E filename = fs_FileRoot (fe_settings E) @ st_replace (fe_strings E) [92] [47] filename"

definition cb_downloadStart :: "nat \<Rightarrow> nat \<Rightarrow> file_env \<Rightarrow> u32 \<Rightarrow> ('k conn, u32) act" where
  "cb_downloadStart fuel rounds E m_readerId =
     abind (RecvValue 4) (\<lambda>transId :: u32.
     abind (RecvBuffer 520) (\<lambda>buffer.
     abind (RecvValue 4) (\<lambda>buildId.
     let filename = c_name (fe_lib E) buffer in
     if wrong_build E buildId then athen CloseSock (aret m_readerId)
     else if st_find (fe_strings E) [46, 46] filename \<noteq> -1 then
       athen (send_buffered (not_found_reply transId)) (aret m_readerId)
     else
       (case fe_disk E (download_path E filename) of
          None \<Rightarrow> athen (send_buffered (not_found_reply transId)) (aret m_readerId)
        | Some fd \<Rightarrow>
            (case f_stat_size fd of
               None \<Rightarrow> athen (send_buffered (not_found_reply transId)) (aret m_readerId)
             | Some st_size \<Rightarrow>
                 athen (download_loop fuel rounds transId m_readerId (f_data fd) st_size 0) (aret (m_readerId + 1)))))))"

definition cb_downloadNext :: "u32 \<Rightarrow> ('k conn, u32) act" where
  "cb_downloadNext m_readerId =
     abind (RecvValue 4) (\<lambda>transId :: u32. abind (RecvValue 4) (\<lambda>readerId :: u32. aret m_readerId))"

text \<open>One round of the loop of \<open>wk_fileServ\<close>, the loop cut off after \<open>turns\<close> messages, and the body of the thread.\<close>

definition file_message :: "nat \<Rightarrow> nat \<Rightarrow> file_env \<Rightarrow> u32 \<Rightarrow> ('k conn, u32) act" where
  "file_message fuel rounds E m_readerId =
     abind (RecvValue 4) (\<lambda>_ :: u32.
     abind (RecvValue 4) (\<lambda>msgId :: u32.
     if msgId = 0 then file_ping m_readerId
     else if msgId = 10 then cb_buildId E m_readerId
     else if msgId = 20 then cb_manifest E m_readerId
     else if msgId = 22 then cb_manifestAck m_readerId
     else if msgId = 21 then cb_downloadStart fuel rounds E m_readerId
     else if msgId = 23 then cb_downloadNext m_readerId
     else athen CloseSock (afail (Thrown SockHup))))"

fun file_loop :: "nat \<Rightarrow> nat \<Rightarrow> nat \<Rightarrow> file_env \<Rightarrow> u32 \<Rightarrow> ('k conn, unit) act" where
  "file_loop 0 fuel rounds E m_readerId = afail (Thrown NoFuel)"
| "file_loop (Suc turns) fuel rounds E m_readerId =
     abind (file_message fuel rounds E m_readerId) (file_loop turns fuel rounds E)"

definition wk_fileServ :: "nat \<Rightarrow> nat \<Rightarrow> nat \<Rightarrow> file_env \<Rightarrow> ('k conn, unit) act" where
  "wk_fileServ turns fuel rounds E =
     athen (acatch (athen file_init (file_loop turns fuel rounds E 0)) (aret ())) CloseSock"

section \<open>Only files below the root are opened\<close>

text \<open>
  What the documentation of the string library says of \<open>find\<close> and of \<open>replace\<close> with a single character: -1 when the
  string does not occur, and each occurrence replaced.
\<close>

definition occurs :: "bytes \<Rightarrow> bytes \<Rightarrow> bool" where
  "occurs sub s \<longleftrightarrow> (\<exists>a b. s = a @ sub @ b)"

definition find_documented :: "st_lib \<Rightarrow> bool" where
  "find_documented T \<longleftrightarrow>
     (\<forall>sub s. sub \<noteq> [] \<longrightarrow> (st_find T sub s = -1 \<longleftrightarrow> \<not> occurs sub s))
     \<and> (\<forall>c d s. st_replace T [c] [d] s = map (\<lambda>x. if x = c then d else x) s)"

definition in_jail :: "file_env \<Rightarrow> st_string \<Rightarrow> bool" where
  "in_jail E path \<longleftrightarrow> (\<exists>name. path = fs_FileRoot (fe_settings E) @ name \<and> \<not> occurs [46, 46] name)"

lemma dots_map:
  assumes "\<not> occurs [46, 46] s"
  shows "\<not> occurs [46, 46] (map (\<lambda>x. if x = 92 then 47 else x) (s :: bytes))"
proof
  assume "occurs [46, 46] (map (\<lambda>x. if x = 92 then 47 else x) s)"
  then obtain a b where "map (\<lambda>x. if x = 92 then 47 else x) s = a @ [46, 46] @ b" unfolding occurs_def by blast
  then obtain us x y zs where s: "s = us @ [x, y] @ zs" "(if x = 92 then 47 else x) = (46 :: byte)" "(if y = 92 then 47 else y) = (46 :: byte)"
    by (auto simp: map_eq_append_conv)
  then have "x = 46" "y = 46" by (auto split: if_splits)
  then show False using assms s(1) unfolding occurs_def by blast
qed

lemma download_path_in_jail:
  assumes "find_documented (fe_strings E)" and "st_find (fe_strings E) [46, 46] filename = -1"
  shows "in_jail E (download_path E filename)"
proof -
  have "\<not> occurs [46, 46] filename" using assms unfolding find_documented_def by blast
  then show ?thesis
    using assms(1) dots_map unfolding in_jail_def download_path_def find_documented_def by auto
qed

lemma manifest_path_in_jail:
  assumes "find_documented (fe_strings E)" and "\<not> path_characters (fe_strings E) mfsname"
  shows "in_jail E (manifest_path E mfsname)"
proof -
  have "\<not> occurs [46] mfsname"
    using assms unfolding find_documented_def path_characters_def by blast
  then have n: "46 \<notin> set mfsname" unfolding occurs_def by (metis append_Cons append_Nil split_list)
  have "\<not> occurs [46, 46] (mfsname @ [46, 109, 102, 115])"
  proof
    assume "occurs [46, 46] (mfsname @ [46, 109, 102, 115])"
    then obtain a b where "mfsname @ [46, 109, 102, 115] = a @ [46, 46] @ b" unfolding occurs_def by blast
    then have "count_list (mfsname @ [46, 109, 102, 115]) 46 = count_list a 46 + 2 + count_list b 46" by simp
    then show False using n by simp
  qed
  then show ?thesis unfolding in_jail_def manifest_path_def by blast
qed

lemma manifest_jailed:
  assumes "find_documented (fe_strings E)" and "\<And>path. in_jail E path \<Longrightarrow> fe_disk E path = disk path"
  shows "cb_manifest E = cb_manifest (E\<lparr>fe_disk := disk\<rparr>)"
proof -
  have "FileManifest_loadManifest (fe_lib E) (fe_strings E) (fe_disk E) (manifest_path E n) =
      FileManifest_loadManifest (fe_lib E) (fe_strings E) disk (manifest_path E n)"
    if "\<not> path_characters (fe_strings E) n" for n
    using assms(2) [OF manifest_path_in_jail [OF assms(1) that]] by (simp add: FileManifest_loadManifest_def)
  moreover have "wrong_build (E\<lparr>fe_disk := disk\<rparr>) = wrong_build E" "manifest_path (E\<lparr>fe_disk := disk\<rparr>) = manifest_path E"
    by (simp_all add: fun_eq_iff wrong_build_def manifest_path_def)
  ultimately show ?thesis
    by (intro ext) (simp add: cb_manifest_def Let_def cong: if_cong)
qed

lemma download_jailed:
  assumes "find_documented (fe_strings E)" and "\<And>path. in_jail E path \<Longrightarrow> fe_disk E path = disk path"
  shows "(cb_downloadStart fuel rounds E :: u32 \<Rightarrow> ('k conn, u32) act) = cb_downloadStart fuel rounds (E\<lparr>fe_disk := disk\<rparr>)"
proof -
  have disk: "(if st_find (fe_strings E) [46, 46] n \<noteq> -1 then a else case fe_disk E (download_path E n) of None \<Rightarrow> b | Some fd \<Rightarrow> f fd) =
     (if st_find (fe_strings E) [46, 46] n \<noteq> -1 then a else case disk (download_path E n) of None \<Rightarrow> b | Some fd \<Rightarrow> f fd)"
    for n and a b :: "('k conn, u32) act" and f
    using assms(2) [OF download_path_in_jail [OF assms(1), of n]] by simp
  have "wrong_build (E\<lparr>fe_disk := disk\<rparr>) = wrong_build E" "download_path (E\<lparr>fe_disk := disk\<rparr>) = download_path E"
    by (simp_all add: fun_eq_iff wrong_build_def download_path_def)
  then show ?thesis by (intro ext) (simp add: cb_downloadStart_def Let_def disk cong: if_cong)
qed

lemma message_jailed:
  assumes "find_documented (fe_strings E)" and "\<And>path. in_jail E path \<Longrightarrow> fe_disk E path = disk path"
  shows "file_message fuel rounds E = file_message fuel rounds (E\<lparr>fe_disk := disk\<rparr>)"
  by (intro ext)
     (simp add: file_message_def cb_buildId_def manifest_jailed [OF assms] download_jailed [OF assms] cong: if_cong)

section \<open>Requests and replies\<close>

text \<open>
  An action that, on an undisturbed connection, takes some octets from the peer, sends it others and returns a value;
  such actions follow each other.
\<close>

definition handles :: "('k conn, 'a) act \<Rightarrow> bytes \<Rightarrow> 'a \<Rightarrow> bytes \<Rightarrow> bool" where
  "handles a taken x sent \<longleftrightarrow>
     (\<forall>c rest. calm_line (c_in c) \<longrightarrow> willing (c_accept c) \<longrightarrow> arrived (c_in c) = taken @ rest \<longrightarrow>
        (\<exists>c'. a c = (Inr x, c') \<and> calm_line (c_in c') \<and> willing (c_accept c') \<and> arrived (c_in c') = rest
            \<and> c_out c' = c_out c @ sent))"

lemma handlesD:
  assumes "handles a taken x sent" and "calm_line (c_in c)" and "willing (c_accept c)" and "arrived (c_in c) = taken @ rest"
  obtains c' where "a c = (Inr x, c')" and "calm_line (c_in c')" and "willing (c_accept c')" and "arrived (c_in c') = rest"
    and "c_out c' = c_out c @ sent"
  using assms unfolding handles_def by blast

lemma handles_ret: "handles (aret x) [] x []"
  by (simp add: handles_def act_simps)

lemma handles_bind:
  assumes "handles a t x s" and "handles (f x) t' y s'" and "taken = t @ t'" and "sent = s @ s'"
  shows "handles (abind a f) taken y sent"
  unfolding handles_def
proof (intro allI impI)
  fix c :: "'a conn" and rest
  assume c: "calm_line (c_in c)" "willing (c_accept c)" "arrived (c_in c) = taken @ rest"
  then have "arrived (c_in c) = t @ t' @ rest" using assms(3) by simp
  from handlesD [OF assms(1) c(1,2) this] obtain c1 where c1: "a c = (Inr x, c1)" "calm_line (c_in c1)"
      "willing (c_accept c1)" "arrived (c_in c1) = t' @ rest" "c_out c1 = c_out c @ s" .
  from handlesD [OF assms(2) c1(2-4)] obtain c2 where "f x c1 = (Inr y, c2)" "calm_line (c_in c2)"
      "willing (c_accept c2)" "arrived (c_in c2) = rest" "c_out c2 = c_out c1 @ s'" .
  then show "\<exists>c'. abind a f c = (Inr y, c') \<and> calm_line (c_in c') \<and> willing (c_accept c') \<and> arrived (c_in c') = rest
      \<and> c_out c' = c_out c @ sent"
    using c1 assms(4) by (auto simp: act_simps)
qed

lemma handles_then: "handles a [] () s \<Longrightarrow> handles b [] y s' \<Longrightarrow> handles (athen a b) [] y (s @ s')"
  unfolding athen_def by (rule handles_bind) simp_all

lemma handles_RecvBuffer: "length b = n \<Longrightarrow> handles (RecvBuffer n) b b []"
  using plain.reads_get [of n] by (force simp: plain.reads_def handles_def recv_bytes_def)

lemma handles_RecvValue: "handles (RecvValue 4) (write_u32 w) w []"
  unfolding RecvValue_def
  by (rule handles_bind [OF handles_RecvBuffer [of "write_u32 w"] _ append_Nil2 [symmetric]])
     (simp_all add: write_u32_def Stream_write_def le_word_le_bytes handles_ret)

lemma handles_SendBuffer: "b \<noteq> [] \<Longrightarrow> handles (SendBuffer b) [] () b"
  using SendBuffer_line by (force simp: handles_def)

lemma handles_SendFile:
  assumes "b \<noteq> []" and "offset + fdsz \<le> length data" and "fdsz \<le> fuel"
  shows "handles (SendFile fuel b data offset fdsz :: ('k conn, nat) act) [] (offset + fdsz) (b @ take fdsz (drop offset data))"
proof -
  have "handles (sendfile_loop fuel data offset fdsz :: ('k conn, nat) act) [] (offset + fdsz) (take fdsz (drop offset data))"
    using sendfile_line [OF _ assms(2,3)] by (force simp: handles_def)
  then show ?thesis unfolding SendFile_def using assms(1) by (simp add: handles_then handles_SendBuffer)
qed

text \<open>A message with its size, and what the two macros make of a buffer.\<close>

definition framed :: "u32 \<Rightarrow> bytes \<Rightarrow> bytes" where
  "framed msgId contents = write_u32 (of_nat (8 + length contents)) @ write_u32 msgId @ contents"

lemma patch_start: "patch_u32 0 w (start_reply msgId contents) = write_u32 w @ write_u32 msgId @ contents"
  by (simp add: patch_u32_def start_reply_def)

lemma handles_send_buffered: "handles (send_buffered (start_reply msgId contents)) [] () (framed msgId contents)"
proof -
  have "patch_u32 0 (of_nat (length (start_reply msgId contents))) (start_reply msgId contents) = framed msgId contents"
    by (simp add: patch_start framed_def) (simp add: start_reply_def)
  moreover have "framed msgId contents \<noteq> []" by (simp add: framed_def flip: length_greater_0_conv)
  ultimately show ?thesis using handles_SendBuffer by (simp add: send_buffered_def)
qed

lemma handles_reply: "handles (athen (send_buffered (start_reply msgId contents)) (aret x)) [] x (framed msgId contents)"
  using handles_then [OF handles_send_buffered handles_ret] by simp

text \<open>The chunks of a file, and the reply that carries one of them.\<close>

function chunks :: "bytes \<Rightarrow> bytes list" where
  "chunks [] = []"
| "chunks (b # bs) = take CHUNK_SIZE (b # bs) # chunks (drop CHUNK_SIZE (b # bs))"
  by pat_completeness auto
termination by (relation "measure length") (auto simp: CHUNK_SIZE_def)

declare chunks.simps(2) [simp del]

lemma chunks_step: "bs \<noteq> [] \<Longrightarrow> chunks bs = take CHUNK_SIZE bs # chunks (drop CHUNK_SIZE bs)"
  by (cases bs) (simp_all add: chunks.simps(2))

lemma concat_chunks: "concat (chunks bs) = bs"
proof (induction bs rule: chunks.induct)
  case (2 b bs)
  then show ?case by (simp add: chunks.simps(2))
qed simp

lemma chunks_size: "x \<in> set (chunks bs) \<Longrightarrow> x \<noteq> [] \<and> length x \<le> 0x8000"
proof (induction bs rule: chunks.induct)
  case (2 b bs)
  then show ?case by (auto simp: chunks.simps(2) CHUNK_SIZE_def)
qed simp

lemma length_chunks: "length (chunks bs) \<le> n \<longleftrightarrow> length bs \<le> n * CHUNK_SIZE"
proof (induction bs arbitrary: n rule: chunks.induct)
  case (2 b bs)
  show ?case
  proof (cases n)
    case 0
    then show ?thesis by (simp add: chunks.simps(2))
  next
    case (Suc m)
    then show ?thesis using "2.IH" [of m] by (auto simp: chunks.simps(2))
  qed
qed simp

definition chunk_reply :: "u32 \<Rightarrow> u32 \<Rightarrow> nat \<Rightarrow> bytes \<Rightarrow> bytes" where
  "chunk_reply transId readerId fileSize chunk =
     framed 21 (write_u32 transId @ write_u32 e_NetSuccess @ write_u32 readerId @ write_u32 (of_nat fileSize)
       @ write_u32 (of_nat (length chunk)) @ chunk)"

lemma handles_chunk:
  assumes "n = min CHUNK_SIZE (length data - pos)" and "CHUNK_SIZE \<le> fuel" and "pos < length data"
  shows "handles (send_fd_reply fuel (start_reply 21 (write_u32 transId @ write_u32 e_NetSuccess @ write_u32 readerId
       @ write_u32 (of_nat fileSize) @ write_u32 (of_nat n))) data pos (of_nat n)) [] (pos + n)
     (chunk_reply transId readerId fileSize (take CHUNK_SIZE (drop pos data)))"
proof -
  have n: "unat (of_nat n :: u32) = n" "n \<le> fuel" "pos + n \<le> length data"
    using assms by (auto simp: CHUNK_SIZE_def unsigned_of_nat take_bit_nat_eq_self_iff)
  let ?c = "write_u32 transId @ write_u32 e_NetSuccess @ write_u32 readerId @ write_u32 (of_nat fileSize) @ write_u32 (of_nat n)"
  have c: "take n (drop pos data) = take CHUNK_SIZE (drop pos data)" "length (take CHUNK_SIZE (drop pos data)) = n"
    using assms(1) by (auto simp: min_def)
  have "patch_u32 0 (of_nat (length (start_reply 21 ?c)) + of_nat n) (start_reply 21 ?c) @ take n (drop pos data) =
      chunk_reply transId readerId fileSize (take CHUNK_SIZE (drop pos data))"
    unfolding patch_start chunk_reply_def framed_def by (simp add: c) (simp add: start_reply_def assms(1) min.commute)
  moreover have "patch_u32 0 w (start_reply 21 ?c) \<noteq> []" for w
    by (simp add: patch_start flip: length_greater_0_conv)
  ultimately show ?thesis
    unfolding send_fd_reply_def n(1) using handles_SendFile [OF _ n(3,2)] by metis
qed

lemma handles_download:
  assumes "CHUNK_SIZE \<le> fuel"
  shows "length data - pos \<le> rounds * CHUNK_SIZE \<Longrightarrow>
     handles (download_loop fuel rounds transId readerId data (length data) pos :: ('k conn, unit) act) [] ()
       (concat (map (chunk_reply transId readerId (length data)) (chunks (drop pos data))))"
proof (induction rounds arbitrary: pos)
  case 0
  then show ?case by (simp add: download_loop.simps [of _ 0] handles_ret)
next
  case (Suc rounds)
  show ?case
  proof (cases "pos < length data")
    case False
    then show ?thesis by (simp add: download_loop.simps [of _ "Suc rounds"] handles_ret)
  next
    case True
    define n where "n = min CHUNK_SIZE (length data - pos)"
    have sz: "(if length data - pos > CHUNK_SIZE then of_nat CHUNK_SIZE else of_nat (length data - pos)) = (of_nat n :: u32)"
      by (simp add: n_def min_def)
    have "drop pos data \<noteq> []" using True by simp
    then have ch: "chunks (drop pos data) = take CHUNK_SIZE (drop pos data) # chunks (drop (pos + n) data)"
      by (subst chunks_step) (auto simp: n_def min_def add.commute)
    have "length data - (pos + n) \<le> rounds * CHUNK_SIZE" using Suc.prems by (auto simp: n_def min_def)
    note IH = Suc.IH [OF this]
    let ?send = "send_fd_reply fuel (start_reply 21 (write_u32 transId @ write_u32 e_NetSuccess @ write_u32 readerId
       @ write_u32 (of_nat (length data)) @ write_u32 (of_nat n))) data pos (of_nat n)"
    have "(download_loop fuel (Suc rounds) transId readerId data (length data) pos :: ('k conn, unit) act) =
        abind ?send (download_loop fuel rounds transId readerId data (length data))"
      by (subst download_loop.simps) (use True in \<open>simp add: Let_def sz\<close>)
    then show ?thesis
      unfolding ch by (simp only:) (rule handles_bind [OF handles_chunk [OF n_def assms True]], rule IH, simp_all)
  qed
qed

text \<open>What a client asks.\<close>

datatype file_request =
    File_ping u32
  | File_build u32
  | File_manifest u32 bytes u32
  | File_manifest_ack u32 u32
  | File_download u32 bytes u32
  | File_download_ack u32 u32

fun file_image :: "file_request \<Rightarrow> bytes" where
  "file_image (File_ping time) = framed 0 (write_u32 time)"
| "file_image (File_build transId) = framed 10 (write_u32 transId)"
| "file_image (File_manifest transId name build) = framed 20 (write_u32 transId @ name @ write_u32 build)"
| "file_image (File_manifest_ack transId readerId) = framed 22 (write_u32 transId @ write_u32 readerId)"
| "file_image (File_download transId name build) = framed 21 (write_u32 transId @ name @ write_u32 build)"
| "file_image (File_download_ack transId readerId) = framed 23 (write_u32 transId @ write_u32 readerId)"

text \<open>What it is told, and the next number of a reader.\<close>

definition manifest_reply :: "file_env \<Rightarrow> u32 \<Rightarrow> u32 \<Rightarrow> st_string \<Rightarrow> bytes \<times> u32" where
  "manifest_reply E readerId transId name =
     (let refuse = (\<lambda>result. (framed 20 (write_u32 transId @ write_u32 result @ write_u32 0 @ write_u32 0 @ write_u32 0), readerId))
      in if path_characters (fe_strings E) name then refuse e_NetFileNotFound
         else case FileManifest_loadManifest (fe_lib E) (fe_strings E) (fe_disk E) (manifest_path E name) of
             Inl e \<Rightarrow> ([], readerId)
           | Inr (result, infos) \<Rightarrow>
               if result \<noteq> e_NetSuccess then refuse result
               else (case FileManifest_encodeToStream (fe_lib E) infos of (encoded, units) \<Rightarrow>
                 (framed 20 (write_u32 transId @ write_u32 result @ write_u32 (readerId + 1)
                    @ write_u32 (of_nat (length infos)) @ write_u32 units @ encoded), readerId + 1)))"

definition download_reply :: "file_env \<Rightarrow> u32 \<Rightarrow> u32 \<Rightarrow> st_string \<Rightarrow> bytes \<times> u32" where
  "download_reply E readerId transId name =
     (let refuse = (framed 21 (write_u32 transId @ write_u32 e_NetFileNotFound @ write_u32 0 @ write_u32 0 @ write_u32 0), readerId)
      in if st_find (fe_strings E) [46, 46] name \<noteq> -1 then refuse
         else case fe_disk E (download_path E name) of
             None \<Rightarrow> refuse
           | Some fd \<Rightarrow>
               if f_stat_size fd = None then refuse
               else (concat (map (chunk_reply transId readerId (length (f_data fd))) (chunks (f_data fd))), readerId + 1))"

fun file_reply :: "file_env \<Rightarrow> u32 \<Rightarrow> file_request \<Rightarrow> bytes \<times> u32" where
  "file_reply E readerId (File_ping time) = (framed 0 (write_u32 time), readerId)"
| "file_reply E readerId (File_build transId) =
     (framed 10 (write_u32 transId @ write_u32 e_NetSuccess @ write_u32 (fs_BuildId (fe_settings E))), readerId)"
| "file_reply E readerId (File_manifest transId name build) = manifest_reply E readerId transId (c_name (fe_lib E) name)"
| "file_reply E readerId (File_manifest_ack _ _) = ([], readerId)"
| "file_reply E readerId (File_download transId name build) = download_reply E readerId transId (c_name (fe_lib E) name)"
| "file_reply E readerId (File_download_ack _ _) = ([], readerId)"

fun file_replies :: "file_env \<Rightarrow> u32 \<Rightarrow> file_request list \<Rightarrow> bytes" where
  "file_replies E readerId [] = []"
| "file_replies E readerId (r # rs) =
     (case file_reply E readerId r of (out, readerId') \<Rightarrow> out @ file_replies E readerId' rs)"

text \<open>
  A request for a name comes from the right build; the manifest it names can be read, and the file it names has the
  size that is reported and is sent in at most \<open>rounds\<close> chunks.
\<close>

definition file_ok :: "nat \<Rightarrow> data_file \<Rightarrow> bool" where
  "file_ok rounds fd \<longleftrightarrow> (\<forall>n. f_stat_size fd = Some n \<longrightarrow> n = length (f_data fd) \<and> n \<le> rounds * CHUNK_SIZE)"

fun file_request_ok :: "nat \<Rightarrow> file_env \<Rightarrow> file_request \<Rightarrow> bool" where
  "file_request_ok rounds E (File_manifest _ name build) \<longleftrightarrow> length name = 520 \<and> \<not> wrong_build E build
     \<and> (\<forall>e. FileManifest_loadManifest (fe_lib E) (fe_strings E) (fe_disk E) (manifest_path E (c_name (fe_lib E) name)) \<noteq> Inl e)"
| "file_request_ok rounds E (File_download _ name build) \<longleftrightarrow> length name = 520 \<and> \<not> wrong_build E build
     \<and> (\<forall>fd. fe_disk E (download_path E (c_name (fe_lib E) name)) = Some fd \<longrightarrow> file_ok rounds fd)"
| "file_request_ok rounds E _ = True"

lemma handles_abind_value:
  "handles (f w) taken x sent \<Longrightarrow> handles (abind (RecvValue 4) f) (write_u32 w @ taken) x sent"
  by (rule handles_bind [OF handles_RecvValue]) simp_all

lemma handles_named:
  assumes "length name = 520" and "handles (f transId name build) [] x sent"
  shows "handles (abind (RecvValue 4) (\<lambda>transId. abind (RecvBuffer 520) (\<lambda>name. abind (RecvValue 4) (f transId name))))
     (write_u32 transId @ name @ write_u32 build) x sent"
proof (rule handles_abind_value, rule handles_bind [OF handles_RecvBuffer [OF assms(1)]])
  show "handles (abind (RecvValue 4) (f transId name)) (write_u32 build) x sent"
    using handles_abind_value [of "f transId name" build "[]" x sent] assms(2) by simp
qed simp_all

lemma handles_manifest:
  assumes "file_request_ok rounds E (File_manifest transId name build)"
  shows "handles (cb_manifest E readerId) (write_u32 transId @ name @ write_u32 build)
     (snd (manifest_reply E readerId transId (c_name (fe_lib E) name))) (fst (manifest_reply E readerId transId (c_name (fe_lib E) name)))"
  unfolding cb_manifest_def
proof (rule handles_named, goal_cases)
  case 1
  then show ?case using assms by simp
next
  case 2
  let ?name = "c_name (fe_lib E) name"
  show ?case
  proof (cases "path_characters (fe_strings E) ?name")
    case True
    then show ?thesis using assms by (simp add: manifest_reply_def handles_reply Let_def)
  next
    case False
    obtain result infos where load:
        "FileManifest_loadManifest (fe_lib E) (fe_strings E) (fe_disk E) (manifest_path E ?name) = Inr (result, infos)"
      using assms by (cases "FileManifest_loadManifest (fe_lib E) (fe_strings E) (fe_disk E) (manifest_path E ?name)") auto
    obtain encoded units where enc: "FileManifest_encodeToStream (fe_lib E) infos = (encoded, units)"
      by (cases "FileManifest_encodeToStream (fe_lib E) infos")
    have "patch_u32 (length (start_reply 20 head)) units (start_reply 20 head @ write_u32 0 @ encoded) =
        start_reply 20 (head @ write_u32 units @ encoded)" for head
      by (simp add: patch_u32_def) (simp add: start_reply_def)
    then show ?thesis
      using False assms load enc
      by (simp add: manifest_reply_def handles_reply Let_def act_simps abind_aret)
  qed
qed

lemma handles_downloadStart:
  assumes "file_request_ok rounds E (File_download transId name build)" and "CHUNK_SIZE \<le> fuel"
  shows "handles (cb_downloadStart fuel rounds E readerId) (write_u32 transId @ name @ write_u32 build)
     (snd (download_reply E readerId transId (c_name (fe_lib E) name))) (fst (download_reply E readerId transId (c_name (fe_lib E) name)))"
  unfolding cb_downloadStart_def
proof (rule handles_named, goal_cases)
  case 1
  then show ?case using assms by simp
next
  case 2
  have "handles (athen (download_loop fuel rounds transId readerId (f_data fd) n 0) (aret (readerId + 1))) [] (readerId + 1)
      (concat (map (chunk_reply transId readerId (length (f_data fd))) (chunks (f_data fd))))"
    if "f_stat_size fd = Some n" "file_ok rounds fd" for fd n
    using handles_then [OF handles_download [OF assms(2), of "f_data fd" 0 rounds] handles_ret] that
    by (simp add: file_ok_def)
  then show ?case
    using assms by (auto simp: download_reply_def handles_reply not_found_reply_def Let_def split: option.splits)
qed

lemma handles_message:
  assumes "file_request_ok rounds E r" and "CHUNK_SIZE \<le> fuel"
  shows "handles (file_message fuel rounds E readerId) (file_image r) (snd (file_reply E readerId r)) (fst (file_reply E readerId r))"
proof (cases r)
  case (File_ping time)
  have "handles (file_ping readerId) (write_u32 time) readerId (framed 0 (write_u32 time))"
    using handles_abind_value [OF handles_reply] unfolding file_ping_def by fastforce
  with File_ping show ?thesis
    by (auto simp: framed_def file_message_def intro!: handles_abind_value)
next
  case (File_build transId)
  have "handles (cb_buildId E readerId) (write_u32 transId) readerId
      (framed 10 (write_u32 transId @ write_u32 e_NetSuccess @ write_u32 (fs_BuildId (fe_settings E))))"
    using handles_abind_value [OF handles_reply] unfolding cb_buildId_def by fastforce
  with File_build show ?thesis
    by (auto simp: framed_def [of 10 "write_u32 transId"] file_message_def intro!: handles_abind_value)
next
  case (File_manifest transId name build)
  with assms(1) show ?thesis
    by (simp add: framed_def [of 20 "write_u32 transId @ name @ write_u32 build"] file_message_def handles_abind_value handles_manifest)
next
  case (File_manifest_ack transId id)
  have "handles (cb_manifestAck readerId) (write_u32 transId @ write_u32 id @ []) readerId []"
    unfolding cb_manifestAck_def by (intro handles_abind_value handles_ret)
  with File_manifest_ack show ?thesis by (auto simp: framed_def file_message_def intro!: handles_abind_value)
next
  case (File_download transId name build)
  with assms show ?thesis
    by (simp add: framed_def [of 21 "write_u32 transId @ name @ write_u32 build"] file_message_def handles_abind_value handles_downloadStart)
next
  case (File_download_ack transId id)
  have "handles (cb_downloadNext readerId) (write_u32 transId @ write_u32 id @ []) readerId []"
    unfolding cb_downloadNext_def by (intro handles_abind_value handles_ret)
  with File_download_ack show ?thesis by (auto simp: framed_def file_message_def intro!: handles_abind_value)
qed

lemma file_loop_line:
  assumes "CHUNK_SIZE \<le> fuel"
  shows "calm_line (c_in c) \<Longrightarrow> willing (c_accept c) \<Longrightarrow> list_all (file_request_ok rounds E) rs \<Longrightarrow>
     arrived (c_in c) = concat (map file_image rs) \<Longrightarrow> length rs < turns \<Longrightarrow>
     \<exists>c'. file_loop turns fuel rounds E readerId c = (Inl (Thrown SockHup), c')
       \<and> c_out c' = c_out c @ file_replies E readerId rs"
proof (induction rs arbitrary: c turns readerId)
  case Nil
  then obtain turns' where turns: "turns = Suc turns'" by (cases turns) auto
  have "recv_value 4 (arrived (c_in c)) = (Inl SockHup :: ds_error + u32 \<times> bytes)"
    using Nil.prems by (simp add: recv_value_def recv_bytes_def rbind_def)
  then obtain c' where "(RecvValue 4 :: ('a conn, u32) act) c = (Inl (Thrown SockHup), c')" "c_out c' = c_out c"
    using plain.reads_Inl [OF reads_RecvValue, of c 4 SockHup] Nil.prems(1) by auto
  then show ?case by (simp add: turns file_message_def act_simps)
next
  case (Cons r rs)
  then obtain turns' where turns: "turns = Suc turns'" by (cases turns) auto
  have "arrived (c_in c) = file_image r @ concat (map file_image rs)" "file_request_ok rounds E r" using Cons.prems by simp_all
  from handlesD [OF handles_message [OF this(2) assms] Cons.prems(1,2) this(1)]
  obtain c1 where c1: "file_message fuel rounds E readerId c = (Inr (snd (file_reply E readerId r)), c1)"
      "calm_line (c_in c1)" "willing (c_accept c1)" "arrived (c_in c1) = concat (map file_image rs)"
      "c_out c1 = c_out c @ fst (file_reply E readerId r)" .
  then show ?case
    using Cons.IH [OF c1(2,3) _ c1(4), of turns' "snd (file_reply E readerId r)"] Cons.prems
    by (auto simp: turns act_simps split_beta)
qed

lemma handles_init: "handles file_init (write_u32 12 @ write_u32 build @ write_u32 kind @ []) () []"
  unfolding file_init_def
  by (rule handles_abind_value) (simp only: simp_thms if_False, intro handles_abind_value handles_ret)

section \<open>Properties\<close>

text \<open>
  C16: the file server opens nothing outside its root. Whatever a client sends and however it arrives, the server
  behaves the same on any two file systems that agree on the paths that begin with the root and continue without
  two dots in a row.
\<close>

theorem only_jailed_files:
  assumes "find_documented (fe_strings E)" and "\<And>path. in_jail E path \<Longrightarrow> fe_disk E path = disk path"
  shows "wk_fileServ turns fuel rounds E c = wk_fileServ turns fuel rounds (E\<lparr>fe_disk := disk\<rparr>) c"
proof -
  have loop: "file_loop turns fuel rounds E = file_loop turns fuel rounds (E\<lparr>fe_disk := disk\<rparr>)" for turns
  proof (induction turns)
    case (Suc turns)
    show ?case by (intro ext) (simp add: Suc.IH message_jailed [OF assms])
  qed (simp add: fun_eq_iff)
  show ?thesis by (simp add: wk_fileServ_def loop)
qed

text \<open>
  C15: a whole session of the file server. A client that sends the header and then any number of requests, in whatever
  pieces they arrive, is sent the reply to every request, in their order and each once, with the readers numbered one after
  the other, and the thread ends when the client has closed the connection.
\<close>

theorem file_session:
  assumes "calm_line (c_in c)" and "willing (c_accept c)" and "list_all (file_request_ok rounds E) rs"
    and "length rs < turns" and "CHUNK_SIZE \<le> fuel"
    and "arrived (c_in c) = write_u32 12 @ write_u32 build @ write_u32 kind @ concat (map file_image rs)"
  shows "\<exists>c'. wk_fileServ turns fuel rounds E c = (Inr (), c') \<and> c_out c' = c_out c @ file_replies E 0 rs"
proof -
  have "arrived (c_in c) = (write_u32 12 @ write_u32 build @ write_u32 kind @ []) @ concat (map file_image rs)"
    using assms(6) by simp
  from handlesD [OF handles_init assms(1,2) this]
  obtain c1 where c1: "file_init c = (Inr (), c1)" "calm_line (c_in c1)" "willing (c_accept c1)"
      "arrived (c_in c1) = concat (map file_image rs)" "c_out c1 = c_out c @ []" .
  then obtain c2 where "file_loop turns fuel rounds E 0 c1 = (Inl (Thrown SockHup), c2)" "c_out c2 = c_out c1 @ file_replies E 0 rs"
    using file_loop_line [OF assms(5) c1(2,3) assms(3) c1(4) assms(4)] by blast
  then show ?thesis
    using c1 by (simp add: wk_fileServ_def acatch_def acatch_if_def act_simps CloseSock_def)
qed

text \<open>
  C38: a download delivers the file. The reply to a request for a file that exists is a sequence of messages that carry
  between 1 and 32768 octets each and together exactly the contents of the file, and all of them the same number of the
  reader and the size of the file; so a file without contents gets no reply at all.
\<close>

theorem download_delivers:
  assumes "st_find (fe_strings E) [46, 46] (c_name (fe_lib E) name) = -1" and "length name = 520" and "\<not> wrong_build E build"
    and "fe_disk E (download_path E (c_name (fe_lib E) name)) = Some fd"
    and "f_stat_size fd = Some (length (f_data fd))" and "length (f_data fd) \<le> rounds * 32768" and "32768 \<le> fuel"
    and "calm_line (c_in c)" and "willing (c_accept c)"
    and "arrived (c_in c) = write_u32 transId @ name @ write_u32 build @ rest"
  shows "\<exists>c' cs. cb_downloadStart fuel rounds E readerId c = (Inr (readerId + 1), c') \<and> arrived (c_in c') = rest
     \<and> c_out c' = c_out c @ concat (map (chunk_reply transId readerId (length (f_data fd))) cs)
     \<and> concat cs = f_data fd \<and> list_all (\<lambda>x. 0 < length x \<and> length x \<le> 32768) cs"
proof -
  have r: "file_request_ok rounds E (File_download transId name build)"
    using assms(2-6) by (simp add: file_ok_def CHUNK_SIZE_def)
  have fuel: "CHUNK_SIZE \<le> fuel" using assms(7) by (simp add: CHUNK_SIZE_def)
  have reply: "download_reply E readerId transId (c_name (fe_lib E) name) =
      (concat (map (chunk_reply transId readerId (length (f_data fd))) (chunks (f_data fd))), readerId + 1)"
    using assms(1,4,5) by (simp add: download_reply_def)
  have "arrived (c_in c) = (write_u32 transId @ name @ write_u32 build) @ rest" using assms(10) by simp
  from handlesD [OF handles_downloadStart [OF r fuel, of readerId] assms(8,9) this, unfolded reply fst_conv snd_conv]
  obtain c' where "cb_downloadStart fuel rounds E readerId c = (Inr (readerId + 1), c')" "arrived (c_in c') = rest"
      "c_out c' = c_out c @ concat (map (chunk_reply transId readerId (length (f_data fd))) (chunks (f_data fd)))" .
  moreover have "list_all (\<lambda>x. 0 < length x \<and> length x \<le> 32768) (chunks (f_data fd))"
    using chunks_size by (fastforce simp: list_all_iff)
  ultimately show ?thesis using concat_chunks by blast
qed

section \<open>A sample server\<close>

lemma occurs_Nil: "occurs sub [] \<longleftrightarrow> sub = []"
  by (simp add: occurs_def)

lemma occurs_Cons: "occurs sub (x # xs) \<longleftrightarrow> take (length sub) (x # xs) = sub \<or> occurs sub xs"
proof
  assume "occurs sub (x # xs)"
  then obtain a b where ab: "x # xs = a @ sub @ b" unfolding occurs_def by blast
  show "take (length sub) (x # xs) = sub \<or> occurs sub xs"
    using ab by (cases a) (auto simp: occurs_def)
next
  assume "take (length sub) (x # xs) = sub \<or> occurs sub xs"
  then show "occurs sub (x # xs)"
  proof
    assume t: "take (length sub) (x # xs) = sub"
    have "x # xs = [] @ sub @ drop (length sub) (x # xs)" using append_take_drop_id [of "length sub" "x # xs"] t by simp
    then show ?thesis unfolding occurs_def by blast
  next
    assume "occurs sub xs"
    then show ?thesis unfolding occurs_def by (metis append_Cons)
  qed
qed

lemma ascii_find_ge: "ascii_find sub s \<ge> -1"
  by (induction sub s rule: ascii_find.induct) (auto simp: Let_def)

lemma ascii_find_iff: "ascii_find sub s = -1 \<longleftrightarrow> \<not> occurs sub s"
proof (induction sub s rule: ascii_find.induct)
  case (2 s x xs)
  then show ?case using ascii_find_ge [of s xs] by (auto simp: occurs_Cons Let_def simp del: take_Suc_Cons)
qed (simp add: occurs_Nil)

lemma ascii_strings_documented: "find_documented ascii_strings"
proof -
  have "concat (map (\<lambda>x. if x = c then [d] else [x]) s) = map (\<lambda>x. if x = c then d else x) s" for c d :: byte and s
    by (induction s) simp_all
  then show ?thesis by (simp add: find_documented_def ascii_strings_def ascii_find_iff)
qed

definition sample_files :: file_env where
  "sample_files =
     \<lparr>fe_lib = ascii_lib, fe_strings = ascii_strings, fe_settings = \<lparr>fs_FileRoot = [47], fs_BuildId = 918\<rparr>,
      fe_disk = (\<lambda>f. if f = [47, 97] then Some \<lparr>f_stat_size = Some 3, f_data = [1, 2, 3]\<rparr> else None)\<rparr>"

definition sample_name :: bytes where
  "sample_name = [97, 0] @ replicate 518 0"

definition file_client :: "arrival list \<Rightarrow> unit conn" where
  "file_client arrivals = \<lparr>c_in = arrivals, c_accept = [Takes 2], c_out = [], c_crypt = None\<rparr>"

definition file_requests :: "file_request list" where
  "file_requests = [File_ping 7, File_build 1, File_download 9 sample_name 918]"

lemma sample_name_c: "c_name ascii_lib sample_name = [97]" "length sample_name = 520"
  by code_simp+

lemma sample_path: "download_path sample_files [97] = [47, 97]" "st_find ascii_strings [46, 46] [97] = -1"
  by code_simp+

theorem only_jailed_files_witness:
  "wk_fileServ 4 40000 1 sample_files (file_client [Arrived (concat (map file_image file_requests))]) =
   wk_fileServ 4 40000 1
     (sample_files\<lparr>fe_disk := (fe_disk sample_files)([101] \<mapsto> \<lparr>f_stat_size = Some 0, f_data = []\<rparr>)\<rparr>)
     (file_client [Arrived (concat (map file_image file_requests))])"
proof (rule only_jailed_files)
  show "find_documented (fe_strings sample_files)" by (simp add: sample_files_def ascii_strings_documented)
  show "fe_disk sample_files path = ((fe_disk sample_files)([101] \<mapsto> \<lparr>f_stat_size = Some 0, f_data = []\<rparr>)) path"
    if "in_jail sample_files path" for path
    using that by (auto simp: in_jail_def sample_files_def)
qed

lemma sample_requests_ok: "list_all (file_request_ok 1 sample_files) file_requests"
proof -
  have "fe_lib sample_files = ascii_lib" "\<not> wrong_build sample_files 918"
    "fe_disk sample_files [47, 97] = Some \<lparr>f_stat_size = Some 3, f_data = [1, 2, 3]\<rparr>"
    by (simp_all add: sample_files_def wrong_build_def)
  then show ?thesis by (simp add: file_requests_def sample_name_c sample_path file_ok_def CHUNK_SIZE_def)
qed

theorem file_session_witness:
  "\<exists>c'. wk_fileServ 4 40000 1 sample_files (file_client
       [Arrived (write_u32 12 @ write_u32 918), Interrupted, Arrived (write_u32 0 @ concat (map file_image file_requests))]) = (Inr (), c')
     \<and> c_out c' = file_replies sample_files 0 file_requests"
proof -
  let ?in = "[Arrived (write_u32 12 @ write_u32 918), Interrupted, Arrived (write_u32 0 @ concat (map file_image file_requests))]"
  have "write_u32 w \<noteq> []" for w by (simp flip: length_greater_0_conv)
  then have "calm_line (c_in (file_client ?in))" by (simp add: file_client_def)
  then show ?thesis
    using file_session [of "file_client ?in" 1 sample_files file_requests 4 40000 918 0] sample_requests_ok
    by (simp add: file_client_def CHUNK_SIZE_def) (simp add: file_requests_def)
qed

theorem download_delivers_witness:
  "\<exists>c' cs. cb_downloadStart 40000 1 sample_files 5
        (file_client [Arrived (write_u32 9 @ sample_name), Interrupted, Arrived (write_u32 918)]) = (Inr 6, c')
     \<and> c_out c' = concat (map (chunk_reply 9 5 (length [1, 2, 3 :: byte])) cs) \<and> concat cs = [1, 2, 3]"
proof -
  let ?c = "file_client [Arrived (write_u32 9 @ sample_name), Interrupted, Arrived (write_u32 918)]"
  let ?f = "\<lparr>f_stat_size = Some 3, f_data = [1, 2, 3 :: byte]\<rparr>"
  have w: "write_u32 w \<noteq> []" for w by (simp flip: length_greater_0_conv)
  have e: "fe_lib sample_files = ascii_lib" "fe_strings sample_files = ascii_strings" "\<not> wrong_build sample_files 918"
    "fe_disk sample_files [47, 97] = Some ?f"
    by (simp_all add: sample_files_def wrong_build_def)
  have "\<exists>c' cs. cb_downloadStart 40000 1 sample_files 5 ?c = (Inr (5 + 1), c') \<and> arrived (c_in c') = []
     \<and> c_out c' = c_out ?c @ concat (map (chunk_reply 9 5 (length (f_data ?f))) cs)
     \<and> concat cs = f_data ?f \<and> list_all (\<lambda>x. 0 < length x \<and> length x \<le> 32768) cs"
    by (rule download_delivers [of _ sample_name 918]) (simp_all add: e sample_name_c sample_path file_client_def w)
  then show ?thesis by (auto simp: file_client_def)
qed

end
