(* ===== verification/Auth_Server.thy ===== *)
theory Auth_Server
  imports Auth_Players File_Server Encrypted_Stream
begin

unbundle bit_operations_syntax

text \<open>
  The worker of the authentication server, \<open>AuthServ/AuthServer.cpp\<close>: the thread that serves the connection of one
  client. It reads a request from the socket, hands an object to the daemon, waits for the result and sends the
  reply; what the daemon puts on its broadcast channel it sends as it is. While it waits the daemon runs. \<open>m_buffer\<close> is
  truncated at the start of every reply, so it is a value of the handler.
\<close>

section \<open>State\<close>

text \<open>The world of the daemon, the connection, and the address of the next object that is put on the stack.\<close>

record ('d, 'k) auth_worker =
  aww_world :: "'d auth_world"
  aww_conn :: "'k conn"
  aww_fresh :: nat

type_synonym ('d, 'k, 'a) wkact = "(('d, 'k) auth_worker, 'a) act"

text \<open>
  The settings and the rest of what comes from outside: the files, the entries of a directory in the order of
  \<open>alphasort\<close> (\<open>None\<close>: it cannot be read), \<open>RAND_bytes\<close>, and operations of \<open>string_theory\<close>.
\<close>

record 'k auth_site =
  as_keys :: "'k server_keys"
  as_BuildId :: u32
  as_DroidKey :: "u32 list"
  as_AuthRoot :: st_string
  as_SdlPath :: st_string
  as_disk :: file_system
  as_directory :: "st_string \<Rightarrow> bytes list option"
  as_random :: "nat \<Rightarrow> u32"
  as_after_last :: "byte \<Rightarrow> st_string \<Rightarrow> st_string"
  as_find_last :: "byte \<Rightarrow> st_string \<Rightarrow> int"
  as_left :: "int \<Rightarrow> st_string \<Rightarrow> st_string"
  as_substr :: "int \<Rightarrow> st_string \<Rightarrow> st_string"

abbreviation as_ssl :: "'k auth_site \<Rightarrow> 'k ssl" where
  "as_ssl V \<equiv> sk_ssl (as_keys V)"

definition on_auth :: "('d, 'a) aact \<Rightarrow> ('d, 'k, 'a) wkact" where
  "on_auth a s = (case a (aww_world s) of (r, w) \<Rightarrow> (r, s\<lparr>aww_world := w\<rparr>))"

text \<open>The daemon closes the sockets of the clients when it shuts down.\<close>

definition on_sock :: "nat \<Rightarrow> ('k conn, 'a) act \<Rightarrow> ('d, 'k, 'a) wkact" where
  "on_sock c a s =
     (case a (if ac_closed (aw_client (aww_world s) c) then snd (CloseSock (aww_conn s)) else aww_conn s) of
        (r, conn) \<Rightarrow> (r, s\<lparr>aww_conn := conn\<rparr>))"

section \<open>Requests to the daemon\<close>

definition put_auth :: "nat \<Rightarrow> nat option \<Rightarrow> auth_request \<Rightarrow> ('d, unit) aact" where
  "put_auth p client body =
     amod (\<lambda>w. w\<lparr>aw_msg := (aw_msg w)(p := \<lparr>am_client = client, am_body = body\<rparr>), aw_channel := aw_channel w @ [p]\<rparr>)"

text \<open>
  \<open>getMessage\<close> on the channel of the client: the daemon takes its messages in turn until there is a result. When all
  of them were taken, or the daemon has left its loop, nobody sends one any more.
\<close>

fun auth_await :: "nat \<Rightarrow> 'd auth_env \<Rightarrow> nat \<Rightarrow> ('d, u32) aact" where
  "auth_await n E c =
     abind (the_client c) (\<lambda>k.
     case ac_channel k of
       result # rest \<Rightarrow> athen (set_client c (\<lambda>k. k\<lparr>ac_channel := rest\<rparr>)) (aret result)
     | [] \<Rightarrow>
         (case n of
            0 \<Rightarrow> afail Blocked
          | Suc n \<Rightarrow> abind (daemon_step E) (\<lambda>goes_on. if goes_on then auth_await n E c else afail Blocked)))"

declare auth_await.simps [simp del]

text \<open>
  A request: the object at \<open>p\<close> is on the stack of the caller, and gone when the caller has its result. A daemon that still
  has the address would then read an object that does not exist, as one without a client.
\<close>

definition destroy :: "nat \<Rightarrow> ('d, unit) aact" where
  "destroy p = amod (\<lambda>w. w\<lparr>aw_msg := (aw_msg w)(p := \<lparr>am_client = None, am_body = e_AuthSetPlayer\<rparr>)\<rparr>)"

definition auth_ask :: "'d auth_env \<Rightarrow> nat \<Rightarrow> nat \<Rightarrow> auth_request \<Rightarrow> ('d, u32 \<times> auth_request) aact" where
  "auth_ask E p c body =
     athen (put_auth p (Some c) body)
     (abind (aget (length \<circ> aw_channel)) (\<lambda>n.
      abind (auth_await n E c) (\<lambda>result.
      abind (aget (\<lambda>w. am_body (aw_msg w p))) (\<lambda>body'.
      athen (destroy p) (aret (result, body'))))))"

definition worker_ask :: "'d auth_env \<Rightarrow> nat \<Rightarrow> auth_request \<Rightarrow> ('d, 'k, u32 \<times> auth_request) wkact" where
  "worker_ask E c body =
     abind (aget aww_fresh) (\<lambda>p.
     athen (amod (\<lambda>s. s\<lparr>aww_fresh := Suc p\<rparr>)) (on_auth (auth_ask E p c body)))"

section \<open>Connection\<close>

text \<open>\<open>SEND_REPLY\<close>.\<close>

definition auth_send :: "'k auth_site \<Rightarrow> nat \<Rightarrow> bytes \<Rightarrow> ('d, 'k, unit) wkact" where
  "auth_send V c buffer = on_sock c (CryptSendBuffer (as_ssl V) buffer)"

abbreviation recv_u32 :: "'k ssl \<Rightarrow> ('k conn, u32) act" where
  "recv_u32 S \<equiv> CryptRecvValue S 4"

definition recv_uuid :: "'k ssl \<Rightarrow> ('k conn, Uuid) act" where
  "recv_uuid S = abind (CryptRecvBuffer S 16) (\<lambda>b. alift (map_sum id fst (Uuid_read Uuid_null b)))"

text \<open>
  The message with the capabilities of the shard (built without \<open>DS_OU_COMPATIBLE\<close>): its size is written over a 0 at the
  end; 0 is \<open>e_CapsScoreLeaderBoards\<close>.
\<close>

definition server_caps :: bytes where
  "server_caps =
     (let head = write_u16 0x1002; bufSzPos = length head;
          buffer = head @ write_u32 0 @ BitVector_write (BitVector_set BitVector_new 0 True)
      in patch_u32 bufSzPos (of_nat (length buffer - bufSzPos - 4)) buffer)"

definition auth_init :: "'k server_keys \<Rightarrow> ('k conn, unit) act" where
  "auth_init V =
     abind (RecvValue 4) (\<lambda>sz :: u32.
     if sz \<noteq> 20 then afail (Thrown InvalidConnectionHeader)
     else abind (RecvBuffer 16) (\<lambda>uuid.
          abind (establish V) (\<lambda>reply.
          athen (SendBuffer (write_u8 1 @ reply)) (CryptSendBuffer (sk_ssl V) server_caps))))"

definition auth_ping :: "'k auth_site \<Rightarrow> nat \<Rightarrow> ('d, 'k, unit) wkact" where
  "auth_ping V c =
     (let S = as_ssl V in
      abind (on_sock c
        (abind (recv_u32 S) (\<lambda>pingTime. abind (recv_u32 S) (\<lambda>transId. abind (CryptRecvSize S MAX_PAYLOAD_SIZE) (\<lambda>sz.
         abind (if sz \<noteq> 0 then CryptRecvBuffer S (unat sz) else aret []) (\<lambda>payload.
         aret (write_u32 pingTime @ write_u32 transId @ write_u32 sz @ payload)))))))
        (\<lambda>contents. auth_send V c (write_u16 0 @ contents)))"

definition cb_register :: "'k auth_site \<Rightarrow> nat \<Rightarrow> ('d, 'k, unit) wkact" where
  "cb_register V c =
     abind (on_sock c (recv_u32 (as_ssl V))) (\<lambda>buildId.
     if buildId \<noteq> 0 \<and> buildId \<noteq> as_BuildId V then on_sock c CloseSock
     else
       abind (on_auth (aget aw_calls)) (\<lambda>n.
       athen (on_auth (amod (\<lambda>w. w\<lparr>aw_calls := Suc n\<rparr>)))
       (athen (on_auth (set_client c (\<lambda>k. k\<lparr>ac_serverChallenge := as_random V n\<rparr>)))
              (auth_send V c (write_u16 3 @ write_u32 (as_random V n))))))"

section \<open>Accounts and players\<close>

definition login_receive :: "'k ssl \<Rightarrow> ext_lib \<Rightarrow> ('k conn, u32 \<times> Auth_LoginInfo) act" where
  "login_receive S L =
     abind (recv_u32 S) (\<lambda>transId. abind (recv_u32 S) (\<lambda>clientChallenge.
     abind (CryptRecvString S L) (\<lambda>acctName. abind (CryptRecvBuffer S 20) (\<lambda>passHash.
     abind (CryptRecvString S L) (\<lambda>token. abind (CryptRecvString S L) (\<lambda>os.
     aret (transId, \<lparr>li_clientChallenge = clientChallenge, li_acctName = acctName, li_passHash = u32s passHash,
       li_token = token, li_os = os, li_billingType = junk_u32 L 0, li_players = []\<rparr>)))))))"

definition login_reply :: "u32 \<Rightarrow> u32 \<Rightarrow> Uuid \<Rightarrow> u32 \<Rightarrow> u32 \<Rightarrow> u32 list \<Rightarrow> bytes" where
  "login_reply transId result acctUuid acctFlags billingType key =
     write_u16 4 @ write_u32 transId @ write_u32 result @ Uuid_write acctUuid @ write_u32 acctFlags
     @ write_u32 billingType @ u32s_bytes key"

definition player_info :: "ext_lib \<Rightarrow> u32 \<Rightarrow> AuthServer_PlayerInfo \<Rightarrow> bytes" where
  "player_info L transId player =
     write_u16 6 @ write_u32 transId @ write_u32 (pi_playerId player)
     @ Stream_writePString L 2 (pi_playerName player) e_StringUTF16
     @ Stream_writePString L 2 (pi_avatarModel player) e_StringUTF16 @ write_u32 (pi_explorer player)"

definition cb_login :: "'d auth_env \<Rightarrow> 'k auth_site \<Rightarrow> nat \<Rightarrow> ('d, 'k, unit) wkact" where
  "cb_login E V c =
     abind (on_sock c (login_receive (as_ssl V) (ae_lib E))) (\<lambda>(transId, info).
     abind (worker_ask E c (e_AuthClientLogin info)) (\<lambda>(result, body).
     abind (on_auth (the_client c)) (\<lambda>client.
     if result \<noteq> e_NetSuccess then
       auth_send V c (login_reply transId result (ac_acctUuid client) 0 0 [0, 0, 0, 0])
     else
       let msg = (case body of e_AuthClientLogin msg \<Rightarrow> msg | _ \<Rightarrow> info) in
       athen (aseq (map (\<lambda>player. auth_send V c (player_info (ae_lib E) transId player)) (li_players msg)))
         (auth_send V c (login_reply transId e_NetSuccess (ac_acctUuid client) (ac_acctFlags client)
            (li_billingType msg) (as_DroidKey V))))))"

definition cb_setPlayer :: "'d auth_env \<Rightarrow> 'k auth_site \<Rightarrow> nat \<Rightarrow> ('d, 'k, unit) wkact" where
  "cb_setPlayer E V c =
     abind (on_sock c (abind (recv_u32 (as_ssl V)) (\<lambda>transId. abind (recv_u32 (as_ssl V)) (\<lambda>player. aret (transId, player)))))
     (\<lambda>(transId, player).
     athen (on_auth (set_client c (\<lambda>k. k\<lparr>ac_player := (ac_player k)\<lparr>pi_playerId := player\<rparr>\<rparr>)))
     (if player = 0 then auth_send V c (write_u16 7 @ write_u32 transId @ write_u32 e_NetSuccess)
      else abind (worker_ask E c e_AuthSetPlayer) (\<lambda>(result, _).
           auth_send V c (write_u16 7 @ write_u32 transId @ write_u32 result))))"

definition cb_playerCreate :: "'d auth_env \<Rightarrow> 'k auth_site \<Rightarrow> nat \<Rightarrow> ('d, 'k, unit) wkact" where
  "cb_playerCreate E V c =
     (let S = as_ssl V; L = ae_lib E in
      abind (on_sock c
        (abind (recv_u32 S) (\<lambda>transId. abind (CryptRecvString S L) (\<lambda>name. abind (CryptRecvString S L) (\<lambda>model.
         abind (CryptRecvString S L) (\<lambda>_. aret (transId, PlayerInfo_new\<lparr>pi_playerName := name, pi_avatarModel := model\<rparr>)))))))
      (\<lambda>(transId, player).
      abind (worker_ask E c (e_AuthCreatePlayer player)) (\<lambda>(result, body).
      let player = (case body of e_AuthCreatePlayer player \<Rightarrow> player | _ \<Rightarrow> player) in
      auth_send V c (write_u16 16 @ write_u32 transId @ write_u32 result
        @ (if result \<noteq> e_NetSuccess then write_u32 0 @ write_u32 0 @ write_u16 0 @ write_u16 0
           else write_u32 (pi_playerId player) @ write_u32 1
             @ Stream_writePString L 2 (pi_playerName player) e_StringUTF16
             @ Stream_writePString L 2 (pi_avatarModel player) e_StringUTF16)))))"

text \<open>A request whose reply is only the result: what is received, the message and the number of the reply.\<close>

definition plain_request :: "'d auth_env \<Rightarrow> 'k auth_site \<Rightarrow> nat \<Rightarrow> u16 \<Rightarrow> ('k conn, auth_request) act \<Rightarrow> ('d, 'k, unit) wkact" where
  "plain_request E V c msgId receive =
     abind (on_sock c (abind (recv_u32 (as_ssl V)) (\<lambda>transId. abind receive (\<lambda>body. aret (transId, body)))))
     (\<lambda>(transId, body).
     abind (worker_ask E c body) (\<lambda>(result, _).
     auth_send V c (write_u16 msgId @ write_u32 transId @ write_u32 result)))"

definition cb_playerDelete :: "'d auth_env \<Rightarrow> 'k auth_site \<Rightarrow> nat \<Rightarrow> ('d, 'k, unit) wkact" where
  "cb_playerDelete E V c =
     plain_request E V c 17 (abind (recv_u32 (as_ssl V)) (\<lambda>player. aret (e_AuthDeletePlayer player)))"

definition age_receive :: "'k ssl \<Rightarrow> ext_lib \<Rightarrow> ('k conn, AuthServer_AgeInfo) act" where
  "age_receive S L =
     abind (recv_uuid S) (\<lambda>ageId. abind (recv_uuid S) (\<lambda>parentId.
     abind (CryptRecvString S L) (\<lambda>filename. abind (CryptRecvString S L) (\<lambda>instName.
     abind (CryptRecvString S L) (\<lambda>userName. abind (CryptRecvString S L) (\<lambda>description.
     abind (recv_u32 S) (\<lambda>seqNumber. abind (recv_u32 S) (\<lambda>language.
     aret \<lparr>ag_ageId = ageId, ag_parentId = parentId, ag_filename = filename, ag_instName = instName,
       ag_userName = userName, ag_description = description, ag_seqNumber = seqNumber, ag_language = language\<rparr>))))))))"

definition cb_ageCreate :: "'d auth_env \<Rightarrow> 'k auth_site \<Rightarrow> nat \<Rightarrow> ('d, 'k, unit) wkact" where
  "cb_ageCreate E V c =
     (let S = as_ssl V; L = ae_lib E in
      abind (on_sock c (abind (recv_u32 S) (\<lambda>transId. abind (age_receive S L) (\<lambda>age.
         aret (transId, \<lparr>cr_age = age, cr_ageIdx = junk_u32 L 0, cr_infoIdx = junk_u32 L 1\<rparr>)))))
      (\<lambda>(transId, info).
      abind (worker_ask E c (e_VaultInitAge info)) (\<lambda>(result, body).
      let msg = (case body of e_VaultInitAge msg \<Rightarrow> msg | _ \<Rightarrow> info) in
      auth_send V c (write_u16 30 @ write_u32 transId @ write_u32 result
        @ (if result \<noteq> e_NetSuccess then write_u32 0 @ write_u32 0
           else write_u32 (cr_ageIdx msg) @ write_u32 (cr_infoIdx msg))))))"

section \<open>Nodes\<close>

definition NODE_SIZE_MAX :: u32 where
  "NODE_SIZE_MAX = 4 * 1024 * 1024"

text \<open>Octets at the end of the node stream are ignored. A new \<open>Auth_NodeInfo\<close> has an \<open>m_internal\<close> that is not initialised.\<close>

definition node_receive :: "'k ssl \<Rightarrow> ext_lib \<Rightarrow> ('k conn, Node) act" where
  "node_receive S L =
     abind (CryptRecvSize S NODE_SIZE_MAX) (\<lambda>nodeSize.
     abind (CryptRecvBuffer S (unat nodeSize)) (\<lambda>nodeData.
     alift (map_sum id fst (Node_read L (fresh_node L) nodeData))))"

definition NodeInfo_new :: "ext_lib \<Rightarrow> Auth_NodeInfo" where
  "NodeInfo_new L = \<lparr>ni_node = fresh_node L, ni_revision = Uuid_null, ni_internal = (uninit L 0 \<noteq> 0)\<rparr>"

definition node_of :: "Auth_NodeInfo \<Rightarrow> auth_request \<Rightarrow> Node" where
  "node_of info body =
     ni_node (case body of e_VaultCreateNode msg \<Rightarrow> msg | e_VaultFetchNode msg \<Rightarrow> msg | _ \<Rightarrow> info)"

definition cb_nodeCreate :: "'d auth_env \<Rightarrow> 'k auth_site \<Rightarrow> nat \<Rightarrow> ('d, 'k, unit) wkact" where
  "cb_nodeCreate E V c =
     (let S = as_ssl V; L = ae_lib E in
      abind (on_sock c (abind (recv_u32 S) (\<lambda>transId. abind (node_receive S L) (\<lambda>node.
         aret (transId, (NodeInfo_new L)\<lparr>ni_node := node\<rparr>)))))
      (\<lambda>(transId, info).
      abind (worker_ask E c (e_VaultCreateNode info)) (\<lambda>(result, body).
      auth_send V c (write_u16 23 @ write_u32 transId @ write_u32 result
        @ (if result \<noteq> e_NetSuccess then write_u32 0 else write_u32 (vn_NodeIdx (node_of info body)))))))"

definition cb_nodeFetch :: "'d auth_env \<Rightarrow> 'k auth_site \<Rightarrow> nat \<Rightarrow> ('d, 'k, unit) wkact" where
  "cb_nodeFetch E V c =
     (let S = as_ssl V; L = ae_lib E in
      abind (on_sock c (abind (recv_u32 S) (\<lambda>transId. abind (recv_u32 S) (\<lambda>nodeIdx.
         aret (transId, (NodeInfo_new L)\<lparr>ni_node := set_NodeIdx nodeIdx (fresh_node L)\<rparr>)))))
      (\<lambda>(transId, info).
      abind (worker_ask E c (e_VaultFetchNode info)) (\<lambda>(result, body).
      let head = write_u16 24 @ write_u32 transId @ write_u32 result in
      if result \<noteq> e_NetSuccess then auth_send V c (head @ write_u32 0)
      else
        let sizePos = length head; buffer = head @ write_u32 0 @ Node_write L (node_of info body); endPos = length buffer
        in auth_send V c (patch_u32 sizePos (of_nat endPos - of_nat sizePos - 4) buffer))))"

definition cb_nodeUpdate :: "'d auth_env \<Rightarrow> 'k auth_site \<Rightarrow> nat \<Rightarrow> ('d, 'k, unit) wkact" where
  "cb_nodeUpdate E V c =
     (let S = as_ssl V; L = ae_lib E in
      plain_request E V c 32
        (abind (recv_u32 S) (\<lambda>nodeId. abind (recv_uuid S) (\<lambda>revision. abind (node_receive S L) (\<lambda>node.
         aret (e_VaultUpdateNode \<lparr>ni_node = node\<lparr>vn_NodeIdx := nodeId\<rparr>, ni_revision = revision, ni_internal = False\<rparr>))))))"

definition cb_nodeRef :: "'d auth_env \<Rightarrow> 'k auth_site \<Rightarrow> nat \<Rightarrow> ('d, 'k, unit) wkact" where
  "cb_nodeRef E V c =
     (let S = as_ssl V in
      plain_request E V c 33
        (abind (recv_u32 S) (\<lambda>parent. abind (recv_u32 S) (\<lambda>child. abind (recv_u32 S) (\<lambda>owner.
         aret (e_VaultRefNode \<lparr>nr_parent = parent, nr_child = child, nr_owner = owner\<rparr>))))))"

text \<open>The reply has the number of \<open>e_AuthToCli_VaultAddNodeReply\<close>, and the owner is not initialised.\<close>

definition cb_nodeUnref :: "'d auth_env \<Rightarrow> 'k auth_site \<Rightarrow> nat \<Rightarrow> ('d, 'k, unit) wkact" where
  "cb_nodeUnref E V c =
     (let S = as_ssl V in
      plain_request E V c 33
        (abind (recv_u32 S) (\<lambda>parent. abind (recv_u32 S) (\<lambda>child.
         aret (e_VaultUnrefNode \<lparr>nr_parent = parent, nr_child = child, nr_owner = junk_u32 (ae_lib E) 0\<rparr>)))))"

definition ref_bytes :: "NodeRef \<Rightarrow> bytes" where
  "ref_bytes ref = write_u32 (nr_parent ref) @ write_u32 (nr_child ref) @ write_u32 (nr_owner ref) @ write_u8 0"

definition cb_nodeTree :: "'d auth_env \<Rightarrow> 'k auth_site \<Rightarrow> nat \<Rightarrow> ('d, 'k, unit) wkact" where
  "cb_nodeTree E V c =
     (let S = as_ssl V in
      abind (on_sock c (abind (recv_u32 S) (\<lambda>transId. abind (recv_u32 S) (\<lambda>nodeId. aret (transId, nodeId)))))
      (\<lambda>(transId, nodeId).
      abind (worker_ask E c (e_VaultFetchNodeTree \<lparr>rl_nodeId = nodeId, rl_refs = []\<rparr>)) (\<lambda>(result, body).
      let refs = (case body of e_VaultFetchNodeTree msg \<Rightarrow> rl_refs msg | _ \<Rightarrow> []) in
      auth_send V c (write_u16 29 @ write_u32 transId @ write_u32 result
        @ (if result \<noteq> e_NetSuccess then write_u32 0
           else write_u32 (of_nat (length refs)) @ concat (map ref_bytes refs))))))"

definition cb_nodeFind :: "'d auth_env \<Rightarrow> 'k auth_site \<Rightarrow> nat \<Rightarrow> ('d, 'k, unit) wkact" where
  "cb_nodeFind E V c =
     (let S = as_ssl V; L = ae_lib E in
      abind (on_sock c (abind (recv_u32 S) (\<lambda>transId. abind (node_receive S L) (\<lambda>node. aret (transId, node)))))
      (\<lambda>(transId, node).
      abind (worker_ask E c (e_VaultFindNode \<lparr>fl_template = node, fl_nodes = []\<rparr>)) (\<lambda>(result, body).
      let nodes = (case body of e_VaultFindNode msg \<Rightarrow> fl_nodes msg | _ \<Rightarrow> []) in
      auth_send V c (write_u16 31 @ write_u32 transId @ write_u32 result
        @ (if result \<noteq> e_NetSuccess then write_u32 0
           else write_u32 (of_nat (length nodes)) @ concat (map write_u32 nodes))))))"

definition cb_nodeSend :: "'d auth_env \<Rightarrow> 'k auth_site \<Rightarrow> nat \<Rightarrow> ('d, 'k, unit) wkact" where
  "cb_nodeSend E V c =
     (let S = as_ssl V in
      abind (on_auth (the_client c)) (\<lambda>client.
      abind (on_sock c (abind (recv_u32 S) (\<lambda>nodeIdx. abind (recv_u32 S) (\<lambda>player. aret (nodeIdx, player)))))
      (\<lambda>(nodeIdx, player).
      abind (worker_ask E c (e_VaultSendNode
        \<lparr>nd_nodeIdx = nodeIdx, nd_playerIdx = player, nd_senderIdx = pi_playerId (ac_player client)\<rparr>)) (\<lambda>_. aret ()))))"

section \<open>Ages\<close>

definition cb_ageRequest :: "'d auth_env \<Rightarrow> 'k auth_site \<Rightarrow> nat \<Rightarrow> bool \<Rightarrow> ('d, 'k, unit) wkact" where
  "cb_ageRequest E V c ext' =
     (let S = as_ssl V; L = ae_lib E in
      abind (on_sock c (abind (recv_u32 S) (\<lambda>transId. abind (CryptRecvString S L) (\<lambda>name. abind (recv_uuid S) (\<lambda>instanceId.
         aret (transId, \<lparr>gg_name = name, gg_instanceId = instanceId, gg_mcpId = junk_u32 L 0, gg_ageNodeIdx = junk_u32 L 1,
           gg_serverAddress = junk_u32 L 2\<rparr>))))))
      (\<lambda>(transId, info).
      abind (worker_ask E c (e_AuthFindGameServer info)) (\<lambda>(result, body).
      let msg = (case body of e_AuthFindGameServer msg \<Rightarrow> msg | _ \<Rightarrow> info) in
      auth_send V c (write_u16 (if ext' then 0x1000 else 35) @ write_u32 transId @ write_u32 result
        @ (if result \<noteq> e_NetSuccess then
             write_u32 0 @ Uuid_write Uuid_null @ write_u32 0 @ (if ext' then write_u16 0 else write_u32 0)
           else
             write_u32 (gg_mcpId msg) @ Uuid_write (gg_instanceId msg) @ write_u32 (gg_ageNodeIdx msg)
             @ (if ext' then Stream_writePString L 2 (ae_gameServerAddress E) e_StringUTF16
                else write_u32 (gg_serverAddress msg)))))))"

text \<open>
  A string in an array of fixed size within the record of a public age: what follows the terminator is what
  \<open>strbuffer\<close>, which is not initialised, held before.
\<close>

definition put_units :: "ext_lib \<Rightarrow> nat \<Rightarrow> st_string \<Rightarrow> u16 list \<Rightarrow> u16 list" where
  "put_units L n s strbuffer =
     (let buf = to_utf16 L s; copylen = (if length buf < n then length buf else n - 1)
      in take copylen buf @ [0] @ drop (copylen + 1) strbuffer)"

definition public_age :: "ext_lib \<Rightarrow> st_string \<Rightarrow> NetAgeInfo \<Rightarrow> bytes" where
  "public_age L agename age =
     (let b0 = u16s (map (uninit L) [0..<4096]);
          b1 = put_units L 64 agename b0;
          b2 = put_units L 64 (na_instancename age) b1;
          b3 = put_units L 64 (na_username age) b2;
          b4 = put_units L 1024 (na_description age) b3
      in Uuid_write (na_instance age) @ u16s_bytes (take 64 b1) @ u16s_bytes (take 64 b2) @ u16s_bytes (take 64 b3)
         @ u16s_bytes (take 1024 b4) @ write_u32 (na_sequence age) @ write_u32 (na_language age)
         @ write_u32 (na_population age) @ write_u32 (na_curPopulation age))"

definition cb_getPublicAges :: "'d auth_env \<Rightarrow> 'k auth_site \<Rightarrow> nat \<Rightarrow> ('d, 'k, unit) wkact" where
  "cb_getPublicAges E V c =
     (let S = as_ssl V; L = ae_lib E in
      abind (on_sock c (abind (recv_u32 S) (\<lambda>transId. abind (CryptRecvString S L) (\<lambda>agename. aret (transId, agename)))))
      (\<lambda>(transId, agename).
      abind (worker_ask E c (e_AuthGetPublic \<lparr>pa_agename = agename, pa_ages = []\<rparr>)) (\<lambda>(result, body).
      let msg = (case body of e_AuthGetPublic msg \<Rightarrow> msg | _ \<Rightarrow> \<lparr>pa_agename = agename, pa_ages = []\<rparr>) in
      auth_send V c (write_u16 40 @ write_u32 transId @ write_u32 result
        @ (if result \<noteq> e_NetSuccess then write_u32 0
           else write_u32 (of_nat (length (pa_ages msg))) @ concat (map (public_age L (pa_agename msg)) (pa_ages msg)))))))"

definition cb_setAgePublic :: "'d auth_env \<Rightarrow> 'k auth_site \<Rightarrow> nat \<Rightarrow> ('d, 'k, unit) wkact" where
  "cb_setAgePublic E V c =
     (let S = as_ssl V in
      abind (on_sock c (abind (recv_u32 S) (\<lambda>node. abind (CryptRecvValue S 1) (\<lambda>public :: byte. aret (node, public)))))
      (\<lambda>(node, public). abind (worker_ask E c (e_AuthSetPublic node public)) (\<lambda>_. aret ())))"

section \<open>Files\<close>

text \<open>
  \<open>sel_sdl\<close>: \<open>strrchr\<close> gives a null pointer for a name without a dot. \<open>ForDescriptorFiles\<close> calls a function on the path
  of each file of a directory that ends in \<open>.sdl\<close>, until it returns false; the assertion comes before the cases
  for which there is an error message.
\<close>

definition sel_sdl :: "bytes \<Rightarrow> ds_error + bool" where
  "sel_sdl d_name =
     (if 46 \<notin> set d_name then Inl UndefinedBehaviour
      else Inr (46 # rev (takeWhile (\<lambda>ch. ch \<noteq> 46) (rev d_name)) = ascii ''.sdl''))"

fun select_sdl :: "bytes list \<Rightarrow> ds_error + bytes list" where
  "select_sdl [] = Inr []"
| "select_sdl (d_name # entries) =
     (case sel_sdl d_name of
        Inl e \<Rightarrow> Inl e
      | Inr chosen \<Rightarrow> map_sum id (\<lambda>names. if chosen then d_name # names else names) (select_sdl entries))"

fun for_files :: "st_lib \<Rightarrow> st_string \<Rightarrow> (st_string \<Rightarrow> 'a \<Rightarrow> ds_error + bool \<times> 'a) \<Rightarrow> bytes list \<Rightarrow> 'a \<Rightarrow> ds_error + bool \<times> 'a" where
  "for_files T sdlpath functor [] x = Inr (True, x)"
| "for_files T sdlpath functor (d_name # names) x =
     (case st_string_of T (sdlpath @ [47] @ d_name) of
        None \<Rightarrow> Inl UnicodeError
      | Some path \<Rightarrow>
          (case functor path x of
             Inl e \<Rightarrow> Inl e
           | Inr (goes_on, x') \<Rightarrow> if goes_on then for_files T sdlpath functor names x' else Inr (False, x')))"

definition ForDescriptorFiles ::
    "st_lib \<Rightarrow> (st_string \<Rightarrow> bytes list option) \<Rightarrow> st_string \<Rightarrow> (st_string \<Rightarrow> 'a \<Rightarrow> ds_error + bool \<times> 'a) \<Rightarrow> 'a \<Rightarrow> ds_error + bool \<times> 'a" where
  "ForDescriptorFiles T directory sdlpath functor x =
     (case directory sdlpath of
        None \<Rightarrow> Inl AssertionFailure
      | Some entries \<Rightarrow>
          (case select_sdl entries of
             Inl e \<Rightarrow> Inl e
           | Inr names \<Rightarrow> if names = [] then Inl AssertionFailure else for_files T sdlpath functor names x))"

definition populateSdl :: "'k auth_site \<Rightarrow> st_string \<Rightarrow> AuthFileInfo list \<Rightarrow> ds_error + bool \<times> AuthFileInfo list" where
  "populateSdl V path mfs =
     (case Option.bind (as_disk V (c_str path)) f_stat_size of
        None \<Rightarrow> Inl SystemError
      | Some st_size \<Rightarrow>
          Inr (True, AuthManifest_addFile (ascii ''SDL'' @ [92] @ as_after_last V 47 path) (of_nat st_size) mfs))"

text \<open>The result and the manifest of a file list; \<open>compare_i\<close> compares without regard to case.\<close>

definition manifest_name :: "'k auth_site \<Rightarrow> st_string \<Rightarrow> st_string \<Rightarrow> st_string" where
  "manifest_name V directory fileext = as_AuthRoot V @ directory @ [95] @ fileext @ ascii ''.list''"

definition list_files :: "'d auth_env \<Rightarrow> 'k auth_site \<Rightarrow> st_string \<Rightarrow> st_string \<Rightarrow> ds_error + u32 \<times> AuthFileInfo list" where
  "list_files E V directory fileext =
     (if ae_fold E directory = ae_fold E (ascii ''SDL'') \<and> ae_fold E fileext = ae_fold E (ascii ''sdl'') then
        (case ForDescriptorFiles (ae_st E) (as_directory V) (as_SdlPath V) (populateSdl V) [] of
           Inl SystemError \<Rightarrow> Inr (e_NetInternalError, [])
         | Inl e \<Rightarrow> Inl e
         | Inr (_, mfs) \<Rightarrow> Inr (e_NetSuccess, mfs))
      else AuthManifest_loadManifest (ae_st E) (as_disk V) (c_str (manifest_name V directory fileext)))"

definition cb_fileList :: "'d auth_env \<Rightarrow> 'k auth_site \<Rightarrow> nat \<Rightarrow> ('d, 'k, unit) wkact" where
  "cb_fileList E V c =
     (let S = as_ssl V; L = ae_lib E in
      abind (on_sock c (abind (recv_u32 S) (\<lambda>transId. abind (CryptRecvString S L) (\<lambda>directory.
         abind (CryptRecvString S L) (\<lambda>fileext. aret (transId, directory, fileext))))))
      (\<lambda>(transId, directory, fileext).
      if path_characters (ae_st E) directory \<or> path_characters (ae_st E) fileext then
        auth_send V c (write_u16 36 @ write_u32 transId @ write_u32 e_NetFileNotFound @ write_u32 0)
      else
        abind (alift (list_files E V directory fileext)) (\<lambda>(result, mfs).
        let head = write_u16 36 @ write_u32 transId @ write_u32 result in
        if result \<noteq> e_NetSuccess then auth_send V c (head @ write_u32 0)
        else
          (case AuthManifest_encodeToStream L mfs of (encoded, dataSize) \<Rightarrow>
             auth_send V c (patch_u32 (length head) dataSize (head @ write_u32 0 @ encoded))))))"

text \<open>
  Streams that are sent: the size throws when \<open>fstat\<close> fails; what \<open>fread\<close> does not fill of the array \<open>data\<close> on the stack is not
  initialised.
\<close>

definition stream_size :: "download \<Rightarrow> ds_error + u32" where
  "stream_size dl = (case dl_stat dl of None \<Rightarrow> Inl (FileIOException ''fstat'') | Some n \<Rightarrow> Inr (of_nat n))"

definition stream_read :: "ext_lib \<Rightarrow> nat \<Rightarrow> download \<Rightarrow> bytes \<times> download" where
  "stream_read L n dl =
     (let got = take n (drop (dl_pos dl) (dl_data dl))
      in (fill (map (uninit L) [0..<n]) got, dl\<lparr>dl_pos := dl_pos dl + length got\<rparr>))"

text \<open>
  A file that is not encrypted is encrypted as a whole. The loop is cut off when the end of the file was reached and the
  position is still below the reported size: it would read nothing for ever.
\<close>

fun encrypt_loop ::
    "nat \<Rightarrow> (nat \<Rightarrow> byte) \<Rightarrow> u32 \<Rightarrow> bytes \<Rightarrow> nat \<Rightarrow> BufferStream EncryptedStream \<Rightarrow> ds_error + BufferStream EncryptedStream" where
  "encrypt_loop fuel junk sz file pos encStream =
     (if \<not> of_nat pos < sz then Inr encStream
      else case fuel of
        0 \<Rightarrow> Inl NoFuel
      | Suc fuel' \<Rightarrow>
          let buf = take CHUNK_SIZE (drop pos file)
          in (case EncryptedStream_writeBytes (BufferStream_writeBytes junk) encStream buf of
                Inl e \<Rightarrow> Inl e
              | Inr encStream' \<Rightarrow> encrypt_loop fuel' junk sz file (pos + length buf) encStream'))"

declare encrypt_loop.simps [simp del]

definition encrypt_file :: "(nat \<Rightarrow> byte) \<Rightarrow> u32 list \<Rightarrow> u32 \<Rightarrow> bytes \<Rightarrow> ds_error + download" where
  "encrypt_file junk key sz file =
     (case EncryptedStream_new BufferStream_readBytes (BufferStream_writeBytes junk) True BufferStream_new e_write
             (Some e_xxtea) (Some key) of
        Inl e \<Rightarrow> Inl e
      | Inr encStream \<Rightarrow>
     (case encrypt_loop (Suc (length file div CHUNK_SIZE)) junk sz file 0 encStream of
        Inl e \<Rightarrow> Inl e
      | Inr encStream' \<Rightarrow>
     (case fst (EncryptedStream_close (BufferStream_writeBytes junk) BufferStream_rewind encStream') of
        None \<Rightarrow> Inl UndefinedBehaviour
      | Some bufStream \<Rightarrow>
          let bufStream = BufferStream_rewind bufStream
          in Inr \<lparr>dl_stat = Some (m_size bufStream), dl_data = BufferStream_contents bufStream, dl_pos = m_position bufStream\<rparr>)))"

definition open_download :: "ext_lib \<Rightarrow> u32 list \<Rightarrow> data_file \<Rightarrow> ds_error + download" where
  "open_download L key file =
     (let fileStream = \<lparr>dl_stat = f_stat_size file, dl_data = f_data file, dl_pos = 0\<rparr> in
      if magic_type (fill (map (uninit L) [0..<12]) (take 12 (f_data file))) \<noteq> None then Inr fileStream
      else case stream_size fileStream of
        Inl e \<Rightarrow> Inl e
      | Inr sz \<Rightarrow> encrypt_file (uninit L) key sz (f_data file))"

definition download_failed :: "u32 \<Rightarrow> bytes" where
  "download_failed transId =
     write_u16 37 @ write_u32 transId @ write_u32 e_NetFileNotFound @ write_u32 0 @ write_u32 0 @ write_u32 0"

text \<open>
  A chunk of a stream of which \<open>left\<close> octets are still to be sent: the message, and the stream when there is more.
\<close>

definition chunk_message :: "u32 \<Rightarrow> u32 \<Rightarrow> u32 \<Rightarrow> bytes \<Rightarrow> bytes" where
  "chunk_message transId sz pos data =
     write_u16 37 @ write_u32 transId @ write_u32 e_NetSuccess @ write_u32 sz @ write_u32 pos
     @ write_u32 (of_nat (length data)) @ data"

definition chunk_of :: "ext_lib \<Rightarrow> u32 \<Rightarrow> u32 \<Rightarrow> u32 \<Rightarrow> download \<Rightarrow> bytes \<times> download option" where
  "chunk_of L transId sz left' dl =
     (if unat left' > CHUNK_SIZE then
        (case stream_read L CHUNK_SIZE dl of (data, dl') \<Rightarrow>
           (chunk_message transId sz (of_nat (dl_pos dl)) data, Some dl'))
      else
        (case stream_read L (unat left') dl of (data, dl') \<Rightarrow>
           (chunk_message transId sz (of_nat (dl_pos dl)) data, None)))"

text \<open>
  The first chunk of a download, and the next one. What \<open>m_downloads\<close> holds for the transaction afterwards; a download
  that fits into one message is not put there, and leaves what was there before.
\<close>

definition first_chunk :: "ext_lib \<Rightarrow> u32 \<Rightarrow> download \<Rightarrow> (u32 \<times> download) list \<Rightarrow> ds_error + bytes \<times> (u32 \<times> download) list" where
  "first_chunk L transId dl downloads =
     (case stream_size dl of
        Inl e \<Rightarrow> Inl e
      | Inr sz \<Rightarrow>
          (case chunk_of L transId sz sz dl of
             (buffer, None) \<Rightarrow> Inr (buffer, downloads)
           | (buffer, Some dl') \<Rightarrow> Inr (buffer, AList.update transId dl' downloads)))"

definition next_chunk :: "ext_lib \<Rightarrow> u32 \<Rightarrow> (u32 \<times> download) list \<Rightarrow> ds_error + bytes option \<times> (u32 \<times> download) list" where
  "next_chunk L transId downloads =
     (case map_of downloads transId of
        None \<Rightarrow> Inr (None, downloads)
      | Some dl \<Rightarrow>
          (case stream_size dl of
             Inl e \<Rightarrow> Inl e
           | Inr sz \<Rightarrow>
               (case chunk_of L transId sz (sz - of_nat (dl_pos dl)) dl of
                  (buffer, None) \<Rightarrow> Inr (Some buffer, AList.delete transId downloads)
                | (buffer, Some dl') \<Rightarrow> Inr (Some buffer, AList.update transId dl' downloads))))"

definition auth_download_path :: "'d auth_env \<Rightarrow> 'k auth_site \<Rightarrow> st_string \<Rightarrow> st_string" where
  "auth_download_path E V filename =
     (let slashPos = as_find_last V 47 filename in
      if slashPos \<noteq> -1 \<and> ae_fold E (as_left V slashPos filename) = ae_fold E (ascii ''SDL'')
         \<and> ae_fold E (as_after_last V 46 filename) = ae_fold E (ascii ''sdl'')
      then as_SdlPath V @ as_substr V slashPos filename
      else as_AuthRoot V @ filename)"

definition set_downloads :: "nat \<Rightarrow> (u32 \<times> download) list \<Rightarrow> ('d, 'k, unit) wkact" where
  "set_downloads c downloads = on_auth (set_client c (\<lambda>k. k\<lparr>ac_downloads := downloads\<rparr>))"

definition auth_downloadStart :: "'d auth_env \<Rightarrow> 'k auth_site \<Rightarrow> nat \<Rightarrow> ('d, 'k, unit) wkact" where
  "auth_downloadStart E V c =
     (let S = as_ssl V; L = ae_lib E in
      abind (on_sock c (abind (recv_u32 S) (\<lambda>transId. abind (CryptRecvString S L) (\<lambda>filename.
         aret (transId, st_replace (ae_st E) [92] [47] filename)))))
      (\<lambda>(transId, filename).
      if st_find (ae_st E) [46, 46] filename \<noteq> -1 then auth_send V c (download_failed transId)
      else case as_disk V (c_str (auth_download_path E V filename)) of
        None \<Rightarrow> auth_send V c (download_failed transId)
      | Some file \<Rightarrow>
          abind (alift (open_download L (as_DroidKey V) file)) (\<lambda>dl.
          abind (on_auth (the_client c)) (\<lambda>client.
          abind (alift (first_chunk L transId dl (ac_downloads client))) (\<lambda>(buffer, downloads).
          athen (set_downloads c downloads) (auth_send V c buffer))))))"

definition auth_downloadNext :: "'d auth_env \<Rightarrow> 'k auth_site \<Rightarrow> nat \<Rightarrow> ('d, 'k, unit) wkact" where
  "auth_downloadNext E V c =
     abind (on_sock c (recv_u32 (as_ssl V))) (\<lambda>transId.
     abind (on_auth (the_client c)) (\<lambda>client.
     abind (alift (next_chunk (ae_lib E) transId (ac_downloads client))) (\<lambda>(reply, downloads).
     case reply of
       None \<Rightarrow> aret ()
     | Some buffer \<Rightarrow> athen (set_downloads c downloads) (auth_send V c buffer))))"

section \<open>Scores\<close>

definition cb_scoreCreate :: "'d auth_env \<Rightarrow> 'k auth_site \<Rightarrow> nat \<Rightarrow> ('d, 'k, unit) wkact" where
  "cb_scoreCreate E V c =
     (let S = as_ssl V; L = ae_lib E in
      abind (on_sock c (abind (recv_u32 S) (\<lambda>transId. abind (recv_u32 S) (\<lambda>owner. abind (CryptRecvString S L) (\<lambda>name.
         abind (recv_u32 S) (\<lambda>type'. abind (recv_u32 S) (\<lambda>points.
         aret (transId, \<lparr>cs_scoreId = junk_u32 L 0, cs_owner = owner, cs_name = name, cs_type = type', cs_points = points\<rparr>))))))))
      (\<lambda>(transId, info).
      abind (worker_ask E c (e_AuthCreateScore info)) (\<lambda>(result, body).
      let head = write_u16 41 @ write_u32 transId @ write_u32 result in
      if result \<noteq> e_NetSuccess then auth_send V c (head @ write_u32 0 @ write_u32 0)
      else
        let msg = (case body of e_AuthCreateScore msg \<Rightarrow> msg | _ \<Rightarrow> info) in
        abind (on_auth (time_now E)) (\<lambda>created. auth_send V c (head @ write_u32 (cs_scoreId msg) @ write_u32 created)))))"

text \<open>The name is written after each score, with a terminator; \<open>BaseStride\<close> is \<open>0x18\<close>.\<close>

definition score_bytes :: "u16 list \<Rightarrow> GameScore \<Rightarrow> bytes" where
  "score_bytes name score =
     write_u32 (sc_scoreId score) @ write_u32 (sc_owner score) @ write_u32 (sc_createTime score) @ write_u32 (sc_type score)
     @ write_u32 (sc_points score) @ write_u32 (of_nat ((length name + 1) * 2)) @ u16s_bytes name @ write_u16 0"

definition write_scoreBuffer :: "ext_lib \<Rightarrow> Auth_GetScores \<Rightarrow> u32 \<Rightarrow> bytes" where
  "write_scoreBuffer L msg result =
     write_u32 result
     @ (if result \<noteq> e_NetSuccess then write_u32 0 @ write_u32 0
        else
          let name = to_utf16 L (gt_name msg);
              bufsz = of_nat (length (gt_scores msg) * (0x18 + (length name + 1) * 2))
          in write_u32 (of_nat (length (gt_scores msg))) @ write_u32 bufsz @ concat (map (score_bytes name) (gt_scores msg)))"

definition cb_scoreGetScores :: "'d auth_env \<Rightarrow> 'k auth_site \<Rightarrow> nat \<Rightarrow> ('d, 'k, unit) wkact" where
  "cb_scoreGetScores E V c =
     (let S = as_ssl V; L = ae_lib E in
      abind (on_sock c (abind (recv_u32 S) (\<lambda>transId. abind (recv_u32 S) (\<lambda>owner. abind (CryptRecvString S L) (\<lambda>name.
         aret (transId, \<lparr>gt_owner = owner, gt_name = name, gt_scores = []\<rparr>))))))
      (\<lambda>(transId, info).
      abind (worker_ask E c (e_AuthGetScores info)) (\<lambda>(result, body).
      let msg = (case body of e_AuthGetScores msg \<Rightarrow> msg | _ \<Rightarrow> info) in
      auth_send V c (write_u16 43 @ write_u32 transId @ write_scoreBuffer L msg result))))"

definition cb_scoreAddPoints :: "'d auth_env \<Rightarrow> 'k auth_site \<Rightarrow> nat \<Rightarrow> ('d, 'k, unit) wkact" where
  "cb_scoreAddPoints E V c =
     (let S = as_ssl V in
      plain_request E V c 44
        (abind (recv_u32 S) (\<lambda>scoreId. abind (recv_u32 S) (\<lambda>points.
         aret (e_AuthAddScorePoints \<lparr>us_scoreId = scoreId, us_points = points\<rparr>)))))"

text \<open>The reply has the number of \<open>e_AuthToCli_ScoreAddPointsReply\<close>.\<close>

definition cb_scoreTransferPoints :: "'d auth_env \<Rightarrow> 'k auth_site \<Rightarrow> nat \<Rightarrow> ('d, 'k, unit) wkact" where
  "cb_scoreTransferPoints E V c =
     (let S = as_ssl V in
      plain_request E V c 44
        (abind (recv_u32 S) (\<lambda>src. abind (recv_u32 S) (\<lambda>dst. abind (recv_u32 S) (\<lambda>points.
         aret (e_AuthTransferScorePoints \<lparr>ts_srcScoreId = src, ts_dstScoreId = dst, ts_points = points\<rparr>))))))"

definition cb_scoreSetPoints :: "'d auth_env \<Rightarrow> 'k auth_site \<Rightarrow> nat \<Rightarrow> ('d, 'k, unit) wkact" where
  "cb_scoreSetPoints E V c =
     (let S = as_ssl V in
      plain_request E V c 46
        (abind (recv_u32 S) (\<lambda>scoreId. abind (recv_u32 S) (\<lambda>points.
         aret (e_AuthSetScorePoints \<lparr>us_scoreId = scoreId, us_points = points\<rparr>)))))"

definition cb_scoreGetHighScores :: "'d auth_env \<Rightarrow> 'k auth_site \<Rightarrow> nat \<Rightarrow> ('d, 'k, unit) wkact" where
  "cb_scoreGetHighScores E V c =
     (let S = as_ssl V; L = ae_lib E in
      abind (on_sock c (abind (recv_u32 S) (\<lambda>transId. abind (recv_u32 S) (\<lambda>owner. abind (recv_u32 S) (\<lambda>maxScores.
         abind (CryptRecvString S L) (\<lambda>name. aret (transId, maxScores, \<lparr>gt_owner = owner, gt_name = name, gt_scores = []\<rparr>)))))))
      (\<lambda>(transId, maxScores, info).
      abind (worker_ask E c (e_AuthGetHighScores info maxScores)) (\<lambda>(result, body).
      let msg = (case body of e_AuthGetHighScores msg _ \<Rightarrow> msg | _ \<Rightarrow> info) in
      auth_send V c (write_u16 0x1001 @ write_u32 transId @ write_scoreBuffer L msg result))))"

section \<open>The thread\<close>

text \<open>The numbers of the messages; those that are not supported are treated like those that do not exist.\<close>

definition auth_sockRead :: "'d auth_env \<Rightarrow> 'k auth_site \<Rightarrow> nat \<Rightarrow> ('d, 'k, unit) wkact" where
  "auth_sockRead E V c =
     abind (on_sock c (CryptRecvValue (as_ssl V) 2)) (\<lambda>msgId :: u16.
     if msgId = 0 then auth_ping V c
     else if msgId = 1 then cb_register V c
     else if msgId = 3 then cb_login E V c
     else if msgId = 6 then cb_setPlayer E V c
     else if msgId = 17 then cb_playerCreate E V c
     else if msgId = 13 then cb_playerDelete E V c
     else if msgId = 25 then cb_nodeCreate E V c
     else if msgId = 26 then cb_nodeFetch E V c
     else if msgId = 27 then cb_nodeUpdate E V c
     else if msgId = 29 then cb_nodeRef E V c
     else if msgId = 30 then cb_nodeUnref E V c
     else if msgId = 31 then cb_nodeTree E V c
     else if msgId = 32 then cb_ageCreate E V c
     else if msgId = 33 then cb_nodeFind E V c
     else if msgId = 35 then cb_nodeSend E V c
     else if msgId = 36 then cb_ageRequest E V c False
     else if msgId = 0x1000 then cb_ageRequest E V c True
     else if msgId = 37 then cb_fileList E V c
     else if msgId = 38 then auth_downloadStart E V c
     else if msgId = 39 then auth_downloadNext E V c
     else if msgId = 43 \<or> msgId = 44 then abind (on_sock c (CryptRecvString (as_ssl V) (ae_lib E))) (\<lambda>_. aret ())
     else if msgId = 45 then aret ()
     else if msgId = 46 then cb_scoreCreate E V c
     else if msgId = 48 then cb_scoreGetScores E V c
     else if msgId = 49 then cb_scoreAddPoints E V c
     else if msgId = 50 then cb_scoreTransferPoints E V c
     else if msgId = 51 then cb_scoreSetPoints E V c
     else if msgId = 0x1001 then cb_scoreGetHighScores E V c
     else if msgId = 41 then cb_getPublicAges E V c
     else if msgId = 42 then cb_setAgePublic E V c
     else athen (on_sock c CloseSock) (afail (Thrown SockHup)))"

definition auth_broadcast :: "'k auth_site \<Rightarrow> nat \<Rightarrow> ('d, 'k, unit) wkact" where
  "auth_broadcast V c =
     abind (on_auth (the_client c)) (\<lambda>k.
     case ac_broadcast k of
       [] \<Rightarrow> afail Blocked
     | (messageType, msg) # rest \<Rightarrow>
         athen (on_auth (set_client c (\<lambda>k. k\<lparr>ac_broadcast := rest\<rparr>)))
               (auth_send V c (write_u16 (ucast messageType) @ msg)))"

fun auth_loop :: "'d auth_env \<Rightarrow> 'k auth_site \<Rightarrow> nat \<Rightarrow> poll_result list \<Rightarrow> ('d, 'k, unit) wkact" where
  "auth_loop E V c (Poll_ready sock broadcast # polls) =
     athen (awhen sock (auth_sockRead E V c)) (athen (awhen broadcast (auth_broadcast V c)) (auth_loop E V c polls))"
| "auth_loop E V c _ = afail (Thrown SockHup)"

definition AuthServer_Private_new :: AuthClient where
  "AuthServer_Private_new =
     \<lparr>ac_channel = [], ac_broadcast = [], ac_closed = False, ac_serverChallenge = 0, ac_acctUuid = Uuid_null,
      ac_acctFlags = 0, ac_player = PlayerInfo_new, ac_ageNodeId = 0, ac_downloads = []\<rparr>"

definition wk_authWorker :: "'d auth_env \<Rightarrow> 'k auth_site \<Rightarrow> nat \<Rightarrow> poll_result list \<Rightarrow> ('d, 'k, unit) wkact" where
  "wk_authWorker E V c polls =
     aseq
       [on_auth (set_client c (\<lambda>_. AuthServer_Private_new)),
        amod (\<lambda>s. s\<lparr>aww_conn := (aww_conn s)\<lparr>c_crypt := None\<rparr>\<rparr>),
        acatch
          (aseq
            [on_sock c (auth_init (as_keys V)),
             on_auth (set_client c (\<lambda>k. k\<lparr>ac_player := (ac_player k)\<lparr>pi_playerId := 0\<rparr>\<rparr>)),
             on_auth (amod (\<lambda>w. w\<lparr>aw_clients := aw_clients w @ [c]\<rparr>)),
             auth_loop E V c polls])
          (aret ()),
        acatch (abind (worker_ask E c e_AuthDisconnect) (\<lambda>_. aret ())) (aret ()),
        on_auth (amod (\<lambda>w. w\<lparr>aw_clients := removeAll c (aw_clients w)\<rparr>)),
        on_auth (set_client c (\<lambda>k. k\<lparr>ac_broadcast := []\<rparr>)),
        on_sock c CloseSock]"

section \<open>The interface to the other servers and the console\<close>

text \<open>The callers pass the addresses of their message and of their client object, both on their stack.\<close>

definition AuthServer_Init :: "nat \<Rightarrow> bool \<Rightarrow> ('d, unit) aact" where
  "AuthServer_Init p restrictLogins = awhen restrictLogins (put_auth p None (e_AuthRestrictLogins False))"

definition AuthServer_Shutdown :: "nat \<Rightarrow> ('d, unit) aact" where
  "AuthServer_Shutdown p = put_auth p None e_AuthShutdown"

definition AuthServer_RestrictLogins :: "'d auth_env \<Rightarrow> nat \<Rightarrow> nat \<Rightarrow> ('d, bool) aact" where
  "AuthServer_RestrictLogins E p c =
     acatch
       (abind (auth_ask E p c (e_AuthRestrictLogins (uninit (ae_lib E) 0 \<noteq> 0))) (\<lambda>(_, body).
        aret (case body of e_AuthRestrictLogins status \<Rightarrow> status | _ \<Rightarrow> False)))
       (aret False)"

definition succeeds :: "'d auth_env \<Rightarrow> nat \<Rightarrow> nat \<Rightarrow> auth_request \<Rightarrow> ('d, bool) aact" where
  "succeeds E p c body =
     acatch (abind (auth_ask E p c body) (\<lambda>(result, _). aret (result = e_NetSuccess))) (aret False)"

definition AuthServer_AddAcct :: "'d auth_env \<Rightarrow> nat \<Rightarrow> nat \<Rightarrow> st_string \<Rightarrow> st_string \<Rightarrow> ('d, bool) aact" where
  "AuthServer_AddAcct E p c acctName password = succeeds E p c (e_AuthAddAcct acctName password)"

definition AuthServer_AcctFlags :: "'d auth_env \<Rightarrow> nat \<Rightarrow> nat \<Rightarrow> st_string \<Rightarrow> u32 \<Rightarrow> ('d, u32) aact" where
  "AuthServer_AcctFlags E p c acctName flags =
     acatch
       (abind (auth_ask E p c (e_AuthAcctFlags \<lparr>af_acctName = acctName, af_flags = flags\<rparr>)) (\<lambda>(result, body).
        aret (if result = e_NetSuccess then (case body of e_AuthAcctFlags msg \<Rightarrow> af_flags msg | _ \<Rightarrow> flags) else - 1)))
       (aret (- 1))"

definition AuthServer_AddAllPlayersFolder :: "'d auth_env \<Rightarrow> nat \<Rightarrow> nat \<Rightarrow> u32 \<Rightarrow> ('d, bool) aact" where
  "AuthServer_AddAllPlayersFolder E p c player = succeeds E p c (e_AuthAddAllPlayers player)"

definition AuthServer_ChangeGlobalSDL :: "'d auth_env \<Rightarrow> nat \<Rightarrow> nat \<Rightarrow> st_string \<Rightarrow> st_string \<Rightarrow> st_string \<Rightarrow> ('d, bool) aact" where
  "AuthServer_ChangeGlobalSDL E p c ageName var val =
     succeeds E p c (e_AuthUpdateGlobalSDL \<lparr>ug_ageFilename = ageName, ug_variable = var, ug_value = val\<rparr>)"

end
