(* ===== verification/Auth_Sessions.thy ===== *)
theory Auth_Sessions
  imports Auth_Server
begin

unbundle bit_operations_syntax

text \<open>
  What the workers of the authentication server promise to their clients: a request that waits for the daemon gets the result
  of its own message, and a file that is downloaded arrives as a whole and encrypted.
\<close>

section \<open>Objects and the queue\<close>












section \<open>Waiting for the daemon\<close>









section \<open>Downloads\<close>

text \<open>The loop writes the file in chunks, and has enough fuel for a file whose size is the reported one.\<close>

lemma encrypt_loop_chunks:
  assumes "length file < 2 ^ 32" and "length (chunks (drop pos file)) \<le> fuel" and "pos \<le> length file"
  shows "encrypt_loop fuel junk (of_nat (length file)) file pos enc =
    es_write_all (BufferStream_writeBytes junk) enc (chunks (drop pos file))"
  using assms
proof (induction fuel arbitrary: pos enc)
  case (Suc fuel)
  have less: "(of_nat pos :: u32) < of_nat (length file) \<longleftrightarrow> pos < length file"
    using Suc.prems(1,3) by (simp add: word_less_nat_alt unsigned_of_nat take_bit_nat_eq_self)
  show ?case
  proof (cases "pos < length file")
    case True
    let ?buf = "take CHUNK_SIZE (drop pos file)"
    have step: "chunks (drop pos file) = ?buf # chunks (drop (pos + length ?buf) file)"
      using True chunks_step [of "drop pos file"] by (cases "CHUNK_SIZE \<le> length file - pos") (simp_all add: min_def add.commute)
    then have "encrypt_loop fuel junk (of_nat (length file)) file (pos + length ?buf) enc' =
        es_write_all (BufferStream_writeBytes junk) enc' (chunks (drop (pos + length ?buf) file))" for enc'
      using Suc True by (intro Suc.IH) auto
    then show ?thesis
      using True less step by (simp add: encrypt_loop.simps [of "Suc fuel"] Let_def split: sum.split)
  qed (use less Suc.prems in \<open>simp add: encrypt_loop.simps [of "Suc fuel"]\<close>)
next
  case 0
  then have "chunks (drop pos file) = []" by simp
  then have "drop pos file = []" using concat_chunks [of "drop pos file"] by simp
  then show ?case using 0 by (simp add: encrypt_loop.simps [of 0])
qed

lemma enough_rounds: "length (chunks file) \<le> Suc (length file div CHUNK_SIZE)"
  unfolding length_chunks using mod_less_divisor [of CHUNK_SIZE "length file"] div_mult_mod_eq [of "length file" CHUNK_SIZE]
  by (simp add: CHUNK_SIZE_def)

text \<open>A file that is not encrypted is sent encrypted with the key of the shard.\<close>

lemma encrypt_file_contents:
  assumes "length file < 2 ^ 32"
  shows "encrypt_file junk key (of_nat (length file)) file =
    Inr \<lparr>dl_stat = Some (length (enc_file e_xxtea key file)), dl_data = enc_file e_xxtea key file, dl_pos = 0\<rparr>"
proof -
  obtain es where es: "EncryptedStream_new BufferStream_readBytes (BufferStream_writeBytes junk) True BufferStream_new e_write
      (Some e_xxtea) (Some key) = Inr es"
    "es_written BufferStream_contents m_position BufferStream_inv [] es" "es_type es = e_xxtea" "es_key es = key"
    using open_write_ok [of BufferStream_readBytes junk e_xxtea "Some key"] by auto
  obtain es' where es': "es_write_all (BufferStream_writeBytes junk) es (chunks file) = Inr es'"
    "es_written BufferStream_contents m_position BufferStream_inv file es'" "es_type es' = e_xxtea" "es_key es' = key"
    using bufrw.write_all_ok [OF es(2), of "chunks file"] assms es(3,4) by (auto simp: concat_chunks)
  obtain base where base: "fst (EncryptedStream_close (BufferStream_writeBytes junk) BufferStream_rewind es') = Some base"
    "BufferStream_inv base" "BufferStream_contents base = enc_file e_xxtea key file"
    using bufrw.close_ok [OF es'(2) assms] es'(3,4) by auto
  have "encrypt_loop (Suc (length file div CHUNK_SIZE)) junk (of_nat (length file)) file 0 es = Inr es'"
    using encrypt_loop_chunks [OF assms, of 0 "Suc (length file div CHUNK_SIZE)" junk es] enough_rounds es'(1) by simp
  moreover have "m_size (BufferStream_rewind base) = length (BufferStream_contents (BufferStream_rewind base))"
    using BufferStream_rewind_facts(3) [OF base(2)] by (simp add: BufferStream_contents_def BufferStream_inv_def)
  ultimately show ?thesis
    using es(1) base BufferStream_rewind_facts [OF base(2)] by (simp add: encrypt_file_def)
qed

end
