(* ===== verification/Spec2Isabelle.thy ===== *)
theory Spec2Isabelle
  imports Encrypted_Stream Net_Safety Sdl_Sync Sdl_Roundtrip Sdl_Text Game_State Msg_Channel Gate_Keeper Game_Server
    Vault_Nodes Auth_Sessions
begin

text \<open>
  \<^bold>\<open>dirtsand, a server for Myst Online: Uru Live.\<close> The program is one process with five servers, each a thread per
  client: the gate keeper tells a client where the others are, the file server sends game files, the
  authentication server logs players in and keeps the vault, and the game server runs one host per instance of an
  age, which relays messages between the players of the age and keeps its state. The servers talk to clients over sockets
  (mostly encrypted) and to each other over message channels; what they exchange are objects of the Plasma engine, which
  a factory reads and writes, and states of the SDL, whose layout is described in text files.

  \<^bold>\<open>Theories and sources.\<close> The theories build on each other in this order; a definition has the name of the function or class it
  models where that is possible (\<open>Class_method\<close> for a method).

  \<^item> \<open>Prelude\<close>: machine words, the exceptions of \<open>errors.h\<close> and \<open>streams.h\<close>, readers over unread octets, and the interfaces
    \<open>codec\<close>, \<open>exact_codec\<close> and \<open>partial_codec\<close> that every wire format is shown to satisfy.
  \<^item> \<open>Streams\<close> and \<open>Encrypted_Stream\<close>: \<open>streams.h\<close>, \<open>streams.cpp\<close>. A stream is its unread octets for the typed operations;
    the RAM, blob and encrypting streams are records with their positions and buffers. The interfaces \<open>input_stream\<close>, \<open>output_stream\<close>
    and \<open>rewindable\<close> say what the typed operations need of a stream.
  \<^item> \<open>Wire_Types\<close> and \<open>Keys\<close>: \<open>Types/*\<close> and \<open>PlasMOUL/Key.*\<close>.
  \<^item> \<open>Messages\<close>, \<open>Game_Data\<close>, \<open>Net_Messages\<close>, \<open>Objects\<close>, \<open>Creatables\<close>, \<open>Factory\<close>: \<open>PlasMOUL/*\<close>, one record and one pair
    of \<open>read\<close> and \<open>write\<close> per class, and the factory that dispatches on the class number.
  \<^item> \<open>Net_Safety\<close>: \<open>makeSafeForNet\<close> of every class, against a specification of what may be forwarded.
  \<^item> \<open>Descriptors\<close>, \<open>Sdl_Parser\<close>, \<open>Sdl_Grammar\<close>, \<open>Sdl_Text\<close>: \<open>SDL/DescriptorDb.*\<close> and \<open>SDL/SdlParser.*\<close>. \<open>Sdl_State\<close>,
    \<open>Sdl_Typing\<close>, \<open>Sdl_Roundtrip\<close>, \<open>Sdl_Sync\<close>: \<open>SDL/StateInfo.*\<close>.
  \<^item> \<open>Actions\<close>: state passing with exceptions, and \<open>frame\<close>, the interface for what actions leave alone.
  \<^item> \<open>Msg_Channel\<close>, \<open>Sockets\<close>, \<open>Handshake\<close>: \<open>NetIO/MsgChannel.*\<close>, \<open>NetIO/SockIO.*\<close>, \<open>NetIO/CryptIO.*\<close>. A connection is the list of what
    the calls of the kernel will do; \<open>receiver\<close> is the interface of what is received, with and without encryption.
  \<^item> \<open>Gate_Keeper\<close>: \<open>GateKeeper/GateServ.cpp\<close>. \<open>Manifests\<close> and \<open>File_Server\<close>: \<open>FileServ/*\<close> and \<open>AuthServ/AuthManifest.*\<close>.
  \<^item> \<open>Game_Host\<close>, \<open>Game_Frames\<close>, \<open>Game_Session\<close>, \<open>Game_Locks\<close>, \<open>Game_Routing\<close>, \<open>Game_State\<close>, \<open>Game_Server\<close>:
    \<open>GameServ/GameHost.cpp\<close> and \<open>GameServ/GameServer.cpp\<close>. The objects that threads share live in a heap (\<open>world\<close>).
  \<^item> \<open>Vault_Nodes\<close>: \<open>AuthServ/VaultTypes.*\<close>. \<open>Auth_State\<close>, \<open>Vault_Store\<close>, \<open>Vault_Trees\<close>: the messages and the state of the
    authentication server, \<open>AuthServ/AuthClient.h\<close>, the access to the database, \<open>db/pqaccess.h\<close>, and the vault,
    \<open>AuthServ/AuthVault.cpp\<close>, with the text of every statement. \<open>Auth_Daemon\<close>: \<open>AuthServ/AuthDaemon.cpp\<close>, one definition per
    handler. \<open>Vault_Roundtrip\<close>: what statements store is read back. \<open>Auth_Frames\<close>, \<open>Auth_Replies\<close>, \<open>Auth_Access\<close>,
    \<open>Auth_Players\<close>: what handlers leave alone (\<open>vault_frame\<close>, \<open>daemon_frame\<close>, \<open>loop_frame\<close>), how often they reply, who is logged
    in, and who plays. \<open>Auth_Server\<close>: \<open>AuthServ/AuthServer.cpp\<close>, the worker of a client with one definition per
    request, and the functions the console calls. \<open>Auth_Sessions\<close>: the worker and the daemon together, and the encryption of
    the files that are downloaded.

  \<^bold>\<open>What is shown.\<close> Formats: what is written is read back, for value types, keys, every object the factory knows, SDL states
  and vault nodes, and for encrypted streams and connections whatever the sizes of the pieces. The parser of descriptor files returns for
  every file and implements its grammar; states have the type their descriptor declares, and merging them does
  not depend on the order. Safety: no message that other players must not send is forwarded, at any depth;
  locks of objects exclude each other; the file server opens nothing outside its root. Sessions: the key exchange agrees, every
  request to the gate keeper, the file server and the game host is answered once and in order, players that join a host whose
  thread runs are let in, and a host whose thread does not run answers nobody. The authentication daemon gives a client an account only for the right password, answers every message once with
  two exceptions that are shown, gives a worker that waits the answer to its own request, and lets no two clients play the same player, however the threads are interleaved; the
  statements for vault nodes fit their buffers and a stored node is fetched again. Channels deliver in order under every interleaving of their threads. Where the code does not do
  what it means to, a theorem shows that instead: an upgraded state is saved without its values, a player can join a host that
  is about to delete itself, a short header writes past a buffer, a malformed message calls through a null pointer, a
  player that cannot be made is answered twice, a banned account stays in the client that logged in with it.

  \<^bold>\<open>Bounds and fuel.\<close> Integers have the width they have in the sources. Reading nested objects has a nesting
  depth as fuel, and an object is read back given more fuel than it is deep. The endless loops of the servers are cut off after a
  number of rounds; the theorems hold for every number above the number of requests. The loop over \<open>sendfile\<close> has at most one call
  per octet of a chunk, since every call sends at least one. A worker that waits for a daemon runs as many rounds of it as there are messages queued,
  its own being the last of them. The remaining loops terminate by a measure. Running out of fuel is an
  error of its own, \<open>NoFuel\<close>, and no exception handler catches it.

  \<^bold>\<open>What is outside.\<close> The libraries \<open>string_theory\<close>, zlib and OpenSSL, the clock and the database are parameters; the hypotheses on them
  (\<open>stream_cipher\<close>, \<open>bn_documented\<close>, \<open>find_documented\<close>, \<open>hex_format\<close>, \<open>formats_ok\<close>) are what their documentation says, and the witnesses
  instantiate them. Allocation does not fail, and uninitialised memory is an arbitrary parameter. Reading or writing outside an
  object is the error \<open>UndefinedBehaviour\<close>.

  \<^bold>\<open>Not modelled.\<close> The status page and the accept loops (\<open>NetIO/Lobby.*\<close>, \<open>NetIO/Status.*\<close>), the configuration file and the console
  (\<open>settings.cpp\<close>, \<open>dsmain.cpp\<close>), the start and the end of threads, what is printed, and what a statement in SQL does: the
  database maps a statement and its parameters to a result and a new database, and nothing is assumed of it. Of
  \<open>AuthServer.cpp\<close> the list of clients for the console and the build for old clients (\<open>DS_OU_COMPATIBLE\<close>) are left out.
\<close>

end
